(* ===== verification/Mega_Prelude.thy ===== *)
theory Mega_Prelude
  imports Main "HOL-Library.Word" "HOL-Library.List_Lexorder" "HOL-Library.Char_ord"
begin

text \<open>
  Shared ground of the development: the machine integers of the sources, faults as values,
  sequencing of computations that may throw, and the C++ standard containers the sources use
  (\<open>std::map\<close>, \<open>std::multimap\<close>), as lists ordered by key so that iteration order is the code's.

  \<^item> \<open>Rte\<close> is a \<open>std::runtime_error\<close> raised by \<open>THROW_RTE\<close>, \<open>VERIFY_RTE\<close> and
    \<open>VERIFY_RTE_MSG\<close>, with the message of the source.
  \<^item> \<open>Ub\<close> is undefined behaviour of C++ (use of an erased iterator, a vector read out of
    range): nothing is claimed of an execution after it.
\<close>

named_theorems frame_intros \<open>facts that a step leaves the scheduling lists alone\<close>
named_theorems node_simps \<open>unfolding facts of the primitives of a node\<close>

type_synonym u32 = "32 word"

datatype fault = Rte string | Ub string

type_synonym 'a result = "fault + 'a"

definition andThen :: "'e + 'a \<Rightarrow> ('a \<Rightarrow> 'e + 'b) \<Rightarrow> 'e + 'b" where
  "andThen r f = (case r of Inl e \<Rightarrow> Inl e | Inr x \<Rightarrow> f x)"

lemma andThen_Inl [simp]: "andThen (Inl e) f = Inl e"
  and andThen_Inr [simp]: "andThen (Inr x) f = f x"
  by (simp_all add: andThen_def)

lemma andThen_eq_Inr: "andThen r f = Inr y \<longleftrightarrow> (\<exists>x. r = Inr x \<and> f x = Inr y)"
  by (cases r) auto

lemma andThen_InrE:
  assumes "andThen r f = Inr y"
  obtains x where "r = Inr x" and "f x = Inr y"
  using assms by (auto simp: andThen_eq_Inr)

lemma andThen_assoc: "andThen (andThen r f) g = andThen r (\<lambda>x. andThen (f x) g)"
  by (cases r) auto

text \<open>\<open>VERIFY_RTE_MSG\<close>: continue only when the condition holds.\<close>

definition verify_rte :: "bool \<Rightarrow> string \<Rightarrow> unit result" where
  "verify_rte b msg = (if b then Inr () else Inl (Rte msg))"

lemma verify_rte_simps [simp]:
  "verify_rte True msg = Inr ()"
  "verify_rte False msg = Inl (Rte msg)"
  by (simp_all add: verify_rte_def)

lemma verify_rte_eq_Inr [simp]: "verify_rte b msg = Inr u \<longleftrightarrow> b"
  by (simp add: verify_rte_def)

section \<open>Ordered containers\<close>

text \<open>
  \<open>std::map::insert\<close> keeps an entry that is already there, \<open>operator[]\<close> followed by an
  assignment replaces it; \<open>std::multimap::insert\<close> puts the new entry after those of an equal key.
\<close>

fun smap_insert :: "'k::linorder \<Rightarrow> 'v \<Rightarrow> ('k \<times> 'v) list \<Rightarrow> ('k \<times> 'v) list" where
  "smap_insert k v [] = [(k, v)]"
| "smap_insert k v ((k', v') # m) =
     (if k < k' then (k, v) # (k', v') # m
      else if k = k' then (k', v') # m
      else (k', v') # smap_insert k v m)"

fun smap_assign :: "'k::linorder \<Rightarrow> 'v \<Rightarrow> ('k \<times> 'v) list \<Rightarrow> ('k \<times> 'v) list" where
  "smap_assign k v [] = [(k, v)]"
| "smap_assign k v ((k', v') # m) =
     (if k < k' then (k, v) # (k', v') # m
      else if k = k' then (k, v) # m
      else (k', v') # smap_assign k v m)"

fun mmap_insert :: "'k::linorder \<Rightarrow> 'v \<Rightarrow> ('k \<times> 'v) list \<Rightarrow> ('k \<times> 'v) list" where
  "mmap_insert k v [] = [(k, v)]"
| "mmap_insert k v ((k', v') # m) =
     (if k < k' then (k, v) # (k', v') # m else (k', v') # mmap_insert k v m)"

definition smap_erase :: "'k \<Rightarrow> ('k \<times> 'v) list \<Rightarrow> ('k \<times> 'v) list" where
  "smap_erase k m = filter (\<lambda>e. fst e \<noteq> k) m"

definition smap_wf :: "('k::linorder \<times> 'v) list \<Rightarrow> bool" where
  "smap_wf m \<longleftrightarrow> sorted_wrt (<) (map fst m)"

definition mmap_wf :: "('k::linorder \<times> 'v) list \<Rightarrow> bool" where
  "mmap_wf m \<longleftrightarrow> sorted (map fst m)"

lemma smap_wf_distinct: "smap_wf m \<Longrightarrow> distinct (map fst m)"
  by (simp add: smap_wf_def strict_sorted_iff)

lemma smap_wf_Cons: "smap_wf (e # m) \<longleftrightarrow> (\<forall>e' \<in> set m. fst e < fst e') \<and> smap_wf m"
  by (auto simp: smap_wf_def)

lemma smap_wf_Nil [simp]: "smap_wf []"
  by (simp add: smap_wf_def)

lemma fst_smap_insert: "fst ` set (smap_insert k v m) = insert k (fst ` set m)"
  by (induction k v m rule: smap_insert.induct) auto

lemma fst_smap_assign: "fst ` set (smap_assign k v m) = insert k (fst ` set m)"
  by (induction k v m rule: smap_assign.induct) auto

lemma map_of_None_less: "\<forall>e \<in> set m. (k :: 'k :: linorder) < fst e \<Longrightarrow> map_of m k = None"
  by (induction m) auto

lemma smap_insert_find:
  "smap_wf m \<Longrightarrow> map_of (smap_insert k v m) = (if k \<in> fst ` set m then map_of m else (map_of m)(k \<mapsto> v))"
proof (induction k v m rule: smap_insert.induct)
  case (1 k v)
  then show ?case by simp
next
  case (2 k v k' v' m)
  have wf: "smap_wf m" and lt: "\<forall>e \<in> set m. k' < fst e"
    using "2.prems" by (auto simp: smap_wf_Cons)
  consider "k < k'" | "k = k'" | "k' < k" by fastforce
  then show ?case
  proof cases
    case 1
    then have "k \<notin> fst ` set m" using lt by fastforce
    with 1 show ?thesis by auto
  next
    case 2
    then show ?thesis by simp
  next
    case 3
    with "2.IH" wf show ?thesis by (auto simp: fun_eq_iff)
  qed
qed

lemma smap_insert_wf: "smap_wf m \<Longrightarrow> smap_wf (smap_insert k v m)"
proof (induction k v m rule: smap_insert.induct)
  case (2 k v k' v' m)
  have "\<And>e. e \<in> set (smap_insert k v m) \<Longrightarrow> fst e = k \<or> fst e \<in> fst ` set m"
    using fst_smap_insert [of k v m] by blast
  then have "k' < k \<Longrightarrow> \<forall>e \<in> set (smap_insert k v m). k' < fst e"
    using "2.prems" by (fastforce simp: smap_wf_Cons)
  with 2 show ?case by (auto simp: smap_wf_Cons)
qed (simp add: smap_wf_Cons)

lemma smap_assign_find:
  "smap_wf m \<Longrightarrow> map_of (smap_assign k v m) = (map_of m)(k \<mapsto> v)"
  by (induction k v m rule: smap_assign.induct) (auto simp: smap_wf_Cons fun_eq_iff)

lemma smap_assign_wf: "smap_wf m \<Longrightarrow> smap_wf (smap_assign k v m)"
proof (induction k v m rule: smap_assign.induct)
  case (2 k v k' v' m)
  have "\<And>e. e \<in> set (smap_assign k v m) \<Longrightarrow> fst e = k \<or> fst e \<in> fst ` set m"
    using fst_smap_assign [of k v m] by blast
  then have "k' < k \<Longrightarrow> \<forall>e \<in> set (smap_assign k v m). k' < fst e"
    using "2.prems" by (fastforce simp: smap_wf_Cons)
  with 2 show ?case by (auto simp: smap_wf_Cons)
qed (simp add: smap_wf_Cons)

lemma smap_filter_wf: "smap_wf m \<Longrightarrow> smap_wf (filter P m)"
  by (induction m) (auto simp: smap_wf_Cons)

lemma smap_erase_find: "map_of (smap_erase k m) = (map_of m)(k := None)"
  by (induction m) (auto simp: smap_erase_def fun_eq_iff)

lemma smap_erase_wf: "smap_wf m \<Longrightarrow> smap_wf (smap_erase k m)"
  by (simp add: smap_erase_def smap_filter_wf)

lemma set_mmap_insert [simp]: "set (mmap_insert k v m) = insert (k, v) (set m)"
  by (induction k v m rule: mmap_insert.induct) auto

lemma mmap_insert_wf: "mmap_wf m \<Longrightarrow> mmap_wf (mmap_insert k v m)"
  by (induction k v m rule: mmap_insert.induct) (auto simp: mmap_wf_def)

lemma mmap_filter_wf: "mmap_wf m \<Longrightarrow> mmap_wf (filter P m)"
  by (simp add: mmap_wf_def sorted_filter)

text \<open>The contract of \<open>std::map\<close> that the sources rely on.\<close>

locale std_map =
  fixes find :: "'m \<Rightarrow> 'k \<Rightarrow> 'v option"
    and insert_new :: "'k \<Rightarrow> 'v \<Rightarrow> 'm \<Rightarrow> 'm"
    and assign :: "'k \<Rightarrow> 'v \<Rightarrow> 'm \<Rightarrow> 'm"
    and erase :: "'k \<Rightarrow> 'm \<Rightarrow> 'm"
    and wf :: "'m \<Rightarrow> bool"
  assumes find_insert: "wf m \<Longrightarrow> find (insert_new k v m) = (if find m k = None then (find m)(k \<mapsto> v) else find m)"
    and find_assign: "wf m \<Longrightarrow> find (assign k v m) = (find m)(k \<mapsto> v)"
    and find_erase: "wf m \<Longrightarrow> find (erase k m) = (find m)(k := None)"
    and wf_insert: "wf m \<Longrightarrow> wf (insert_new k v m)"
    and wf_assign: "wf m \<Longrightarrow> wf (assign k v m)"
    and wf_erase: "wf m \<Longrightarrow> wf (erase k m)"
begin

text \<open>A second insertion under the same key is without effect, an erased key can be inserted.\<close>

lemma insert_again: "wf m \<Longrightarrow> find (insert_new k v' (insert_new k v m)) = find (insert_new k v m)"
  by (simp add: find_insert wf_insert)

lemma insert_after_erase: "wf m \<Longrightarrow> find (insert_new k v (erase k m)) k = Some v"
  by (simp add: find_insert find_erase wf_erase)

lemma insert_finds: "wf m \<Longrightarrow> find (insert_new k v m) k \<noteq> None"
  by (simp add: find_insert)

lemma insert_keeps: "wf m \<Longrightarrow> find m k' = Some u \<Longrightarrow> find (insert_new k v m) k' = Some u"
  by (auto simp: find_insert)

end

lemma map_of_None_iff: "map_of m k = None \<longleftrightarrow> k \<notin> fst ` set m"
  by (induction m) auto

interpretation smap: std_map map_of smap_insert smap_assign smap_erase smap_wf
  by unfold_locales
    (auto simp: smap_insert_find smap_assign_find smap_erase_find smap_insert_wf smap_assign_wf
      smap_erase_wf map_of_None_iff)

text \<open>Evaluation of the order of strings on literals.\<close>

lemma less_string_simps [simp]:
  "((c :: char) # cs < d # ds) = (of_char c < (of_char d :: nat) \<or> c = d \<and> cs < ds)"
  "([] :: string) < d # ds"
  "\<not> cs < ([] :: string)"
  by (auto simp: less_char_def)

text \<open>Looking for the element with a key that no other element has.\<close>

lemma find_distinct:
  assumes "distinct (map f xs)" and "x \<in> set xs" and "f x = y"
  shows "find (\<lambda>x. f x = y) xs = Some x"
  using assms by (induction xs) auto

end
