(* ===== verification/Protocol.thy ===== *)
theory Protocol
  imports Mega_Prelude
begin

text \<open>
  The wire protocol of \<open>src/src/protocol/megastructure.proto\<close> and the constructors and readers of
  \<open>src/api/protocol/protocol_helpers.hpp\<close>.  A protobuf \<open>oneof\<close> is a datatype with one constructor
  per arm; a \<open>oneof\<close> that may be unset is an \<open>option\<close> (or \<open>NoMsg\<close> for the outermost one).
  Names: \<open>MSQ\<close>/\<open>SMS\<close> master to slave request and its response, \<open>SMQ\<close>/\<open>MSS\<close> slave to master,
  \<open>CHQ\<close>/\<open>HCS\<close> coordinator to host, \<open>HCQ\<close>/\<open>CHS\<close> host to coordinator.
\<close>

section \<open>Messages\<close>

datatype config_body = CfgMSQ | CfgSMS bool | CfgCHQ | CfgHCS bool

datatype config = CfgLoad "config_body option" | CfgSave "config_body option" | CfgUnset

datatype request_body = RqRead | RqWrite string | RqLock bool | RqUnlock

record eg_request =
  rq_coordinator :: u32
  rq_host :: u32
  rq_body :: "request_body option"

record eg_response =
  rs_coordinator :: u32
  rs_host :: u32
  rs_value :: string

record eg_error =
  er_coordinator :: u32
  er_host :: u32

datatype eg_body =
    EgRequest eg_request
  | EgResponse eg_response
  | EgError eg_error
  | EgEvent string

text \<open>\<open>eg_type\<close> is the \<open>int32\<close> of the wire as a 32-bit word: the code only uses it converted to
  \<open>std::uint32_t\<close>, as an index.\<close>

record eg_msg =
  eg_type :: u32
  eg_instance :: u32
  eg_cycle :: u32
  eg_body :: "eg_body option"

datatype message =
    NoMsg
  | SMQ_Enroll (smq_slavename: string)
  | MSS_Enroll (mss_success: bool) (mss_programname: string)
  | MSQ_Alive (msq_slavename: string)
  | SMS_Alive (sms_alive_success: bool)
  | HCQ_Enroll (hcq_processname: string) (hcq_unique: string)
  | CHS_Enroll (chs_success: bool) (chs_workspacepath: string) (chs_slavename: string)
  | HCQ_EnrollEG (hcq_eg_unique: string)
  | CHS_EnrollEG (chs_eg_success: bool)
  | CHQ_Alive (chq_processname: string)
  | HCS_Alive (hcs_alive_success: bool)
  | MSQ_Load (msq_programname: string)
  | SMS_Load (sms_load_success: bool)
  | CHQ_Load (chq_hostname: string) (chq_programname: string)
  | HCS_Load (hcs_load_success: bool)
  | HCQ_Buffer (hcq_buffername: string) (hcq_size: u32)
  | CHS_Buffer (chs_buffername: string) (chs_sharedname: string)
  | Config_msg config
  | EG_Msg eg_msg

section \<open>Message constructors and readers\<close>

definition mss_enroll_fail :: "bool \<Rightarrow> message" where
  "mss_enroll_fail bSuccess = MSS_Enroll bSuccess ''''"

definition mss_enroll :: "bool \<Rightarrow> string \<Rightarrow> message" where
  "mss_enroll bSuccess strProgramName = MSS_Enroll bSuccess strProgramName"

definition chs_enroll_fail :: "bool \<Rightarrow> message" where
  "chs_enroll_fail bSuccess = CHS_Enroll bSuccess '''' ''''"

definition chs_enroll :: "bool \<Rightarrow> string \<Rightarrow> string \<Rightarrow> message" where
  "chs_enroll bSuccess workspacePath strSlaveName = CHS_Enroll bSuccess workspacePath strSlaveName"

definition chs_enrolleg :: "bool \<Rightarrow> message" where
  "chs_enrolleg bSuccess = CHS_EnrollEG bSuccess"

definition sms_load :: "bool \<Rightarrow> message" where
  "sms_load bSuccess = SMS_Load bSuccess"

definition chs_buffer :: "string \<Rightarrow> string \<Rightarrow> message" where
  "chs_buffer strBufferName strSharedName = CHS_Buffer strBufferName strSharedName"

definition hcs_load :: "bool \<Rightarrow> message" where
  "hcs_load bSuccess = HCS_Load bSuccess"

datatype config_type = eConfigLoading | eConfigSaving | TOTAL_CONFIG_ACTIVITY_TYPES

definition config_load_msq :: message where
  "config_load_msq = Config_msg (CfgLoad (Some CfgMSQ))"

definition config_save_msq :: message where
  "config_save_msq = Config_msg (CfgSave (Some CfgMSQ))"

definition config_load_sms :: "bool \<Rightarrow> message" where
  "config_load_sms b = Config_msg (CfgLoad (Some (CfgSMS b)))"

definition config_save_sms :: "bool \<Rightarrow> message" where
  "config_save_sms b = Config_msg (CfgSave (Some (CfgSMS b)))"

definition read_config_load_sms :: "config \<Rightarrow> bool" where
  "read_config_load_sms c =
     (case c of CfgLoad m \<Rightarrow> (case m of Some (CfgSMS b) \<Rightarrow> b | _ \<Rightarrow> False) | _ \<Rightarrow> False)"

definition read_config_save_sms :: "config \<Rightarrow> bool" where
  "read_config_save_sms c =
     (case c of CfgSave m \<Rightarrow> (case m of Some (CfgSMS b) \<Rightarrow> b | _ \<Rightarrow> False) | _ \<Rightarrow> False)"

definition config_load_chq :: message where
  "config_load_chq = Config_msg (CfgLoad (Some CfgCHQ))"

definition read_config_load_chq :: "config \<Rightarrow> bool" where
  "read_config_load_chq c = (case c of CfgLoad m \<Rightarrow> m = Some CfgCHQ | _ \<Rightarrow> False)"

definition config_save_chq :: message where
  "config_save_chq = Config_msg (CfgSave (Some CfgCHQ))"

definition read_config_save_chq :: "config \<Rightarrow> bool" where
  "read_config_save_chq c = (case c of CfgSave m \<Rightarrow> m = Some CfgCHQ | _ \<Rightarrow> False)"

definition config_load_hcs :: "bool \<Rightarrow> message" where
  "config_load_hcs b = Config_msg (CfgLoad (Some (CfgHCS b)))"

definition config_save_hcs :: "bool \<Rightarrow> message" where
  "config_save_hcs b = Config_msg (CfgSave (Some (CfgHCS b)))"

lemmas protocol_defs =
  mss_enroll_fail_def mss_enroll_def chs_enroll_fail_def chs_enroll_def chs_enrolleg_def
  sms_load_def chs_buffer_def hcs_load_def config_load_msq_def config_save_msq_def
  config_load_sms_def config_save_sms_def config_load_chq_def config_save_chq_def
  config_load_hcs_def config_save_hcs_def

lemmas config_readers =
  read_config_load_sms_def read_config_save_sms_def read_config_load_chq_def
  read_config_save_chq_def

section \<open>Error replies\<close>

text \<open>
  The error message that the routers of the master, the slave and the component build for a
  request they cannot serve: the addressing fields of the request and the return path given.
\<close>

definition eg_error_reply :: "eg_msg \<Rightarrow> u32 \<Rightarrow> u32 \<Rightarrow> message" where
  "eg_error_reply egMsg coordinator host =
     EG_Msg \<lparr>eg_type = eg_type egMsg, eg_instance = eg_instance egMsg, eg_cycle = eg_cycle egMsg,
       eg_body = Some (EgError \<lparr>er_coordinator = coordinator, er_host = host\<rparr>)\<rparr>"

text \<open>
  A response answers a success reader exactly when it is of the reader's kind: a save response
  read as a load response is a failure.
\<close>

lemma read_config_sms_simps [simp]:
  "read_config_load_sms (CfgLoad (Some (CfgSMS b))) = b"
  "read_config_save_sms (CfgSave (Some (CfgSMS b))) = b"
  "\<not> read_config_load_sms (CfgSave m)"
  "\<not> read_config_save_sms (CfgLoad m)"
  by (simp_all add: config_readers)

end
