(* ===== verification/Activity_Queue.thy ===== *)
theory Activity_Queue
  imports Mega_Prelude
begin

text \<open>
  The activity queue: \<open>src/api/megastructure/queue.hpp\<close>, \<open>src/src/core/queue.cpp\<close>,
  \<open>src/api/megastructure/activity.hpp\<close> and \<open>src/src/core/activity.cpp\<close>.

  A master, a slave or a component owns one queue: one thread runs the events that the socket
  threads, the main thread and the activities themselves post to it, in the order they were posted.
  An \<open>Activity::Ptr\<close> is a reference into a heap of activity objects; the virtual
  functions of an activity are a record of functions over the state of the node that owns the
  queue, which extends \<open>queue_state\<close>.  Nothing is assumed of the semaphores: all the code
  modelled here runs on the queue's thread.

  \<open>PRINTEXCEPTION_AND_ABORT\<close> is built on \<open>DO_STUFF_AND_REQUIRE_SEMI_COLON\<close>, which is not in the
  repository.  Whether a \<open>break\<close> written inside it leaves the surrounding loop over the activities
  depends on how it expands, so that is a parameter (\<open>brk\<close>) of the delivery of messages.
\<close>

section \<open>State\<close>

datatype 'msg qevent =
    EvStart nat
  | EvServer 'msg
  | EvClient u32 'msg
  | EvJob nat
  | EvComplete nat
  | EvSimLock

record ('act, 'msg) queue_state =
  m_active :: "nat list"
  m_pending :: "nat list"
  m_stop :: bool
  posted :: "'msg qevent list"
  heap :: "nat \<Rightarrow> 'act option"
  next_ref :: nat

text \<open>How a process can end other than by returning: \<open>std::abort\<close> out of a handler, an exception that
  leaves the queue's thread, or undefined behaviour.\<close>

datatype halt = Aborted string | Uncaught string | Undefined string

type_synonym 'a run = "halt + 'a"

definition print_exception_and_abort :: "'a result \<Rightarrow> 'a run" where
  "print_exception_and_abort r =
     (case r of Inl (Rte m) \<Rightarrow> Inl (Aborted m) | Inl (Ub m) \<Rightarrow> Inl (Undefined m) | Inr x \<Rightarrow> Inr x)"

lemma print_exception_and_abort_Inr [simp]:
  "print_exception_and_abort (Inr x) = Inr x"
  "print_exception_and_abort (Inl (Rte m)) = Inl (Aborted m)"
  "print_exception_and_abort (Inl (Ub m)) = Inl (Undefined m)"
  by (simp_all add: print_exception_and_abort_def)

lemma print_exception_and_abort_eq_Inr [simp]:
  "print_exception_and_abort r = Inr x \<longleftrightarrow> r = Inr x"
  by (auto simp: print_exception_and_abort_def split: sum.splits fault.splits)

section \<open>The virtual functions of an activity\<close>

record ('w, 'msg) vtable =
  v_keepAlive :: "'w \<Rightarrow> nat \<Rightarrow> 'w result"
  v_precondition :: "'w \<Rightarrow> nat \<Rightarrow> nat list \<Rightarrow> bool"
  v_start :: "'w \<Rightarrow> nat \<Rightarrow> 'w result"
  v_serverMessage :: "'msg \<Rightarrow> 'w \<Rightarrow> nat \<Rightarrow> ('w \<times> bool) result"
  v_clientMessage :: "u32 \<Rightarrow> 'msg \<Rightarrow> 'w \<Rightarrow> nat \<Rightarrow> ('w \<times> bool) result"
  v_jobComplete :: "nat \<Rightarrow> 'w \<Rightarrow> nat \<Rightarrow> ('w \<times> bool) result"
  v_activityComplete :: "nat \<Rightarrow> 'w \<Rightarrow> nat \<Rightarrow> ('w \<times> bool) result"
  v_simulationLockStarted :: "'w \<Rightarrow> nat \<Rightarrow> 'w result"

text \<open>The functions of the base class, which a class that does not override them inherits.\<close>

definition Activity_keepAlive :: "'w \<Rightarrow> nat \<Rightarrow> 'w result" where
  "Activity_keepAlive w a = Inr w"

definition Activity_precondition :: "'w \<Rightarrow> nat \<Rightarrow> nat list \<Rightarrow> bool" where
  "Activity_precondition w a active = True"

definition Activity_start :: "'w \<Rightarrow> nat \<Rightarrow> 'w result" where
  "Activity_start w a = Inr w"

definition Activity_serverMessage :: "'msg \<Rightarrow> 'w \<Rightarrow> nat \<Rightarrow> ('w \<times> bool) result" where
  "Activity_serverMessage m w a = Inr (w, False)"

definition Activity_clientMessage :: "u32 \<Rightarrow> 'msg \<Rightarrow> 'w \<Rightarrow> nat \<Rightarrow> ('w \<times> bool) result" where
  "Activity_clientMessage uiClient m w a = Inr (w, False)"

definition Activity_jobComplete :: "nat \<Rightarrow> 'w \<Rightarrow> nat \<Rightarrow> ('w \<times> bool) result" where
  "Activity_jobComplete pJob w a = Inr (w, False)"

definition Activity_activityComplete :: "nat \<Rightarrow> 'w \<Rightarrow> nat \<Rightarrow> ('w \<times> bool) result" where
  "Activity_activityComplete pActivity w a = Inr (w, False)"

definition Activity_simulationLockStarted :: "'w \<Rightarrow> nat \<Rightarrow> 'w result" where
  "Activity_simulationLockStarted w a = Inr w"

lemmas activity_defaults =
  Activity_keepAlive_def Activity_precondition_def Activity_start_def Activity_serverMessage_def
  Activity_clientMessage_def Activity_jobComplete_def Activity_activityComplete_def
  Activity_simulationLockStarted_def

text \<open>\<open>ExclusiveActivity<T>::precondition\<close>: no active activity is of the class \<open>T\<close>.\<close>

definition kind_of :: "('act \<Rightarrow> 'k) \<Rightarrow> ('act, 'msg, 'z) queue_state_scheme \<Rightarrow> nat \<Rightarrow> 'k option" where
  "kind_of kind w a = map_option kind (heap w a)"

definition ExclusiveActivity_precondition ::
  "('act \<Rightarrow> 'k) \<Rightarrow> 'k \<Rightarrow> ('act, 'msg, 'z) queue_state_scheme \<Rightarrow> nat list \<Rightarrow> bool" where
  "ExclusiveActivity_precondition kind ParentType w active =
     (\<forall>a \<in> set active. kind_of kind w a \<noteq> Some ParentType)"

section \<open>Posting to the queue and allocating activities\<close>

definition queue_post :: "'msg qevent \<Rightarrow> ('act, 'msg, 'z) queue_state_scheme \<Rightarrow> ('act, 'msg, 'z) queue_state_scheme" where
  "queue_post e w = w\<lparr>posted := posted w @ [e]\<rparr>"

definition queue_startActivity :: "nat \<Rightarrow> ('act, 'msg, 'z) queue_state_scheme \<Rightarrow> ('act, 'msg, 'z) queue_state_scheme" where
  "queue_startActivity a = queue_post (EvStart a)"

definition queue_serverMessage :: "'msg \<Rightarrow> ('act, 'msg, 'z) queue_state_scheme \<Rightarrow> ('act, 'msg, 'z) queue_state_scheme" where
  "queue_serverMessage m = queue_post (EvServer m)"

definition queue_clientMessage :: "u32 \<Rightarrow> 'msg \<Rightarrow> ('act, 'msg, 'z) queue_state_scheme \<Rightarrow> ('act, 'msg, 'z) queue_state_scheme" where
  "queue_clientMessage uiClient m = queue_post (EvClient uiClient m)"

definition queue_jobComplete :: "nat \<Rightarrow> ('act, 'msg, 'z) queue_state_scheme \<Rightarrow> ('act, 'msg, 'z) queue_state_scheme" where
  "queue_jobComplete j = queue_post (EvJob j)"

definition queue_activityComplete :: "nat \<Rightarrow> ('act, 'msg, 'z) queue_state_scheme \<Rightarrow> ('act, 'msg, 'z) queue_state_scheme" where
  "queue_activityComplete a = queue_post (EvComplete a)"

definition queue_startSimulationLock :: "('act, 'msg, 'z) queue_state_scheme \<Rightarrow> ('act, 'msg, 'z) queue_state_scheme" where
  "queue_startSimulationLock = queue_post EvSimLock"

definition queue_stop :: "('act, 'msg, 'z) queue_state_scheme \<Rightarrow> ('act, 'msg, 'z) queue_state_scheme" where
  "queue_stop w = w\<lparr>m_stop := True\<rparr>"

definition new_activity :: "'act \<Rightarrow> ('act, 'msg, 'z) queue_state_scheme \<Rightarrow> nat \<times> ('act, 'msg, 'z) queue_state_scheme" where
  "new_activity x w = (next_ref w, w\<lparr>heap := (heap w)(next_ref w \<mapsto> x), next_ref := Suc (next_ref w)\<rparr>)"

definition set_activity :: "nat \<Rightarrow> 'act \<Rightarrow> ('act, 'msg, 'z) queue_state_scheme \<Rightarrow> ('act, 'msg, 'z) queue_state_scheme" where
  "set_activity a x w = w\<lparr>heap := (heap w)(a \<mapsto> x)\<rparr>"

lemmas queue_posts =
  queue_startActivity_def queue_serverMessage_def queue_clientMessage_def queue_jobComplete_def
  queue_activityComplete_def queue_startSimulationLock_def

section \<open>The loops over the active activities\<close>

text \<open>Offer an event to the activities in order; one that accepts it ends the loop (when the
  \<open>break\<close> reaches the loop).\<close>

fun notify_until :: "bool \<Rightarrow> ('w \<Rightarrow> nat \<Rightarrow> ('w \<times> bool) result) \<Rightarrow> nat list \<Rightarrow> 'w \<Rightarrow> 'w run" where
  "notify_until brk h [] w = Inr w"
| "notify_until brk h (a # as) w =
     andThen (print_exception_and_abort (h w a))
       (\<lambda>(w', accepted). if accepted \<and> brk then Inr w' else notify_until brk h as w')"

fun notify_all :: "('w \<Rightarrow> nat \<Rightarrow> 'w result) \<Rightarrow> nat list \<Rightarrow> 'w \<Rightarrow> 'w run" where
  "notify_all h [] w = Inr w"
| "notify_all h (a # as) w = andThen (print_exception_and_abort (h w a)) (notify_all h as)"

text \<open>
  The loop of \<open>OnActivityComplete\<close>: the activities before the completed one are told of its
  completion, the loop ends at the completed one (erased by the caller of the scan).  The
  \<open>break\<close> after an accepted notification needs \<open>bFound\<close>, which is false until the loop has
  already ended, so it is never taken.
\<close>

fun complete_scan :: "('w \<Rightarrow> nat \<Rightarrow> ('w \<times> bool) result) \<Rightarrow> nat \<Rightarrow> nat list \<Rightarrow> 'w \<Rightarrow> ('w \<times> bool) run" where
  "complete_scan h pActivity [] w = Inr (w, False)"
| "complete_scan h pActivity (a # as) w =
     (if a = pActivity then Inr (w, True)
      else andThen (print_exception_and_abort (h w a)) (\<lambda>(w', _). complete_scan h pActivity as w'))"

section \<open>The event handlers\<close>

text \<open>\<open>OnKeepAlive\<close> also says whether the timer is armed again.\<close>

definition Queue_OnKeepAlive ::
  "(('act, 'msg, 'z) queue_state_scheme, 'msg) vtable \<Rightarrow> bool \<Rightarrow> ('act, 'msg, 'z) queue_state_scheme
   \<Rightarrow> (('act, 'msg, 'z) queue_state_scheme \<times> bool) run" where
  "Queue_OnKeepAlive vt ec_success w =
     andThen (notify_all (v_keepAlive vt) (m_active w) w)
       (\<lambda>w'. Inr (w', \<not> m_stop w' \<and> ec_success))"

text \<open>A handle without an object is a null pointer, which \<open>precondition\<close> is called through.\<close>

definition Queue_OnStartActivity ::
  "(('act, 'msg, 'z) queue_state_scheme, 'msg) vtable \<Rightarrow> nat \<Rightarrow> ('act, 'msg, 'z) queue_state_scheme
   \<Rightarrow> ('act, 'msg, 'z) queue_state_scheme run" where
  "Queue_OnStartActivity vt pActivity w =
     (if heap w pActivity = None then Inl (Undefined ''null activity'')
      else if m_pending w = [] \<and> v_precondition vt w pActivity (m_active w)
      then print_exception_and_abort
             (v_start vt (w\<lparr>m_active := m_active w @ [pActivity]\<rparr>) pActivity)
      else Inr (w\<lparr>m_pending := m_pending w @ [pActivity]\<rparr>))"

definition Queue_OnServerMessage ::
  "(('act, 'msg, 'z) queue_state_scheme, 'msg) vtable \<Rightarrow> bool \<Rightarrow> 'msg \<Rightarrow> ('act, 'msg, 'z) queue_state_scheme
   \<Rightarrow> ('act, 'msg, 'z) queue_state_scheme run" where
  "Queue_OnServerMessage vt brk m w = notify_until brk (v_serverMessage vt m) (m_active w) w"

definition Queue_OnClientMessage ::
  "(('act, 'msg, 'z) queue_state_scheme, 'msg) vtable \<Rightarrow> bool \<Rightarrow> u32 \<Rightarrow> 'msg \<Rightarrow> ('act, 'msg, 'z) queue_state_scheme
   \<Rightarrow> ('act, 'msg, 'z) queue_state_scheme run" where
  "Queue_OnClientMessage vt brk uiClient m w =
     notify_until brk (v_clientMessage vt uiClient m) (m_active w) w"

definition Queue_OnJobComplete ::
  "(('act, 'msg, 'z) queue_state_scheme, 'msg) vtable \<Rightarrow> bool \<Rightarrow> nat \<Rightarrow> ('act, 'msg, 'z) queue_state_scheme
   \<Rightarrow> ('act, 'msg, 'z) queue_state_scheme run" where
  "Queue_OnJobComplete vt brk pJob w = notify_until brk (v_jobComplete vt pJob) (m_active w) w"

definition Queue_admit_pending ::
  "(('act, 'msg, 'z) queue_state_scheme, 'msg) vtable \<Rightarrow> ('act, 'msg, 'z) queue_state_scheme
   \<Rightarrow> ('act, 'msg, 'z) queue_state_scheme run" where
  "Queue_admit_pending vt w =
     (case m_pending w of
        [] \<Rightarrow> Inr w
      | pFirst # rest \<Rightarrow>
          if v_precondition vt w pFirst (m_active w)
          then print_exception_and_abort
                 (v_start vt (w\<lparr>m_pending := rest, m_active := m_active w @ [pFirst]\<rparr>) pFirst)
          else Inr w)"

definition Queue_OnActivityComplete ::
  "(('act, 'msg, 'z) queue_state_scheme, 'msg) vtable \<Rightarrow> nat \<Rightarrow> ('act, 'msg, 'z) queue_state_scheme
   \<Rightarrow> ('act, 'msg, 'z) queue_state_scheme run" where
  "Queue_OnActivityComplete vt pActivity w =
     andThen (complete_scan (v_activityComplete vt pActivity) pActivity (m_active w) w)
       (\<lambda>(w', bFound).
          if bFound
          then Queue_admit_pending vt (w'\<lparr>m_active := remove1 pActivity (m_active w')\<rparr>)
          else Inl (Uncaught ''Failed to find activity''))"

definition Queue_OnSimulationLockStarted ::
  "(('act, 'msg, 'z) queue_state_scheme, 'msg) vtable \<Rightarrow> ('act, 'msg, 'z) queue_state_scheme
   \<Rightarrow> ('act, 'msg, 'z) queue_state_scheme run" where
  "Queue_OnSimulationLockStarted vt w = notify_all (v_simulationLockStarted vt) (m_active w) w"

text \<open>The queue's thread takes the oldest posted event.\<close>

definition queue_handle ::
  "(('act, 'msg, 'z) queue_state_scheme, 'msg) vtable \<Rightarrow> bool \<Rightarrow> 'msg qevent \<Rightarrow> ('act, 'msg, 'z) queue_state_scheme
   \<Rightarrow> ('act, 'msg, 'z) queue_state_scheme run" where
  "queue_handle vt brk e w =
     (case e of
        EvStart a \<Rightarrow> Queue_OnStartActivity vt a w
      | EvServer m \<Rightarrow> Queue_OnServerMessage vt brk m w
      | EvClient c m \<Rightarrow> Queue_OnClientMessage vt brk c m w
      | EvJob j \<Rightarrow> Queue_OnJobComplete vt brk j w
      | EvComplete a \<Rightarrow> Queue_OnActivityComplete vt a w
      | EvSimLock \<Rightarrow> Queue_OnSimulationLockStarted vt w)"

definition queue_step ::
  "(('act, 'msg, 'z) queue_state_scheme, 'msg) vtable \<Rightarrow> bool \<Rightarrow> ('act, 'msg, 'z) queue_state_scheme
   \<Rightarrow> ('act, 'msg, 'z) queue_state_scheme run" where
  "queue_step vt brk w =
     (case posted w of [] \<Rightarrow> Inr w | e # es \<Rightarrow> queue_handle vt brk e (w\<lparr>posted := es\<rparr>))"

fun queue_steps ::
  "nat \<Rightarrow> (('act, 'msg, 'z) queue_state_scheme, 'msg) vtable \<Rightarrow> bool \<Rightarrow> ('act, 'msg, 'z) queue_state_scheme
   \<Rightarrow> ('act, 'msg, 'z) queue_state_scheme run" where
  "queue_steps 0 vt brk w = Inr w"
| "queue_steps (Suc n) vt brk w = andThen (queue_step vt brk w) (queue_steps n vt brk)"

end
