(* ===== verification/Sockets.thy ===== *)
theory Sockets
  imports Protocol Activity_Queue
begin

text \<open>
  The sockets of \<open>src/api/megastructure/clientServer.hpp\<close> and \<open>src/src/core/clientServer.cpp\<close>, and
  the reader threads of \<open>queue.hpp\<close>.  ZeroMQ and the protobuf parser are not in the repository: the
  outcome of each of their calls is an argument (the record \<open>zmq\<close>, the values \<open>recv_result\<close>, the
  function \<open>parse\<close>).  The long texts of the exceptions are cut to the name of the error.
\<close>

section \<open>The outcome of ZeroMQ calls\<close>

datatype errno = EAGAIN | ENOTSUP | EFSM | ETERM | ENOTSOCK | EINTR | EFAULT | EOther nat

fun errno_name :: "errno \<Rightarrow> string" where
  "errno_name EAGAIN = ''EAGAIN''"
| "errno_name ENOTSUP = ''ENOTSUP''"
| "errno_name EFSM = ''EFSM''"
| "errno_name ETERM = ''ETERM''"
| "errno_name ENOTSOCK = ''ENOTSOCK''"
| "errno_name EINTR = ''EINTR''"
| "errno_name EFAULT = ''EFAULT''"
| "errno_name (EOther n) = ''unknown error''"

text \<open>Per call: does \<open>zmq_msg_init_size\<close> succeed, does \<open>zmq_msg_set_routing_id\<close> accept the id, and the
  error of \<open>zmq_msg_send\<close> on a server socket (per routing id) and on a client socket.\<close>

record zmq =
  z_init_size :: bool
  z_routing :: "u32 \<Rightarrow> bool"
  z_server_send :: "u32 \<Rightarrow> errno option"
  z_client_send :: "errno option"

datatype recv_result = RecvError errno | RecvMsg string u32

section \<open>Socket names and life time\<close>

definition TCPLocalSocketName_getName :: "string \<Rightarrow> string" where
  "TCPLocalSocketName_getName strPort = ''tcp://*:'' @ strPort"

definition TCPRemoteSocketName_getName :: "string \<Rightarrow> string \<Rightarrow> string" where
  "TCPRemoteSocketName_getName strIP strPort = ''tcp://'' @ strIP @ '':'' @ strPort"

record socket =
  sk_context :: bool
  sk_socket :: bool

text \<open>\<open>Client::Client\<close> and \<open>Server::Server\<close>: the result of \<open>zmq_connect\<close> or \<open>zmq_bind\<close> is given.\<close>

definition Client_ctor :: "string \<Rightarrow> bool \<Rightarrow> socket result" where
  "Client_ctor endpoint connected =
     andThen (verify_rte connected (''Failed to connect to: '' @ endpoint))
       (\<lambda>_. Inr \<lparr>sk_context = True, sk_socket = True\<rparr>)"

definition Server_ctor :: "string \<Rightarrow> bool \<Rightarrow> socket result" where
  "Server_ctor localAddress bound =
     andThen (verify_rte bound (''Failed to bind to: '' @ localAddress))
       (\<lambda>_. Inr \<lparr>sk_context = True, sk_socket = True\<rparr>)"

definition Client_stop :: "socket \<Rightarrow> socket" where
  "Client_stop s =
     (let s1 = (if sk_socket s then s\<lparr>sk_socket := False\<rparr> else s)
      in if sk_context s1 then s1\<lparr>sk_context := False\<rparr> else s1)"

definition Server_stop :: "socket \<Rightarrow> socket" where
  "Server_stop s =
     (let s1 = (if sk_socket s then s\<lparr>sk_socket := False\<rparr> else s)
      in if sk_context s1 then s1\<lparr>sk_context := False\<rparr> else s1)"

section \<open>Sending\<close>

definition ZMQMsg_send_ctor :: "zmq \<Rightarrow> unit result" where
  "ZMQMsg_send_ctor z = verify_rte (z_init_size z) ''zmq_msg_init_size failed''"

definition ZMQMsg_route_ctor :: "zmq \<Rightarrow> u32 \<Rightarrow> unit result" where
  "ZMQMsg_route_ctor z uiClient =
     andThen (ZMQMsg_send_ctor z)
       (\<lambda>_. verify_rte (z_routing z uiClient) ''zmq_msg_set_routing_id failed'')"

definition Client_send :: "zmq \<Rightarrow> bool result" where
  "Client_send z =
     andThen (ZMQMsg_send_ctor z)
       (\<lambda>_. case z_client_send z of
              None \<Rightarrow> Inr True
            | Some e \<Rightarrow> Inl (Rte (''zmq_msg_send returned: '' @ errno_name e)))"

definition Server_send :: "zmq \<Rightarrow> u32 \<Rightarrow> bool result" where
  "Server_send z uiClient =
     andThen (ZMQMsg_route_ctor z uiClient)
       (\<lambda>_. case z_server_send z uiClient of
              None \<Rightarrow> Inr True
            | Some (EOther n) \<Rightarrow> Inr False
            | Some e \<Rightarrow> Inl (Rte (''zmq_msg_send returned: '' @ errno_name e)))"

section \<open>Receiving\<close>

definition throwReceiveError :: "errno \<Rightarrow> 'a result" where
  "throwReceiveError e = Inl (Rte (''zmq_msg_recv returned: '' @ errno_name e))"

definition ZMQMsg_readMessage :: "(string \<Rightarrow> message option) \<Rightarrow> string \<Rightarrow> message result" where
  "ZMQMsg_readMessage parse bytes =
     (case parse bytes of
        None \<Rightarrow> Inl (Rte (''Failed to parse received message: '' @ bytes))
      | Some m \<Rightarrow> Inr m)"

definition ZMQMsg_readMessage_from ::
  "(string \<Rightarrow> message option) \<Rightarrow> string \<Rightarrow> u32 \<Rightarrow> (u32 \<times> message) result" where
  "ZMQMsg_readMessage_from parse bytes uiClient =
     andThen (verify_rte (uiClient \<noteq> 0) ''zmq_msg_routing_id failed'')
       (\<lambda>_. andThen (ZMQMsg_readMessage parse bytes) (\<lambda>m. Inr (uiClient, m)))"

text \<open>The result is the boolean the function returns and the message, if one was received.\<close>

definition Client_recv_sync :: "(string \<Rightarrow> message option) \<Rightarrow> recv_result \<Rightarrow> (bool \<times> message option) result" where
  "Client_recv_sync parse r =
     (case r of
        RecvError e \<Rightarrow> if e = ETERM then Inr (False, None) else throwReceiveError e
      | RecvMsg bytes _ \<Rightarrow> andThen (ZMQMsg_readMessage parse bytes) (\<lambda>m. Inr (True, Some m)))"

definition Client_recv_async :: "(string \<Rightarrow> message option) \<Rightarrow> recv_result \<Rightarrow> (bool \<times> message option) result" where
  "Client_recv_async parse r =
     (case r of
        RecvError e \<Rightarrow>
          if e = ETERM then Inr (False, None)
          else if e = EAGAIN then Inr (True, None)
          else throwReceiveError e
      | RecvMsg bytes _ \<Rightarrow> andThen (ZMQMsg_readMessage parse bytes) (\<lambda>m. Inr (True, Some m)))"

definition Server_recv_sync ::
  "(string \<Rightarrow> message option) \<Rightarrow> recv_result \<Rightarrow> (bool \<times> (u32 \<times> message) option) result" where
  "Server_recv_sync parse r =
     (case r of
        RecvError e \<Rightarrow> if e = ETERM then Inr (False, None) else throwReceiveError e
      | RecvMsg bytes routing \<Rightarrow>
          andThen (ZMQMsg_readMessage_from parse bytes routing) (\<lambda>cm. Inr (True, Some cm)))"

section \<open>The reader threads\<close>

text \<open>
  \<open>readServer\<close> and \<open>readClient\<close> of \<open>queue.hpp\<close>, over what the socket returns call by call: the thread
  ends when a call returns false and, its exceptions being caught outside the loop, when one throws.
\<close>

fun readServer ::
  "(string \<Rightarrow> message option) \<Rightarrow> recv_result list \<Rightarrow> ('act, message, 'z) queue_state_scheme
   \<Rightarrow> ('act, message, 'z) queue_state_scheme" where
  "readServer parse [] q = q"
| "readServer parse (r # rs) q =
     (case Server_recv_sync parse r of
        Inl _ \<Rightarrow> q
      | Inr (False, _) \<Rightarrow> q
      | Inr (True, None) \<Rightarrow> readServer parse rs q
      | Inr (True, Some (c, m)) \<Rightarrow> readServer parse rs (queue_clientMessage c m q))"

fun readClient ::
  "(string \<Rightarrow> message option) \<Rightarrow> recv_result list \<Rightarrow> ('act, message, 'z) queue_state_scheme
   \<Rightarrow> ('act, message, 'z) queue_state_scheme" where
  "readClient parse [] q = q"
| "readClient parse (r # rs) q =
     (case Client_recv_sync parse r of
        Inl _ \<Rightarrow> q
      | Inr (False, _) \<Rightarrow> q
      | Inr (True, None) \<Rightarrow> readClient parse rs q
      | Inr (True, Some m) \<Rightarrow> readClient parse rs (queue_serverMessage m q))"

section \<open>Facts\<close>

lemma Server_send_False: "Server_send z c = Inr False \<Longrightarrow> \<exists>n. z_server_send z c = Some (EOther n)"
  by (auto simp: Server_send_def andThen_eq_Inr split: option.splits errno.splits)

lemma Server_send_True: "Server_send z c = Inr True \<longleftrightarrow> z_init_size z \<and> z_routing z c \<and> z_server_send z c = None"
  by (auto simp: Server_send_def ZMQMsg_route_ctor_def ZMQMsg_send_ctor_def andThen_eq_Inr verify_rte_def
      split: option.splits errno.splits)

lemma Client_send_never_False: "Client_send z \<noteq> Inr False"
  by (auto simp: Client_send_def andThen_eq_Inr split: option.splits)

text \<open>The messages read before the first call that ends the thread, in order.\<close>

fun good_prefix :: "(string \<Rightarrow> message option) \<Rightarrow> recv_result list \<Rightarrow> (u32 \<times> message) list" where
  "good_prefix parse (RecvMsg bytes c # rs) =
     (case parse bytes of None \<Rightarrow> [] | Some m \<Rightarrow> if c = 0 then [] else (c, m) # good_prefix parse rs)"
| "good_prefix parse _ = []"

lemma readServer_posts:
  "readServer parse rs q = q\<lparr>posted := posted q @ map (\<lambda>(c, m). EvClient c m) (good_prefix parse rs)\<rparr>"
proof (induction parse rs arbitrary: q rule: good_prefix.induct)
  case (1 parse bytes c rs)
  show ?case
    by (cases "parse bytes"; cases "c = 0")
      (auto simp: Server_recv_sync_def ZMQMsg_readMessage_from_def ZMQMsg_readMessage_def queue_posts
        queue_post_def 1)
qed (auto simp: Server_recv_sync_def throwReceiveError_def)

lemma stop_releases: "\<not> sk_socket (Client_stop s) \<and> \<not> sk_context (Client_stop s)"
  by (simp add: Client_stop_def Let_def)

text \<open>A network that takes every message, for demonstrations.\<close>

definition good_zmq :: zmq where
  "good_zmq = \<lparr>z_init_size = True, z_routing = \<lambda>_. True, z_server_send = \<lambda>_. None, z_client_send = None\<rparr>"

lemma good_send [simp]: "Server_send good_zmq c = Inr True" "Client_send good_zmq = Inr True"
  by (simp_all add: Server_send_True good_zmq_def Client_send_def ZMQMsg_send_ctor_def)

end
