(* ===== verification/Activity_System.thy ===== *)
theory Activity_System
  imports Activity_Queue
begin

text \<open>
  The contract between the queue and the activities it runs, and what the queue promises under it.

  An activity never touches the two scheduling lists: it starts and completes activities only by
  posting events (\<open>Queue::startActivity\<close>, \<open>Queue::activityComplete\<close>), so a range-based loop over
  \<open>m_active\<close> is never invalidated by what it calls.  \<open>qframe\<close> is this contract for one call, and
  the locale \<open>activity_system\<close> requires it of every virtual function.  From it follow, once for
  every kind of node: the order in which activities start, that at most one activity of an
  exclusive class is active, and which activities a message reaches.
\<close>

section \<open>The frame of a call\<close>

definition heap_wf :: "('act, 'msg, 'z) queue_state_scheme \<Rightarrow> bool" where
  "heap_wf w \<longleftrightarrow> (\<forall>a. next_ref w \<le> a \<longrightarrow> heap w a = None)"

definition heap_extends ::
  "('act \<Rightarrow> 'k) \<Rightarrow> ('act, 'msg, 'z) queue_state_scheme \<Rightarrow> ('act, 'msg, 'z) queue_state_scheme \<Rightarrow> bool" where
  "heap_extends kind w w' \<longleftrightarrow> (\<forall>a x. heap w a = Some x \<longrightarrow> (\<exists>y. heap w' a = Some y \<and> kind y = kind x))"

definition qframe ::
  "('act \<Rightarrow> 'k) \<Rightarrow> ('act, 'msg, 'z) queue_state_scheme \<Rightarrow> ('act, 'msg, 'z) queue_state_scheme \<Rightarrow> bool" where
  "qframe kind w w' \<longleftrightarrow>
     m_active w' = m_active w \<and> m_pending w' = m_pending w \<and> m_stop w' = m_stop w \<and>
     (\<exists>es. posted w' = posted w @ es) \<and> next_ref w \<le> next_ref w' \<and>
     (heap_wf w \<longrightarrow> heap_wf w' \<and> heap_extends kind w w')"

lemma heap_extends_refl [simp]: "heap_extends kind w w"
  by (auto simp: heap_extends_def)

lemma heap_extends_trans: "heap_extends kind w w' \<Longrightarrow> heap_extends kind w' w'' \<Longrightarrow> heap_extends kind w w''"
  unfolding heap_extends_def by metis

lemma qframe_refl [simp, frame_intros]: "qframe kind w w"
  by (auto simp: qframe_def)

lemma qframe_trans: "qframe kind w w' \<Longrightarrow> qframe kind w' w'' \<Longrightarrow> qframe kind w w''"
  unfolding qframe_def
  by (elim conjE exE, intro conjI) (auto intro: heap_extends_trans)

lemma qframe_lists:
  assumes "qframe kind w w'"
  shows "m_active w' = m_active w" "m_pending w' = m_pending w"
  using assms by (simp_all add: qframe_def)

lemma qframe_post [frame_intros]: "qframe kind w (queue_post e w)"
  by (auto simp: qframe_def queue_post_def heap_wf_def heap_extends_def)

lemma qframe_new [frame_intros]: "qframe kind w (snd (new_activity x w))"
  by (auto simp: qframe_def new_activity_def heap_wf_def heap_extends_def)

lemma heap_new [simp]: "heap (snd (new_activity x w)) (fst (new_activity x w)) = Some x"
  by (simp add: new_activity_def)

text \<open>Storing to an object keeps its class.\<close>

lemma qframe_set [frame_intros]:
  "heap w a = Some y \<Longrightarrow> kind y = kind x \<Longrightarrow> qframe kind w (set_activity a x w)"
  by (auto simp: qframe_def set_activity_def heap_wf_def heap_extends_def)

text \<open>What the frame depends on; a step that leaves it alone is framed.\<close>

definition queue_view where
  "queue_view w = (m_active w, m_pending w, m_stop w, posted w, heap w, next_ref w)"

lemma queue_view_eq:
  "queue_view v = queue_view w \<longleftrightarrow>
     m_active v = m_active w \<and> m_pending v = m_pending w \<and> m_stop v = m_stop w \<and>
     posted v = posted w \<and> heap v = heap w \<and> next_ref v = next_ref w"
  by (auto simp: queue_view_def)

lemma qframe_view [frame_intros]: "queue_view w' = queue_view w \<Longrightarrow> qframe kind w w'"
  by (auto simp: queue_view_eq qframe_def heap_wf_def heap_extends_def)

lemma qframe_set_view:
  assumes "heap w a = Some y" and "kind y = kind x" and "queue_view v = queue_view w"
  shows "qframe kind w (set_activity a x v)"
proof -
  have "qframe kind w v" using assms(3) by (rule qframe_view)
  moreover have "qframe kind v (set_activity a x v)"
    using assms by (intro qframe_set [where y = y]) (auto simp: queue_view_eq)
  ultimately show ?thesis by (rule qframe_trans)
qed

lemma qframe_set_view':
  assumes "queue_view v = queue_view (set_activity a x w)" and "heap w a = Some y" and "kind y = kind x"
  shows "qframe kind w v"
  using qframe_set [OF assms(2,3)] qframe_view [OF assms(1)] by (rule qframe_trans)

lemma qframe_then_post: "qframe kind w v \<Longrightarrow> qframe kind w (queue_post e v)"
  using qframe_post by (rule qframe_trans [rotated])

lemma qframe_then_new: "qframe kind w v \<Longrightarrow> qframe kind w (snd (new_activity x v))"
  using qframe_new by (rule qframe_trans [rotated])

lemma heap_extends_kind_of:
  "heap_extends kind w w' \<Longrightarrow> heap w a \<noteq> None \<Longrightarrow> kind_of kind w' a = kind_of kind w a"
  unfolding heap_extends_def kind_of_def by (metis not_None_eq option.simps(9))

lemma heap_extends_dom: "heap_extends kind w w' \<Longrightarrow> dom (heap w) \<subseteq> dom (heap w')"
  unfolding heap_extends_def by blast

section \<open>Loops that keep a reflexive and transitive relation\<close>

lemma notify_until_rel:
  assumes step: "\<And>v a v' b. h v a = Inr (v', b) \<Longrightarrow> R v v'"
    and refl: "\<And>v. R v v" and trans: "\<And>u v x. R u v \<Longrightarrow> R v x \<Longrightarrow> R u x"
    and run: "notify_until brk h as w = Inr w'"
  shows "R w w'"
  using run
proof (induction as arbitrary: w)
  case Nil
  then show ?case by (simp add: refl)
next
  case (Cons a as)
  then obtain v b where h: "h w a = Inr (v, b)"
    and rest: "(if b \<and> brk then Inr v else notify_until brk h as v) = Inr w'"
    by (auto simp: andThen_eq_Inr)
  have "R v w'" using rest Cons.IH by (auto simp: refl split: if_splits)
  with step [OF h] show ?case by (rule trans)
qed

lemma notify_all_rel:
  assumes step: "\<And>v a v'. h v a = Inr v' \<Longrightarrow> R v v'"
    and refl: "\<And>v. R v v" and trans: "\<And>u v x. R u v \<Longrightarrow> R v x \<Longrightarrow> R u x"
    and run: "notify_all h as w = Inr w'"
  shows "R w w'"
  using run
  by (induction as arbitrary: w) (auto simp: andThen_eq_Inr refl intro: trans step)

lemma complete_scan_rel:
  assumes step: "\<And>v a v' b. h v a = Inr (v', b) \<Longrightarrow> R v v'"
    and refl: "\<And>v. R v v" and trans: "\<And>u v x. R u v \<Longrightarrow> R v x \<Longrightarrow> R u x"
    and run: "complete_scan h p as w = Inr (w', found)"
  shows "R w w' \<and> found = (p \<in> set as)"
  using run
proof (induction as arbitrary: w)
  case Nil
  then show ?case by (simp add: refl)
next
  case (Cons a as)
  show ?case
  proof (cases "a = p")
    case True
    with Cons.prems show ?thesis by (simp add: refl)
  next
    case False
    with Cons.prems obtain v b where h: "h w a = Inr (v, b)" and rest: "complete_scan h p as v = Inr (w', found)"
      by (auto simp: andThen_eq_Inr)
    from Cons.IH [OF rest] False step [OF h] show ?thesis by (auto intro: trans)
  qed
qed

text \<open>One activity may do what the others may not: a loop meets it at most once.\<close>

lemma notify_until_others:
  assumes step: "\<And>v a v' b. a \<noteq> p \<Longrightarrow> h v a = Inr (v', b) \<Longrightarrow> R v v'"
    and refl: "\<And>v. R v v" and trans: "\<And>u v x. R u v \<Longrightarrow> R v x \<Longrightarrow> R u x"
    and "p \<notin> set as" and run: "notify_until brk h as w = Inr w'"
  shows "R w w'"
  using assms(4) run
proof (induction as arbitrary: w)
  case (Cons a as)
  then obtain v b where h: "h w a = Inr (v, b)" and "a \<noteq> p"
    and rest: "(if b \<and> brk then Inr v else notify_until brk h as v) = Inr w'"
    by (auto simp: andThen_eq_Inr)
  with step have "R w v" by blast
  moreover have "R v w'" using rest Cons by (auto simp: refl split: if_splits)
  ultimately show ?case by (rule trans)
qed (simp add: refl)

lemma notify_until_once:
  assumes step: "\<And>v a v' b. a \<noteq> p \<Longrightarrow> h v a = Inr (v', b) \<Longrightarrow> R v v'"
    and refl: "\<And>v. R v v" and trans: "\<And>u v x. R u v \<Longrightarrow> R v x \<Longrightarrow> R u x"
    and "count_list as p \<le> 1" and run: "notify_until brk h as w = Inr w'"
  shows "R w w' \<or> (p \<in> set as \<and> (\<exists>v v' b. R w v \<and> h v p = Inr (v', b) \<and> R v' w'))"
  using assms(4) run
proof (induction as arbitrary: w)
  case (Cons a as)
  then obtain v b where h: "h w a = Inr (v, b)"
    and rest: "(if b \<and> brk then Inr v else notify_until brk h as v) = Inr w'"
    by (auto simp: andThen_eq_Inr)
  show ?case
  proof (cases "a = p")
    case True
    with Cons.prems(1) have "p \<notin> set as" by (simp add: count_list_0_iff [symmetric])
    from notify_until_others [of p h R, OF step refl trans this] rest have "R v w'"
      by (auto simp: refl split: if_splits)
    with h True refl show ?thesis by auto
  next
    case False
    with step h have wv: "R w v" by blast
    show ?thesis
    proof (cases "b \<and> brk")
      case True
      with rest wv show ?thesis by auto
    next
      case False
      with rest have "notify_until brk h as v = Inr w'" by auto
      with Cons.IH [of v] Cons.prems(1) \<open>a \<noteq> p\<close> wv show ?thesis by (auto intro: trans)
    qed
  qed
qed (simp add: refl)

lemma notify_all_until: "notify_all h as w = notify_until False (\<lambda>v a. andThen (h v a) (\<lambda>v'. Inr (v', False))) as w"
proof (induction as arbitrary: w)
  case (Cons a as)
  then show ?case by (cases "h w a") (auto simp: print_exception_and_abort_def split: fault.split)
qed simp

text \<open>A loop that cannot fail to meet it does so exactly once.\<close>

lemma notify_all_once:
  assumes step: "\<And>v a v'. a \<noteq> p \<Longrightarrow> h v a = Inr v' \<Longrightarrow> R v v'"
    and refl: "\<And>v. R v v" and trans: "\<And>u v x. R u v \<Longrightarrow> R v x \<Longrightarrow> R u x"
    and "count_list as p = 1" and run: "notify_all h as w = Inr w'"
  shows "\<exists>v v'. R w v \<and> h v p = Inr v' \<and> R v' w'"
  using assms(4) run
proof (induction as arbitrary: w)
  case (Cons a as)
  then obtain v where h: "h w a = Inr v" and rest: "notify_all h as v = Inr w'"
    by (auto simp: andThen_eq_Inr)
  show ?case
  proof (cases "a = p")
    case True
    with Cons.prems(1) have "p \<notin> set as" by (simp add: count_list_0_iff [symmetric])
    from notify_until_others [of p "\<lambda>v a. andThen (h v a) (\<lambda>v'. Inr (v', False))" R, OF _ refl trans this]
      step rest have "R v w'"
      unfolding notify_all_until by (auto simp: andThen_eq_Inr)
    with h True refl show ?thesis by blast
  next
    case False
    with step h have "R w v" by blast
    with Cons.IH [of v] Cons.prems(1) False rest show ?thesis by (auto intro: trans)
  qed
qed simp

text \<open>The first activity that accepts a message is the last one that sees it.\<close>

lemma notify_until_first:
  assumes "\<forall>b \<in> set pre. h w b = Inr (w, False)" and "h w a = Inr (w', True)"
  shows "notify_until True h (pre @ a # rest) w = Inr w'"
  using assms by (induction pre) auto

lemma notify_until_none:
  assumes "\<forall>b \<in> set as. h w b = Inr (w, False)"
  shows "notify_until brk h as w = Inr w"
  using assms by (induction as) auto

text \<open>Exactly the activities before the completed one are told.\<close>

lemma complete_scan_split:
  assumes "p \<notin> set pre"
  shows "complete_scan h p (pre @ p # rest) w = andThen (complete_scan h p pre w) (\<lambda>(w', _). Inr (w', True))"
  using assms
proof (induction pre arbitrary: w)
  case Nil
  then show ?case by simp
next
  case (Cons a pre)
  then have "a \<noteq> p" and "p \<notin> set pre" by auto
  then show ?case
    by (cases "h w a") (auto simp: Cons.IH print_exception_and_abort_def split: fault.splits)
qed

section \<open>The contract as a locale\<close>

definition exclusive_ok ::
  "('act \<Rightarrow> 'k) \<Rightarrow> ('k \<Rightarrow> bool) \<Rightarrow> ('act, 'msg, 'z) queue_state_scheme \<Rightarrow> bool" where
  "exclusive_ok kind exclusive w \<longleftrightarrow>
     heap_wf w \<and> set (m_active w) \<union> set (m_pending w) \<subseteq> dom (heap w) \<and>
     (\<forall>k. exclusive k \<longrightarrow> length (filter (\<lambda>a. kind_of kind w a = Some k) (m_active w)) \<le> 1)"

lemma exclusive_okI_extend:
  assumes ok: "exclusive_ok kind exclusive w" and ext: "heap_extends kind w w'" and wf: "heap_wf w'"
    and act: "m_active w' = m_active w" and pend: "m_pending w' = m_pending w"
  shows "exclusive_ok kind exclusive w'"
proof -
  have dom: "dom (heap w) \<subseteq> dom (heap w')" using ext by (rule heap_extends_dom)
  have "filter (\<lambda>a. kind_of kind w' a = Some k) (m_active w) = filter (\<lambda>a. kind_of kind w a = Some k) (m_active w)" for k
    by (rule filter_cong [OF refl])
      (use ok heap_extends_kind_of [OF ext] in \<open>auto simp: exclusive_ok_def\<close>)
  with ok wf act pend subset_trans [OF _ dom] show ?thesis
    by (simp add: exclusive_ok_def)
qed

lemma exclusive_ok_frame:
  "exclusive_ok kind exclusive w \<Longrightarrow> qframe kind w w' \<Longrightarrow> exclusive_ok kind exclusive w'"
  by (rule exclusive_okI_extend) (auto simp: qframe_def exclusive_ok_def)

lemma exclusive_ok_posted:
  "exclusive_ok kind exclusive w \<Longrightarrow> exclusive_ok kind exclusive (w\<lparr>posted := es\<rparr>)"
  by (simp add: exclusive_ok_def heap_wf_def kind_of_def)

lemma exclusive_ok_remove:
  assumes ok: "exclusive_ok kind exclusive w"
  shows "exclusive_ok kind exclusive (w\<lparr>m_active := remove1 p (m_active w)\<rparr>)"
proof -
  have "length (filter P (remove1 p xs)) \<le> length (filter P xs)" for P and xs :: "nat list"
    by (induction xs) auto
  moreover have "set (remove1 p (m_active w)) \<subseteq> set (m_active w)"
    by (rule set_remove1_subset)
  ultimately show ?thesis
    using ok unfolding exclusive_ok_def heap_wf_def kind_of_def
    by (simp (no_asm_use)) (meson order_trans sup.bounded_iff)
qed

lemma exclusive_ok_push:
  assumes ok: "exclusive_ok kind exclusive w" and a: "heap w a = Some x"
    and free: "exclusive (kind x) \<Longrightarrow> \<forall>b \<in> set (m_active w). kind_of kind w b \<noteq> Some (kind x)"
  shows "exclusive_ok kind exclusive (w\<lparr>m_active := m_active w @ [a]\<rparr>)"
proof -
  have *: "length (filter (\<lambda>b. kind_of kind w b = Some k) (m_active w @ [a])) \<le> 1" if "exclusive k" for k
  proof (cases "k = kind x")
    case True
    with free that have "filter (\<lambda>b. kind_of kind w b = Some k) (m_active w) = []"
      by (simp add: filter_empty_conv)
    then show ?thesis by simp
  next
    case False
    then have "kind_of kind w a \<noteq> Some k" using a by (simp add: kind_of_def)
    with ok that show ?thesis by (simp add: exclusive_ok_def)
  qed
  from ok a * show ?thesis by (auto simp: exclusive_ok_def heap_wf_def kind_of_def)
qed


text \<open>The states a node reaches: its queue thread takes a step, or another thread acts on it.\<close>

inductive queue_reach ::
  "(('act, 'msg, 'z) queue_state_scheme, 'msg) vtable \<Rightarrow> bool
   \<Rightarrow> (('act, 'msg, 'z) queue_state_scheme \<Rightarrow> ('act, 'msg, 'z) queue_state_scheme \<Rightarrow> bool)
   \<Rightarrow> ('act, 'msg, 'z) queue_state_scheme \<Rightarrow> ('act, 'msg, 'z) queue_state_scheme \<Rightarrow> bool"
  for vt brk env w0 where
  reach_init: "queue_reach vt brk env w0 w0"
| reach_step: "queue_reach vt brk env w0 w \<Longrightarrow> queue_step vt brk w = Inr w' \<Longrightarrow> queue_reach vt brk env w0 w'"
| reach_env: "queue_reach vt brk env w0 w \<Longrightarrow> env w w' \<Longrightarrow> queue_reach vt brk env w0 w'"

text \<open>What the other threads of a node do to the queue: they post to it.\<close>

inductive queue_posted_by_others ::
  "('act, 'msg, 'z) queue_state_scheme \<Rightarrow> ('act, 'msg, 'z) queue_state_scheme \<Rightarrow> bool" where
  other_server: "queue_posted_by_others w (queue_serverMessage m w)"
| other_client: "queue_posted_by_others w (queue_clientMessage c m w)"
| other_activity: "new_activity x w = (a, w') \<Longrightarrow> queue_posted_by_others w (queue_startActivity a w')"

inductive_cases queue_posted_by_othersE: "queue_posted_by_others w w'"

lemma queue_posted_by_others_frame: "queue_posted_by_others w w' \<Longrightarrow> qframe kind w w'"
proof (erule queue_posted_by_othersE)
  fix x a v assume "new_activity x w = (a, v)" and "w' = queue_startActivity a v"
  then show ?thesis
    using qframe_trans [OF qframe_new [of kind w x] qframe_post] by (simp add: queue_posts)
qed (simp_all add: queue_posts qframe_post)

locale activity_system =
  fixes vt :: "(('act, 'msg, 'z) queue_state_scheme, 'msg) vtable"
    and kind :: "'act \<Rightarrow> 'k"
    and exclusive :: "'k \<Rightarrow> bool"
  assumes keepAlive_frame: "v_keepAlive vt w a = Inr w' \<Longrightarrow> qframe kind w w'"
    and start_frame: "v_start vt w a = Inr w' \<Longrightarrow> qframe kind w w'"
    and serverMessage_frame: "v_serverMessage vt m w a = Inr (w', b) \<Longrightarrow> qframe kind w w'"
    and clientMessage_frame: "v_clientMessage vt c m w a = Inr (w', b) \<Longrightarrow> qframe kind w w'"
    and jobComplete_frame: "v_jobComplete vt j w a = Inr (w', b) \<Longrightarrow> qframe kind w w'"
    and activityComplete_frame: "v_activityComplete vt p w a = Inr (w', b) \<Longrightarrow> qframe kind w w'"
    and simulationLockStarted_frame: "v_simulationLockStarted vt w a = Inr w' \<Longrightarrow> qframe kind w w'"
    and exclusive_precondition:
      "v_precondition vt w a active \<Longrightarrow> heap w a = Some x \<Longrightarrow> exclusive (kind x)
       \<Longrightarrow> \<forall>b \<in> set active. kind_of kind w b \<noteq> Some (kind x)"
begin

text \<open>A message, a finished job or the start of the simulation lock never changes what is scheduled.\<close>

lemma serverMessage_keeps: "Queue_OnServerMessage vt brk m w = Inr w' \<Longrightarrow> qframe kind w w'"
  unfolding Queue_OnServerMessage_def
  by (rule notify_until_rel [where R = "qframe kind"]) (auto intro: serverMessage_frame qframe_trans)

lemma clientMessage_keeps: "Queue_OnClientMessage vt brk c m w = Inr w' \<Longrightarrow> qframe kind w w'"
  unfolding Queue_OnClientMessage_def
  by (rule notify_until_rel [where R = "qframe kind"]) (auto intro: clientMessage_frame qframe_trans)

lemma jobComplete_keeps: "Queue_OnJobComplete vt brk j w = Inr w' \<Longrightarrow> qframe kind w w'"
  unfolding Queue_OnJobComplete_def
  by (rule notify_until_rel [where R = "qframe kind"]) (auto intro: jobComplete_frame qframe_trans)

lemma simulationLock_keeps: "Queue_OnSimulationLockStarted vt w = Inr w' \<Longrightarrow> qframe kind w w'"
  unfolding Queue_OnSimulationLockStarted_def
  by (rule notify_all_rel [where R = "qframe kind"])
    (auto intro: simulationLockStarted_frame qframe_trans)

lemma keepAlive_keeps: "Queue_OnKeepAlive vt ec w = Inr (w', again) \<Longrightarrow> qframe kind w w'"
  unfolding Queue_OnKeepAlive_def
  by (elim andThen_InrE, rule notify_all_rel [where R = "qframe kind"])
    (auto intro: keepAlive_frame qframe_trans)

lemma scan_keeps:
  "complete_scan (v_activityComplete vt p) p as w = Inr (w', found) \<Longrightarrow> qframe kind w w' \<and> found = (p \<in> set as)"
  by (rule complete_scan_rel [where R = "qframe kind"])
    (auto intro: activityComplete_frame qframe_trans)

text \<open>Activities become active in the order in which they were started.\<close>

lemma start_order:
  assumes "Queue_OnStartActivity vt a w = Inr w'"
  shows "m_active w' @ m_pending w' = m_active w @ m_pending w @ [a]"
  using assms by (auto simp: Queue_OnStartActivity_def qframe_lists dest!: start_frame split: if_splits)

lemma admit_order:
  assumes "Queue_admit_pending vt w = Inr w'"
  shows "m_active w' @ m_pending w' = m_active w @ m_pending w"
    and "m_pending w' = m_pending w \<or> m_pending w' = tl (m_pending w)"
  using assms
  by (auto simp: Queue_admit_pending_def qframe_lists dest!: start_frame split: if_splits list.splits)

lemma complete_order:
  assumes "Queue_OnActivityComplete vt p w = Inr w'"
  shows "p \<in> set (m_active w)"
    and "m_active w' @ m_pending w' = remove1 p (m_active w) @ m_pending w"
    and "m_pending w' = m_pending w \<or> m_pending w' = tl (m_pending w)"
proof -
  from assms obtain v found where scan: "complete_scan (v_activityComplete vt p) p (m_active w) w = Inr (v, found)"
    and rest: "(if found then Queue_admit_pending vt (v\<lparr>m_active := remove1 p (m_active v)\<rparr>)
                else Inl (Uncaught ''Failed to find activity'')) = Inr w'"
    unfolding Queue_OnActivityComplete_def by (auto simp: andThen_eq_Inr)
  from scan_keeps [OF scan] have fr: "qframe kind w v" and found: "found = (p \<in> set (m_active w))" by auto
  from rest have "found" and adm: "Queue_admit_pending vt (v\<lparr>m_active := remove1 p (m_active v)\<rparr>) = Inr w'"
    by (auto split: if_splits)
  with found show "p \<in> set (m_active w)" by simp
  show "m_active w' @ m_pending w' = remove1 p (m_active w) @ m_pending w"
    and "m_pending w' = m_pending w \<or> m_pending w' = tl (m_pending w)"
    using admit_order [OF adm] qframe_lists [OF fr] by simp_all
qed

text \<open>Completing an activity that is not active takes the process down.\<close>

lemma complete_twice_fails:
  assumes "p \<notin> set (m_active w)" shows "\<exists>e. Queue_OnActivityComplete vt p w = Inl e"
  using complete_order(1) [of p w] assms by (cases "Queue_OnActivityComplete vt p w") auto

text \<open>At most one activity of each exclusive class is active.\<close>

lemma start_exclusive:
  assumes ok: "exclusive_ok kind exclusive w" and run: "Queue_OnStartActivity vt a w = Inr w'"
  shows "exclusive_ok kind exclusive w'"
proof -
  from run obtain x where x: "heap w a = Some x"
    by (auto simp: Queue_OnStartActivity_def split: if_splits)
  show ?thesis
  proof (cases "m_pending w = [] \<and> v_precondition vt w a (m_active w)")
    case True
    with run x have "v_start vt (w\<lparr>m_active := m_active w @ [a]\<rparr>) a = Inr w'"
      by (simp add: Queue_OnStartActivity_def)
    then have "qframe kind (w\<lparr>m_active := m_active w @ [a]\<rparr>) w'" by (rule start_frame)
    moreover have "exclusive_ok kind exclusive (w\<lparr>m_active := m_active w @ [a]\<rparr>)"
      using True ok x exclusive_precondition [of w a "m_active w" x] by (intro exclusive_ok_push) auto
    ultimately show ?thesis by (rule exclusive_ok_frame [rotated])
  next
    case False
    with run x have "w' = w\<lparr>m_pending := m_pending w @ [a]\<rparr>"
      by (auto simp: Queue_OnStartActivity_def split: if_splits)
    with ok x show ?thesis by (auto simp: exclusive_ok_def heap_wf_def kind_of_def)
  qed
qed

lemma admit_exclusive:
  assumes ok: "exclusive_ok kind exclusive w" and run: "Queue_admit_pending vt w = Inr w'"
  shows "exclusive_ok kind exclusive w'"
proof (cases "m_pending w")
  case Nil
  with ok run show ?thesis by (simp add: Queue_admit_pending_def)
next
  case (Cons a rest)
  then obtain x where x: "heap w a = Some x" using ok by (auto simp: exclusive_ok_def)
  show ?thesis
  proof (cases "v_precondition vt w a (m_active w)")
    case True
    let ?v = "w\<lparr>m_pending := rest\<rparr>"
    have "exclusive_ok kind exclusive ?v"
      using ok Cons by (auto simp: exclusive_ok_def heap_wf_def kind_of_def)
    moreover have "exclusive (kind x) \<Longrightarrow> \<forall>b \<in> set (m_active w). kind_of kind w b \<noteq> Some (kind x)"
      using exclusive_precondition [of w a "m_active w" x] True x by simp
    ultimately have "exclusive_ok kind exclusive (?v\<lparr>m_active := m_active ?v @ [a]\<rparr>)"
      using x by (intro exclusive_ok_push) (auto simp: kind_of_def)
    moreover from True Cons run have "v_start vt (?v\<lparr>m_active := m_active ?v @ [a]\<rparr>) a = Inr w'"
      by (simp add: Queue_admit_pending_def)
    then have "qframe kind (?v\<lparr>m_active := m_active ?v @ [a]\<rparr>) w'" by (rule start_frame)
    ultimately show ?thesis by (rule exclusive_ok_frame)
  next
    case False
    with ok run Cons show ?thesis by (simp add: Queue_admit_pending_def)
  qed
qed

lemma complete_exclusive:
  assumes ok: "exclusive_ok kind exclusive w" and run: "Queue_OnActivityComplete vt p w = Inr w'"
  shows "exclusive_ok kind exclusive w'"
proof -
  from run obtain v where scan: "complete_scan (v_activityComplete vt p) p (m_active w) w = Inr (v, True)"
    and adm: "Queue_admit_pending vt (v\<lparr>m_active := remove1 p (m_active v)\<rparr>) = Inr w'"
    unfolding Queue_OnActivityComplete_def by (auto simp: andThen_eq_Inr split: if_splits)
  have "exclusive_ok kind exclusive v"
    using ok scan_keeps [OF scan] by (blast intro: exclusive_ok_frame)
  then show ?thesis using adm by (blast intro: exclusive_ok_remove admit_exclusive)
qed

lemma step_exclusive:
  assumes ok: "exclusive_ok kind exclusive w" and run: "queue_step vt brk w = Inr w'"
  shows "exclusive_ok kind exclusive w'"
proof (cases "posted w")
  case Nil
  with ok run show ?thesis by (simp add: queue_step_def)
next
  case (Cons e es)
  note ok' = exclusive_ok_posted [OF ok, of es]
  from run Cons have "queue_handle vt brk e (w\<lparr>posted := es\<rparr>) = Inr w'"
    by (simp add: queue_step_def)
  then show ?thesis
    using ok' start_exclusive [OF ok'] complete_exclusive [OF ok'] serverMessage_keeps
      clientMessage_keeps jobComplete_keeps simulationLock_keeps exclusive_ok_frame [OF ok']
    by (cases e) (fastforce simp: queue_handle_def)+
qed

lemma reach_exclusive:
  assumes "queue_reach vt brk env w0 w" and "exclusive_ok kind exclusive w0"
    and "\<And>v v'. env v v' \<Longrightarrow> qframe kind v v'"
  shows "exclusive_ok kind exclusive w"
  using assms(1,2)
  by (induction rule: queue_reach.induct) (auto intro: step_exclusive exclusive_ok_frame assms(3))

end

section \<open>Invariants of a node's own state\<close>

text \<open>
  An invariant of what the node keeps beside its queue: every virtual function keeps it and the
  scheduling lists do not matter to it.  Then every reachable state has it.
\<close>

locale node_invariant =
  fixes vt :: "(('act, 'msg, 'z) queue_state_scheme, 'msg) vtable"
    and I :: "('act, 'msg, 'z) queue_state_scheme \<Rightarrow> bool"
  assumes start_keeps: "I w \<Longrightarrow> v_start vt w a = Inr w' \<Longrightarrow> I w'"
    and server_keeps: "I w \<Longrightarrow> v_serverMessage vt m w a = Inr (w', b) \<Longrightarrow> I w'"
    and client_keeps: "I w \<Longrightarrow> v_clientMessage vt c m w a = Inr (w', b) \<Longrightarrow> I w'"
    and job_keeps: "I w \<Longrightarrow> v_jobComplete vt j w a = Inr (w', b) \<Longrightarrow> I w'"
    and complete_keeps: "I w \<Longrightarrow> v_activityComplete vt p w a = Inr (w', b) \<Longrightarrow> I w'"
    and simulation_keeps: "I w \<Longrightarrow> v_simulationLockStarted vt w a = Inr w' \<Longrightarrow> I w'"
    and lists_irrelevant:
      "I (w\<lparr>m_active := as\<rparr>) = I w" "I (w\<lparr>m_pending := as\<rparr>) = I w" "I (w\<lparr>posted := es\<rparr>) = I w"
begin

lemma until_keeps:
  assumes "\<And>v a v' b. I v \<Longrightarrow> h v a = Inr (v', b) \<Longrightarrow> I v'" and "notify_until brk h as w = Inr w'" and "I w"
  shows "I w'"
  using notify_until_rel [where R = "\<lambda>v v'. I v \<longrightarrow> I v'", OF _ _ _ assms(2)] assms(1,3) by blast

lemma admit_keeps: "I w \<Longrightarrow> Queue_admit_pending vt w = Inr w' \<Longrightarrow> I w'"
  by (auto simp: Queue_admit_pending_def lists_irrelevant
      intro: start_keeps [of "w\<lparr>m_pending := _, m_active := _\<rparr>"] split: list.splits if_splits)

lemma finish_keeps:
  assumes "I w" and run: "Queue_OnActivityComplete vt p w = Inr w'"
  shows "I w'"
proof -
  from run obtain v where scan: "complete_scan (v_activityComplete vt p) p (m_active w) w = Inr (v, True)"
    and adm: "Queue_admit_pending vt (v\<lparr>m_active := remove1 p (m_active v)\<rparr>) = Inr w'"
    unfolding Queue_OnActivityComplete_def by (auto simp: andThen_eq_Inr split: if_splits)
  have "(I w \<longrightarrow> I v) \<and> True = (p \<in> set (m_active w))"
    by (rule complete_scan_rel [where R = "\<lambda>v v'. I v \<longrightarrow> I v'", OF _ _ _ scan]) (auto intro: complete_keeps)
  with assms(1) have "I v" by simp
  then have "I (v\<lparr>m_active := remove1 p (m_active v)\<rparr>)" by (simp add: lists_irrelevant)
  then show ?thesis using adm by (rule admit_keeps)
qed

lemma step_keeps:
  assumes "I w" and run: "queue_step vt brk w = Inr w'"
  shows "I w'"
proof (cases "posted w")
  case Nil
  with assms show ?thesis by (simp add: queue_step_def)
next
  case (Cons e es)
  let ?w = "w\<lparr>posted := es\<rparr>"
  have i: "I ?w" using assms(1) by (simp add: lists_irrelevant)
  from run Cons have run: "queue_handle vt brk e ?w = Inr w'" by (simp add: queue_step_def)
  show ?thesis
  proof (cases e)
    case (EvStart a)
    have "I (?w\<lparr>m_active := m_active ?w @ [a]\<rparr>)" "I (?w\<lparr>m_pending := m_pending ?w @ [a]\<rparr>)"
      using i by (simp_all add: lists_irrelevant)
    with run EvStart show ?thesis
      by (auto simp: queue_handle_def Queue_OnStartActivity_def intro: start_keeps split: if_splits)
  next
    case (EvServer m)
    with run i show ?thesis
      by (auto simp: queue_handle_def Queue_OnServerMessage_def intro: until_keeps [OF server_keeps])
  next
    case (EvClient c m)
    with run i show ?thesis
      by (auto simp: queue_handle_def Queue_OnClientMessage_def intro: until_keeps [OF client_keeps])
  next
    case (EvJob j)
    with run i show ?thesis
      by (auto simp: queue_handle_def Queue_OnJobComplete_def intro: until_keeps [OF job_keeps])
  next
    case (EvComplete a)
    with run i show ?thesis by (auto simp: queue_handle_def intro: finish_keeps)
  next
    case EvSimLock
    with run have "notify_all (v_simulationLockStarted vt) (m_active ?w) ?w = Inr w'"
      by (simp add: queue_handle_def Queue_OnSimulationLockStarted_def)
    from notify_all_rel [where R = "\<lambda>v v'. I v \<longrightarrow> I v'", OF _ _ _ this] i show ?thesis
      by (blast intro: simulation_keeps)
  qed
qed

lemma reach_keeps:
  assumes "queue_reach vt brk env w0 w" and "I w0" and "\<And>v v'. env v v' \<Longrightarrow> I v \<Longrightarrow> I v'"
  shows "I w"
  using assms(1,2)
  by (induction rule: queue_reach.induct) (auto intro: step_keeps assms(3))

end

text \<open>A step takes the oldest event and only appends to the queue.\<close>

context activity_system
begin

lemma handle_posts:
  assumes "queue_handle vt brk e w = Inr w'"
  shows "\<exists>es. posted w' = posted w @ es"
proof (cases e)
  case (EvStart a)
  with assms show ?thesis
    by (auto simp: queue_handle_def Queue_OnStartActivity_def qframe_def dest!: start_frame split: if_splits)
next
  case (EvComplete p)
  with assms obtain v where scan: "complete_scan (v_activityComplete vt p) p (m_active w) w = Inr (v, True)"
    and adm: "Queue_admit_pending vt (v\<lparr>m_active := remove1 p (m_active v)\<rparr>) = Inr w'"
    unfolding queue_handle_def Queue_OnActivityComplete_def by (auto simp: andThen_eq_Inr split: if_splits)
  from scan_keeps [OF scan] obtain es where "posted v = posted w @ es" by (auto simp: qframe_def)
  with adm show ?thesis
    by (auto simp: Queue_admit_pending_def qframe_def dest!: start_frame split: list.splits if_splits)
next
  case (EvServer m)
  with assms serverMessage_keeps [of brk m w w'] show ?thesis by (simp add: queue_handle_def qframe_def)
next
  case (EvClient c m)
  with assms clientMessage_keeps [of brk c m w w'] show ?thesis by (simp add: queue_handle_def qframe_def)
next
  case (EvJob j)
  with assms jobComplete_keeps [of brk j w w'] show ?thesis by (simp add: queue_handle_def qframe_def)
next
  case EvSimLock
  with assms simulationLock_keeps [of w w'] show ?thesis by (simp add: queue_handle_def qframe_def)
qed

text \<open>Two completions of one activity in the queue end the process.\<close>

lemma completed_twice:
  assumes "posted w = EvComplete p # EvComplete p # es"
    and once: "distinct (m_active w)" and "p \<notin> set (m_pending w)"
  shows "\<exists>e. queue_steps 2 vt brk w = Inl e"
proof (cases "queue_step vt brk w")
  case (Inl e)
  then show ?thesis by (simp add: numeral_2_eq_2)
next
  case (Inr v)
  let ?w = "w\<lparr>posted := EvComplete p # es\<rparr>"
  from Inr assms(1) have run: "Queue_OnActivityComplete vt p ?w = Inr v"
    and h: "queue_handle vt brk (EvComplete p) ?w = Inr v"
    by (simp_all add: queue_step_def queue_handle_def)
  from handle_posts [OF h] obtain ds where post: "posted v = EvComplete p # es @ ds" by auto
  have "m_active v @ m_pending v = remove1 p (m_active w) @ m_pending w"
    using complete_order(2) [OF run] by simp
  moreover have "p \<notin> set (remove1 p (m_active w) @ m_pending w)" using once assms(3) by simp
  ultimately have "p \<notin> set (m_active v)" by (metis Un_iff set_append)
  then obtain e where "Queue_OnActivityComplete vt p (v\<lparr>posted := es @ ds\<rparr>) = Inl e"
    using complete_twice_fails [of p "v\<lparr>posted := es @ ds\<rparr>"] by auto
  with Inr post show ?thesis by (simp add: numeral_2_eq_2 queue_step_def queue_handle_def)
qed

end

end
