(* ===== verification/Sim_Lock.thy ===== *)
theory Sim_Lock
  imports Mega_Prelude
begin

text \<open>
  The simulation lock of a component: \<open>SimulationLock\<close> in \<open>src/api/megastructure/component.hpp\<close>, the
  two locks a component keeps (\<open>src/src/component/component.cpp\<close>) and the lock requests of
  \<open>EGRequestManagerActivity\<close> (\<open>src/src/component/activities.cpp\<close>).

  Other hosts take read or write locks on the component's simulation.  The current lock holds one
  entry per host that asked for this cycle; the future lock collects hosts that ask again for a
  later cycle.  Requests wait (\<open>eRead\<close>, \<open>eWrite\<close>) until the component's own thread reaches the end
  of its cycle and hands the simulation over; then all readers run together (\<open>eReading\<close>), and writers
  one at a time (\<open>eWriting\<close>), until every entry is \<open>eFinished\<close> and the lock is released.

  A handler returns the entries it granted, in order: the code calls \<open>issueLockResponse\<close> for each at
  once, which does not read the lock, so that the responses are sent after the state change
  (theory \<open>Component_Node\<close>) is not observable.  An exception aborts the process.
\<close>

section \<open>One lock\<close>

datatype lock_state = eRead | eReading | eWrite | eWriting | eFinished | TOTAL_STATES

record cycle_state =
  uiCycle :: u32
  state :: lock_state

record host_cycle_state =
  uiCoordinator :: u32
  uiHost :: u32
  cycleState :: cycle_state

type_synonym sim_lock = "host_cycle_state list"

abbreviation entry_state :: "host_cycle_state \<Rightarrow> lock_state" where
  "entry_state hcs \<equiv> state (cycleState hcs)"

definition isRead :: "sim_lock \<Rightarrow> bool" where
  "isRead l = list_ex (\<lambda>hcs. case entry_state hcs of eRead \<Rightarrow> True | _ \<Rightarrow> False) l"

definition isWrite :: "sim_lock \<Rightarrow> bool" where
  "isWrite l = list_ex (\<lambda>hcs. case entry_state hcs of eWrite \<Rightarrow> True | _ \<Rightarrow> False) l"

definition isReading :: "sim_lock \<Rightarrow> bool" where
  "isReading l = list_ex (\<lambda>hcs. case entry_state hcs of eReading \<Rightarrow> True | _ \<Rightarrow> False) l"

definition allFinished :: "sim_lock \<Rightarrow> bool" where
  "allFinished l =
     list_all (\<lambda>hcs. case entry_state hcs of
        eRead \<Rightarrow> False | eReading \<Rightarrow> False | eWrite \<Rightarrow> False | eWriting \<Rightarrow> False
      | eFinished \<Rightarrow> True | TOTAL_STATES \<Rightarrow> True) l"

fun getHostCycleState :: "sim_lock \<Rightarrow> u32 \<Rightarrow> cycle_state option" where
  "getHostCycleState [] host = None"
| "getHostCycleState (hcs # l) host =
     (if uiHost hcs = host then Some (cycleState hcs) else getHostCycleState l host)"

text \<open>The updated lock and the entry a reference to which the code returns.  An entry that is
  already there keeps its coordinator.\<close>

fun setHostCycleState ::
  "sim_lock \<Rightarrow> u32 \<Rightarrow> u32 \<Rightarrow> u32 \<Rightarrow> lock_state \<Rightarrow> sim_lock \<times> host_cycle_state" where
  "setHostCycleState [] coordinator host cycle st =
     (let hcs = \<lparr>uiCoordinator = coordinator, uiHost = host, cycleState = \<lparr>uiCycle = cycle, state = st\<rparr>\<rparr>
      in ([hcs], hcs))"
| "setHostCycleState (hcs # l) coordinator host cycle st =
     (if uiHost hcs = host
      then (let hcs' = hcs\<lparr>cycleState := \<lparr>uiCycle = cycle, state = st\<rparr>\<rparr> in (hcs' # l, hcs'))
      else (let (l', r) = setHostCycleState l coordinator host cycle st in (hcs # l', r)))"

section \<open>The two locks of a component\<close>

record sim_locks =
  m_pCurrentSimLock :: "sim_lock option"
  m_pFutureSimLock :: "sim_lock option"
  m_bCurrentLockReleased :: bool

definition getOrCreateCurrentLock :: "sim_locks \<Rightarrow> sim_lock \<times> sim_locks" where
  "getOrCreateCurrentLock s =
     (case m_pCurrentSimLock s of
        Some l \<Rightarrow> (l, s)
      | None \<Rightarrow>
          (case m_pFutureSimLock s of
             Some f \<Rightarrow> (f, s\<lparr>m_pCurrentSimLock := Some f, m_pFutureSimLock := None\<rparr>)
           | None \<Rightarrow> ([], s\<lparr>m_pCurrentSimLock := Some []\<rparr>)))"

definition getOrCreateFutureLock :: "sim_locks \<Rightarrow> sim_lock \<times> sim_locks" where
  "getOrCreateFutureLock s =
     (case m_pFutureSimLock s of
        Some f \<Rightarrow> (f, s)
      | None \<Rightarrow> ([], s\<lparr>m_pFutureSimLock := Some []\<rparr>))"

definition releaseCurrentLock :: "sim_locks \<Rightarrow> sim_locks" where
  "releaseCurrentLock s =
     s\<lparr>m_pCurrentSimLock := m_pFutureSimLock s, m_pFutureSimLock := None,
       m_bCurrentLockReleased := True\<rparr>"

section \<open>The requests\<close>

type_synonym granted = "host_cycle_state list"

definition OnReadLock :: "u32 \<Rightarrow> u32 \<Rightarrow> u32 \<Rightarrow> sim_locks \<Rightarrow> (sim_locks \<times> granted) result" where
  "OnReadLock coordinator host cycle s =
     (let (l, s1) = getOrCreateCurrentLock s in
      case getHostCycleState l host of
        Some current \<Rightarrow>
          if uiCycle current = cycle
          then Inl (Rte ''Already have lock state when requesting read lock'')
          else (let (f, s2) = getOrCreateFutureLock s1 in
                case getHostCycleState f host of
                  Some _ \<Rightarrow> Inl (Rte ''Already have future lock state'')
                | None \<Rightarrow> Inr (s2\<lparr>m_pFutureSimLock :=
                            Some (fst (setHostCycleState f coordinator host cycle eRead))\<rparr>, []))
      | None \<Rightarrow>
          if isReading l
          then (let (l', hcs) = setHostCycleState l coordinator host cycle eReading
                in Inr (s1\<lparr>m_pCurrentSimLock := Some l'\<rparr>, [hcs]))
          else Inr (s1\<lparr>m_pCurrentSimLock :=
                  Some (fst (setHostCycleState l coordinator host cycle eRead))\<rparr>, []))"

definition OnWriteLock :: "u32 \<Rightarrow> u32 \<Rightarrow> u32 \<Rightarrow> sim_locks \<Rightarrow> (sim_locks \<times> granted) result" where
  "OnWriteLock coordinator host cycle s =
     (let (l, s1) = getOrCreateCurrentLock s in
      case getHostCycleState l host of
        Some current \<Rightarrow>
          if uiCycle current = cycle
          then
            (if state current = eRead
             then Inr (s1\<lparr>m_pCurrentSimLock :=
                     Some (fst (setHostCycleState l coordinator host cycle eWrite))\<rparr>, [])
             else if state current = eReading
             then (let l1 = fst (setHostCycleState l coordinator host cycle eWrite) in
                   if \<not> isReading l1
                   then (let (l2, hcs) = setHostCycleState l1 coordinator host cycle eWriting
                         in Inr (s1\<lparr>m_pCurrentSimLock := Some l2\<rparr>, [hcs]))
                   else Inr (s1\<lparr>m_pCurrentSimLock := Some l1\<rparr>, []))
             else Inl (Rte ''Already have lock state when requesting write lock''))
          else
            (let (f, s2) = getOrCreateFutureLock s1 in
             case getHostCycleState f host of
               Some future \<Rightarrow>
                 if uiCycle future = cycle \<and> state future = eRead
                 then Inr (s2\<lparr>m_pFutureSimLock :=
                         Some (fst (setHostCycleState f coordinator host cycle eWrite))\<rparr>, [])
                 else Inl (Rte ''Already have future write lock state'')
             | None \<Rightarrow> Inr (s2\<lparr>m_pFutureSimLock :=
                         Some (fst (setHostCycleState f coordinator host cycle eWrite))\<rparr>, []))
      | None \<Rightarrow> Inr (s1\<lparr>m_pCurrentSimLock :=
                  Some (fst (setHostCycleState l coordinator host cycle eWrite))\<rparr>, []))"

definition OnLock :: "bool \<Rightarrow> u32 \<Rightarrow> u32 \<Rightarrow> u32 \<Rightarrow> sim_locks \<Rightarrow> (sim_locks \<times> granted) result" where
  "OnLock read coordinator host cycle s =
     (if read then OnReadLock coordinator host cycle s else OnWriteLock coordinator host cycle s)"

text \<open>Start every waiting reader.\<close>

fun start_readers :: "sim_lock \<Rightarrow> sim_lock \<times> granted" where
  "start_readers [] = ([], [])"
| "start_readers (hcs # l) =
     (let (l', gs) = start_readers l in
      if entry_state hcs = eRead
      then (let hcs' = hcs\<lparr>cycleState := (cycleState hcs)\<lparr>state := eReading\<rparr>\<rparr> in (hcs' # l', hcs' # gs))
      else (hcs # l', gs))"

text \<open>Start the first waiting writer; no writer is the failed \<open>VERIFY_RTE( bFoundFirst )\<close>.\<close>

fun start_writer :: "sim_lock \<Rightarrow> (sim_lock \<times> host_cycle_state) option" where
  "start_writer [] = None"
| "start_writer (hcs # l) =
     (if entry_state hcs = eWrite
      then (let hcs' = hcs\<lparr>cycleState := (cycleState hcs)\<lparr>state := eWriting\<rparr>\<rparr> in Some (hcs' # l, hcs'))
      else map_option (\<lambda>(l', r). (hcs # l', r)) (start_writer l))"

definition start_next :: "sim_lock \<Rightarrow> (sim_lock \<times> granted) result" where
  "start_next l =
     (if isRead l then Inr (start_readers l)
      else case start_writer l of
             None \<Rightarrow> Inl (Rte ''bFoundFirst'')
           | Some (l', hcs) \<Rightarrow> Inr (l', [hcs]))"

definition OnUnlock :: "u32 \<Rightarrow> u32 \<Rightarrow> u32 \<Rightarrow> sim_locks \<Rightarrow> (sim_locks \<times> granted) result" where
  "OnUnlock coordinator host cycle s =
     (case m_pCurrentSimLock s of
        None \<Rightarrow> Inl (Rte ''pCurrentLock'')
      | Some l \<Rightarrow>
          (case getHostCycleState l host of
             None \<Rightarrow> Inl (Rte ''Received unlock from host with no lock'')
           | Some _ \<Rightarrow>
               (let l1 = fst (setHostCycleState l coordinator host cycle eFinished) in
                if allFinished l1
                then Inr (releaseCurrentLock (s\<lparr>m_pCurrentSimLock := Some l1\<rparr>), [])
                else if \<not> isReading l1
                then andThen (start_next l1)
                       (\<lambda>(l2, gs). Inr (s\<lparr>m_pCurrentSimLock := Some l2\<rparr>, gs))
                else Inr (s\<lparr>m_pCurrentSimLock := Some l1\<rparr>, []))))"

definition OnSimulationLockStarted :: "sim_locks \<Rightarrow> (sim_locks \<times> granted) result" where
  "OnSimulationLockStarted s =
     (case m_pCurrentSimLock s of
        None \<Rightarrow> Inl (Rte ''pCurrentLock'')
      | Some l \<Rightarrow> andThen (start_next l) (\<lambda>(l', gs). Inr (s\<lparr>m_pCurrentSimLock := Some l'\<rparr>, gs)))"

section \<open>Counting the entries of a lock\<close>

definition entries :: "lock_state \<Rightarrow> sim_lock \<Rightarrow> nat" where
  "entries st l = length (filter (\<lambda>hcs. entry_state hcs = st) l)"

lemma entries_simps [simp]:
  "entries st [] = 0"
  "entries st (hcs # l) = (if entry_state hcs = st then 1 else 0) + entries st l"
  by (simp_all add: entries_def)

lemma entries_positive: "0 < entries st l \<longleftrightarrow> (\<exists>hcs \<in> set l. entry_state hcs = st)"
  by (induction l) auto

lemma isRead_entries: "isRead l \<longleftrightarrow> 0 < entries eRead l"
  by (induction l) (auto simp: isRead_def split: lock_state.splits)

lemma isWrite_entries: "isWrite l \<longleftrightarrow> 0 < entries eWrite l"
  by (induction l) (auto simp: isWrite_def split: lock_state.splits)

lemma isReading_entries: "isReading l \<longleftrightarrow> 0 < entries eReading l"
  by (induction l) (auto simp: isReading_def split: lock_state.splits)

lemma allFinished_entries:
  "allFinished l \<longleftrightarrow> entries eRead l = 0 \<and> entries eReading l = 0 \<and> entries eWrite l = 0 \<and> entries eWriting l = 0"
  by (induction l) (auto simp: allFinished_def split: lock_state.splits)

lemmas lock_tests = isRead_entries isWrite_entries isReading_entries allFinished_entries

lemma getHostCycleState_None: "getHostCycleState l host = None \<longleftrightarrow> host \<notin> uiHost ` set l"
  by (induction l) auto

lemma getHostCycleState_Some:
  "getHostCycleState l host = Some cs \<Longrightarrow> \<exists>hcs \<in> set l. uiHost hcs = host \<and> cycleState hcs = cs"
  by (induction l) (auto split: if_splits)

lemma get_distinct:
  "distinct (map uiHost l) \<Longrightarrow> hcs \<in> set l \<Longrightarrow> getHostCycleState l (uiHost hcs) = Some (cycleState hcs)"
  by (induction l) (auto simp: image_iff)

lemma set_entries_new:
  "getHostCycleState l host = None \<Longrightarrow>
   entries s (fst (setHostCycleState l coord host cycle st)) = entries s l + (if s = st then 1 else 0)"
  by (induction l) (auto simp: Let_def split: prod.splits if_splits)

lemma set_entries_old:
  "getHostCycleState l host = Some cs \<Longrightarrow>
   entries s (fst (setHostCycleState l coord host cycle st)) + (if s = state cs then 1 else 0)
   = entries s l + (if s = st then 1 else 0)"
  by (induction l) (auto simp: Let_def split: prod.splits if_splits)

lemma set_hosts_new:
  "getHostCycleState l host = None \<Longrightarrow>
   map uiHost (fst (setHostCycleState l coord host cycle st)) = map uiHost l @ [host]"
  by (induction l) (auto simp: Let_def split: prod.splits if_splits)

lemma set_hosts_old:
  "getHostCycleState l host = Some cs \<Longrightarrow>
   map uiHost (fst (setHostCycleState l coord host cycle st)) = map uiHost l"
  by (induction l) (auto simp: Let_def split: prod.splits if_splits)

lemma set_get:
  "getHostCycleState (fst (setHostCycleState l coord host cycle st)) host = Some \<lparr>uiCycle = cycle, state = st\<rparr>"
  by (induction l) (auto simp: Let_def split: prod.splits if_splits)

lemma set_get_other:
  "h \<noteq> host \<Longrightarrow> getHostCycleState (fst (setHostCycleState l coord host cycle st)) h = getHostCycleState l h"
  by (induction l) (auto simp: Let_def split: prod.splits if_splits)

lemma set_ref:
  "snd (setHostCycleState l coord host cycle st) \<in> set (fst (setHostCycleState l coord host cycle st))"
  "uiHost (snd (setHostCycleState l coord host cycle st)) = host"
  "entry_state (snd (setHostCycleState l coord host cycle st)) = st"
  by (induction l) (auto simp: Let_def split: prod.splits if_splits)

lemma start_readers_entries:
  "entries s (fst (start_readers l)) =
     (if s = eRead then 0 else if s = eReading then entries eReading l + entries eRead l else entries s l)"
  by (induction l) (auto simp: Let_def split: prod.splits)

lemma start_readers_hosts: "map uiHost (fst (start_readers l)) = map uiHost l"
  by (induction l) (auto simp: Let_def split: prod.splits)

lemma start_readers_granted:
  "map uiHost (snd (start_readers l)) = map uiHost (filter (\<lambda>hcs. entry_state hcs = eRead) l)"
  "\<forall>g \<in> set (snd (start_readers l)). entry_state g = eReading"
  by (induction l) (auto simp: Let_def split: prod.splits)

lemma start_writer_None: "start_writer l = None \<longleftrightarrow> entries eWrite l = 0"
  by (induction l) (auto simp: Let_def)

lemma start_writer_Some:
  "start_writer l = Some (l', g) \<Longrightarrow>
     entries eWrite l' + 1 = entries eWrite l \<and> entries eWriting l' = entries eWriting l + 1 \<and>
     (\<forall>s. s \<noteq> eWrite \<longrightarrow> s \<noteq> eWriting \<longrightarrow> entries s l' = entries s l) \<and>
     map uiHost l' = map uiHost l \<and> entry_state g = eWriting \<and> g \<in> set l'"
proof (induction l arbitrary: l')
  case Nil
  then show ?case by simp
next
  case (Cons hcs l)
  show ?case
  proof (cases "entry_state hcs = eWrite")
    case True
    with Cons.prems show ?thesis by (auto simp: Let_def)
  next
    case False
    with Cons.prems obtain l1 where l1: "start_writer l = Some (l1, g)" and l': "l' = hcs # l1"
      by (auto simp: Let_def)
    from Cons.IH [OF l1] False l' show ?thesis by auto
  qed
qed

end
