(* ===== verification/Sim_Lock_Protocol.thy ===== *)
theory Sim_Lock_Protocol
  imports Sim_Lock
begin

text \<open>
  Why the simulation lock is a lock.  \<open>lock_inv\<close> says of one lock that no writer runs beside anybody
  else, that no reader waits while readers run, and that somebody runs as soon as somebody has run.
  Every request keeps it, as long as only a host that runs unlocks.  \<open>sim_step\<close> then puts the
  queue thread's handlers and the main thread's \<open>runCycle\<close> side by side: it has every step of the
  code, the unlock of a host that holds nothing included, which the code accepts.  A run records
  its unlocks, and a run each of whose unlocks comes from a holder (\<open>held_unlock\<close>) keeps the
  component's own simulation still while a host holds a lock.
\<close>

section \<open>The invariant of one lock\<close>

definition lock_inv :: "sim_lock \<Rightarrow> bool" where
  "lock_inv l \<longleftrightarrow>
     distinct (map uiHost l) \<and> entries TOTAL_STATES l = 0 \<and> entries eWriting l \<le> 1 \<and>
     (0 < entries eWriting l \<longrightarrow> entries eReading l = 0) \<and>
     (0 < entries eReading l \<longrightarrow> entries eRead l = 0) \<and>
     (0 < entries eFinished l \<longrightarrow> 0 < entries eReading l + entries eWriting l)"

text \<open>A lock that was not handed over yet: everybody in it waits.\<close>

definition lock_waiting :: "sim_lock \<Rightarrow> bool" where
  "lock_waiting l \<longleftrightarrow>
     distinct (map uiHost l) \<and> entries TOTAL_STATES l = 0 \<and> entries eWriting l = 0 \<and>
     entries eReading l = 0 \<and> entries eFinished l = 0"

lemma lock_waiting_inv: "lock_waiting l \<Longrightarrow> lock_inv l"
  by (simp add: lock_waiting_def lock_inv_def)

lemma lock_waiting_Nil [simp]: "lock_waiting []"
  by (simp add: lock_waiting_def)

lemma lock_inv_Nil [simp]: "lock_inv []"
  by (simp add: lock_inv_def)

text \<open>The host has been granted the lock and has not given it back.\<close>

definition holds :: "sim_lock \<Rightarrow> u32 \<Rightarrow> bool" where
  "holds l host \<longleftrightarrow>
     (case getHostCycleState l host of Some cs \<Rightarrow> state cs = eReading \<or> state cs = eWriting | None \<Rightarrow> False)"

lemma total_entries:
  "entries eRead l + entries eReading l + entries eWrite l + entries eWriting l + entries eFinished l
     + entries TOTAL_STATES l = length l"
proof (induction l)
  case Nil
  then show ?case by simp
next
  case (Cons h l)
  then show ?case by (cases "entry_state h") auto
qed

lemma entries_get: "getHostCycleState l host = Some cs \<Longrightarrow> 0 < entries (state cs) l"
  by (induction l) (auto split: if_splits)

lemma waiting_new:
  assumes "lock_waiting l" and "getHostCycleState l host = None" and "st = eRead \<or> st = eWrite"
  shows "lock_waiting (fst (setHostCycleState l coord host cycle st))"
  using assms set_hosts_new [OF assms(2)]
  by (auto simp: lock_waiting_def set_entries_new getHostCycleState_None)

lemma waiting_upgrade:
  assumes "lock_waiting l" and get: "getHostCycleState l host = Some cs" and "state cs = eRead"
  shows "lock_waiting (fst (setHostCycleState l coord host cycle eWrite))"
proof -
  have "entries s (fst (setHostCycleState l coord host cycle eWrite)) + (if s = eRead then 1 else 0)
        = entries s l + (if s = eWrite then 1 else 0)" for s
    using set_entries_old [OF get] assms(3) by metis
  from this [of eWriting] this [of eReading] this [of eFinished] this [of TOTAL_STATES]
  show ?thesis
    using assms(1) by (simp add: lock_waiting_def set_hosts_old [OF get])
qed

lemma inv_new:
  assumes "lock_inv l" and get: "getHostCycleState l host = None"
    and "st = eWrite \<or> st = eRead \<and> entries eReading l = 0 \<or> st = eReading \<and> 0 < entries eReading l"
  shows "lock_inv (fst (setHostCycleState l coord host cycle st))"
  using assms by (auto simp: lock_inv_def set_entries_new set_hosts_new getHostCycleState_None)

lemma inv_upgrade_waiting:
  assumes inv: "lock_inv l" and get: "getHostCycleState l host = Some cs" and st: "state cs = eRead"
  shows "lock_inv (fst (setHostCycleState l coord host cycle eWrite))"
proof -
  note e = set_entries_old [OF get, of _ coord cycle eWrite, unfolded st]
  from inv e [of eWriting] e [of eReading] e [of eFinished] e [of TOTAL_STATES] e [of eRead]
  show ?thesis by (simp add: lock_inv_def set_hosts_old [OF get]) linarith
qed

lemma inv_upgrade_shared:
  assumes inv: "lock_inv l" and get: "getHostCycleState l host = Some cs" and st: "state cs = eReading"
  assumes l1_def: "l1 = fst (setHostCycleState l coord host cycle eWrite)"
    and others: "0 < entries eReading l1"
  shows "lock_inv l1"
proof -
  note e = set_entries_old [OF get, of _ coord cycle eWrite, unfolded st, folded l1_def]
  have "map uiHost l1 = map uiHost l" by (simp add: l1_def set_hosts_old [OF get])
  with inv others e [of eWriting] e [of eReading] e [of eFinished] e [of TOTAL_STATES] e [of eRead]
  show ?thesis by (simp add: lock_inv_def)
qed

lemma inv_upgrade_alone:
  assumes inv: "lock_inv l" and get: "getHostCycleState l host = Some cs" and st: "state cs = eReading"
  assumes l1_def: "l1 = fst (setHostCycleState l coord host cycle eWrite)"
    and alone: "entries eReading l1 = 0"
  shows "lock_inv (fst (setHostCycleState l1 coord host cycle eWriting))"
proof -
  note e = set_entries_old [OF get, of _ coord cycle eWrite, unfolded st, folded l1_def]
  have get1: "getHostCycleState l1 host = Some \<lparr>uiCycle = cycle, state = eWrite\<rparr>"
    by (simp add: l1_def set_get)
  note f = set_entries_old [OF get1, of _ coord cycle eWriting, simplified]
  have "map uiHost l1 = map uiHost l" by (simp add: l1_def set_hosts_old [OF get])
  moreover have "entries eWriting l = 0"
    using inv entries_get [OF get] st by (auto simp: lock_inv_def)
  ultimately show ?thesis
    using inv alone e [of eWriting] e [of eFinished] e [of TOTAL_STATES] f [of eWriting]
      f [of eReading] f [of eFinished] f [of TOTAL_STATES] f [of eRead]
    by (simp add: lock_inv_def set_hosts_old [OF get1])
qed

text \<open>Starting the next hosts, when nobody runs.\<close>

lemma start_next_inv:
  assumes "distinct (map uiHost l)" and "entries TOTAL_STATES l = 0"
    and idle: "entries eReading l = 0" "entries eWriting l = 0"
    and run: "start_next l = Inr (l', gs)"
  shows "lock_inv l' \<and> 0 < entries eReading l' + entries eWriting l' \<and> map uiHost l' = map uiHost l"
proof (cases "isRead l")
  case True
  with run have "l' = fst (start_readers l)" by (simp add: start_next_def fst_def split: prod.splits)
  with True assms show ?thesis
    by (simp add: lock_inv_def start_readers_hosts start_readers_entries isRead_entries)
next
  case False
  with run obtain g where "start_writer l = Some (l', g)"
    by (auto simp: start_next_def split: option.splits)
  from start_writer_Some [OF this] assms False show ?thesis
    by (simp add: lock_inv_def isRead_entries)
qed

lemma start_next_progress:
  assumes "0 < entries eRead l \<or> 0 < entries eWrite l"
  shows "\<exists>l' gs. start_next l = Inr (l', gs)"
proof (cases "isRead l")
  case True
  then show ?thesis by (simp add: start_next_def)
next
  case False
  with assms have "start_writer l \<noteq> None" by (simp add: start_writer_None isRead_entries)
  with False show ?thesis by (auto simp: start_next_def split: option.splits)
qed

text \<open>A running host leaves a lock that is not finished: either readers go on, or nobody runs and
  the next waiting hosts can be started.\<close>

lemma unlock_cases:
  assumes inv: "lock_inv l" and get: "getHostCycleState l host = Some cs"
    and runs: "state cs = eReading \<or> state cs = eWriting"
    and l1_def: "l1 = fst (setHostCycleState l coord host cycle eFinished)"
  shows "distinct (map uiHost l1)" "entries TOTAL_STATES l1 = 0"
    and "0 < entries eReading l1 \<Longrightarrow> lock_inv l1"
    and "entries eReading l1 = 0 \<Longrightarrow> entries eWriting l1 = 0"
    and "\<not> allFinished l1 \<Longrightarrow> entries eReading l1 = 0 \<Longrightarrow> 0 < entries eRead l1 \<or> 0 < entries eWrite l1"
proof -
  note e = set_entries_old [OF get, of _ coord cycle eFinished, folded l1_def]
  have hosts: "map uiHost l1 = map uiHost l" by (simp add: l1_def set_hosts_old [OF get])
  have pos: "0 < entries (state cs) l" by (rule entries_get [OF get])
  note es = e [of eRead] e [of eReading] e [of eWrite] e [of eWriting] e [of eFinished] e [of TOTAL_STATES]
  show "distinct (map uiHost l1)" using inv hosts by (simp add: lock_inv_def)
  show "entries TOTAL_STATES l1 = 0" using inv es runs by (auto simp: lock_inv_def)
  show "0 < entries eReading l1 \<Longrightarrow> lock_inv l1"
    using inv es runs pos hosts by (auto simp: lock_inv_def)
  show w: "entries eReading l1 = 0 \<Longrightarrow> entries eWriting l1 = 0"
    using inv es runs pos by (auto simp: lock_inv_def)
  show "\<not> allFinished l1 \<Longrightarrow> entries eReading l1 = 0 \<Longrightarrow> 0 < entries eRead l1 \<or> 0 < entries eWrite l1"
    using w by (auto simp: allFinished_entries)
qed


section \<open>The two locks and the main thread\<close>

text \<open>\<open>runCycle\<close> hands the simulation over when there is a current lock: it posts the start of the lock
  and waits until the lock is released.  The result says whether the main thread waits.\<close>

definition runCycle_handover :: "sim_locks \<Rightarrow> sim_locks \<times> bool" where
  "runCycle_handover s =
     (if m_pCurrentSimLock s \<noteq> None then (s\<lparr>m_bCurrentLockReleased := False\<rparr>, True) else (s, False))"

record lock_world =
  locks :: sim_locks
  main_waits :: bool
  starts_posted :: nat

text \<open>A step is labelled with the unlock it is, if it is one: the locks that the unlock finds, and the
  host it is for.\<close>

type_synonym unlock_event = "sim_locks \<times> u32"

inductive sim_step :: "lock_world \<Rightarrow> unlock_event list \<Rightarrow> lock_world \<Rightarrow> bool" where
  step_lock: "OnLock rd coord host cycle (locks w) = Inr (s', gs) \<Longrightarrow> sim_step w [] (w\<lparr>locks := s'\<rparr>)"
| step_unlock: "OnUnlock coord host cycle (locks w) = Inr (s', gs) \<Longrightarrow>
     sim_step w [(locks w, host)] (w\<lparr>locks := s'\<rparr>)"
| step_handover: "\<not> main_waits w \<Longrightarrow> runCycle_handover (locks w) = (s', True) \<Longrightarrow>
     sim_step w [] (w\<lparr>locks := s', main_waits := True, starts_posted := Suc (starts_posted w)\<rparr>)"
| step_started: "starts_posted w = Suc n \<Longrightarrow> OnSimulationLockStarted (locks w) = Inr (s', gs) \<Longrightarrow>
     sim_step w [] (w\<lparr>locks := s', starts_posted := n\<rparr>)"
| step_wake: "main_waits w \<Longrightarrow> m_bCurrentLockReleased (locks w) \<Longrightarrow> sim_step w [] (w\<lparr>main_waits := False\<rparr>)"

definition init_lock_world :: lock_world where
  "init_lock_world =
     \<lparr>locks = \<lparr>m_pCurrentSimLock = None, m_pFutureSimLock = None, m_bCurrentLockReleased = False\<rparr>,
      main_waits = False, starts_posted = 0\<rparr>"

text \<open>A run with the unlocks it made, and what a run can reach.\<close>

inductive sim_run :: "unlock_event list \<Rightarrow> lock_world \<Rightarrow> bool" where
  sim_init: "sim_run [] init_lock_world"
| sim_next: "sim_run tr w \<Longrightarrow> sim_step w us w' \<Longrightarrow> sim_run (tr @ us) w'"

definition sim_reach :: "lock_world \<Rightarrow> bool" where
  "sim_reach w \<longleftrightarrow> (\<exists>tr. sim_run tr w)"

text \<open>The unlock comes from a host that holds the current lock.\<close>

fun held_unlock :: "unlock_event \<Rightarrow> bool" where
  "held_unlock (s, host) = (case m_pCurrentSimLock s of Some l \<Rightarrow> holds l host | None \<Rightarrow> False)"

lemma held_unlock_iff: "held_unlock (s, host) \<longleftrightarrow> (\<exists>l. m_pCurrentSimLock s = Some l \<and> holds l host)"
  by (auto split: option.splits)

lemma sim_reach_next: "sim_reach w \<Longrightarrow> sim_step w us w' \<Longrightarrow> sim_reach w'"
  by (auto simp: sim_reach_def intro: sim_next)

definition future_ok :: "sim_locks \<Rightarrow> bool" where
  "future_ok s \<longleftrightarrow>
     (m_pCurrentSimLock s = None \<longrightarrow> m_pFutureSimLock s = None) \<and>
     (\<forall>f. m_pFutureSimLock s = Some f \<longrightarrow> lock_waiting f \<and> f \<noteq> [])"

text \<open>Nobody holds the current lock, if there is one.\<close>

definition idle :: "sim_locks \<Rightarrow> bool" where
  "idle s \<longleftrightarrow> (\<forall>l. m_pCurrentSimLock s = Some l \<longrightarrow> lock_waiting l \<and> l \<noteq> [])"

definition busy :: "sim_locks \<Rightarrow> bool" where
  "busy s \<longleftrightarrow> (\<exists>l. m_pCurrentSimLock s = Some l \<and> lock_inv l \<and> 0 < entries eReading l + entries eWriting l)"

definition sim_inv :: "lock_world \<Rightarrow> bool" where
  "sim_inv w \<longleftrightarrow> future_ok (locks w) \<and>
     (if main_waits w \<and> \<not> m_bCurrentLockReleased (locks w)
      then starts_posted w = 1 \<and> idle (locks w) \<and> m_pCurrentSimLock (locks w) \<noteq> None
         \<or> starts_posted w = 0 \<and> busy (locks w)
      else starts_posted w = 0 \<and> idle (locks w))"

lemma set_nonempty [simp]: "fst (setHostCycleState l coord host cycle st) \<noteq> []"
  by (induction l) (auto simp: Let_def split: prod.splits)

lemma OnLock_idle:
  assumes run: "OnLock rd coord host cycle s = Inr (s', gs)" and ok: "future_ok s" and idle: "idle s"
  shows "future_ok s' \<and> idle s' \<and> m_pCurrentSimLock s' \<noteq> None \<and> gs = []
       \<and> m_bCurrentLockReleased s' = m_bCurrentLockReleased s"
proof -
  obtain l where cur: "getOrCreateCurrentLock s = (l, s\<lparr>m_pCurrentSimLock := Some l\<rparr>)" and l: "lock_waiting l"
    using ok idle
    by (cases "m_pCurrentSimLock s") (auto simp: getOrCreateCurrentLock_def future_ok_def idle_def)
  obtain f where fut: "getOrCreateFutureLock (s\<lparr>m_pCurrentSimLock := Some l\<rparr>)
      = (f, s\<lparr>m_pCurrentSimLock := Some l, m_pFutureSimLock := Some f\<rparr>)" and f: "lock_waiting f"
    using ok by (cases "m_pFutureSimLock s") (auto simp: getOrCreateFutureLock_def future_ok_def)
  have nr: "\<not> isReading l" using l by (simp add: isReading_entries lock_waiting_def)
  have nr': "state cs \<noteq> eReading" if "getHostCycleState l host = Some cs" for cs
    using entries_get [OF that] l by (auto simp: lock_waiting_def)
  have ne: "l \<noteq> []" if "getHostCycleState l host = Some cs" for cs
    using that by auto
  note upd = waiting_new [OF l] waiting_new [OF f] waiting_upgrade [OF l] waiting_upgrade [OF f]
  show ?thesis
    using run ok l nr nr' ne upd
    by (auto simp: OnLock_def OnReadLock_def OnWriteLock_def cur fut future_ok_def idle_def Let_def
        case_prod_unfold split: if_splits option.splits)
qed

lemma OnLock_busy:
  assumes run: "OnLock rd coord host cycle s = Inr (s', gs)" and ok: "future_ok s" and busy: "busy s"
  shows "future_ok s' \<and> busy s' \<and> m_bCurrentLockReleased s' = m_bCurrentLockReleased s"
proof -
  from busy obtain l where sl: "m_pCurrentSimLock s = Some l" and l: "lock_inv l"
    and r: "0 < entries eReading l + entries eWriting l" by (auto simp: busy_def)
  have cur: "getOrCreateCurrentLock s = (l, s)" by (simp add: getOrCreateCurrentLock_def sl)
  obtain f where fut: "getOrCreateFutureLock s = (f, s\<lparr>m_pFutureSimLock := Some f\<rparr>)" and f: "lock_waiting f"
    using ok by (cases "m_pFutureSimLock s") (auto simp: getOrCreateFutureLock_def future_ok_def)
  show ?thesis
  proof (cases "getHostCycleState l host")
    case None
    note e = set_entries_new [OF None]
    show ?thesis
      using run ok None sl r inv_new [OF l None]
      by (auto simp: OnLock_def OnReadLock_def OnWriteLock_def cur future_ok_def busy_def Let_def e
          isReading_entries case_prod_unfold split: if_splits)
  next
    case (Some cs)
    note up = set_entries_old [OF Some, of _ coord cycle eWrite]
    let ?l1 = "fst (setHostCycleState l coord host cycle eWrite)"
    have get1: "getHostCycleState ?l1 host = Some \<lparr>uiCycle = cycle, state = eWrite\<rparr>" by (rule set_get)
    have w: "0 < entries eWriting (fst (setHostCycleState ?l1 coord host cycle eWriting))"
      using set_entries_old [OF get1, of eWriting coord cycle eWriting] by simp
    have rd: "state cs = eRead \<Longrightarrow> 0 < entries eReading ?l1 + entries eWriting ?l1"
      using up [of eReading] up [of eWriting] r by simp
    note inv = inv_upgrade_waiting [OF l Some] inv_upgrade_shared [OF l Some _ refl]
      inv_upgrade_alone [OF l Some _ refl]
    show ?thesis
      using run ok Some sl l r w rd inv waiting_new [OF f] waiting_upgrade [OF f]
      by (auto simp: OnLock_def OnReadLock_def OnWriteLock_def cur fut future_ok_def busy_def Let_def
          isReading_entries case_prod_unfold split: if_splits option.splits)
  qed
qed

lemma OnUnlock_effect:
  assumes run: "OnUnlock coord host cycle s = Inr (s', gs)" and ok: "future_ok s" and busy: "busy s"
    and cur: "m_pCurrentSimLock s = Some l" and h: "holds l host"
  shows "future_ok s' \<and> (busy s' \<and> m_bCurrentLockReleased s' = m_bCurrentLockReleased s
                         \<or> idle s' \<and> m_bCurrentLockReleased s')"
proof -
  from busy cur have inv: "lock_inv l" by (simp add: busy_def)
  from h obtain cs where get: "getHostCycleState l host = Some cs"
    and runs: "state cs = eReading \<or> state cs = eWriting" by (auto simp: holds_def split: option.splits)
  let ?l1 = "fst (setHostCycleState l coord host cycle eFinished)"
  note u = unlock_cases [OF inv get runs refl, of coord cycle]
  have next_busy: "busy (s\<lparr>m_pCurrentSimLock := Some l2\<rparr>)"
    if "start_next ?l1 = Inr (l2, gs)" "entries eReading ?l1 = 0" for l2
    using start_next_inv [OF u(1,2) that(2) u(4) [OF that(2)] that(1)] by (simp add: busy_def)
  have release: "future_ok (releaseCurrentLock s) \<and> idle (releaseCurrentLock s) \<and> m_bCurrentLockReleased (releaseCurrentLock s)"
    using ok by (simp add: releaseCurrentLock_def future_ok_def idle_def)
  show ?thesis
    using run ok u(3) next_busy release
    by (auto simp: OnUnlock_def cur get Let_def andThen_eq_Inr isReading_entries future_ok_def busy_def
        releaseCurrentLock_def split: if_splits)
qed

lemma OnSimulationLockStarted_effect:
  assumes run: "OnSimulationLockStarted s = Inr (s', gs)" and ok: "future_ok s" and idle: "idle s"
  shows "future_ok s' \<and> busy s' \<and> m_bCurrentLockReleased s' = m_bCurrentLockReleased s"
proof -
  from run obtain l l' where cur: "m_pCurrentSimLock s = Some l" and n: "start_next l = Inr (l', gs)"
    and s': "s' = s\<lparr>m_pCurrentSimLock := Some l'\<rparr>"
    by (auto simp: OnSimulationLockStarted_def andThen_eq_Inr split: option.splits)
  have "lock_waiting l" using idle cur by (simp add: idle_def)
  then show ?thesis
    using start_next_inv [OF _ _ _ _ n] ok cur s'
    by (auto simp: lock_waiting_def future_ok_def busy_def)
qed

lemma sim_step_inv: "sim_step w us w' \<Longrightarrow> sim_inv w \<Longrightarrow> list_all held_unlock us \<Longrightarrow> sim_inv w'"
proof (induction rule: sim_step.induct)
  case (step_lock rd coord host cycle w s' gs)
  then show ?case
    using OnLock_idle [OF step_lock.hyps] OnLock_busy [OF step_lock.hyps]
    by (auto simp: sim_inv_def split: if_splits)
next
  case (step_unlock coord host cycle w s' gs)
  then obtain l where l: "m_pCurrentSimLock (locks w) = Some l" "holds l host"
    using held_unlock_iff by auto
  have "busy (locks w)" if "idle (locks w)"
    using that l entries_get [of l host]
    by (auto simp: idle_def lock_waiting_def holds_def split: option.splits)
  with step_unlock.prems have ok: "future_ok (locks w)" and busy: "busy (locks w)"
    by (auto simp: sim_inv_def split: if_splits)
  have "\<not> idle (locks w)"
    using busy by (auto simp: busy_def idle_def lock_waiting_def)
  with step_unlock.prems OnUnlock_effect [OF step_unlock.hyps ok busy l]
  show ?case by (auto simp: sim_inv_def split: if_splits)
next
  case (step_handover w s')
  then show ?case
    by (auto simp: sim_inv_def runCycle_handover_def future_ok_def idle_def split: if_splits)
next
  case (step_started w n s' gs)
  then have "future_ok (locks w)" and "idle (locks w)" and "n = 0" and "main_waits w" and
    "\<not> m_bCurrentLockReleased (locks w)"
    by (auto simp: sim_inv_def split: if_splits)
  with OnSimulationLockStarted_effect [OF step_started.hyps(2)] show ?case
    by (auto simp: sim_inv_def)
next
  case (step_wake w)
  then show ?case by (auto simp: sim_inv_def split: if_splits)
qed

lemma sim_init_inv: "sim_inv init_lock_world"
  by (simp add: sim_inv_def init_lock_world_def future_ok_def idle_def)

lemma sim_run_inv: "sim_run tr w \<Longrightarrow> list_all held_unlock tr \<Longrightarrow> sim_inv w"
  by (induction rule: sim_run.induct) (auto intro: sim_init_inv sim_step_inv)

lemma sim_inv_lock:
  assumes "sim_inv w" and "m_pCurrentSimLock (locks w) = Some l"
  shows "lock_inv l"
  using assms by (auto simp: sim_inv_def idle_def busy_def lock_waiting_inv split: if_splits)

section \<open>What needs no discipline\<close>

text \<open>Whoever unlocks: the future lock only holds waiting hosts, no host has two entries, and while
  the main thread waits for a lock that is not released the start of the lock is posted or somebody
  runs.\<close>

definition runs :: "sim_locks \<Rightarrow> bool" where
  "runs s \<longleftrightarrow> (\<exists>l. m_pCurrentSimLock s = Some l \<and> 0 < entries eReading l + entries eWriting l)"

definition hosts_ok :: "sim_locks \<Rightarrow> bool" where
  "hosts_ok s \<longleftrightarrow> future_ok s \<and> (\<forall>l. m_pCurrentSimLock s = Some l \<longrightarrow> distinct (map uiHost l))"

definition live_inv :: "lock_world \<Rightarrow> bool" where
  "live_inv w \<longleftrightarrow> hosts_ok (locks w) \<and>
     (main_waits w \<and> \<not> m_bCurrentLockReleased (locks w) \<longrightarrow> 0 < starts_posted w \<or> runs (locks w))"

lemma start_next_runs:
  assumes "start_next l = Inr (l', gs)"
  shows "0 < entries eReading l' + entries eWriting l' \<and> map uiHost l' = map uiHost l"
proof (cases "isRead l")
  case True
  with assms have "l' = fst (start_readers l)" by (simp add: start_next_def fst_def split: prod.splits)
  with True show ?thesis by (simp add: start_readers_hosts start_readers_entries isRead_entries)
next
  case False
  with assms obtain g where "start_writer l = Some (l', g)"
    by (auto simp: start_next_def split: option.splits)
  from start_writer_Some [OF this] show ?thesis by simp
qed

lemma set_distinct:
  assumes "distinct (map uiHost l)" shows "distinct (map uiHost (fst (setHostCycleState l coord host cycle st)))"
proof (cases "getHostCycleState l host")
  case None
  with assms set_hosts_new [OF None] show ?thesis by (auto simp: getHostCycleState_None)
next
  case (Some cs)
  with assms set_hosts_old [OF Some] show ?thesis by simp
qed

lemma OnLock_hosts:
  assumes run: "OnLock rd coord host cycle s = Inr (s', gs)" and ok: "hosts_ok s"
  shows "hosts_ok s' \<and> m_bCurrentLockReleased s' = m_bCurrentLockReleased s"
proof -
  obtain l where cur: "getOrCreateCurrentLock s = (l, s\<lparr>m_pCurrentSimLock := Some l\<rparr>)" and l: "distinct (map uiHost l)"
    using ok
    by (cases "m_pCurrentSimLock s") (auto simp: getOrCreateCurrentLock_def future_ok_def hosts_ok_def)
  obtain f where fut: "getOrCreateFutureLock (s\<lparr>m_pCurrentSimLock := Some l\<rparr>)
      = (f, s\<lparr>m_pCurrentSimLock := Some l, m_pFutureSimLock := Some f\<rparr>)" and f: "lock_waiting f"
    using ok by (cases "m_pFutureSimLock s") (auto simp: getOrCreateFutureLock_def future_ok_def hosts_ok_def)
  note upd = waiting_new [OF f] waiting_upgrade [OF f] set_distinct
  show ?thesis
    using run ok l upd
    by (auto simp: OnLock_def OnReadLock_def OnWriteLock_def cur fut future_ok_def hosts_ok_def Let_def
        case_prod_unfold split: if_splits option.splits)
qed

lemma OnLock_runs:
  assumes run: "OnLock rd coord host cycle s = Inr (s', gs)" and runs: "runs s"
  shows "runs s'"
proof -
  from runs obtain l where sl: "m_pCurrentSimLock s = Some l" and r: "0 < entries eReading l + entries eWriting l"
    by (auto simp: runs_def)
  have cur: "getOrCreateCurrentLock s = (l, s)" by (simp add: getOrCreateCurrentLock_def sl)
  show ?thesis
  proof (cases "getHostCycleState l host")
    case None
    note e = set_entries_new [OF None]
    show ?thesis
      using run None sl r
      by (auto simp: OnLock_def OnReadLock_def OnWriteLock_def cur runs_def Let_def e case_prod_unfold
          split: if_splits)
  next
    case (Some cs)
    note up = set_entries_old [OF Some, of _ coord cycle eWrite]
    let ?l1 = "fst (setHostCycleState l coord host cycle eWrite)"
    have get1: "getHostCycleState ?l1 host = Some \<lparr>uiCycle = cycle, state = eWrite\<rparr>" by (rule set_get)
    have w: "0 < entries eWriting (fst (setHostCycleState ?l1 coord host cycle eWriting))"
      using set_entries_old [OF get1, of eWriting coord cycle eWriting] by simp
    have rd: "state cs = eRead \<Longrightarrow> 0 < entries eReading ?l1 + entries eWriting ?l1"
      using up [of eReading] up [of eWriting] r by simp
    show ?thesis
      using run Some sl r w rd
      by (auto simp: OnLock_def OnReadLock_def OnWriteLock_def cur getOrCreateFutureLock_def runs_def Let_def
          isReading_entries case_prod_unfold split: if_splits option.splits)
  qed
qed

lemma OnUnlock_live:
  assumes run: "OnUnlock coord host cycle s = Inr (s', gs)" and ok: "hosts_ok s"
  shows "hosts_ok s' \<and> (m_bCurrentLockReleased s' \<or> runs s' \<and> m_bCurrentLockReleased s' = m_bCurrentLockReleased s)"
proof -
  from run obtain l cs where cur: "m_pCurrentSimLock s = Some l" and get: "getHostCycleState l host = Some cs"
    by (auto simp: OnUnlock_def split: option.splits)
  let ?l1 = "fst (setHostCycleState l coord host cycle eFinished)"
  have d: "distinct (map uiHost ?l1)" using ok cur by (simp add: hosts_ok_def set_distinct)
  have n: "distinct (map uiHost l2) \<and> runs (s\<lparr>m_pCurrentSimLock := Some l2\<rparr>)" if "start_next ?l1 = Inr (l2, gs)" for l2
    using start_next_runs [OF that] d by (simp add: runs_def)
  show ?thesis
  proof (cases "allFinished ?l1")
    case True
    with run have "s' = releaseCurrentLock (s\<lparr>m_pCurrentSimLock := Some ?l1\<rparr>)"
      by (simp add: OnUnlock_def cur get Let_def)
    with ok show ?thesis
      by (auto simp: releaseCurrentLock_def future_ok_def hosts_ok_def lock_waiting_def)
  next
    case False
    with run ok d n show ?thesis
      by (auto simp: OnUnlock_def cur get Let_def andThen_eq_Inr isReading_entries future_ok_def hosts_ok_def
          runs_def split: if_splits)
  qed
qed

lemma OnSimulationLockStarted_live:
  assumes run: "OnSimulationLockStarted s = Inr (s', gs)" and ok: "hosts_ok s"
  shows "hosts_ok s' \<and> runs s'"
proof -
  from run obtain l l' where cur: "m_pCurrentSimLock s = Some l" and n: "start_next l = Inr (l', gs)"
    and s': "s' = s\<lparr>m_pCurrentSimLock := Some l'\<rparr>"
    by (auto simp: OnSimulationLockStarted_def andThen_eq_Inr split: option.splits)
  with start_next_runs [OF n] ok show ?thesis by (simp add: hosts_ok_def future_ok_def runs_def)
qed

lemma live_step: "sim_step w us w' \<Longrightarrow> live_inv w \<Longrightarrow> live_inv w'"
proof (induction rule: sim_step.induct)
  case (step_lock rd coord host cycle w s' gs)
  then show ?case using OnLock_hosts [OF step_lock.hyps] OnLock_runs [OF step_lock.hyps] by (auto simp: live_inv_def)
next
  case (step_unlock coord host cycle w s' gs)
  then show ?case using OnUnlock_live [OF step_unlock.hyps] by (auto simp: live_inv_def)
next
  case (step_handover w s')
  then show ?case
    by (auto simp: live_inv_def hosts_ok_def future_ok_def runCycle_handover_def split: if_splits)
next
  case (step_started w n s' gs)
  then show ?case using OnSimulationLockStarted_live [OF step_started.hyps(2)] by (auto simp: live_inv_def)
qed (simp add: live_inv_def)

lemma sim_reach_live: "sim_reach w \<Longrightarrow> live_inv w"
proof -
  have "sim_run tr w \<Longrightarrow> live_inv w" for tr
  proof (induction rule: sim_run.induct)
    case sim_init
    show ?case by (simp add: live_inv_def hosts_ok_def init_lock_world_def future_ok_def)
  qed (rule live_step)
  then show "sim_reach w \<Longrightarrow> live_inv w" by (auto simp: sim_reach_def)
qed

lemma sim_reach_future: "sim_reach w \<Longrightarrow> future_ok (locks w)"
  using sim_reach_live by (simp add: live_inv_def hosts_ok_def)

end
