(* ===== verification/Program_Runtime.thy ===== *)
theory Program_Runtime
  imports Sockets "HOL-Library.Product_Lexorder"
begin

text \<open>
  The program a component runs: \<open>src/api/megastructure/program.hpp\<close>, \<open>src/src/component/program.cpp\<close>
  and the buffers of \<open>src/src/core/buffer.cpp\<close>.

  The generated component library is loaded at run time and is not in the repository: it is the
  record \<open>plugin\<close> of what its calls answer, as functions of the calls made before.  What it calls
  back while it runs its cycle (locks, reads and writes on other components) is a list of
  \<open>mega_call\<close>s.  A call that waits for a message that never comes does not return: \<open>None\<close>.
\<close>

section \<open>Buffers\<close>

record local_buffer =
  lb_name :: string
  lb_data :: "8 word list"

record shared_buffer =
  sb_name :: string
  sb_sharedName :: string
  sb_size :: nat

definition LocalBufferImpl_ctor :: "string \<Rightarrow> nat \<Rightarrow> local_buffer" where
  "LocalBufferImpl_ctor strName szSize = \<lparr>lb_name = strName, lb_data = replicate szSize 0\<rparr>"

definition LocalBufferImpl_getSize :: "local_buffer \<Rightarrow> nat" where
  "LocalBufferImpl_getSize b = length (lb_data b)"

definition SharedBufferImpl_ctor :: "string \<Rightarrow> string \<Rightarrow> nat \<Rightarrow> shared_buffer" where
  "SharedBufferImpl_ctor strName strSharedName szSize =
     \<lparr>sb_name = strName, sb_sharedName = strSharedName, sb_size = szSize\<rparr>"

section \<open>The plugin\<close>

datatype plugin_call =
    PlInitialise
  | PlUninitialise
  | PlEncode u32 u32
  | PlDecode u32 u32 string
  | PlDecodeWrite string
  | PlCycle
  | PlLoad string
  | PlSave string

record plugin =
  pl_encode :: "plugin_call list \<Rightarrow> u32 \<Rightarrow> u32 \<Rightarrow> string result"
  pl_decode :: "plugin_call list \<Rightarrow> u32 \<Rightarrow> u32 \<Rightarrow> string \<Rightarrow> unit result"
  pl_decodeWrite :: "plugin_call list \<Rightarrow> string \<Rightarrow> unit result"
  pl_load :: "plugin_call list \<Rightarrow> string \<Rightarrow> unit result"
  pl_save :: "plugin_call list \<Rightarrow> string \<Rightarrow> unit result"
  pl_currentCycle :: "plugin_call list \<Rightarrow> u32"
  pl_hasEncodeDecode :: bool
  pl_hasConfigIO :: bool

section \<open>State of a program\<close>

text \<open>\<open>ComponentLockSet\<close> is a \<open>std::set\<close> of pairs of a signed type and a time stamp, in this order.\<close>

type_synonym lock_set = "((int \<times> u32) \<times> unit) list"

record program =
  p_hostName :: string
  p_projectName :: string
  p_componentName :: string
  p_componentPath :: string
  p_componentSrcPath :: string
  p_networkAddressTable :: "u32 list option"
  p_programTable :: "u32 list option"
  p_plugin :: plugin
  p_calls :: "plugin_call list"
  p_cacheBuffers :: "(string \<times> local_buffer) list"
  p_sharedBuffers :: "(string \<times> shared_buffer) list"
  p_componentLocks :: lock_set

definition plugin_called :: "plugin_call \<Rightarrow> program \<Rightarrow> program" where
  "plugin_called c p = p\<lparr>p_calls := p_calls p @ [c]\<rparr>"

text \<open>The component's socket for the EG protocol: what it will receive and what was sent on it.\<close>

record eg_link =
  lk_zmq :: zmq
  lk_parse :: "string \<Rightarrow> message option"
  lk_incoming :: "recv_result list"
  lk_sent :: "message list"

definition Component_sendeg :: "message \<Rightarrow> eg_link \<Rightarrow> eg_link result" where
  "Component_sendeg m lk =
     andThen (Client_send (lk_zmq lk))
       (\<lambda>ok. if ok then Inr (lk\<lparr>lk_sent := lk_sent lk @ [m]\<rparr>) else Inl (Rte ''Socket failed''))"

text \<open>\<open>readeg\<close> and \<open>readegSync\<close> over the outcome of one receive: the message, if there is one.\<close>

definition Component_readeg :: "(string \<Rightarrow> message option) \<Rightarrow> recv_result \<Rightarrow> message option result" where
  "Component_readeg parse r =
     andThen (Client_recv_async parse r)
       (\<lambda>(ok, m). if ok then Inr m else Inl (Rte ''Socket failed''))"

definition Component_readegSync :: "(string \<Rightarrow> message option) \<Rightarrow> recv_result \<Rightarrow> message option result" where
  "Component_readegSync parse r =
     andThen (Client_recv_sync parse r)
       (\<lambda>(ok, m). if ok then Inr m else Inl (Rte ''Socket failed''))"

section \<open>Construction\<close>

text \<open>
  What the project tree of the component gives (its constructor may throw) and whether the plugin
  can be loaded; the tables are built from the database when it exists.
\<close>

record program_source =
  src_tree :: "unit result"
  src_path :: string
  src_componentName :: string
  src_binDirectory :: string
  src_tables :: "(u32 list \<times> u32 list) result option"
  src_plugin :: "plugin result"

definition Program_ctor :: "string \<Rightarrow> string \<Rightarrow> program_source \<Rightarrow> program result" where
  "Program_ctor strHostName strProjectName src =
     andThen (src_tree src) (\<lambda>_.
     andThen (case src_tables src of None \<Rightarrow> Inr None | Some r \<Rightarrow> andThen r (\<lambda>t. Inr (Some t))) (\<lambda>tables.
     andThen (src_plugin src) (\<lambda>pl.
     andThen (verify_rte (pl_hasEncodeDecode pl) ''Did not get encode decode interface from program'') (\<lambda>_.
     andThen (verify_rte (pl_hasConfigIO pl) ''Did not get config IO interface from program'') (\<lambda>_.
       Inr \<lparr>p_hostName = strHostName, p_projectName = strProjectName,
            p_componentName = src_componentName src,
            p_componentPath = src_binDirectory src @ ''/'' @ src_componentName src,
            p_componentSrcPath = src_path src,
            p_networkAddressTable = map_option fst tables,
            p_programTable = map_option snd tables,
            p_plugin = pl, p_calls = [PlInitialise],
            p_cacheBuffers = [], p_sharedBuffers = [], p_componentLocks = []\<rparr>)))))"

section \<open>Memory\<close>

text \<open>\<open>getSharedBuffer\<close> after the slave has answered with the shared name of the buffer.\<close>

definition Program_getSharedBuffer :: "string \<Rightarrow> nat \<Rightarrow> string \<Rightarrow> program \<Rightarrow> shared_buffer \<times> program" where
  "Program_getSharedBuffer strBufferName szSize strBufferSharedName p =
     (case map_of (p_sharedBuffers p) strBufferName of
        Some b \<Rightarrow>
          if sb_size b = szSize \<and> sb_sharedName b = strBufferSharedName then (b, p)
          else (let b' = SharedBufferImpl_ctor strBufferName strBufferSharedName szSize
                in (b', p\<lparr>p_sharedBuffers := smap_assign strBufferName b' (p_sharedBuffers p)\<rparr>))
      | None \<Rightarrow>
          (let b' = SharedBufferImpl_ctor strBufferName strBufferSharedName szSize
           in (b', p\<lparr>p_sharedBuffers := smap_assign strBufferName b' (p_sharedBuffers p)\<rparr>)))"

definition Program_getLocalBuffer :: "string \<Rightarrow> nat \<Rightarrow> program \<Rightarrow> (local_buffer \<times> program) result" where
  "Program_getLocalBuffer strBufferName szSize p =
     (case map_of (p_cacheBuffers p) strBufferName of
        None \<Rightarrow>
          (let b = LocalBufferImpl_ctor strBufferName szSize
           in Inr (b, p\<lparr>p_cacheBuffers := smap_insert strBufferName b (p_cacheBuffers p)\<rparr>))
      | Some _ \<Rightarrow> Inl (Rte (''Duplicate buffer requested: '' @ strBufferName)))"

section \<open>Requests of other hosts\<close>

definition Program_readRequest :: "u32 \<Rightarrow> u32 \<Rightarrow> program \<Rightarrow> (string \<times> program) result" where
  "Program_readRequest iType uiInstance p =
     andThen (pl_encode (p_plugin p) (p_calls p) iType uiInstance)
       (\<lambda>buffer. Inr (buffer, plugin_called (PlEncode iType uiInstance) p))"

definition Program_readResponse :: "u32 \<Rightarrow> u32 \<Rightarrow> string \<Rightarrow> program \<Rightarrow> program result" where
  "Program_readResponse iType uiInstance strBuffer p =
     andThen (pl_decode (p_plugin p) (p_calls p) iType uiInstance strBuffer)
       (\<lambda>_. Inr (plugin_called (PlDecode iType uiInstance strBuffer) p))"

definition Program_writeRequest :: "string \<Rightarrow> program \<Rightarrow> program result" where
  "Program_writeRequest strBuffer p =
     andThen (pl_decodeWrite (p_plugin p) (p_calls p) strBuffer)
       (\<lambda>_. Inr (plugin_called (PlDecodeWrite strBuffer) p))"

section \<open>Locks, reads and writes on other components\<close>

definition eg_request_message :: "u32 \<Rightarrow> u32 \<Rightarrow> u32 \<Rightarrow> request_body \<Rightarrow> message" where
  "eg_request_message ty inst cycle body =
     EG_Msg \<lparr>eg_type = ty, eg_instance = inst, eg_cycle = cycle,
       eg_body = Some (EgRequest \<lparr>rq_coordinator = 0, rq_host = 0, rq_body = Some body\<rparr>)\<rparr>"

definition unlock_message :: "int \<times> u32 \<Rightarrow> message" where
  "unlock_message lockInfo = eg_request_message (word_of_int (fst lockInfo)) 0 (snd lockInfo) RqUnlock"

fun send_unlocks :: "lock_set \<Rightarrow> eg_link \<Rightarrow> eg_link result" where
  "send_unlocks [] lk = Inr lk"
| "send_unlocks (e # es) lk = andThen (Component_sendeg (unlock_message (fst e)) lk) (send_unlocks es)"

definition Program_releaseLocks :: "program \<Rightarrow> eg_link \<Rightarrow> (program \<times> eg_link) result" where
  "Program_releaseLocks p lk =
     andThen (send_unlocks (p_componentLocks p) lk)
       (\<lambda>lk'. Inr (p\<lparr>p_componentLocks := []\<rparr>, lk'))"

text \<open>
  The loop of \<open>readlock\<close> and \<open>writelock\<close> over the messages that arrive: a response ends it, an error
  reply is logged and the loop waits for the next message.
\<close>

fun await_lock ::
  "string \<Rightarrow> u32 \<Rightarrow> u32 \<Rightarrow> program \<Rightarrow> eg_link \<Rightarrow> recv_result list \<Rightarrow> (u32 \<times> program \<times> eg_link) result option" where
  "await_lock what ty ts p lk [] = None"
| "await_lock what ty ts p lk (r # rs) =
     (case Component_readegSync (lk_parse lk) r of
        Inl e \<Rightarrow> Some (Inl e)
      | Inr None \<Rightarrow> Some (Inr (0, p, lk\<lparr>lk_incoming := rs\<rparr>))
      | Inr (Some m) \<Rightarrow>
          (case m of
             EG_Msg egMsg \<Rightarrow>
               (case eg_body egMsg of
                  Some (EgResponse _) \<Rightarrow>
                    Some (Inr (eg_cycle egMsg,
                      p\<lparr>p_componentLocks := smap_insert (sint ty, ts) () (p_componentLocks p)\<rparr>,
                      lk\<lparr>lk_incoming := rs\<rparr>))
                | Some (EgError _) \<Rightarrow> await_lock what ty ts p lk rs
                | _ \<Rightarrow> Some (Inl (Rte (''Unexpected response to '' @ what @ '' lock request''))))
           | _ \<Rightarrow> Some (Inl (Rte ''Did not receive eg msg on eg socket''))))"

definition Program_readlock ::
  "u32 \<Rightarrow> u32 \<Rightarrow> program \<Rightarrow> eg_link \<Rightarrow> (u32 \<times> program \<times> eg_link) result option" where
  "Program_readlock iComponentType uiTimestamp p lk =
     (case Component_sendeg (eg_request_message iComponentType 0 uiTimestamp (RqLock True)) lk of
        Inl e \<Rightarrow> Some (Inl e)
      | Inr lk' \<Rightarrow> await_lock ''read'' iComponentType uiTimestamp p lk' (lk_incoming lk'))"

definition Program_writelock ::
  "u32 \<Rightarrow> u32 \<Rightarrow> program \<Rightarrow> eg_link \<Rightarrow> (u32 \<times> program \<times> eg_link) result option" where
  "Program_writelock iComponentType uiTimestamp p lk =
     (case Component_sendeg (eg_request_message iComponentType 0 uiTimestamp (RqLock False)) lk of
        Inl e \<Rightarrow> Some (Inl e)
      | Inr lk' \<Rightarrow> await_lock ''write'' iComponentType uiTimestamp p lk' (lk_incoming lk'))"

fun await_read ::
  "u32 \<Rightarrow> u32 \<Rightarrow> program \<Rightarrow> eg_link \<Rightarrow> recv_result list \<Rightarrow> (program \<times> eg_link) result option" where
  "await_read ty inst p lk [] = None"
| "await_read ty inst p lk (r # rs) =
     (case Component_readegSync (lk_parse lk) r of
        Inl e \<Rightarrow> Some (Inl e)
      | Inr None \<Rightarrow> Some (Inr (p, lk\<lparr>lk_incoming := rs\<rparr>))
      | Inr (Some m) \<Rightarrow>
          (case m of
             EG_Msg egMsg \<Rightarrow>
               (case eg_body egMsg of
                  Some (EgResponse egResponse) \<Rightarrow>
                    Some (andThen (Program_readResponse ty inst (rs_value egResponse) p)
                      (\<lambda>p'. Inr (p', lk\<lparr>lk_incoming := rs\<rparr>)))
                | Some (EgError _) \<Rightarrow> await_read ty inst p lk rs
                | _ \<Rightarrow> Some (Inl (Rte ''Unexpected message'')))
           | _ \<Rightarrow> Some (Inl (Rte ''Did not receive eg msg on eg socket''))))"

definition Program_read ::
  "u32 \<Rightarrow> u32 \<Rightarrow> u32 \<Rightarrow> program \<Rightarrow> eg_link \<Rightarrow> (program \<times> eg_link) result option" where
  "Program_read ty uiInstance uiTimestamp p lk =
     (case Component_sendeg (eg_request_message ty uiInstance uiTimestamp RqRead) lk of
        Inl e \<Rightarrow> Some (Inl e)
      | Inr lk' \<Rightarrow> await_read ty uiInstance p lk' (lk_incoming lk'))"

definition Program_write ::
  "u32 \<Rightarrow> string \<Rightarrow> u32 \<Rightarrow> eg_link \<Rightarrow> eg_link result" where
  "Program_write component buffer uiTimestamp lk =
     Component_sendeg (eg_request_message component 0 uiTimestamp (RqWrite buffer)) lk"

section \<open>A cycle\<close>

datatype mega_call =
    McReadLock u32 u32
  | McRead u32 u32 u32
  | McWriteLock u32 u32
  | McWrite u32 string u32

fun plugin_cycle :: "mega_call list \<Rightarrow> program \<Rightarrow> eg_link \<Rightarrow> (program \<times> eg_link) result option" where
  "plugin_cycle [] p lk = Some (Inr (p, lk))"
| "plugin_cycle (c # cs) p lk =
     (case (case c of
              McReadLock ty ts \<Rightarrow> map_option (\<lambda>r. andThen r (\<lambda>(_, q). Inr q)) (Program_readlock ty ts p lk)
            | McRead ty inst ts \<Rightarrow> Program_read ty inst ts p lk
            | McWriteLock ty ts \<Rightarrow> map_option (\<lambda>r. andThen r (\<lambda>(_, q). Inr q)) (Program_writelock ty ts p lk)
            | McWrite ty buffer ts \<Rightarrow> Some (andThen (Program_write ty buffer ts lk) (\<lambda>lk'. Inr (p, lk')))) of
        None \<Rightarrow> None
      | Some (Inl e) \<Rightarrow> Some (Inl e)
      | Some (Inr (p', lk')) \<Rightarrow> plugin_cycle cs p' lk')"

definition Program_run :: "mega_call list \<Rightarrow> program \<Rightarrow> eg_link \<Rightarrow> (program \<times> eg_link) result option" where
  "Program_run calls p lk =
     (case plugin_cycle calls (plugin_called PlCycle p) lk of
        None \<Rightarrow> None
      | Some (Inl e) \<Rightarrow> Some (Inl e)
      | Some (Inr (p', lk')) \<Rightarrow> Some (Program_releaseLocks p' lk'))"

definition Program_getCurrentCycle :: "program \<Rightarrow> u32" where
  "Program_getCurrentCycle p = pl_currentCycle (p_plugin p) (p_calls p)"

definition Program_loadConfig :: "program \<Rightarrow> program result" where
  "Program_loadConfig p =
     andThen (pl_load (p_plugin p) (p_calls p) (p_componentSrcPath p))
       (\<lambda>_. Inr (plugin_called (PlLoad (p_componentSrcPath p)) p))"

definition Program_saveConfig :: "program \<Rightarrow> program result" where
  "Program_saveConfig p =
     andThen (pl_save (p_plugin p) (p_calls p) (p_componentSrcPath p))
       (\<lambda>_. Inr (plugin_called (PlSave (p_componentSrcPath p)) p))"

section \<open>The event log\<close>

datatype log_level = LogTrace | LogInfo | LogError

text \<open>The level an event is logged at; \<open>sizeofReference\<close> is \<open>sizeof( eg::reference )\<close>.\<close>

definition Program_put :: "nat \<Rightarrow> string \<Rightarrow> nat \<Rightarrow> log_level result" where
  "Program_put sizeofReference eventType szSize =
     (if eventType = ''start'' then andThen (verify_rte (sizeofReference = szSize) '''') (\<lambda>_. Inr LogTrace)
      else if eventType = ''stop'' then andThen (verify_rte (sizeofReference = szSize) '''') (\<lambda>_. Inr LogTrace)
      else if eventType = ''log'' then Inr LogInfo
      else if eventType = ''error'' then Inr LogError
      else if eventType = ''pass'' then Inr LogInfo
      else if eventType = ''fail'' then Inr LogError
      else Inr LogError)"


section \<open>Facts\<close>

lemma readegSync_not_None: "Component_readegSync parse r \<noteq> Inr None"
  by (auto simp: Component_readegSync_def Client_recv_sync_def andThen_eq_Inr throwReceiveError_def
      split: recv_result.splits if_splits)

lemma sendeg_eq_Inr:
  "Component_sendeg m lk = Inr lk' \<longleftrightarrow> Client_send (lk_zmq lk) = Inr True \<and> lk' = lk\<lparr>lk_sent := lk_sent lk @ [m]\<rparr>"
  by (cases "Client_send (lk_zmq lk)") (auto simp: Component_sendeg_def)

lemma send_unlocks_sent:
  "send_unlocks es lk = Inr lk' \<Longrightarrow> lk' = lk\<lparr>lk_sent := lk_sent lk @ map (unlock_message \<circ> fst) es\<rparr>"
proof (induction es arbitrary: lk)
  case Nil
  then show ?case by simp
next
  case (Cons e es)
  then obtain lk1 where "Component_sendeg (unlock_message (fst e)) lk = Inr lk1"
    and "send_unlocks es lk1 = Inr lk'" by (auto simp: andThen_eq_Inr)
  with Cons.IH [of lk1] show ?case by (simp add: sendeg_eq_Inr)
qed

text \<open>What a program needs of another component during its cycle.\<close>

definition held :: "program \<Rightarrow> (int \<times> u32) set" where
  "held p = fst ` set (p_componentLocks p)"

lemma held_insert [simp]:
  "held (p\<lparr>p_componentLocks := smap_insert k () (p_componentLocks p)\<rparr>) = insert k (held p)"
  by (simp add: held_def fst_smap_insert)

fun locks_of :: "mega_call list \<Rightarrow> (int \<times> u32) set" where
  "locks_of [] = {}"
| "locks_of (McReadLock ty ts # cs) = insert (sint ty, ts) (locks_of cs)"
| "locks_of (McWriteLock ty ts # cs) = insert (sint ty, ts) (locks_of cs)"
| "locks_of (_ # cs) = locks_of cs"

lemma await_lock_held:
  assumes "await_lock what ty ts p lk rs = Some (Inr (t, p', lk'))"
  shows "held p' = insert (sint ty, ts) (held p) \<and> (smap_wf (p_componentLocks p) \<longrightarrow> smap_wf (p_componentLocks p'))
         \<and> lk_sent lk' = lk_sent lk"
  using assms
proof (induction rs)
  case Nil
  then show ?case by simp
next
  case (Cons r rs)
  then show ?case
    using readegSync_not_None [of "lk_parse lk" r]
    by (auto simp: smap_insert_wf
        split: sum.splits option.splits message.splits eg_body.splits)
qed

lemma await_read_held:
  assumes "await_read ty inst p lk rs = Some (Inr (p', lk'))"
  shows "held p' = held p \<and> p_componentLocks p' = p_componentLocks p \<and> lk_sent lk' = lk_sent lk"
  using assms
proof (induction rs)
  case Nil
  then show ?case by simp
next
  case (Cons r rs)
  then show ?case
    using readegSync_not_None [of "lk_parse lk" r]
    by (auto simp: held_def Program_readResponse_def plugin_called_def andThen_eq_Inr
        split: sum.splits option.splits message.splits eg_body.splits)
qed

text \<open>One lock, read or write leaves the locks of the program in order.\<close>

definition call_request :: "mega_call \<Rightarrow> message" where
  "call_request c =
     (case c of
        McReadLock ty ts \<Rightarrow> eg_request_message ty 0 ts (RqLock True)
      | McRead ty inst ts \<Rightarrow> eg_request_message ty inst ts RqRead
      | McWriteLock ty ts \<Rightarrow> eg_request_message ty 0 ts (RqLock False)
      | McWrite ty buffer ts \<Rightarrow> eg_request_message ty 0 ts (RqWrite buffer))"

lemma plugin_cycle_held:
  assumes "plugin_cycle cs p lk = Some (Inr (p', lk'))"
  shows "held p' = held p \<union> locks_of cs
       \<and> (smap_wf (p_componentLocks p) \<longrightarrow> smap_wf (p_componentLocks p'))
       \<and> lk_sent lk' = lk_sent lk @ map call_request cs"
  using assms
proof (induction cs arbitrary: p lk)
  case Nil
  then show ?case by simp
next
  case (Cons c cs)
  have step: "\<exists>q lq. plugin_cycle cs q lq = Some (Inr (p', lk')) \<and> held q = held p \<union> locks_of [c]
      \<and> (smap_wf (p_componentLocks p) \<longrightarrow> smap_wf (p_componentLocks q))
      \<and> lk_sent lq = lk_sent lk @ [call_request c]"
  proof (cases c)
    case (McReadLock ty ts)
    with Cons.prems show ?thesis
      by (fastforce simp: Program_readlock_def call_request_def sendeg_eq_Inr andThen_eq_Inr
          dest!: await_lock_held split: option.splits sum.splits)
  next
    case (McRead ty inst ts)
    with Cons.prems show ?thesis
      by (fastforce simp: Program_read_def call_request_def sendeg_eq_Inr
          dest!: await_read_held split: option.splits sum.splits)
  next
    case (McWriteLock ty ts)
    with Cons.prems show ?thesis
      by (fastforce simp: Program_writelock_def call_request_def sendeg_eq_Inr andThen_eq_Inr
          dest!: await_lock_held split: option.splits sum.splits)
  next
    case (McWrite ty buffer ts)
    with Cons.prems show ?thesis
      by (fastforce simp: Program_write_def call_request_def sendeg_eq_Inr andThen_eq_Inr
          split: option.splits sum.splits)
  qed
  have locks: "locks_of (c # cs) = locks_of [c] \<union> locks_of cs" by (cases c) auto
  from step obtain q lq where "plugin_cycle cs q lq = Some (Inr (p', lk'))" and
    "held q = held p \<union> locks_of [c]" and
    "smap_wf (p_componentLocks p) \<longrightarrow> smap_wf (p_componentLocks q)" and
    "lk_sent lq = lk_sent lk @ [call_request c]" by blast
  with Cons.IH [of q lq] show ?case by (simp add: locks Un_assoc)
qed

end
