(* ===== verification/Component_Node.thy ===== *)
theory Component_Node
  imports Activity_System Sim_Lock_Protocol Program_Runtime
begin

text \<open>
  A component, the process that runs one program under a slave: \<open>src/api/megastructure/component.hpp\<close>,
  \<open>src/src/component/component.cpp\<close>, \<open>jobs.cpp\<close>, \<open>activities.hpp\<close> and \<open>activities.cpp\<close>.

  Two threads act on it: the queue's thread, through the activities, and the main thread, which calls
  \<open>runCycle\<close>.  \<open>runCycle\<close> waits in the middle for the simulation lock, so it is two definitions,
  up to the wait (\<open>Component_runCycle_begin\<close>) and after it (\<open>Component_runCycle_end\<close>).
\<close>

section \<open>State\<close>

datatype component_activity =
    EnrollHostActivity string string string string  \<comment> \<open>host program, unique, workspace, slave name\<close>
  | AliveTestActivity
  | LoadProgramActivity string string "nat option"  \<comment> \<open>program name, host name, job\<close>
  | BufferActivity string nat "string option"  \<comment> \<open>buffer name, size, the promised shared name\<close>
  | EGRequestManagerActivity
  | ConfigActivity "nat option"

datatype component_class =
  ClsEnrollHost | ClsAliveTest | ClsLoadProgram | ClsBuffer | ClsEGRequestManager | ClsConfig

fun class_of_component :: "component_activity \<Rightarrow> component_class" where
  "class_of_component (EnrollHostActivity _ _ _ _) = ClsEnrollHost"
| "class_of_component AliveTestActivity = ClsAliveTest"
| "class_of_component (LoadProgramActivity _ _ _) = ClsLoadProgram"
| "class_of_component (BufferActivity _ _ _) = ClsBuffer"
| "class_of_component EGRequestManagerActivity = ClsEGRequestManager"
| "class_of_component (ConfigActivity _) = ClsConfig"

datatype component_job =
    LoadProgramJob string string bool  \<comment> \<open>host name, program name, success\<close>
  | ConfigJob config_type bool

record component = "(component_activity, message) queue_state" +
  c_hostProgram :: string
  c_slaveName :: string
  c_slaveWorkspacePath :: string
  c_client :: zmq
  c_sent :: "message list"
  c_egClient :: eg_link
  c_locks :: sim_locks
  c_mainWaits :: bool
  c_jobs :: "nat list"
  c_jobHeap :: "nat \<Rightarrow> component_job option"
  c_nextJob :: nat
  c_program :: "program option"
  c_sources :: "string \<Rightarrow> string \<Rightarrow> program_source"

section \<open>Operations of the component\<close>

definition Component_send :: "message \<Rightarrow> component \<Rightarrow> component result" where
  "Component_send m w =
     andThen (Client_send (c_client w))
       (\<lambda>ok. if ok then Inr (w\<lparr>c_sent := c_sent w @ [m]\<rparr>) else Inl (Rte ''Socket failed''))"

definition component_sendeg :: "message \<Rightarrow> component \<Rightarrow> component result" where
  "component_sendeg m w =
     andThen (Component_sendeg m (c_egClient w)) (\<lambda>lk. Inr (w\<lparr>c_egClient := lk\<rparr>))"

definition Component_getCurrentCycle :: "component \<Rightarrow> u32" where
  "Component_getCurrentCycle w =
     (case c_program w of None \<Rightarrow> 0 | Some p \<Rightarrow> Program_getCurrentCycle p)"

definition Component_setProgram :: "program option \<Rightarrow> component \<Rightarrow> component" where
  "Component_setProgram pProgram w = w\<lparr>c_program := pProgram\<rparr>"

definition Component_startJob :: "nat \<Rightarrow> component \<Rightarrow> component" where
  "Component_startJob pJob w = w\<lparr>c_jobs := c_jobs w @ [pJob]\<rparr>"

definition new_job :: "component_job \<Rightarrow> component \<Rightarrow> nat \<times> component" where
  "new_job j w =
     (c_nextJob w, w\<lparr>c_jobHeap := (c_jobHeap w)(c_nextJob w \<mapsto> j), c_nextJob := Suc (c_nextJob w)\<rparr>)"

definition set_job :: "nat \<Rightarrow> component_job \<Rightarrow> component \<Rightarrow> component" where
  "set_job i j w = w\<lparr>c_jobHeap := (c_jobHeap w)(i \<mapsto> j)\<rparr>"

definition Component_loadConfig :: "component \<Rightarrow> component result" where
  "Component_loadConfig w =
     (case c_program w of
        None \<Rightarrow> Inr w
      | Some p \<Rightarrow> andThen (Program_loadConfig p) (\<lambda>p'. Inr (w\<lparr>c_program := Some p'\<rparr>)))"

definition Component_saveConfig :: "component \<Rightarrow> component result" where
  "Component_saveConfig w =
     (case c_program w of
        None \<Rightarrow> Inr w
      | Some p \<Rightarrow> andThen (Program_saveConfig p) (\<lambda>p'. Inr (w\<lparr>c_program := Some p'\<rparr>)))"

text \<open>\<open>Component::getSharedBuffer\<close>: the activity that asks the slave for a buffer.\<close>

definition Component_getSharedBuffer :: "string \<Rightarrow> nat \<Rightarrow> component \<Rightarrow> nat \<times> component" where
  "Component_getSharedBuffer strName szSize w =
     (let (a, w') = new_activity (BufferActivity strName szSize None) w
      in (a, queue_startActivity a w'))"

section \<open>Jobs\<close>

text \<open>A job runs on the main thread; a \<open>std::exception\<close> in it is the failure of the job.\<close>

definition LoadProgramJob_run :: "nat \<Rightarrow> string \<Rightarrow> string \<Rightarrow> component \<Rightarrow> component result" where
  "LoadProgramJob_run job strHostName strProgramName w =
     (let finish = (\<lambda>pNew ok. queue_jobComplete job
            (Component_setProgram pNew (set_job job (LoadProgramJob strHostName strProgramName ok) w)))
      in if strHostName \<noteq> '''' \<and> strProgramName \<noteq> ''''
         then (case Program_ctor strHostName strProgramName (c_sources w strHostName strProgramName) of
                 Inr p \<Rightarrow> Inr (finish (Some p) True)
               | Inl (Rte _) \<Rightarrow> Inr (finish None False)
               | Inl (Ub m) \<Rightarrow> Inl (Ub m))
         else Inr (finish None True))"

definition ConfigJob_run :: "nat \<Rightarrow> config_type \<Rightarrow> component \<Rightarrow> component result" where
  "ConfigJob_run job type w =
     (let finish = (\<lambda>v ok. queue_jobComplete job (set_job job (ConfigJob type ok) v))
      in case (case type of
                 eConfigLoading \<Rightarrow> Component_loadConfig w
               | eConfigSaving \<Rightarrow> Component_saveConfig w
               | TOTAL_CONFIG_ACTIVITY_TYPES \<Rightarrow> Inl (Rte ''Unsupported config activity type'')) of
           Inr w' \<Rightarrow> Inr (finish w' True)
         | Inl (Rte _) \<Rightarrow> Inr (finish w False)
         | Inl (Ub m) \<Rightarrow> Inl (Ub m))"

definition job_run :: "component \<Rightarrow> nat \<Rightarrow> component result" where
  "job_run w job =
     (case c_jobHeap w job of
        Some (LoadProgramJob h p _) \<Rightarrow> LoadProgramJob_run job h p w
      | Some (ConfigJob t _) \<Rightarrow> ConfigJob_run job t w
      | None \<Rightarrow> Inl (Ub ''null job''))"

fun run_jobs :: "nat list \<Rightarrow> component \<Rightarrow> component result" where
  "run_jobs [] w = Inr w"
| "run_jobs (j # js) w = andThen (job_run w j) (run_jobs js)"

definition Component_runAllJobs :: "component \<Rightarrow> component result" where
  "Component_runAllJobs w = run_jobs (c_jobs w) (w\<lparr>c_jobs := []\<rparr>)"

section \<open>The cycle of the main thread\<close>

definition Component_runCycle_begin :: "component \<Rightarrow> component result" where
  "Component_runCycle_begin w =
     andThen (Component_runAllJobs w)
       (\<lambda>w'. let (s, waits) = runCycle_handover (c_locks w') in
             Inr (if waits
                  then queue_startSimulationLock (w'\<lparr>c_locks := s, c_mainWaits := True\<rparr>)
                  else w'\<lparr>c_locks := s, c_mainWaits := False\<rparr>))"

text \<open>\<open>None\<close>: still waiting for the lock to be released, or for a message inside the cycle.\<close>

definition Component_runCycle_end :: "mega_call list \<Rightarrow> component \<Rightarrow> component result option" where
  "Component_runCycle_end calls w =
     (if c_mainWaits w \<and> \<not> m_bCurrentLockReleased (c_locks w) then None
      else (case c_program w of
              None \<Rightarrow> Some (Inr (w\<lparr>c_mainWaits := False\<rparr>))
            | Some p \<Rightarrow>
                map_option (\<lambda>r. andThen r (\<lambda>(p', lk). Inr (w\<lparr>c_mainWaits := False, c_program := Some p', c_egClient := lk\<rparr>)))
                  (Program_run calls p (c_egClient w))))"

section \<open>Enrolling, alive tests, loading, buffers\<close>

definition EnrollHostActivity_start :: "string \<Rightarrow> string \<Rightarrow> component \<Rightarrow> component result" where
  "EnrollHostActivity_start hostprogram unique w = Component_send (HCQ_Enroll hostprogram unique) w"

definition EnrollHostActivity_serverMessage ::
  "string \<Rightarrow> string \<Rightarrow> string \<Rightarrow> string \<Rightarrow> message \<Rightarrow> component \<Rightarrow> nat \<Rightarrow> (component \<times> bool) result" where
  "EnrollHostActivity_serverMessage hostprogram unique workspace slaveName m w a =
     (case m of
        CHS_Enroll success workspacepath slavename \<Rightarrow>
          if success
          then andThen (component_sendeg (HCQ_EnrollEG unique)
                  (set_activity a (EnrollHostActivity hostprogram unique workspacepath slavename) w))
                 (\<lambda>w'. Inr (w', True))
          else Inr (queue_activityComplete a w, True)
      | CHS_EnrollEG success \<Rightarrow>
          Inr (queue_activityComplete a
                 (if success then w\<lparr>c_slaveWorkspacePath := workspace, c_slaveName := slaveName\<rparr> else w),
               True)
      | _ \<Rightarrow> Inr (w, False))"

definition AliveTestActivity_serverMessage :: "message \<Rightarrow> component \<Rightarrow> (component \<times> bool) result" where
  "AliveTestActivity_serverMessage m w =
     (case m of
        CHQ_Alive _ \<Rightarrow> andThen (Component_send (HCS_Alive True) w) (\<lambda>w'. Inr (w', True))
      | _ \<Rightarrow> Inr (w, False))"

definition LoadProgramActivity_serverMessage ::
  "nat option \<Rightarrow> message \<Rightarrow> component \<Rightarrow> nat \<Rightarrow> (component \<times> bool) result" where
  "LoadProgramActivity_serverMessage pJob m w a =
     (case m of
        CHQ_Load hostname programname \<Rightarrow>
          (case pJob of
             Some _ \<Rightarrow> andThen (Component_send (hcs_load False) w) (\<lambda>w'. Inr (w', True))
           | None \<Rightarrow>
               (let (job, w') = new_job (LoadProgramJob hostname programname False) w
                in Inr (Component_startJob job
                     (set_activity a (LoadProgramActivity programname hostname (Some job)) w'), True)))
      | _ \<Rightarrow> Inr (w, False))"

definition LoadProgramActivity_jobComplete ::
  "string \<Rightarrow> string \<Rightarrow> nat option \<Rightarrow> nat \<Rightarrow> component \<Rightarrow> nat \<Rightarrow> (component \<times> bool) result" where
  "LoadProgramActivity_jobComplete programName hostName pLoadProgramJob pJob w a =
     (if pLoadProgramJob = Some pJob
      then (let successful = (case c_jobHeap w pJob of Some (LoadProgramJob _ _ ok) \<Rightarrow> ok | _ \<Rightarrow> False)
            in andThen (Component_send (hcs_load successful) w)
                 (\<lambda>w'. Inr (set_activity a (LoadProgramActivity programName hostName None) w', True)))
      else Inr (w, False))"

definition BufferActivity_start :: "string \<Rightarrow> nat \<Rightarrow> component \<Rightarrow> component result" where
  "BufferActivity_start bufferName bufferSize w = Component_send (HCQ_Buffer bufferName (of_nat bufferSize)) w"

text \<open>Setting a promise a second time is a \<open>std::future_error\<close>.\<close>

definition BufferActivity_serverMessage ::
  "string \<Rightarrow> nat \<Rightarrow> string option \<Rightarrow> message \<Rightarrow> component \<Rightarrow> nat \<Rightarrow> (component \<times> bool) result" where
  "BufferActivity_serverMessage bufferName bufferSize result m w a =
     (case m of
        CHS_Buffer buffername sharedname \<Rightarrow>
          if buffername = bufferName
          then (case result of
                  Some _ \<Rightarrow> Inl (Rte ''promise already satisfied'')
                | None \<Rightarrow> Inr (queue_activityComplete a
                           (set_activity a (BufferActivity bufferName bufferSize (Some sharedname)) w), True))
          else Inr (w, False)
      | _ \<Rightarrow> Inr (w, False))"

section \<open>The EG requests of other hosts\<close>

definition read_response :: "eg_msg \<Rightarrow> eg_request \<Rightarrow> string \<Rightarrow> message" where
  "read_response egMsg egRequest strBuffer =
     EG_Msg \<lparr>eg_type = eg_type egMsg, eg_instance = eg_instance egMsg, eg_cycle = eg_cycle egMsg,
       eg_body = Some (EgResponse \<lparr>rs_coordinator = rq_coordinator egRequest, rs_host = rq_host egRequest,
                                    rs_value = strBuffer\<rparr>)\<rparr>"

definition OnReadRequest :: "eg_msg \<Rightarrow> eg_request \<Rightarrow> component \<Rightarrow> component result" where
  "OnReadRequest egMsg egRequest w =
     (let (pCurrentLock, s) = getOrCreateCurrentLock (c_locks w); w1 = w\<lparr>c_locks := s\<rparr> in
      case getHostCycleState pCurrentLock (rq_host egRequest) of
        None \<Rightarrow> Inl (Rte ''Read request when no current lock'')
      | Some current \<Rightarrow>
          if state current = eReading \<or> state current = eWriting
          then (case c_program w1 of
                  Some p \<Rightarrow>
                    andThen (Program_readRequest (eg_type egMsg) (eg_instance egMsg) p)
                      (\<lambda>(strBuffer, p').
                         component_sendeg (read_response egMsg egRequest strBuffer) (w1\<lparr>c_program := Some p'\<rparr>))
                | None \<Rightarrow>
                    component_sendeg (eg_error_reply egMsg (rq_coordinator egRequest) (rq_host egRequest)) w1)
          else Inl (Rte ''Invalid state for lock in read request''))"

definition OnWriteRequest :: "eg_msg \<Rightarrow> eg_request \<Rightarrow> string \<Rightarrow> component \<Rightarrow> component result" where
  "OnWriteRequest egMsg egRequest strBuffer w =
     (let (pCurrentLock, s) = getOrCreateCurrentLock (c_locks w); w1 = w\<lparr>c_locks := s\<rparr> in
      case getHostCycleState pCurrentLock (rq_host egRequest) of
        None \<Rightarrow> Inl (Rte ''Read request when no current lock'')
      | Some current \<Rightarrow>
          if state current = eWriting
          then (case c_program w1 of
                  Some p \<Rightarrow>
                    andThen (Program_writeRequest strBuffer p) (\<lambda>p'. Inr (w1\<lparr>c_program := Some p'\<rparr>))
                | None \<Rightarrow> Inr w1)
          else Inl (Rte ''Invalid state for lock in read request''))"

definition issueLockResponse :: "host_cycle_state \<Rightarrow> component \<Rightarrow> component result" where
  "issueLockResponse hcs w =
     component_sendeg
       (EG_Msg \<lparr>eg_type = 0, eg_instance = 0, eg_cycle = Component_getCurrentCycle w,
          eg_body = Some (EgResponse \<lparr>rs_coordinator = uiCoordinator hcs, rs_host = uiHost hcs, rs_value = ''''\<rparr>)\<rparr>) w"

fun issueLockResponses :: "granted \<Rightarrow> component \<Rightarrow> component result" where
  "issueLockResponses [] w = Inr w"
| "issueLockResponses (g # gs) w = andThen (issueLockResponse g w) (issueLockResponses gs)"

definition OnLockRequest :: "eg_msg \<Rightarrow> eg_request \<Rightarrow> bool \<Rightarrow> component \<Rightarrow> component result" where
  "OnLockRequest egMsg egRequest read w =
     andThen (OnLock read (rq_coordinator egRequest) (rq_host egRequest) (eg_cycle egMsg) (c_locks w))
       (\<lambda>(s, gs). issueLockResponses gs (w\<lparr>c_locks := s\<rparr>))"

definition OnUnlockRequest :: "eg_msg \<Rightarrow> eg_request \<Rightarrow> component \<Rightarrow> component result" where
  "OnUnlockRequest egMsg egRequest w =
     andThen (OnUnlock (rq_coordinator egRequest) (rq_host egRequest) (eg_cycle egMsg) (c_locks w))
       (\<lambda>(s, gs). issueLockResponses gs (w\<lparr>c_locks := s\<rparr>))"

definition EGRequestManager_serverMessage :: "message \<Rightarrow> component \<Rightarrow> (component \<times> bool) result" where
  "EGRequestManager_serverMessage m w =
     (case m of
        EG_Msg egMsg \<Rightarrow>
          (case eg_body egMsg of
             Some (EgRequest egRequest) \<Rightarrow>
               andThen
                 (case rq_body egRequest of
                    Some RqRead \<Rightarrow> OnReadRequest egMsg egRequest w
                  | Some (RqWrite v) \<Rightarrow> OnWriteRequest egMsg egRequest v w
                  | Some (RqLock read) \<Rightarrow> OnLockRequest egMsg egRequest read w
                  | Some RqUnlock \<Rightarrow> OnUnlockRequest egMsg egRequest w
                  | None \<Rightarrow> Inl (Rte ''Unknown request type''))
                 (\<lambda>w'. Inr (w', True))
           | _ \<Rightarrow> Inr (w, True))
      | _ \<Rightarrow> Inr (w, False))"

definition EGRequestManager_simulationLockStarted :: "component \<Rightarrow> component result" where
  "EGRequestManager_simulationLockStarted w =
     andThen (OnSimulationLockStarted (c_locks w))
       (\<lambda>(s, gs). issueLockResponses gs (w\<lparr>c_locks := s\<rparr>))"

section \<open>Config\<close>

definition start_config_job :: "config_type \<Rightarrow> component \<Rightarrow> nat \<Rightarrow> component" where
  "start_config_job type w a =
     (let (job, w') = new_job (ConfigJob type False) w
      in Component_startJob job (set_activity a (ConfigActivity (Some job)) w'))"

definition ConfigActivity_serverMessage ::
  "nat option \<Rightarrow> message \<Rightarrow> component \<Rightarrow> nat \<Rightarrow> (component \<times> bool) result" where
  "ConfigActivity_serverMessage pConfigJob m w a =
     (case m of
        Config_msg c \<Rightarrow>
          if read_config_load_chq c
          then (case pConfigJob of
                  Some _ \<Rightarrow> andThen (Component_send (config_load_hcs False) w) (\<lambda>w'. Inr (w', True))
                | None \<Rightarrow> Inr (start_config_job eConfigLoading w a, True))
          else if read_config_save_chq c
          then (case pConfigJob of
                  Some _ \<Rightarrow> andThen (Component_send (config_save_hcs False) w) (\<lambda>w'. Inr (w', True))
                | None \<Rightarrow> Inr (start_config_job eConfigSaving w a, True))
          else Inr (w, True)
      | _ \<Rightarrow> Inr (w, False))"

definition ConfigActivity_jobComplete ::
  "nat option \<Rightarrow> nat \<Rightarrow> component \<Rightarrow> nat \<Rightarrow> (component \<times> bool) result" where
  "ConfigActivity_jobComplete pConfigJob pJob w a =
     (if pConfigJob = Some pJob
      then (case c_jobHeap w pJob of
              Some (ConfigJob type successful) \<Rightarrow>
                andThen
                  (case type of
                     eConfigLoading \<Rightarrow> Component_send (config_load_hcs successful) w
                   | eConfigSaving \<Rightarrow> Component_send (config_save_hcs successful) w
                   | TOTAL_CONFIG_ACTIVITY_TYPES \<Rightarrow> Inl (Rte ''Unsupported config activity''))
                  (\<lambda>w'. Inr (set_activity a (ConfigActivity None) w', True))
            | _ \<Rightarrow> Inl (Ub ''not a config job''))
      else Inr (w, False))"

section \<open>The virtual functions of the component's activities\<close>

definition component_start :: "component \<Rightarrow> nat \<Rightarrow> component result" where
  "component_start w a =
     (case heap w a of
        Some (EnrollHostActivity hp u _ _) \<Rightarrow> EnrollHostActivity_start hp u w
      | Some (BufferActivity n sz _) \<Rightarrow> BufferActivity_start n sz w
      | _ \<Rightarrow> Activity_start w a)"

definition component_serverMessage :: "message \<Rightarrow> component \<Rightarrow> nat \<Rightarrow> (component \<times> bool) result" where
  "component_serverMessage m w a =
     (case heap w a of
        Some (EnrollHostActivity hp u ws sn) \<Rightarrow> EnrollHostActivity_serverMessage hp u ws sn m w a
      | Some AliveTestActivity \<Rightarrow> AliveTestActivity_serverMessage m w
      | Some (LoadProgramActivity _ _ job) \<Rightarrow> LoadProgramActivity_serverMessage job m w a
      | Some (BufferActivity n sz r) \<Rightarrow> BufferActivity_serverMessage n sz r m w a
      | Some EGRequestManagerActivity \<Rightarrow> EGRequestManager_serverMessage m w
      | Some (ConfigActivity job) \<Rightarrow> ConfigActivity_serverMessage job m w a
      | None \<Rightarrow> Activity_serverMessage m w a)"

definition component_jobComplete :: "nat \<Rightarrow> component \<Rightarrow> nat \<Rightarrow> (component \<times> bool) result" where
  "component_jobComplete pJob w a =
     (case heap w a of
        Some (LoadProgramActivity pn hn job) \<Rightarrow> LoadProgramActivity_jobComplete pn hn job pJob w a
      | Some (ConfigActivity job) \<Rightarrow> ConfigActivity_jobComplete job pJob w a
      | _ \<Rightarrow> Activity_jobComplete pJob w a)"

definition component_simulationLockStarted :: "component \<Rightarrow> nat \<Rightarrow> component result" where
  "component_simulationLockStarted w a =
     (case heap w a of
        Some EGRequestManagerActivity \<Rightarrow> EGRequestManager_simulationLockStarted w
      | _ \<Rightarrow> Activity_simulationLockStarted w a)"

definition component_vt :: "(component, message) vtable" where
  "component_vt =
     \<lparr>v_keepAlive = Activity_keepAlive, v_precondition = Activity_precondition,
      v_start = component_start, v_serverMessage = component_serverMessage,
      v_clientMessage = Activity_clientMessage, v_jobComplete = component_jobComplete,
      v_activityComplete = Activity_activityComplete,
      v_simulationLockStarted = component_simulationLockStarted\<rparr>"

text \<open>The constructor: the five activities it starts, in this order.\<close>

definition Component_ctor :: "string \<Rightarrow> string \<Rightarrow> zmq \<Rightarrow> eg_link \<Rightarrow> (string \<Rightarrow> string \<Rightarrow> program_source) \<Rightarrow> component" where
  "Component_ctor strProgramName unique z eg sources =
     \<lparr>m_active = [], m_pending = [], m_stop = False,
      posted = map EvStart [0, 1, 2, 3, 4],
      heap = [0 \<mapsto> EnrollHostActivity strProgramName unique '''' '''', 1 \<mapsto> AliveTestActivity,
              2 \<mapsto> LoadProgramActivity '''' '''' None, 3 \<mapsto> EGRequestManagerActivity,
              4 \<mapsto> ConfigActivity None],
      next_ref = 5,
      c_hostProgram = strProgramName, c_slaveName = '''', c_slaveWorkspacePath = '''',
      c_client = z, c_sent = [], c_egClient = eg,
      c_locks = \<lparr>m_pCurrentSimLock = None, m_pFutureSimLock = None, m_bCurrentLockReleased = False\<rparr>,
      c_mainWaits = False, c_jobs = [], c_jobHeap = Map.empty, c_nextJob = 0,
      c_program = None, c_sources = sources\<rparr>"

end
