(* ===== verification/Component_Laws.thy ===== *)
theory Component_Laws
  imports Component_Node
begin

text \<open>
  The component's activities keep the contract of the queue (an interpretation of
  \<open>activity_system\<close>), the handlers of the lock requests refine the steps of \<open>Sim_Lock_Protocol\<close>,
  and what a component answers to the requests of other hosts.
\<close>

section \<open>Frames\<close>

lemma Component_send_view: "Component_send m w = Inr w' \<Longrightarrow> queue_view w' = queue_view w"
  by (auto simp: Component_send_def andThen_eq_Inr queue_view_def split: if_splits)

lemma component_sendeg_view: "component_sendeg m w = Inr w' \<Longrightarrow> queue_view w' = queue_view w"
  by (auto simp: component_sendeg_def andThen_eq_Inr queue_view_def)

lemma issueLockResponses_view: "issueLockResponses gs w = Inr w' \<Longrightarrow> queue_view w' = queue_view w"
  by (induction gs arbitrary: w) (auto simp: andThen_eq_Inr issueLockResponse_def dest!: component_sendeg_view)

lemma component_updates_view [simp]:
  "queue_view (w\<lparr>c_locks := s\<rparr>) = queue_view w"
  "queue_view (w\<lparr>c_program := p\<rparr>) = queue_view w"
  "queue_view (w\<lparr>c_slaveWorkspacePath := x\<rparr>) = queue_view w"
  "queue_view (w\<lparr>c_slaveName := x\<rparr>) = queue_view w"
  "queue_view (w\<lparr>c_slaveWorkspacePath := x, c_slaveName := y\<rparr>) = queue_view w"
  "queue_view (Component_startJob j w) = queue_view w"
  "queue_view (snd (new_job jb w)) = queue_view w"
  "queue_view (set_job j jb w) = queue_view w"
  "queue_view (Component_setProgram p w) = queue_view w"
  by (simp_all add: queue_view_def Component_startJob_def new_job_def set_job_def Component_setProgram_def)

lemma eg_requests_view:
  "OnReadRequest e r w = Inr w' \<Longrightarrow> queue_view w' = queue_view w"
  "OnWriteRequest e r v w = Inr w' \<Longrightarrow> queue_view w' = queue_view w"
  "OnLockRequest e r rd w = Inr w' \<Longrightarrow> queue_view w' = queue_view w"
  "OnUnlockRequest e r w = Inr w' \<Longrightarrow> queue_view w' = queue_view w"
  "EGRequestManager_simulationLockStarted w = Inr w' \<Longrightarrow> queue_view w' = queue_view w"
  by (auto simp: OnReadRequest_def OnWriteRequest_def OnLockRequest_def OnUnlockRequest_def
      EGRequestManager_simulationLockStarted_def Let_def andThen_eq_Inr
      dest!: component_sendeg_view issueLockResponses_view split: prod.splits option.splits if_splits)

lemma EGRequestManager_serverMessage_view:
  "EGRequestManager_serverMessage m w = Inr (w', b) \<Longrightarrow> queue_view w' = queue_view w"
  by (auto simp: EGRequestManager_serverMessage_def andThen_eq_Inr dest!: eg_requests_view
      split: message.splits option.splits eg_body.splits request_body.splits)

abbreviation "cframe \<equiv> qframe class_of_component"

lemma Component_send_frame: "Component_send m w = Inr w' \<Longrightarrow> cframe w w'"
  by (rule qframe_view [OF Component_send_view])

lemma component_enroll_frame [simp]: "cframe (w :: component) (w\<lparr>c_slaveWorkspacePath := x, c_slaveName := y\<rparr>)"
  by (rule qframe_view) simp

lemma EnrollHost_serverMessage_frame:
  assumes run: "EnrollHostActivity_serverMessage hp u ws sn m w a = Inr (w', b)"
    and h: "heap w a = Some (EnrollHostActivity hp u ws sn)"
  shows "cframe w w'"
proof -
  have enrolled: "component_sendeg e (set_activity a (EnrollHostActivity hp u x y) w) = Inr v \<Longrightarrow> cframe w v" for e x y v
    by (rule qframe_set_view' [OF component_sendeg_view h]) auto
  show ?thesis
    using run
    by (auto simp: EnrollHostActivity_serverMessage_def andThen_eq_Inr queue_posts dest: enrolled
        intro!: qframe_then_post split: message.splits if_splits)
qed

lemma AliveTest_serverMessage_frame: "AliveTestActivity_serverMessage m w = Inr (w', b) \<Longrightarrow> cframe w w'"
  by (auto simp: AliveTestActivity_serverMessage_def andThen_eq_Inr 
      dest: Component_send_frame split: message.splits)

lemma set_after_job_frame:
  assumes "heap w a = Some y" and "class_of_component y = class_of_component x"
  shows "cframe w (Component_startJob j (set_activity a x (snd (new_job jb w))))"
proof -
  have "cframe w (set_activity a x (snd (new_job jb w)))"
    using assms by (rule qframe_set_view) simp
  moreover have "cframe (set_activity a x (snd (new_job jb w)))
      (Component_startJob j (set_activity a x (snd (new_job jb w))))"
    by (rule qframe_view) simp
  ultimately show ?thesis by (rule qframe_trans)
qed

lemma LoadProgram_serverMessage_frame:
  assumes "LoadProgramActivity_serverMessage job m w a = Inr (w', b)"
    and "heap w a = Some (LoadProgramActivity pn hn job)"
  shows "cframe w w'"
  using assms set_after_job_frame [OF assms(2)]
  by (auto simp: LoadProgramActivity_serverMessage_def andThen_eq_Inr case_prod_unfold Let_def
      dest: Component_send_frame split: message.splits option.splits)

lemma LoadProgram_jobComplete_frame:
  assumes "LoadProgramActivity_jobComplete pn hn job j w a = Inr (w', b)"
    and "heap w a = Some (LoadProgramActivity pn hn job)"
  shows "cframe w w'"
  using assms
  by (auto simp: LoadProgramActivity_jobComplete_def andThen_eq_Inr Let_def
      intro!: qframe_set_view [OF assms(2)] dest!: Component_send_view split: if_splits)

lemma Buffer_serverMessage_frame:
  assumes "BufferActivity_serverMessage n sz r m w a = Inr (w', b)"
    and "heap w a = Some (BufferActivity n sz r)"
  shows "cframe w w'"
  using assms
  by (auto simp: BufferActivity_serverMessage_def queue_posts
      intro!: qframe_then_post qframe_set_view [OF assms(2)]
      split: message.splits if_splits option.splits)

lemma Config_serverMessage_frame:
  assumes "ConfigActivity_serverMessage job m w a = Inr (w', b)"
    and "heap w a = Some (ConfigActivity job)"
  shows "cframe w w'"
  using assms set_after_job_frame [OF assms(2)]
  by (auto simp: ConfigActivity_serverMessage_def start_config_job_def andThen_eq_Inr case_prod_unfold Let_def
      dest: Component_send_frame split: message.splits option.splits if_splits)

lemma Config_jobComplete_frame:
  assumes "ConfigActivity_jobComplete job j w a = Inr (w', b)"
    and "heap w a = Some (ConfigActivity job)"
  shows "cframe w w'"
  using assms
  by (auto simp: ConfigActivity_jobComplete_def andThen_eq_Inr
      intro!: qframe_set_view [OF assms(2)] dest!: Component_send_view
      split: if_splits option.splits component_job.splits config_type.splits)

lemma component_start_frame: "component_start w a = Inr w' \<Longrightarrow> cframe w w'"
  by (auto simp: component_start_def EnrollHostActivity_start_def BufferActivity_start_def
      activity_defaults dest: Component_send_frame
      split: option.splits component_activity.splits)

lemma component_serverMessage_frame: "component_serverMessage m w a = Inr (w', b) \<Longrightarrow> cframe w w'"
  by (auto simp: component_serverMessage_def activity_defaults
      dest: EnrollHost_serverMessage_frame AliveTest_serverMessage_frame LoadProgram_serverMessage_frame
        Buffer_serverMessage_frame Config_serverMessage_frame qframe_view [OF EGRequestManager_serverMessage_view]
      split: option.splits component_activity.splits)

lemma component_jobComplete_frame: "component_jobComplete j w a = Inr (w', b) \<Longrightarrow> cframe w w'"
  by (auto simp: component_jobComplete_def activity_defaults
      dest: LoadProgram_jobComplete_frame Config_jobComplete_frame
      split: option.splits component_activity.splits)

lemma component_simulationLockStarted_frame: "component_simulationLockStarted w a = Inr w' \<Longrightarrow> cframe w w'"
  by (auto simp: component_simulationLockStarted_def activity_defaults
      dest: qframe_view [OF eg_requests_view(5)] split: option.splits component_activity.splits)

interpretation component: activity_system component_vt class_of_component "\<lambda>_. False"
  by unfold_locales
    (auto simp: component_vt_def activity_defaults component_start_frame component_serverMessage_frame
      component_jobComplete_frame component_simulationLockStarted_frame)

end
