(* ===== verification/Sim_Lock_Properties.thy ===== *)
theory Sim_Lock_Properties
  imports Sim_Lock_Protocol
begin

text \<open>
  What the simulation lock of a component promises.  In every run there is no deadlock, and each
  unlock of a holder makes progress.  In the runs whose unlocks all come from hosts that hold the
  lock (\<open>list_all held_unlock\<close> of the run's unlocks, a condition on the other components that the
  code does not check): exclusion, the component's own simulation standing still while a host holds
  the lock, and no faults.
\<close>

section \<open>Two reachable states\<close>

definition entry :: "u32 \<Rightarrow> u32 \<Rightarrow> lock_state \<Rightarrow> host_cycle_state" where
  "entry host cycle st = \<lparr>uiCoordinator = 1, uiHost = host, cycleState = \<lparr>uiCycle = cycle, state = st\<rparr>\<rparr>"

definition reading_world :: lock_world where
  "reading_world =
     \<lparr>locks = \<lparr>m_pCurrentSimLock = Some [entry 7 1 eReading], m_pFutureSimLock = None,
               m_bCurrentLockReleased = False\<rparr>,
      main_waits = True, starts_posted = 0\<rparr>"

definition handed_over_world :: lock_world where
  "handed_over_world =
     \<lparr>locks = \<lparr>m_pCurrentSimLock = Some [entry 7 1 eRead], m_pFutureSimLock = None,
               m_bCurrentLockReleased = False\<rparr>,
      main_waits = True, starts_posted = 1\<rparr>"

lemma handed_over_reached: "sim_run [] handed_over_world"
proof -
  let ?w1 = "init_lock_world\<lparr>locks := \<lparr>m_pCurrentSimLock = Some [entry 7 1 eRead], m_pFutureSimLock = None,
      m_bCurrentLockReleased = False\<rparr>\<rparr>"
  have "sim_step init_lock_world [] ?w1"
    by (rule step_lock [of True 1 7 1 _ _ "[]"])
      (simp add: OnLock_def OnReadLock_def init_lock_world_def getOrCreateCurrentLock_def isReading_def
        Let_def entry_def)
  from sim_next [OF sim_init this] have "sim_run [] ?w1" by simp
  moreover have "sim_step ?w1 [] handed_over_world"
    using step_handover [of ?w1 "locks handed_over_world"]
    by (simp add: runCycle_handover_def init_lock_world_def handed_over_world_def)
  ultimately have "sim_run ([] @ []) handed_over_world" by (rule sim_next)
  then show ?thesis by simp
qed

lemma reading_run: "sim_run [] reading_world"
proof -
  have "sim_step handed_over_world [] reading_world"
    using step_started [of handed_over_world 0 "locks reading_world" "[entry 7 1 eReading]"]
    by (simp add: OnSimulationLockStarted_def start_next_def handed_over_world_def reading_world_def
        isRead_def entry_def Let_def)
  from sim_next [OF handed_over_reached this] show ?thesis by simp
qed

lemma reading_reached: "sim_reach reading_world"
  using reading_run by (auto simp: sim_reach_def)

text \<open>Another host asks to write while the reader reads.\<close>

definition contended_world :: lock_world where
  "contended_world =
     \<lparr>locks = \<lparr>m_pCurrentSimLock = Some [entry 7 1 eReading, entry 8 1 eWrite], m_pFutureSimLock = None,
               m_bCurrentLockReleased = False\<rparr>,
      main_waits = True, starts_posted = 0\<rparr>"

definition promoted_world :: lock_world where
  "promoted_world =
     \<lparr>locks = \<lparr>m_pCurrentSimLock = Some [entry 7 1 eFinished, entry 8 1 eWriting], m_pFutureSimLock = None,
               m_bCurrentLockReleased = False\<rparr>,
      main_waits = True, starts_posted = 0\<rparr>"

lemma promoted_run: "sim_run [(locks contended_world, 7)] promoted_world"
proof -
  have "sim_step reading_world [] contended_world"
    using step_lock [of False 1 8 1 reading_world "locks contended_world" "[]"]
    by (simp add: OnLock_def OnWriteLock_def reading_world_def contended_world_def getOrCreateCurrentLock_def
        Let_def entry_def)
  from sim_next [OF reading_run this] have r: "sim_run [] contended_world" by simp
  have "sim_step contended_world [(locks contended_world, 7)] promoted_world"
    using step_unlock [of 1 7 1 contended_world "locks promoted_world" "[entry 8 1 eWriting]"]
    by (simp add: OnUnlock_def contended_world_def promoted_world_def entry_def allFinished_def isReading_def
        start_next_def isRead_def Let_def)
  from sim_next [OF r this] show ?thesis by simp
qed

section \<open>Shared facts\<close>

lemma holder_waits:
  assumes "sim_inv w" and "m_pCurrentSimLock (locks w) = Some l" and "holds l host"
  shows "main_waits w \<and> \<not> m_bCurrentLockReleased (locks w) \<and> future_ok (locks w) \<and> busy (locks w)"
proof (rule ccontr)
  assume "\<not> ?thesis"
  with assms(1,2) have "lock_waiting l"
    by (auto simp: sim_inv_def idle_def split: if_splits)
  with assms(3) entries_get [of l host] show False
    by (auto simp: holds_def lock_waiting_def split: option.splits)
qed

lemma holder_unlocks:
  assumes "lock_inv l" and "holds l host" and "m_pCurrentSimLock s = Some l"
  shows "\<exists>s' gs. OnUnlock coord host cycle s = Inr (s', gs)"
proof -
  from assms(2) obtain cs where get: "getHostCycleState l host = Some cs"
    and runs: "state cs = eReading \<or> state cs = eWriting" by (auto simp: holds_def split: option.splits)
  let ?l1 = "fst (setHostCycleState l coord host cycle eFinished)"
  note u = unlock_cases [OF assms(1) get runs refl, of coord cycle]
  have "\<exists>l2 gs. start_next ?l1 = Inr (l2, gs)" if "\<not> allFinished ?l1" "entries eReading ?l1 = 0"
    using start_next_progress u(5) [OF that] by blast
  then show ?thesis
    by (auto simp: OnUnlock_def assms(3) get Let_def isReading_entries)
qed

lemma waiting_starts:
  assumes "lock_waiting l" and "l \<noteq> []" and "m_pCurrentSimLock s = Some l"
  shows "\<exists>s' gs. OnSimulationLockStarted s = Inr (s', gs)"
proof -
  have "0 < entries eRead l \<or> 0 < entries eWrite l"
    using assms(1,2) total_entries [of l] by (auto simp: lock_waiting_def)
  from start_next_progress [OF this] obtain l' gs where "start_next l = Inr (l', gs)" by blast
  with assms(3) show ?thesis by (simp add: OnSimulationLockStarted_def)
qed

lemma runs_has_holder:
  assumes "runs s" and "hosts_ok s" shows "\<exists>l host. m_pCurrentSimLock s = Some l \<and> holds l host"
proof -
  from assms obtain l where l: "m_pCurrentSimLock s = Some l" "distinct (map uiHost l)"
    and "0 < entries eReading l + entries eWriting l" by (auto simp: runs_def hosts_ok_def)
  then obtain hcs where hcs: "hcs \<in> set l" and st: "entry_state hcs = eReading \<or> entry_state hcs = eWriting"
    using entries_positive [of eReading l] entries_positive [of eWriting l] by auto
  have "getHostCycleState l (uiHost hcs) = Some (cycleState hcs)"
    using hcs l(2) by (intro get_distinct)
  with st have "holds l (uiHost hcs)" by (auto simp: holds_def)
  with l(1) show ?thesis by blast
qed

definition unfinished :: "sim_lock \<Rightarrow> nat" where
  "unfinished l = length l - entries eFinished l"

lemma start_next_unfinished:
  assumes "start_next l = Inr (l', gs)" shows "unfinished l' = unfinished l"
proof (cases "isRead l")
  case True
  with assms have "l' = fst (start_readers l)" by (simp add: start_next_def fst_def split: prod.splits)
  moreover have "length (fst (start_readers l)) = length l"
    using start_readers_hosts [of l] by (metis length_map)
  ultimately show ?thesis by (simp add: unfinished_def start_readers_entries)
next
  case False
  with assms obtain g where w: "start_writer l = Some (l', g)"
    by (auto simp: start_next_def split: option.splits)
  then have "length l' = length l" using start_writer_Some by (metis length_map)
  with start_writer_Some [OF w] show ?thesis by (simp add: unfinished_def)
qed

section \<open>Properties\<close>

text \<open>C2. As long as every unlock of the run came from a host that held the lock at that moment (a
  condition on the hosts: the code accepts the unlock of any host that has an entry), at most one
  host writes, nobody reads while a host writes, no host has two entries in the current lock, and
  while a host reads or writes the main thread stands still with the lock not released.\<close>

theorem sim_lock_exclusion:
  assumes "sim_run tr w" and "list_all held_unlock tr" and "m_pCurrentSimLock (locks w) = Some l"
  shows "entries eWriting l \<le> 1 \<and> (0 < entries eWriting l \<longrightarrow> entries eReading l = 0)
       \<and> distinct (map uiHost l)
       \<and> (\<forall>host. holds l host \<longrightarrow> main_waits w \<and> \<not> m_bCurrentLockReleased (locks w))"
  using sim_inv_lock [OF sim_run_inv [OF assms(1,2)] assms(3)] holder_waits [OF sim_run_inv [OF assms(1,2)] assms(3)]
  by (auto simp: lock_inv_def)

theorem sim_lock_exclusion_witness:
  "entries eWriting [entry 7 1 eFinished, entry 8 1 eWriting] \<le> 1 \<and> main_waits promoted_world"
proof -
  have "list_all held_unlock [(locks contended_world, 7)]"
    by (simp add: contended_world_def holds_def entry_def)
  moreover have "m_pCurrentSimLock (locks promoted_world) = Some [entry 7 1 eFinished, entry 8 1 eWriting]"
    by (simp add: promoted_world_def)
  ultimately show ?thesis
    using sim_lock_exclusion [OF promoted_run] by (auto simp: promoted_world_def)
qed

text \<open>Under the same condition, the unlock of a host that holds the lock, and the start of the lock that
  the main thread posted, always succeed: the failing checks in their code are never reached, so no
  request of the protocol aborts the component.\<close>

theorem sim_lock_no_fault:
  assumes "sim_run tr w" and "list_all held_unlock tr"
  shows "(\<forall>l host coord cycle. m_pCurrentSimLock (locks w) = Some l \<longrightarrow> holds l host \<longrightarrow>
            (\<exists>r. OnUnlock coord host cycle (locks w) = Inr r))
       \<and> (0 < starts_posted w \<longrightarrow> (\<exists>r. OnSimulationLockStarted (locks w) = Inr r))"
proof (intro conjI allI impI)
  have inv: "sim_inv w" using assms by (rule sim_run_inv)
  fix l host coord cycle
  assume "m_pCurrentSimLock (locks w) = Some l" and "holds l host"
  with holder_unlocks sim_inv_lock [OF inv] holder_waits [OF inv]
  show "\<exists>r. OnUnlock coord host cycle (locks w) = Inr r" by blast
next
  have inv: "sim_inv w" using assms by (rule sim_run_inv)
  assume "0 < starts_posted w"
  with inv obtain l where "m_pCurrentSimLock (locks w) = Some l" and
    "lock_waiting l" and "l \<noteq> []"
    by (auto simp: sim_inv_def idle_def split: if_splits)
  with waiting_starts show "\<exists>r. OnSimulationLockStarted (locks w) = Inr r" by blast
qed

theorem sim_lock_no_fault_witness: "\<exists>r. OnUnlock 1 7 1 (locks reading_world) = Inr r"
  using sim_lock_no_fault [OF reading_run] by (simp add: reading_world_def holds_def entry_def)

text \<open>C12. No deadlock, whoever unlocks: in every reachable state, when the main thread waits, either the
  lock has been released (it will wake), or the start of the lock is posted to the queue, or some
  host holds the lock, so that somebody can act.\<close>

theorem sim_lock_no_deadlock:
  assumes "sim_reach w" and "main_waits w"
  shows "m_bCurrentLockReleased (locks w) \<or> 0 < starts_posted w
       \<or> (\<exists>l host. m_pCurrentSimLock (locks w) = Some l \<and> holds l host)"
  using sim_reach_live [OF assms(1)] assms(2) runs_has_holder [of "locks w"] by (auto simp: live_inv_def)

theorem sim_lock_no_deadlock_witness: "\<exists>l host. m_pCurrentSimLock (locks reading_world) = Some l \<and> holds l host"
  using sim_lock_no_deadlock [OF reading_reached] by (simp add: reading_world_def)

text \<open>C13. Progress of unlocking: the unlock of a host that holds the lock takes one entry out of the
  unfinished ones of the current lock, or it was the last and the lock is released, the hosts that
  asked for a later cycle becoming the next lock.\<close>

theorem sim_lock_unlock_progress:
  assumes "lock_inv l" and "m_pCurrentSimLock s = Some l" and "holds l host"
    and "OnUnlock coord host cycle s = Inr (s', gs)"
  shows "(\<exists>l'. m_pCurrentSimLock s' = Some l' \<and> Suc (unfinished l') = unfinished l
               \<and> m_pFutureSimLock s' = m_pFutureSimLock s)
       \<or> unfinished l = 1 \<and> m_bCurrentLockReleased s' \<and> m_pCurrentSimLock s' = m_pFutureSimLock s
         \<and> m_pFutureSimLock s' = None"
proof -
  from assms(3) obtain cs where get: "getHostCycleState l host = Some cs"
    and runs: "state cs = eReading \<or> state cs = eWriting" by (auto simp: holds_def split: option.splits)
  let ?l1 = "fst (setHostCycleState l coord host cycle eFinished)"
  have len: "length ?l1 = length l"
    using set_hosts_old [OF get, of coord cycle eFinished] by (metis length_map)
  have fin: "entries eFinished ?l1 = Suc (entries eFinished l)"
    using set_entries_old [OF get, of eFinished coord cycle eFinished] runs by auto
  have one: "Suc (unfinished ?l1) = unfinished l"
    using len fin total_entries [of ?l1] by (simp add: unfinished_def)
  have next_lock: "unfinished l2 = unfinished ?l1" if "start_next ?l1 = Inr (l2, gs')" for l2 gs'
    by (rule start_next_unfinished [OF that])
  have "unfinished ?l1 = 0" if "allFinished ?l1"
    using that unlock_cases(2) [OF assms(1) get runs refl, of coord cycle] total_entries [of ?l1]
    by (simp add: unfinished_def allFinished_entries)
  with one next_lock assms(2,4) show ?thesis
    by (auto simp: OnUnlock_def get Let_def andThen_eq_Inr releaseCurrentLock_def split: if_splits)
qed

theorem sim_lock_unlock_progress_witness:
  "unfinished [entry 7 1 eReading] = 1"
  using sim_lock_unlock_progress [of "[entry 7 1 eReading]" "locks reading_world" 7 1 1
      "\<lparr>m_pCurrentSimLock = None, m_pFutureSimLock = None, m_bCurrentLockReleased = True\<rparr>" "[]"]
  by (simp add: reading_world_def lock_inv_def holds_def entry_def OnUnlock_def allFinished_def
      releaseCurrentLock_def Let_def)

text \<open>C24. The only-holders condition on unlocking is needed: an unlock from a host that is merely waiting
  is accepted by the code, and it starts the waiting reader beside the running writer.\<close>

theorem sim_lock_foreign_unlock_breaks_exclusion:
  "\<exists>l s' gs l'. lock_inv l \<and> \<not> holds l 8 \<and>
     OnUnlock 1 8 1 \<lparr>m_pCurrentSimLock = Some l, m_pFutureSimLock = None, m_bCurrentLockReleased = False\<rparr>
       = Inr (s', gs) \<and> m_pCurrentSimLock s' = Some l' \<and>
     0 < entries eWriting l' \<and> 0 < entries eReading l'"
proof -
  let ?l = "[entry 7 1 eWriting, entry 8 1 eWrite, entry 9 1 eRead]"
  have "lock_inv ?l \<and> \<not> holds ?l 8 \<and>
     OnUnlock 1 8 1 \<lparr>m_pCurrentSimLock = Some ?l, m_pFutureSimLock = None, m_bCurrentLockReleased = False\<rparr>
       = Inr (\<lparr>m_pCurrentSimLock = Some [entry 7 1 eWriting, entry 8 1 eFinished, entry 9 1 eReading],
               m_pFutureSimLock = None, m_bCurrentLockReleased = False\<rparr>, [entry 9 1 eReading])"
    by (simp add: lock_inv_def holds_def entry_def OnUnlock_def allFinished_def isReading_def
        start_next_def isRead_def Let_def)
  then show ?thesis
    by (intro exI [of _ ?l] exI) (force simp: entry_def)
qed

text \<open>A read request is refused exactly when the host already has an entry for this cycle, or asks
  for another cycle while it already waits for one; otherwise it is granted at once (when readers run
  and the host is new) or queued.\<close>

theorem OnReadLock_refused_iff:
  "(\<exists>e. OnReadLock coord host cycle s = Inl e) \<longleftrightarrow>
     (\<exists>cs. getHostCycleState (fst (getOrCreateCurrentLock s)) host = Some cs \<and>
        (uiCycle cs = cycle \<or>
         (\<exists>fs. getHostCycleState (fst (getOrCreateFutureLock (snd (getOrCreateCurrentLock s)))) host = Some fs)))"
  by (auto simp: OnReadLock_def Let_def case_prod_unfold split: option.splits if_splits)

end
