(* ===== verification/Component_Refinement.thy ===== *)
theory Component_Refinement
  imports Component_Laws Sim_Lock_Properties
begin

text \<open>
  A component implements the simulation lock: every step of its queue's thread and of its main thread
  is a step of \<open>Sim_Lock_Protocol\<close> on what the component keeps of the lock, or leaves that alone.
  The abstraction reads the two locks, whether the main thread waits, and how many starts of the lock
  are in the queue.
\<close>

section \<open>The abstraction\<close>

definition lock_world_of :: "component \<Rightarrow> lock_world" where
  "lock_world_of w =
     \<lparr>locks = c_locks w, main_waits = c_mainWaits w, starts_posted = count_list (posted w) EvSimLock\<rparr>"

text \<open>The host that an unlock request is for.\<close>

definition unlock_of :: "message \<Rightarrow> u32 option" where
  "unlock_of m =
     (case m of
        EG_Msg e \<Rightarrow>
          (case eg_body e of
             Some (EgRequest r) \<Rightarrow> if rq_body r = Some RqUnlock then Some (rq_host r) else None
           | _ \<Rightarrow> None)
      | _ \<Rightarrow> None)"

definition unlock_in :: "sim_locks \<Rightarrow> message \<Rightarrow> unlock_event list" where
  "unlock_in s m = (case unlock_of m of Some host \<Rightarrow> [(s, host)] | None \<Rightarrow> [])"

text \<open>The unlock that the queue handles next, with the locks that it finds.\<close>

definition head_unlock :: "component \<Rightarrow> unlock_event list" where
  "head_unlock w = (case posted w of EvServer m # es \<Rightarrow> unlock_in (c_locks w) m | _ \<Rightarrow> [])"

text \<open>The steps of a component: of its queue, of its main thread, and of the network threads, each with
  the unlock request it handles.  No step is left out: the queue handles whatever is at its head, the
  unlock of a host without the lock included.  The main thread begins a cycle only after it ended the
  last one.\<close>

inductive component_step :: "bool \<Rightarrow> component \<Rightarrow> unlock_event list \<Rightarrow> component \<Rightarrow> bool" for brk where
  cs_queue: "queue_step component_vt brk w = Inr w' \<Longrightarrow> component_step brk w (head_unlock w) w'"
| cs_message: "component_step brk w [] (queue_serverMessage m w)"
| cs_buffer: "component_step brk w [] (snd (Component_getSharedBuffer n sz w))"
| cs_begin: "\<not> c_mainWaits w \<Longrightarrow> Component_runCycle_begin w = Inr w' \<Longrightarrow> component_step brk w [] w'"
| cs_end: "Component_runCycle_end calls w = Some (Inr w') \<Longrightarrow> component_step brk w [] w'"
| cs_network: "component_step brk w [] (w\<lparr>c_client := z, c_egClient := eg\<rparr>)"

text \<open>A run from the constructor, with the unlock requests it handled.\<close>

inductive component_run :: "bool \<Rightarrow> unlock_event list \<Rightarrow> component \<Rightarrow> bool" for brk where
  cr_init: "component_run brk [] (Component_ctor pn u z eg src)"
| cr_step: "component_run brk tr w \<Longrightarrow> component_step brk w us w' \<Longrightarrow> component_run brk (tr @ us) w'"

section \<open>Steps that leave the lock alone\<close>

fun harmless :: "message qevent \<Rightarrow> bool" where
  "harmless EvSimLock = False"
| "harmless (EvComplete a) = (a \<noteq> 3)"
| "harmless (EvStart a) = (a \<noteq> 3)"
| "harmless _ = True"

text \<open>The manager of the EG requests is the one activity of its kind, the fourth that the constructor
  makes.\<close>

definition one_manager :: "component \<Rightarrow> bool" where
  "one_manager w \<longleftrightarrow> heap_wf w \<and> (\<forall>a. heap w a = Some EGRequestManagerActivity \<longleftrightarrow> a = 3)"

definition calm :: "component \<Rightarrow> component \<Rightarrow> bool" where
  "calm w w' \<longleftrightarrow>
     (one_manager w \<longrightarrow> one_manager w' \<and> c_locks w' = c_locks w \<and> c_mainWaits w' = c_mainWaits w \<and>
        m_active w' = m_active w \<and> m_pending w' = m_pending w \<and>
        (\<exists>es. posted w' = posted w @ es \<and> list_all harmless es))"

lemma calm_refl [simp]: "calm w w"
  by (auto simp: calm_def)

lemma calm_trans: "calm u v \<Longrightarrow> calm v w \<Longrightarrow> calm u w"
  by (auto simp: calm_def)

lemma calm_view:
  "queue_view w' = queue_view w \<Longrightarrow> c_locks w' = c_locks w \<Longrightarrow> c_mainWaits w' = c_mainWaits w \<Longrightarrow> calm w w'"
  by (auto simp: calm_def queue_view_eq one_manager_def heap_wf_def)

lemma calm_post: "harmless e \<Longrightarrow> calm w (queue_post e w)"
  by (auto simp: calm_def queue_post_def one_manager_def heap_wf_def)

lemma calm_set: "a \<noteq> 3 \<Longrightarrow> x \<noteq> EGRequestManagerActivity \<Longrightarrow> heap w a \<noteq> None \<Longrightarrow> calm w (set_activity a x w)"
  by (auto simp: calm_def set_activity_def one_manager_def heap_wf_def)

lemma manager_allocated: "one_manager w \<Longrightarrow> 3 < next_ref w"
  unfolding one_manager_def heap_wf_def by (metis not_le option.distinct(1))

lemma calm_new:
  assumes "x \<noteq> EGRequestManagerActivity" shows "calm w (snd (new_activity x w))"
proof (cases "one_manager w")
  case True
  with manager_allocated [OF True] assms show ?thesis
    by (auto simp: calm_def new_activity_def one_manager_def heap_wf_def)
qed (simp add: calm_def)

lemmas calm_rules = calm_post calm_set calm_new

lemma calm_Component_send: "Component_send m w = Inr w' \<Longrightarrow> calm w w'"
  by (rule calm_view) (auto simp: Component_send_def andThen_eq_Inr queue_view_eq split: if_splits)

lemma calm_sendeg: "component_sendeg m w = Inr w' \<Longrightarrow> calm w w'"
  by (rule calm_view) (auto simp: component_sendeg_def andThen_eq_Inr queue_view_eq)

lemma calm_updates [simp]:
  "calm w (Component_startJob j w)" "calm w (snd (new_job jb w))" "calm w (set_job j jb w)"
  "calm w (Component_setProgram p w)" "calm w (w\<lparr>c_program := p\<rparr>)"
  "calm w (w\<lparr>c_slaveWorkspacePath := x, c_slaveName := y\<rparr>)" "calm w (w\<lparr>c_jobs := js\<rparr>)"
  "calm w (w\<lparr>c_client := z, c_egClient := eg\<rparr>)"
  by (auto intro!: calm_view
      simp: queue_view_eq Component_startJob_def new_job_def set_job_def Component_setProgram_def)

lemma calm_start: "component_start w a = Inr w' \<Longrightarrow> calm w w'"
  by (auto simp: component_start_def EnrollHostActivity_start_def BufferActivity_start_def activity_defaults
      dest: calm_Component_send split: option.splits component_activity.splits)

lemma calm_enroll:
  assumes "EnrollHostActivity_serverMessage hp u ws sn m w a = Inr (w', b)" and "heap w a \<noteq> None" and "a \<noteq> 3"
  shows "calm w w'"
proof -
  have "calm w v" if "component_sendeg e (set_activity a (EnrollHostActivity hp u x y) w) = Inr v" for e x y v
    using calm_trans [OF calm_set calm_sendeg [OF that]] assms by blast
  then show ?thesis
    using assms
    by (auto simp: EnrollHostActivity_serverMessage_def andThen_eq_Inr queue_posts
        intro!: calm_post intro: calm_trans [OF _ calm_post] split: message.splits if_splits)
qed

lemma calm_new_job:
  assumes "heap w a \<noteq> None" and "a \<noteq> 3" and "x \<noteq> EGRequestManagerActivity"
  shows "calm w (Component_startJob j (set_activity a x (snd (new_job jb w))))"
proof -
  have "heap (snd (new_job jb w)) a \<noteq> None" using assms by (simp add: new_job_def)
  from calm_set [OF assms(2,3) this] show ?thesis
    by (blast intro: calm_trans calm_updates)
qed

lemma calm_serverMessage:
  assumes "a \<noteq> 3" and "component_serverMessage m w a = Inr (w', b)" shows "calm w w'"
proof (cases "one_manager w")
  case True
  then have m: "heap w a \<noteq> Some EGRequestManagerActivity" using assms(1) by (simp add: one_manager_def)
  show ?thesis
    using assms m calm_new_job [of w a]
    by (auto simp: component_serverMessage_def activity_defaults AliveTestActivity_serverMessage_def
        LoadProgramActivity_serverMessage_def BufferActivity_serverMessage_def ConfigActivity_serverMessage_def
        start_config_job_def andThen_eq_Inr case_prod_unfold Let_def queue_posts
        dest: calm_Component_send calm_enroll intro!: calm_trans [OF calm_set calm_post]
        split: option.splits component_activity.splits message.splits if_splits)
qed (simp add: calm_def)

lemma calm_send_set:
  assumes "Component_send m w = Inr v" and "a \<noteq> 3" and "x \<noteq> EGRequestManagerActivity" and "heap w a \<noteq> None"
  shows "calm w (set_activity a x v)"
proof -
  have "heap v a \<noteq> None" using Component_send_view [OF assms(1)] assms(4) by (simp add: queue_view_eq)
  with assms show ?thesis by (blast intro: calm_trans calm_Component_send calm_set)
qed

lemma calm_jobComplete:
  assumes "component_jobComplete j w a = Inr (w', b)" shows "calm w w'"
proof (cases "one_manager w")
  case True
  show ?thesis
  proof (cases "a = 3")
    case True
    then have "heap w a = Some EGRequestManagerActivity" using \<open>one_manager w\<close> by (simp add: one_manager_def)
    with assms show ?thesis by (simp add: component_jobComplete_def activity_defaults)
  next
    case False
    with assms show ?thesis
      by (auto simp: component_jobComplete_def activity_defaults LoadProgramActivity_jobComplete_def
          ConfigActivity_jobComplete_def andThen_eq_Inr Let_def dest: calm_send_set
          split: option.splits component_activity.splits component_job.splits config_type.splits if_splits)
  qed
qed (simp add: calm_def)

lemma calm_others:
  "a \<noteq> 3 \<Longrightarrow> component_simulationLockStarted w a = Inr w' \<Longrightarrow> calm w w'"
  by (cases "one_manager w")
    (auto simp: component_simulationLockStarted_def activity_defaults one_manager_def calm_def
      split: option.splits component_activity.splits)

text \<open>The jobs on the main thread, and the cycle of the program.\<close>

lemma calm_config:
  "Component_loadConfig w = Inr w' \<Longrightarrow> calm w w'"
  "Component_saveConfig w = Inr w' \<Longrightarrow> calm w w'"
  by (auto simp: Component_loadConfig_def Component_saveConfig_def andThen_eq_Inr split: option.splits)

lemma calm_finish: "calm w (queue_jobComplete j (Component_setProgram p (set_job j jb w)))"
  "calm w (queue_jobComplete j (set_job j jb w))"
  unfolding queue_posts by (auto intro!: calm_trans [OF _ calm_post] intro: calm_trans calm_updates)

lemma calm_job: "job_run w j = Inr w' \<Longrightarrow> calm w w'"
  by (auto simp: job_run_def LoadProgramJob_run_def ConfigJob_run_def Let_def intro: calm_finish
      calm_trans [OF _ calm_finish(2)] calm_config
      split: option.splits component_job.splits if_splits sum.splits fault.splits config_type.splits)

lemma calm_jobs: "run_jobs js w = Inr w' \<Longrightarrow> calm w w'"
  by (induction js arbitrary: w) (auto simp: andThen_eq_Inr intro: calm_trans calm_job)

lemma calm_runAllJobs: "Component_runAllJobs w = Inr w' \<Longrightarrow> calm w w'"
  unfolding Component_runAllJobs_def by (blast intro: calm_trans calm_updates calm_jobs)

section \<open>The manager of the EG requests\<close>

lemma issueLockResponses_locks:
  "issueLockResponses gs w = Inr w' \<Longrightarrow> c_locks w' = c_locks w \<and> c_mainWaits w' = c_mainWaits w"
proof (induction gs arbitrary: w)
  case (Cons g gs)
  then obtain v where "issueLockResponse g w = Inr v" and rest: "issueLockResponses gs v = Inr w'"
    by (auto simp: andThen_eq_Inr)
  then have "c_locks v = c_locks w" "c_mainWaits v = c_mainWaits w"
    by (auto simp: issueLockResponse_def component_sendeg_def andThen_eq_Inr)
  with Cons.IH [OF rest] show ?case by simp
qed simp

text \<open>A read or write that is answered finds its lock held, so that it changes neither lock.\<close>

lemma running_lock_there:
  assumes "future_ok s" and "getOrCreateCurrentLock s = (l, s')"
    and "getHostCycleState l host = Some c" and "state c = eReading \<or> state c = eWriting"
  shows "s' = s \<and> m_pCurrentSimLock s = Some l"
proof (cases "m_pCurrentSimLock s")
  case None
  with assms(1) have "m_pFutureSimLock s = None" by (simp add: future_ok_def)
  with None assms(2,3) show ?thesis by (auto simp: getOrCreateCurrentLock_def)
qed (use assms(2) in \<open>auto simp: getOrCreateCurrentLock_def\<close>)

lemma access_locks:
  assumes "future_ok (c_locks w)"
  shows "OnReadRequest e r w = Inr w' \<Longrightarrow> c_locks w' = c_locks w \<and> c_mainWaits w' = c_mainWaits w"
    and "OnWriteRequest e r v w = Inr w' \<Longrightarrow> c_locks w' = c_locks w \<and> c_mainWaits w' = c_mainWaits w"
proof -
  obtain l s' where g: "getOrCreateCurrentLock (c_locks w) = (l, s')" by (metis surj_pair)
  note there = running_lock_there [OF assms g, of "rq_host r"]
  show "OnReadRequest e r w = Inr w' \<Longrightarrow> c_locks w' = c_locks w \<and> c_mainWaits w' = c_mainWaits w"
    using there
    by (auto simp: OnReadRequest_def g Let_def component_sendeg_def andThen_eq_Inr split: option.splits if_splits)
  show "OnWriteRequest e r v w = Inr w' \<Longrightarrow> c_locks w' = c_locks w \<and> c_mainWaits w' = c_mainWaits w"
    using there by (auto simp: OnWriteRequest_def g Let_def andThen_eq_Inr split: option.splits if_splits)
qed

text \<open>What the manager does to the locks is a step of the protocol.\<close>

definition sim_steps_on :: "component \<Rightarrow> unlock_event list \<Rightarrow> component \<Rightarrow> bool" where
  "sim_steps_on w us w' \<longleftrightarrow> lock_world_of w' = lock_world_of w \<or> sim_step (lock_world_of w) us (lock_world_of w')"

lemma lock_world_view:
  assumes "queue_view w' = queue_view w" and "c_mainWaits w' = c_mainWaits w"
  shows "lock_world_of w' = (lock_world_of w)\<lparr>locks := c_locks w'\<rparr>"
  using assms by (simp add: lock_world_of_def queue_view_eq)

lemma lock_world_calm: "calm w w' \<Longrightarrow> one_manager w \<Longrightarrow> lock_world_of w' = lock_world_of w"
proof -
  have "list_all harmless es \<Longrightarrow> count_list es EvSimLock = 0" for es
    by (induction es) auto
  then show "calm w w' \<Longrightarrow> one_manager w \<Longrightarrow> lock_world_of w' = lock_world_of w"
    by (auto simp: calm_def lock_world_of_def)
qed

lemma request_locks:
  "OnLockRequest e r rd w = Inr w' \<Longrightarrow> c_mainWaits w' = c_mainWaits w \<and>
     (\<exists>gs. OnLock rd (rq_coordinator r) (rq_host r) (eg_cycle e) (c_locks w) = Inr (c_locks w', gs))"
  "OnUnlockRequest e r w = Inr w' \<Longrightarrow> c_mainWaits w' = c_mainWaits w \<and>
     (\<exists>gs. OnUnlock (rq_coordinator r) (rq_host r) (eg_cycle e) (c_locks w) = Inr (c_locks w', gs))"
  by (auto simp: OnLockRequest_def OnUnlockRequest_def andThen_eq_Inr dest!: issueLockResponses_locks)

lemma manager_message:
  assumes run: "EGRequestManager_serverMessage m w = Inr (w', b)" and fut: "future_ok (c_locks w)"
  shows "sim_steps_on w (unlock_in (c_locks w) m) w' \<and> c_mainWaits w' = c_mainWaits w"
proof -
  note view = EGRequestManager_serverMessage_view [OF run]
  have locks: "c_mainWaits w' = c_mainWaits w \<and> (c_locks w' = c_locks w \<or>
      (unlock_of m = None \<and> (\<exists>rd co h cy gs. OnLock rd co h cy (c_locks w) = Inr (c_locks w', gs))) \<or>
      (\<exists>co h cy gs. unlock_of m = Some h \<and> OnUnlock co h cy (c_locks w) = Inr (c_locks w', gs)))"
  proof (cases "\<exists>e r. m = EG_Msg e \<and> eg_body e = Some (EgRequest r)")
    case False
    with run show ?thesis
      by (auto simp: EGRequestManager_serverMessage_def split: message.splits option.splits eg_body.splits)
  next
    case True
    then obtain e r where m: "m = EG_Msg e" "eg_body e = Some (EgRequest r)" by blast
    show ?thesis
    proof (cases "rq_body r")
      case (Some rb)
      note run' = run [unfolded EGRequestManager_serverMessage_def m(1), simplified, unfolded m(2), simplified,
          unfolded Some, simplified]
      show ?thesis
      proof (cases rb)
        case RqRead
        with run' access_locks(1) [OF fut] show ?thesis by (auto simp: andThen_eq_Inr)
      next
        case (RqWrite v)
        with run' access_locks(2) [OF fut] show ?thesis by (auto simp: andThen_eq_Inr)
      next
        case (RqLock rd)
        with run' have "OnLockRequest e r rd w = Inr w'" by (auto simp: andThen_eq_Inr)
        moreover have "unlock_of m = None" using m Some RqLock by (simp add: unlock_of_def)
        ultimately show ?thesis using request_locks(1) by blast
      next
        case RqUnlock
        with run' have "OnUnlockRequest e r w = Inr w'" by (auto simp: andThen_eq_Inr)
        from request_locks(2) [OF this] obtain gs where
          "OnUnlock (rq_coordinator r) (rq_host r) (eg_cycle e) (c_locks w) = Inr (c_locks w', gs)"
          and "c_mainWaits w' = c_mainWaits w" by blast
        moreover have "unlock_of m = Some (rq_host r)" using m Some RqUnlock by (simp add: unlock_of_def)
        ultimately show ?thesis by blast
      qed
    qed (use run m in \<open>simp add: EGRequestManager_serverMessage_def\<close>)
  qed
  have l: "locks (lock_world_of w) = c_locks w" by (simp add: lock_world_of_def)
  from locks have mw: "c_mainWaits w' = c_mainWaits w" by blast
  note w' = lock_world_view [OF view mw]
  have "sim_step (lock_world_of w) [] (lock_world_of w')"
    if "OnLock rd co h cy (c_locks w) = Inr (c_locks w', gs)" for rd co h cy gs
    unfolding w' by (rule step_lock [of rd co h cy _ _ gs]) (simp add: l that)
  moreover have "sim_step (lock_world_of w) [(c_locks w, h)] (lock_world_of w')"
    if "OnUnlock co h cy (c_locks w) = Inr (c_locks w', gs)" for co h cy gs
    unfolding w' l [symmetric] by (rule step_unlock [of co h cy _ _ gs]) (simp add: l that)
  moreover have "c_locks w' = c_locks w \<Longrightarrow> lock_world_of w' = lock_world_of w" using w' l by simp
  ultimately show ?thesis using locks unfolding sim_steps_on_def unlock_in_def by auto
qed

lemma manager_started:
  assumes run: "EGRequestManager_simulationLockStarted w = Inr w'"
  shows "\<exists>gs. OnSimulationLockStarted (c_locks w) = Inr (c_locks w', gs) \<and> c_mainWaits w' = c_mainWaits w"
  using run by (auto simp: EGRequestManager_simulationLockStarted_def andThen_eq_Inr dest!: issueLockResponses_locks)

section \<open>The invariant of a component's queue\<close>

text \<open>The manager is started once, no activity ever waits, nobody completes the manager, and before the
  manager is active there is no lock.\<close>

definition component_inv :: "component \<Rightarrow> bool" where
  "component_inv w \<longleftrightarrow>
     one_manager w \<and> m_pending w = [] \<and>
     count_list (m_active w) 3 + count_list (posted w) (EvStart 3) = 1 \<and> EvComplete 3 \<notin> set (posted w) \<and>
     (3 \<notin> set (m_active w) \<longrightarrow> m_pCurrentSimLock (c_locks w) = None \<and> EvSimLock \<notin> set (posted w)) \<and>
     sim_reach (lock_world_of w)"

lemma harmless_count: "list_all harmless es \<Longrightarrow>
   count_list es (EvStart 3) = 0 \<and> count_list es EvSimLock = 0 \<and> EvComplete 3 \<notin> set es \<and> EvSimLock \<notin> set es"
  by (induction es) (auto split: if_splits)

lemma component_inv_calm:
  assumes inv: "component_inv w" and c: "calm w w'" shows "component_inv w'"
proof -
  have m: "one_manager w" using inv by (simp add: component_inv_def)
  from c m obtain es where es: "posted w' = posted w @ es" "list_all harmless es" and
    same: "one_manager w'" "c_locks w' = c_locks w" "m_active w' = m_active w" "m_pending w' = m_pending w"
    by (auto simp: calm_def)
  with inv harmless_count [OF es(2)] lock_world_calm [OF c m] show ?thesis by (simp add: component_inv_def)
qed

lemma component_inv_frame:
  assumes inv: "component_inv w" and view: "queue_view w' = queue_view w" and step: "sim_steps_on w us w'"
    and active: "3 \<in> set (m_active w)"
  shows "component_inv w'"
proof -
  have "sim_reach (lock_world_of w')"
    using inv step by (auto simp: component_inv_def sim_steps_on_def intro: sim_reach_next)
  with inv view active show ?thesis
    by (simp add: component_inv_def queue_view_eq one_manager_def heap_wf_def)
qed

lemma component_inv_future: "component_inv w \<Longrightarrow> future_ok (c_locks w)"
  using sim_reach_future [of "lock_world_of w"] by (simp add: component_inv_def lock_world_of_def)

lemma manager_at: "one_manager w \<Longrightarrow> heap w 3 = Some EGRequestManagerActivity"
  by (simp add: one_manager_def)

lemma calm_one: "calm w w' \<Longrightarrow> one_manager w \<Longrightarrow> one_manager w'"
  by (simp add: calm_def)

lemma calm_locks: "calm w w' \<Longrightarrow> one_manager w \<Longrightarrow> c_locks w' = c_locks w \<and> m_active w' = m_active w"
  by (simp add: calm_def)

text \<open>A message.\<close>

lemma component_inv_message:
  assumes inv: "component_inv w" and run: "Queue_OnServerMessage component_vt brk m w = Inr w'"
  shows "component_inv w' \<and> sim_steps_on w (unlock_in (c_locks w) m) w'"
proof -
  let ?h = "component_serverMessage m"
  have one: "one_manager w" and cnt: "count_list (m_active w) 3 \<le> 1" using inv by (simp_all add: component_inv_def)
  from run have run: "notify_until brk ?h (m_active w) w = Inr w'"
    by (simp add: Queue_OnServerMessage_def component_vt_def)
  from notify_until_once [where R = calm and p = 3, OF _ _ _ cnt run] calm_serverMessage calm_refl calm_trans
  have "calm w w' \<or> (3 \<in> set (m_active w) \<and> (\<exists>v v' b. calm w v \<and> ?h v 3 = Inr (v', b) \<and> calm v' w'))" by blast
  then show ?thesis
  proof (elim disjE exE conjE)
    assume "calm w w'"
    with inv one lock_world_calm show ?thesis by (auto simp: sim_steps_on_def intro: component_inv_calm)
  next
    fix v v' b
    assume active: "3 \<in> set (m_active w)" and 1: "calm w v" and 2: "?h v 3 = Inr (v', b)" and 3: "calm v' w'"
    have v: "component_inv v" "one_manager v" using 1 inv one by (auto intro: component_inv_calm calm_one)
    from 2 have run: "EGRequestManager_serverMessage m v = Inr (v', b)"
      by (simp add: component_serverMessage_def manager_at [OF v(2)])
    have step: "sim_steps_on v (unlock_in (c_locks w) m) v'"
      using manager_message [OF run component_inv_future [OF v(1)]] calm_locks [OF 1 one] by simp
    note view = EGRequestManager_serverMessage_view [OF run]
    have v': "one_manager v'" using v(2) view by (simp add: one_manager_def queue_view_eq heap_wf_def)
    have "3 \<in> set (m_active v)" using active calm_locks [OF 1 one] by simp
    with v(1) view step have "component_inv v'" by (rule component_inv_frame)
    with 3 have "component_inv w'" by (rule component_inv_calm [rotated])
    with step lock_world_calm [OF 1 one] lock_world_calm [OF 3 v'] show ?thesis by (simp add: sim_steps_on_def)
  qed
qed

text \<open>The start of the lock, which the one manager works off.\<close>

lemma component_inv_started:
  assumes inv: "component_inv u" and w: "posted u = EvSimLock # es" "w = u\<lparr>posted := es\<rparr>"
    and run: "Queue_OnSimulationLockStarted component_vt w = Inr w'"
  shows "component_inv w' \<and> sim_step (lock_world_of u) [] (lock_world_of w')"
proof -
  let ?h = "component_simulationLockStarted"
  have one: "one_manager w" and "3 \<in> set (m_active w)" and "EvStart 3 \<notin> set es" and cnt: "count_list (m_active w) 3 = 1"
    using inv w count_list_0_iff [of "m_active w" 3] count_list_0_iff [of es "EvStart 3"]
    by (auto simp: component_inv_def one_manager_def heap_wf_def)
  from run have run: "notify_all ?h (m_active w) w = Inr w'"
    by (simp add: Queue_OnSimulationLockStarted_def component_vt_def)
  from notify_all_once [where R = calm and p = 3, OF _ _ _ cnt run] calm_others calm_refl calm_trans
  obtain v v' where 1: "calm w v" and 2: "?h v 3 = Inr v'" and 3: "calm v' w'" by blast
  have v: "one_manager v" using 1 one by (rule calm_one)
  from 2 have e: "EGRequestManager_simulationLockStarted v = Inr v'"
    by (simp add: component_simulationLockStarted_def manager_at [OF v])
  from manager_started [OF e] obtain gs where
    st: "OnSimulationLockStarted (c_locks v) = Inr (c_locks v', gs)" and mw: "c_mainWaits v' = c_mainWaits v" by blast
  have view: "queue_view v' = queue_view v" by (rule eg_requests_view(5) [OF e])
  have v': "one_manager v'" using v view by (simp add: one_manager_def queue_view_eq heap_wf_def)
  have wv: "lock_world_of v = lock_world_of w" using 1 one by (rule lock_world_calm)
  have u: "lock_world_of u = (lock_world_of w)\<lparr>starts_posted := Suc (starts_posted (lock_world_of w))\<rparr>"
    using w by (simp add: lock_world_of_def)
  have "sim_step (lock_world_of u) [] (lock_world_of v')"
    using step_started [of "lock_world_of u" "starts_posted (lock_world_of w)"] st wv u lock_world_view [OF view mw]
    by (simp add: lock_world_of_def)
  moreover have w': "lock_world_of w' = lock_world_of v'" using 3 v' by (rule lock_world_calm)
  ultimately have step: "sim_step (lock_world_of u) [] (lock_world_of w')" by simp
  obtain ds where ds: "posted v = es @ ds" "list_all harmless ds" "m_active v = m_active w" "m_pending v = m_pending w"
    using 1 one w(2) by (auto simp: calm_def)
  obtain fs where fs: "posted w' = posted v' @ fs" "list_all harmless fs" "m_active w' = m_active v'"
    "m_pending w' = m_pending v'" "one_manager w'"
    using 3 v' by (auto simp: calm_def)
  have "sim_reach (lock_world_of w')" using inv step by (auto simp: component_inv_def intro: sim_reach_next)
  with fs ds view inv w harmless_count [OF ds(2)] harmless_count [OF fs(2)] \<open>3 \<in> set (m_active w)\<close>
  have "component_inv w'" by (simp add: component_inv_def queue_view_eq)
  with step show ?thesis by blast
qed

text \<open>The other events.\<close>

lemma component_inv_popped:
  assumes "component_inv w" and "posted w = e # es" and "e \<noteq> EvSimLock" and "e \<noteq> EvStart 3"
  shows "component_inv (w\<lparr>posted := es\<rparr>) \<and> lock_world_of (w\<lparr>posted := es\<rparr>) = lock_world_of w"
  using assms by (auto simp: component_inv_def one_manager_def heap_wf_def lock_world_of_def)

lemma component_inv_start:
  assumes inv: "component_inv u" and w: "posted u = EvStart a # es" "w = u\<lparr>posted := es\<rparr>"
    and run: "Queue_OnStartActivity component_vt a w = Inr w'"
  shows "component_inv w' \<and> lock_world_of w' = lock_world_of u"
proof -
  let ?v = "w\<lparr>m_active := m_active w @ [a]\<rparr>"
  have "m_pending w = []" and one: "one_manager ?v" using inv w by (auto simp: component_inv_def one_manager_def heap_wf_def)
  with run have "component_start ?v a = Inr w'"
    by (auto simp: Queue_OnStartActivity_def component_vt_def activity_defaults split: if_splits)
  then have c: "calm ?v w'" by (rule calm_start)
  have "component_inv ?v"
    using inv w one by (cases "a = 3") (auto simp: component_inv_def lock_world_of_def)
  moreover have "lock_world_of ?v = lock_world_of u" using w by (simp add: lock_world_of_def)
  ultimately show ?thesis using c lock_world_calm [OF c one] component_inv_calm by auto
qed

lemma complete_scan_default:
  "complete_scan (\<lambda>w a. Inr (w, False)) p as w = Inr (w, p \<in> set as)"
  by (induction as) auto

lemma component_inv_complete:
  assumes inv: "component_inv w" and "p \<noteq> 3" and run: "Queue_OnActivityComplete component_vt p w = Inr w'"
  shows "component_inv w' \<and> lock_world_of w' = lock_world_of w"
proof -
  have "v_activityComplete component_vt p = (\<lambda>w a. Inr (w, False))"
    by (intro ext) (simp add: component_vt_def activity_defaults)
  with run inv have w': "w' = w\<lparr>m_active := remove1 p (m_active w)\<rparr>"
    by (auto simp: Queue_OnActivityComplete_def complete_scan_default Queue_admit_pending_def component_inv_def
        split: if_splits)
  have "count_list (remove1 p as) 3 = count_list as 3" for as
    using assms(2) by (induction as) auto
  moreover have "3 \<in> set (remove1 p as) \<longleftrightarrow> 3 \<in> set as" for as
    using assms(2) by (simp add: in_set_remove1)
  ultimately show ?thesis
    using inv w' by (simp add: component_inv_def one_manager_def heap_wf_def lock_world_of_def)
qed

lemma component_inv_until:
  assumes inv: "component_inv w" and run: "notify_until brk h as w = Inr w'"
    and step: "\<And>v a v' b. h v a = Inr (v', b) \<Longrightarrow> calm v v'"
  shows "component_inv w' \<and> lock_world_of w' = lock_world_of w"
proof -
  have c: "calm w w'"
    using notify_until_rel [where R = calm and h = h, OF _ _ _ run] step calm_refl calm_trans by blast
  then show ?thesis
    using component_inv_calm [OF inv c] lock_world_calm [OF c] inv by (simp add: component_inv_def)
qed

lemma component_inv_queue:
  assumes inv: "component_inv w" and run: "queue_step component_vt brk w = Inr w'"
  shows "component_inv w' \<and> sim_steps_on w (head_unlock w) w'"
proof (cases "posted w")
  case Nil
  with run inv show ?thesis by (simp add: queue_step_def sim_steps_on_def)
next
  case (Cons e es)
  let ?w = "w\<lparr>posted := es\<rparr>"
  from run Cons have run: "queue_handle component_vt brk e ?w = Inr w'" by (simp add: queue_step_def)
  note pop = component_inv_popped [OF inv Cons]
  show ?thesis
  proof (cases e)
    case (EvStart a)
    with run have "Queue_OnStartActivity component_vt a ?w = Inr w'" by (simp add: queue_handle_def)
    from component_inv_start [OF inv Cons [unfolded EvStart] refl this] show ?thesis by (simp add: sim_steps_on_def)
  next
    case (EvServer m)
    with run have run: "Queue_OnServerMessage component_vt brk m ?w = Inr w'" by (simp add: queue_handle_def)
    from component_inv_message [OF _ run] pop EvServer Cons show ?thesis
      by (simp add: sim_steps_on_def head_unlock_def)
  next
    case (EvClient c m)
    with run have "notify_until brk (Activity_clientMessage c m) (m_active ?w) ?w = Inr w'"
      by (simp add: queue_handle_def Queue_OnClientMessage_def component_vt_def)
    from component_inv_until [OF _ this] pop EvClient show ?thesis
      by (simp add: sim_steps_on_def activity_defaults)
  next
    case (EvJob j)
    with run have "notify_until brk (component_jobComplete j) (m_active ?w) ?w = Inr w'"
      by (simp add: queue_handle_def Queue_OnJobComplete_def component_vt_def)
    from component_inv_until [OF _ this calm_jobComplete] pop EvJob show ?thesis
      by (simp add: sim_steps_on_def)
  next
    case (EvComplete a)
    with run have "Queue_OnActivityComplete component_vt a ?w = Inr w'" by (simp add: queue_handle_def)
    moreover have "a \<noteq> 3" using inv Cons EvComplete by (auto simp: component_inv_def)
    ultimately show ?thesis
      using component_inv_complete [of ?w a w'] pop EvComplete by (simp add: sim_steps_on_def)
  next
    case EvSimLock
    with run have "Queue_OnSimulationLockStarted component_vt ?w = Inr w'" by (simp add: queue_handle_def)
    from component_inv_started [OF inv Cons [unfolded EvSimLock] refl this] show ?thesis
      by (simp add: sim_steps_on_def head_unlock_def Cons EvSimLock)
  qed
qed

section \<open>The main thread and the network\<close>

lemma component_inv_calm_step:
  assumes "component_inv w" and "calm w w'" shows "component_inv w' \<and> sim_steps_on w [] w'"
  using component_inv_calm [OF assms] lock_world_calm [OF assms(2)] assms(1)
  by (simp add: component_inv_def sim_steps_on_def)

lemma component_inv_begin:
  assumes inv: "component_inv w" and main: "\<not> c_mainWaits w" and run: "Component_runCycle_begin w = Inr w'"
  shows "component_inv w' \<and> sim_steps_on w [] w'"
proof -
  from run obtain v where jobs: "Component_runAllJobs w = Inr v" by (auto simp: Component_runCycle_begin_def andThen_eq_Inr)
  have c: "calm w v" using jobs by (rule calm_runAllJobs)
  have v: "component_inv v" using inv c by (rule component_inv_calm)
  have lw: "lock_world_of v = lock_world_of w" using lock_world_calm [OF c] inv by (simp add: component_inv_def)
  have mv: "\<not> c_mainWaits v" using c inv main by (simp add: calm_def component_inv_def)
  obtain s waits where h: "runCycle_handover (c_locks v) = (s, waits)" by (metis surj_pair)
  show ?thesis
  proof (cases waits)
    case False
    with h have "s = c_locks v" by (auto simp: runCycle_handover_def split: if_splits)
    have "v\<lparr>c_mainWaits := False\<rparr> = v" using mv by (cases v) simp
    with run jobs h False mv \<open>s = c_locks v\<close> have "w' = v" by (simp add: Component_runCycle_begin_def)
    with v lw show ?thesis by (simp add: sim_steps_on_def)
  next
    case True
    with h have cur: "m_pCurrentSimLock (c_locks v) \<noteq> None" "s = (c_locks v)\<lparr>m_bCurrentLockReleased := False\<rparr>"
      by (auto simp: runCycle_handover_def split: if_splits)
    from run jobs h True have w': "w' = queue_startSimulationLock (v\<lparr>c_locks := s, c_mainWaits := True\<rparr>)"
      by (simp add: Component_runCycle_begin_def)
    have step: "sim_step (lock_world_of v) [] (lock_world_of w')"
      using step_handover [of "lock_world_of v" s] mv h True w'
      by (simp add: lock_world_of_def queue_posts queue_post_def)
    moreover have "3 \<in> set (m_active v)" using v cur(1) by (auto simp: component_inv_def)
    ultimately have "component_inv w'"
      using v w' sim_reach_next [OF _ step]
      by (simp add: component_inv_def queue_posts queue_post_def one_manager_def heap_wf_def)
    with step lw show ?thesis by (simp add: sim_steps_on_def)
  qed
qed

lemma component_inv_end:
  assumes inv: "component_inv w" and run: "Component_runCycle_end calls w = Some (Inr w')"
  shows "component_inv w' \<and> sim_steps_on w [] w'"
proof -
  from run have free: "c_mainWaits w \<longrightarrow> m_bCurrentLockReleased (c_locks w)"
    and w': "queue_view w' = queue_view w" "c_locks w' = c_locks w" "\<not> c_mainWaits w'"
    by (auto simp: Component_runCycle_end_def andThen_eq_Inr queue_view_eq split: if_splits option.splits)
  have lw: "lock_world_of w' = (lock_world_of w)\<lparr>main_waits := False\<rparr>"
    using w' by (simp add: lock_world_of_def queue_view_eq)
  then have step: "sim_steps_on w [] w'"
    using free step_wake [of "lock_world_of w"] by (cases "c_mainWaits w") (auto simp: sim_steps_on_def lock_world_of_def)
  then have "sim_reach (lock_world_of w')"
    using inv by (auto simp: component_inv_def sim_steps_on_def intro: sim_reach_next)
  with inv w' step show ?thesis
    by (simp add: component_inv_def queue_view_eq one_manager_def heap_wf_def)
qed

lemma component_inv_step:
  assumes "component_step brk w us w'" and "component_inv w"
  shows "component_inv w' \<and> sim_steps_on w us w'"
  using assms
proof (induction rule: component_step.induct)
  case (cs_queue w w')
  then show ?case using component_inv_queue by simp
next
  case (cs_message w m)
  then show ?case unfolding queue_posts by (intro component_inv_calm_step calm_post) auto
next
  case (cs_buffer w n sz)
  have "next_ref w \<noteq> 3" using cs_buffer manager_allocated [of w] by (simp add: component_inv_def)
  then have "calm w (snd (Component_getSharedBuffer n sz w))"
    using calm_trans [OF calm_new [of "BufferActivity n sz None" w] calm_post [of "EvStart (next_ref w)"]]
    by (simp add: Component_getSharedBuffer_def new_activity_def queue_posts)
  with cs_buffer show ?case by (rule component_inv_calm_step)
next
  case (cs_begin w w')
  then show ?case using component_inv_begin by simp
next
  case (cs_end calls w w')
  then show ?case using component_inv_end by simp
next
  case (cs_network w z eg)
  then show ?case by (intro component_inv_calm_step calm_updates(8))
qed

lemma component_ctor_world: "lock_world_of (Component_ctor pn u z eg src) = init_lock_world"
  by (simp add: Component_ctor_def lock_world_of_def init_lock_world_def)

lemma component_ctor_inv: "component_inv (Component_ctor pn u z eg src)"
  using sim_init component_ctor_world [of pn u z eg src]
  by (auto simp: component_inv_def one_manager_def heap_wf_def Component_ctor_def lock_world_of_def sim_reach_def)

lemma component_run_inv: "component_run brk tr w \<Longrightarrow> component_inv w"
  by (induction rule: component_run.induct) (auto intro: component_ctor_inv dest: component_inv_step)

text \<open>The run of the protocol that a run of the component is makes no other unlocks.\<close>

lemma component_run_sim:
  "component_run brk tr w \<Longrightarrow> \<exists>tr'. set tr' \<subseteq> set tr \<and> sim_run tr' (lock_world_of w)"
proof (induction rule: component_run.induct)
  case cr_init
  then show ?case using sim_init by (auto simp: component_ctor_world)
next
  case (cr_step tr w us w')
  then obtain tr' where tr: "set tr' \<subseteq> set tr" "sim_run tr' (lock_world_of w)" by blast
  have "sim_steps_on w us w'"
    using component_inv_step [OF cr_step.hyps(2)] component_run_inv [OF cr_step.hyps(1)] by blast
  then consider "lock_world_of w' = lock_world_of w" | "sim_step (lock_world_of w) us (lock_world_of w')"
    by (auto simp: sim_steps_on_def)
  then show ?case
  proof cases
    case 1
    with tr show ?thesis by auto
  next
    case 2
    from sim_next [OF tr(2) this] tr(1) show ?thesis by (intro exI [of _ "tr' @ us"]) auto
  qed
qed

lemma component_run_sim_inv:
  assumes "component_run brk tr w" and "list_all held_unlock tr"
  shows "sim_inv (lock_world_of w)"
proof -
  from component_run_sim [OF assms(1)] obtain tr' where "set tr' \<subseteq> set tr" "sim_run tr' (lock_world_of w)" by blast
  moreover from this(1) assms(2) have "list_all held_unlock tr'" by (auto simp: list_all_iff)
  ultimately show ?thesis using sim_run_inv by blast
qed

end
