(* ===== verification/Program_Properties.thy ===== *)
theory Program_Properties
  imports Program_Runtime
begin

text \<open>
  What a program promises of its locks and buffers: every lock taken in a cycle is given back exactly
  once, buffers are found again, and a lock request that is answered by errors only never returns.
\<close>

definition demo_plugin :: plugin where
  "demo_plugin =
     \<lparr>pl_encode = \<lambda>cs t i. Inr ''data'', pl_decode = \<lambda>cs t i s. Inr (), pl_decodeWrite = \<lambda>cs s. Inr (),
      pl_load = \<lambda>cs s. Inr (), pl_save = \<lambda>cs s. Inl (Rte ''no disk''), pl_currentCycle = \<lambda>cs. of_nat (length cs),
      pl_hasEncodeDecode = True, pl_hasConfigIO = True\<rparr>"

definition demo_program :: program where
  "demo_program =
     \<lparr>p_hostName = ''east'', p_projectName = ''p'', p_componentName = ''c'', p_componentPath = ''b/c'',
      p_componentSrcPath = ''s'', p_networkAddressTable = None, p_programTable = None,
      p_plugin = demo_plugin, p_calls = [PlInitialise], p_cacheBuffers = [], p_sharedBuffers = [],
      p_componentLocks = []\<rparr>"

definition lock_response :: message where
  "lock_response = EG_Msg \<lparr>eg_type = 0, eg_instance = 0, eg_cycle = 9,
     eg_body = Some (EgResponse \<lparr>rs_coordinator = 0, rs_host = 0, rs_value = ''''\<rparr>)\<rparr>"

definition lock_error :: message where
  "lock_error = EG_Msg \<lparr>eg_type = 0, eg_instance = 0, eg_cycle = 9,
     eg_body = Some (EgError \<lparr>er_coordinator = 0, er_host = 0\<rparr>)\<rparr>"

definition demo_link :: "recv_result list \<Rightarrow> eg_link" where
  "demo_link rs =
     \<lparr>lk_zmq = \<lparr>z_init_size = True, z_routing = \<lambda>_. True, z_server_send = \<lambda>_. None, z_client_send = None\<rparr>,
      lk_parse = (\<lambda>s. Some (if s = ''e'' then lock_error else lock_response)),
      lk_incoming = rs, lk_sent = []\<rparr>"

text \<open>The unlocks sent for a set of locks, in the order of the set.\<close>

definition unlocks_of :: "(int \<times> u32) list \<Rightarrow> message list" where
  "unlocks_of ls = map unlock_message ls"

text \<open>C21. When a cycle of the program ends, it holds no lock, and what it sent is exactly the requests
  its code made, in order, followed by one unlock for each lock it held before or took in the cycle.\<close>

theorem Program_run_releases:
  assumes "Program_run calls p lk = Some (Inr (p', lk'))" and "smap_wf (p_componentLocks p)"
  shows "p_componentLocks p' = [] \<and>
    (\<exists>ls. distinct ls \<and> set ls = held p \<union> locks_of calls \<and>
       lk_sent lk' = lk_sent lk @ map call_request calls @ unlocks_of ls)"
proof -
  from assms(1) obtain q lq where cyc: "plugin_cycle calls (plugin_called PlCycle p) lk = Some (Inr (q, lq))"
    and rel: "Program_releaseLocks q lq = Inr (p', lk')"
    by (auto simp: Program_run_def split: option.splits sum.splits)
  from plugin_cycle_held [OF cyc] assms(2) have q: "held q = held p \<union> locks_of calls"
    "smap_wf (p_componentLocks q)" "lk_sent lq = lk_sent lk @ map call_request calls"
    by (simp_all add: plugin_called_def held_def)
  from rel have p': "p' = q\<lparr>p_componentLocks := []\<rparr>" and s: "send_unlocks (p_componentLocks q) lq = Inr lk'"
    by (auto simp: Program_releaseLocks_def andThen_eq_Inr)
  let ?ls = "map fst (p_componentLocks q)"
  have "distinct ?ls" "set ?ls = held p \<union> locks_of calls"
    using q smap_wf_distinct by (auto simp: held_def)
  moreover have "lk_sent lk' = lk_sent lk @ map call_request calls @ unlocks_of ?ls"
    using send_unlocks_sent [OF s] q(3) by (simp add: unlocks_of_def)
  ultimately show ?thesis using p' by auto
qed

theorem Program_run_releases_witness:
  "\<exists>ls. distinct ls \<and> set ls = held demo_program \<union> {(5, 1)}"
  using Program_run_releases [of "[McReadLock 5 1, McWrite 5 ''v'' 1]" demo_program "demo_link [RecvMsg ''r'' 0]"]
  by (fastforce simp: Program_run_def Program_readlock_def Program_write_def demo_link_def demo_program_def
      plugin_called_def Component_sendeg_def Client_send_def ZMQMsg_send_ctor_def Component_readegSync_def
      Client_recv_sync_def ZMQMsg_readMessage_def lock_response_def Program_releaseLocks_def unlock_message_def)

text \<open>A program that asks for a lock it cannot get waits for ever: as long as only error replies
  arrive, \<open>readlock\<close> and \<open>writelock\<close> do not return.\<close>

theorem lock_errors_block:
  assumes "\<forall>r \<in> set (lk_incoming lk). \<exists>egMsg e. Component_readegSync (lk_parse lk) r = Inr (Some (EG_Msg egMsg))
             \<and> eg_body egMsg = Some (EgError e)"
    and "Client_send (lk_zmq lk) = Inr True"
  shows "Program_readlock ty ts p lk = None \<and> Program_writelock ty ts p lk = None"
proof -
  have aw: "await_lock what ty ts p k rs = None"
    if "\<forall>r \<in> set rs. \<exists>egMsg e. Component_readegSync (lk_parse k) r = Inr (Some (EG_Msg egMsg))
             \<and> eg_body egMsg = Some (EgError e)" for what rs k
    using that by (induction rs) auto
  show ?thesis
    using assms aw by (simp add: Program_readlock_def Program_writelock_def Component_sendeg_def)
qed

theorem lock_errors_block_witness:
  "Program_readlock 5 1 demo_program (demo_link [RecvMsg ''e'' 0, RecvMsg ''e'' 0]) = None"
  using lock_errors_block [of "demo_link [RecvMsg ''e'' 0, RecvMsg ''e'' 0]" 5 1 demo_program]
  by (simp add: demo_link_def Component_readegSync_def Client_recv_sync_def ZMQMsg_readMessage_def
      lock_error_def Client_send_def ZMQMsg_send_ctor_def)

text \<open>The buffers of a program: a shared buffer asked for again under the same shared name and size
  is the one given before and nothing changes; a local buffer is given once, a second request under
  its name is refused whatever the size.\<close>

theorem program_buffers:
  assumes "smap_wf (p_sharedBuffers p)" and "smap_wf (p_cacheBuffers p)"
  shows "(let (b, p1) = Program_getSharedBuffer n sz sn p in
            Program_getSharedBuffer n sz sn p1 = (b, p1) \<and> sb_size b = sz \<and> sb_sharedName b = sn)
       \<and> (Program_getLocalBuffer n sz p = Inr (b, p2) \<longrightarrow>
            LocalBufferImpl_getSize b = sz \<and>
            Program_getLocalBuffer n sz' p2 = Inl (Rte (''Duplicate buffer requested: '' @ n)))"
  using smap_assign_find [OF assms(1)] smap.find_insert [OF assms(2)]
  by (auto simp: Program_getSharedBuffer_def Program_getLocalBuffer_def SharedBufferImpl_ctor_def
      LocalBufferImpl_ctor_def LocalBufferImpl_getSize_def Let_def split: option.splits)

theorem program_buffers_witness:
  "Program_getSharedBuffer ''b'' 8 ''x'' (snd (Program_getSharedBuffer ''b'' 8 ''x'' demo_program))
   = Program_getSharedBuffer ''b'' 8 ''x'' demo_program"
  using program_buffers [of demo_program "''b''" 8 "''x''"]
  by (simp add: demo_program_def Let_def case_prod_unfold)

end
