(* ===== verification/Client_Map.thy ===== *)
theory Client_Map
  imports Mega_Prelude
begin

text \<open>
  The clients of the master by name: \<open>src/api/megastructure/clientMap.hpp\<close>.  A \<open>std::map\<close> is a list
  ordered by name (theory \<open>Mega_Prelude\<close>).
\<close>

type_synonym client_map = "(string \<times> u32) list"

definition ClientMap_getClientID :: "string \<Rightarrow> client_map \<Rightarrow> u32 option" where
  "ClientMap_getClientID strName m = map_of m strName"

definition ClientMap_enroll :: "string \<Rightarrow> u32 \<Rightarrow> client_map \<Rightarrow> bool \<times> client_map" where
  "ClientMap_enroll strName clientID m =
     (case ClientMap_getClientID strName m of
        None \<Rightarrow> (True, smap_insert strName clientID m)
      | Some _ \<Rightarrow> (False, m))"

definition ClientMap_removeClient :: "u32 \<Rightarrow> client_map \<Rightarrow> client_map" where
  "ClientMap_removeClient clientID m = filter (\<lambda>e. snd e \<noteq> clientID) m"

text \<open>\<open>forEachClientID\<close> does not advance its iterator: over a client it calls the functor again and
  again.  \<open>None\<close>: it did not return within the calls given by the fuel.\<close>

fun ClientMap_forEachClientID :: "nat \<Rightarrow> (u32 \<Rightarrow> 's \<Rightarrow> 's) \<Rightarrow> client_map \<Rightarrow> 's \<Rightarrow> 's option" where
  "ClientMap_forEachClientID n f [] s = Some s"
| "ClientMap_forEachClientID 0 f (e # m) s = None"
| "ClientMap_forEachClientID (Suc n) f (e # m) s = ClientMap_forEachClientID n f (e # m) (f (snd e) s)"

definition client_map_wf :: "client_map \<Rightarrow> bool" where
  "client_map_wf m \<longleftrightarrow> smap_wf m"

lemma map_of_filter_snd:
  "smap_wf m \<Longrightarrow> map_of (filter (\<lambda>e. snd e \<noteq> c) m) k = (if map_of m k = Some c then None else map_of m k)"
proof (induction m)
  case (Cons e m)
  then have lt: "\<forall>e' \<in> set m. fst e < fst e'" and IH: "map_of (filter (\<lambda>e. snd e \<noteq> c) m) k =
      (if map_of m k = Some c then None else map_of m k)" by (auto simp: smap_wf_Cons)
  have "map_of m (fst e) = None" using lt by (intro map_of_None_less)
  with IH show ?case by (cases e) auto
qed simp

lemma removeClient_find:
  "client_map_wf m \<Longrightarrow> ClientMap_getClientID n (ClientMap_removeClient c m) =
     (if ClientMap_getClientID n m = Some c then None else ClientMap_getClientID n m)"
  by (simp add: client_map_wf_def ClientMap_getClientID_def ClientMap_removeClient_def map_of_filter_snd)

lemma client_map_wf_remove: "client_map_wf m \<Longrightarrow> client_map_wf (ClientMap_removeClient c m)"
  by (simp add: client_map_wf_def ClientMap_removeClient_def smap_filter_wf)

lemma client_map_wf_enroll: "client_map_wf m \<Longrightarrow> client_map_wf (snd (ClientMap_enroll n c m))"
  by (simp add: client_map_wf_def ClientMap_enroll_def smap_insert_wf split: option.split)

lemma enroll_find:
  "client_map_wf m \<Longrightarrow> ClientMap_getClientID k (snd (ClientMap_enroll n c m)) =
     (if ClientMap_getClientID n m = None \<and> k = n then Some c else ClientMap_getClientID k m)"
  by (auto simp: client_map_wf_def ClientMap_enroll_def ClientMap_getClientID_def smap.find_insert
      split: option.split)

text \<open>A name is enrolled once: an enrollment is refused exactly when the name is taken, an accepted
  one binds the name to the client and no other name, and removing the client frees exactly the
  names bound to it.\<close>

theorem client_map_enrollment:
  assumes "client_map_wf m"
  shows "fst (ClientMap_enroll n c m) = (ClientMap_getClientID n m = None)
       \<and> ClientMap_getClientID k (snd (ClientMap_enroll n c m))
           = (if ClientMap_getClientID n m = None \<and> k = n then Some c else ClientMap_getClientID k m)
       \<and> ClientMap_getClientID k (ClientMap_removeClient c m)
           = (if ClientMap_getClientID k m = Some c then None else ClientMap_getClientID k m)
       \<and> client_map_wf (snd (ClientMap_enroll n c m)) \<and> client_map_wf (ClientMap_removeClient c m)"
  using enroll_find [OF assms] removeClient_find [OF assms] client_map_wf_enroll [OF assms]
    client_map_wf_remove [OF assms]
  by (simp add: ClientMap_enroll_def split: option.split)

theorem client_map_enrollment_witness:
  "fst (ClientMap_enroll ''a'' 2 [(''a'', 1)]) = False \<and> fst (ClientMap_enroll ''b'' 2 [(''a'', 1)]) = True"
  using client_map_enrollment [of "[(''a'', 1)]" "''a''" 2 "''a''"] client_map_enrollment [of "[(''a'', 1)]" "''b''" 2 "''a''"]
  by (simp add: client_map_wf_def smap_wf_def ClientMap_getClientID_def)

text \<open>\<open>forEachClientID\<close> returns on the empty map only: over any client it never ends.\<close>

theorem forEachClientID_loops:
  "(\<exists>n r. ClientMap_forEachClientID n f m s = Some r) \<longleftrightarrow> m = []"
proof -
  have "ClientMap_forEachClientID n f (e # l) s = None" for n e l s
    by (induction n arbitrary: s) auto
  then show ?thesis by (cases m) auto
qed

end
