(* ===== verification/Address_Table.thy ===== *)
theory Address_Table
  imports Client_Map
begin

text \<open>
  The network address tables: \<open>src/api/megastructure/networkAddressTable.hpp\<close> and
  \<open>src/src/core/networkAddressTable.cpp\<close>.  They say, for every type of a program, through which
  client a master, a slave or a host reaches the host that owns the type.

  The tree of a program comes from the compiler's analysis database, whose library is not in the
  repository.  An \<open>element\<close> is what the code asks of one of its nodes: its index, whether it is a
  \<open>concrete::Action\<close>, and then the identifier of its context, whether that is a root of the type
  \<open>eHostName\<close>, and its children.  The root is absent when the database file does not exist.
\<close>

section \<open>Program trees\<close>

datatype element =
    Action (el_index: int) (el_identifier: string) (el_hostName: bool) (el_children: "element list")
  | Other (el_index: int)

primrec indices :: "element \<Rightarrow> int list" where
  "indices (Action i n h es) = i # concat (map indices es)"
| "indices (Other i) = [i]"

definition UnMapped :: u32 where "UnMapped = 0"
definition MasterID :: u32 where "MasterID = - 1"
definition SelfID :: u32 where "SelfID = - 2"

text \<open>\<open>ClientIDMap\<close>, a \<open>std::map\<close> from indices to clients: an index that is already there keeps its
  client.\<close>

type_synonym client_id_map = "(int \<times> u32) list"
type_synonym table = "u32 list"

section \<open>Filling the map of clients\<close>

fun recurseClient :: "u32 \<Rightarrow> element \<Rightarrow> client_id_map \<Rightarrow> client_id_map"
  and recurseClient_children :: "u32 \<Rightarrow> element list \<Rightarrow> client_id_map \<Rightarrow> client_id_map" where
  "recurseClient uiClientID (Action i n h es) m =
     recurseClient_children uiClientID es (smap_insert i uiClientID m)"
| "recurseClient uiClientID (Other i) m = smap_insert i uiClientID m"
| "recurseClient_children uiClientID [] m = m"
| "recurseClient_children uiClientID (e # es) m =
     recurseClient_children uiClientID es (recurseClient uiClientID e m)"

text \<open>One round of the loop of each function, over a child.\<close>

definition recurseMappedClients_child :: "client_map \<Rightarrow> element \<Rightarrow> client_id_map \<Rightarrow> client_id_map" where
  "recurseMappedClients_child clientMap e m =
     (case e of
        Action i strActionIdentifier h es \<Rightarrow>
          (case map_of clientMap strActionIdentifier of
             Some uiClientID \<Rightarrow> recurseClient uiClientID e m
           | None \<Rightarrow> recurseClient UnMapped e m)
      | Other _ \<Rightarrow> m)"

definition recurseMappedClients :: "client_map \<Rightarrow> element \<Rightarrow> client_id_map \<Rightarrow> client_id_map" where
  "recurseMappedClients clientMap root m = fold (recurseMappedClients_child clientMap) (el_children root) m"

definition recurseSlave_child :: "client_map \<Rightarrow> string \<Rightarrow> element \<Rightarrow> client_id_map \<Rightarrow> client_id_map" where
  "recurseSlave_child clientMap strCoordinatorName e m =
     (case e of
        Action i strActionIdentifier h es \<Rightarrow>
          if strCoordinatorName = strActionIdentifier
          then recurseMappedClients clientMap e (smap_insert i SelfID m)
          else recurseClient MasterID e m
      | Other _ \<Rightarrow> m)"

definition recurseSlave :: "client_map \<Rightarrow> string \<Rightarrow> element \<Rightarrow> client_id_map \<Rightarrow> client_id_map" where
  "recurseSlave clientMap strCoordinatorName pMegaRoot m =
     fold (recurseSlave_child clientMap strCoordinatorName) (el_children pMegaRoot) m"

definition recurseHostName_child :: "string \<Rightarrow> element \<Rightarrow> client_id_map \<Rightarrow> client_id_map" where
  "recurseHostName_child strHostName e m =
     (case e of
        Action i strActionIdentifier h es \<Rightarrow>
          if strHostName = strActionIdentifier then recurseClient SelfID e m else recurseClient MasterID e m
      | Other _ \<Rightarrow> m)"

definition recurseHostName :: "string \<Rightarrow> element \<Rightarrow> client_id_map \<Rightarrow> client_id_map" where
  "recurseHostName strHostName pRoot m = fold (recurseHostName_child strHostName) (el_children pRoot) m"

definition recurseHost_child :: "string \<Rightarrow> string \<Rightarrow> element \<Rightarrow> client_id_map \<Rightarrow> client_id_map" where
  "recurseHost_child strCoordinatorName strHostName e m =
     (case e of
        Action i strActionIdentifier h es \<Rightarrow>
          if strCoordinatorName = strActionIdentifier
          then recurseHostName strHostName e (smap_insert i MasterID m)
          else recurseClient MasterID e m
      | Other _ \<Rightarrow> m)"

definition recurseHost :: "string \<Rightarrow> string \<Rightarrow> element \<Rightarrow> client_id_map \<Rightarrow> client_id_map" where
  "recurseHost strCoordinatorName strHostName pMegaRoot m =
     fold (recurseHost_child strCoordinatorName strHostName) (el_children pMegaRoot) m"

text \<open>\<open>recurseTypes\<close>: every type below a host name action is mapped to the index of that action.\<close>

fun recurseTypes :: "element list \<Rightarrow> client_id_map \<Rightarrow> client_id_map" where
  "recurseTypes [] m = m"
| "recurseTypes (Other i # es) m = recurseTypes es m"
| "recurseTypes (Action i n h cs # es) m =
     recurseTypes es (if h then recurseClient (word_of_int i) (Action i n h cs) m else recurseTypes cs m)"

section \<open>Tables\<close>

text \<open>A negative index would be written outside the vector.\<close>

definition buildTable :: "client_id_map \<Rightarrow> table result" where
  "buildTable m =
     (if list_ex (\<lambda>e. fst e < 0) m then Inl (Ub ''table index out of range'')
      else (let iHighest = fold (\<lambda>e hi. if fst e > hi then fst e else hi) m 0
            in Inr (fold (\<lambda>e t. t[nat (fst e) := snd e]) m (replicate (nat (iHighest + 1)) 0))))"

definition getMegaRoot :: "element \<Rightarrow> element result" where
  "getMegaRoot pInstanceRoot =
     (case filter is_Action (el_children pInstanceRoot) of
        [] \<Rightarrow> Inl (Rte ''Failed to locate mega root'')
      | [e] \<Rightarrow> Inr e
      | _ \<Rightarrow> Inl (Rte ''!pMegaRootResult''))"

definition table_from :: "(element \<Rightarrow> client_id_map \<Rightarrow> client_id_map) \<Rightarrow> element option \<Rightarrow> table result" where
  "table_from fill session =
     (case session of
        None \<Rightarrow> Inr []
      | Some pInstanceRoot \<Rightarrow>
          andThen (getMegaRoot pInstanceRoot) (\<lambda>pMegaRoot. buildTable (fill pMegaRoot [])))"

text \<open>The constructors of a master, a slave and a host.\<close>

definition NetworkAddressTable_master :: "client_map \<Rightarrow> element option \<Rightarrow> table result" where
  "NetworkAddressTable_master clients session = table_from (recurseMappedClients clients) session"

definition NetworkAddressTable_slave :: "client_map \<Rightarrow> string \<Rightarrow> element option \<Rightarrow> table result" where
  "NetworkAddressTable_slave clients strCoordinatorName session =
     table_from (recurseSlave clients strCoordinatorName) session"

definition NetworkAddressTable_host :: "string \<Rightarrow> string \<Rightarrow> element option \<Rightarrow> table result" where
  "NetworkAddressTable_host strCoordinatorName strHostName session =
     table_from (recurseHost strCoordinatorName strHostName) session"

definition ProgramTypeTable_ctor :: "element option \<Rightarrow> table result" where
  "ProgramTypeTable_ctor session = table_from (\<lambda>r. recurseTypes (el_children r)) session"

text \<open>Reading outside the vector is undefined behaviour.\<close>

definition getClientForType :: "table \<Rightarrow> u32 \<Rightarrow> u32 result" where
  "getClientForType t uiType =
     (if unat uiType < length t then Inr (t ! unat uiType) else Inl (Ub ''table index out of range''))"

definition getProgramForType :: "table \<Rightarrow> u32 \<Rightarrow> u32 result" where
  "getProgramForType t uiType =
     (if unat uiType < length t then Inr (t ! unat uiType) else Inl (Ub ''table index out of range''))"

section \<open>What a fill adds\<close>

text \<open>
  Each function adds to the map what it finds in a tree, and never changes an entry: \<open>contrib x k\<close>
  is what a fill of \<open>x\<close> has for the index \<open>k\<close>.
\<close>

definition first_contrib :: "('x \<Rightarrow> int \<Rightarrow> u32 option) \<Rightarrow> 'x list \<Rightarrow> int \<Rightarrow> u32 option" where
  "first_contrib contrib xs k =
     (case find (\<lambda>x. contrib x k \<noteq> None) xs of Some x \<Rightarrow> contrib x k | None \<Rightarrow> None)"

text \<open>The entry already there, or what is added.\<close>

definition or_else :: "u32 option \<Rightarrow> u32 option \<Rightarrow> u32 option" where
  "or_else a b = (case a of Some c \<Rightarrow> Some c | None \<Rightarrow> b)"

lemma or_else_simps [simp]: "or_else (Some c) b = Some c" "or_else None b = b" "or_else a None = a"
  by (simp_all add: or_else_def split: option.split)

lemma or_else_assoc: "or_else (or_else a b) c = or_else a (or_else b c)"
  by (cases a) auto

lemma first_contrib_Cons:
  "first_contrib contrib (x # xs) k = or_else (contrib x k) (first_contrib contrib xs k)"
  by (auto simp: first_contrib_def)

lemma first_contrib_Nil [simp]: "first_contrib contrib [] k = None"
  by (simp add: first_contrib_def)

lemma insert_find: "smap_wf m \<Longrightarrow> map_of (smap_insert i c m) k = or_else (map_of m k) (if k = i then Some c else None)"
  by (auto simp: smap.find_insert or_else_def split: option.split)

locale filler =
  fixes fill :: "'x \<Rightarrow> client_id_map \<Rightarrow> client_id_map"
    and contrib :: "'x \<Rightarrow> int \<Rightarrow> u32 option"
  assumes fill_find: "smap_wf m \<Longrightarrow> map_of (fill x m) k = or_else (map_of m k) (contrib x k)"
    and fill_wf: "smap_wf m \<Longrightarrow> smap_wf (fill x m)"
begin

lemma fold_wf: "smap_wf m \<Longrightarrow> smap_wf (fold fill xs m)"
  by (induction xs arbitrary: m) (auto simp: fill_wf)

text \<open>Over a list, the first element that has the index decides.\<close>

lemma fold_find:
  "smap_wf m \<Longrightarrow> map_of (fold fill xs m) k = or_else (map_of m k) (first_contrib contrib xs k)"
  by (induction xs arbitrary: m) (simp_all add: fill_wf fill_find first_contrib_Cons or_else_assoc)

lemma fold_keeps: "smap_wf m \<Longrightarrow> map_of m k = Some c \<Longrightarrow> map_of (fold fill xs m) k = Some c"
  by (simp add: fold_find)

end

definition subtree_contrib :: "u32 \<Rightarrow> element \<Rightarrow> int \<Rightarrow> u32 option" where
  "subtree_contrib c e k = (if k \<in> set (indices e) then Some c else None)"

lemma recurseClient_wf: "smap_wf m \<Longrightarrow> smap_wf (recurseClient c e m)"
  and recurseClient_children_wf: "smap_wf m \<Longrightarrow> smap_wf (recurseClient_children c es m)"
  by (induction c e m and c es m rule: recurseClient_recurseClient_children.induct)
    (auto simp: smap_insert_wf)

lemma recurseClient_find:
  "smap_wf m \<Longrightarrow> map_of (recurseClient c e m) k =
     or_else (map_of m k) (if k \<in> set (indices e) then Some c else None)"
  and recurseClient_children_find:
  "smap_wf m \<Longrightarrow> map_of (recurseClient_children c es m) k =
     or_else (map_of m k) (if k \<in> set (concat (map indices es)) then Some c else None)"
  by (induction c e m and c es m rule: recurseClient_recurseClient_children.induct)
    (auto simp: smap_insert_wf recurseClient_wf insert_find or_else_assoc)

declare recurseClient.simps [simp del]

interpretation subtree: filler "recurseClient c" "subtree_contrib c"
  by unfold_locales (simp_all add: recurseClient_find recurseClient_wf subtree_contrib_def)

end
