(* ===== verification/Routing.thy ===== *)
theory Routing
  imports Address_Table
begin

text \<open>
  What the address tables say, path by path: the entry of a table is what the first subtree that has
  the index gives it.  The tables of the master, of every slave and of every host then agree on the
  way to the host that owns a type.
\<close>

section \<open>Contributions of the children\<close>

definition client_of :: "client_map \<Rightarrow> string \<Rightarrow> u32" where
  "client_of clientMap n = (case map_of clientMap n of Some c \<Rightarrow> c | None \<Rightarrow> UnMapped)"

definition mapped_contrib :: "client_map \<Rightarrow> element \<Rightarrow> int \<Rightarrow> u32 option" where
  "mapped_contrib clientMap e k =
     (if is_Action e \<and> k \<in> set (indices e) then Some (client_of clientMap (el_identifier e)) else None)"

definition slave_contrib :: "client_map \<Rightarrow> string \<Rightarrow> element \<Rightarrow> int \<Rightarrow> u32 option" where
  "slave_contrib clientMap name e k =
     (if \<not> is_Action e then None
      else if name = el_identifier e
      then (if k = el_index e then Some SelfID else first_contrib (mapped_contrib clientMap) (el_children e) k)
      else if k \<in> set (indices e) then Some MasterID else None)"

definition hostName_contrib :: "string \<Rightarrow> element \<Rightarrow> int \<Rightarrow> u32 option" where
  "hostName_contrib host e k =
     (if is_Action e \<and> k \<in> set (indices e)
      then Some (if host = el_identifier e then SelfID else MasterID) else None)"

definition host_contrib :: "string \<Rightarrow> string \<Rightarrow> element \<Rightarrow> int \<Rightarrow> u32 option" where
  "host_contrib name host e k =
     (if \<not> is_Action e then None
      else if name = el_identifier e
      then (if k = el_index e then Some MasterID else first_contrib (hostName_contrib host) (el_children e) k)
      else if k \<in> set (indices e) then Some MasterID else None)"

interpretation mapped: filler "recurseMappedClients_child clientMap" "mapped_contrib clientMap"
proof (unfold_locales, goal_cases)
  case (1 m x k)
  then show ?case
    by (cases x) (simp_all add: recurseMappedClients_child_def mapped_contrib_def client_of_def
        recurseClient_find split: option.split)
next
  case (2 m x)
  then show ?case
    by (cases x) (simp_all add: recurseMappedClients_child_def recurseClient_wf split: option.split)
qed

interpretation hostName: filler "recurseHostName_child host" "hostName_contrib host"
proof (unfold_locales, goal_cases)
  case (1 m x k)
  then show ?case
    by (cases x) (simp_all add: recurseHostName_child_def hostName_contrib_def recurseClient_find)
next
  case (2 m x)
  then show ?case by (cases x) (simp_all add: recurseHostName_child_def recurseClient_wf)
qed

lemma mapped_children_find:
  "smap_wf m \<Longrightarrow> map_of (recurseMappedClients clientMap e m) k =
     or_else (map_of m k) (first_contrib (mapped_contrib clientMap) (el_children e) k)"
  "smap_wf m \<Longrightarrow> smap_wf (recurseMappedClients clientMap e m)"
  by (simp_all add: recurseMappedClients_def mapped.fold_find mapped.fold_wf)

lemma hostName_children_find:
  "smap_wf m \<Longrightarrow> map_of (recurseHostName host e m) k =
     or_else (map_of m k) (first_contrib (hostName_contrib host) (el_children e) k)"
  "smap_wf m \<Longrightarrow> smap_wf (recurseHostName host e m)"
  by (simp_all add: recurseHostName_def hostName.fold_find hostName.fold_wf)

interpretation slave: filler "recurseSlave_child clientMap name" "slave_contrib clientMap name"
proof (unfold_locales, goal_cases)
  case (1 m x k)
  then show ?case
    by (cases x) (simp_all add: recurseSlave_child_def slave_contrib_def recurseClient_find
        mapped_children_find smap_insert_wf insert_find or_else_assoc)
next
  case (2 m x)
  then show ?case
    by (cases x) (simp_all add: recurseSlave_child_def recurseClient_wf mapped_children_find smap_insert_wf)
qed

interpretation host: filler "recurseHost_child name host" "host_contrib name host"
proof (unfold_locales, goal_cases)
  case (1 m x k)
  then show ?case
    by (cases x) (simp_all add: recurseHost_child_def host_contrib_def recurseClient_find
        hostName_children_find smap_insert_wf insert_find or_else_assoc)
next
  case (2 m x)
  then show ?case
    by (cases x) (simp_all add: recurseHost_child_def recurseClient_wf hostName_children_find smap_insert_wf)
qed

lemma slave_children_find:
  "map_of (recurseSlave clientMap name e []) k = first_contrib (slave_contrib clientMap name) (el_children e) k"
  "smap_wf (recurseSlave clientMap name e [])"
  by (simp_all add: recurseSlave_def slave.fold_find slave.fold_wf)

lemma host_children_find:
  "map_of (recurseHost name h e []) k = first_contrib (host_contrib name h) (el_children e) k"
  "smap_wf (recurseHost name h e [])"
  by (simp_all add: recurseHost_def host.fold_find host.fold_wf)

section \<open>Reading a table\<close>

lemma fold_highest:
  fixes m :: client_id_map
  shows "hi \<le> fold (\<lambda>e hi. if fst e > hi then fst e else hi) m hi
    \<and> (\<forall>e \<in> set m. fst e \<le> fold (\<lambda>e hi. if fst e > hi then fst e else hi) m hi)"
proof (induction m arbitrary: hi)
  case (Cons e m)
  let ?h = "if fst e > hi then fst e else hi"
  from Cons [of ?h] show ?case by auto
qed simp

lemma fold_update_length: "length (fold (\<lambda>e t. t[nat (fst e) := snd e]) m t) = length t"
  by (induction m arbitrary: t) auto

lemma fold_update_nth:
  assumes "distinct (map fst m)" and "\<forall>e \<in> set m. 0 \<le> fst e \<and> nat (fst e) < length t" and "i < length t"
  shows "fold (\<lambda>e t. t[nat (fst e) := snd e]) m t ! i = (case map_of m (int i) of Some c \<Rightarrow> c | None \<Rightarrow> t ! i)"
  using assms
proof (induction m arbitrary: t)
  case (Cons e m)
  then have rest: "fold (\<lambda>e t. t[nat (fst e) := snd e]) m (t[nat (fst e) := snd e]) ! i
      = (case map_of m (int i) of Some c \<Rightarrow> c | None \<Rightarrow> t[nat (fst e) := snd e] ! i)" by simp
  show ?case
  proof (cases "fst e = int i")
    case True
    with Cons.prems(1) have "map_of m (int i) = None" by (metis distinct.simps(2) list.map(2) map_of_eq_None_iff set_map)
    with True rest Cons.prems(3) show ?thesis by (cases e) simp
  next
    case False
    with Cons.prems(2) have "nat (fst e) \<noteq> i" by auto
    with False rest show ?thesis by (cases e) (simp split: option.split)
  qed
qed simp

definition routed :: "u32 option \<Rightarrow> u32" where
  "routed r = (case r of Some c \<Rightarrow> c | None \<Rightarrow> 0)"

lemma buildTable_reads:
  assumes "buildTable m = Inr t" and "smap_wf m"
  shows "\<And>ty c. getClientForType t ty = Inr c \<Longrightarrow> c = routed (map_of m (uint ty))"
    and "\<And>ty c. map_of m (uint ty) = Some c \<Longrightarrow> getClientForType t ty = Inr c"
proof -
  let ?hi = "fold (\<lambda>e hi. if fst e > hi then fst e else hi) m 0"
  let ?t0 = "replicate (nat (?hi + 1)) (0 :: u32)"
  from assms(1) have pos: "\<forall>e \<in> set m. 0 \<le> fst e"
    and t: "t = fold (\<lambda>e t. t[nat (fst e) := snd e]) m ?t0"
    by (auto simp: buildTable_def list_ex_iff Let_def split: if_splits)
  have hi: "0 \<le> ?hi" "\<forall>e \<in> set m. fst e \<le> ?hi" using fold_highest [of 0 m] by auto
  have len: "length t = nat (?hi + 1)" by (simp add: t fold_update_length)
  have rd: "t ! i = routed (map_of m (int i))" if "i < length t" for i
  proof -
    have "\<forall>e \<in> set m. 0 \<le> fst e \<and> nat (fst e) < length ?t0"
      using pos hi by (simp add: nat_less_iff)
    moreover have "i < length ?t0" using that len by simp
    ultimately have "t ! i = (case map_of m (int i) of Some c \<Rightarrow> c | None \<Rightarrow> ?t0 ! i)"
      using fold_update_nth [of m ?t0 i] smap_wf_distinct [OF assms(2)] unfolding t by blast
    with \<open>i < length ?t0\<close> show ?thesis by (simp add: routed_def split: option.split)
  qed
  show "\<And>ty c. getClientForType t ty = Inr c \<Longrightarrow> c = routed (map_of m (uint ty))"
    by (auto simp: getClientForType_def rd split: if_splits)
  show "getClientForType t ty = Inr c" if "map_of m (uint ty) = Some c" for ty c
  proof -
    from that have "uint ty \<le> ?hi" using hi(2) map_of_SomeD by fastforce
    then have "int (unat ty) < int (length t)" using len hi(1) by simp
    then have "unat ty < length t" by (simp only: of_nat_less_iff)
    then show ?thesis using that by (simp add: getClientForType_def rd routed_def)
  qed
qed

lemma table_from_reads:
  assumes "table_from fill (Some inst) = Inr t" and "getMegaRoot inst = Inr root"
    and "smap_wf (fill root [])"
  shows "getClientForType t ty = Inr c \<Longrightarrow> c = routed (map_of (fill root []) (uint ty))"
    and "map_of (fill root []) (uint ty) = Some c \<Longrightarrow> getClientForType t ty = Inr c"
  using assms buildTable_reads [of "fill root []" t] by (simp_all add: table_from_def)

section \<open>Trees whose types have one place\<close>

lemma distinct_concat_place:
  assumes "distinct (concat (map f es))" and "x \<in> set es" and "y \<in> set es" and "k \<in> set (f x)" and "k \<in> set (f y)"
  shows "x = y"
  using assms by (induction es) auto

lemma distinct_concat_part: "distinct (concat (map f es)) \<Longrightarrow> x \<in> set es \<Longrightarrow> distinct (f x)"
  by (induction es) auto

lemma first_contrib_unique:
  assumes "x \<in> set xs" and "contrib x k = Some c" and "\<And>y. y \<in> set xs \<Longrightarrow> contrib y k \<noteq> None \<Longrightarrow> y = x"
  shows "first_contrib contrib xs k = Some c"
proof -
  have "find (\<lambda>y. contrib y k \<noteq> None) xs = Some x"
    using assms by (induction xs) fastforce+
  with assms(2) show ?thesis by (simp add: first_contrib_def)
qed

lemma first_contrib_inside:
  assumes "\<And>e j. contrib e j \<noteq> None \<Longrightarrow> j \<in> set (indices e)" and "first_contrib contrib es k \<noteq> None"
  shows "k \<in> set (concat (map indices es))"
  using assms(2) assms(1) [of _ k]
  by (auto simp: first_contrib_def find_Some_iff split: option.splits) (metis nth_mem)

lemma contrib_inside:
  "mapped_contrib clientMap e k \<noteq> None \<Longrightarrow> k \<in> set (indices e)"
  "hostName_contrib h e k \<noteq> None \<Longrightarrow> k \<in> set (indices e)"
  by (auto simp: mapped_contrib_def hostName_contrib_def split: if_splits)

lemma coordinator_contrib_inside:
  "slave_contrib clientMap n e k \<noteq> None \<Longrightarrow> k \<in> set (indices e)"
  "host_contrib n h e k \<noteq> None \<Longrightarrow> k \<in> set (indices e)"
  using first_contrib_inside [of "mapped_contrib clientMap" "el_children e" k]
    first_contrib_inside [of "hostName_contrib h" "el_children e" k]
    contrib_inside(1) [of clientMap] contrib_inside(2) [of h]
  by (cases e; auto simp: slave_contrib_def host_contrib_def split: if_splits)+

text \<open>The action of a coordinator, below it that of a host, and below that a type.\<close>

definition owns :: "element \<Rightarrow> element \<Rightarrow> element \<Rightarrow> int \<Rightarrow> bool" where
  "owns root C H k \<longleftrightarrow>
     distinct (concat (map indices (el_children root))) \<and>
     C \<in> set (el_children root) \<and> is_Action C \<and> H \<in> set (el_children C) \<and> is_Action H \<and> k \<in> set (indices H)"

lemma owns_inside:
  assumes "owns root C H k"
  shows "k \<in> set (indices C)" and "k \<noteq> el_index C" and "distinct (concat (map indices (el_children C)))"
proof -
  from assms obtain i n h es where C: "C = Action i n h es" by (cases C) (auto simp: owns_def)
  have "distinct (indices C)" using assms distinct_concat_part [of indices "el_children root" C] by (simp add: owns_def)
  with assms C show "k \<in> set (indices C)" "k \<noteq> el_index C" "distinct (concat (map indices (el_children C)))"
    by (auto simp: owns_def)
qed

lemma owns_first:
  assumes own: "owns root C H k" and "\<And>e j. contrib e j \<noteq> None \<Longrightarrow> j \<in> set (indices e)"
    and "contrib C k = Some c"
  shows "first_contrib contrib (el_children root) k = Some c"
proof (rule first_contrib_unique [of C])
  show "y = C" if "y \<in> set (el_children root)" "contrib y k \<noteq> None" for y
    using that assms(2) [OF that(2)] owns_inside(1) [OF own] own
    by (intro distinct_concat_place [of indices "el_children root"]) (auto simp: owns_def)
qed (use assms in \<open>auto simp: owns_def\<close>)

lemma owns_first_host:
  assumes own: "owns root C H k" and "\<And>e j. contrib e j \<noteq> None \<Longrightarrow> j \<in> set (indices e)"
    and "contrib H k = Some c"
  shows "first_contrib contrib (el_children C) k = Some c"
proof (rule first_contrib_unique [of H])
  show "y = H" if "y \<in> set (el_children C)" "contrib y k \<noteq> None" for y
    using that assms(2) [OF that(2)] owns_inside(3) [OF own] own
    by (intro distinct_concat_place [of indices "el_children C"]) (auto simp: owns_def)
qed (use assms in \<open>auto simp: owns_def\<close>)

lemma owned_master:
  assumes own: "owns root C H k"
  shows "map_of (recurseMappedClients clients root []) k = Some (client_of clients (el_identifier C))"
proof -
  have "mapped_contrib clients C k = Some (client_of clients (el_identifier C))"
    using own owns_inside(1) [OF own] by (simp add: mapped_contrib_def owns_def)
  from owns_first [OF own, of "mapped_contrib clients", OF contrib_inside(1) this] show ?thesis by (simp add: mapped_children_find)
qed

lemma owned_slave:
  assumes own: "owns root C H k"
  shows "map_of (recurseSlave clients n root []) k =
    Some (if n = el_identifier C then client_of clients (el_identifier H) else MasterID)"
proof -
  have "mapped_contrib clients H k = Some (client_of clients (el_identifier H))"
    using own by (simp add: mapped_contrib_def owns_def)
  note inner = owns_first_host [OF own, of "mapped_contrib clients", OF contrib_inside(1) this]
  have "slave_contrib clients n C k =
      Some (if n = el_identifier C then client_of clients (el_identifier H) else MasterID)"
    using inner own owns_inside(1,2) [OF own] by (simp add: slave_contrib_def owns_def)
  from owns_first [OF own, of "slave_contrib clients n", OF coordinator_contrib_inside(1) this] show ?thesis
    by (simp add: slave_children_find)
qed

lemma owned_host:
  assumes own: "owns root C H k"
  shows "map_of (recurseHost n h root []) k =
    Some (if n = el_identifier C \<and> h = el_identifier H then SelfID else MasterID)"
proof -
  have "hostName_contrib h H k = Some (if h = el_identifier H then SelfID else MasterID)"
    using own by (simp add: hostName_contrib_def owns_def)
  note inner = owns_first_host [OF own, of "hostName_contrib h", OF contrib_inside(2) this]
  have "host_contrib n h C k = Some (if n = el_identifier C \<and> h = el_identifier H then SelfID else MasterID)"
    using inner own owns_inside(1,2) [OF own] by (simp add: host_contrib_def owns_def)
  from owns_first [OF own, of "host_contrib n h", OF coordinator_contrib_inside(2) this] show ?thesis
    by (simp add: host_children_find)
qed

end
