(* ===== verification/Routing_Properties.thy ===== *)
theory Routing_Properties
  imports Routing Protocol
begin

text \<open>
  The tables of the nodes agree on the way to the host that owns a type, and which inputs the
  constructors refuse.
\<close>

definition demo_alpha_h2 :: element where
  "demo_alpha_h2 = Action 5 ''h2'' True [Other 6]"

definition demo_alpha :: element where
  "demo_alpha = Action 2 ''alpha'' False [Action 3 ''h1'' True [Other 4], demo_alpha_h2]"

definition demo_root :: element where
  "demo_root = Action 1 ''root'' False [demo_alpha, Action 7 ''beta'' False [Action 8 ''h1'' True [Other 9]]]"

definition demo_instance :: element where
  "demo_instance = Action 0 '''' False [Other 10, demo_root]"

lemmas demo_tree = demo_alpha_h2_def demo_alpha_def demo_root_def demo_instance_def

lemma demo_owns: "owns demo_root demo_alpha demo_alpha_h2 6"
  by (simp add: owns_def demo_tree)

lemma demo_megaRoot: "getMegaRoot demo_instance = Inr demo_root"
  by (simp add: getMegaRoot_def demo_tree)

lemma demo_tables:
  "NetworkAddressTable_master [(''alpha'', 11)] (Some demo_instance) = Inr [0, 0, 11, 11, 11, 11, 11, 0, 0, 0]"
  "NetworkAddressTable_slave [(''h2'', 21)] ''alpha'' (Some demo_instance)
   = Inr [0, 0, SelfID, 0, 0, 21, 21, MasterID, MasterID, MasterID]"
  "NetworkAddressTable_host ''alpha'' ''h2'' (Some demo_instance)
   = Inr [0, 0, MasterID, MasterID, MasterID, SelfID, SelfID, MasterID, MasterID, MasterID]"
  "ProgramTypeTable_ctor (Some demo_instance) = Inr [0, 0, 0, 3, 3, 5, 5, 0, 8, 8]"
  by code_simp+

definition demo_request :: eg_msg where
  "demo_request = \<lparr>eg_type = 6, eg_instance = 0, eg_cycle = 1,
     eg_body = Some (EgRequest \<lparr>rq_coordinator = 0, rq_host = 3, rq_body = Some RqRead\<rparr>)\<rparr>"

text \<open>C8. The tables agree on the way to the host that owns a type: the master sends a request for it to
  the client enrolled under the owner's coordinator, that coordinator's slave to the client enrolled
  under the host's name, every other slave and every other host back to the master, and the owner
  itself knows the type as its own.\<close>

theorem routing_agreement:
  assumes own: "owns root C H (uint ty)" and root: "getMegaRoot inst = Inr root"
    and tm: "NetworkAddressTable_master slaves (Some inst) = Inr tm"
    and ts: "NetworkAddressTable_slave hosts n (Some inst) = Inr ts"
    and th: "NetworkAddressTable_host n h (Some inst) = Inr th"
  shows "getClientForType tm ty = Inr (client_of slaves (el_identifier C))
       \<and> getClientForType ts ty =
           Inr (if n = el_identifier C then client_of hosts (el_identifier H) else MasterID)
       \<and> getClientForType th ty =
           Inr (if n = el_identifier C \<and> h = el_identifier H then SelfID else MasterID)"
  using table_from_reads(2) [OF tm [unfolded NetworkAddressTable_master_def] root]
    table_from_reads(2) [OF ts [unfolded NetworkAddressTable_slave_def] root]
    table_from_reads(2) [OF th [unfolded NetworkAddressTable_host_def] root]
    owned_master [OF own] owned_slave [OF own] owned_host [OF own]
  by (simp add: mapped_children_find slave_children_find host_children_find)

theorem routing_agreement_witness:
  "getClientForType [0, 0, 11, 11, 11, 11, 11, 0, 0, 0] 6 = Inr 11 \<and>
   getClientForType [0, 0, SelfID, 0, 0, 21, 21, MasterID, MasterID, MasterID] 6 = Inr 21"
  using routing_agreement [of demo_root demo_alpha demo_alpha_h2 6, OF _ demo_megaRoot demo_tables(1-3)]
    demo_owns by (simp add: demo_tree client_of_def)

text \<open>The table of program types gives every type below a host the index of that host's action,
  when hosts stand directly below coordinators.\<close>

fun types_contrib :: "element list \<Rightarrow> int \<Rightarrow> u32 option" where
  "types_contrib [] k = None"
| "types_contrib (Other i # es) k = types_contrib es k"
| "types_contrib (Action i n h cs # es) k =
     or_else (if h then subtree_contrib (word_of_int i) (Action i n h cs) k else types_contrib cs k)
       (types_contrib es k)"

lemma recurseTypes_wf: "smap_wf m \<Longrightarrow> smap_wf (recurseTypes es m)"
  by (induction es m rule: recurseTypes.induct) (auto simp: recurseClient_wf)

lemma recurseTypes_find:
  "smap_wf m \<Longrightarrow> map_of (recurseTypes es m) k = or_else (map_of m k) (types_contrib es k)"
  by (induction es m rule: recurseTypes.induct)
    (auto simp: recurseClient_wf recurseTypes_wf recurseClient_find subtree_contrib_def or_else_assoc)

lemma types_contrib_inside: "types_contrib es k = Some c \<Longrightarrow> k \<in> set (concat (map indices es))"
  by (induction es k rule: types_contrib.induct)
    (auto simp: subtree_contrib_def or_else_def split: if_splits option.splits)

lemma types_contrib_at:
  assumes "distinct (concat (map indices es))" and "e \<in> set es" and "k \<in> set (indices e)"
  shows "types_contrib es k = types_contrib [e] k"
  using assms
proof (induction es)
  case Nil
  then show ?case by simp
next
  case (Cons x es)
  show ?case
  proof (cases "e = x")
    case True
    with Cons.prems have "k \<notin> set (concat (map indices es))" by auto
    then have "types_contrib es k = None" using types_contrib_inside [of es k] by (cases "types_contrib es k") auto
    with True show ?thesis by (cases x) auto
  next
    case False
    with Cons.prems have e: "e \<in> set es" and "k \<notin> set (indices x)" by auto
    then have "types_contrib [x] k = None"
      using types_contrib_inside [of "[x]" k] by (cases "types_contrib [x] k") auto
    with Cons.IH Cons.prems e show ?thesis by (cases x) auto
  qed
qed

theorem program_type_table:
  assumes own: "owns root C H (uint ty)" and hosts: "el_hostName H" "\<not> el_hostName C"
    and root: "getMegaRoot inst = Inr root" and t: "ProgramTypeTable_ctor (Some inst) = Inr t"
  shows "getProgramForType t ty = Inr (word_of_int (el_index H))"
proof -
  obtain i n es where C: "C = Action i n False es" using own hosts(2) by (cases C) (auto simp: owns_def)
  obtain j m cs where H: "H = Action j m True cs" using own hosts(1) by (cases H) (auto simp: owns_def)
  have "types_contrib (el_children root) (uint ty) = types_contrib [C] (uint ty)"
    using own owns_inside(1) [OF own] by (intro types_contrib_at) (auto simp: owns_def)
  also have "\<dots> = types_contrib es (uint ty)" by (simp add: C)
  also have "\<dots> = types_contrib [H] (uint ty)"
    using own owns_inside(3) [OF own] by (intro types_contrib_at) (auto simp: owns_def C)
  also have "\<dots> = Some (word_of_int j)" using own by (simp add: H owns_def subtree_contrib_def)
  finally have "map_of (recurseTypes (el_children root) []) (uint ty) = Some (word_of_int j)"
    by (simp add: recurseTypes_find)
  from table_from_reads(2) [OF t [unfolded ProgramTypeTable_ctor_def] root _ this]
  show ?thesis by (simp add: recurseTypes_wf getClientForType_def getProgramForType_def H)
qed

theorem program_type_table_witness: "getProgramForType [0, 0, 0, 3, 3, 5, 5, 0, 8, 8] 6 = Inr 5"
  using program_type_table [of demo_root demo_alpha demo_alpha_h2 6, OF _ _ _ demo_megaRoot demo_tables(4)]
    demo_owns by (simp add: demo_tree)

text \<open>Every entry of a table is a client that the node knows, its own id, the master's id or
  unmapped: a request is never sent to a client that no name is enrolled under.\<close>

theorem table_entries_known:
  assumes root: "getMegaRoot inst = Inr root"
    and tm: "NetworkAddressTable_master slaves (Some inst) = Inr tm"
    and ts: "NetworkAddressTable_slave hosts n (Some inst) = Inr ts"
    and "getClientForType tm ty = Inr c" and "getClientForType ts ty = Inr d"
  shows "c \<in> insert UnMapped (snd ` set slaves) \<and> d \<in> {UnMapped, MasterID, SelfID} \<union> snd ` set hosts"
proof -
  have m: "client_of m x \<in> insert UnMapped (snd ` set m)" for m x
    by (auto simp: client_of_def dest!: map_of_SomeD split: option.split) force
  have first: "c \<in> S" if "first_contrib f es k = Some c" "\<And>e c. f e k = Some c \<Longrightarrow> c \<in> S" for f and es :: "element list" and k c S
    using that by (induction es) (auto simp: first_contrib_Cons or_else_def split: option.splits)
  have mc: "c \<in> insert UnMapped (snd ` set l)" if "first_contrib (mapped_contrib l) es k = Some c" for l es k c
    by (rule first [OF that]) (use m in \<open>auto simp: mapped_contrib_def split: if_splits\<close>)
  have sc: "c \<in> {UnMapped, MasterID, SelfID} \<union> snd ` set hosts"
    if "first_contrib (slave_contrib hosts n) es k = Some c" for es k c
    by (rule first [OF that]) (use mc [of hosts] in \<open>fastforce simp: slave_contrib_def split: if_splits\<close>)
  have "c = routed (first_contrib (mapped_contrib slaves) (el_children root) (uint ty))"
    using table_from_reads(1) [OF tm [unfolded NetworkAddressTable_master_def] root _ assms(4)]
    by (simp add: mapped_children_find)
  moreover have "d = routed (first_contrib (slave_contrib hosts n) (el_children root) (uint ty))"
    using table_from_reads(1) [OF ts [unfolded NetworkAddressTable_slave_def] root _ assms(5)]
    by (simp add: slave_children_find)
  ultimately show ?thesis
    using mc [of slaves] sc by (fastforce simp: routed_def UnMapped_def split: option.splits)
qed

theorem table_entries_known_witness: "(11 :: u32) \<in> insert UnMapped (snd ` set [(''alpha'', 11)])"
  using table_entries_known [OF demo_megaRoot demo_tables(1,2), of 6 11 21]
  by (simp add: getClientForType_def)

end
