(* ===== verification/Component_Properties.thy ===== *)
theory Component_Properties
  imports Component_Refinement Program_Properties Routing_Properties
begin

text \<open>
  What a component promises: it implements the protocol of the simulation lock, it serves reads and
  writes of other hosts only under that lock, it tells exactly the hosts that were granted the lock,
  and it reports whether a program was loaded.
\<close>

section \<open>Demonstration states\<close>

definition no_source :: program_source where
  "no_source = \<lparr>src_tree = Inl (Rte ''no project''), src_path = '''', src_componentName = '''', src_binDirectory = '''',
     src_tables = None, src_plugin = Inl (Rte ''no plugin'')\<rparr>"

definition basic_source :: program_source where
  "basic_source = \<lparr>src_tree = Inr (), src_path = ''s'', src_componentName = ''c'', src_binDirectory = ''b'',
     src_tables = None, src_plugin = Inr demo_plugin\<rparr>"

definition demo_component :: component where
  "demo_component = Component_ctor ''basic'' ''id'' good_zmq (demo_link [])
     (\<lambda>h p. if p = ''prog'' then basic_source else no_source)"

lemma demo_component_reached: "component_run True [] demo_component"
  unfolding demo_component_def by (rule cr_init)

lemma demo_sendeg [simp]:
  "Component_sendeg m (demo_link rs) = Inr (demo_link rs\<lparr>lk_sent := [m]\<rparr>)"
  by (simp add: sendeg_eq_Inr demo_link_def Client_send_def ZMQMsg_send_ctor_def)

section \<open>The lock\<close>

text \<open>C1. A component refines the protocol of the simulation lock: in every state it reaches what it keeps of
  the lock is a reachable state of the protocol, and every step of its threads leaves that alone or
  is a step of the protocol with the same unlock.  Nothing is asked of the hosts: the unlock of a
  host that does not hold the lock is a step of both.\<close>

theorem component_refines_protocol:
  assumes "component_run brk tr w" and "component_step brk w us w'"
  shows "sim_reach (lock_world_of w) \<and>
    (lock_world_of w' = lock_world_of w \<or> sim_step (lock_world_of w) us (lock_world_of w'))"
  using component_run_inv [OF assms(1)] component_inv_step [OF assms(2)]
  by (simp add: component_inv_def sim_steps_on_def)

lemma access_needs_lock:
  assumes fut: "future_ok (c_locks w)"
  shows "(\<exists>w'. OnReadRequest e r w = Inr w') \<Longrightarrow>
      \<exists>l. m_pCurrentSimLock (c_locks w) = Some l \<and> holds l (rq_host r)"
    and "(\<exists>w'. OnWriteRequest e r v w = Inr w') \<Longrightarrow>
      \<exists>l c. m_pCurrentSimLock (c_locks w) = Some l \<and> getHostCycleState l (rq_host r) = Some c \<and> state c = eWriting"
proof -
  obtain l s' where g: "getOrCreateCurrentLock (c_locks w) = (l, s')" by (metis surj_pair)
  note there = running_lock_there [OF fut g, of "rq_host r"]
  show "(\<exists>w'. OnReadRequest e r w = Inr w') \<Longrightarrow>
      \<exists>l. m_pCurrentSimLock (c_locks w) = Some l \<and> holds l (rq_host r)"
    using there by (auto simp: OnReadRequest_def g Let_def holds_def split: option.splits if_splits)
  show "(\<exists>w'. OnWriteRequest e r v w = Inr w') \<Longrightarrow>
      \<exists>l c. m_pCurrentSimLock (c_locks w) = Some l \<and> getHostCycleState l (rq_host r) = Some c \<and> state c = eWriting"
    using there by (auto simp: OnWriteRequest_def g Let_def split: option.splits if_splits)
qed

lemma component_lock_waits:
  assumes "component_run brk tr w" and "list_all held_unlock tr" and "m_pCurrentSimLock (c_locks w) = Some l"
  shows "lock_inv l" and "holds l host \<Longrightarrow> c_mainWaits w \<and> \<not> m_bCurrentLockReleased (c_locks w)"
proof -
  have inv: "sim_inv (lock_world_of w)" using assms(1,2) by (rule component_run_sim_inv)
  from assms(3) have l: "m_pCurrentSimLock (locks (lock_world_of w)) = Some l" by (simp add: lock_world_of_def)
  show "lock_inv l" using inv l by (rule sim_inv_lock)
  show "holds l host \<Longrightarrow> c_mainWaits w \<and> \<not> m_bCurrentLockReleased (c_locks w)"
    using holder_waits [OF inv l] by (simp add: lock_world_of_def)
qed

lemma lone_writer:
  assumes "lock_inv l" and get: "getHostCycleState l host = Some c" "state c = eWriting"
  shows "map uiHost (filter (\<lambda>h. entry_state h \<in> {eReading, eWriting}) l) = [host]"
proof -
  have no: "entries eReading l = 0" "entries eWriting l = 1"
    using assms(1) entries_get [OF get(1)] get(2) by (auto simp: lock_inv_def)
  have run: "filter (\<lambda>h. entry_state h \<in> {eReading, eWriting}) l = filter (\<lambda>h. entry_state h = eWriting) l"
    using no(1) by (intro filter_cong) (auto simp: entries_def filter_empty_conv)
  obtain h where h: "h \<in> set l" "uiHost h = host" "entry_state h = eWriting"
    using getHostCycleState_Some [OF get(1)] get(2) by auto
  from no(2) obtain g where "filter (\<lambda>h. entry_state h = eWriting) l = [g]"
    by (auto simp: entries_def length_Suc_conv)
  moreover have "h \<in> set (filter (\<lambda>h. entry_state h = eWriting) l)" using h by simp
  ultimately show ?thesis using run h(2) by simp
qed

text \<open>C3. A component serves the read of a host only while that host reads or writes in its lock, and the
  write of a host only while that host writes; any other access is refused with an exception (which
  takes the component down).  That holds whatever the hosts send.  If moreover every unlock that the
  component has handled came from a host that held the lock then (which the code does not check),
  its own main thread stands still during either access, and the host that writes is the only one
  that reads or writes.\<close>

theorem component_access_under_lock:
  assumes "component_run brk tr w"
  shows "(\<forall>e r w'. OnReadRequest e r w = Inr w' \<longrightarrow>
            (\<exists>l. m_pCurrentSimLock (c_locks w) = Some l \<and> holds l (rq_host r)) \<and>
            (list_all held_unlock tr \<longrightarrow> c_mainWaits w \<and> \<not> m_bCurrentLockReleased (c_locks w)))
       \<and> (\<forall>e r v w'. OnWriteRequest e r v w = Inr w' \<longrightarrow>
            (\<exists>l c. m_pCurrentSimLock (c_locks w) = Some l \<and>
               getHostCycleState l (rq_host r) = Some c \<and> state c = eWriting \<and>
               (list_all held_unlock tr \<longrightarrow> c_mainWaits w \<and> \<not> m_bCurrentLockReleased (c_locks w) \<and>
                  map uiHost (filter (\<lambda>h. entry_state h \<in> {eReading, eWriting}) l) = [rq_host r])))"
proof (intro conjI allI impI)
  have fut: "future_ok (c_locks w)" using component_run_inv [OF assms] by (rule component_inv_future)
  fix e r w' assume "OnReadRequest e r w = Inr w'"
  with access_needs_lock(1) [OF fut] obtain l where l: "m_pCurrentSimLock (c_locks w) = Some l" "holds l (rq_host r)" by blast
  then show "\<exists>l. m_pCurrentSimLock (c_locks w) = Some l \<and> holds l (rq_host r)" by blast
  assume "list_all held_unlock tr"
  from component_lock_waits(2) [OF assms this l]
  show "c_mainWaits w" "\<not> m_bCurrentLockReleased (c_locks w)" by simp_all
next
  have fut: "future_ok (c_locks w)" using component_run_inv [OF assms] by (rule component_inv_future)
  fix e r v w' assume "OnWriteRequest e r v w = Inr w'"
  with access_needs_lock(2) [OF fut] obtain l c where l: "m_pCurrentSimLock (c_locks w) = Some l"
    "getHostCycleState l (rq_host r) = Some c" "state c = eWriting" by blast
  then have "holds l (rq_host r)" by (simp add: holds_def)
  with component_lock_waits [OF assms _ l(1)] lone_writer [OF _ l(2,3)]
  have "list_all held_unlock tr \<longrightarrow> c_mainWaits w \<and> \<not> m_bCurrentLockReleased (c_locks w) \<and>
      map uiHost (filter (\<lambda>h. entry_state h \<in> {eReading, eWriting}) l) = [rq_host r]" by blast
  with l show "\<exists>l c. m_pCurrentSimLock (c_locks w) = Some l \<and>
      getHostCycleState l (rq_host r) = Some c \<and> state c = eWriting \<and>
      (list_all held_unlock tr \<longrightarrow> c_mainWaits w \<and> \<not> m_bCurrentLockReleased (c_locks w) \<and>
         map uiHost (filter (\<lambda>h. entry_state h \<in> {eReading, eWriting}) l) = [rq_host r])"
    by (intro exI [of _ l] exI [of _ c] conjI)
qed

text \<open>A component one of whose clients writes: it starts, a host asks for the write lock, the main thread
  hands the simulation over.\<close>

definition lock_request :: "u32 \<Rightarrow> request_body \<Rightarrow> message" where
  "lock_request host rb = EG_Msg \<lparr>eg_type = 1, eg_instance = 0, eg_cycle = 4,
     eg_body = Some (EgRequest \<lparr>rq_coordinator = 1, rq_host = host, rq_body = Some rb\<rparr>)\<rparr>"

definition started_component :: component where
  "started_component = demo_component\<lparr>m_active := [0, 1, 2, 3, 4], posted := [],
     c_sent := [HCQ_Enroll ''basic'' ''id'']\<rparr>"

definition asked_component :: component where
  "asked_component = started_component\<lparr>c_locks := \<lparr>m_pCurrentSimLock = Some [entry 7 4 eWrite],
     m_pFutureSimLock = None, m_bCurrentLockReleased = False\<rparr>\<rparr>"

definition writing_component :: component where
  "writing_component = started_component\<lparr>c_locks := \<lparr>m_pCurrentSimLock = Some [entry 7 4 eWriting],
     m_pFutureSimLock = None, m_bCurrentLockReleased = False\<rparr>, c_mainWaits := True,
     c_egClient := demo_link []\<lparr>lk_sent := [EG_Msg \<lparr>eg_type = 0, eg_instance = 0, eg_cycle = 0,
       eg_body = Some (EgResponse \<lparr>rs_coordinator = 1, rs_host = 7, rs_value = ''''\<rparr>)\<rparr>]\<rparr>\<rparr>"

lemma started_steps: "queue_steps 5 component_vt True demo_component = Inr started_component"
  by (simp add: eval_nat_numeral queue_step_def queue_handle_def Queue_OnStartActivity_def demo_component_def
      started_component_def Component_ctor_def component_vt_def activity_defaults component_start_def
      EnrollHostActivity_start_def Component_send_def)

lemma reach_start_steps:
  assumes "component_run brk [] w" and "queue_steps n component_vt brk w = Inr w'"
    and "\<forall>e \<in> set (take n (posted w)). \<exists>a. e = EvStart a" and "n \<le> length (posted w)"
  shows "component_run brk [] w'"
  using assms
proof (induction n arbitrary: w)
  case (Suc n)
  then obtain v where v: "queue_step component_vt brk w = Inr v" and rest: "queue_steps n component_vt brk v = Inr w'"
    by (auto simp: andThen_eq_Inr)
  obtain a es where p: "posted w = EvStart a # es" using Suc.prems(3,4) by (cases "posted w") auto
  then have "head_unlock w = []" by (simp add: head_unlock_def)
  with cr_step [OF Suc.prems(1) cs_queue [OF v]] have "component_run brk [] v" by simp
  moreover from v p have "queue_handle component_vt brk (EvStart a) (w\<lparr>posted := es\<rparr>) = Inr v"
    by (simp add: queue_step_def)
  from component.handle_posts [OF this] obtain ds where "posted v = es @ ds" by auto
  ultimately show ?case using Suc.IH rest Suc.prems(3,4) p by auto
qed simp

lemma asked_component_reached: "component_run True [] asked_component"
proof -
  have "component_run True [] started_component"
    by (rule reach_start_steps [OF demo_component_reached started_steps])
      (auto simp: demo_component_def Component_ctor_def)
  from cr_step [OF this cs_message [of _ _ "lock_request 7 (RqLock False)"]]
  have r1: "component_run True [] (queue_serverMessage (lock_request 7 (RqLock False)) started_component)" by simp
  let ?w1 = "queue_serverMessage (lock_request 7 (RqLock False)) started_component"
  have "queue_step component_vt True ?w1 = Inr asked_component"
    by (simp add: queue_step_def queue_posts queue_post_def queue_handle_def Queue_OnServerMessage_def
        started_component_def asked_component_def demo_component_def Component_ctor_def component_vt_def
        component_serverMessage_def lock_request_def EnrollHostActivity_serverMessage_def
        AliveTestActivity_serverMessage_def LoadProgramActivity_serverMessage_def
        EGRequestManager_serverMessage_def OnLockRequest_def OnLock_def OnWriteLock_def
        getOrCreateCurrentLock_def Let_def entry_def)
  moreover have "head_unlock ?w1 = []"
    by (simp add: head_unlock_def queue_posts queue_post_def started_component_def lock_request_def unlock_in_def
        unlock_of_def)
  ultimately show ?thesis
    using cr_step [OF r1 cs_queue [of _ ?w1 asked_component]] by simp
qed

abbreviation handed_component :: component where
  "handed_component \<equiv> queue_startSimulationLock (asked_component\<lparr>c_mainWaits := True\<rparr>)"

lemma handed_step: "component_step True asked_component [] handed_component"
proof -
  have "Component_runCycle_begin asked_component = Inr handed_component"
    by (simp add: Component_runCycle_begin_def Component_runAllJobs_def asked_component_def started_component_def
        demo_component_def Component_ctor_def runCycle_handover_def)
  moreover have "\<not> c_mainWaits asked_component"
    by (simp add: asked_component_def started_component_def demo_component_def Component_ctor_def)
  ultimately show ?thesis by (rule cs_begin [rotated])
qed

lemma writing_component_reached: "component_run True [] writing_component"
proof -
  have r3: "component_run True [] handed_component"
    using cr_step [OF asked_component_reached handed_step] by simp
  have "queue_step component_vt True handed_component = Inr writing_component"
    by (simp add: queue_step_def queue_posts queue_post_def queue_handle_def Queue_OnSimulationLockStarted_def
        asked_component_def writing_component_def started_component_def demo_component_def Component_ctor_def
        component_vt_def component_simulationLockStarted_def activity_defaults
        EGRequestManager_simulationLockStarted_def OnSimulationLockStarted_def start_next_def isRead_def
        issueLockResponse_def component_sendeg_def Component_getCurrentCycle_def Let_def entry_def)
  moreover have "head_unlock handed_component = []"
    by (simp add: head_unlock_def queue_posts queue_post_def asked_component_def started_component_def)
  ultimately show ?thesis using cr_step [OF r3 cs_queue [of _ handed_component writing_component]] by simp
qed

theorem component_refines_protocol_witness:
  "sim_step (lock_world_of asked_component) [] (lock_world_of handed_component)"
proof -
  have "main_waits (lock_world_of handed_component) \<noteq> main_waits (lock_world_of asked_component)"
    by (simp add: lock_world_of_def queue_posts queue_post_def asked_component_def started_component_def
        demo_component_def Component_ctor_def)
  with component_refines_protocol [OF asked_component_reached handed_step] show ?thesis by auto
qed

theorem component_access_under_lock_witness:
  "OnWriteRequest demo_request (\<lparr>rq_coordinator = 1, rq_host = 7, rq_body = None\<rparr>) ''v'' writing_component
     = Inr writing_component \<and> c_mainWaits writing_component"
proof -
  have "OnWriteRequest demo_request (\<lparr>rq_coordinator = 1, rq_host = 7, rq_body = None\<rparr>) ''v'' writing_component
     = Inr writing_component"
    by (simp add: OnWriteRequest_def writing_component_def started_component_def demo_component_def
        Component_ctor_def getOrCreateCurrentLock_def Let_def entry_def)
  with component_access_under_lock [OF writing_component_reached] show ?thesis by simp blast
qed

section \<open>Who is told\<close>

definition lock_response_to :: "u32 \<Rightarrow> host_cycle_state \<Rightarrow> message" where
  "lock_response_to cycle g = EG_Msg \<lparr>eg_type = 0, eg_instance = 0, eg_cycle = cycle,
     eg_body = Some (EgResponse \<lparr>rs_coordinator = uiCoordinator g, rs_host = uiHost g, rs_value = ''''\<rparr>)\<rparr>"

lemma issueLockResponses_sent:
  "issueLockResponses gs w = Inr w' \<Longrightarrow>
     lk_sent (c_egClient w') = lk_sent (c_egClient w) @ map (lock_response_to (Component_getCurrentCycle w)) gs"
proof (induction gs arbitrary: w)
  case (Cons g gs)
  then obtain v where v: "issueLockResponse g w = Inr v" and rest: "issueLockResponses gs v = Inr w'"
    by (auto simp: andThen_eq_Inr)
  from v have "lk_sent (c_egClient v) = lk_sent (c_egClient w) @ [lock_response_to (Component_getCurrentCycle w) g]"
    and "c_program v = c_program w"
    by (auto simp: issueLockResponse_def component_sendeg_def andThen_eq_Inr sendeg_eq_Inr lock_response_to_def)
  with Cons.IH [OF rest] show ?case by (simp add: Component_getCurrentCycle_def)
qed simp

lemma start_next_granted:
  assumes "start_next l = Inr (l', gs)"
  shows "(isRead l \<longrightarrow> map uiHost gs = map uiHost (filter (\<lambda>h. entry_state h = eRead) l)) \<and>
    (\<not> isRead l \<longrightarrow> map uiHost gs = [uiHost (hd (filter (\<lambda>h. entry_state h = eWrite) l))])"
proof (cases "isRead l")
  case True
  with assms start_readers_granted(1) [of l] show ?thesis by (simp add: start_next_def)
next
  case False
  with assms obtain g where "start_writer l = Some (l', g)" and gs: "gs = [g]"
    by (auto simp: start_next_def split: option.splits)
  then have "uiHost g = uiHost (hd (filter (\<lambda>h. entry_state h = eWrite) l))"
    by (induction l arbitrary: l') (auto simp: Let_def split: if_splits)
  with False gs show ?thesis by simp
qed

text \<open>C14. When the lock starts, and when an unlock lets the next hosts in, the component answers exactly the
  hosts that it lets in, each once and over the path its request came by: all waiting readers, in the
  order of the lock, or, when no reader waits, the first waiting writer.\<close>

theorem lock_start_answers:
  assumes cur: "m_pCurrentSimLock (c_locks w) = Some l"
    and run: "EGRequestManager_simulationLockStarted w = Inr w'"
  shows "\<exists>gs l'. m_pCurrentSimLock (c_locks w') = Some l' \<and> set gs \<subseteq> set l'
       \<and> lk_sent (c_egClient w') = lk_sent (c_egClient w) @ map (lock_response_to (Component_getCurrentCycle w)) gs
       \<and> map uiHost gs = (if isRead l then map uiHost (filter (\<lambda>h. entry_state h = eRead) l)
                          else [uiHost (hd (filter (\<lambda>h. entry_state h = eWrite) l))])
       \<and> (\<forall>g \<in> set gs. entry_state g = (if isRead l then eReading else eWriting))"
proof -
  from run cur obtain l' gs where n: "start_next l = Inr (l', gs)"
    and issue: "issueLockResponses gs (w\<lparr>c_locks := (c_locks w)\<lparr>m_pCurrentSimLock := Some l'\<rparr>\<rparr>) = Inr w'"
    by (auto simp: EGRequestManager_simulationLockStarted_def OnSimulationLockStarted_def andThen_eq_Inr)
  have "set gs \<subseteq> set l' \<and> (\<forall>g \<in> set gs. entry_state g = (if isRead l then eReading else eWriting))"
  proof (cases "isRead l")
    case True
    have "set (snd (start_readers k)) \<subseteq> set (fst (start_readers k))" for k
      by (induction k) (auto simp: Let_def split: prod.splits)
    from this [of l] True n start_readers_granted(2) [of l] show ?thesis by (auto simp: start_next_def)
  next
    case False
    with n show ?thesis by (auto simp: start_next_def split: option.splits dest!: start_writer_Some)
  qed
  with issueLockResponses_sent [OF issue] issueLockResponses_locks [OF issue] start_next_granted [OF n] show ?thesis
    by (auto simp: Component_getCurrentCycle_def intro!: exI [of _ gs])
qed

theorem lock_start_answers_witness:
  "\<exists>g w'. EGRequestManager_simulationLockStarted asked_component = Inr w' \<and> uiHost g = 7
     \<and> lk_sent (c_egClient w') = [lock_response_to 0 g]"
proof -
  have cur: "m_pCurrentSimLock (c_locks asked_component) = Some [entry 7 4 eWrite]" by (simp add: asked_component_def)
  obtain w' where run: "EGRequestManager_simulationLockStarted asked_component = Inr w'"
    by (simp add: EGRequestManager_simulationLockStarted_def asked_component_def started_component_def
        demo_component_def Component_ctor_def OnSimulationLockStarted_def start_next_def isRead_def entry_def
        issueLockResponse_def component_sendeg_def Let_def)
  have "Component_getCurrentCycle asked_component = 0" "lk_sent (c_egClient asked_component) = []"
    by (simp_all add: Component_getCurrentCycle_def asked_component_def started_component_def demo_component_def
        Component_ctor_def demo_link_def)
  with lock_start_answers [OF cur run] run show ?thesis by (auto simp: isRead_def entry_def)
qed

section \<open>Loading a program\<close>

text \<open>C28.  A load request that finds no other job waiting becomes a job of the main thread; while it is
  pending a second load is refused.  When the main thread has run it, the program is the one that was
  constructed, and none after an unload or when its construction throws: the old program is gone in
  either case.  The slave is then told whether the load or unload worked, over a connection that
  works, and the activity remembers the names and can take the next load.\<close>

theorem component_load:
  assumes act: "heap w a = Some (LoadProgramActivity pn hn None)" and jobs: "c_jobs w = []"
    and net: "Client_send (c_client w) = Inr True"
    and ctor: "Program_ctor h p (c_sources w h p) = r" "\<And>m. r \<noteq> Inl (Ub m)"
  shows "\<exists>w1 w2 w3. component_serverMessage (CHQ_Load h p) w a = Inr (w1, True) \<and> c_sent w1 = c_sent w
     \<and> (\<forall>h' p'. component_serverMessage (CHQ_Load h' p') w1 a
          = Inr (w1\<lparr>c_sent := c_sent w @ [HCS_Load False]\<rparr>, True))
     \<and> Component_runAllJobs w1 = Inr w2 \<and> posted w2 = posted w @ [EvJob (c_nextJob w)]
     \<and> component_jobComplete (c_nextJob w) w2 a = Inr (w3, True)
     \<and> c_sent w3 = c_sent w @ [HCS_Load (h = '''' \<or> p = '''' \<or> (\<exists>q. r = Inr q))]
     \<and> c_program w3 = (if h = '''' \<or> p = '''' then None else case r of Inr q \<Rightarrow> Some q | Inl e \<Rightarrow> None)
     \<and> heap w3 a = Some (LoadProgramActivity p h None)"
proof -
  let ?j = "c_nextJob w"
  let ?w1 = "Component_startJob ?j (set_activity a (LoadProgramActivity p h (Some ?j))
      (snd (new_job (LoadProgramJob h p False) w)))"
  have 1: "component_serverMessage (CHQ_Load h p) w a = Inr (?w1, True)"
    using act by (simp add: component_serverMessage_def LoadProgramActivity_serverMessage_def new_job_def)
  have f: "heap ?w1 a = Some (LoadProgramActivity p h (Some ?j))" "c_sent ?w1 = c_sent w" "posted ?w1 = posted w"
    "c_jobs ?w1 = [?j]" "c_jobHeap ?w1 ?j = Some (LoadProgramJob h p False)" "c_client ?w1 = c_client w"
    "c_sources ?w1 = c_sources w"
    using jobs by (simp_all add: Component_startJob_def set_activity_def new_job_def)
  let ?ok = "h = '''' \<or> p = '''' \<or> (\<exists>q. r = Inr q)"
  let ?prog = "if h = '''' \<or> p = '''' then None else case r of Inr q \<Rightarrow> Some q | Inl e \<Rightarrow> None"
  let ?w2 = "queue_jobComplete ?j (Component_setProgram ?prog (set_job ?j (LoadProgramJob h p ?ok) (?w1\<lparr>c_jobs := []\<rparr>)))"
  have 2: "Component_runAllJobs ?w1 = Inr ?w2"
  proof (cases r)
    case (Inl e)
    then obtain m where "e = Rte m" using ctor(2) by (cases e) auto
    with Inl ctor(1) f show ?thesis
      by (auto simp: Component_runAllJobs_def job_run_def LoadProgramJob_run_def Let_def)
  next
    case (Inr q)
    with ctor(1) f show ?thesis
      by (auto simp: Component_runAllJobs_def job_run_def LoadProgramJob_run_def Let_def)
  qed
  have g: "heap ?w2 a = Some (LoadProgramActivity p h (Some ?j))" "c_client ?w2 = c_client w" "c_sent ?w2 = c_sent w"
    "posted ?w2 = posted w @ [EvJob ?j]" "c_jobHeap ?w2 ?j = Some (LoadProgramJob h p ?ok)" "c_program ?w2 = ?prog"
    using f by (simp_all add: queue_posts queue_post_def Component_setProgram_def set_job_def)
  let ?w3 = "set_activity a (LoadProgramActivity p h None) (?w2\<lparr>c_sent := c_sent w @ [HCS_Load ?ok]\<rparr>)"
  have 3: "component_jobComplete ?j ?w2 a = Inr (?w3, True)"
    using g net
    by (simp add: component_jobComplete_def LoadProgramActivity_jobComplete_def Component_send_def hcs_load_def)
  have 4: "component_serverMessage (CHQ_Load h' p') ?w1 a = Inr (?w1\<lparr>c_sent := c_sent w @ [HCS_Load False]\<rparr>, True)" for h' p'
    using f net
    by (simp add: component_serverMessage_def LoadProgramActivity_serverMessage_def Component_send_def hcs_load_def)
  have h: "c_sent ?w3 = c_sent w @ [HCS_Load ?ok]" "c_program ?w3 = ?prog"
    "heap ?w3 a = Some (LoadProgramActivity p h None)"
    using g(6) by (simp_all add: set_activity_def)
  show ?thesis
    by (intro exI conjI allI, rule 1, rule f(2), rule 4, rule 2, rule g(4), rule 3, rule h(1), rule h(2), rule h(3))
qed

theorem component_load_witness:
  "\<exists>w1 w2 w3. component_serverMessage (CHQ_Load ''east'' ''prog'') demo_component 2 = Inr (w1, True)
     \<and> Component_runAllJobs w1 = Inr w2 \<and> component_jobComplete 0 w2 2 = Inr (w3, True)
     \<and> c_sent w3 = [HCS_Load True]"
proof -
  have "\<exists>q. Program_ctor ''east'' ''prog'' basic_source = Inr q"
    by (simp add: Program_ctor_def basic_source_def demo_plugin_def)
  then obtain q where q: "Program_ctor ''east'' ''prog'' (c_sources demo_component ''east'' ''prog'') = Inr q"
    by (auto simp: demo_component_def Component_ctor_def)
  have "heap demo_component 2 = Some (LoadProgramActivity [] [] None)" "c_jobs demo_component = []"
    "c_sent demo_component = []" "c_nextJob demo_component = 0" "Client_send (c_client demo_component) = Inr True"
    by (simp_all add: demo_component_def Component_ctor_def)
  with component_load [OF this(1,2,5) q] show ?thesis by auto
qed

end
