(* ===== verification/Host_Map.thy ===== *)
theory Host_Map
  imports Mega_Prelude "HOL-Library.Multiset"
begin

text \<open>
  The hosts of a slave: \<open>src/src/slave/hostMap.hpp\<close> and \<open>src/src/slave/hostMap.cpp\<close>.

  A host process enrolls on the slave's mega socket and then on its EG socket, which gives it two
  client ids.  The map keeps the enrolled hosts by process name (several hosts may run the same
  program) and the host names of the loaded program by the host that plays them.  When a program is
  loaded, the constructor \<open>HostMap( oldHostMapping, ... )\<close> assigns its host names to the
  enrolled hosts.  \<open>Host\<close> does not initialise \<open>m_egClientID\<close>: its first value is the argument
  \<open>eg0\<close> of the constructor.
\<close>

section \<open>Hosts\<close>

record host =
  h_processName :: string
  h_uniqueID :: string
  h_megaClientID :: u32
  h_egClientID :: u32

definition Host_ctor :: "u32 \<Rightarrow> string \<Rightarrow> u32 \<Rightarrow> string \<Rightarrow> host" where
  "Host_ctor eg0 strProcessName clientID strUniqueID =
     \<lparr>h_processName = strProcessName, h_uniqueID = strUniqueID, h_megaClientID = clientID,
      h_egClientID = eg0\<rparr>"

type_synonym process_map = "(string \<times> host) list"
type_synonym name_map = "(string \<times> host) list"

record host_map =
  hm_processes :: process_map
  hm_names :: name_map

definition HostMap_empty :: host_map where
  "HostMap_empty = \<lparr>hm_processes = [], hm_names = []\<rparr>"

section \<open>Operations\<close>

definition eraseByHostMegaClientID :: "u32 \<Rightarrow> (string \<times> host) list \<Rightarrow> (string \<times> host) list" where
  "eraseByHostMegaClientID uiClient m = filter (\<lambda>e. h_megaClientID (snd e) \<noteq> uiClient) m"

definition HostMap_removeClient :: "u32 \<Rightarrow> host_map \<Rightarrow> host_map" where
  "HostMap_removeClient uiClient hm =
     \<lparr>hm_processes = eraseByHostMegaClientID uiClient (hm_processes hm),
      hm_names = eraseByHostMegaClientID uiClient (hm_names hm)\<rparr>"

definition HostMap_enroll :: "u32 \<Rightarrow> string \<Rightarrow> u32 \<Rightarrow> string \<Rightarrow> host_map \<Rightarrow> bool \<times> host_map" where
  "HostMap_enroll eg0 strProcessName clientID strUniqueID hm =
     (True, hm\<lparr>hm_processes := mmap_insert strProcessName
                 (Host_ctor eg0 strProcessName clientID strUniqueID) (hm_processes hm)\<rparr>)"

fun set_eg_client :: "u32 \<Rightarrow> string \<Rightarrow> process_map \<Rightarrow> process_map" where
  "set_eg_client clientID strUniqueID [] = []"
| "set_eg_client clientID strUniqueID ((p, h) # m) =
     (if h_uniqueID h = strUniqueID then (p, h\<lparr>h_egClientID := clientID\<rparr>) # m
      else (p, h) # set_eg_client clientID strUniqueID m)"

text \<open>True is returned on both paths: also when no host has the unique id.\<close>

definition HostMap_enrolleg :: "u32 \<Rightarrow> string \<Rightarrow> host_map \<Rightarrow> bool \<times> host_map" where
  "HostMap_enrolleg clientID strUniqueID hm =
     (True, hm\<lparr>hm_processes := set_eg_client clientID strUniqueID (hm_processes hm)\<rparr>)"

fun mega_for_eg :: "process_map \<Rightarrow> u32 \<Rightarrow> u32" where
  "mega_for_eg [] clientID = 0"
| "mega_for_eg ((p, h) # m) clientID =
     (if h_egClientID h = clientID then h_megaClientID h else mega_for_eg m clientID)"

definition HostMap_getMegaClientForEGClient :: "host_map \<Rightarrow> u32 \<Rightarrow> u32" where
  "HostMap_getMegaClientForEGClient hm clientID = mega_for_eg (hm_processes hm) clientID"

text \<open>\<open>listClients\<close>: client, process name and the host name it plays, if any.\<close>

definition HostMap_listClients :: "host_map \<Rightarrow> (u32 \<times> string \<times> string option) list" where
  "HostMap_listClients hm =
     map (\<lambda>(p, h). (h_megaClientID h, p,
            map_option fst (find (\<lambda>e. h_megaClientID (snd e) = h_megaClientID h) (hm_names hm))))
       (hm_processes hm)"

section \<open>Assigning the host names of a program\<close>

fun find_entry :: "('a \<Rightarrow> bool) \<Rightarrow> 'a list \<Rightarrow> ('a \<times> 'a list) option" where
  "find_entry P [] = None"
| "find_entry P (x # xs) =
     (if P x then Some (x, xs) else map_option (\<lambda>(y, ys). (y, x # ys)) (find_entry P xs))"

text \<open>The first loop keeps a host name with the host that had it, if that host runs the right process.
  The result is the pairs left over, the old names and old hosts left, and the new mapping.\<close>

fun reuse_names ::
  "(string \<times> string) list \<Rightarrow> name_map \<Rightarrow> process_map \<Rightarrow> name_map
   \<Rightarrow> (string \<times> string) list \<times> name_map \<times> process_map \<times> name_map" where
  "reuse_names [] oldNames old mapping = ([], oldNames, old, mapping)"
| "reuse_names ((process, hostName) # rest) oldNames old mapping =
     (case map_of oldNames hostName of
        None \<Rightarrow> (let (left, r) = reuse_names rest oldNames old mapping in ((process, hostName) # left, r))
      | Some h0 \<Rightarrow>
          (case find_entry (\<lambda>(p, h). p = process \<and> h_megaClientID h = h_megaClientID h0) old of
             None \<Rightarrow> (let (left, r) = reuse_names rest oldNames old mapping in ((process, hostName) # left, r))
           | Some ((p, h), old') \<Rightarrow>
               reuse_names rest (smap_erase hostName oldNames) old' (smap_insert hostName h mapping)))"

text \<open>The second loop takes any host of the right process.  The result is the mapping, the hosts
  left and the host names without a host.\<close>

fun assign_names ::
  "(string \<times> string) list \<Rightarrow> process_map \<Rightarrow> name_map \<Rightarrow> name_map \<times> process_map \<times> string list" where
  "assign_names [] old mapping = (mapping, old, [])"
| "assign_names ((process, hostName) # rest) old mapping =
     (case find_entry (\<lambda>(p, h). p = process) old of
        Some ((p, h), old') \<Rightarrow> assign_names rest old' (smap_insert hostName h mapping)
      | None \<Rightarrow>
          (let (mapping', old', unmapped) = assign_names rest old mapping
           in (mapping', old', hostName # unmapped)))"

text \<open>The new map, the unmapped clients and the unmapped host names.\<close>

definition HostMap_ctor :: "host_map \<Rightarrow> (string \<times> string) list \<Rightarrow> host_map \<times> host list \<times> string list" where
  "HostMap_ctor oldMap processNameToHostName =
     (let (left, _, old, mapping) =
            reuse_names processNameToHostName (hm_names oldMap) (hm_processes oldMap) [];
          (mapping', old', unmappedNames) = assign_names left old mapping
      in (\<lparr>hm_processes = hm_processes oldMap, hm_names = mapping'\<rparr>, map snd old', unmappedNames))"

section \<open>Facts about single operations\<close>

lemma find_entry_Some:
  "find_entry P xs = Some (y, ys) \<Longrightarrow> P y \<and> y \<in> set xs \<and> mset xs = add_mset y (mset ys)"
proof (induction xs arbitrary: ys)
  case (Cons x xs)
  then show ?case by (auto split: if_splits)
qed simp

lemma find_entry_None: "find_entry P xs = None \<longleftrightarrow> (\<forall>x \<in> set xs. \<not> P x)"
  by (induction xs) auto

lemma smap_insert_mset:
  "smap_wf m \<Longrightarrow> k \<notin> fst ` set m \<Longrightarrow> mset (smap_insert k v m) = add_mset (k, v) (mset m)"
  by (induction k v m rule: smap_insert.induct) (auto simp: smap_wf_Cons)

lemma removeClient_gone:
  "h \<in> snd ` set (hm_processes (HostMap_removeClient c hm)) \<union> snd ` set (hm_names (HostMap_removeClient c hm))
   \<Longrightarrow> h_megaClientID h \<noteq> c"
  by (auto simp: HostMap_removeClient_def eraseByHostMegaClientID_def)

lemma removeClient_other:
  assumes "\<forall>e \<in> set (hm_processes hm) \<union> set (hm_names hm). h_megaClientID (snd e) \<noteq> c"
  shows "HostMap_removeClient c hm = hm"
proof -
  have "eraseByHostMegaClientID c m = m" if "\<forall>e \<in> set m. h_megaClientID (snd e) \<noteq> c" for m
    using that by (simp add: eraseByHostMegaClientID_def)
  with assms show ?thesis by (simp add: HostMap_removeClient_def)
qed

definition host_map_wf :: "host_map \<Rightarrow> bool" where
  "host_map_wf hm \<longleftrightarrow> mmap_wf (hm_processes hm) \<and> smap_wf (hm_names hm)"

lemma set_eg_client_keys: "map fst (set_eg_client c u m) = map fst m"
  by (induction c u m rule: set_eg_client.induct) auto

lemma host_map_wf_removeClient: "host_map_wf hm \<Longrightarrow> host_map_wf (HostMap_removeClient c hm)"
  by (simp add: host_map_wf_def HostMap_removeClient_def eraseByHostMegaClientID_def mmap_filter_wf smap_filter_wf)

lemma host_map_wf_enroll: "host_map_wf hm \<Longrightarrow> host_map_wf (snd (HostMap_enroll eg0 p c u hm))"
  by (simp add: host_map_wf_def HostMap_enroll_def mmap_insert_wf)

lemma host_map_wf_enrolleg: "host_map_wf hm \<Longrightarrow> host_map_wf (snd (HostMap_enrolleg c u hm))"
  by (simp add: host_map_wf_def HostMap_enrolleg_def mmap_wf_def set_eg_client_keys)

text \<open>Enrolling on the EG socket is found again from there, if no other host has the id already.\<close>

lemma set_eg_client_found:
  assumes "\<exists>e \<in> set m. h_uniqueID (snd e) = u" and "\<forall>e \<in> set m. h_egClientID (snd e) \<noteq> c"
  shows "\<exists>e \<in> set m. h_uniqueID (snd e) = u \<and> mega_for_eg (set_eg_client c u m) c = h_megaClientID (snd e)"
  using assms by (induction c u m rule: set_eg_client.induct) auto

section \<open>What the assignment does\<close>

definition names_of :: "(string \<times> string) list \<Rightarrow> string set" where
  "names_of pairs = snd ` set pairs"

text \<open>What both loops keep: hosts are neither lost nor duplicated, every name is either still open or
  mapped, and a mapped host runs the process its name asks for.\<close>

definition assign_pre :: "(string \<times> string) list \<Rightarrow> name_map \<Rightarrow> bool" where
  "assign_pre pairs mapping \<longleftrightarrow>
     distinct (map snd pairs) \<and> smap_wf mapping \<and> fst ` set mapping \<inter> names_of pairs = {}"

definition assign_ok ::
  "(string \<times> string) list \<Rightarrow> process_map \<Rightarrow> name_map \<Rightarrow> string list \<Rightarrow> process_map \<Rightarrow> name_map \<Rightarrow> bool" where
  "assign_ok pairs old mapping open_names old' mapping' \<longleftrightarrow>
     mset (map snd old') + mset (map snd mapping') = mset (map snd old) + mset (map snd mapping) \<and>
     set old' \<subseteq> set old \<and> smap_wf mapping' \<and> set mapping \<subseteq> set mapping' \<and>
     fst ` set mapping' \<union> set open_names = fst ` set mapping \<union> names_of pairs \<and>
     fst ` set mapping' \<inter> set open_names = {} \<and> distinct open_names \<and>
     (\<forall>n h. (n, h) \<in> set mapping' \<longrightarrow>
        (n, h) \<in> set mapping \<or> (\<exists>p. (p, n) \<in> set pairs \<and> (p, h) \<in> set old))"

lemma assign_ok_parts:
  assumes "assign_ok pairs old mapping open_names old' mapping'"
  shows "set old' \<subseteq> set old" and "set mapping \<subseteq> set mapping'" and "smap_wf mapping'"
  using assms by (simp_all add: assign_ok_def)

lemma assign_pre_Cons:
  "assign_pre ((p, n) # rest) mapping \<longleftrightarrow>
     n \<notin> names_of rest \<and> n \<notin> fst ` set mapping \<and> assign_pre rest mapping"
  by (auto simp: assign_pre_def names_of_def)

lemma set_smap_insert_new:
  "smap_wf m \<Longrightarrow> k \<notin> fst ` set m \<Longrightarrow> set (smap_insert k v m) = insert (k, v) (set m)"
  using smap_insert_mset [of m k v] by (metis set_mset_add_mset_insert set_mset_mset)

lemma assign_keep:
  assumes "assign_ok rest old mapping names old' mapping'" and "assign_pre ((p, n) # rest) mapping"
  shows "assign_ok ((p, n) # rest) old mapping (n # names) old' mapping'"
proof -
  have "n \<notin> fst ` set mapping \<union> names_of rest"
    using assms(2) by (simp add: assign_pre_Cons)
  then have "n \<notin> fst ` set mapping' \<and> n \<notin> set names"
    using assms(1) unfolding assign_ok_def by (metis UnCI)
  moreover have "\<forall>m h. (m, h) \<in> set mapping' \<longrightarrow> (m, h) \<in> set mapping \<or>
      (\<exists>q. (q, m) \<in> set ((p, n) # rest) \<and> (q, h) \<in> set old)"
    using assms(1) unfolding assign_ok_def by (metis list.set_intros(2))
  ultimately show ?thesis
    using assms(1) unfolding assign_ok_def by (simp add: names_of_def)
qed

lemma assign_take:
  assumes ok: "assign_ok rest old1 (smap_insert n h mapping) names old' mapping'"
    and pre: "assign_pre ((p, n) # rest) mapping"
    and entry: "(p, h) \<in> set old" "mset old = add_mset (p, h) (mset old1)"
  shows "assign_ok ((p, n) # rest) old mapping names old' mapping'"
proof -
  have wf: "smap_wf mapping" and n: "n \<notin> fst ` set mapping"
    using pre by (auto simp: assign_pre_def names_of_def)
  have sub: "set old1 \<subseteq> set old" using entry(2) by (metis set_mset_add_mset_insert set_mset_mset subset_insertI)
  have "mset (map snd old) = add_mset h (mset (map snd old1))"
    using entry(2) by simp
  moreover have "mset (map snd (smap_insert n h mapping)) = add_mset h (mset (map snd mapping))"
    using smap_insert_mset [OF wf n] by simp
  moreover have "\<forall>m g. (m, g) \<in> set mapping' \<longrightarrow> (m, g) \<in> set mapping \<or>
      (\<exists>q. (q, m) \<in> set ((p, n) # rest) \<and> (q, g) \<in> set old)"
  proof (intro allI impI)
    fix m g
    assume "(m, g) \<in> set mapping'"
    then have "(m, g) \<in> insert (n, h) (set mapping) \<or> (\<exists>q. (q, m) \<in> set rest \<and> (q, g) \<in> set old1)"
      using ok unfolding assign_ok_def set_smap_insert_new [OF wf n] by blast
    then show "(m, g) \<in> set mapping \<or> (\<exists>q. (q, m) \<in> set ((p, n) # rest) \<and> (q, g) \<in> set old)"
      using sub entry(1) by auto
  qed
  moreover have "mset (map snd old') + mset (map snd mapping')
      = mset (map snd old1) + mset (map snd (smap_insert n h mapping))"
    and "set old' \<subseteq> set old1" and "insert (n, h) (set mapping) \<subseteq> set mapping'" and "smap_wf mapping'"
    and "fst ` set mapping' \<union> set names = insert n (fst ` set mapping) \<union> names_of rest"
    and "fst ` set mapping' \<inter> set names = {}" and "distinct names"
    using ok unfolding assign_ok_def set_smap_insert_new [OF wf n] image_insert fst_conv by - (elim conjE, assumption)+
  moreover have "names_of ((p, n) # rest) = insert n (names_of rest)" by (simp add: names_of_def)
  ultimately show ?thesis
    using sub unfolding assign_ok_def by (intro conjI) simp_all
qed

lemma assign_pre_take:
  "assign_pre ((p, n) # rest) mapping \<Longrightarrow> assign_pre rest (smap_insert n h mapping)"
  by (auto simp: assign_pre_def names_of_def fst_smap_insert smap_insert_wf)

lemma reuse_names_ok:
  assumes "reuse_names pairs oldNames old mapping = (left, oldNames', old', mapping')"
    and "assign_pre pairs mapping"
  shows "assign_ok pairs old mapping (map snd left) old' mapping' \<and> set left \<subseteq> set pairs"
  using assms
proof (induction pairs oldNames old mapping arbitrary: left oldNames' old' mapping' rule: reuse_names.induct)
  case (1 oldNames old mapping)
  then show ?case by (simp add: assign_ok_def assign_pre_def names_of_def)
next
  case (2 p n rest oldNames old mapping)
  have rest: "assign_pre rest mapping" using "2.prems"(2) by (simp add: assign_pre_Cons)
  show ?case
  proof (cases "map_of oldNames n")
    case None
    then obtain left1 where "reuse_names rest oldNames old mapping = (left1, oldNames', old', mapping')"
      and l: "left = (p, n) # left1"
      using "2.prems"(1) by (auto simp: Let_def split: prod.splits)
    with "2.IH"(1) [OF None _ rest] "2.prems"(2) show ?thesis by (auto intro: assign_keep)
  next
    case (Some h0)
    let ?P = "\<lambda>(p', h). p' = p \<and> h_megaClientID h = h_megaClientID h0"
    show ?thesis
    proof (cases "find_entry ?P old")
      case None
      with Some obtain left1 where "reuse_names rest oldNames old mapping = (left1, oldNames', old', mapping')"
        and l: "left = (p, n) # left1"
        using "2.prems"(1) by (auto simp: Let_def split: prod.splits)
      with "2.IH"(2) [OF Some None _ rest] "2.prems"(2) show ?thesis by (auto intro: assign_keep)
    next
      case (Some r)
      obtain q h old1 where r: "r = ((q, h), old1)" by (metis surj_pair)
      from find_entry_Some [OF Some [unfolded r]] have q: "q = p" and e: "(p, h) \<in> set old"
        "mset old = add_mset (p, h) (mset old1)" by auto
      from "2.prems"(1) Some \<open>map_of oldNames n = Some h0\<close> r
      have run: "reuse_names rest (smap_erase n oldNames) old1 (smap_insert n h mapping) = (left, oldNames', old', mapping')"
        by simp
      from "2.IH"(3) [OF \<open>map_of oldNames n = Some h0\<close> Some r [symmetric] refl run] "2.prems"(2) assign_pre_take
      have "assign_ok rest old1 (smap_insert n h mapping) (map snd left) old' mapping' \<and> set left \<subseteq> set rest"
        by blast
      with assign_take [OF _ "2.prems"(2) e] show ?thesis by auto
    qed
  qed
qed

lemma assign_names_ok:
  assumes "assign_names pairs old mapping = (mapping', old', unmapped)" and "assign_pre pairs mapping"
  shows "assign_ok pairs old mapping unmapped old' mapping'
       \<and> (\<forall>(p, n) \<in> set pairs. n \<in> set unmapped \<longrightarrow> p \<notin> fst ` set old')"
  using assms
proof (induction pairs old mapping arbitrary: mapping' old' unmapped rule: assign_names.induct)
  case (1 old mapping)
  then show ?case by (simp add: assign_ok_def assign_pre_def names_of_def)
next
  case (2 p n rest old mapping)
  have rest: "assign_pre rest mapping" using "2.prems"(2) by (simp add: assign_pre_Cons)
  let ?P = "\<lambda>(q, h :: host). q = p"
  show ?case
  proof (cases "find_entry ?P old")
    case None
    then obtain names where "assign_names rest old mapping = (mapping', old', names)"
      and u: "unmapped = n # names"
      using "2.prems"(1) by (auto simp: Let_def split: prod.splits)
    with "2.IH"(1) [OF None _ rest] have ok: "assign_ok rest old mapping names old' mapping'"
      and un: "\<forall>(q, m) \<in> set rest. m \<in> set names \<longrightarrow> q \<notin> fst ` set old'" by auto
    have "p \<notin> fst ` set old" using None by (auto simp: find_entry_None)
    moreover have "set old' \<subseteq> set old" using ok by (simp add: assign_ok_def)
    ultimately have "p \<notin> fst ` set old'" by blast
    moreover have "n \<notin> snd ` set rest" using "2.prems"(2) by (simp add: assign_pre_def)
    ultimately show ?thesis using assign_keep [OF ok "2.prems"(2)] un u by force
  next
    case (Some r)
    obtain q h old1 where r: "r = ((q, h), old1)" by (metis surj_pair)
    from find_entry_Some [OF Some [unfolded r]] have q: "q = p" and e: "(p, h) \<in> set old"
      "mset old = add_mset (p, h) (mset old1)" by auto
    from "2.prems"(1) Some r
    have run: "assign_names rest old1 (smap_insert n h mapping) = (mapping', old', unmapped)"
      by simp
    from "2.IH"(2) [OF Some r [symmetric] refl run] "2.prems"(2) assign_pre_take
    have ok: "assign_ok rest old1 (smap_insert n h mapping) unmapped old' mapping'"
      and un: "\<forall>(q, m) \<in> set rest. m \<in> set unmapped \<longrightarrow> q \<notin> fst ` set old'" by blast+
    have "fst ` set (smap_insert n h mapping) \<subseteq> fst ` set mapping'"
      using ok by (auto simp: assign_ok_def)
    then have "n \<in> fst ` set mapping'" by (simp add: fst_smap_insert)
    then have "n \<notin> set unmapped" using ok by (auto simp: assign_ok_def)
    with un assign_take [OF ok "2.prems"(2) e] show ?thesis by auto
  qed
qed

lemma distinct_map_mset:
  assumes "mset xs = add_mset x (mset ys)" and "distinct (map f xs)"
  shows "distinct (map f ys)"
proof -
  have "mset (map f xs) = mset (map f (x # ys))" using assms(1) by simp
  then have "distinct (map f (x # ys))" using assms(2) mset_eq_imp_distinct_iff by blast
  then show ?thesis by simp
qed

lemma reuse_names_preserves:
  assumes "reuse_names pairs oldNames old mapping = (left, oldNames', old', mapping')"
    and "assign_pre pairs mapping" and "(p, n) \<in> set pairs" and "map_of oldNames n = Some h0"
    and "(p, h) \<in> set old" and "h_megaClientID h = h_megaClientID h0"
    and "distinct (map (h_megaClientID \<circ> snd) old)"
    and "inj_on (h_megaClientID \<circ> the \<circ> map_of oldNames) (dom (map_of oldNames))"
  shows "(n, h) \<in> set mapping'"
  using assms
proof (induction pairs oldNames old mapping arbitrary: left oldNames' old' mapping' rule: reuse_names.induct)
  case (1 oldNames old mapping)
  then show ?case by simp
next
  case (2 q k rest oldNames old mapping)
  note prems = "2.prems"
  have rest: "assign_pre rest mapping" using prems(2) by (simp add: assign_pre_Cons)
  have k: "k \<notin> names_of rest" using prems(2) by (simp add: assign_pre_Cons)
  have uniq: "g = h" if "(r, g) \<in> set old" "h_megaClientID g = h_megaClientID h" for r g
    using prems(7) that prems(5) by (induction old) (auto simp: image_iff)
  show ?case
  proof (cases "map_of oldNames k")
    case None
    with prems(3,4) have "(p, n) \<in> set rest" by auto
    moreover from None prems(1) obtain left1
      where "reuse_names rest oldNames old mapping = (left1, oldNames', old', mapping')"
      by (auto simp: Let_def split: prod.splits)
    ultimately show ?thesis using "2.IH"(1) [OF None _ rest] prems by blast
  next
    case (Some g0)
    let ?P = "\<lambda>(p', h). p' = q \<and> h_megaClientID h = h_megaClientID g0"
    show ?thesis
    proof (cases "find_entry ?P old")
      case None
      have "k \<noteq> n"
      proof
        assume "k = n"
        with Some prems(4) have "g0 = h0" by simp
        moreover from \<open>k = n\<close> k prems(3) have "p = q" by (auto simp: names_of_def image_iff)
        ultimately show False using None prems(5,6) by (auto simp: find_entry_None)
      qed
      with prems(3) have "(p, n) \<in> set rest" by auto
      moreover from Some None prems(1) obtain left1
        where "reuse_names rest oldNames old mapping = (left1, oldNames', old', mapping')"
        by (auto simp: Let_def split: prod.splits)
      ultimately show ?thesis using "2.IH"(2) [OF Some None _ rest] prems by blast
    next
      case (Some r)
      obtain q' g old1 where r: "r = ((q', g), old1)" by (metis surj_pair)
      from find_entry_Some [OF Some [unfolded r]] have g: "h_megaClientID g = h_megaClientID g0"
        and e: "(q', g) \<in> set old" "mset old = add_mset (q', g) (mset old1)" by auto
      from prems(1) Some \<open>map_of oldNames k = Some g0\<close> r
      have run: "reuse_names rest (smap_erase k oldNames) old1 (smap_insert k g mapping)
          = (left, oldNames', old', mapping')" by simp
      have pre1: "assign_pre rest (smap_insert k g mapping)" using assign_pre_take prems(2) by blast
      show ?thesis
      proof (cases "k = n")
        case True
        with \<open>map_of oldNames k = Some g0\<close> prems(4,6) g have "h_megaClientID g = h_megaClientID h" by simp
        with uniq e(1) have "g = h" by blast
        moreover have "(k, g) \<in> set (smap_insert k g mapping)"
          using prems(2) set_smap_insert_new [of mapping k g] by (auto simp: assign_pre_def names_of_def)
        moreover have "set (smap_insert k g mapping) \<subseteq> set mapping'"
          using reuse_names_ok [OF run pre1] by (simp add: assign_ok_def)
        ultimately show ?thesis using True by blast
      next
        case False
        have kd: "k \<in> dom (map_of oldNames)" and nd: "n \<in> dom (map_of oldNames)"
          using \<open>map_of oldNames k = Some g0\<close> prems(4) by auto
        with inj_onD [OF prems(8) _ kd nd] False \<open>map_of oldNames k = Some g0\<close> prems(4)
        have "h_megaClientID g0 \<noteq> h_megaClientID h0" by auto
        then have "(p, h) \<noteq> (q', g)" using g prems(6) by auto
        then have "(p, h) \<in> set old1"
          using prems(5) mset_eq_setD [of old "(q', g) # old1"] e(2) by auto
        moreover have "distinct (map (h_megaClientID \<circ> snd) old1)"
          using distinct_map_mset [OF e(2) prems(7)] .
        moreover have "map_of (smap_erase k oldNames) n = Some h0" using False prems(4) by (simp add: smap_erase_find)
        moreover have "inj_on (h_megaClientID \<circ> the \<circ> map_of (smap_erase k oldNames))
            (dom (map_of (smap_erase k oldNames)))"
          using prems(8) by (auto simp: inj_on_def smap_erase_find split: if_splits)
        moreover have "(p, n) \<in> set rest" using False prems(3) by auto
        ultimately show ?thesis
          using "2.IH"(3) [OF \<open>map_of oldNames k = Some g0\<close> Some r [symmetric] refl run pre1] prems(6) by blast
      qed
    qed
  qed
qed

text \<open>The constructor as a whole.\<close>

definition assignment_of ::
  "host_map \<Rightarrow> (string \<times> string) list \<Rightarrow> host_map \<Rightarrow> host list \<Rightarrow> string list \<Rightarrow> bool" where
  "assignment_of hm pairs hm' unmappedClients unmappedNames \<longleftrightarrow>
     hm_processes hm' = hm_processes hm \<and> smap_wf (hm_names hm') \<and>
     mset (map snd (hm_names hm')) + mset unmappedClients = mset (map snd (hm_processes hm)) \<and>
     fst ` set (hm_names hm') \<union> set unmappedNames = snd ` set pairs \<and>
     fst ` set (hm_names hm') \<inter> set unmappedNames = {} \<and>
     (\<forall>n h. (n, h) \<in> set (hm_names hm') \<longrightarrow> (\<exists>p. (p, n) \<in> set pairs \<and> (p, h) \<in> set (hm_processes hm)))"

lemma HostMap_ctor_split:
  assumes "HostMap_ctor hm pairs = (hm', clients, names)" and "distinct (map snd pairs)"
  obtains left on old mapping old' where
    "reuse_names pairs (hm_names hm) (hm_processes hm) [] = (left, on, old, mapping)"
    "assign_names left old mapping = (hm_names hm', old', names)"
    "clients = map snd old'" "hm_processes hm' = hm_processes hm"
    "assign_pre pairs []" "assign_pre left mapping"
    "assign_ok pairs (hm_processes hm) [] (map snd left) old mapping" "set left \<subseteq> set pairs"
    "assign_ok left old mapping names old' (hm_names hm')"
    "\<forall>(p, n) \<in> set left. n \<in> set names \<longrightarrow> p \<notin> fst ` set old'"
proof -
  obtain left on old mapping where r: "reuse_names pairs (hm_names hm) (hm_processes hm) [] = (left, on, old, mapping)"
    by (metis surj_pair)
  obtain m old' nm where a: "assign_names left old mapping = (m, old', nm)"
    by (metis surj_pair)
  have eqs: "hm' = \<lparr>hm_processes = hm_processes hm, hm_names = m\<rparr>" "clients = map snd old'" "nm = names"
    using assms(1) r a by (simp_all add: HostMap_ctor_def)
  have pre: "assign_pre pairs []" using assms(2) by (simp add: assign_pre_def)
  from reuse_names_ok [OF r pre]
  have ok: "assign_ok pairs (hm_processes hm) [] (map snd left) old mapping" and sub: "set left \<subseteq> set pairs" by auto
  have pre2: "assign_pre left mapping"
    using ok unfolding assign_ok_def assign_pre_def names_of_def by (auto simp: set_map)
  show ?thesis
    using that [OF r _ eqs(2) _ pre pre2 ok sub] assign_names_ok [OF a pre2] a eqs by simp
qed

lemma HostMap_ctor_assigns:
  assumes "HostMap_ctor hm pairs = (hm', clients, names)" and "distinct (map snd pairs)"
  shows "assignment_of hm pairs hm' clients names"
  using assms
proof (rule HostMap_ctor_split)
  fix left on old mapping old'
  assume ok: "assign_ok pairs (hm_processes hm) [] (map snd left) old mapping" "set left \<subseteq> set pairs"
    and ok2: "assign_ok left old mapping names old' (hm_names hm')"
    and c: "clients = map snd old'" "hm_processes hm' = hm_processes hm"
  have "\<exists>p. (p, n) \<in> set pairs \<and> (p, h) \<in> set (hm_processes hm)" if "(n, h) \<in> set (hm_names hm')" for n h
  proof -
    from that ok2 have "(n, h) \<in> set mapping \<or> (\<exists>p. (p, n) \<in> set left \<and> (p, h) \<in> set old)"
      unfolding assign_ok_def by blast
    moreover have "set old \<subseteq> set (hm_processes hm)" using ok(1) by (simp add: assign_ok_def)
    moreover have "(n, h) \<in> set mapping \<Longrightarrow> \<exists>p. (p, n) \<in> set pairs \<and> (p, h) \<in> set (hm_processes hm)"
      using ok(1) unfolding assign_ok_def by (metis empty_iff list.set(1))
    ultimately show ?thesis using ok(2) by blast
  qed
  moreover have "fst ` set (hm_names hm') \<union> set names = fst ` set mapping \<union> names_of left"
    "fst ` set mapping \<union> set (map snd left) = fst ` set ([] :: name_map) \<union> names_of pairs"
    using ok(1) ok2 unfolding assign_ok_def by - (elim conjE, assumption)+
  then have "fst ` set (hm_names hm') \<union> set names = snd ` set pairs" by (simp add: names_of_def)
  ultimately show ?thesis
    using ok(1) ok2 c unfolding assignment_of_def assign_ok_def by (simp add: add.commute)
qed

end
