(* ===== verification/Host_Map_Properties.thy ===== *)
theory Host_Map_Properties
  imports Host_Map
begin

text \<open>
  What a slave's map of hosts promises when a program is loaded, and how the two sockets of a host
  find each other.
\<close>

definition demo_host :: "string \<Rightarrow> u32 \<Rightarrow> host" where
  "demo_host p c = \<lparr>h_processName = p, h_uniqueID = p, h_megaClientID = c, h_egClientID = c\<rparr>"

definition demo_hosts :: host_map where
  "demo_hosts = \<lparr>hm_processes = [(''basic'', demo_host ''basic'' 3), (''basic'', demo_host ''basic'' 5)],
                 hm_names = [(''east'', demo_host ''basic'' 5)]\<rparr>"

lemma demo_loaded:
  "HostMap_ctor demo_hosts [(''basic'', ''west''), (''basic'', ''east''), (''python'', ''north'')]
   = (\<lparr>hm_processes = hm_processes demo_hosts,
        hm_names = [(''east'', demo_host ''basic'' 5), (''west'', demo_host ''basic'' 3)]\<rparr>,
      [], [''north''])"
  by (simp add: HostMap_ctor_def demo_hosts_def demo_host_def smap_erase_def)

text \<open>C19. Loading a program neither loses nor duplicates a host: every enrolled host is either given
  exactly one host name of the program or reported as unmapped, every host name of the program is
  either given to a host or reported as unmapped but not both, and a host only gets a name that the
  program assigns to the process it runs.\<close>

theorem HostMap_ctor_assignment:
  assumes "HostMap_ctor hm pairs = (hm', clients, names)" and "distinct (map snd pairs)"
  shows "hm_processes hm' = hm_processes hm
       \<and> mset (map snd (hm_names hm')) + mset clients = mset (map snd (hm_processes hm))
       \<and> fst ` set (hm_names hm') \<union> set names = snd ` set pairs
       \<and> fst ` set (hm_names hm') \<inter> set names = {}
       \<and> (\<forall>n h. (n, h) \<in> set (hm_names hm') \<longrightarrow>
            (\<exists>p. (p, n) \<in> set pairs \<and> (p, h) \<in> set (hm_processes hm)))"
  using HostMap_ctor_assigns [OF assms] unfolding assignment_of_def by blast

theorem HostMap_ctor_assignment_witness:
  "mset (map snd [(''east'', demo_host ''basic'' 5), (''west'', demo_host ''basic'' 3)]) + mset []
   = mset (map snd (hm_processes demo_hosts))"
  using HostMap_ctor_assignment [OF demo_loaded] by simp

text \<open>A host name is only left without a host when no enrolled host of its process is left over.\<close>

theorem HostMap_ctor_maximal:
  assumes "HostMap_ctor hm pairs = (hm', clients, names)" and "distinct (map snd pairs)"
    and "distinct (map (h_megaClientID \<circ> snd) (hm_processes hm))"
    and "(p, n) \<in> set pairs" and "n \<in> set names" and "(p, h) \<in> set (hm_processes hm)"
  shows "h \<notin> set clients"
  using assms(1,2)
proof (rule HostMap_ctor_split)
  fix left on old mapping old'
  assume c: "clients = map snd old'"
    and okA: "assign_ok pairs (hm_processes hm) [] (map snd left) old mapping" "set left \<subseteq> set pairs"
    and ok: "assign_ok left old mapping names old' (hm_names hm')"
    and un: "\<forall>(p, n) \<in> set left. n \<in> set names \<longrightarrow> p \<notin> fst ` set old'"
  have "n \<in> names_of left"
  proof -
    have "set mapping \<subseteq> set (hm_names hm')" and "fst ` set (hm_names hm') \<inter> set names = {}"
      and "fst ` set (hm_names hm') \<union> set names = fst ` set mapping \<union> names_of left"
      using ok unfolding assign_ok_def by - (elim conjE, assumption)+
    with assms(5) show ?thesis by blast
  qed
  then obtain q where q: "(q, n) \<in> set left" by (auto simp: names_of_def)
  with okA(2) have "(q, n) \<in> set pairs" by blast
  with assms(2,4) have "q = p" using inj_onD [of snd "set pairs" "(q, n)" "(p, n)"] by (simp add: distinct_map)
  with q un assms(5) have p: "p \<notin> fst ` set old'" by blast
  have "set old' \<subseteq> set (hm_processes hm)"
    using assign_ok_parts(1) [OF ok] assign_ok_parts(1) [OF okA(1)] by (rule subset_trans)
  with assms(3,6) p c show "h \<notin> set clients"
    by (force simp: distinct_map inj_on_def)
qed

theorem HostMap_ctor_maximal_witness:
  "demo_host ''basic'' 3 \<notin> set (fst (snd (HostMap_ctor demo_hosts [(''basic'', ''west''), (''basic'', ''east''), (''basic'', ''south'')])))"
  using HostMap_ctor_maximal [of demo_hosts "[(''basic'', ''west''), (''basic'', ''east''), (''basic'', ''south'')]"
      "\<lparr>hm_processes = hm_processes demo_hosts,
        hm_names = [(''east'', demo_host ''basic'' 5), (''west'', demo_host ''basic'' 3)]\<rparr>"
      "[]" "[''south'']" "''basic''" "''south''" "demo_host ''basic'' 3"]
  by (simp add: HostMap_ctor_def demo_hosts_def demo_host_def smap_erase_def)

text \<open>C20. A host keeps its host name over a change of program, when the new program has that name under
  the process the host runs and clients are told apart by their ids.\<close>

theorem HostMap_ctor_preserves:
  assumes "HostMap_ctor hm pairs = (hm', clients, names)" and "distinct (map snd pairs)"
    and "distinct (map (h_megaClientID \<circ> snd) (hm_processes hm))"
    and "inj_on (h_megaClientID \<circ> the \<circ> map_of (hm_names hm)) (dom (map_of (hm_names hm)))"
    and "(p, n) \<in> set pairs" and "map_of (hm_names hm) n = Some h0"
    and "(p, h) \<in> set (hm_processes hm)" and "h_megaClientID h = h_megaClientID h0"
  shows "map_of (hm_names hm') n = Some h"
  using assms(1,2)
proof (rule HostMap_ctor_split)
  fix left on old mapping old'
  assume r: "reuse_names pairs (hm_names hm) (hm_processes hm) [] = (left, on, old, mapping)"
    and pre: "assign_pre pairs []"
    and ok: "assign_ok left old mapping names old' (hm_names hm')"
  have "(n, h) \<in> set mapping"
    using reuse_names_preserves [OF r pre] assms(3-8) by blast
  with assign_ok_parts(2,3) [OF ok] have "(n, h) \<in> set (hm_names hm')" and "smap_wf (hm_names hm')"
    by blast+
  then show "map_of (hm_names hm') n = Some h" by (simp add: smap_wf_distinct)
qed

theorem HostMap_ctor_preserves_witness:
  "map_of [(''east'', demo_host ''basic'' 5), (''west'', demo_host ''basic'' 3)] ''east'' = Some (demo_host ''basic'' 5)"
  using HostMap_ctor_preserves [OF demo_loaded, of "''basic''" "''east''" "demo_host ''basic'' 5" "demo_host ''basic'' 5"]
  by (simp add: demo_hosts_def demo_host_def inj_on_def)

text \<open>A host that enrolls on the mega socket and then with the same unique id on the EG socket is
  found from its EG client id, when neither the unique id nor the EG client id is in use.\<close>

theorem HostMap_enroll_both:
  assumes "hm1 = snd (HostMap_enroll eg0 p c u hm)"
    and "hm2 = snd (HostMap_enrolleg e u hm1)"
    and "\<forall>x \<in> set (hm_processes hm). h_uniqueID (snd x) \<noteq> u \<and> h_egClientID (snd x) \<noteq> e" and "eg0 \<noteq> e"
  shows "HostMap_getMegaClientForEGClient hm2 e = c"
proof -
  let ?m = "hm_processes hm1"
  have s: "set ?m = insert (p, Host_ctor eg0 p c u) (set (hm_processes hm))"
    using assms(1) by (simp add: HostMap_enroll_def)
  then have "\<exists>x \<in> set ?m. h_uniqueID (snd x) = u" and "\<forall>x \<in> set ?m. h_egClientID (snd x) \<noteq> e"
    using assms(3,4) by (auto simp: Host_ctor_def)
  from set_eg_client_found [OF this] obtain x where x: "x \<in> set ?m" "h_uniqueID (snd x) = u"
    and m: "mega_for_eg (set_eg_client e u ?m) e = h_megaClientID (snd x)" by blast
  have "x = (p, Host_ctor eg0 p c u)" using x s assms(3) by auto
  with m assms(2) show ?thesis
    by (simp add: HostMap_getMegaClientForEGClient_def HostMap_enrolleg_def Host_ctor_def)
qed

theorem HostMap_enroll_both_witness:
  "HostMap_getMegaClientForEGClient
     (snd (HostMap_enrolleg 9 ''id'' (snd (HostMap_enroll 0 ''python'' 4 ''id'' demo_hosts)))) 9 = 4"
  using HostMap_enroll_both [OF refl refl, of demo_hosts "''id''" 9 0 "''python''" 4]
  by (simp add: demo_hosts_def demo_host_def)

text \<open>An EG enrollment with a unique id nobody enrolled with is accepted, and changes nothing: the
  code reports success on both paths.\<close>

theorem HostMap_enrolleg_unknown:
  assumes "\<forall>x \<in> set (hm_processes hm). h_uniqueID (snd x) \<noteq> u"
  shows "HostMap_enrolleg c u hm = (True, hm)"
proof -
  have "set_eg_client c u m = m" if "\<forall>x \<in> set m. h_uniqueID (snd x) \<noteq> u" for m
    using that by (induction c u m rule: set_eg_client.induct) auto
  with assms show ?thesis by (simp add: HostMap_enrolleg_def)
qed

theorem HostMap_enrolleg_unknown_witness: "HostMap_enrolleg 9 ''nobody'' demo_hosts = (True, demo_hosts)"
  using HostMap_enrolleg_unknown [of demo_hosts "''nobody''" 9] by (simp add: demo_hosts_def demo_host_def)

end
