(* ===== verification/Master_Node.thy ===== *)
theory Master_Node
  imports Sockets Activity_System Address_Table
begin

text \<open>
  The master: \<open>src/src/master/master.hpp\<close>, \<open>master.cpp\<close>, \<open>activities.hpp\<close> and \<open>activities.cpp\<close>.

  It enrolls slaves by name, loads a program or a configuration into all of them, and routes the EG
  messages between them.  The file system and the project schema are not modelled here: what the
  code asks of a project is a \<open>project_source\<close>.  Log output is left out.
\<close>

section \<open>State\<close>

datatype master_activity =
    TestClientActivity u32 string bool  \<comment> \<open>client id, slave name, success\<close>
  | TestClientsActivity "nat list"
  | ListClientsActivity
  | EnrollActivity "(nat \<times> u32) list"  \<comment> \<open>running tests and the clients that wait for them\<close>
  | LoadProgram string "u32 list" bool  \<comment> \<open>program, clients that have not answered, failure\<close>
  | RouteEGProtocolActivity
  | LoadConfig "u32 list" bool
  | SaveConfig "u32 list" bool

datatype master_class =
    MTestClient | MTestClients | MListClients | MEnroll | MLoadProgram | MRouteEG | MLoadConfig | MSaveConfig

fun class_of_master :: "master_activity \<Rightarrow> master_class" where
  "class_of_master (TestClientActivity _ _ _) = MTestClient"
| "class_of_master (TestClientsActivity _) = MTestClients"
| "class_of_master ListClientsActivity = MListClients"
| "class_of_master (EnrollActivity _) = MEnroll"
| "class_of_master (LoadProgram _ _ _) = MLoadProgram"
| "class_of_master RouteEGProtocolActivity = MRouteEG"
| "class_of_master (LoadConfig _ _) = MLoadConfig"
| "class_of_master (SaveConfig _ _) = MSaveConfig"

text \<open>The classes derived from \<open>ExclusiveActivity\<close>.\<close>

fun exclusive_master :: "master_class \<Rightarrow> bool" where
  "exclusive_master MEnroll = True"
| "exclusive_master MLoadProgram = True"
| "exclusive_master MLoadConfig = True"
| "exclusive_master MSaveConfig = True"
| "exclusive_master _ = False"

text \<open>Of a project: does the constructor of its tree succeed, and the root of its analysis database
  (\<open>None\<close>: there is no such file; reading it may throw).\<close>

record project_source =
  ps_tree :: "unit result"
  ps_session :: "element result option"

record master = "(master_activity, message) queue_state" +
  ma_clients :: client_map
  ma_server :: zmq
  ma_sent :: "(u32 \<times> message) list"
  ma_activeProgramName :: string
  ma_networkAddressTable :: "table option"
  ma_projects :: "string \<Rightarrow> project_source"

section \<open>Operations of the master\<close>

definition Master_send :: "message \<Rightarrow> u32 \<Rightarrow> master \<Rightarrow> (master \<times> bool) result" where
  "Master_send m uiClient w =
     andThen (Server_send (ma_server w) uiClient)
       (\<lambda>ok. Inr (if ok then w\<lparr>ma_sent := ma_sent w @ [(uiClient, m)]\<rparr> else w, ok))"

definition Master_removeClient :: "u32 \<Rightarrow> master \<Rightarrow> master" where
  "Master_removeClient uiClient w = w\<lparr>ma_clients := ClientMap_removeClient uiClient (ma_clients w)\<rparr>"

definition Master_getClientID :: "string \<Rightarrow> master \<Rightarrow> u32 option" where
  "Master_getClientID strName w = ClientMap_getClientID strName (ma_clients w)"

definition Master_enroll :: "string \<Rightarrow> u32 \<Rightarrow> master \<Rightarrow> bool \<times> master" where
  "Master_enroll strName clientID w =
     (let (ok, m) = ClientMap_enroll strName clientID (ma_clients w) in (ok, w\<lparr>ma_clients := m\<rparr>))"

definition Master_setActiveProgramName :: "string \<Rightarrow> master \<Rightarrow> master" where
  "Master_setActiveProgramName n w = w\<lparr>ma_activeProgramName := n\<rparr>"

definition Master_calculateNetworkAddressTable :: "project_source \<Rightarrow> master \<Rightarrow> master result" where
  "Master_calculateNetworkAddressTable ps w =
     (case ps_session ps of
        None \<Rightarrow> Inr (w\<lparr>ma_networkAddressTable := None\<rparr>)
      | Some session \<Rightarrow>
          andThen session (\<lambda>root.
          andThen (NetworkAddressTable_master (ma_clients w) (Some root)) (\<lambda>t.
            Inr (w\<lparr>ma_networkAddressTable := Some t\<rparr>))))"

text \<open>The pattern of a reply: a client that cannot be reached is removed.\<close>

definition send_or_remove :: "message \<Rightarrow> u32 \<Rightarrow> master \<Rightarrow> master result" where
  "send_or_remove m uiClient w =
     andThen (Master_send m uiClient w)
       (\<lambda>(w', ok). Inr (if ok then w' else Master_removeClient uiClient w'))"

text \<open>
  The loop of \<open>LoadProgram::start\<close>, \<open>LoadConfig::start\<close> and \<open>SaveConfig::start\<close> over the clients.
  \<open>removeClient\<close> erases the entry the loop's iterator stands at, which the loop then advances.
\<close>

fun send_all :: "message \<Rightarrow> client_map \<Rightarrow> u32 list \<Rightarrow> master \<Rightarrow> (master \<times> u32 list) result" where
  "send_all m [] ids w = Inr (w, ids)"
| "send_all m (e # clients) ids w =
     andThen (Master_send m (snd e) w)
       (\<lambda>(w', ok). if ok then send_all m clients (List.insert (snd e) ids) w'
                   else Inl (Ub ''iterator of an erased client''))"

section \<open>Testing clients\<close>

definition TestClientActivity_start :: "u32 \<Rightarrow> string \<Rightarrow> master \<Rightarrow> nat \<Rightarrow> master result" where
  "TestClientActivity_start clientID strSlaveName w a =
     andThen (Master_send (MSQ_Alive strSlaveName) clientID w)
       (\<lambda>(w', ok). Inr (if ok then w' else queue_activityComplete a (Master_removeClient clientID w')))"

definition TestClientActivity_clientMessage ::
  "u32 \<Rightarrow> string \<Rightarrow> bool \<Rightarrow> u32 \<Rightarrow> message \<Rightarrow> master \<Rightarrow> nat \<Rightarrow> (master \<times> bool) result" where
  "TestClientActivity_clientMessage clientID strSlaveName bSuccess uiClient m w a =
     (if clientID = uiClient
      then (case m of
              SMS_Alive success \<Rightarrow>
                Inr (queue_activityComplete a
                       (if \<not> success then Master_removeClient clientID w
                        else set_activity a (TestClientActivity clientID strSlaveName True) w),
                     True)
            | _ \<Rightarrow> Inr (w, False))
      else Inr (w, False))"

fun start_tests :: "client_map \<Rightarrow> nat list \<Rightarrow> master \<Rightarrow> nat list \<times> master" where
  "start_tests [] as w = (as, w)"
| "start_tests (e # clients) as w =
     (let (b, w') = new_activity (TestClientActivity (snd e) (fst e) False) w
      in start_tests clients (as @ [b]) (queue_startActivity b w'))"

definition TestClientsActivity_start :: "nat list \<Rightarrow> master \<Rightarrow> nat \<Rightarrow> master result" where
  "TestClientsActivity_start activities w a =
     (let (as, w') = start_tests (ma_clients w) activities w;
          w'' = set_activity a (TestClientsActivity as) w'
      in Inr (if as = [] then queue_activityComplete a w'' else w''))"

definition TestClientsActivity_activityComplete ::
  "nat list \<Rightarrow> nat \<Rightarrow> master \<Rightarrow> nat \<Rightarrow> (master \<times> bool) result" where
  "TestClientsActivity_activityComplete activities pActivity w a =
     (if pActivity \<notin> set activities then Inr (w, False)
      else (let as = remove1 pActivity activities;
                w' = set_activity a (TestClientsActivity as) w
            in Inr (if as = [] then queue_activityComplete a w' else w', True)))"

definition ListClientsActivity_start :: "master \<Rightarrow> nat \<Rightarrow> master result" where
  "ListClientsActivity_start w a = Inr (queue_activityComplete a w)"

section \<open>Enrolling\<close>

definition EnrollActivity_clientMessage ::
  "(nat \<times> u32) list \<Rightarrow> u32 \<Rightarrow> message \<Rightarrow> master \<Rightarrow> nat \<Rightarrow> (master \<times> bool) result" where
  "EnrollActivity_clientMessage testsMap uiClient m w a =
     (case m of
        SMQ_Enroll slavename \<Rightarrow>
          (case Master_enroll slavename uiClient w of
             (True, w1) \<Rightarrow>
               andThen (send_or_remove (mss_enroll True (ma_activeProgramName w1)) uiClient w1)
                 (\<lambda>w'. Inr (w', True))
           | (False, w1) \<Rightarrow>
               (case Master_getClientID slavename w1 of
                  Some uiExisting \<Rightarrow>
                    (let (pTest, w2) = new_activity (TestClientActivity uiExisting slavename False) w1
                     in Inr (queue_startActivity pTest
                               (set_activity a (EnrollActivity ((pTest, uiClient) # testsMap)) w2), True))
                | None \<Rightarrow>
                    andThen (send_or_remove (mss_enroll_fail False) uiClient w1) (\<lambda>w'. Inr (w', True))))
      | _ \<Rightarrow> Inr (w, False))"

definition EnrollActivity_activityComplete ::
  "(nat \<times> u32) list \<Rightarrow> nat \<Rightarrow> master \<Rightarrow> nat \<Rightarrow> (master \<times> bool) result" where
  "EnrollActivity_activityComplete testsMap pActivity w a =
     (case heap w pActivity of
        Some (TestClientActivity testedID name alive) \<Rightarrow>
          (case map_of testsMap pActivity of
             Some clientID \<Rightarrow>
               (let w1 = set_activity a (EnrollActivity (smap_erase pActivity testsMap)) w in
                andThen
                  (if alive then send_or_remove (mss_enroll_fail False) clientID w1
                   else (case Master_enroll name clientID w1 of
                           (True, w2) \<Rightarrow> send_or_remove (mss_enroll True (ma_activeProgramName w2)) clientID w2
                         | (False, w2) \<Rightarrow> send_or_remove (mss_enroll_fail False) clientID w2))
                  (\<lambda>w'. Inr (w', True)))
           | None \<Rightarrow> Inr (w, False))
      | _ \<Rightarrow> Inr (w, False))"

section \<open>Loading a program\<close>

definition LoadProgram_start :: "string \<Rightarrow> u32 list \<Rightarrow> bool \<Rightarrow> master \<Rightarrow> nat \<Rightarrow> master result" where
  "LoadProgram_start strProgramName clientIDs failed w a =
     (if ma_clients w = [] then Inr (queue_activityComplete a w)
      else andThen (send_all (MSQ_Load strProgramName) (ma_clients w) clientIDs w)
             (\<lambda>(w', ids). Inr (set_activity a (LoadProgram strProgramName ids failed) w')))"

text \<open>The \<open>try\<close> block at the end of a load; what was stored before the exception stays.\<close>

definition LoadProgram_finish :: "string \<Rightarrow> master \<Rightarrow> master result" where
  "LoadProgram_finish strProgramName w =
     (let ps = ma_projects w strProgramName in
      case ps_tree ps of
        Inl (Ub e) \<Rightarrow> Inl (Ub e)
      | Inl (Rte e) \<Rightarrow> Inr w
      | Inr _ \<Rightarrow>
          (let w1 = Master_setActiveProgramName strProgramName w in
           case Master_calculateNetworkAddressTable ps w1 of
             Inl (Ub e) \<Rightarrow> Inl (Ub e)
           | Inl (Rte e) \<Rightarrow> Inr w1
           | Inr w2 \<Rightarrow> Inr w2))"

definition LoadProgram_clientMessage ::
  "string \<Rightarrow> u32 list \<Rightarrow> bool \<Rightarrow> u32 \<Rightarrow> message \<Rightarrow> master \<Rightarrow> nat \<Rightarrow> (master \<times> bool) result" where
  "LoadProgram_clientMessage strProgramName clientIDs failed uiClient m w a =
     (case m of
        SMS_Load success \<Rightarrow>
          (let ids = removeAll uiClient clientIDs;
               w1 = set_activity a (LoadProgram strProgramName ids (failed \<or> \<not> success)) w
           in if ids = []
              then andThen (LoadProgram_finish strProgramName w1)
                     (\<lambda>w'. Inr (queue_activityComplete a w', True))
              else Inr (w1, True))
      | _ \<Rightarrow> Inr (w, False))"

section \<open>Routing the EG protocol\<close>

definition copyRequestSetSourceCoordinator :: "eg_msg \<Rightarrow> eg_request \<Rightarrow> u32 \<Rightarrow> message" where
  "copyRequestSetSourceCoordinator egMsg egRequest uiClient =
     EG_Msg (egMsg\<lparr>eg_body := Some (EgRequest (egRequest\<lparr>rq_coordinator := uiClient\<rparr>))\<rparr>)"

text \<open>The loop over the clients that an event goes to, and a send whose result is not looked at.\<close>

definition Master_post :: "message \<Rightarrow> u32 \<Rightarrow> master \<Rightarrow> master result" where
  "Master_post m uiClient w = andThen (Master_send m uiClient w) (\<lambda>(w', _). Inr w')"

fun send_event :: "message \<Rightarrow> u32 \<Rightarrow> client_map \<Rightarrow> master \<Rightarrow> master result" where
  "send_event m uiClient [] w = Inr w"
| "send_event m uiClient (e # clients) w =
     (if snd e \<noteq> uiClient
      then andThen (Master_post m (snd e) w) (send_event m uiClient clients)
      else send_event m uiClient clients w)"

definition route_request :: "eg_msg \<Rightarrow> eg_request \<Rightarrow> u32 \<Rightarrow> master \<Rightarrow> master result" where
  "route_request egMsg egRequest uiClient w =
     (case ma_networkAddressTable w of
        None \<Rightarrow> Inr w
      | Some pNAT \<Rightarrow>
          andThen (getClientForType pNAT (eg_type egMsg)) (\<lambda>uiTargetClientID.
            if uiTargetClientID = MasterID then Inl (Rte ''Request mapped to master id in master'')
            else if uiTargetClientID = SelfID then Inl (Rte ''Request mapped to self id in master'')
            else if uiTargetClientID = UnMapped
            then Master_post (eg_error_reply egMsg 0 (rq_host egRequest)) uiClient w
            else andThen (verify_rte (uiTargetClientID \<noteq> uiClient) ''Incorrect routing for eg request'')
                   (\<lambda>_. Master_post (copyRequestSetSourceCoordinator egMsg egRequest uiClient) uiTargetClientID w)))"

definition RouteEGProtocolActivity_clientMessage :: "u32 \<Rightarrow> message \<Rightarrow> master \<Rightarrow> (master \<times> bool) result" where
  "RouteEGProtocolActivity_clientMessage uiClient m w =
     (case m of
        EG_Msg egMsg \<Rightarrow>
          andThen
            (case eg_body egMsg of
               Some (EgRequest egRequest) \<Rightarrow> route_request egMsg egRequest uiClient w
             | Some (EgResponse response) \<Rightarrow>
                 andThen (verify_rte (rs_coordinator response \<noteq> 0)
                            ''Invalid coordinator resolved for response from slave to master'')
                   (\<lambda>_. Master_post m (rs_coordinator response) w)
             | Some (EgError error) \<Rightarrow>
                 andThen (verify_rte (er_coordinator error \<noteq> 0)
                            ''Invalid coordinator resolved for error from slave to master'')
                   (\<lambda>_. Master_post m (er_coordinator error) w)
             | Some (EgEvent _) \<Rightarrow> send_event m uiClient (ma_clients w) w
             | None \<Rightarrow> Inr w)
            (\<lambda>w'. Inr (w', True))
      | _ \<Rightarrow> Inr (w, False))"

section \<open>Loading and saving configurations\<close>

definition LoadConfig_start :: "u32 list \<Rightarrow> bool \<Rightarrow> master \<Rightarrow> nat \<Rightarrow> master result" where
  "LoadConfig_start clientIDs failed w a =
     (if ma_activeProgramName w = '''' then Inr (queue_activityComplete a w)
      else if ma_clients w = [] then Inr (queue_activityComplete a w)
      else andThen (send_all config_load_msq (ma_clients w) clientIDs w)
             (\<lambda>(w', ids). Inr (set_activity a (LoadConfig ids failed) w')))"

definition LoadConfig_clientMessage ::
  "u32 list \<Rightarrow> bool \<Rightarrow> u32 \<Rightarrow> message \<Rightarrow> master \<Rightarrow> nat \<Rightarrow> (master \<times> bool) result" where
  "LoadConfig_clientMessage clientIDs failed uiClient m w a =
     (case m of
        Config_msg c \<Rightarrow>
          (let ids = removeAll uiClient clientIDs;
               w1 = set_activity a (LoadConfig ids (failed \<or> \<not> read_config_load_sms c)) w
           in Inr (if ids = [] then queue_activityComplete a w1 else w1, True))
      | _ \<Rightarrow> Inr (w, False))"

definition SaveConfig_start :: "u32 list \<Rightarrow> bool \<Rightarrow> master \<Rightarrow> nat \<Rightarrow> master result" where
  "SaveConfig_start clientIDs failed w a =
     (if ma_activeProgramName w = '''' then Inr (queue_activityComplete a w)
      else if ma_clients w = [] then Inr (queue_activityComplete a w)
      else andThen (send_all config_save_msq (ma_clients w) clientIDs w)
             (\<lambda>(w', ids). Inr (set_activity a (SaveConfig ids failed) w')))"

definition SaveConfig_clientMessage ::
  "u32 list \<Rightarrow> bool \<Rightarrow> u32 \<Rightarrow> message \<Rightarrow> master \<Rightarrow> nat \<Rightarrow> (master \<times> bool) result" where
  "SaveConfig_clientMessage clientIDs failed uiClient m w a =
     (case m of
        Config_msg c \<Rightarrow>
          (let ids = removeAll uiClient clientIDs;
               w1 = set_activity a (SaveConfig ids (failed \<or> \<not> read_config_save_sms c)) w
           in Inr (if ids = [] then queue_activityComplete a w1 else w1, True))
      | _ \<Rightarrow> Inr (w, False))"

section \<open>The virtual functions of the master's activities\<close>

definition master_precondition :: "master \<Rightarrow> nat \<Rightarrow> nat list \<Rightarrow> bool" where
  "master_precondition w a active =
     (case heap w a of
        Some x \<Rightarrow>
          if exclusive_master (class_of_master x)
          then ExclusiveActivity_precondition class_of_master (class_of_master x) w active
          else Activity_precondition w a active
      | None \<Rightarrow> Activity_precondition w a active)"

definition master_start :: "master \<Rightarrow> nat \<Rightarrow> master result" where
  "master_start w a =
     (case heap w a of
        Some (TestClientActivity c n ok) \<Rightarrow> TestClientActivity_start c n w a
      | Some (TestClientsActivity as) \<Rightarrow> TestClientsActivity_start as w a
      | Some ListClientsActivity \<Rightarrow> ListClientsActivity_start w a
      | Some (LoadProgram p ids f) \<Rightarrow> LoadProgram_start p ids f w a
      | Some (LoadConfig ids f) \<Rightarrow> LoadConfig_start ids f w a
      | Some (SaveConfig ids f) \<Rightarrow> SaveConfig_start ids f w a
      | _ \<Rightarrow> Activity_start w a)"

definition master_clientMessage :: "u32 \<Rightarrow> message \<Rightarrow> master \<Rightarrow> nat \<Rightarrow> (master \<times> bool) result" where
  "master_clientMessage uiClient m w a =
     (case heap w a of
        Some (TestClientActivity c n ok) \<Rightarrow> TestClientActivity_clientMessage c n ok uiClient m w a
      | Some (EnrollActivity tests) \<Rightarrow> EnrollActivity_clientMessage tests uiClient m w a
      | Some (LoadProgram p ids f) \<Rightarrow> LoadProgram_clientMessage p ids f uiClient m w a
      | Some RouteEGProtocolActivity \<Rightarrow> RouteEGProtocolActivity_clientMessage uiClient m w
      | Some (LoadConfig ids f) \<Rightarrow> LoadConfig_clientMessage ids f uiClient m w a
      | Some (SaveConfig ids f) \<Rightarrow> SaveConfig_clientMessage ids f uiClient m w a
      | _ \<Rightarrow> Activity_clientMessage uiClient m w a)"

definition master_activityComplete :: "nat \<Rightarrow> master \<Rightarrow> nat \<Rightarrow> (master \<times> bool) result" where
  "master_activityComplete pActivity w a =
     (case heap w a of
        Some (TestClientsActivity as) \<Rightarrow> TestClientsActivity_activityComplete as pActivity w a
      | Some (EnrollActivity tests) \<Rightarrow> EnrollActivity_activityComplete tests pActivity w a
      | _ \<Rightarrow> Activity_activityComplete pActivity w a)"

definition master_vt :: "(master, message) vtable" where
  "master_vt =
     \<lparr>v_keepAlive = Activity_keepAlive, v_precondition = master_precondition,
      v_start = master_start, v_serverMessage = Activity_serverMessage,
      v_clientMessage = master_clientMessage, v_jobComplete = Activity_jobComplete,
      v_activityComplete = master_activityComplete,
      v_simulationLockStarted = Activity_simulationLockStarted\<rparr>"

definition Master_ctor :: "zmq \<Rightarrow> (string \<Rightarrow> project_source) \<Rightarrow> master" where
  "Master_ctor server projects =
     \<lparr>m_active = [], m_pending = [], m_stop = False, posted = [EvStart 0, EvStart 1],
      heap = [0 \<mapsto> EnrollActivity [], 1 \<mapsto> RouteEGProtocolActivity], next_ref = 2,
      ma_clients = [], ma_server = server, ma_sent = [], ma_activeProgramName = '''',
      ma_networkAddressTable = None, ma_projects = projects\<rparr>"

text \<open>The commands of \<open>src/src/master/main.cpp\<close> start activities from the main thread.\<close>

definition Master_startActivity :: "master_activity \<Rightarrow> master \<Rightarrow> master" where
  "Master_startActivity x w = (let (a, w') = new_activity x w in queue_startActivity a w')"

end
