(* ===== verification/Master_Laws.thy ===== *)
theory Master_Laws
  imports Master_Node
begin

text \<open>
  The master's activities keep the contract of the queue (an interpretation of \<open>activity_system\<close>)
  and the names of the enrolled clients stay unique.
\<close>

abbreviation "mframe \<equiv> qframe class_of_master"

section \<open>What sending does\<close>

lemma Master_send_cases:
  assumes "Master_send m c w = Inr (w', ok)"
  shows "w' = (if ok then w\<lparr>ma_sent := ma_sent w @ [(c, m)]\<rparr> else w)"
  using assms by (auto simp: Master_send_def andThen_eq_Inr)

lemma Master_updates_view [simp]:
  "queue_view (w\<lparr>ma_sent := s\<rparr>) = queue_view w"
  "queue_view (w\<lparr>ma_clients := cs\<rparr>) = queue_view w"
  "queue_view (w\<lparr>ma_networkAddressTable := t\<rparr>) = queue_view w"
  "queue_view (Master_removeClient c w) = queue_view w"
  "queue_view (Master_setActiveProgramName n w) = queue_view w"
  "queue_view (snd (Master_enroll n c w)) = queue_view w"
  by (simp_all add: queue_view_def Master_removeClient_def Master_setActiveProgramName_def
      Master_enroll_def case_prod_unfold Let_def)

lemma Master_send_view: "Master_send m c w = Inr (w', ok) \<Longrightarrow> queue_view w' = queue_view w"
  by (auto dest!: Master_send_cases)

lemma send_or_remove_view: "send_or_remove m c w = Inr w' \<Longrightarrow> queue_view w' = queue_view w"
  by (auto simp: send_or_remove_def andThen_eq_Inr dest!: Master_send_view split: if_splits)

lemma Master_post_view: "Master_post m c w = Inr w' \<Longrightarrow> queue_view w' = queue_view w"
  by (auto simp: Master_post_def andThen_eq_Inr dest!: Master_send_view)

lemma send_event_view: "send_event m c cs w = Inr w' \<Longrightarrow> queue_view w' = queue_view w"
  by (induction m c cs w rule: send_event.induct)
    (auto simp: andThen_eq_Inr dest!: Master_post_view split: if_splits)

lemma send_all_view: "send_all m cs ids w = Inr (w', ids') \<Longrightarrow> queue_view w' = queue_view w"
  by (induction cs arbitrary: ids w) (auto simp: andThen_eq_Inr dest!: Master_send_view split: if_splits)

lemma route_request_view: "route_request e r c w = Inr w' \<Longrightarrow> queue_view w' = queue_view w"
  by (auto simp: route_request_def andThen_eq_Inr dest!: Master_post_view split: option.splits if_splits)

lemma RouteEG_view: "RouteEGProtocolActivity_clientMessage c m w = Inr (w', b) \<Longrightarrow> queue_view w' = queue_view w"
  by (auto simp: RouteEGProtocolActivity_clientMessage_def andThen_eq_Inr
      dest!: Master_post_view route_request_view send_event_view
      split: message.splits option.splits eg_body.splits)

lemma calculate_view: "Master_calculateNetworkAddressTable ps w = Inr w' \<Longrightarrow> queue_view w' = queue_view w"
  by (auto simp: Master_calculateNetworkAddressTable_def andThen_eq_Inr split: option.splits)

lemma LoadProgram_finish_view: "LoadProgram_finish p w = Inr w' \<Longrightarrow> queue_view w' = queue_view w"
  by (auto simp: LoadProgram_finish_def Let_def dest!: calculate_view split: sum.splits fault.splits)

section \<open>Frames of the activities\<close>

lemma TestClient_start_frame:
  assumes "TestClientActivity_start c n w a = Inr w'" shows "mframe w w'"
proof -
  from assms obtain v ok where s: "Master_send (MSQ_Alive n) c w = Inr (v, ok)"
    and w': "w' = (if ok then v else queue_activityComplete a (Master_removeClient c v))"
    by (auto simp: TestClientActivity_start_def andThen_eq_Inr)
  have "mframe w v" and "mframe w (Master_removeClient c v)"
    using Master_send_view [OF s] by (auto intro: qframe_view)
  with w' show ?thesis by (auto simp: queue_posts intro: qframe_then_post)
qed

lemma TestClient_clientMessage_frame:
  assumes "TestClientActivity_clientMessage c n ok u m w a = Inr (w', b)"
    and "heap w a = Some (TestClientActivity c n ok)"
  shows "mframe w w'"
  using assms(1)
  by (auto simp: TestClientActivity_clientMessage_def queue_posts
      intro!: qframe_then_post qframe_set_view [OF assms(2)] qframe_view [of "Master_removeClient _ _"]
      split: if_splits message.splits)

lemma start_tests_frame: "mframe w (snd (start_tests cs as w))"
proof (induction cs arbitrary: as w)
  case Nil
  then show ?case by simp
next
  case (Cons e cs)
  let ?n = "new_activity (TestClientActivity (snd e) (fst e) False) w"
  have "mframe w (queue_startActivity (fst ?n) (snd ?n))"
    unfolding queue_posts by (intro qframe_then_post qframe_new)
  moreover have "mframe (queue_startActivity (fst ?n) (snd ?n))
      (snd (start_tests (e # cs) as w))"
    using Cons.IH [of "queue_startActivity (fst ?n) (snd ?n)" "as @ [fst ?n]"]
    by (simp add: case_prod_unfold Let_def)
  ultimately show ?case by (rule qframe_trans)
qed

lemma frame_then_set:
  assumes "qframe kind w v" and "heap v a = Some y" and "kind y = kind x"
  shows "qframe kind w (set_activity a x v)"
  using assms(1) qframe_set [of v a y kind x] assms(2,3) by (blast intro: qframe_trans)

lemma start_tests_heap:
  assumes "heap_wf w" and "heap w a = Some x"
  shows "heap (snd (start_tests cs as w)) a = Some x"
  using assms
proof (induction cs arbitrary: as w)
  case (Cons e cs)
  let ?n = "new_activity (TestClientActivity (snd e) (fst e) False) w"
  let ?v = "queue_startActivity (fst ?n) (snd ?n)"
  have "a \<noteq> next_ref w" using Cons.prems by (auto simp: heap_wf_def)
  with Cons.prems have "heap ?v a = Some x" and "heap_wf ?v"
    by (auto simp: new_activity_def queue_posts queue_post_def heap_wf_def)
  with Cons.IH show ?case by (simp add: case_prod_unfold Let_def)
qed simp

lemma TestClients_start_frame:
  assumes run: "TestClientsActivity_start as w a = Inr w'" and h: "heap w a = Some (TestClientsActivity as)"
  shows "mframe w w'"
proof -
  let ?v = "snd (start_tests (ma_clients w) as w)"
  obtain y where "mframe w ?v" using start_tests_frame by blast
  have set: "mframe w (set_activity a (TestClientsActivity x) ?v)" for x
  proof (cases "heap_wf w")
    case True
    show ?thesis
      by (rule frame_then_set [OF start_tests_frame start_tests_heap [OF True h]]) simp
  next
    case False
    with start_tests_frame [of w "ma_clients w" as] show ?thesis
      by (auto simp: qframe_def set_activity_def)
  qed
  with run show ?thesis
    by (auto simp: TestClientsActivity_start_def case_prod_unfold Let_def queue_posts
        intro!: qframe_then_post split: if_splits)
qed

lemma TestClients_complete_frame:
  assumes "TestClientsActivity_activityComplete as p w a = Inr (w', b)"
    and "heap w a = Some (TestClientsActivity as)"
  shows "mframe w w'"
  using assms(1)
  by (auto simp: TestClientsActivity_activityComplete_def Let_def queue_posts
      intro!: qframe_then_post qframe_set [where kind = class_of_master, OF assms(2)] split: if_splits)

lemma Enroll_clientMessage_frame:
  assumes run: "EnrollActivity_clientMessage tests u m w a = Inr (w', b)"
    and h: "heap w a = Some (EnrollActivity tests)"
  shows "mframe w w'"
proof -
  have test: "mframe w (queue_startActivity c (set_activity a (EnrollActivity t) (snd (new_activity x v))))"
    if "queue_view v = queue_view w" for c t x v
  proof -
    have "heap v a = Some (EnrollActivity tests)" using that h by (simp add: queue_view_eq)
    have "mframe w v" using that by (rule qframe_view)
    then have "mframe w (set_activity a (EnrollActivity t) (snd (new_activity x v)))"
    proof (cases "heap_wf v")
      case True
      with \<open>heap v a = _\<close> have "heap (snd (new_activity x v)) a = Some (EnrollActivity tests)"
        by (auto simp: new_activity_def heap_wf_def)
      from frame_then_set [OF qframe_then_new [OF \<open>mframe w v\<close>] this] show ?thesis by simp
    next
      case False
      with that have "\<not> heap_wf w" by (simp add: queue_view_eq heap_wf_def)
      with that show ?thesis by (simp add: qframe_def queue_view_eq set_activity_def new_activity_def)
    qed
    then show ?thesis unfolding queue_posts by (rule qframe_then_post)
  qed
  show ?thesis
  proof (cases "\<exists>n. m = SMQ_Enroll n")
    case False
    with run show ?thesis by (auto simp: EnrollActivity_clientMessage_def split: message.splits)
  next
    case True
    then obtain n where m: "m = SMQ_Enroll n" by blast
    obtain ok v where e: "Master_enroll n u w = (ok, v)" by (cases "Master_enroll n u w")
    have v: "queue_view v = queue_view w" using Master_updates_view(6) [of n u w] e by simp
    have reply: "mframe w w'" if "send_or_remove r u v = Inr w'" for r
      using send_or_remove_view [OF that] v by (intro qframe_view) simp
    show ?thesis
    proof (cases ok)
      case True
      with run m e reply show ?thesis by (auto simp: EnrollActivity_clientMessage_def andThen_eq_Inr)
    next
      case False
      with run m e reply test [OF v] show ?thesis
        by (auto simp: EnrollActivity_clientMessage_def andThen_eq_Inr case_prod_unfold Let_def
            split: option.splits)
    qed
  qed
qed

lemma Enroll_complete_frame:
  assumes run: "EnrollActivity_activityComplete tests p w a = Inr (w', b)"
    and h: "heap w a = Some (EnrollActivity tests)"
  shows "mframe w w'"
proof -
  have set: "queue_view v = queue_view (set_activity a (EnrollActivity t) w) \<Longrightarrow> mframe w v" for v t
    by (rule qframe_set_view' [OF _ h]) auto
  have v: "Master_enroll n c u = (x, u') \<Longrightarrow> queue_view u' = queue_view u" for n c x u u'
    by (metis Master_updates_view(6) snd_conv)
  show ?thesis
    using run set
    by (auto simp: EnrollActivity_activityComplete_def andThen_eq_Inr Let_def
        dest!: send_or_remove_view v
        split: option.splits master_activity.splits prod.splits bool.splits if_splits)
qed

lemma LoadProgram_start_frame:
  assumes "LoadProgram_start p ids f w a = Inr w'" and "heap w a = Some (LoadProgram p ids f)"
  shows "mframe w w'"
  using assms(1)
  by (auto simp: LoadProgram_start_def andThen_eq_Inr queue_posts dest!: send_all_view
      intro!: qframe_post qframe_set_view [OF assms(2)] split: if_splits)

lemma LoadProgram_clientMessage_frame:
  assumes "LoadProgram_clientMessage p ids f u m w a = Inr (w', b)" and "heap w a = Some (LoadProgram p ids f)"
  shows "mframe w w'"
  using assms(1)
  by (auto simp: LoadProgram_clientMessage_def andThen_eq_Inr Let_def queue_posts dest!: LoadProgram_finish_view
      intro!: qframe_then_post qframe_set_view' [OF _ assms(2)] split: message.splits if_splits)

lemma LoadConfig_start_frame:
  assumes "LoadConfig_start ids f w a = Inr w'" and "heap w a = Some (LoadConfig ids f)"
  shows "mframe w w'"
  using assms(1)
  by (auto simp: LoadConfig_start_def andThen_eq_Inr queue_posts dest!: send_all_view
      intro!: qframe_post qframe_set_view [OF assms(2)] split: if_splits)

lemma SaveConfig_start_frame:
  assumes "SaveConfig_start ids f w a = Inr w'" and "heap w a = Some (SaveConfig ids f)"
  shows "mframe w w'"
  using assms(1)
  by (auto simp: SaveConfig_start_def andThen_eq_Inr queue_posts dest!: send_all_view
      intro!: qframe_post qframe_set_view [OF assms(2)] split: if_splits)

lemma LoadConfig_clientMessage_frame:
  assumes "LoadConfig_clientMessage ids f u m w a = Inr (w', b)" and "heap w a = Some (LoadConfig ids f)"
  shows "mframe w w'"
  using assms(1)
  by (auto simp: LoadConfig_clientMessage_def Let_def queue_posts
      intro!: qframe_then_post qframe_set_view' [OF _ assms(2)] split: message.splits if_splits)

lemma SaveConfig_clientMessage_frame:
  assumes "SaveConfig_clientMessage ids f u m w a = Inr (w', b)" and "heap w a = Some (SaveConfig ids f)"
  shows "mframe w w'"
  using assms(1)
  by (auto simp: SaveConfig_clientMessage_def Let_def queue_posts
      intro!: qframe_then_post qframe_set_view' [OF _ assms(2)] split: message.splits if_splits)

lemma master_start_frame: "master_start w a = Inr w' \<Longrightarrow> mframe w w'"
  by (auto simp: master_start_def activity_defaults ListClientsActivity_start_def queue_posts qframe_post
      dest: TestClient_start_frame TestClients_start_frame LoadProgram_start_frame LoadConfig_start_frame
        SaveConfig_start_frame
      split: option.splits master_activity.splits)

lemma master_clientMessage_frame: "master_clientMessage u m w a = Inr (w', b) \<Longrightarrow> mframe w w'"
  by (auto simp: master_clientMessage_def activity_defaults
      dest: TestClient_clientMessage_frame Enroll_clientMessage_frame LoadProgram_clientMessage_frame
        LoadConfig_clientMessage_frame SaveConfig_clientMessage_frame qframe_view [OF RouteEG_view]
      split: option.splits master_activity.splits)

lemma master_activityComplete_frame: "master_activityComplete p w a = Inr (w', b) \<Longrightarrow> mframe w w'"
  by (auto simp: master_activityComplete_def activity_defaults
      dest: TestClients_complete_frame Enroll_complete_frame
      split: option.splits master_activity.splits)

interpretation master: activity_system master_vt class_of_master exclusive_master
  by unfold_locales
    (auto simp: master_vt_def activity_defaults master_start_frame master_clientMessage_frame
      master_activityComplete_frame master_precondition_def ExclusiveActivity_precondition_def
      split: if_splits)

end
