(* ===== verification/Master_Properties.thy ===== *)
theory Master_Properties
  imports Master_Laws Routing_Properties
begin

text \<open>
  What the master promises: the order and exclusivity of its activities, unique names of its clients,
  when a program counts as loaded, who gets a name, and where the EG messages go.
\<close>

section \<open>Names stay unique\<close>

definition clients_wf :: "master \<Rightarrow> bool" where
  "clients_wf w = client_map_wf (ma_clients w)"

lemma clients_wf_updates [simp]:
  "clients_wf (w\<lparr>ma_sent := s\<rparr>) = clients_wf w"
  "clients_wf (w\<lparr>ma_networkAddressTable := t\<rparr>) = clients_wf w"
  "clients_wf (Master_setActiveProgramName n w) = clients_wf w"
  "clients_wf (set_activity a x w) = clients_wf w"
  "clients_wf (queue_post e w) = clients_wf w"
  "clients_wf (snd (new_activity x w)) = clients_wf w"
  by (simp_all add: clients_wf_def Master_setActiveProgramName_def set_activity_def queue_post_def new_activity_def)

lemma clients_wf_remove: "clients_wf w \<Longrightarrow> clients_wf (Master_removeClient c w)"
  by (simp add: clients_wf_def Master_removeClient_def client_map_wf_remove)

lemma clients_wf_enroll: "clients_wf w \<Longrightarrow> clients_wf (snd (Master_enroll n c w))"
  by (simp add: clients_wf_def Master_enroll_def case_prod_unfold Let_def client_map_wf_enroll)

lemma clients_wf_send: "Master_send m c w = Inr (w', ok) \<Longrightarrow> clients_wf w' = clients_wf w"
  by (cases ok) (auto dest!: Master_send_cases)

lemma clients_wf_reply: "send_or_remove m c w = Inr w' \<Longrightarrow> clients_wf w \<Longrightarrow> clients_wf w'"
  by (auto simp: send_or_remove_def andThen_eq_Inr clients_wf_remove dest!: clients_wf_send split: if_splits)

lemma clients_wf_post: "Master_post m c w = Inr w' \<Longrightarrow> clients_wf w' = clients_wf w"
  by (auto simp: Master_post_def andThen_eq_Inr dest!: clients_wf_send)

lemma clients_wf_event: "send_event m c cs w = Inr w' \<Longrightarrow> clients_wf w' = clients_wf w"
  by (induction m c cs w rule: send_event.induct)
    (auto simp: andThen_eq_Inr dest!: clients_wf_post split: if_splits)

lemma clients_wf_all: "send_all m cs ids w = Inr (w', ids') \<Longrightarrow> clients_wf w' = clients_wf w"
  by (induction cs arbitrary: ids w) (auto simp: andThen_eq_Inr dest!: clients_wf_send split: if_splits)

lemma clients_wf_tests: "clients_wf (snd (start_tests cs as w)) = clients_wf w"
  by (induction cs arbitrary: as w) (simp_all add: case_prod_unfold Let_def queue_posts)

lemma clients_wf_finish: "LoadProgram_finish p w = Inr w' \<Longrightarrow> clients_wf w' = clients_wf w"
  by (auto simp: LoadProgram_finish_def Let_def Master_calculateNetworkAddressTable_def andThen_eq_Inr
      split: sum.splits fault.splits option.splits)

lemma clients_wf_start: "clients_wf w \<Longrightarrow> master_start w a = Inr w' \<Longrightarrow> clients_wf w'"
  by (auto simp: master_start_def TestClientActivity_start_def TestClientsActivity_start_def
      ListClientsActivity_start_def LoadProgram_start_def LoadConfig_start_def SaveConfig_start_def
      activity_defaults andThen_eq_Inr case_prod_unfold Let_def queue_posts clients_wf_tests clients_wf_remove
      dest!: clients_wf_send clients_wf_all split: option.splits master_activity.splits if_splits)

lemma clients_wf_route:
  "clients_wf w \<Longrightarrow> RouteEGProtocolActivity_clientMessage u m w = Inr (w', b) \<Longrightarrow> clients_wf w'"
  by (auto simp: RouteEGProtocolActivity_clientMessage_def route_request_def andThen_eq_Inr
      dest!: clients_wf_post clients_wf_event
      split: message.splits option.splits eg_body.splits if_splits)

lemma clients_wf_enrolls:
  "clients_wf w \<Longrightarrow> EnrollActivity_clientMessage t u m w a = Inr (w', b) \<Longrightarrow> clients_wf w'"
  using clients_wf_enroll [of w]
  by (fastforce simp: EnrollActivity_clientMessage_def andThen_eq_Inr case_prod_unfold Let_def queue_posts
      dest: clients_wf_reply split: message.splits prod.splits bool.splits option.splits)

lemma clients_wf_clientMessage:
  assumes "clients_wf w" and "master_clientMessage u m w a = Inr (w', b)" shows "clients_wf w'"
  using assms
  by (auto simp: master_clientMessage_def TestClientActivity_clientMessage_def LoadProgram_clientMessage_def
      LoadConfig_clientMessage_def SaveConfig_clientMessage_def activity_defaults andThen_eq_Inr Let_def
      queue_posts clients_wf_remove dest!: clients_wf_finish dest: clients_wf_route clients_wf_enrolls
      split: option.splits master_activity.splits message.splits if_splits)

lemma clients_wf_tested:
  assumes wf: "clients_wf w" and run: "EnrollActivity_activityComplete t p w a = Inr (w', b)"
  shows "clients_wf w'"
proof (cases "\<exists>id n al c. heap w p = Some (TestClientActivity id n al) \<and> map_of t p = Some c")
  case False
  with wf run show ?thesis
    by (auto simp: EnrollActivity_activityComplete_def split: option.splits master_activity.splits)
next
  case True
  then obtain id n al c where h: "heap w p = Some (TestClientActivity id n al)" "map_of t p = Some c" by blast
  let ?v = "set_activity a (EnrollActivity (smap_erase p t)) w"
  obtain ok v where e: "Master_enroll n c ?v = (ok, v)" by (cases "Master_enroll n c ?v")
  have "clients_wf v" using clients_wf_enroll [of ?v n c] wf e by simp
  moreover have "clients_wf ?v" using wf by simp
  moreover from run h e have "send_or_remove (mss_enroll_fail False) c ?v = Inr w'
      \<or> (\<exists>m. send_or_remove m c v = Inr w')"
    by (cases al; cases ok) (auto simp: EnrollActivity_activityComplete_def andThen_eq_Inr Let_def)
  ultimately show ?thesis by (blast intro: clients_wf_reply)
qed

lemma clients_wf_complete: "clients_wf w \<Longrightarrow> master_activityComplete p w a = Inr (w', b) \<Longrightarrow> clients_wf w'"
  by (auto simp: master_activityComplete_def TestClientsActivity_activityComplete_def activity_defaults Let_def
      queue_posts dest: clients_wf_tested split: option.splits master_activity.splits if_splits)

interpretation master_names: node_invariant master_vt clients_wf
  by unfold_locales
    (auto simp: master_vt_def activity_defaults intro: clients_wf_start clients_wf_clientMessage
      clients_wf_complete, simp_all add: clients_wf_def)

text \<open>The other threads post to the master, and the network changes under it.\<close>

inductive master_env :: "master \<Rightarrow> master \<Rightarrow> bool" where
  env_posted: "queue_posted_by_others w w' \<Longrightarrow> master_env w w'"
| env_network: "master_env w (w\<lparr>ma_server := z\<rparr>)"
| env_files: "master_env w (w\<lparr>ma_projects := ps\<rparr>)"

lemma master_env_frame: "master_env w w' \<Longrightarrow> mframe w w'"
  by (induction rule: master_env.induct)
    (auto intro: queue_posted_by_others_frame qframe_view simp: queue_view_def)

lemma master_env_names: "master_env w w' \<Longrightarrow> clients_wf w \<Longrightarrow> clients_wf w'"
  by (induction rule: master_env.induct)
    (auto simp: queue_posts clients_wf_def queue_post_def new_activity_def elim!: queue_posted_by_othersE)

lemma Master_ctor_ok: "exclusive_ok class_of_master exclusive_master (Master_ctor z ps) \<and> clients_wf (Master_ctor z ps)"
  by (auto simp: exclusive_ok_def heap_wf_def Master_ctor_def clients_wf_def client_map_wf_def)

section \<open>Demonstration states\<close>

definition no_projects :: "string \<Rightarrow> project_source" where
  "no_projects n = \<lparr>ps_tree = Inl (Rte ''no project''), ps_session = None\<rparr>"

definition demo_master :: master where
  "demo_master = Master_ctor good_zmq no_projects"

lemma good_Master_send:
  "Server_send (ma_server w) c = Inr True \<Longrightarrow>
   Master_send m c w = Inr (w\<lparr>ma_sent := ma_sent w @ [(c, m)]\<rparr>, True)"
  by (simp add: Master_send_def)

section \<open>Properties\<close>

text \<open>C15. In every reachable state of a master at most one activity of each exclusive class (enrolling,
  loading a program, loading and saving a configuration) is active, and no two clients have the same
  name.\<close>

theorem master_reachable:
  assumes "queue_reach master_vt brk master_env (Master_ctor z ps) w"
  shows "client_map_wf (ma_clients w) \<and>
    length (filter (\<lambda>a. kind_of class_of_master w a = Some MLoadProgram) (m_active w)) \<le> 1 \<and>
    length (filter (\<lambda>a. kind_of class_of_master w a = Some MEnroll) (m_active w)) \<le> 1 \<and>
    length (filter (\<lambda>a. kind_of class_of_master w a = Some MLoadConfig) (m_active w)) \<le> 1 \<and>
    length (filter (\<lambda>a. kind_of class_of_master w a = Some MSaveConfig) (m_active w)) \<le> 1"
proof -
  have "clients_wf w"
    using master_names.reach_keeps [OF assms] Master_ctor_ok master_env_names by blast
  moreover have "exclusive_ok class_of_master exclusive_master w"
    using master.reach_exclusive [OF assms] Master_ctor_ok master_env_frame by blast
  ultimately show ?thesis by (simp add: clients_wf_def exclusive_ok_def)
qed

theorem master_reachable_witness: "client_map_wf (ma_clients demo_master)"
  using master_reachable [OF reach_init, of good_zmq no_projects] by (simp add: demo_master_def)

text \<open>Activities of the master become active in the order in which they were started: starting one
  appends it to those active and waiting, completing one removes it alone, and at most the first of
  the waiting ones becomes active by it.\<close>

theorem master_start_order:
  assumes "queue_handle master_vt brk e w = Inr w'"
  shows "(\<forall>a. e = EvStart a \<longrightarrow> m_active w' @ m_pending w' = m_active w @ m_pending w @ [a])
       \<and> (\<forall>p. e = EvComplete p \<longrightarrow> p \<in> set (m_active w)
            \<and> m_active w' @ m_pending w' = remove1 p (m_active w) @ m_pending w
            \<and> m_pending w' \<in> {m_pending w, tl (m_pending w)})
       \<and> (\<forall>c m. e = EvClient c m \<longrightarrow> m_active w' = m_active w \<and> m_pending w' = m_pending w)"
  using assms master.start_order [of _ w w'] master.complete_order [of _ w w']
    qframe_lists [OF master.clientMessage_keeps [of brk _ _ w w']]
  by (auto simp: queue_handle_def)

theorem master_start_order_witness:
  "m_active (demo_master\<lparr>m_active := [0]\<rparr>) @ m_pending (demo_master\<lparr>m_active := [0]\<rparr>) = [0]"
  using master_start_order [of True "EvStart 0" demo_master "demo_master\<lparr>m_active := [0]\<rparr>"]
  by (simp add: queue_handle_def Queue_OnStartActivity_def demo_master_def Master_ctor_def master_vt_def
      master_precondition_def ExclusiveActivity_precondition_def master_start_def activity_defaults)

section \<open>Loading a program\<close>

text \<open>Sending to every client, when the network takes each message.\<close>

lemma send_all_good:
  assumes "\<forall>e \<in> set cs. Server_send (ma_server w) (snd e) = Inr True"
  shows "\<exists>ids'. send_all m cs ids w = Inr (w\<lparr>ma_sent := ma_sent w @ map (\<lambda>e. (snd e, m)) cs\<rparr>, ids')
           \<and> set ids' = set ids \<union> snd ` set cs"
  using assms
proof (induction cs arbitrary: ids w)
  case (Cons e cs)
  let ?w = "w\<lparr>ma_sent := ma_sent w @ [(snd e, m)]\<rparr>"
  have "Master_send m (snd e) w = Inr (?w, True)" using Cons.prems by (intro good_Master_send) simp
  moreover from Cons.IH [of ?w "List.insert (snd e) ids"] Cons.prems obtain ids' where
    "send_all m cs (List.insert (snd e) ids) ?w
       = Inr (?w\<lparr>ma_sent := ma_sent ?w @ map (\<lambda>e. (snd e, m)) cs\<rparr>, ids')"
    and "set ids' = set (List.insert (snd e) ids) \<union> snd ` set cs" by auto
  ultimately show ?case by auto
qed simp

text \<open>The answers of clients to a load, one after the other.\<close>

fun load_answers :: "(u32 \<times> bool) list \<Rightarrow> nat \<Rightarrow> master \<Rightarrow> master result" where
  "load_answers [] a w = Inr w"
| "load_answers ((c, ok) # as) a w =
     andThen (master_clientMessage c (SMS_Load ok) w a) (\<lambda>(w', _). load_answers as a w')"

lemma load_answer_waits:
  assumes "heap w a = Some (LoadProgram p ids f)" and "removeAll c ids \<noteq> []"
  shows "master_clientMessage c (SMS_Load ok) w a
    = Inr (set_activity a (LoadProgram p (removeAll c ids) (f \<or> \<not> ok)) w, True)"
  using assms by (simp add: master_clientMessage_def LoadProgram_clientMessage_def Let_def)

lemma load_answers_wait:
  assumes "heap w a = Some (LoadProgram p ids f)" and "\<not> set ids \<subseteq> fst ` set as"
  shows "\<exists>ids' f'. load_answers as a w = Inr (w\<lparr>heap := (heap w)(a \<mapsto> LoadProgram p ids' f')\<rparr>)
           \<and> set ids' = set ids - fst ` set as \<and> f' = (f \<or> (\<exists>x \<in> set as. \<not> snd x))"
  using assms
proof (induction as arbitrary: w ids f)
  case Nil
  then have "w\<lparr>heap := (heap w)(a \<mapsto> LoadProgram p ids f)\<rparr> = w" by (simp add: fun_upd_idem)
  then show ?case by (intro exI [of _ ids] exI [of _ f]) (simp del: fun_upd_apply)
next
  case (Cons x as)
  obtain c ok where x: "x = (c, ok)" by (cases x)
  have "removeAll c ids \<noteq> []" and sub: "\<not> set (removeAll c ids) \<subseteq> fst ` set as"
    using Cons.prems(2) x by (auto simp: filter_empty_conv simp flip: set_empty)
  note one = load_answer_waits [OF Cons.prems(1) this(1), of ok]
  let ?w = "set_activity a (LoadProgram p (removeAll c ids) (f \<or> \<not> ok)) w"
  have "heap ?w a = Some (LoadProgram p (removeAll c ids) (f \<or> \<not> ok))" by (simp add: set_activity_def)
  from Cons.IH [OF this sub] obtain ids' where
    rest: "load_answers as a ?w = Inr (?w\<lparr>heap := (heap ?w)(a \<mapsto> LoadProgram p ids' ((f \<or> \<not> ok) \<or> (\<exists>x \<in> set as. \<not> snd x)))\<rparr>)"
    and ids': "set ids' = set (removeAll c ids) - fst ` set as" by blast
  have "load_answers (x # as) a w
      = Inr (w\<lparr>heap := (heap w)(a \<mapsto> LoadProgram p ids' (f \<or> (\<exists>x \<in> set (x # as). \<not> snd x)))\<rparr>)"
    using one rest x by (simp add: set_activity_def disj_assoc del: fun_upd_apply)
  moreover have "set ids' = set ids - fst ` set (x # as)" using ids' x by auto
  ultimately show ?case by blast
qed

text \<open>C10. Loading a program waits for every client it was sent to: as long as some of them have not
  answered, whatever the others answer, the activity is not completed and neither the active program
  nor the address table changes.\<close>

theorem load_waits_for_all:
  assumes "heap w a = Some (LoadProgram p ids f)" and "\<not> set ids \<subseteq> fst ` set as"
  shows "\<exists>w'. load_answers as a w = Inr w' \<and> posted w' = posted w
       \<and> ma_activeProgramName w' = ma_activeProgramName w
       \<and> ma_networkAddressTable w' = ma_networkAddressTable w"
  using load_answers_wait [OF assms] by fastforce

definition loading_master :: master where
  "loading_master = demo_master\<lparr>heap := [5 \<mapsto> LoadProgram ''prog'' [11, 12] False],
     ma_clients := [(''alpha'', 11), (''beta'', 12)]\<rparr>"

theorem load_waits_for_all_witness: "\<exists>w'. load_answers [(11, True), (11, False)] 5 loading_master = Inr w'"
  using load_waits_for_all [of loading_master 5 "''prog''" "[11, 12]" False "[(11, True), (11, False)]"]
  by (auto simp: loading_master_def)

text \<open>C11. The answer of the last client completes the load once: then the program is the active one and
  the address table is the one computed for the clients enrolled then (or none, if the program has
  no analysis database), even when a client has answered that it failed.  A program whose project
  cannot be read leaves both as they were.\<close>

theorem load_completes:
  assumes "heap w a = Some (LoadProgram p ids f)" and "removeAll c ids = []"
    and tree: "ps_tree (ma_projects w p) = t"
    and session: "ps_session (ma_projects w p) = None \<or>
      ps_session (ma_projects w p) = Some (Inr root) \<and>
      NetworkAddressTable_master (ma_clients w) (Some root) = Inr table"
  shows "(t = Inr () \<longrightarrow> (\<exists>w'. load_answers [(c, ok)] a w = Inr w' \<and> posted w' = posted w @ [EvComplete a]
            \<and> ma_activeProgramName w' = p
            \<and> ma_networkAddressTable w' = (if ps_session (ma_projects w p) = None then None else Some table)))
       \<and> (t = Inl (Rte e) \<longrightarrow> (\<exists>w'. load_answers [(c, ok)] a w = Inr w' \<and> posted w' = posted w @ [EvComplete a]
            \<and> ma_activeProgramName w' = ma_activeProgramName w
            \<and> ma_networkAddressTable w' = ma_networkAddressTable w))"
  using assms
  by (auto simp: master_clientMessage_def LoadProgram_clientMessage_def LoadProgram_finish_def Let_def
      Master_calculateNetworkAddressTable_def Master_setActiveProgramName_def set_activity_def
      queue_posts queue_post_def)

theorem load_completes_witness:
  "\<exists>w'. load_answers [(11, False)] 5 (loading_master\<lparr>heap := [5 \<mapsto> LoadProgram ''prog'' [11] False]\<rparr>) = Inr w'
        \<and> ma_activeProgramName w' = ''''"
  using load_completes [of "loading_master\<lparr>heap := [5 \<mapsto> LoadProgram ''prog'' [11] False]\<rparr>" 5 "''prog''" "[11]" False
      11 "Inl (Rte ''no project'')" demo_root "[]" False "''no project''"]
  by (auto simp: loading_master_def demo_master_def Master_ctor_def no_projects_def)

text \<open>Starting a load sends the request to every enrolled client once and waits for exactly these; a
  client that cannot be reached makes the loop use the iterator of the entry it erased.\<close>

theorem load_starts:
  assumes "heap w a = Some (LoadProgram p [] f)" and "ma_clients w \<noteq> []"
  shows "((\<forall>e \<in> set (ma_clients w). Server_send (ma_server w) (snd e) = Inr True) \<longrightarrow>
            (\<exists>w' ids. master_start w a = Inr w' \<and> heap w' a = Some (LoadProgram p ids f)
               \<and> set ids = snd ` set (ma_clients w) \<and> posted w' = posted w
               \<and> ma_sent w' = ma_sent w @ map (\<lambda>e. (snd e, MSQ_Load p)) (ma_clients w)))
       \<and> (\<forall>n c rest. ma_clients w = (n, c) # rest \<longrightarrow> Server_send (ma_server w) c = Inr False \<longrightarrow>
            master_start w a = Inl (Ub ''iterator of an erased client''))"
proof (intro conjI impI allI)
  assume "\<forall>e \<in> set (ma_clients w). Server_send (ma_server w) (snd e) = Inr True"
  from send_all_good [OF this, of "MSQ_Load p" "[]"] assms
  show "\<exists>w' ids. master_start w a = Inr w' \<and> heap w' a = Some (LoadProgram p ids f)
      \<and> set ids = snd ` set (ma_clients w) \<and> posted w' = posted w
      \<and> ma_sent w' = ma_sent w @ map (\<lambda>e. (snd e, MSQ_Load p)) (ma_clients w)"
    by (auto simp: master_start_def LoadProgram_start_def set_activity_def)
qed (use assms in \<open>auto simp: master_start_def LoadProgram_start_def Master_send_def\<close>)

theorem load_starts_witness:
  "\<exists>w'. master_start (loading_master\<lparr>heap := [5 \<mapsto> LoadProgram ''prog'' [] False]\<rparr>) 5 = Inr w'
        \<and> ma_sent w' = [(11, MSQ_Load ''prog''), (12, MSQ_Load ''prog'')]"
  using load_starts [of "loading_master\<lparr>heap := [5 \<mapsto> LoadProgram ''prog'' [] False]\<rparr>" 5 "''prog''" False]
  by (auto simp: loading_master_def demo_master_def Master_ctor_def)

section \<open>Enrolling\<close>

text \<open>The first client that enrolls under a name gets it and is told the active program.  When the name
  is taken, nobody is told anything yet and the names stay as they are: a test of the client that
  has the name is started, on whose completion the answer waits.\<close>

theorem enroll_first_or_test:
  assumes "heap w a = Some (EnrollActivity tests)" and wf: "client_map_wf (ma_clients w)"
    and hwf: "heap_wf w" and "Server_send (ma_server w) c = Inr True"
  shows "(Master_getClientID n w = None \<longrightarrow>
            (\<exists>w'. master_clientMessage c (SMQ_Enroll n) w a = Inr (w', True)
               \<and> Master_getClientID n w' = Some c
               \<and> ma_sent w' = ma_sent w @ [(c, MSS_Enroll True (ma_activeProgramName w))]))
       \<and> (Master_getClientID n w = Some t \<longrightarrow>
            (\<exists>w'. master_clientMessage c (SMQ_Enroll n) w a = Inr (w', True)
               \<and> ma_clients w' = ma_clients w \<and> ma_sent w' = ma_sent w
               \<and> heap w' (next_ref w) = Some (TestClientActivity t n False)
               \<and> posted w' = posted w @ [EvStart (next_ref w)]
               \<and> heap w' a = Some (EnrollActivity ((next_ref w, c) # tests))))"
proof (intro conjI impI)
  assume free: "Master_getClientID n w = None"
  have "Master_enroll n c w = (True, w\<lparr>ma_clients := smap_insert n c (ma_clients w)\<rparr>)"
    using free by (simp add: Master_enroll_def ClientMap_enroll_def Master_getClientID_def)
  with assms(1,4) free enroll_find [OF wf, of n n c]
  show "\<exists>w'. master_clientMessage c (SMQ_Enroll n) w a = Inr (w', True)
      \<and> Master_getClientID n w' = Some c
      \<and> ma_sent w' = ma_sent w @ [(c, MSS_Enroll True (ma_activeProgramName w))]"
    by (simp add: master_clientMessage_def EnrollActivity_clientMessage_def send_or_remove_def
        good_Master_send Master_getClientID_def ClientMap_enroll_def protocol_defs)
next
  assume taken: "Master_getClientID n w = Some t"
  have "Master_enroll n c w = (False, w)"
    using taken by (simp add: Master_enroll_def ClientMap_enroll_def Master_getClientID_def)
  moreover have "a \<noteq> next_ref w" using assms(1) hwf by (auto simp: heap_wf_def)
  moreover note assms(1) taken
  ultimately
  show "\<exists>w'. master_clientMessage c (SMQ_Enroll n) w a = Inr (w', True)
      \<and> ma_clients w' = ma_clients w \<and> ma_sent w' = ma_sent w
      \<and> heap w' (next_ref w) = Some (TestClientActivity t n False)
      \<and> posted w' = posted w @ [EvStart (next_ref w)]
      \<and> heap w' a = Some (EnrollActivity ((next_ref w, c) # tests))"
    by (simp add: master_clientMessage_def EnrollActivity_clientMessage_def new_activity_def
        set_activity_def queue_posts queue_post_def Let_def)
qed

theorem enroll_first_or_test_witness:
  "\<exists>w'. master_clientMessage 11 (SMQ_Enroll ''alpha'') demo_master 0 = Inr (w', True)
        \<and> Master_getClientID ''alpha'' w' = Some 11"
  using enroll_first_or_test [of demo_master 0 "[]" 11 "''alpha''"]
  by (auto simp: demo_master_def Master_ctor_def client_map_wf_def heap_wf_def Master_getClientID_def
      ClientMap_getClientID_def)

text \<open>What the end of the test leaves of a takeover: the tested client \<open>t\<close>, if it is alive, keeps the
  name and the new client \<open>c\<close> is told no; otherwise the name is given to \<open>c\<close>, which is told so.\<close>

definition takeover_ends :: "master \<Rightarrow> nat \<Rightarrow> string \<Rightarrow> u32 \<Rightarrow> u32 \<Rightarrow> bool \<Rightarrow> master \<Rightarrow> bool" where
  "takeover_ends w p n t c alive w2 \<longleftrightarrow>
     Master_getClientID n w2 = Some (if alive then t else c) \<and>
     ma_sent w2 = ma_sent w @
       [(c, if alive then MSS_Enroll False '''' else MSS_Enroll True (ma_activeProgramName w))] \<and>
     posted w2 = posted w @ [EvComplete p]"

lemma takeover_complete:
  assumes h: "heap w1 a = Some (EnrollActivity tests)" "heap w1 p = Some (TestClientActivity t n alive)"
    and test: "map_of tests p = Some c"
    and wf: "client_map_wf (ma_clients w)" and has: "Master_getClientID n w = Some t"
    and send: "Server_send (ma_server w) c = Inr True"
    and w1: "ma_server w1 = ma_server w" "ma_sent w1 = ma_sent w" "posted w1 = posted w @ [EvComplete p]"
      "ma_activeProgramName w1 = ma_activeProgramName w"
      "ma_clients w1 = (if alive then ma_clients w else ClientMap_removeClient t (ma_clients w))"
  shows "\<exists>w2. master_activityComplete p w1 a = Inr (w2, True) \<and> takeover_ends w p n t c alive w2"
proof -
  let ?v = "set_activity a (EnrollActivity (smap_erase p tests)) w1"
  have v: "ma_server ?v = ma_server w" "ma_sent ?v = ma_sent w" "posted ?v = posted w @ [EvComplete p]"
    "ma_activeProgramName ?v = ma_activeProgramName w"
    "ma_clients ?v = (if alive then ma_clients w else ClientMap_removeClient t (ma_clients w))"
    using w1 by (simp_all add: set_activity_def)
  show ?thesis
  proof (cases alive)
    case True
    with h test send v has show ?thesis
      by (auto simp: master_activityComplete_def EnrollActivity_activityComplete_def Let_def takeover_ends_def
          send_or_remove_def good_Master_send protocol_defs Master_getClientID_def)
  next
    case False
    let ?m = "ClientMap_removeClient t (ma_clients w)"
    have free: "ClientMap_getClientID n ?m = None"
      using removeClient_find [OF wf, of n t] has by (simp add: Master_getClientID_def)
    have "Master_enroll n c ?v = (True, ?v\<lparr>ma_clients := smap_insert n c ?m\<rparr>)"
      using free v(5) False by (simp add: Master_enroll_def ClientMap_enroll_def)
    moreover have "ClientMap_getClientID n (smap_insert n c ?m) = Some c"
      using enroll_find [OF client_map_wf_remove [OF wf, of t], of n n c] free
      by (simp add: ClientMap_enroll_def)
    ultimately show ?thesis
      using h test send v False
      by (auto simp: master_activityComplete_def EnrollActivity_activityComplete_def Let_def takeover_ends_def
          send_or_remove_def good_Master_send protocol_defs Master_getClientID_def)
  qed
qed

text \<open>C22. The end of a takeover attempt.  The client that has the name is tested: it answers that it is
  alive or not, or it cannot be reached when the test starts, which ends the test at once.  When it is
  alive, it keeps the name and the new client is told no; when it answers that it is not, or cannot be
  reached, the name is freed and the completion of the test gives it to the new client and tells it
  so.  In each case the completion is posted once.\<close>

theorem enroll_after_test:
  assumes "heap w p = Some (TestClientActivity t n False)"
    and "heap w a = Some (EnrollActivity tests)" and "map_of tests p = Some c"
    and wf: "client_map_wf (ma_clients w)" and has: "Master_getClientID n w = Some t"
    and send: "Server_send (ma_server w) c = Inr True"
  shows "(\<exists>w1 w2. master_clientMessage t (SMS_Alive alive) w p = Inr (w1, True)
            \<and> master_activityComplete p w1 a = Inr (w2, True) \<and> takeover_ends w p n t c alive w2)
       \<and> (Server_send (ma_server w) t = Inr False \<longrightarrow>
            (\<exists>w1 w2. master_start w p = Inr w1
               \<and> master_activityComplete p w1 a = Inr (w2, True) \<and> takeover_ends w p n t c False w2))"
proof (intro conjI impI)
  have pa: "p \<noteq> a" using assms(1,2) by auto
  let ?w1 = "queue_activityComplete p
      (if alive then set_activity p (TestClientActivity t n True) w else Master_removeClient t w)"
  have "master_clientMessage t (SMS_Alive alive) w p = Inr (?w1, True)"
    using assms(1) by (simp add: master_clientMessage_def TestClientActivity_clientMessage_def)
  moreover have "\<exists>w2. master_activityComplete p ?w1 a = Inr (w2, True) \<and> takeover_ends w p n t c alive w2"
    by (rule takeover_complete [OF _ _ assms(3-6)])
      (use assms(1,2) pa in \<open>auto simp: queue_posts queue_post_def set_activity_def Master_removeClient_def\<close>)
  ultimately show "\<exists>w1 w2. master_clientMessage t (SMS_Alive alive) w p = Inr (w1, True)
      \<and> master_activityComplete p w1 a = Inr (w2, True) \<and> takeover_ends w p n t c alive w2" by blast
next
  assume gone: "Server_send (ma_server w) t = Inr False"
  let ?w1 = "queue_activityComplete p (Master_removeClient t w)"
  have "master_start w p = Inr ?w1"
    using assms(1) gone by (simp add: master_start_def TestClientActivity_start_def Master_send_def)
  moreover have "\<exists>w2. master_activityComplete p ?w1 a = Inr (w2, True) \<and> takeover_ends w p n t c False w2"
    by (rule takeover_complete [OF _ _ assms(3-6)])
      (use assms(1,2) in \<open>auto simp: queue_posts queue_post_def Master_removeClient_def\<close>)
  ultimately show "\<exists>w1 w2. master_start w p = Inr w1
      \<and> master_activityComplete p w1 a = Inr (w2, True) \<and> takeover_ends w p n t c False w2" by blast
qed

definition testing_master :: master where
  "testing_master = demo_master\<lparr>heap := [0 \<mapsto> EnrollActivity [(2, 12)], 2 \<mapsto> TestClientActivity 11 ''alpha'' False],
     next_ref := 3, ma_clients := [(''alpha'', 11)]\<rparr>"

text \<open>A server that cannot reach the client with the name.\<close>

definition deaf_master :: master where
  "deaf_master = testing_master\<lparr>ma_server := good_zmq\<lparr>z_server_send := \<lambda>c. if c = 11 then Some (EOther 113) else None\<rparr>\<rparr>"

theorem enroll_after_test_witness:
  "(\<exists>w1 w2. master_clientMessage 11 (SMS_Alive False) testing_master 2 = Inr (w1, True)
     \<and> master_activityComplete 2 w1 0 = Inr (w2, True) \<and> Master_getClientID ''alpha'' w2 = Some 12)
   \<and> (\<exists>w1 w2. master_start deaf_master 2 = Inr w1
     \<and> master_activityComplete 2 w1 0 = Inr (w2, True) \<and> Master_getClientID ''alpha'' w2 = Some 12)"
proof -
  have map: "client_map_wf [(''alpha'', 11)]" "Master_getClientID ''alpha'' testing_master = Some 11"
    "Master_getClientID ''alpha'' deaf_master = Some 11"
    by (simp_all add: client_map_wf_def smap_wf_def Master_getClientID_def ClientMap_getClientID_def testing_master_def
        deaf_master_def)
  have sends: "Server_send (ma_server testing_master) 12 = Inr True" "Server_send (ma_server deaf_master) 12 = Inr True"
    "Server_send (ma_server deaf_master) 11 = Inr False"
    by (simp_all add: testing_master_def deaf_master_def demo_master_def Master_ctor_def good_zmq_def Server_send_def
        ZMQMsg_route_ctor_def ZMQMsg_send_ctor_def)
  show ?thesis
    using enroll_after_test [of testing_master 2 11 "''alpha''" 0 "[(2, 12)]" 12 False]
      enroll_after_test [of deaf_master 2 11 "''alpha''" 0 "[(2, 12)]" 12 False] map sends
    by (auto simp: takeover_ends_def testing_master_def deaf_master_def)
qed

text \<open>A client that answers an alive test twice before the first answer is worked off takes the master
  down: each answer completes the test, and the second completion does not find it.\<close>

theorem alive_twice_ends_master:
  assumes "heap w p = Some (TestClientActivity t n ok)" and "posted w = []"
    and "distinct (m_active w)" and "p \<notin> set (m_pending w)"
    and "master_clientMessage t (SMS_Alive True) w p = Inr (w1, b)"
    and "master_clientMessage t (SMS_Alive True) w1 p = Inr (w2, b')"
  shows "\<exists>e. queue_steps 2 master_vt brk w2 = Inl e"
proof (rule master.completed_twice)
  have w1: "w1 = queue_activityComplete p (set_activity p (TestClientActivity t n True) w)"
    using assms(1,5) by (auto simp: master_clientMessage_def TestClientActivity_clientMessage_def)
  then have "w2 = queue_activityComplete p (set_activity p (TestClientActivity t n True) w1)"
    using assms(6)
    by (auto simp: master_clientMessage_def TestClientActivity_clientMessage_def queue_posts queue_post_def
        set_activity_def)
  with w1 assms(2-4) show "posted w2 = EvComplete p # EvComplete p # []" "distinct (m_active w2)"
    "p \<notin> set (m_pending w2)"
    by (auto simp: queue_posts queue_post_def set_activity_def)
qed

theorem alive_twice_ends_master_witness:
  "\<exists>w1 b w2 d e. master_clientMessage 11 (SMS_Alive True) (testing_master\<lparr>posted := [], m_active := [0, 2]\<rparr>) 2 = Inr (w1, b)
     \<and> master_clientMessage 11 (SMS_Alive True) w1 2 = Inr (w2, d) \<and> queue_steps 2 master_vt True w2 = Inl e"
proof -
  let ?w = "testing_master\<lparr>posted := [], m_active := [0, 2]\<rparr>"
  obtain w1 b where 1: "master_clientMessage 11 (SMS_Alive True) ?w 2 = Inr (w1, b)"
    by (simp add: testing_master_def master_clientMessage_def TestClientActivity_clientMessage_def)
  then obtain w2 d where 2: "master_clientMessage 11 (SMS_Alive True) w1 2 = Inr (w2, d)"
    by (auto simp: testing_master_def master_clientMessage_def TestClientActivity_clientMessage_def
        queue_posts queue_post_def set_activity_def)
  from alive_twice_ends_master [OF _ _ _ _ 1 2, of "''alpha''" False True] 1 2 show ?thesis
    by (auto simp: testing_master_def demo_master_def Master_ctor_def)
qed

section \<open>Routing\<close>

text \<open>C17. A request for a type goes to the slave whose coordinator owns the type, marked with the client
  it came from; a request for a type of a coordinator nobody is enrolled as is answered with an
  error to the client it came from.\<close>

theorem master_routes_request:
  assumes own: "owns root C H (uint (eg_type egMsg))" and root: "getMegaRoot inst = Inr root"
    and tm: "NetworkAddressTable_master slaves (Some inst) = Inr tm"
    and nat: "ma_networkAddressTable w = Some tm"
    and body: "eg_body egMsg = Some (EgRequest r)"
    and target: "\<And>c. map_of slaves (el_identifier C) = Some c \<Longrightarrow> c \<notin> {u, UnMapped, MasterID, SelfID}"
    and net: "\<And>x. Server_send (ma_server w) x = Inr True"
  shows "\<exists>w'. RouteEGProtocolActivity_clientMessage u (EG_Msg egMsg) w = Inr (w', True) \<and>
    ma_sent w' = ma_sent w @
      [case map_of slaves (el_identifier C) of
         Some c \<Rightarrow> (c, EG_Msg (egMsg\<lparr>eg_body := Some (EgRequest (r\<lparr>rq_coordinator := u\<rparr>))\<rparr>))
       | None \<Rightarrow> (u, eg_error_reply egMsg 0 (rq_host r))]"
proof -
  have "getClientForType tm (eg_type egMsg) = Inr (client_of slaves (el_identifier C))"
    using table_from_reads(2) [OF tm [unfolded NetworkAddressTable_master_def] root] owned_master [OF own]
    by (simp add: mapped_children_find)
  moreover have "UnMapped \<noteq> MasterID" "UnMapped \<noteq> SelfID"
    by (simp_all add: UnMapped_def MasterID_def SelfID_def)
  ultimately show ?thesis
    using target nat body net
    by (cases "map_of slaves (el_identifier C)")
      (simp_all add: RouteEGProtocolActivity_clientMessage_def route_request_def client_of_def Master_post_def
        good_Master_send copyRequestSetSourceCoordinator_def)
qed

theorem master_routes_request_witness:
  "\<exists>w'. RouteEGProtocolActivity_clientMessage 12 (EG_Msg demo_request)
      (demo_master\<lparr>ma_networkAddressTable := Some [0, 0, 11, 11, 11, 11, 11, 0, 0, 0]\<rparr>) = Inr (w', True)
    \<and> map fst (ma_sent w') = [11]"
  using master_routes_request [of demo_root demo_alpha demo_alpha_h2 demo_request demo_instance "[(''alpha'', 11)]"
      "[0, 0, 11, 11, 11, 11, 11, 0, 0, 0]"
      "demo_master\<lparr>ma_networkAddressTable := Some [0, 0, 11, 11, 11, 11, 11, 0, 0, 0]\<rparr>"
      "\<lparr>rq_coordinator = 0, rq_host = 3, rq_body = Some RqRead\<rparr>" 12] demo_owns demo_megaRoot demo_tables(1)
  by (auto simp: demo_request_def demo_master_def Master_ctor_def demo_alpha_def UnMapped_def MasterID_def SelfID_def)

text \<open>A response and an error go back to the client they are addressed to, and an event to every
  client but the one it came from, each once.\<close>

theorem master_routes_back:
  assumes net: "\<And>x. Server_send (ma_server w) x = Inr True"
  shows "(eg_body egMsg = Some (EgResponse rs) \<and> rs_coordinator rs \<noteq> 0 \<longrightarrow>
            RouteEGProtocolActivity_clientMessage u (EG_Msg egMsg) w
              = Inr (w\<lparr>ma_sent := ma_sent w @ [(rs_coordinator rs, EG_Msg egMsg)]\<rparr>, True))
       \<and> (eg_body egMsg = Some (EgError er) \<and> er_coordinator er \<noteq> 0 \<longrightarrow>
            RouteEGProtocolActivity_clientMessage u (EG_Msg egMsg) w
              = Inr (w\<lparr>ma_sent := ma_sent w @ [(er_coordinator er, EG_Msg egMsg)]\<rparr>, True))
       \<and> (eg_body egMsg = Some (EgEvent v) \<longrightarrow>
            RouteEGProtocolActivity_clientMessage u (EG_Msg egMsg) w
              = Inr (w\<lparr>ma_sent := ma_sent w @
                   map (\<lambda>e. (snd e, EG_Msg egMsg)) (filter (\<lambda>e. snd e \<noteq> u) (ma_clients w))\<rparr>, True))"
proof -
  have "send_event m u cs v
      = Inr (v\<lparr>ma_sent := ma_sent v @ map (\<lambda>e. (snd e, m)) (filter (\<lambda>e. snd e \<noteq> u) cs)\<rparr>)"
    if "ma_server v = ma_server w" for m cs v
    using that by (induction cs arbitrary: v) (simp_all add: Master_post_def good_Master_send net)
  with net show ?thesis
    by (simp add: RouteEGProtocolActivity_clientMessage_def Master_post_def good_Master_send)
qed

theorem master_routes_back_witness:
  "RouteEGProtocolActivity_clientMessage 11 (EG_Msg (demo_request\<lparr>eg_body := Some (EgEvent ''v'')\<rparr>)) loading_master
   = Inr (loading_master\<lparr>ma_sent := [(12, EG_Msg (demo_request\<lparr>eg_body := Some (EgEvent ''v'')\<rparr>))]\<rparr>, True)"
  using master_routes_back [of loading_master "demo_request\<lparr>eg_body := Some (EgEvent ''v'')\<rparr>" _ 11]
  by (simp add: loading_master_def demo_master_def Master_ctor_def)

end
