(* ===== verification/Slave_Node.thy ===== *)
theory Slave_Node
  imports Sockets Activity_System Address_Table Host_Map Program_Runtime
begin

text \<open>
  The slave: \<open>src/src/slave/slave.hpp\<close>, \<open>slave.cpp\<close>, \<open>activitiesMaster.*\<close>, \<open>activitiesHost.*\<close> and
  \<open>activitiesEG.*\<close>.

  A slave is a client of the master and the server of its hosts, on two sockets: the mega socket
  (enrolling, loading, buffers, and the requests of other hosts) and the EG socket (what a host
  asks for, and the answers it gets).  Routing ids of the two sockets are unrelated numbers.
  The project schema and the file system are not modelled: what the code asks of a project is a
  \<open>slave_project\<close>.  The unique strings that name shared buffers come from \<open>s_uuids\<close>.
\<close>

section \<open>State\<close>

datatype slave_activity =
    Slave_AliveTestActivity
  | MasterEnrollActivity
  | HostEnrollActivity
  | Slave_LoadProgramActivity string "nat option" "nat option"  \<comment> \<open>program being loaded, test, load\<close>
  | HostBufferActivity
  | Slave_RouteEGProtocolActivity
  | Slave_ConfigActivity config_type "nat option" "nat option"
  | TestHostActivity host string bool
  | TestHostsActivity "nat list"
  | ListHostsActivity
  | LoadHostProgramActivity host string string bool  \<comment> \<open>host, host name, program name, success\<close>
  | LoadHostsProgramActivity string "nat list" bool  \<comment> \<open>program name, running loads, success\<close>
  | HostConfigActivity host config_type bool
  | HostsConfigActivity config_type "nat list" bool

datatype slave_class =
    SAliveTest | SMasterEnroll | SHostEnroll | SLoadProgram | SHostBuffer | SRouteEG | SConfig
  | STestHost | STestHosts | SListHosts | SLoadHost | SLoadHosts | SHostConfig | SHostsConfig

fun class_of_slave :: "slave_activity \<Rightarrow> slave_class" where
  "class_of_slave Slave_AliveTestActivity = SAliveTest"
| "class_of_slave MasterEnrollActivity = SMasterEnroll"
| "class_of_slave HostEnrollActivity = SHostEnroll"
| "class_of_slave (Slave_LoadProgramActivity _ _ _) = SLoadProgram"
| "class_of_slave HostBufferActivity = SHostBuffer"
| "class_of_slave Slave_RouteEGProtocolActivity = SRouteEG"
| "class_of_slave (Slave_ConfigActivity _ _ _) = SConfig"
| "class_of_slave (TestHostActivity _ _ _) = STestHost"
| "class_of_slave (TestHostsActivity _) = STestHosts"
| "class_of_slave ListHostsActivity = SListHosts"
| "class_of_slave (LoadHostProgramActivity _ _ _ _) = SLoadHost"
| "class_of_slave (LoadHostsProgramActivity _ _ _) = SLoadHosts"
| "class_of_slave (HostConfigActivity _ _ _) = SHostConfig"
| "class_of_slave (HostsConfigActivity _ _ _) = SHostsConfig"

fun exclusive_slave :: "slave_class \<Rightarrow> bool" where
  "exclusive_slave SLoadProgram = True"
| "exclusive_slave SConfig = True"
| "exclusive_slave SLoadHosts = True"
| "exclusive_slave SHostBuffer = True"
| "exclusive_slave SHostsConfig = True"
| "exclusive_slave _ = False"

text \<open>Of a project tree: its coordinators with their host names, each with its projects (name and
  commands), the process a command starts, and the analysis database.\<close>

type_synonym host_names = "(string \<times> (string \<times> string list) list) list"

record slave_project =
  sp_tree :: "unit result"
  sp_coordinators :: "(string \<times> host_names) list"
  sp_processName :: "string \<Rightarrow> string result"
  sp_session :: "element result option"

record slave = "(slave_activity, message) queue_state" +
  s_workspacePath :: string
  s_slaveName :: string
  s_hostMap :: host_map
  s_sharedBuffers :: "(string \<times> shared_buffer) list"
  s_networkAddressTable :: "table option"
  s_activeProgramName :: string
  s_enrollment :: "bool option"
  s_server :: zmq
  s_egServer :: zmq
  s_client :: zmq
  s_sentMaster :: "message list"
  s_sentHost :: "(u32 \<times> message) list"
  s_sentHostEG :: "(u32 \<times> message) list"
  s_projects :: "string \<Rightarrow> slave_project"
  s_uuids :: "nat \<Rightarrow> string"
  s_nextUuid :: nat
  s_unsetEGClient :: u32

section \<open>Operations of the slave\<close>

definition Slave_removeClient :: "u32 \<Rightarrow> slave \<Rightarrow> slave" where
  "Slave_removeClient uiClient w = w\<lparr>s_hostMap := HostMap_removeClient uiClient (s_hostMap w)\<rparr>"

definition Slave_sendMaster :: "message \<Rightarrow> slave \<Rightarrow> slave result" where
  "Slave_sendMaster m w =
     andThen (Client_send (s_client w))
       (\<lambda>ok. Inr (if ok then w\<lparr>s_sentMaster := s_sentMaster w @ [m]\<rparr> else w))"

definition Slave_sendHost :: "message \<Rightarrow> u32 \<Rightarrow> slave \<Rightarrow> (slave \<times> bool) result" where
  "Slave_sendHost m uiClient w =
     andThen (Server_send (s_server w) uiClient)
       (\<lambda>bSuccess. Inr (if bSuccess then w\<lparr>s_sentHost := s_sentHost w @ [(uiClient, m)]\<rparr>
                        else Slave_removeClient uiClient w, bSuccess))"

definition Slave_sendHostEG :: "message \<Rightarrow> u32 \<Rightarrow> slave \<Rightarrow> (slave \<times> bool) result" where
  "Slave_sendHostEG m uiClient w =
     andThen (Server_send (s_egServer w) uiClient)
       (\<lambda>bSuccess. Inr (if bSuccess then w\<lparr>s_sentHostEG := s_sentHostEG w @ [(uiClient, m)]\<rparr>
                        else Slave_removeClient uiClient w, bSuccess))"

text \<open>Calls whose result the code does not look at.\<close>

definition slave_postHost :: "message \<Rightarrow> u32 \<Rightarrow> slave \<Rightarrow> slave result" where
  "slave_postHost m uiClient w = andThen (Slave_sendHost m uiClient w) (\<lambda>(w', _). Inr w')"

definition slave_postHostEG :: "message \<Rightarrow> u32 \<Rightarrow> slave \<Rightarrow> slave result" where
  "slave_postHostEG m uiClient w = andThen (Slave_sendHostEG m uiClient w) (\<lambda>(w', _). Inr w')"

definition Slave_setEnrollment :: "bool \<Rightarrow> slave \<Rightarrow> slave result" where
  "Slave_setEnrollment b w =
     (case s_enrollment w of
        None \<Rightarrow> Inr (w\<lparr>s_enrollment := Some b\<rparr>)
      | Some _ \<Rightarrow> Inl (Rte ''promise already satisfied''))"

definition Slave_setActiveProgramName :: "string \<Rightarrow> slave \<Rightarrow> slave" where
  "Slave_setActiveProgramName n w = w\<lparr>s_activeProgramName := n\<rparr>"

definition Slave_setHostMap :: "host_map \<Rightarrow> slave \<Rightarrow> slave" where
  "Slave_setHostMap hm w = w\<lparr>s_hostMap := hm\<rparr>"

definition Slave_getSharedBufferName :: "string \<Rightarrow> nat \<Rightarrow> slave \<Rightarrow> string \<times> slave" where
  "Slave_getSharedBufferName strBufferName szSize w =
     (let fresh =
        (let strSharedBufferName = s_uuids w (s_nextUuid w)
         in (strSharedBufferName,
             w\<lparr>s_nextUuid := Suc (s_nextUuid w),
               s_sharedBuffers := smap_assign strBufferName
                 (SharedBufferImpl_ctor strBufferName strSharedBufferName szSize) (s_sharedBuffers w)\<rparr>))
      in case map_of (s_sharedBuffers w) strBufferName of
           Some pBuffer \<Rightarrow> if sb_size pBuffer = szSize then (sb_sharedName pBuffer, w) else fresh
         | None \<Rightarrow> fresh)"

definition host_clients :: "name_map \<Rightarrow> client_map" where
  "host_clients hostNames = fold (\<lambda>i m. smap_insert (fst i) (h_megaClientID (snd i)) m) hostNames []"

definition Slave_calculateNetworkAddressTable :: "slave_project \<Rightarrow> slave \<Rightarrow> slave result" where
  "Slave_calculateNetworkAddressTable sp w =
     (case sp_session sp of
        None \<Rightarrow> Inr (w\<lparr>s_networkAddressTable := None\<rparr>)
      | Some session \<Rightarrow>
          andThen session (\<lambda>root.
          andThen (NetworkAddressTable_slave (host_clients (hm_names (s_hostMap w))) (s_slaveName w) (Some root))
            (\<lambda>t. Inr (w\<lparr>s_networkAddressTable := Some t\<rparr>))))"

section \<open>The master's messages\<close>

definition MasterEnrollActivity_start :: "slave \<Rightarrow> slave result" where
  "MasterEnrollActivity_start w = Slave_sendMaster (SMQ_Enroll (s_slaveName w)) w"

definition MasterEnrollActivity_serverMessage :: "message \<Rightarrow> slave \<Rightarrow> nat \<Rightarrow> (slave \<times> bool) result" where
  "MasterEnrollActivity_serverMessage m w a =
     (case m of
        MSS_Enroll success programname \<Rightarrow>
          andThen (Slave_setEnrollment success w) (\<lambda>w1.
            Inr (queue_activityComplete a
                   (if success then Slave_setActiveProgramName programname w1 else w1), True))
      | _ \<Rightarrow> Inr (w, False))"

definition Slave_AliveTestActivity_serverMessage :: "message \<Rightarrow> slave \<Rightarrow> (slave \<times> bool) result" where
  "Slave_AliveTestActivity_serverMessage m w =
     (case m of
        MSQ_Alive slavename \<Rightarrow>
          andThen (Slave_sendMaster (SMS_Alive (slavename = s_slaveName w)) w) (\<lambda>w'. Inr (w', True))
      | _ \<Rightarrow> Inr (w, False))"

definition Slave_LoadProgramActivity_serverMessage ::
  "string \<Rightarrow> message \<Rightarrow> slave \<Rightarrow> nat \<Rightarrow> (slave \<times> bool) result" where
  "Slave_LoadProgramActivity_serverMessage loading m w a =
     (case m of
        MSQ_Load programname \<Rightarrow>
          if loading = ''''
          then (let (t, w1) = new_activity (TestHostsActivity []) w;
                    (l, w2) = new_activity (LoadHostsProgramActivity programname [] True) w1
                in Inr (queue_startActivity t
                     (set_activity a (Slave_LoadProgramActivity programname (Some t) (Some l)) w2), True))
          else andThen (Slave_sendMaster (sms_load False) w) (\<lambda>w'. Inr (w', True))
      | _ \<Rightarrow> Inr (w, False))"

text \<open>Starting the activity a null pointer points to is undefined.\<close>

definition start_existing :: "nat option \<Rightarrow> slave \<Rightarrow> slave result" where
  "start_existing p w =
     (case p of Some b \<Rightarrow> Inr (queue_startActivity b w) | None \<Rightarrow> Inl (Ub ''null activity''))"

definition Slave_LoadProgramActivity_activityComplete ::
  "string \<Rightarrow> nat option \<Rightarrow> nat option \<Rightarrow> nat \<Rightarrow> slave \<Rightarrow> nat \<Rightarrow> (slave \<times> bool) result" where
  "Slave_LoadProgramActivity_activityComplete loading test load pActivity w a =
     (if test = Some pActivity then andThen (start_existing load w) (\<lambda>w'. Inr (w', True))
      else if load = Some pActivity
      then (case heap w pActivity of
              Some (LoadHostsProgramActivity _ _ successful) \<Rightarrow>
                andThen
                  (if successful
                   then Slave_sendMaster (sms_load True) (Slave_setActiveProgramName loading w)
                   else Slave_sendMaster (sms_load False) w)
                  (\<lambda>w'. Inr (set_activity a (Slave_LoadProgramActivity '''' test load) w', True))
            | _ \<Rightarrow> Inl (Rte ''pLoad''))
      else Inr (w, False))"

definition config_request :: "config \<Rightarrow> config_type" where
  "config_request c =
     (case c of
        CfgLoad (Some CfgMSQ) \<Rightarrow> eConfigLoading
      | CfgSave (Some CfgMSQ) \<Rightarrow> eConfigSaving
      | _ \<Rightarrow> TOTAL_CONFIG_ACTIVITY_TYPES)"

definition Slave_ConfigActivity_serverMessage ::
  "config_type \<Rightarrow> message \<Rightarrow> slave \<Rightarrow> nat \<Rightarrow> (slave \<times> bool) result" where
  "Slave_ConfigActivity_serverMessage activityType m w a =
     (case m of
        Config_msg c \<Rightarrow>
          (let newActivityType = config_request c in
           if newActivityType \<noteq> TOTAL_CONFIG_ACTIVITY_TYPES
           then (if activityType \<noteq> TOTAL_CONFIG_ACTIVITY_TYPES then Inr (w, False)
                 else (let (t, w1) = new_activity (TestHostsActivity []) w;
                           (h, w2) = new_activity (HostsConfigActivity newActivityType [] True) w1
                       in Inr (queue_startActivity t
                            (set_activity a (Slave_ConfigActivity newActivityType (Some t) (Some h)) w2), True)))
           else Inr (w, False))
      | _ \<Rightarrow> Inr (w, False))"

definition config_reply :: "config_type \<Rightarrow> bool \<Rightarrow> message result" where
  "config_reply activityType successful =
     (case activityType of
        eConfigLoading \<Rightarrow> Inr (config_load_sms successful)
      | eConfigSaving \<Rightarrow> Inr (config_save_sms successful)
      | TOTAL_CONFIG_ACTIVITY_TYPES \<Rightarrow> Inl (Rte ''Unreachable''))"

definition Slave_ConfigActivity_activityComplete ::
  "config_type \<Rightarrow> nat option \<Rightarrow> nat option \<Rightarrow> nat \<Rightarrow> slave \<Rightarrow> nat \<Rightarrow> (slave \<times> bool) result" where
  "Slave_ConfigActivity_activityComplete activityType test config pActivity w a =
     (if test = Some pActivity then andThen (start_existing config w) (\<lambda>w'. Inr (w', True))
      else if config = Some pActivity
      then (case heap w pActivity of
              Some (HostsConfigActivity _ _ successful) \<Rightarrow>
                andThen (config_reply activityType successful) (\<lambda>m.
                andThen (Slave_sendMaster m w) (\<lambda>w'.
                  Inr (set_activity a (Slave_ConfigActivity TOTAL_CONFIG_ACTIVITY_TYPES test config) w', True)))
            | _ \<Rightarrow> Inl (Rte ''pConfig''))
      else Inr (w, False))"

section \<open>Testing hosts\<close>

definition TestHostActivity_start :: "host \<Rightarrow> string \<Rightarrow> slave \<Rightarrow> nat \<Rightarrow> slave result" where
  "TestHostActivity_start h strProcessName w a =
     andThen (Slave_sendHost (CHQ_Alive strProcessName) (h_megaClientID h) w)
       (\<lambda>(w', ok). Inr (if ok then w' else queue_activityComplete a w'))"

definition TestHostActivity_clientMessage ::
  "host \<Rightarrow> string \<Rightarrow> u32 \<Rightarrow> message \<Rightarrow> slave \<Rightarrow> nat \<Rightarrow> (slave \<times> bool) result" where
  "TestHostActivity_clientMessage h strProcessName uiClient m w a =
     (if h_megaClientID h = uiClient
      then (case m of
              HCS_Alive success \<Rightarrow>
                Inr (queue_activityComplete a
                       (if \<not> success then Slave_removeClient (h_megaClientID h) w
                        else set_activity a (TestHostActivity h strProcessName True) w), True)
            | _ \<Rightarrow> Inr (w, False))
      else Inr (w, False))"

text \<open>Make one activity for each element of a list and post its start.\<close>

fun start_each :: "slave_activity list \<Rightarrow> nat list \<Rightarrow> slave \<Rightarrow> nat list \<times> slave" where
  "start_each [] as w = (as, w)"
| "start_each (x # xs) as w =
     (let (b, w') = new_activity x w in start_each xs (as @ [b]) (queue_startActivity b w'))"

definition TestHostsActivity_start :: "nat list \<Rightarrow> slave \<Rightarrow> nat \<Rightarrow> slave result" where
  "TestHostsActivity_start activities w a =
     (let (as, w') = start_each (map (\<lambda>(p, h). TestHostActivity h p False) (hm_processes (s_hostMap w)))
                       activities w;
          w'' = set_activity a (TestHostsActivity as) w'
      in Inr (if as = [] then queue_activityComplete a w'' else w''))"

definition TestHostsActivity_activityComplete ::
  "nat list \<Rightarrow> nat \<Rightarrow> slave \<Rightarrow> nat \<Rightarrow> (slave \<times> bool) result" where
  "TestHostsActivity_activityComplete activities pActivity w a =
     (if pActivity \<notin> set activities then Inr (w, False)
      else (let as = remove1 pActivity activities;
                w' = set_activity a (TestHostsActivity as) w
            in Inr (if as = [] then queue_activityComplete a w' else w', True)))"

definition ListHostsActivity_start :: "slave \<Rightarrow> nat \<Rightarrow> slave result" where
  "ListHostsActivity_start w a = Inr (queue_activityComplete a w)"

section \<open>Enrolling hosts\<close>

definition HostEnrollActivity_clientMessage :: "u32 \<Rightarrow> message \<Rightarrow> slave \<Rightarrow> (slave \<times> bool) result" where
  "HostEnrollActivity_clientMessage uiClient m w =
     (case m of
        HCQ_Enroll processname unique \<Rightarrow>
          (let (ok, hm) = HostMap_enroll (s_unsetEGClient w) processname uiClient unique (s_hostMap w);
               w1 = w\<lparr>s_hostMap := hm\<rparr>
           in andThen (slave_postHost
                 (if ok then chs_enroll True (s_workspacePath w1) (s_slaveName w1) else chs_enroll_fail False)
                 uiClient w1)
                (\<lambda>w'. Inr (w', True)))
      | HCQ_EnrollEG unique \<Rightarrow>
          (let (ok, hm) = HostMap_enrolleg uiClient unique (s_hostMap w);
               w1 = w\<lparr>s_hostMap := hm\<rparr>
           in if ok
              then (let uiMegaClientID = HostMap_getMegaClientForEGClient (s_hostMap w1) uiClient in
                    andThen (verify_rte (uiMegaClientID \<noteq> 0) ''uiMegaClientID != 0'') (\<lambda>_.
                    andThen (slave_postHost (chs_enrolleg True) uiMegaClientID w1) (\<lambda>w'. Inr (w', False))))
              else Inr (w1, False))
      | _ \<Rightarrow> Inr (w, False))"

section \<open>Loading a program into the hosts\<close>

definition LoadHostProgramActivity_start :: "host \<Rightarrow> string \<Rightarrow> string \<Rightarrow> slave \<Rightarrow> nat \<Rightarrow> slave result" where
  "LoadHostProgramActivity_start h hostName programName w a =
     andThen (Slave_sendHost (CHQ_Load hostName programName) (h_megaClientID h) w)
       (\<lambda>(w', ok). Inr (if ok then w' else queue_activityComplete a w'))"

definition LoadHostProgramActivity_clientMessage ::
  "host \<Rightarrow> string \<Rightarrow> string \<Rightarrow> u32 \<Rightarrow> message \<Rightarrow> slave \<Rightarrow> nat \<Rightarrow> (slave \<times> bool) result" where
  "LoadHostProgramActivity_clientMessage h hostName programName uiClient m w a =
     (if h_megaClientID h = uiClient
      then (case m of
              HCS_Load success \<Rightarrow>
                (let w1 = set_activity a (LoadHostProgramActivity h hostName programName success) w
                 in Inr (queue_activityComplete a
                           (if \<not> success then Slave_removeClient (h_megaClientID h) w1 else w1), True))
            | _ \<Rightarrow> Inr (w, False))
      else Inr (w, False))"

text \<open>The process that plays a host name, if its project is the program.\<close>

definition host_process ::
  "slave_project \<Rightarrow> string \<Rightarrow> string \<times> (string \<times> string list) list \<Rightarrow> string option result" where
  "host_process sp programName hostName =
     andThen (verify_rte (length (snd hostName) = 1)
       (''Host : '' @ fst hostName @ '' has incorrect number projects for projectName: '' @ programName)) (\<lambda>_.
     (let (projectName, commands) = hd (snd hostName) in
      if projectName = programName
      then andThen (verify_rte (length commands = 1) ''Host has incorrect number of commands in project'') (\<lambda>_.
           andThen (sp_processName sp (hd commands)) (\<lambda>p. Inr (Some p)))
      else Inr None))"

fun host_process_names ::
  "slave_project \<Rightarrow> string \<Rightarrow> host_names \<Rightarrow> (string \<times> string) list \<Rightarrow> (string \<times> string) list result" where
  "host_process_names sp programName [] pairs = Inr pairs"
| "host_process_names sp programName (hostName # rest) pairs =
     andThen (host_process sp programName hostName) (\<lambda>r.
       host_process_names sp programName rest
         (case r of None \<Rightarrow> pairs | Some p \<Rightarrow> mmap_insert p (fst hostName) pairs))"

fun processNameToHostName ::
  "slave_project \<Rightarrow> string \<Rightarrow> string \<Rightarrow> (string \<times> host_names) list \<Rightarrow> (string \<times> string) list
   \<Rightarrow> (string \<times> string) list result" where
  "processNameToHostName sp slaveName programName [] pairs = Inr pairs"
| "processNameToHostName sp slaveName programName ((name, hostNames) # rest) pairs =
     (if name = slaveName
      then andThen (host_process_names sp programName hostNames pairs)
             (processNameToHostName sp slaveName programName rest)
      else processNameToHostName sp slaveName programName rest pairs)"

definition load_activities :: "string \<Rightarrow> host list \<Rightarrow> name_map \<Rightarrow> slave_activity list" where
  "load_activities programName unmappedClients hostNames =
     map (\<lambda>h. LoadHostProgramActivity h '''' '''' True) unmappedClients @
     map (\<lambda>(n, h). LoadHostProgramActivity h n programName True) hostNames"

definition LoadHostsProgramActivity_start :: "string \<Rightarrow> nat list \<Rightarrow> bool \<Rightarrow> slave \<Rightarrow> nat \<Rightarrow> slave result" where
  "LoadHostsProgramActivity_start programName loads ok w a =
     (let sp = s_projects w programName;
          finish = (\<lambda>as w'. let w'' = set_activity a (LoadHostsProgramActivity programName as ok) w'
                            in if as = [] then queue_activityComplete a w'' else w'')
      in case sp_tree sp of
           Inl (Ub e) \<Rightarrow> Inl (Ub e)
         | Inl (Rte e) \<Rightarrow> Inr (finish loads w)
         | Inr _ \<Rightarrow>
             andThen (processNameToHostName sp (s_slaveName w) programName (sp_coordinators sp) []) (\<lambda>pairs.
               (let (newMapping, unmappedClients, unmappedHostNames) = HostMap_ctor (s_hostMap w) pairs;
                    (as, w1) = start_each (load_activities programName unmappedClients (hm_names newMapping)) loads w;
                    w2 = Slave_setHostMap newMapping w1
                in andThen (Slave_calculateNetworkAddressTable sp w2) (\<lambda>w3. Inr (finish as w3)))))"

definition LoadHostsProgramActivity_activityComplete ::
  "string \<Rightarrow> nat list \<Rightarrow> bool \<Rightarrow> nat \<Rightarrow> slave \<Rightarrow> nat \<Rightarrow> (slave \<times> bool) result" where
  "LoadHostsProgramActivity_activityComplete programName loads ok pActivity w a =
     (case heap w pActivity of
        Some (LoadHostProgramActivity _ _ _ successful) \<Rightarrow>
          if pActivity \<in> set loads
          then (let as = removeAll pActivity loads;
                    w' = set_activity a (LoadHostsProgramActivity programName as (ok \<and> successful)) w
                in Inr (if as = [] then queue_activityComplete a w' else w', True))
          else Inr (w, False)
      | _ \<Rightarrow> Inr (w, False))"

section \<open>Buffers\<close>

definition HostBufferActivity_clientMessage :: "u32 \<Rightarrow> message \<Rightarrow> slave \<Rightarrow> (slave \<times> bool) result" where
  "HostBufferActivity_clientMessage uiClient m w =
     (case m of
        HCQ_Buffer buffername sz \<Rightarrow>
          (let (strSharedBufferName, w1) = Slave_getSharedBufferName buffername (unat sz) w
           in andThen (slave_postHost (chs_buffer buffername strSharedBufferName) uiClient w1)
                (\<lambda>w'. Inr (w', True)))
      | _ \<Rightarrow> Inr (w, False))"

section \<open>Configurations of the hosts\<close>

definition HostConfigActivity_start :: "host \<Rightarrow> config_type \<Rightarrow> slave \<Rightarrow> nat \<Rightarrow> slave result" where
  "HostConfigActivity_start h configType w a =
     andThen (case configType of
                eConfigLoading \<Rightarrow> Inr config_load_chq
              | eConfigSaving \<Rightarrow> Inr config_save_chq
              | TOTAL_CONFIG_ACTIVITY_TYPES \<Rightarrow> Inl (Rte ''Unreachable'')) (\<lambda>m.
     andThen (Slave_sendHost m (h_megaClientID h) w)
       (\<lambda>(w', ok). Inr (if ok then w' else queue_activityComplete a w')))"

definition HostConfigActivity_clientMessage ::
  "host \<Rightarrow> config_type \<Rightarrow> u32 \<Rightarrow> message \<Rightarrow> slave \<Rightarrow> nat \<Rightarrow> (slave \<times> bool) result" where
  "HostConfigActivity_clientMessage h configType uiClient m w a =
     (if h_megaClientID h = uiClient
      then (case m of
              Config_msg c \<Rightarrow>
                (let answered = (\<lambda>b. Inr (queue_activityComplete a
                        (set_activity a (HostConfigActivity h configType b) w), True))
                 in case configType of
                      eConfigLoading \<Rightarrow>
                        (case c of CfgLoad (Some (CfgHCS b)) \<Rightarrow> answered b | _ \<Rightarrow> Inr (w, False))
                    | eConfigSaving \<Rightarrow>
                        (case c of CfgSave (Some (CfgHCS b)) \<Rightarrow> answered b | _ \<Rightarrow> Inr (w, False))
                    | TOTAL_CONFIG_ACTIVITY_TYPES \<Rightarrow> Inl (Rte ''Unreachable''))
            | _ \<Rightarrow> Inr (w, False))
      else Inr (w, False))"

definition HostsConfigActivity_start :: "config_type \<Rightarrow> nat list \<Rightarrow> bool \<Rightarrow> slave \<Rightarrow> nat \<Rightarrow> slave result" where
  "HostsConfigActivity_start configType loads ok w a =
     (let (as, w') = start_each (map (\<lambda>(p, h). HostConfigActivity h configType True) (hm_processes (s_hostMap w)))
                       loads w;
          w'' = set_activity a (HostsConfigActivity configType as ok) w'
      in Inr (if as = [] then queue_activityComplete a w'' else w''))"

definition HostsConfigActivity_activityComplete ::
  "config_type \<Rightarrow> nat list \<Rightarrow> bool \<Rightarrow> nat \<Rightarrow> slave \<Rightarrow> nat \<Rightarrow> (slave \<times> bool) result" where
  "HostsConfigActivity_activityComplete configType loads ok pActivity w a =
     (case heap w pActivity of
        Some (HostConfigActivity _ _ successful) \<Rightarrow>
          if pActivity \<in> set loads
          then (let as = removeAll pActivity loads;
                    w' = set_activity a (HostsConfigActivity configType as (ok \<and> successful)) w
                in Inr (if as = [] then queue_activityComplete a w' else w', True))
          else Inr (w, False)
      | _ \<Rightarrow> Inr (w, False))"

end
