(* ===== verification/Slave_Vtable.thy ===== *)
theory Slave_Vtable
  imports Slave_Node
begin

text \<open>
  The slave, continued: routing the EG protocol (\<open>src/src/slave/activitiesEG.cpp\<close>), the virtual
  functions of all its activities and its constructor.
\<close>

section \<open>Routing\<close>

definition copyRequestSetSourceHost :: "eg_msg \<Rightarrow> eg_request \<Rightarrow> u32 \<Rightarrow> message" where
  "copyRequestSetSourceHost egMsg egRequest uiClient =
     EG_Msg (egMsg\<lparr>eg_body := Some (EgRequest (egRequest\<lparr>rq_host := uiClient\<rparr>))\<rparr>)"

text \<open>
  The loop that sends an event to the hosts runs over the map itself.  A failed send removes the
  hosts whose mega id is the EG id that failed: the rest of the loop no longer meets them, and when
  the host at hand is one of them the loop goes on from an erased entry.
\<close>

function send_event_hosts :: "message \<Rightarrow> u32 option \<Rightarrow> process_map \<Rightarrow> slave \<Rightarrow> slave result" where
  "send_event_hosts m source [] w = Inr w"
| "send_event_hosts m source (e # rest) w =
     (if source = Some (h_egClientID (snd e)) then send_event_hosts m source rest w
      else andThen (Slave_sendHostEG m (h_egClientID (snd e)) w) (\<lambda>(w', ok).
        if ok then send_event_hosts m source rest w'
        else if h_megaClientID (snd e) = h_egClientID (snd e) then Inl (Ub ''iterator of an erased host'')
        else send_event_hosts m source (eraseByHostMegaClientID (h_egClientID (snd e)) rest) w'))"
  by pat_completeness auto

termination send_event_hosts
  by (relation "measure (\<lambda>(m, source, hosts, w). length hosts)")
    (auto simp: eraseByHostMegaClientID_def less_Suc_eq_le)

definition route_master_request :: "eg_msg \<Rightarrow> eg_request \<Rightarrow> slave \<Rightarrow> slave result" where
  "route_master_request egMsg egRequest w =
     (case s_networkAddressTable w of
        None \<Rightarrow> Inr w
      | Some pNAT \<Rightarrow>
          andThen (getClientForType pNAT (eg_type egMsg)) (\<lambda>uiTargetClientID.
            if uiTargetClientID = MasterID then Inl (Rte ''Request from master mapped to master id in slave'')
            else if uiTargetClientID = SelfID then Inl (Rte ''Request from master mapped to self id in slave'')
            else if uiTargetClientID = UnMapped
            then Slave_sendMaster (eg_error_reply egMsg (rq_coordinator egRequest) (rq_host egRequest)) w
            else slave_postHost (EG_Msg egMsg) uiTargetClientID w))"

definition Slave_RouteEGProtocolActivity_serverMessage :: "message \<Rightarrow> slave \<Rightarrow> (slave \<times> bool) result" where
  "Slave_RouteEGProtocolActivity_serverMessage m w =
     (case m of
        EG_Msg egMsg \<Rightarrow>
          andThen
            (case eg_body egMsg of
               Some (EgRequest egRequest) \<Rightarrow> route_master_request egMsg egRequest w
             | Some (EgResponse response) \<Rightarrow>
                 andThen (verify_rte (rs_host response \<noteq> 0)
                            ''Invalid host resolved for response from master to slave'')
                   (\<lambda>_. slave_postHostEG m (rs_host response) w)
             | Some (EgError error) \<Rightarrow>
                 andThen (verify_rte (er_host error \<noteq> 0)
                            ''Invalid host resolved for error from master to slave'')
                   (\<lambda>_. slave_postHostEG m (er_host error) w)
             | Some (EgEvent _) \<Rightarrow> send_event_hosts m None (hm_processes (s_hostMap w)) w
             | None \<Rightarrow> Inr w)
            (\<lambda>w'. Inr (w', True))
      | _ \<Rightarrow> Inr (w, False))"

definition route_host_request :: "eg_msg \<Rightarrow> eg_request \<Rightarrow> u32 \<Rightarrow> slave \<Rightarrow> slave result" where
  "route_host_request egMsg egRequest uiClient w =
     (case s_networkAddressTable w of
        None \<Rightarrow> Inr w
      | Some pNAT \<Rightarrow>
          andThen (getClientForType pNAT (eg_type egMsg)) (\<lambda>uiTargetClientID.
          andThen (verify_rte (uiTargetClientID \<noteq> uiClient) ''uiTargetClientID != uiClient'') (\<lambda>_.
          (let msgCopy = copyRequestSetSourceHost egMsg egRequest uiClient in
            if uiTargetClientID = MasterID then Slave_sendMaster msgCopy w
            else if uiTargetClientID = SelfID then Inl (Rte ''Request from host mapped to self id in slave'')
            else if uiTargetClientID = UnMapped
            then slave_postHostEG
                   (eg_error_reply egMsg (rq_coordinator egRequest) (rq_host egRequest)) uiClient w
            else slave_postHost msgCopy uiTargetClientID w))))"

definition Slave_RouteEGProtocolActivity_clientMessage :: "u32 \<Rightarrow> message \<Rightarrow> slave \<Rightarrow> (slave \<times> bool) result" where
  "Slave_RouteEGProtocolActivity_clientMessage uiClient m w =
     (case m of
        EG_Msg egMsg \<Rightarrow>
          andThen
            (case eg_body egMsg of
               Some (EgRequest egRequest) \<Rightarrow> route_host_request egMsg egRequest uiClient w
             | Some (EgResponse response) \<Rightarrow>
                 if rs_coordinator response \<noteq> 0 then Slave_sendMaster m w
                 else andThen (verify_rte (rs_host response \<noteq> 0) ''Response has no source host'')
                        (\<lambda>_. slave_postHostEG m (rs_host response) w)
             | Some (EgError error) \<Rightarrow>
                 if er_coordinator error \<noteq> 0 then Slave_sendMaster m w
                 else andThen (verify_rte (er_host error \<noteq> 0) ''Error has no source host'')
                        (\<lambda>_. slave_postHostEG m (er_host error) w)
             | Some (EgEvent _) \<Rightarrow>
                 andThen (Slave_sendMaster m w)
                   (\<lambda>w'. send_event_hosts m (Some uiClient) (hm_processes (s_hostMap w')) w')
             | None \<Rightarrow> Inl (Rte ''Unknown eg msg type''))
            (\<lambda>w'. Inr (w', True))
      | _ \<Rightarrow> Inr (w, False))"

section \<open>The virtual functions of the slave's activities\<close>

definition slave_precondition :: "slave \<Rightarrow> nat \<Rightarrow> nat list \<Rightarrow> bool" where
  "slave_precondition w a active =
     (case heap w a of
        Some x \<Rightarrow>
          if exclusive_slave (class_of_slave x)
          then ExclusiveActivity_precondition class_of_slave (class_of_slave x) w active
          else Activity_precondition w a active
      | None \<Rightarrow> Activity_precondition w a active)"

definition slave_start :: "slave \<Rightarrow> nat \<Rightarrow> slave result" where
  "slave_start w a =
     (case heap w a of
        Some MasterEnrollActivity \<Rightarrow> MasterEnrollActivity_start w
      | Some (TestHostActivity h n ok) \<Rightarrow> TestHostActivity_start h n w a
      | Some (TestHostsActivity as) \<Rightarrow> TestHostsActivity_start as w a
      | Some ListHostsActivity \<Rightarrow> ListHostsActivity_start w a
      | Some (LoadHostProgramActivity h n p ok) \<Rightarrow> LoadHostProgramActivity_start h n p w a
      | Some (LoadHostsProgramActivity p as ok) \<Rightarrow> LoadHostsProgramActivity_start p as ok w a
      | Some (HostConfigActivity h t ok) \<Rightarrow> HostConfigActivity_start h t w a
      | Some (HostsConfigActivity t as ok) \<Rightarrow> HostsConfigActivity_start t as ok w a
      | _ \<Rightarrow> Activity_start w a)"

definition slave_serverMessage :: "message \<Rightarrow> slave \<Rightarrow> nat \<Rightarrow> (slave \<times> bool) result" where
  "slave_serverMessage m w a =
     (case heap w a of
        Some Slave_AliveTestActivity \<Rightarrow> Slave_AliveTestActivity_serverMessage m w
      | Some MasterEnrollActivity \<Rightarrow> MasterEnrollActivity_serverMessage m w a
      | Some (Slave_LoadProgramActivity n t l) \<Rightarrow> Slave_LoadProgramActivity_serverMessage n m w a
      | Some Slave_RouteEGProtocolActivity \<Rightarrow> Slave_RouteEGProtocolActivity_serverMessage m w
      | Some (Slave_ConfigActivity c t h) \<Rightarrow> Slave_ConfigActivity_serverMessage c m w a
      | _ \<Rightarrow> Activity_serverMessage m w a)"

definition slave_clientMessage :: "u32 \<Rightarrow> message \<Rightarrow> slave \<Rightarrow> nat \<Rightarrow> (slave \<times> bool) result" where
  "slave_clientMessage uiClient m w a =
     (case heap w a of
        Some HostEnrollActivity \<Rightarrow> HostEnrollActivity_clientMessage uiClient m w
      | Some HostBufferActivity \<Rightarrow> HostBufferActivity_clientMessage uiClient m w
      | Some Slave_RouteEGProtocolActivity \<Rightarrow> Slave_RouteEGProtocolActivity_clientMessage uiClient m w
      | Some (TestHostActivity h n ok) \<Rightarrow> TestHostActivity_clientMessage h n uiClient m w a
      | Some (LoadHostProgramActivity h n p ok) \<Rightarrow> LoadHostProgramActivity_clientMessage h n p uiClient m w a
      | Some (HostConfigActivity h t ok) \<Rightarrow> HostConfigActivity_clientMessage h t uiClient m w a
      | _ \<Rightarrow> Activity_clientMessage uiClient m w a)"

definition slave_activityComplete :: "nat \<Rightarrow> slave \<Rightarrow> nat \<Rightarrow> (slave \<times> bool) result" where
  "slave_activityComplete pActivity w a =
     (case heap w a of
        Some (Slave_LoadProgramActivity n t l) \<Rightarrow> Slave_LoadProgramActivity_activityComplete n t l pActivity w a
      | Some (Slave_ConfigActivity c t h) \<Rightarrow> Slave_ConfigActivity_activityComplete c t h pActivity w a
      | Some (TestHostsActivity as) \<Rightarrow> TestHostsActivity_activityComplete as pActivity w a
      | Some (LoadHostsProgramActivity p as ok) \<Rightarrow> LoadHostsProgramActivity_activityComplete p as ok pActivity w a
      | Some (HostsConfigActivity t as ok) \<Rightarrow> HostsConfigActivity_activityComplete t as ok pActivity w a
      | _ \<Rightarrow> Activity_activityComplete pActivity w a)"

definition slave_vt :: "(slave, message) vtable" where
  "slave_vt =
     \<lparr>v_keepAlive = Activity_keepAlive, v_precondition = slave_precondition,
      v_start = slave_start, v_serverMessage = slave_serverMessage,
      v_clientMessage = slave_clientMessage, v_jobComplete = Activity_jobComplete,
      v_activityComplete = slave_activityComplete,
      v_simulationLockStarted = Activity_simulationLockStarted\<rparr>"

text \<open>The sockets, the file system and the uuid generator are given; the activities start in the order
  of the code.\<close>

record slave_setup =
  su_server :: zmq
  su_egServer :: zmq
  su_client :: zmq
  su_projects :: "string \<Rightarrow> slave_project"
  su_uuids :: "nat \<Rightarrow> string"
  su_unsetEGClient :: u32

definition Slave_ctor :: "slave_setup \<Rightarrow> string \<Rightarrow> string \<Rightarrow> slave" where
  "Slave_ctor su workspacePath strSlaveName =
     \<lparr>m_active = [], m_pending = [], m_stop = False, posted = map EvStart [0, 1, 2, 3, 4, 5, 6],
      heap = [0 \<mapsto> Slave_AliveTestActivity, 1 \<mapsto> MasterEnrollActivity, 2 \<mapsto> HostEnrollActivity,
              3 \<mapsto> Slave_LoadProgramActivity '''' None None, 4 \<mapsto> HostBufferActivity,
              5 \<mapsto> Slave_RouteEGProtocolActivity,
              6 \<mapsto> Slave_ConfigActivity TOTAL_CONFIG_ACTIVITY_TYPES None None],
      next_ref = 7,
      s_workspacePath = workspacePath, s_slaveName = strSlaveName, s_hostMap = HostMap_empty,
      s_sharedBuffers = [], s_networkAddressTable = None, s_activeProgramName = '''',
      s_enrollment = None, s_server = su_server su, s_egServer = su_egServer su,
      s_client = su_client su, s_sentMaster = [], s_sentHost = [], s_sentHostEG = [],
      s_projects = su_projects su, s_uuids = su_uuids su, s_nextUuid = 0,
      s_unsetEGClient = su_unsetEGClient su\<rparr>"

end
