(* ===== verification/Slave_Laws.thy ===== *)
theory Slave_Laws
  imports Slave_Vtable
begin

text \<open>
  The slave's activities keep the contract of the queue (an interpretation of \<open>activity_system\<close>) and
  the map of the hosts keeps its form.
\<close>

abbreviation "sframe \<equiv> qframe class_of_slave"

section \<open>What sending does\<close>

lemma slave_updates_view [simp]:
  "queue_view (w\<lparr>s_sentMaster := ms\<rparr>) = queue_view w"
  "queue_view (w\<lparr>s_sentHost := s\<rparr>) = queue_view w"
  "queue_view (w\<lparr>s_sentHostEG := s\<rparr>) = queue_view w"
  "queue_view (w\<lparr>s_hostMap := hm\<rparr>) = queue_view w"
  "queue_view (w\<lparr>s_networkAddressTable := t\<rparr>) = queue_view w"
  "queue_view (w\<lparr>s_enrollment := b\<rparr>) = queue_view w"
  "queue_view (w\<lparr>s_nextUuid := i, s_sharedBuffers := bs\<rparr>) = queue_view w"
  "queue_view (Slave_removeClient c w) = queue_view w"
  "queue_view (Slave_setActiveProgramName n w) = queue_view w"
  "queue_view (Slave_setHostMap hm w) = queue_view w"
  by (simp_all add: queue_view_def Slave_removeClient_def Slave_setActiveProgramName_def Slave_setHostMap_def)

lemma sendMaster_view: "Slave_sendMaster m w = Inr w' \<Longrightarrow> queue_view w' = queue_view w"
  by (auto simp: Slave_sendMaster_def andThen_eq_Inr)

lemma sendHost_view: "Slave_sendHost m c w = Inr (w', ok) \<Longrightarrow> queue_view w' = queue_view w"
  by (auto simp: Slave_sendHost_def andThen_eq_Inr)

lemma sendHostEG_view: "Slave_sendHostEG m c w = Inr (w', ok) \<Longrightarrow> queue_view w' = queue_view w"
  by (auto simp: Slave_sendHostEG_def andThen_eq_Inr)

lemma postHost_view: "slave_postHost m c w = Inr w' \<Longrightarrow> queue_view w' = queue_view w"
  by (auto simp: slave_postHost_def andThen_eq_Inr dest!: sendHost_view)

lemma postHostEG_view: "slave_postHostEG m c w = Inr w' \<Longrightarrow> queue_view w' = queue_view w"
  by (auto simp: slave_postHostEG_def andThen_eq_Inr dest!: sendHostEG_view)

lemma send_event_hosts_view: "send_event_hosts m src hs w = Inr w' \<Longrightarrow> queue_view w' = queue_view w"
proof (induction m src hs w rule: send_event_hosts.induct)
  case (2 m src e rest w)
  show ?case
  proof (cases "src = Some (h_egClientID (snd e))")
    case True
    with 2 show ?thesis by simp
  next
    case False
    with "2.prems" obtain v ok where s: "Slave_sendHostEG m (h_egClientID (snd e)) w = Inr (v, ok)"
      and r: "(if ok then send_event_hosts m src rest v
        else if h_megaClientID (snd e) = h_egClientID (snd e) then Inl (Ub ''iterator of an erased host'')
        else send_event_hosts m src (eraseByHostMegaClientID (h_egClientID (snd e)) rest) v) = Inr w'"
      by (auto simp: andThen_eq_Inr)
    have "queue_view w' = queue_view v"
      using r "2.IH"(2,3) [OF False] by (auto split: if_splits)
    with sendHostEG_view [OF s] show ?thesis by simp
  qed
qed simp

lemma calculate_slave_view:
  "Slave_calculateNetworkAddressTable sp w = Inr w' \<Longrightarrow> queue_view w' = queue_view w"
  by (auto simp: Slave_calculateNetworkAddressTable_def andThen_eq_Inr split: option.splits)

lemma getSharedBufferName_view: "queue_view (snd (Slave_getSharedBufferName n sz w)) = queue_view w"
  by (auto simp: Slave_getSharedBufferName_def Let_def split: option.splits)

lemmas slave_views =
  sendMaster_view sendHost_view sendHostEG_view postHost_view postHostEG_view send_event_hosts_view
  calculate_slave_view

section \<open>Activities that do not store anything\<close>

lemma plain_serverMessage_view:
  "Slave_AliveTestActivity_serverMessage m w = Inr (w', b) \<Longrightarrow> queue_view w' = queue_view w"
  "Slave_RouteEGProtocolActivity_serverMessage m w = Inr (w', b) \<Longrightarrow> queue_view w' = queue_view w"
  by (auto simp: Slave_AliveTestActivity_serverMessage_def Slave_RouteEGProtocolActivity_serverMessage_def
      route_master_request_def andThen_eq_Inr dest!: slave_views
      split: message.splits option.splits eg_body.splits if_splits)

lemma route_host_request_view: "route_host_request e r u w = Inr w' \<Longrightarrow> queue_view w' = queue_view w"
  by (auto simp: route_host_request_def andThen_eq_Inr Let_def dest!: slave_views
      split: option.splits if_splits)

lemma plain_clientMessage_view:
  "Slave_RouteEGProtocolActivity_clientMessage u m w = Inr (w', b) \<Longrightarrow> queue_view w' = queue_view w"
  "HostEnrollActivity_clientMessage u m w = Inr (w', b) \<Longrightarrow> queue_view w' = queue_view w"
  using getSharedBufferName_view
  by (auto simp: Slave_RouteEGProtocolActivity_clientMessage_def HostEnrollActivity_clientMessage_def
      andThen_eq_Inr Let_def case_prod_unfold
      dest!: slave_views route_host_request_view
      split: message.splits option.splits eg_body.splits if_splits)

lemma HostBuffer_view: "HostBufferActivity_clientMessage u m w = Inr (w', b) \<Longrightarrow> queue_view w' = queue_view w"
  by (auto simp: HostBufferActivity_clientMessage_def andThen_eq_Inr case_prod_unfold Let_def
      getSharedBufferName_view dest!: slave_views split: message.splits)

section \<open>Frames of the other activities\<close>

lemma MasterEnroll_frame:
  assumes "MasterEnrollActivity_serverMessage m w a = Inr (w', b)" shows "sframe w w'"
proof (cases "\<exists>ok p. m = MSS_Enroll ok p")
  case True
  then obtain ok p where m: "m = MSS_Enroll ok p" by blast
  with assms obtain v where "Slave_setEnrollment ok w = Inr v"
    and w': "w' = queue_activityComplete a (if ok then Slave_setActiveProgramName p v else v)"
    by (auto simp: MasterEnrollActivity_serverMessage_def andThen_eq_Inr)
  then have "queue_view v = queue_view w" by (auto simp: Slave_setEnrollment_def split: option.splits)
  then have "sframe w v" "sframe w (Slave_setActiveProgramName p v)" by (auto intro: qframe_view)
  with w' show ?thesis by (auto simp: queue_posts intro: qframe_then_post)
next
  case False
  with assms show ?thesis by (auto simp: MasterEnrollActivity_serverMessage_def split: message.splits)
qed

lemma set_after_new_frame:
  assumes "heap w a = Some y" and "class_of_slave y = class_of_slave x"
  shows "sframe w (set_activity a x (snd (new_activity z2 (snd (new_activity z1 w)))))"
proof (cases "heap_wf w")
  case True
  then have "heap (snd (new_activity z2 (snd (new_activity z1 w)))) a = Some y"
    using assms(1) by (auto simp: new_activity_def heap_wf_def)
  moreover have "sframe w (snd (new_activity z2 (snd (new_activity z1 w))))"
    by (intro qframe_then_new qframe_refl)
  ultimately show ?thesis
    using qframe_set [of _ a y class_of_slave x] assms(2) by (blast intro: qframe_trans)
next
  case False
  then show ?thesis by (simp add: qframe_def set_activity_def new_activity_def)
qed

lemma Slave_LoadProgram_serverMessage_frame:
  assumes "Slave_LoadProgramActivity_serverMessage n m w a = Inr (w', b)"
    and "heap w a = Some (Slave_LoadProgramActivity n t l)"
  shows "sframe w w'"
  using assms(1) set_after_new_frame [OF assms(2)]
  by (auto simp: Slave_LoadProgramActivity_serverMessage_def andThen_eq_Inr case_prod_unfold Let_def queue_posts
      intro!: qframe_then_post intro: qframe_view [OF sendMaster_view] split: message.splits if_splits)

lemma start_existing_frame: "start_existing p w = Inr w' \<Longrightarrow> sframe w w'"
  by (auto simp: start_existing_def queue_posts intro: qframe_post split: option.splits)

lemma LoadProgram_complete_frame:
  assumes "Slave_LoadProgramActivity_activityComplete n t l p w a = Inr (w', b)"
    and "heap w a = Some (Slave_LoadProgramActivity n t l)"
  shows "sframe w w'"
  using assms(1)
  by (auto simp: Slave_LoadProgramActivity_activityComplete_def andThen_eq_Inr
      intro: start_existing_frame intro!: qframe_set_view [OF assms(2)] dest!: sendMaster_view
      split: if_splits option.splits slave_activity.splits)

lemma Slave_Config_serverMessage_frame:
  assumes "Slave_ConfigActivity_serverMessage c m w a = Inr (w', b)"
    and "heap w a = Some (Slave_ConfigActivity c t h)"
  shows "sframe w w'"
  using assms(1) set_after_new_frame [OF assms(2)]
  by (auto simp: Slave_ConfigActivity_serverMessage_def case_prod_unfold Let_def queue_posts
      intro!: qframe_then_post split: message.splits if_splits)

lemma Config_complete_frame:
  assumes "Slave_ConfigActivity_activityComplete c t h p w a = Inr (w', b)"
    and "heap w a = Some (Slave_ConfigActivity c t h)"
  shows "sframe w w'"
  using assms(1)
  by (auto simp: Slave_ConfigActivity_activityComplete_def andThen_eq_Inr
      intro: start_existing_frame intro!: qframe_set_view [OF assms(2)] dest!: sendMaster_view
      split: if_splits option.splits slave_activity.splits)

text \<open>The activities that talk to one host start with one message and end with its answer.\<close>

lemma send_or_complete_frame:
  assumes "Slave_sendHost m c w = Inr (v, ok)"
  shows "sframe w (if ok then v else queue_activityComplete a v)"
  using qframe_view [OF sendHost_view [OF assms]] by (auto simp: queue_posts intro: qframe_then_post)

lemma one_host_start_frame:
  "TestHostActivity_start h n w a = Inr w' \<Longrightarrow> sframe w w'"
  "LoadHostProgramActivity_start h n p w a = Inr w' \<Longrightarrow> sframe w w'"
  "HostConfigActivity_start h t w a = Inr w' \<Longrightarrow> sframe w w'"
  using send_or_complete_frame
  by (auto simp: TestHostActivity_start_def LoadHostProgramActivity_start_def HostConfigActivity_start_def
      andThen_eq_Inr split: config_type.splits)

lemma TestHost_clientMessage_frame:
  assumes "TestHostActivity_clientMessage h n u m w a = Inr (w', b)"
    and "heap w a = Some (TestHostActivity h n ok)"
  shows "sframe w w'"
  using assms(1)
  by (auto simp: TestHostActivity_clientMessage_def queue_posts
      intro!: qframe_then_post qframe_set_view [OF assms(2)] qframe_view [of "Slave_removeClient _ _"]
      split: if_splits message.splits)

lemma LoadHost_clientMessage_frame:
  assumes "LoadHostProgramActivity_clientMessage h n p u m w a = Inr (w', b)"
    and "heap w a = Some (LoadHostProgramActivity h n p ok)"
  shows "sframe w w'"
  using assms(1)
  by (auto simp: LoadHostProgramActivity_clientMessage_def queue_posts Let_def
      intro!: qframe_then_post qframe_set_view' [OF _ assms(2)] split: if_splits message.splits)

lemma HostConfig_clientMessage_frame:
  assumes "HostConfigActivity_clientMessage h t u m w a = Inr (w', b)"
    and "heap w a = Some (HostConfigActivity h t ok)"
  shows "sframe w w'"
  using assms(1)
  by (auto simp: HostConfigActivity_clientMessage_def queue_posts Let_def
      intro!: qframe_then_post qframe_set_view [OF assms(2)]
      split: if_splits message.splits config_type.splits config.splits option.splits config_body.splits)

text \<open>The activities over all hosts.\<close>

lemma start_each_frame: "sframe w (snd (start_each xs as w))"
proof (induction xs arbitrary: as w)
  case (Cons x xs)
  let ?n = "new_activity x w"
  have "sframe w (queue_startActivity (fst ?n) (snd ?n))"
    unfolding queue_posts by (intro qframe_then_post qframe_new)
  with Cons.IH [of "queue_startActivity (fst ?n) (snd ?n)" "as @ [fst ?n]"] show ?case
    by (auto simp: case_prod_unfold Let_def intro: qframe_trans)
qed simp

lemma start_each_heap:
  assumes "heap_wf w" and "heap w a = Some x"
  shows "heap (snd (start_each xs as w)) a = Some x"
  using assms
proof (induction xs arbitrary: as w)
  case (Cons y xs)
  let ?n = "new_activity y w"
  let ?v = "queue_startActivity (fst ?n) (snd ?n)"
  have "heap ?v a = Some x" and "heap_wf ?v"
    using Cons.prems by (auto simp: new_activity_def queue_posts queue_post_def heap_wf_def)
  with Cons.IH show ?case by (simp add: case_prod_unfold Let_def)
qed simp

lemma start_each_set_frame:
  assumes "heap w a = Some y" and "class_of_slave y = class_of_slave x"
    and "queue_view v = queue_view (snd (start_each xs as w))"
  shows "sframe w (set_activity a x v)"
proof (cases "heap_wf w")
  case True
  from start_each_heap [OF True assms(1)] assms(3) have "heap v a = Some y" by (simp add: queue_view_eq)
  moreover have "sframe w v"
    using start_each_frame qframe_view [OF assms(3)] by (rule qframe_trans)
  ultimately show ?thesis
    using qframe_set [of v a y class_of_slave x] assms(2) by (blast intro: qframe_trans)
next
  case False
  with start_each_frame [of w xs as] assms(3) show ?thesis
    by (auto simp: qframe_def set_activity_def queue_view_eq)
qed

lemma TestHosts_start_frame:
  assumes "TestHostsActivity_start as w a = Inr w'" and "heap w a = Some (TestHostsActivity as)"
  shows "sframe w w'"
  using assms(1) start_each_set_frame [OF assms(2)]
  by (auto simp: TestHostsActivity_start_def case_prod_unfold Let_def queue_posts
      intro!: qframe_then_post split: if_splits)

lemma HostsConfig_start_frame:
  assumes "HostsConfigActivity_start t as ok w a = Inr w'" and "heap w a = Some (HostsConfigActivity t as ok)"
  shows "sframe w w'"
  using assms(1) start_each_set_frame [OF assms(2)]
  by (auto simp: HostsConfigActivity_start_def case_prod_unfold Let_def queue_posts
      intro!: qframe_then_post split: if_splits)

lemma LoadHosts_start_frame:
  assumes "LoadHostsProgramActivity_start p as ok w a = Inr w'"
    and "heap w a = Some (LoadHostsProgramActivity p as ok)"
  shows "sframe w w'"
proof -
  have fin: "sframe w (if c then queue_activityComplete a (set_activity a (LoadHostsProgramActivity p x ok) v)
      else set_activity a (LoadHostsProgramActivity p x ok) v)"
    if "queue_view v = queue_view (snd (start_each xs ys w))" for c x v xs ys
    using start_each_set_frame [OF assms(2) _ that] by (auto simp: queue_posts intro: qframe_then_post)
  show ?thesis
  proof (cases "sp_tree (s_projects w p)")
    case (Inl e)
    with assms(1) fin [of w "[]" as "as = []" as] show ?thesis
      by (cases e) (auto simp: LoadHostsProgramActivity_start_def Let_def split: if_splits)
  next
    case (Inr u)
    with assms(1) show ?thesis
      by (auto simp: LoadHostsProgramActivity_start_def andThen_eq_Inr case_prod_unfold Let_def
          dest!: calculate_slave_view intro!: fin [where c = "x = []" for x, simplified if_True])
  qed
qed

lemma TestHosts_complete_frame:
  assumes "TestHostsActivity_activityComplete as p w a = Inr (w', b)"
    and "heap w a = Some (TestHostsActivity as)"
  shows "sframe w w'"
  using assms(1)
  by (auto simp: TestHostsActivity_activityComplete_def Let_def queue_posts
      intro!: qframe_then_post qframe_set_view [OF assms(2)] split: if_splits)

lemma LoadHosts_complete_frame:
  assumes "LoadHostsProgramActivity_activityComplete n as ok p w a = Inr (w', b)"
    and "heap w a = Some (LoadHostsProgramActivity n as ok)"
  shows "sframe w w'"
  using assms(1)
  by (auto simp: LoadHostsProgramActivity_activityComplete_def Let_def queue_posts
      intro!: qframe_then_post qframe_set_view [OF assms(2)]
      split: if_splits option.splits slave_activity.splits)

lemma HostsConfig_complete_frame:
  assumes "HostsConfigActivity_activityComplete t as ok p w a = Inr (w', b)"
    and "heap w a = Some (HostsConfigActivity t as ok)"
  shows "sframe w w'"
  using assms(1)
  by (auto simp: HostsConfigActivity_activityComplete_def Let_def queue_posts
      intro!: qframe_then_post qframe_set_view [OF assms(2)]
      split: if_splits option.splits slave_activity.splits)

lemma slave_start_frame: "slave_start w a = Inr w' \<Longrightarrow> sframe w w'"
  by (auto simp: slave_start_def activity_defaults MasterEnrollActivity_start_def ListHostsActivity_start_def
      queue_posts qframe_post
      dest: one_host_start_frame TestHosts_start_frame LoadHosts_start_frame HostsConfig_start_frame
        qframe_view [OF sendMaster_view]
      split: option.splits slave_activity.splits)

lemma slave_serverMessage_frame: "slave_serverMessage m w a = Inr (w', b) \<Longrightarrow> sframe w w'"
  by (auto simp: slave_serverMessage_def activity_defaults
      dest: plain_serverMessage_view [THEN qframe_view] MasterEnroll_frame Slave_LoadProgram_serverMessage_frame
        Slave_Config_serverMessage_frame
      split: option.splits slave_activity.splits)

lemma slave_clientMessage_frame: "slave_clientMessage u m w a = Inr (w', b) \<Longrightarrow> sframe w w'"
  by (auto simp: slave_clientMessage_def activity_defaults
      dest: plain_clientMessage_view [THEN qframe_view] HostBuffer_view [THEN qframe_view]
        TestHost_clientMessage_frame LoadHost_clientMessage_frame HostConfig_clientMessage_frame
      split: option.splits slave_activity.splits)

lemma slave_activityComplete_frame: "slave_activityComplete p w a = Inr (w', b) \<Longrightarrow> sframe w w'"
  by (auto simp: slave_activityComplete_def activity_defaults
      dest: LoadProgram_complete_frame Config_complete_frame TestHosts_complete_frame
        LoadHosts_complete_frame HostsConfig_complete_frame
      split: option.splits slave_activity.splits)

interpretation slave: activity_system slave_vt class_of_slave exclusive_slave
  by unfold_locales
    (auto simp: slave_vt_def activity_defaults slave_start_frame slave_serverMessage_frame
      slave_clientMessage_frame slave_activityComplete_frame slave_precondition_def
      ExclusiveActivity_precondition_def split: if_splits)

end
