(* ===== verification/Slave_Properties.thy ===== *)
theory Slave_Properties
  imports Slave_Laws Routing_Properties Host_Map_Properties
begin

text \<open>
  What the slave promises: exclusive activities, loads that wait for every host, agreement on shared
  buffers, and where requests and answers go.
\<close>

section \<open>What a slave keeps about its hosts and buffers\<close>

text \<open>The shared names handed out are distinct as long as the uuid generator repeats none.\<close>

definition buffers_ok :: "(string \<times> shared_buffer) list \<Rightarrow> nat \<Rightarrow> (nat \<Rightarrow> string) \<Rightarrow> bool" where
  "buffers_ok bs next us \<longleftrightarrow>
     smap_wf bs \<and> (\<forall>n b. map_of bs n = Some b \<longrightarrow> (\<exists>i < next. sb_sharedName b = us i)) \<and>
     (inj us \<longrightarrow> (\<forall>n b n' b'. map_of bs n = Some b \<longrightarrow> map_of bs n' = Some b' \<longrightarrow>
        sb_sharedName b = sb_sharedName b' \<longrightarrow> n = n'))"

lemma buffers_ok_assign:
  assumes "buffers_ok bs k us" and b: "sb_sharedName b = us k"
  shows "buffers_ok (smap_assign n b bs) (Suc k) us"
proof -
  have wf: "smap_wf bs" and old: "\<And>m c. map_of bs m = Some c \<Longrightarrow> \<exists>i < k. sb_sharedName c = us i"
    and one: "\<And>m c m' c'. inj us \<Longrightarrow> map_of bs m = Some c \<Longrightarrow> map_of bs m' = Some c'
        \<Longrightarrow> sb_sharedName c = sb_sharedName c' \<Longrightarrow> m = m'"
    using assms(1) unfolding buffers_ok_def by blast+
  have new: "map_of bs m = Some c \<Longrightarrow> inj us \<Longrightarrow> sb_sharedName c \<noteq> us k" for m c
    using old by (metis inj_eq less_irrefl)
  have "\<exists>i < Suc k. sb_sharedName c = us i" if "map_of (smap_assign n b bs) m = Some c" for m c
    using that old [of m c] b by (auto simp: smap_assign_find [OF wf] less_Suc_eq split: if_splits)
  moreover have "m = m'" if "inj us" "map_of (smap_assign n b bs) m = Some c"
    "map_of (smap_assign n b bs) m' = Some c'" "sb_sharedName c = sb_sharedName c'" for m c m' c'
    using that new [of m c] new [of m' c'] one [of m c m' c'] b
    by (auto simp: smap_assign_find [OF wf] split: if_splits)
  ultimately show ?thesis unfolding buffers_ok_def using smap_assign_wf [OF wf] by blast
qed

definition slave_wf :: "slave \<Rightarrow> bool" where
  "slave_wf w \<longleftrightarrow> host_map_wf (s_hostMap w) \<and> buffers_ok (s_sharedBuffers w) (s_nextUuid w) (s_uuids w)"

lemma slave_wf_updates [simp]:
  "slave_wf (w\<lparr>s_sentMaster := ms\<rparr>) = slave_wf w"
  "slave_wf (w\<lparr>s_sentHost := s\<rparr>) = slave_wf w"
  "slave_wf (w\<lparr>s_sentHostEG := s\<rparr>) = slave_wf w"
  "slave_wf (w\<lparr>s_networkAddressTable := t\<rparr>) = slave_wf w"
  "slave_wf (w\<lparr>s_enrollment := b\<rparr>) = slave_wf w"
  "slave_wf (Slave_setActiveProgramName n w) = slave_wf w"
  "slave_wf (set_activity a x w) = slave_wf w"
  "slave_wf (queue_post e w) = slave_wf w"
  "slave_wf (snd (new_activity x w)) = slave_wf w"
  by (simp_all add: slave_wf_def Slave_setActiveProgramName_def set_activity_def queue_post_def new_activity_def)

lemma slave_wf_remove: "slave_wf w \<Longrightarrow> slave_wf (Slave_removeClient c w)"
  by (simp add: slave_wf_def Slave_removeClient_def host_map_wf_removeClient)

lemma slave_wf_sends:
  "Slave_sendMaster m w = Inr w' \<Longrightarrow> slave_wf w \<Longrightarrow> slave_wf w'"
  "Slave_sendHost m c w = Inr (w', ok) \<Longrightarrow> slave_wf w \<Longrightarrow> slave_wf w'"
  "Slave_sendHostEG m c w = Inr (w', ok) \<Longrightarrow> slave_wf w \<Longrightarrow> slave_wf w'"
  "slave_postHost m c w = Inr w' \<Longrightarrow> slave_wf w \<Longrightarrow> slave_wf w'"
  "slave_postHostEG m c w = Inr w' \<Longrightarrow> slave_wf w \<Longrightarrow> slave_wf w'"
  by (auto simp: Slave_sendMaster_def Slave_sendHost_def Slave_sendHostEG_def slave_postHost_def
      slave_postHostEG_def andThen_eq_Inr slave_wf_remove)

lemma slave_wf_event: "send_event_hosts m src hs w = Inr w' \<Longrightarrow> slave_wf w \<Longrightarrow> slave_wf w'"
proof (induction m src hs w rule: send_event_hosts.induct)
  case (2 m src e rest w)
  then show ?case
    by (cases "src = Some (h_egClientID (snd e))")
      (auto simp: andThen_eq_Inr dest: slave_wf_sends(3) split: if_splits)
qed simp

lemma slave_wf_each: "slave_wf (snd (start_each xs as w)) = slave_wf w"
  by (induction xs arbitrary: as w) (simp_all add: case_prod_unfold Let_def queue_posts)

lemma slave_wf_buffer: "slave_wf w \<Longrightarrow> slave_wf (snd (Slave_getSharedBufferName n sz w))"
  by (auto simp: Slave_getSharedBufferName_def Let_def slave_wf_def SharedBufferImpl_ctor_def
      intro!: buffers_ok_assign split: option.splits)

lemma slave_wf_calculate: "Slave_calculateNetworkAddressTable sp w = Inr w' \<Longrightarrow> slave_wf w' = slave_wf w"
  by (auto simp: Slave_calculateNetworkAddressTable_def andThen_eq_Inr split: option.splits)

lemma slave_wf_enrolls:
  "slave_wf w \<Longrightarrow> slave_wf (w\<lparr>s_hostMap := snd (HostMap_enroll eg p c u (s_hostMap w))\<rparr>)"
  "slave_wf w \<Longrightarrow> slave_wf (w\<lparr>s_hostMap := snd (HostMap_enrolleg c u (s_hostMap w))\<rparr>)"
  by (simp_all add: slave_wf_def host_map_wf_enroll host_map_wf_enrolleg)

lemma process_pairs_distinct:
  assumes "distinct (map snd pairs)" shows "distinct (map snd (mmap_insert p n pairs)) \<longleftrightarrow> n \<notin> snd ` set pairs"
  using assms by (induction p n pairs rule: mmap_insert.induct) auto

lemma smap_insert_wf_fold: "smap_wf m \<Longrightarrow> smap_wf (fold (\<lambda>i m. smap_insert (f i) (g i) m) xs m)"
  by (induction xs arbitrary: m) (auto simp: smap_insert_wf)

text \<open>The mapping of names is built by insertions, whatever the names of the program are.\<close>

lemma reuse_names_wf:
  "reuse_names pairs oldNames old mapping = (left, on, old', mapping') \<Longrightarrow> smap_wf mapping \<Longrightarrow> smap_wf mapping'"
proof (induction pairs oldNames old mapping arbitrary: left on old' mapping' rule: reuse_names.induct)
  case (2 p n rest oldNames old mapping)
  show ?case
  proof (cases "map_of oldNames n")
    case None
    with 2 show ?thesis by (auto simp: Let_def split: prod.splits)
  next
    case (Some h0)
    with 2 show ?thesis
      by (auto simp: Let_def smap_insert_wf split: option.splits prod.splits)
  qed
qed simp

lemma assign_names_wf:
  "assign_names pairs old mapping = (mapping', old', names) \<Longrightarrow> smap_wf mapping \<Longrightarrow> smap_wf mapping'"
  by (induction pairs old mapping arbitrary: mapping' old' names rule: assign_names.induct)
    (auto simp: Let_def smap_insert_wf split: option.splits prod.splits)

lemma HostMap_ctor_wf:
  assumes "host_map_wf hm" and "HostMap_ctor hm pairs = (hm', cs, ns)" shows "host_map_wf hm'"
proof -
  obtain left on old mapping where r: "reuse_names pairs (hm_names hm) (hm_processes hm) [] = (left, on, old, mapping)"
    by (metis surj_pair)
  obtain m old' nm where a: "assign_names left old mapping = (m, old', nm)" by (metis surj_pair)
  have "smap_wf m" using assign_names_wf [OF a reuse_names_wf [OF r smap_wf_Nil]] .
  with assms r a show ?thesis by (auto simp: HostMap_ctor_def host_map_wf_def)
qed

lemma slave_wf_LoadHosts:
  assumes "LoadHostsProgramActivity_start p as ok w a = Inr w'" and "slave_wf w" shows "slave_wf w'"
proof (cases "sp_tree (s_projects w p)")
  case (Inl e)
  with assms show ?thesis
    by (cases e) (auto simp: LoadHostsProgramActivity_start_def Let_def queue_posts)
next
  case (Inr u)
  have set: "slave_wf (Slave_setHostMap (fst (HostMap_ctor (s_hostMap w) pairs)) v)"
    if "slave_wf v" for pairs v
    using HostMap_ctor_wf [of "s_hostMap w" pairs] assms(2) that
    by (cases "HostMap_ctor (s_hostMap w) pairs") (auto simp: slave_wf_def Slave_setHostMap_def)
  have "slave_wf (snd (start_each xs as w))" for xs using assms(2) by (simp add: slave_wf_each)
  with Inr assms(1) set show ?thesis
    by (auto simp: LoadHostsProgramActivity_start_def andThen_eq_Inr case_prod_unfold Let_def queue_posts
        dest!: slave_wf_calculate)
qed

lemma slave_wf_start: "slave_wf w \<Longrightarrow> slave_start w a = Inr w' \<Longrightarrow> slave_wf w'"
  by (auto simp: slave_start_def MasterEnrollActivity_start_def TestHostActivity_start_def
      TestHostsActivity_start_def ListHostsActivity_start_def LoadHostProgramActivity_start_def
      HostConfigActivity_start_def HostsConfigActivity_start_def activity_defaults andThen_eq_Inr
      case_prod_unfold Let_def queue_posts slave_wf_each
      dest: slave_wf_sends slave_wf_LoadHosts
      split: option.splits slave_activity.splits if_splits config_type.splits)

lemma slave_wf_server: "slave_wf w \<Longrightarrow> slave_serverMessage m w a = Inr (w', b) \<Longrightarrow> slave_wf w'"
  by (auto simp: slave_serverMessage_def Slave_AliveTestActivity_serverMessage_def
      MasterEnrollActivity_serverMessage_def Slave_setEnrollment_def Slave_LoadProgramActivity_serverMessage_def
      Slave_RouteEGProtocolActivity_serverMessage_def route_master_request_def
      Slave_ConfigActivity_serverMessage_def activity_defaults andThen_eq_Inr case_prod_unfold Let_def queue_posts
      dest: slave_wf_sends slave_wf_event
      split: option.splits slave_activity.splits message.splits if_splits eg_body.splits)

lemma slave_wf_route: "slave_wf w \<Longrightarrow> route_host_request e r u w = Inr w' \<Longrightarrow> slave_wf w'"
  by (auto simp: route_host_request_def andThen_eq_Inr Let_def dest: slave_wf_sends
      split: option.splits if_splits)

lemma slave_wf_plain:
  "slave_wf w \<Longrightarrow> HostEnrollActivity_clientMessage u m w = Inr (w', b) \<Longrightarrow> slave_wf w'"
  "slave_wf w \<Longrightarrow> HostBufferActivity_clientMessage u m w = Inr (w', b) \<Longrightarrow> slave_wf w'"
  using slave_wf_enrolls [of w] slave_wf_buffer [of w]
  by (fastforce simp: HostEnrollActivity_clientMessage_def HostBufferActivity_clientMessage_def andThen_eq_Inr
      Let_def case_prod_unfold dest: slave_wf_sends split: message.splits if_splits)+

lemma slave_wf_client: "slave_wf w \<Longrightarrow> slave_clientMessage u m w a = Inr (w', b) \<Longrightarrow> slave_wf w'"
  by (auto simp: slave_clientMessage_def Slave_RouteEGProtocolActivity_clientMessage_def
      TestHostActivity_clientMessage_def LoadHostProgramActivity_clientMessage_def
      HostConfigActivity_clientMessage_def activity_defaults andThen_eq_Inr Let_def queue_posts slave_wf_remove
      dest: slave_wf_plain slave_wf_route slave_wf_sends slave_wf_event
      split: option.splits slave_activity.splits message.splits if_splits eg_body.splits config_type.splits
        config.splits config_body.splits)

lemma slave_wf_complete: "slave_wf w \<Longrightarrow> slave_activityComplete p w a = Inr (w', b) \<Longrightarrow> slave_wf w'"
  by (auto simp: slave_activityComplete_def Slave_LoadProgramActivity_activityComplete_def start_existing_def
      Slave_ConfigActivity_activityComplete_def TestHostsActivity_activityComplete_def
      LoadHostsProgramActivity_activityComplete_def HostsConfigActivity_activityComplete_def
      activity_defaults andThen_eq_Inr Let_def queue_posts
      dest: slave_wf_sends split: option.splits slave_activity.splits if_splits)

interpretation slave_hosts: node_invariant slave_vt slave_wf
  by unfold_locales
    (auto simp: slave_vt_def activity_defaults intro: slave_wf_start slave_wf_server slave_wf_client
      slave_wf_complete, simp_all add: slave_wf_def)

text \<open>The other threads of a slave post to it; the network and the files change under it.\<close>

inductive slave_env :: "slave \<Rightarrow> slave \<Rightarrow> bool" where
  senv_posted: "queue_posted_by_others w w' \<Longrightarrow> slave_env w w'"
| senv_network: "slave_env w (w\<lparr>s_server := z, s_egServer := z', s_client := z''\<rparr>)"
| senv_files: "slave_env w (w\<lparr>s_projects := ps\<rparr>)"

lemma slave_env_frame: "slave_env w w' \<Longrightarrow> sframe w w'"
  by (induction rule: slave_env.induct)
    (auto intro: queue_posted_by_others_frame qframe_view simp: queue_view_def)

lemma slave_env_hosts: "slave_env w w' \<Longrightarrow> slave_wf w \<Longrightarrow> slave_wf w'"
  by (induction rule: slave_env.induct)
    (auto simp: queue_posts slave_wf_def queue_post_def new_activity_def elim!: queue_posted_by_othersE)

lemma Slave_ctor_ok: "exclusive_ok class_of_slave exclusive_slave (Slave_ctor su ws n) \<and> slave_wf (Slave_ctor su ws n)"
  by (auto simp: exclusive_ok_def heap_wf_def Slave_ctor_def slave_wf_def host_map_wf_def HostMap_empty_def
      mmap_wf_def buffers_ok_def)

section \<open>Demonstration state\<close>

definition demo_project :: slave_project where
  "demo_project = \<lparr>sp_tree = Inr (), sp_coordinators = [(''alpha'', [(''h2'', [(''prog'', [''basic.exe''])])])],
     sp_processName = \<lambda>c. Inr ''basic'', sp_session = None\<rparr>"

definition demo_setup :: slave_setup where
  "demo_setup = \<lparr>su_server = good_zmq, su_egServer = good_zmq, su_client = good_zmq,
     su_projects = (\<lambda>n. if n = ''prog'' then demo_project else demo_project\<lparr>sp_tree := Inl (Rte ''no project'')\<rparr>),
     su_uuids = (\<lambda>i. replicate i (CHR ''x'')), su_unsetEGClient = 0\<rparr>"

definition demo_slave :: slave where
  "demo_slave = Slave_ctor demo_setup ''/work'' ''alpha''"

lemmas demo_slave_defs = demo_slave_def Slave_ctor_def demo_setup_def demo_project_def

lemma good_sendMaster:
  "Client_send (s_client w) = Inr True \<Longrightarrow> Slave_sendMaster m w = Inr (w\<lparr>s_sentMaster := s_sentMaster w @ [m]\<rparr>)"
  by (simp add: Slave_sendMaster_def)

lemma good_postHost:
  "Server_send (s_server w) c = Inr True \<Longrightarrow> slave_postHost m c w = Inr (w\<lparr>s_sentHost := s_sentHost w @ [(c, m)]\<rparr>)"
  by (simp add: slave_postHost_def Slave_sendHost_def)

lemma good_postHostEG:
  "Server_send (s_egServer w) c = Inr True \<Longrightarrow>
   slave_postHostEG m c w = Inr (w\<lparr>s_sentHostEG := s_sentHostEG w @ [(c, m)]\<rparr>)"
  by (simp add: slave_postHostEG_def Slave_sendHostEG_def)

lemmas good_sends = good_sendMaster good_postHost good_postHostEG

section \<open>Properties\<close>

text \<open>C16. In every reachable state of a slave at most one activity of each exclusive class (loading a
  program, loading it into the hosts, configuring, configuring the hosts, buffers) is active, hosts
  and host names are in order, and two shared buffers never have the same shared name as long as the
  uuid generator does not repeat itself.\<close>

theorem slave_reachable:
  assumes "queue_reach slave_vt brk slave_env (Slave_ctor su ws n) w"
  shows "host_map_wf (s_hostMap w) \<and>
    (inj (s_uuids w) \<longrightarrow> (\<forall>b bu b' bu'. map_of (s_sharedBuffers w) b = Some bu \<longrightarrow>
       map_of (s_sharedBuffers w) b' = Some bu' \<longrightarrow> sb_sharedName bu = sb_sharedName bu' \<longrightarrow> b = b')) \<and>
    (\<forall>k \<in> {SLoadProgram, SLoadHosts, SConfig, SHostsConfig, SHostBuffer}.
       length (filter (\<lambda>a. kind_of class_of_slave w a = Some k) (m_active w)) \<le> 1)"
proof -
  have "slave_wf w"
    using slave_hosts.reach_keeps [OF assms] Slave_ctor_ok slave_env_hosts by blast
  moreover have "exclusive_ok class_of_slave exclusive_slave w"
    using slave.reach_exclusive [OF assms] Slave_ctor_ok slave_env_frame by blast
  ultimately show ?thesis unfolding slave_wf_def buffers_ok_def exclusive_ok_def by auto
qed

theorem slave_reachable_witness: "host_map_wf (s_hostMap demo_slave)"
  using slave_reachable [OF reach_init, of demo_setup] by (simp add: demo_slave_def)

section \<open>Loading a program\<close>

text \<open>A load request is refused while the slave loads a program, and otherwise starts a test of
  the hosts; when the test completes the hosts are loaded.  The guard looks at the name of the
  program being loaded: with an empty name the slave counts as idle.\<close>

theorem slave_load_guard:
  assumes "heap w a = Some (Slave_LoadProgramActivity cur t l)" and "heap_wf w"
    and "Client_send (s_client w) = Inr True"
  shows "(cur \<noteq> '''' \<longrightarrow> slave_serverMessage (MSQ_Load p) w a
            = Inr (w\<lparr>s_sentMaster := s_sentMaster w @ [SMS_Load False]\<rparr>, True))
       \<and> (cur = '''' \<longrightarrow> (\<exists>w'. slave_serverMessage (MSQ_Load p) w a = Inr (w', True)
            \<and> s_sentMaster w' = s_sentMaster w \<and> posted w' = posted w @ [EvStart (next_ref w)]
            \<and> heap w' (next_ref w) = Some (TestHostsActivity [])
            \<and> slave_activityComplete (next_ref w) w' a = Inr (queue_startActivity (Suc (next_ref w)) w', True)
            \<and> heap w' (Suc (next_ref w)) = Some (LoadHostsProgramActivity p [] True)))"
proof (intro conjI impI)
  assume "cur \<noteq> ''''"
  with assms show "slave_serverMessage (MSQ_Load p) w a
      = Inr (w\<lparr>s_sentMaster := s_sentMaster w @ [SMS_Load False]\<rparr>, True)"
    by (simp add: slave_serverMessage_def Slave_LoadProgramActivity_serverMessage_def good_sends sms_load_def)
next
  assume "cur = ''''"
  moreover have "a < next_ref w" using assms(1,2) by (auto simp: heap_wf_def not_le [symmetric])
  ultimately show "\<exists>w'. slave_serverMessage (MSQ_Load p) w a = Inr (w', True)
      \<and> s_sentMaster w' = s_sentMaster w \<and> posted w' = posted w @ [EvStart (next_ref w)]
      \<and> heap w' (next_ref w) = Some (TestHostsActivity [])
      \<and> slave_activityComplete (next_ref w) w' a = Inr (queue_startActivity (Suc (next_ref w)) w', True)
      \<and> heap w' (Suc (next_ref w)) = Some (LoadHostsProgramActivity p [] True)"
    using assms(1)
    by (auto simp: slave_serverMessage_def Slave_LoadProgramActivity_serverMessage_def new_activity_def Let_def
        queue_posts queue_post_def set_activity_def slave_activityComplete_def
        Slave_LoadProgramActivity_activityComplete_def start_existing_def)
qed

theorem slave_load_guard_witness:
  "\<exists>w'. slave_serverMessage (MSQ_Load ''prog'') demo_slave 3 = Inr (w', True)
        \<and> heap w' 8 = Some (LoadHostsProgramActivity ''prog'' [] True)"
  using slave_load_guard [of demo_slave 3 "''''" None None "''prog''"]
  by (auto simp: demo_slave_defs heap_wf_def)

text \<open>The loads of single hosts complete, one after the other.\<close>

fun load_completions :: "nat list \<Rightarrow> nat \<Rightarrow> slave \<Rightarrow> slave result" where
  "load_completions [] a w = Inr w"
| "load_completions (p # ps) a w = andThen (slave_activityComplete p w a) (\<lambda>(w', _). load_completions ps a w')"

lemma load_completion_one:
  assumes "heap w a = Some (LoadHostsProgramActivity n loads ok)" and "p \<in> set loads"
    and "heap w p = Some (LoadHostProgramActivity h hn pn r)"
  shows "slave_activityComplete p w a = Inr
    ((if removeAll p loads = [] then queue_activityComplete a else id)
       (set_activity a (LoadHostsProgramActivity n (removeAll p loads) (ok \<and> r)) w), True)"
  using assms by (simp add: slave_activityComplete_def LoadHostsProgramActivity_activityComplete_def Let_def)

lemma set_activity_again [simp]: "set_activity a x (set_activity a y w) = set_activity a x w"
  by (simp add: set_activity_def)

lemma removeAll_then_filter: "filter (\<lambda>q. q \<notin> set ps) (removeAll p xs) = filter (\<lambda>q. q \<notin> set (p # ps)) xs"
  by (induction xs) auto

lemma load_completions_run:
  assumes "heap w a = Some (LoadHostsProgramActivity n loads ok)" and "set ps \<subseteq> set loads" and "distinct ps"
    and "\<forall>p \<in> set loads. \<exists>h hn pn. heap w p = Some (LoadHostProgramActivity h hn pn (res p))"
    and "ps \<noteq> []"
  shows "load_completions ps a w = Inr
    ((if set loads \<subseteq> set ps then queue_activityComplete a else id)
       (set_activity a (LoadHostsProgramActivity n (filter (\<lambda>p. p \<notin> set ps) loads)
          (ok \<and> (\<forall>p \<in> set ps. res p))) w))"
  using assms
proof (induction ps arbitrary: w loads ok)
  case Nil
  then show ?case by simp
next
  case (Cons p ps)
  obtain h hn pn where hp: "heap w p = Some (LoadHostProgramActivity h hn pn (res p))" using Cons.prems by auto
  let ?l = "removeAll p loads"
  let ?v = "set_activity a (LoadHostsProgramActivity n ?l (ok \<and> res p)) w"
  have "p \<in> set loads" using Cons.prems(2) by simp
  note one = load_completion_one [OF Cons.prems(1) this hp]
  have sub: "set ps \<subseteq> set ?l" using Cons.prems(2,3) by auto
  show ?case
  proof (cases "ps = []")
    case True
    have "?l = [] \<longleftrightarrow> set loads \<subseteq> {p}" by (auto simp: removeAll_filter_not_eq filter_empty_conv)
    with True one show ?thesis using removeAll_then_filter [of "[]" p loads] by simp
  next
    case False
    then have "?l \<noteq> []" using sub by (cases ps) (auto simp del: set_removeAll)
    with one have "load_completions (p # ps) a w = load_completions ps a ?v" by simp
    also have "heap ?v a = Some (LoadHostsProgramActivity n ?l (ok \<and> res p))" by (simp add: set_activity_def)
    moreover have "\<forall>q \<in> set ?l. \<exists>h hn pn. heap ?v q = Some (LoadHostProgramActivity h hn pn (res q))"
      using Cons.prems(1,4) by (auto simp: set_activity_def)
    ultimately have "load_completions (p # ps) a w = Inr
      ((if set ?l \<subseteq> set ps then queue_activityComplete a else id)
       (set_activity a (LoadHostsProgramActivity n (filter (\<lambda>q. q \<notin> set ps) ?l)
          ((ok \<and> res p) \<and> (\<forall>q \<in> set ps. res q))) ?v))"
      using Cons.IH [of ?v ?l "ok \<and> res p"] sub Cons.prems(3) False by simp
    moreover have "set ?l \<subseteq> set ps \<longleftrightarrow> set loads \<subseteq> set (p # ps)" by auto
    ultimately show ?thesis unfolding removeAll_then_filter by (simp add: conj_assoc)
  qed
qed

text \<open>The end of the load of the hosts, which the slave reports to the master.\<close>

lemma load_report:
  assumes parent: "heap w a = Some (Slave_LoadProgramActivity p (Some t) (Some l))" "t \<noteq> l"
    and load: "heap w l = Some (LoadHostsProgramActivity n [] ok)"
    and net: "Client_send (s_client w) = Inr True"
  shows "\<exists>w2. slave_activityComplete l w a = Inr (w2, True)
    \<and> s_sentMaster w2 = s_sentMaster w @ [SMS_Load ok]
    \<and> s_activeProgramName w2 = (if ok then p else s_activeProgramName w) \<and> s_hostMap w2 = s_hostMap w"
  using assms
  by (simp add: slave_activityComplete_def Slave_LoadProgramActivity_activityComplete_def good_sends
      set_activity_def sms_load_def Slave_setActiveProgramName_def)

text \<open>C9. Loading a program into the hosts waits for each of them: while some of the loads have not
  completed nothing is posted and the master is told nothing; when all have completed, in whatever
  order, the load completes once, and then the slave answers the master with the conjunction of the
  hosts' results, takes the program as the active one exactly on success, and is idle again.\<close>

theorem load_hosts_answer:
  assumes load: "heap w l = Some (LoadHostsProgramActivity p loads True)"
    and parent: "heap w a = Some (Slave_LoadProgramActivity p (Some t) (Some l))" "t \<noteq> l"
    and hosts: "\<forall>q \<in> set loads. \<exists>h hn pn. heap w q = Some (LoadHostProgramActivity h hn pn (res q))"
    and order: "distinct (ps @ qs)" "set (ps @ qs) = set loads" "ps \<noteq> []"
    and net: "Client_send (s_client w) = Inr True"
  shows "\<exists>w1. load_completions ps l w = Inr w1 \<and> s_sentMaster w1 = s_sentMaster w
       \<and> (qs \<noteq> [] \<longrightarrow> posted w1 = posted w)
       \<and> (qs = [] \<longrightarrow> posted w1 = posted w @ [EvComplete l] \<and>
           (\<exists>w2. slave_activityComplete l w1 a = Inr (w2, True)
              \<and> s_sentMaster w2 = s_sentMaster w @ [SMS_Load (\<forall>q \<in> set loads. res q)]
              \<and> s_activeProgramName w2 = (if \<forall>q \<in> set loads. res q then p else s_activeProgramName w)
              \<and> heap w2 a = Some (Slave_LoadProgramActivity '''' (Some t) (Some l))))"
proof -
  have sub: "set ps \<subseteq> set loads" and dist: "distinct ps" using order by auto
  have "a \<noteq> l" using load parent by auto
  have all: "set loads \<subseteq> set ps \<longleftrightarrow> qs = []" using order by (cases qs) auto
  let ?v = "set_activity l (LoadHostsProgramActivity p (filter (\<lambda>q. q \<notin> set ps) loads) (\<forall>q \<in> set ps. res q)) w"
  note run = load_completions_run [OF load sub dist hosts order(3), unfolded all]
  show ?thesis
  proof (cases "qs = []")
    case False
    with run show ?thesis by (simp add: set_activity_def)
  next
    case True
    let ?w1 = "queue_activityComplete l ?v"
    have "set ps = set loads" using True order(2) by simp
    then have "slave_activityComplete l ?w1 a = Inr (set_activity a (Slave_LoadProgramActivity '''' (Some t) (Some l))
        ((if \<forall>q \<in> set loads. res q then Slave_setActiveProgramName p ?w1 else ?w1)
          \<lparr>s_sentMaster := s_sentMaster w @ [SMS_Load (\<forall>q \<in> set loads. res q)]\<rparr>), True)"
      using parent \<open>a \<noteq> l\<close> net
      by (simp add: slave_activityComplete_def Slave_LoadProgramActivity_activityComplete_def good_sends
          queue_posts queue_post_def set_activity_def sms_load_def Slave_setActiveProgramName_def)
    with run True show ?thesis
      by (simp add: queue_posts queue_post_def set_activity_def Slave_setActiveProgramName_def)
  qed
qed

definition loading_slave :: slave where
  "loading_slave = demo_slave\<lparr>heap := [3 \<mapsto> Slave_LoadProgramActivity ''prog'' (Some 7) (Some 8),
     8 \<mapsto> LoadHostsProgramActivity ''prog'' [9, 10] True,
     9 \<mapsto> LoadHostProgramActivity (demo_host ''basic'' 3) ''h1'' ''prog'' True,
     10 \<mapsto> LoadHostProgramActivity (demo_host ''basic'' 5) ''h2'' ''prog'' False]\<rparr>"

theorem load_hosts_answer_witness:
  "\<exists>w1 w2. load_completions [10, 9] 8 loading_slave = Inr w1
     \<and> slave_activityComplete 8 w1 3 = Inr (w2, True) \<and> s_sentMaster w2 = [SMS_Load False]"
  using load_hosts_answer [of loading_slave 8 "''prog''" "[9, 10]" 3 7 "\<lambda>q. q = 9" "[10, 9]" "[]"]
  by (auto simp: loading_slave_def demo_slave_defs)

text \<open>What the loop over the hosts makes.\<close>

lemma start_each_result:
  assumes "start_each xs as w = (bs, w')"
  shows "bs = as @ [next_ref w ..< next_ref w + length xs]
    \<and> posted w' = posted w @ map EvStart [next_ref w ..< next_ref w + length xs]
    \<and> (\<forall>b < next_ref w. heap w' b = heap w b)
    \<and> (\<forall>i < length xs. heap w' (next_ref w + i) = Some (xs ! i))"
  using assms
proof (induction xs arbitrary: as w bs w')
  case (Cons x xs)
  let ?v = "queue_startActivity (next_ref w) (snd (new_activity x w))"
  have run: "start_each xs (as @ [next_ref w]) ?v = (bs, w')" using Cons.prems by (simp add: new_activity_def)
  have v: "next_ref ?v = Suc (next_ref w)" "posted ?v = posted w @ [EvStart (next_ref w)]"
    "heap ?v = (heap w)(next_ref w \<mapsto> x)"
    by (simp_all add: new_activity_def queue_posts queue_post_def)
  have up: "[n ..< n + length (x # xs)] = n # [Suc n ..< Suc n + length xs]" for n by (simp add: upt_rec)
  note IH = Cons.IH [OF run, unfolded v]
  from IH have "heap w' (next_ref w + i) = Some ((x # xs) ! i)" if "i < length (x # xs)" for i
    using that by (cases i) auto
  with IH show ?case unfolding up by auto
qed simp

text \<open>Starting the load of a program whose project is found assigns the host names of the project to
  the enrolled hosts and starts one load for every enrolled host: with its host name and the program
  for those that got a name, with empty names (to unload) for the others.  The load waits for
  exactly these.\<close>

theorem load_hosts_starts:
  assumes act: "heap w l = Some (LoadHostsProgramActivity p [] ok)" and wf: "heap_wf w"
    and tree: "sp_tree (s_projects w p) = Inr ()"
    and names: "processNameToHostName (s_projects w p) (s_slaveName w) p (sp_coordinators (s_projects w p)) [] = Inr pairs"
    and ctor: "HostMap_ctor (s_hostMap w) pairs = (hm, clients, left)"
    and "sp_session (s_projects w p) = None" and "distinct (map snd pairs)"
  shows "\<exists>w' as. slave_start w l = Inr w' \<and> s_hostMap w' = hm
       \<and> heap w' l = Some (LoadHostsProgramActivity p as ok)
       \<and> as = [next_ref w ..< next_ref w + length clients + length (hm_names hm)]
       \<and> map (heap w') as = map Some (map (\<lambda>h. LoadHostProgramActivity h '''' '''' True) clients @
           map (\<lambda>(n, h). LoadHostProgramActivity h n p True) (hm_names hm))
       \<and> mset (clients @ map snd (hm_names hm)) = mset (map snd (hm_processes (s_hostMap w)))
       \<and> posted w' = posted w @ (if as = [] then [EvComplete l] else map EvStart as)"
proof -
  let ?xs = "load_activities p clients (hm_names hm)"
  obtain as v where each: "start_each ?xs [] w = (as, v)" by (cases "start_each ?xs [] w")
  note r = start_each_result [OF each]
  have as: "as = [next_ref w ..< next_ref w + length ?xs]" using r by simp
  let ?u = "set_activity l (LoadHostsProgramActivity p as ok) (Slave_setHostMap hm v\<lparr>s_networkAddressTable := None\<rparr>)"
  let ?w' = "if as = [] then queue_activityComplete l ?u else ?u"
  have start: "slave_start w l = Inr ?w'"
    using act tree names ctor each assms(6)
    by (simp add: slave_start_def LoadHostsProgramActivity_start_def Slave_calculateNetworkAddressTable_def
        Slave_setHostMap_def set_activity_def queue_posts queue_post_def)
  have "l < next_ref w" using act wf by (auto simp: heap_wf_def not_le [symmetric])
  moreover have "heap ?w' = (heap v)(l \<mapsto> LoadHostsProgramActivity p as ok)"
    by (simp add: queue_posts queue_post_def set_activity_def Slave_setHostMap_def)
  ultimately have "heap ?w' b = heap v b" if "b \<in> set as" for b using that as by auto
  then have "map (heap ?w') as = map (heap v) as" by simp
  also have "\<dots> = map Some ?xs"
    unfolding as using r by (intro nth_equalityI) (simp_all del: upt_Suc)
  finally have "map (heap ?w') as = map Some ?xs" .
  moreover have "mset (clients @ map snd (hm_names hm)) = mset (map snd (hm_processes (s_hostMap w)))"
    using HostMap_ctor_assigns [OF ctor assms(7)] by (simp add: assignment_of_def add.commute)
  moreover have "posted ?w' = posted w @ (if as = [] then [EvComplete l] else map EvStart as)"
    using r as by (simp add: queue_posts queue_post_def set_activity_def Slave_setHostMap_def)
  moreover have "s_hostMap ?w' = hm" "heap ?w' l = Some (LoadHostsProgramActivity p as ok)" "as = [next_ref w ..< next_ref w + length clients + length (hm_names hm)]"
    using as by (simp_all add: queue_posts queue_post_def set_activity_def Slave_setHostMap_def load_activities_def add.assoc)
  ultimately show ?thesis using start unfolding load_activities_def by blast
qed

definition starting_slave :: slave where
  "starting_slave = demo_slave\<lparr>heap := [8 \<mapsto> LoadHostsProgramActivity ''prog'' [] True], next_ref := 9, posted := [],
     s_hostMap := \<lparr>hm_processes = [(''basic'', demo_host ''basic'' 3), (''other'', demo_host ''other'' 5)], hm_names = []\<rparr>\<rparr>"

lemma demo_process_names:
  "processNameToHostName (s_projects starting_slave ''prog'') (s_slaveName starting_slave) ''prog''
     (sp_coordinators (s_projects starting_slave ''prog'')) [] = Inr [(''basic'', ''h2'')]"
  "HostMap_ctor (s_hostMap starting_slave) [(''basic'', ''h2'')]
   = (\<lparr>hm_processes = hm_processes (s_hostMap starting_slave), hm_names = [(''h2'', demo_host ''basic'' 3)]\<rparr>,
      [demo_host ''other'' 5], [])"
  by (simp_all add: starting_slave_def demo_slave_defs host_process_def HostMap_ctor_def smap_erase_def)

theorem load_hosts_starts_witness:
  "\<exists>w'. slave_start starting_slave 8 = Inr w' \<and> posted w' = [EvStart 9, EvStart 10]"
proof -
  have "[9 ..< 11] = [9, 10 :: nat]" by (simp add: upt_rec)
  with load_hosts_starts [OF _ _ _ demo_process_names, of 8 True] show ?thesis
    by (simp add: starting_slave_def demo_slave_defs heap_wf_def) (elim exE conjE, simp)
qed

text \<open>C23. Two loads are reported as successful that are not.  When the project of the program cannot be
  read, no host is asked to load anything, yet the master is told success and the program becomes the
  active one.  And when the load request for a host cannot be sent, its load completes as if it had
  succeeded and the host is forgotten: if no other host reports a failure, then after the loads have
  completed, in any order, the master is told success and the program becomes the active one.\<close>

theorem load_failures_reported_as_success:
  assumes parent: "heap w a = Some (Slave_LoadProgramActivity p (Some t) (Some l))" "t \<noteq> l"
    and net: "Client_send (s_client w) = Inr True"
  shows "(heap w l = Some (LoadHostsProgramActivity p [] True) \<and> sp_tree (s_projects w p) = Inl (Rte e) \<longrightarrow>
       (\<exists>w1 w2. slave_start w l = Inr w1 \<and> posted w1 = posted w @ [EvComplete l] \<and> s_hostMap w1 = s_hostMap w
          \<and> s_sentHost w1 = s_sentHost w
          \<and> slave_activityComplete l w1 a = Inr (w2, True)
          \<and> s_sentMaster w2 = s_sentMaster w @ [SMS_Load True] \<and> s_activeProgramName w2 = p))
    \<and> (heap w l = Some (LoadHostsProgramActivity p loads True)
        \<and> (\<forall>r \<in> set loads. \<exists>h hn pn. heap w r = Some (LoadHostProgramActivity h hn pn True))
        \<and> q \<in> set loads \<and> heap w q = Some (LoadHostProgramActivity h hn pn True)
        \<and> Server_send (s_server w) (h_megaClientID h) = Inr False
        \<and> distinct ps \<and> set ps = set loads \<longrightarrow>
       (\<exists>w1 w2 w3. slave_start w q = Inr w1 \<and> posted w1 = posted w @ [EvComplete q] \<and> s_sentHost w1 = s_sentHost w
          \<and> load_completions ps l w1 = Inr w2 \<and> posted w2 = posted w1 @ [EvComplete l]
          \<and> slave_activityComplete l w2 a = Inr (w3, True)
          \<and> s_sentMaster w3 = s_sentMaster w @ [SMS_Load True] \<and> s_activeProgramName w3 = p
          \<and> s_hostMap w3 = HostMap_removeClient (h_megaClientID h) (s_hostMap w)))"
proof (intro conjI impI; elim conjE)
  assume load: "heap w l = Some (LoadHostsProgramActivity p [] True)" and tree: "sp_tree (s_projects w p) = Inl (Rte e)"
  have "a \<noteq> l" using load parent by auto
  with load parent tree net
  show "\<exists>w1 w2. slave_start w l = Inr w1 \<and> posted w1 = posted w @ [EvComplete l] \<and> s_hostMap w1 = s_hostMap w
      \<and> s_sentHost w1 = s_sentHost w \<and> slave_activityComplete l w1 a = Inr (w2, True)
      \<and> s_sentMaster w2 = s_sentMaster w @ [SMS_Load True] \<and> s_activeProgramName w2 = p"
    by (simp add: slave_start_def LoadHostsProgramActivity_start_def slave_activityComplete_def
        Slave_LoadProgramActivity_activityComplete_def good_sends queue_posts queue_post_def set_activity_def
        sms_load_def Slave_setActiveProgramName_def)
next
  assume load: "heap w l = Some (LoadHostsProgramActivity p loads True)"
    and hosts: "\<forall>r \<in> set loads. \<exists>h hn pn. heap w r = Some (LoadHostProgramActivity h hn pn True)"
    and q: "q \<in> set loads" "heap w q = Some (LoadHostProgramActivity h hn pn True)"
    and gone: "Server_send (s_server w) (h_megaClientID h) = Inr False"
    and ps: "distinct ps" "set ps = set loads"
  let ?w1 = "queue_activityComplete q (Slave_removeClient (h_megaClientID h) w)"
  have w1: "slave_start w q = Inr ?w1"
    using q gone by (simp add: slave_start_def LoadHostProgramActivity_start_def Slave_sendHost_def)
  have f: "heap ?w1 = heap w" "posted ?w1 = posted w @ [EvComplete q]" "s_sentHost ?w1 = s_sentHost w"
    "s_sentMaster ?w1 = s_sentMaster w" "s_client ?w1 = s_client w"
    "s_hostMap ?w1 = HostMap_removeClient (h_megaClientID h) (s_hostMap w)"
    by (simp_all add: queue_posts queue_post_def Slave_removeClient_def)
  let ?w2 = "queue_activityComplete l (set_activity l (LoadHostsProgramActivity p [] True) ?w1)"
  have "ps \<noteq> []" using q(1) ps(2) by auto
  then have w2: "load_completions ps l ?w1 = Inr ?w2"
    using load_completions_run [of ?w1 l p loads True ps "\<lambda>_. True"] load hosts ps by (simp add: f(1))
  have "a \<noteq> l" using load parent by auto
  then have a: "heap ?w2 a = Some (Slave_LoadProgramActivity p (Some t) (Some l))"
    using parent f(1) by (simp add: queue_posts queue_post_def set_activity_def)
  have "heap ?w2 l = Some (LoadHostsProgramActivity p [] True)" "Client_send (s_client ?w2) = Inr True"
    using net f(5) by (simp_all add: queue_posts queue_post_def set_activity_def)
  from load_report [OF a parent(2) this] obtain w3 where
    "slave_activityComplete l ?w2 a = Inr (w3, True)" "s_sentMaster w3 = s_sentMaster ?w2 @ [SMS_Load True]"
    "s_activeProgramName w3 = p" "s_hostMap w3 = s_hostMap ?w2" by auto
  moreover have "s_sentMaster ?w2 = s_sentMaster w" "s_hostMap ?w2 = HostMap_removeClient (h_megaClientID h) (s_hostMap w)"
    "posted ?w2 = posted ?w1 @ [EvComplete l]"
    using f(4,6) by (simp_all add: queue_posts queue_post_def set_activity_def)
  ultimately show "\<exists>w1 w2 w3. slave_start w q = Inr w1 \<and> posted w1 = posted w @ [EvComplete q] \<and> s_sentHost w1 = s_sentHost w
      \<and> load_completions ps l w1 = Inr w2 \<and> posted w2 = posted w1 @ [EvComplete l]
      \<and> slave_activityComplete l w2 a = Inr (w3, True)
      \<and> s_sentMaster w3 = s_sentMaster w @ [SMS_Load True] \<and> s_activeProgramName w3 = p
      \<and> s_hostMap w3 = HostMap_removeClient (h_megaClientID h) (s_hostMap w)"
    using w1 w2 f(2,3)
    by - (rule exI [of _ ?w1], rule exI [of _ ?w2], rule exI [of _ w3], simp)
qed

text \<open>A slave that loads a program whose project is lost, and one that loads a program into two hosts of
  which none can be reached.\<close>

definition failing_slave :: slave where
  "failing_slave = demo_slave\<lparr>heap := [3 \<mapsto> Slave_LoadProgramActivity ''lost'' (Some 7) (Some 8),
     8 \<mapsto> LoadHostsProgramActivity ''lost'' [] True]\<rparr>"

definition unreachable_slave :: slave where
  "unreachable_slave = demo_slave\<lparr>heap := [3 \<mapsto> Slave_LoadProgramActivity ''prog'' (Some 7) (Some 8),
     8 \<mapsto> LoadHostsProgramActivity ''prog'' [9, 10] True,
     9 \<mapsto> LoadHostProgramActivity (demo_host ''basic'' 3) ''h1'' ''prog'' True,
     10 \<mapsto> LoadHostProgramActivity (demo_host ''basic'' 5) ''h2'' ''prog'' True],
     s_server := good_zmq\<lparr>z_server_send := \<lambda>_. Some (EOther 113)\<rparr>\<rparr>"

theorem load_failures_reported_as_success_witness:
  "(\<exists>w1 w2. slave_start failing_slave 8 = Inr w1 \<and> slave_activityComplete 8 w1 3 = Inr (w2, True)
     \<and> s_sentMaster w2 = [SMS_Load True]) \<and>
   (\<exists>w1 w2 w3. slave_start unreachable_slave 9 = Inr w1 \<and> load_completions [10, 9] 8 w1 = Inr w2
     \<and> slave_activityComplete 8 w2 3 = Inr (w3, True) \<and> s_sentMaster w3 = [SMS_Load True])"
proof
  show "\<exists>w1 w2. slave_start failing_slave 8 = Inr w1 \<and> slave_activityComplete 8 w1 3 = Inr (w2, True)
     \<and> s_sentMaster w2 = [SMS_Load True]"
    using load_failures_reported_as_success [of failing_slave 3 "''lost''" 7 8 "''no project''", THEN conjunct1]
    by (auto simp: failing_slave_def demo_slave_defs demo_host_def)
  have "Server_send (s_server unreachable_slave) 3 = Inr False"
    by (simp add: unreachable_slave_def good_zmq_def Server_send_def ZMQMsg_route_ctor_def ZMQMsg_send_ctor_def)
  then show "\<exists>w1 w2 w3. slave_start unreachable_slave 9 = Inr w1 \<and> load_completions [10, 9] 8 w1 = Inr w2
     \<and> slave_activityComplete 8 w2 3 = Inr (w3, True) \<and> s_sentMaster w3 = [SMS_Load True]"
    using load_failures_reported_as_success [of unreachable_slave 3 "''prog''" 7 8 _ "[9, 10]" 9 "demo_host ''basic'' 3"
        "''h1''" "''prog''" "[10, 9]", THEN conjunct2]
    by (auto simp: unreachable_slave_def demo_slave_defs demo_host_def)
qed

text \<open>A configuration request that comes while another one is worked on is neither refused nor
  remembered: nothing is sent, posted or stored for it.\<close>

theorem config_request_dropped:
  assumes "heap w a = Some (Slave_ConfigActivity cur t h)" and "cur \<noteq> TOTAL_CONFIG_ACTIVITY_TYPES"
  shows "slave_serverMessage (Config_msg c) w a = Inr (w, False)"
  using assms by (simp add: slave_serverMessage_def Slave_ConfigActivity_serverMessage_def Let_def)

theorem config_request_dropped_witness:
  "slave_serverMessage config_load_msq
     (demo_slave\<lparr>heap := [6 \<mapsto> Slave_ConfigActivity eConfigSaving (Some 7) (Some 8)]\<rparr>) 6
   = Inr (demo_slave\<lparr>heap := [6 \<mapsto> Slave_ConfigActivity eConfigSaving (Some 7) (Some 8)]\<rparr>, False)"
  unfolding config_load_msq_def by (rule config_request_dropped) (simp, rule config_type.distinct)

lemma mega_for_eg_set:
  "\<exists>h. (p, h) \<in> set m \<and> h_uniqueID h = u \<Longrightarrow> c \<notin> h_egClientID ` snd ` set m \<Longrightarrow>
   \<exists>h \<in> snd ` set m. h_uniqueID h = u \<and> mega_for_eg (set_eg_client c u m) c = h_megaClientID h"
  by (induction c u m rule: set_eg_client.induct) auto

lemma mega_for_eg_none:
  "u \<notin> h_uniqueID ` snd ` set m \<Longrightarrow> c \<notin> h_egClientID ` snd ` set m \<Longrightarrow> mega_for_eg (set_eg_client c u m) c = 0"
  by (induction c u m rule: set_eg_client.induct) auto

text \<open>An EG enrollment is acknowledged on the mega socket of the host that has the unique id; with a
  unique id no host has, and an EG id not yet in use, it takes the slave down.\<close>

theorem enrolleg_answer:
  assumes fresh: "c \<notin> h_egClientID ` snd ` set (hm_processes (s_hostMap w))"
    and act: "heap w a = Some HostEnrollActivity"
    and net: "\<And>x. Server_send (s_server w) x = Inr True"
    and ids: "0 \<notin> h_megaClientID ` snd ` set (hm_processes (s_hostMap w))"
  shows "(u \<in> h_uniqueID ` snd ` set (hm_processes (s_hostMap w)) \<longrightarrow>
            (\<exists>w' h. slave_clientMessage c (HCQ_EnrollEG u) w a = Inr (w', False)
               \<and> h \<in> snd ` set (hm_processes (s_hostMap w)) \<and> h_uniqueID h = u
               \<and> s_sentHost w' = s_sentHost w @ [(h_megaClientID h, CHS_EnrollEG True)]))
       \<and> (u \<notin> h_uniqueID ` snd ` set (hm_processes (s_hostMap w)) \<longrightarrow>
            slave_clientMessage c (HCQ_EnrollEG u) w a = Inl (Rte ''uiMegaClientID != 0''))"
proof (intro conjI impI)
  let ?m = "hm_processes (s_hostMap w)"
  assume "u \<in> h_uniqueID ` snd ` set ?m"
  then obtain p g where "(p, g) \<in> set ?m \<and> h_uniqueID g = u" by auto
  with mega_for_eg_set [of p ?m u c] fresh obtain h where h: "h \<in> snd ` set ?m" "h_uniqueID h = u"
    "mega_for_eg (set_eg_client c u ?m) c = h_megaClientID h" by blast
  moreover have "h_megaClientID h \<noteq> 0" using h(1) ids by force
  ultimately show "\<exists>w' h. slave_clientMessage c (HCQ_EnrollEG u) w a = Inr (w', False)
      \<and> h \<in> snd ` set ?m \<and> h_uniqueID h = u
      \<and> s_sentHost w' = s_sentHost w @ [(h_megaClientID h, CHS_EnrollEG True)]"
    using act net
    by (simp add: slave_clientMessage_def HostEnrollActivity_clientMessage_def HostMap_enrolleg_def
        HostMap_getMegaClientForEGClient_def good_sends chs_enrolleg_def) blast
next
  assume "u \<notin> h_uniqueID ` snd ` set (hm_processes (s_hostMap w))"
  with mega_for_eg_none [OF _ fresh] act
  show "slave_clientMessage c (HCQ_EnrollEG u) w a = Inl (Rte ''uiMegaClientID != 0'')"
    by (simp add: slave_clientMessage_def HostEnrollActivity_clientMessage_def HostMap_enrolleg_def
        HostMap_getMegaClientForEGClient_def)
qed

theorem enrolleg_answer_witness:
  "slave_clientMessage 4 (HCQ_EnrollEG ''id'') demo_slave 2 = Inl (Rte ''uiMegaClientID != 0'')"
  using enrolleg_answer [of 4 demo_slave 2 "''id''"] by (simp add: demo_slave_defs HostMap_empty_def)

section \<open>Shared buffers\<close>

fun buffer_requests :: "(string \<times> nat) list \<Rightarrow> slave \<Rightarrow> slave" where
  "buffer_requests [] w = w"
| "buffer_requests ((n, sz) # rs) w = buffer_requests rs (snd (Slave_getSharedBufferName n sz w))"

lemma buffer_requests_keep:
  assumes "slave_wf w" and "map_of (s_sharedBuffers w) n = Some b" and "n \<notin> fst ` set rs"
  shows "map_of (s_sharedBuffers (buffer_requests rs w)) n = Some b"
  using assms
proof (induction rs w rule: buffer_requests.induct)
  case (2 m sz rs w)
  have "smap_wf (s_sharedBuffers w)" using "2.prems"(1) by (simp add: slave_wf_def buffers_ok_def)
  then have "map_of (s_sharedBuffers (snd (Slave_getSharedBufferName m sz w))) n = Some b"
    using "2.prems"(2,3)
    by (auto simp: Slave_getSharedBufferName_def Let_def smap_assign_find split: option.splits)
  with 2 slave_wf_buffer show ?case by simp
qed simp

text \<open>Every host that asks for a buffer of the same name and size gets the same shared name, whatever
  is asked for in between about other buffers; asking with another size gets a fresh name, which
  replaces the old one for everybody.\<close>

theorem shared_buffer_agreement:
  assumes wf: "slave_wf w" and first: "Slave_getSharedBufferName n sz w = (s, w1)" and "n \<notin> fst ` set rs"
  shows "fst (Slave_getSharedBufferName n sz (buffer_requests rs w1)) = s
       \<and> (sz' \<noteq> sz \<longrightarrow>
            (let w2 = buffer_requests rs w1; (s', w3) = Slave_getSharedBufferName n sz' w2
             in s' = s_uuids w2 (s_nextUuid w2) \<and> fst (Slave_getSharedBufferName n sz' w3) = s'))"
proof -
  have sm: "smap_wf (s_sharedBuffers w)" using wf by (simp add: slave_wf_def buffers_ok_def)
  from first have "\<exists>b. map_of (s_sharedBuffers w1) n = Some b \<and> sb_sharedName b = s \<and> sb_size b = sz"
    by (auto simp: Slave_getSharedBufferName_def Let_def smap_assign_find [OF sm] SharedBufferImpl_ctor_def
        split: option.splits if_splits)
  moreover have "slave_wf w1" using slave_wf_buffer [OF wf, of n sz] first by simp
  ultimately obtain b where b: "map_of (s_sharedBuffers (buffer_requests rs w1)) n = Some b"
    "sb_sharedName b = s" "sb_size b = sz" and wf1: "slave_wf w1"
    using buffer_requests_keep [OF _ _ assms(3)] by blast
  have "slave_wf (buffer_requests rs v)" if "slave_wf v" for v
    using that by (induction rs v rule: buffer_requests.induct) (auto intro: slave_wf_buffer)
  with wf1 have "smap_wf (s_sharedBuffers (buffer_requests rs w1))"
    unfolding slave_wf_def buffers_ok_def by blast
  with b show ?thesis
    by (auto simp: Slave_getSharedBufferName_def Let_def smap_assign_find SharedBufferImpl_ctor_def)
qed

theorem shared_buffer_agreement_witness:
  "fst (Slave_getSharedBufferName ''b'' 8
     (buffer_requests [(''c'', 4)] (snd (Slave_getSharedBufferName ''b'' 8 demo_slave)))) = ''''"
  using shared_buffer_agreement [of demo_slave "''b''" 8 "''''" "snd (Slave_getSharedBufferName ''b'' 8 demo_slave)"
      "[(''c'', 4)]" 8] Slave_ctor_ok [of demo_setup "''/work''" "''alpha''"]
  by (simp add: demo_slave_defs Slave_getSharedBufferName_def)

section \<open>Routing\<close>

lemma slave_table_owned:
  assumes own: "owns root C H (uint ty)" and root: "getMegaRoot inst = Inr root"
    and ts: "NetworkAddressTable_slave hosts n (Some inst) = Inr ts"
  shows "getClientForType ts ty = Inr (if n = el_identifier C then client_of hosts (el_identifier H) else MasterID)"
  using table_from_reads(2) [OF ts [unfolded NetworkAddressTable_slave_def] root] owned_slave [OF own]
  by (simp add: slave_children_find)

lemma client_ids: "UnMapped \<noteq> MasterID" "UnMapped \<noteq> SelfID" "MasterID \<noteq> SelfID"
  by (simp_all add: UnMapped_def MasterID_def SelfID_def)

text \<open>C18. A request that a host sends for a type: the slave of the coordinator that owns the type passes
  it on to the host that owns it, every other slave to the master, marked with the host it came from;
  when the owner is not enrolled the host gets an error.\<close>

theorem slave_routes_host_request:
  assumes own: "owns root C H (uint (eg_type egMsg))" and root: "getMegaRoot inst = Inr root"
    and ts: "NetworkAddressTable_slave hosts n (Some inst) = Inr ts"
    and nat: "s_networkAddressTable w = Some ts" and body: "eg_body egMsg = Some (EgRequest r)"
    and target: "\<And>c. map_of hosts (el_identifier H) = Some c \<Longrightarrow> c \<notin> {u, UnMapped, MasterID, SelfID}"
    and u: "u \<noteq> UnMapped" "u \<noteq> MasterID"
    and net: "\<And>x. Server_send (s_server w) x = Inr True" "\<And>x. Server_send (s_egServer w) x = Inr True"
      "Client_send (s_client w) = Inr True"
  shows "Slave_RouteEGProtocolActivity_clientMessage u (EG_Msg egMsg) w = Inr
      (if n \<noteq> el_identifier C
       then w\<lparr>s_sentMaster := s_sentMaster w @ [EG_Msg (egMsg\<lparr>eg_body := Some (EgRequest (r\<lparr>rq_host := u\<rparr>))\<rparr>)]\<rparr>
       else case map_of hosts (el_identifier H) of
              Some c \<Rightarrow> w\<lparr>s_sentHost := s_sentHost w @
                [(c, EG_Msg (egMsg\<lparr>eg_body := Some (EgRequest (r\<lparr>rq_host := u\<rparr>))\<rparr>))]\<rparr>
            | None \<Rightarrow> w\<lparr>s_sentHostEG := s_sentHostEG w @
                [(u, eg_error_reply egMsg (rq_coordinator r) (rq_host r))]\<rparr>, True)"
  using target u slave_table_owned [OF own root ts] client_ids nat body net
  by (cases "map_of hosts (el_identifier H)")
    (auto simp: Slave_RouteEGProtocolActivity_clientMessage_def route_host_request_def client_of_def
      good_sends copyRequestSetSourceHost_def)

definition routing_slave :: slave where
  "routing_slave = demo_slave\<lparr>s_networkAddressTable := Some [0, 0, SelfID, 0, 0, 21, 21, MasterID, MasterID, MasterID]\<rparr>"

lemma routing_slave_sends:
  "Server_send (s_server routing_slave) x = Inr True" "Server_send (s_egServer routing_slave) x = Inr True"
  "Client_send (s_client routing_slave) = Inr True"
  by (simp_all add: routing_slave_def demo_slave_defs)

theorem slave_routes_host_request_witness:
  "\<exists>w'. Slave_RouteEGProtocolActivity_clientMessage 33 (EG_Msg demo_request) routing_slave = Inr (w', True)
        \<and> map fst (s_sentHost w') = [21]"
  using slave_routes_host_request [of demo_root demo_alpha demo_alpha_h2 demo_request, OF _ demo_megaRoot
      demo_tables(2), of routing_slave _ 33, OF _ _ _ _ _ _ routing_slave_sends] demo_owns
  by (auto simp: demo_request_def demo_alpha_def demo_alpha_h2_def routing_slave_def demo_slave_defs
      UnMapped_def MasterID_def SelfID_def)

text \<open>A request that the master passes to the slave of the coordinator that owns its type goes on to
  the host that owns it unchanged, so that its answer finds the way back; when that host is not
  enrolled the master gets an error with the return path of the request.\<close>

theorem slave_routes_master_request:
  assumes own: "owns root C H (uint (eg_type egMsg))" and root: "getMegaRoot inst = Inr root"
    and ts: "NetworkAddressTable_slave hosts (el_identifier C) (Some inst) = Inr ts"
    and nat: "s_networkAddressTable w = Some ts" and body: "eg_body egMsg = Some (EgRequest r)"
    and target: "\<And>c. map_of hosts (el_identifier H) = Some c \<Longrightarrow> c \<notin> {UnMapped, MasterID, SelfID}"
    and net: "\<And>x. Server_send (s_server w) x = Inr True" "Client_send (s_client w) = Inr True"
  shows "Slave_RouteEGProtocolActivity_serverMessage (EG_Msg egMsg) w = Inr
      (case map_of hosts (el_identifier H) of
         Some c \<Rightarrow> w\<lparr>s_sentHost := s_sentHost w @ [(c, EG_Msg egMsg)]\<rparr>
       | None \<Rightarrow> w\<lparr>s_sentMaster := s_sentMaster w @ [eg_error_reply egMsg (rq_coordinator r) (rq_host r)]\<rparr>, True)"
  using target slave_table_owned [OF own root ts] client_ids nat body net
  by (cases "map_of hosts (el_identifier H)")
    (auto simp: Slave_RouteEGProtocolActivity_serverMessage_def route_master_request_def client_of_def good_sends)

theorem slave_routes_master_request_witness:
  "\<exists>w'. Slave_RouteEGProtocolActivity_serverMessage (EG_Msg demo_request) routing_slave = Inr (w', True)
        \<and> map fst (s_sentHost w') = [21]"
  using slave_routes_master_request [of demo_root demo_alpha demo_alpha_h2 demo_request "demo_instance"
      "[(''h2'', 21)]" _ routing_slave, OF _ demo_megaRoot _ _ _ _ routing_slave_sends(1,3)] demo_tables(2) demo_owns
  by (auto simp: demo_request_def demo_alpha_def demo_alpha_h2_def routing_slave_def demo_slave_defs
      UnMapped_def MasterID_def SelfID_def)

text \<open>A response or an error goes where its return path says: from the master, or from a host with
  no coordinator on the path, to the host it names; from a host with a coordinator on the path, to
  the master.\<close>

theorem slave_routes_back:
  assumes net: "\<And>x. Server_send (s_egServer w) x = Inr True" "Client_send (s_client w) = Inr True"
    and path: "(eg_body egMsg = Some (EgResponse rs) \<and> co = rs_coordinator rs \<and> ho = rs_host rs) \<or>
      (eg_body egMsg = Some (EgError er) \<and> co = er_coordinator er \<and> ho = er_host er)"
    and "ho \<noteq> 0"
  shows "Slave_RouteEGProtocolActivity_serverMessage (EG_Msg egMsg) w
           = Inr (w\<lparr>s_sentHostEG := s_sentHostEG w @ [(ho, EG_Msg egMsg)]\<rparr>, True)
       \<and> Slave_RouteEGProtocolActivity_clientMessage u (EG_Msg egMsg) w
           = Inr (if co \<noteq> 0 then w\<lparr>s_sentMaster := s_sentMaster w @ [EG_Msg egMsg]\<rparr>
                  else w\<lparr>s_sentHostEG := s_sentHostEG w @ [(ho, EG_Msg egMsg)]\<rparr>, True)"
  using assms
  by (auto simp: Slave_RouteEGProtocolActivity_serverMessage_def Slave_RouteEGProtocolActivity_clientMessage_def
      good_sends)

theorem slave_routes_back_witness:
  "Slave_RouteEGProtocolActivity_serverMessage
     (EG_Msg (demo_request\<lparr>eg_body := Some (EgError \<lparr>er_coordinator = 0, er_host = 7\<rparr>)\<rparr>)) demo_slave
   = Inr (demo_slave\<lparr>s_sentHostEG :=
       [(7, EG_Msg (demo_request\<lparr>eg_body := Some (EgError \<lparr>er_coordinator = 0, er_host = 7\<rparr>)\<rparr>))]\<rparr>, True)"
  using slave_routes_back [of demo_slave "demo_request\<lparr>eg_body := Some (EgError \<lparr>er_coordinator = 0, er_host = 7\<rparr>)\<rparr>" _
      0 7 "\<lparr>er_coordinator = 0, er_host = 7\<rparr>"]
  by (simp add: demo_slave_defs)

end
