(* ===== verification/Environment_String.thy ===== *)
theory Environment_String
  imports Mega_Prelude
begin

text \<open>
  \<open>src/schema/environment_string.cpp\<close>: the replacement of \<open>${NAME}\<close> in the paths of a project.
  The regular expression \<open>\$\{([^}]+)\}\<close> is searched from left to right: \<open>env_match\<close> is a match at
  a position, its one capture group the name; a name that the lookup does not know throws, as
  \<open>Environment::get\<close> does.  The reference definition of the round trip prints a text of
  segments.
\<close>

section \<open>The scan for names in braces\<close>

text \<open>The longest run of characters other than a closing brace, followed by one: the name and what
  comes after the brace.\<close>

fun env_name :: "string \<Rightarrow> (string \<times> string) option" where
  "env_name [] = None"
| "env_name (c # cs) =
     (if c = CHR ''}'' then Some ([], cs)
      else map_option (\<lambda>(n, r). (c # n, r)) (env_name cs))"

lemma env_name_append: "CHR ''}'' \<notin> set n \<Longrightarrow> env_name (n @ CHR ''}'' # r) = Some (n, r)"
  by (induction n) auto

lemma env_name_Some: "env_name cs = Some (n, r) \<longleftrightarrow> CHR ''}'' \<notin> set n \<and> cs = n @ CHR ''}'' # r"
proof
  show "env_name cs = Some (n, r) \<Longrightarrow> CHR ''}'' \<notin> set n \<and> cs = n @ CHR ''}'' # r"
    by (induction cs arbitrary: n) (auto split: if_splits)
qed (auto simp: env_name_append)

lemma env_name_length: "env_name cs = Some (n, r) \<Longrightarrow> length r < length cs"
  by (simp add: env_name_Some)

text \<open>A match of the expression at the head of a string.\<close>

definition env_match :: "string \<Rightarrow> (string \<times> string) option" where
  "env_match cs =
     (case cs of
        d # b # rest \<Rightarrow>
          if d = CHR ''$'' \<and> b = CHR ''{''
          then (case env_name rest of
                  Some (n, r) \<Rightarrow> if n = [] then None else Some (n, r)
                | None \<Rightarrow> None)
          else None
      | _ \<Rightarrow> None)"

lemma env_match_Some:
  "env_match cs = Some (n, r) \<longleftrightarrow> n \<noteq> [] \<and> CHR ''}'' \<notin> set n \<and> cs = ''${'' @ n @ CHR ''}'' # r"
proof
  show "env_match cs = Some (n, r) \<Longrightarrow> n \<noteq> [] \<and> CHR ''}'' \<notin> set n \<and> cs = ''${'' @ n @ CHR ''}'' # r"
    by (auto simp: env_match_def env_name_Some split: list.splits option.splits if_splits)
qed (auto simp: env_match_def env_name_append)

lemma env_match_length: "env_match cs = Some (n, r) \<Longrightarrow> length r < length cs"
  by (simp add: env_match_Some)

lemma env_match_Nil [simp]: "env_match [] = None"
  by (simp add: env_match_def)

text \<open>The loop of \<open>expand\<close>: copy up to the next match, then what the lookup gives for its name.\<close>

function env_expand :: "(string \<Rightarrow> string result) \<Rightarrow> string \<Rightarrow> string result" where
  "env_expand lookup [] = Inr []"
| "env_expand lookup (c # cs) =
     (case env_match (c # cs) of
        Some (n, r) \<Rightarrow>
          andThen (lookup n) (\<lambda>v. andThen (env_expand lookup r) (\<lambda>out. Inr (v @ out)))
      | None \<Rightarrow> andThen (env_expand lookup cs) (\<lambda>out. Inr (c # out)))"
  by pat_completeness auto

termination env_expand
  by (relation "measure (\<lambda>(lookup, cs). length cs)") (auto dest: env_match_length)

section \<open>Texts of segments\<close>

text \<open>A text with names in it, how it is written, and what it stands for.\<close>

datatype segment = Lit string | Ref string

fun segment_text :: "segment \<Rightarrow> string" where
  "segment_text (Lit s) = s"
| "segment_text (Ref n) = ''${'' @ n @ ''}''"

fun segment_value :: "(string \<Rightarrow> string result) \<Rightarrow> segment \<Rightarrow> string result" where
  "segment_value lookup (Lit s) = Inr s"
| "segment_value lookup (Ref n) = lookup n"

fun segments_value :: "(string \<Rightarrow> string result) \<Rightarrow> segment list \<Rightarrow> string result" where
  "segments_value lookup [] = Inr []"
| "segments_value lookup (s # ss) =
     andThen (segment_value lookup s) (\<lambda>v. andThen (segments_value lookup ss) (\<lambda>out. Inr (v @ out)))"

text \<open>Literals without a dollar sign and names without a closing brace are read back.\<close>

fun segment_ok :: "segment \<Rightarrow> bool" where
  "segment_ok (Lit s) \<longleftrightarrow> CHR ''$'' \<notin> set s"
| "segment_ok (Ref n) \<longleftrightarrow> n \<noteq> [] \<and> CHR ''}'' \<notin> set n"

definition segments_text :: "segment list \<Rightarrow> string" where
  "segments_text ss = concat (map segment_text ss)"

lemma env_match_no_dollar: "c \<noteq> CHR ''$'' \<Longrightarrow> env_match (c # cs) = None"
  by (auto simp: env_match_def split: list.splits)

lemma andThen_Inr_right [simp]: "andThen r Inr = r"
  by (cases r) auto

lemma env_expand_literal:
  "CHR ''$'' \<notin> set s \<Longrightarrow> env_expand lookup (s @ cs) = andThen (env_expand lookup cs) (\<lambda>out. Inr (s @ out))"
  by (induction s) (auto simp: env_match_no_dollar andThen_assoc)

lemma env_expand_match:
  assumes "env_match cs = Some (n, r)"
  shows "env_expand lookup cs = andThen (lookup n) (\<lambda>v. andThen (env_expand lookup r) (\<lambda>out. Inr (v @ out)))"
  using assms by (cases cs) auto

lemma env_expand_ref:
  assumes "n \<noteq> []" and "CHR ''}'' \<notin> set n"
  shows "env_expand lookup (''${'' @ n @ ''}'' @ cs) =
    andThen (lookup n) (\<lambda>v. andThen (env_expand lookup cs) (\<lambda>out. Inr (v @ out)))"
  by (rule env_expand_match) (use assms in \<open>auto simp: env_match_Some\<close>)

lemma env_expand_segments:
  "list_all segment_ok ss \<Longrightarrow> env_expand lookup (segments_text ss) = segments_value lookup ss"
proof (induction ss)
  case Nil
  then show ?case by (simp add: segments_text_def)
next
  case (Cons s ss)
  then show ?case
    by (cases s) (use env_expand_literal env_expand_ref in \<open>auto simp: segments_text_def\<close>)
qed

text \<open>Without a complete reference the text is its own expansion; a failing lookup is passed on.\<close>

lemma env_expand_plain:
  assumes "\<And>pre n post. CHR ''}'' \<notin> set n \<Longrightarrow> n \<noteq> [] \<Longrightarrow> s \<noteq> pre @ ''${'' @ n @ ''}'' @ post"
  shows "env_expand lookup s = Inr s"
  using assms
proof (induction s)
  case (Cons c cs)
  have "env_match (c # cs) = None"
  proof (rule ccontr)
    assume "env_match (c # cs) \<noteq> None"
    then obtain n r where "env_match (c # cs) = Some (n, r)" by (cases "env_match (c # cs)") auto
    then show False using Cons.prems [of n "[]" r] by (auto simp: env_match_Some)
  qed
  moreover have "env_expand lookup cs = Inr cs"
    by (rule Cons.IH) (use Cons.prems in \<open>metis append_Cons\<close>)
  ultimately show ?case by simp
qed simp

text \<open>The lookup is only asked for names that stand in the text.\<close>

lemma env_expand_cong:
  assumes "\<And>pre n post. CHR ''}'' \<notin> set n \<Longrightarrow> n \<noteq> [] \<Longrightarrow> s = pre @ ''${'' @ n @ ''}'' @ post \<Longrightarrow> l n = l' n"
  shows "env_expand l s = env_expand l' s"
  using assms
proof (induction l s rule: env_expand.induct)
  case (2 l c cs)
  show ?case
  proof (cases "env_match (c # cs)")
    case None
    have "env_expand l cs = env_expand l' cs"
      by (rule "2.IH"(1) [OF None]) (use "2.prems" in \<open>metis append_Cons\<close>)
    with None show ?thesis by simp
  next
    case (Some p)
    then obtain n r where m: "env_match (c # cs) = Some (n, r)" by (cases p) auto
    then have e: "n \<noteq> []" "CHR ''}'' \<notin> set n" "c # cs = ''${'' @ n @ CHR ''}'' # r"
      by (auto simp: env_match_Some)
    have "l n = l' n" by (rule "2.prems" [of n "[]" r]) (use e in auto)
    moreover have "env_expand l r = env_expand l' r"
    proof (rule "2.IH"(2) [OF m refl])
      fix pre n' post
      assume "CHR ''}'' \<notin> set n'" "n' \<noteq> []" "r = pre @ ''${'' @ n' @ ''}'' @ post"
      with e show "l n' = l' n'"
        by (intro "2.prems" [of n' "''${'' @ n @ CHR ''}'' # pre" post]) auto
    qed
    ultimately show ?thesis using m by simp
  qed
qed simp

end
