(* ===== verification/Project_Environment.thy ===== *)
theory Project_Environment
  imports Environment_String
begin

text \<open>
  \<open>src/schema/project.cpp\<close>: the environment of a process, the XML documents of hosts, packages
  and projects, and the project of a directory.

  \<^item> A path is the list of its elements (the root directory is one); \<open>path_append\<close>
    is \<open>operator/\<close> of \<open>boost::filesystem\<close>.
  \<^item> The file system, the XML parser and the functions of the \<open>common\<close> library, which the sources
    only call, are the fields of a \<open>platform\<close>.
  \<^item> The documents that \<open>XMLManager\<close> keeps and the function-local static paths, which are computed
    once in a process, are an \<open>eg_process\<close> that the operations pass on.
\<close>

section \<open>Paths\<close>

type_synonym path = "string list"

definition is_separator :: "char \<Rightarrow> bool" where
  "is_separator c \<longleftrightarrow> c = CHR ''/'' \<or> c = CHR 0x5C"

text \<open>The elements of a relative path: separators in a row count as one, one at the end gives the
  element \<open>.\<close>.\<close>

fun split_elements :: "string \<Rightarrow> string \<Rightarrow> path" where
  "split_elements acc [] = (if acc = [] then [] else [rev acc])"
| "split_elements acc (c # cs) =
     (if is_separator c
      then (if acc = [] then [] else [rev acc]) @ (if cs = [] then [''.''] else split_elements [] cs)
      else split_elements (c # acc) cs)"

definition elements :: "string \<Rightarrow> path" where
  "elements s = split_elements [] s"

text \<open>A whole path: a separator at its head is the root directory, an element of its own.\<close>

definition path_of :: "string \<Rightarrow> path" where
  "path_of s = (case s of [] \<Rightarrow> [] | c # cs \<Rightarrow> if is_separator c then ''/'' # (if cs = [] then [] else elements cs) else elements s)"

definition path_append :: "path \<Rightarrow> string \<Rightarrow> path" where
  "path_append p s = p @ elements s"

definition generic_string :: "path \<Rightarrow> string" where
  "generic_string p =
     foldl (\<lambda>acc e. if acc = [] \<or> is_separator (last acc) then acc @ e else acc @ ''/'' @ e) [] p"

definition filename :: "path \<Rightarrow> string" where
  "filename p = (if p = [] then [] else last p)"

text \<open>The last dot of a file name divides stem and extension; \<open>.eg\<close> is all extension.\<close>

definition stem :: "string \<Rightarrow> string" where
  "stem n =
     (if n = ''.'' \<or> n = ''..'' \<or> CHR ''.'' \<notin> set n then n
      else rev (tl (dropWhile (\<lambda>c. c \<noteq> CHR ''.'') (rev n))))"

definition extension :: "string \<Rightarrow> string" where
  "extension n =
     (if n = ''.'' \<or> n = ''..'' \<or> CHR ''.'' \<notin> set n then []
      else CHR ''.'' # rev (takeWhile (\<lambda>c. c \<noteq> CHR ''.'') (rev n)))"

lemma split_elements_plain:
  "\<forall>c \<in> set s. \<not> is_separator c \<Longrightarrow> split_elements acc s = (if acc = [] \<and> s = [] then [] else [rev acc @ s])"
  by (induction s arbitrary: acc) auto

text \<open>A file name is one element.\<close>

definition plain_name :: "string \<Rightarrow> bool" where
  "plain_name s \<longleftrightarrow> s \<noteq> [] \<and> list_all (\<lambda>c. \<not> is_separator c) s"

lemma elements_plain: "plain_name s \<Longrightarrow> elements s = [s]"
  by (simp add: plain_name_def elements_def split_elements_plain list_all_iff)

lemma path_append_plain: "plain_name s \<Longrightarrow> path_append p s = p @ [s]"
  by (simp add: path_append_def elements_plain)

lemma plain_name_append: "plain_name (s @ t) \<longleftrightarrow>
    s @ t \<noteq> [] \<and> (s = [] \<or> plain_name s) \<and> (t = [] \<or> plain_name t)"
  by (auto simp: plain_name_def)

section \<open>The documents\<close>

text \<open>The types of the schema, \<open>src/schema/mega_schema.xsd\<close>; optional parts are options.\<close>

record xml_files =
  xf_System :: "string list"
  xf_Include :: "string list"
  xf_Source :: "string list"
  xf_Library :: "string list"

record xml_directories =
  xd_Include :: "string list"
  xd_Library :: "string list"

record xml_package =
  xp_Type :: string
  xp_Directories :: "xml_directories option"
  xp_Files :: "xml_files option"
  xp_Command :: "string list"

record xml_build =
  xb_Name :: string
  xb_CompilerFlags :: string
  xb_LinkerFlags :: string

record xml_run =
  xr_Name :: string
  xr_Command :: string
  xr_Argument :: "string list"

record xml_project =
  xj_Host :: string
  xj_Description :: "string option"
  xj_Package :: "string list"
  xj_Files :: "xml_files option"
  xj_Build :: "xml_build list"
  xj_Run :: "xml_run list"
  xj_Defaults :: bool

text \<open>A host extends a package without adding to it.\<close>

type_synonym xml_host = xml_package

datatype eg_doc = EG_Package xml_package | EG_Host xml_host | EG_Project xml_project

text \<open>Reading the arm of a document that it does not have dereferences another pointer.\<close>

definition doc_Project :: "eg_doc \<Rightarrow> xml_project result" where
  "doc_Project d = (case d of EG_Project p \<Rightarrow> Inr p | _ \<Rightarrow> Inl (Ub ''Project of another document''))"

section \<open>The platform and the process\<close>

text \<open>
  \<^item> \<open>pf_to_vector\<close>: \<open>to_vector\<close> of an entry of \<open>boost::process::environment\<close>, the parts of its value;
  \<^item> \<open>pf_canonical\<close>, \<open>pf_absolute\<close>: \<open>edsCannonicalise\<close> and \<open>boost::filesystem::absolute\<close>;
  \<^item> \<open>pf_exists\<close>, \<open>pf_dir\<close>: existence of a file, the entries of a directory (name, is it a directory);
  \<^item> \<open>pf_search_path\<close>: \<open>boost::process::search_path\<close>, empty when nothing is found;
  \<^item> \<open>pf_escape\<close>: \<open>Common::escapeString\<close>;
  \<^item> \<open>pf_parse\<close>: the parser of the documents, with the text of its exception.
\<close>

record platform =
  pf_to_vector :: "string \<Rightarrow> string list"
  pf_canonical :: "path \<Rightarrow> path"
  pf_absolute :: "path \<Rightarrow> path"
  pf_exists :: "path \<Rightarrow> bool"
  pf_dir :: "path \<Rightarrow> (string \<times> bool) list"
  pf_search_path :: "string \<Rightarrow> path"
  pf_escape :: "string \<Rightarrow> string"
  pf_parse :: "path \<Rightarrow> string + eg_doc"

type_synonym environment = "string \<Rightarrow> string option"

record eg_process =
  m_documents :: "path \<Rightarrow> eg_doc option"
  st_clang :: "path option"
  st_eglog :: "path option"
  st_egdriver :: "path option"
  st_plugin :: "path option"
  st_parser :: "path option"
  st_library :: "path option"
  st_log :: "path option"
  st_data :: "path option"

definition eg_process_start :: eg_process where
  "eg_process_start = \<lparr>m_documents = (\<lambda>_. None), st_clang = None, st_eglog = None, st_egdriver = None,
     st_plugin = None, st_parser = None, st_library = None, st_log = None, st_data = None\<rparr>"

definition XMLManager_load :: "platform \<Rightarrow> path \<Rightarrow> eg_process \<Rightarrow> (eg_doc \<times> eg_process) result" where
  "XMLManager_load pf docPath ps =
     (case m_documents ps docPath of
        Some d \<Rightarrow> Inr (d, ps)
      | None \<Rightarrow>
          (case pf_parse pf docPath of
             Inr d \<Rightarrow> Inr (d, ps\<lparr>m_documents := (m_documents ps)(docPath \<mapsto> d)\<rparr>)
           | Inl e \<Rightarrow> Inl (Rte (''XML error opening: '' @ generic_string docPath @ '' '' @ e))))"

section \<open>The environment\<close>

definition EG_FILE_EXTENSION :: string where
  "EG_FILE_EXTENSION = ''.eg''"

definition ENV_KEY_EG_INSTALLATION :: string where
  "ENV_KEY_EG_INSTALLATION = ''EG''"

definition ENV_KEY_CURRENT_PROJECT :: string where
  "ENV_KEY_CURRENT_PROJECT = ''PROJECT''"

definition Environment_commonCtor :: "environment \<Rightarrow> environment result" where
  "Environment_commonCtor env =
     (if env ENV_KEY_EG_INSTALLATION = None
      then Inl (Rte ''Missing EG environment variable for eg installation location.'')
      else Inr env)"

text \<open>The constructors: of the environment of the process, alone or with a project directory, and of
  another environment.\<close>

definition Environment_ctor :: "environment \<Rightarrow> environment result" where
  "Environment_ctor this_process = Environment_commonCtor this_process"

definition Environment_ctor_project :: "environment \<Rightarrow> path \<Rightarrow> environment result" where
  "Environment_ctor_project this_process projectDir =
     Environment_commonCtor (this_process(ENV_KEY_CURRENT_PROJECT \<mapsto> generic_string projectDir))"

definition Environment_ctor_copy :: "environment \<Rightarrow> path \<Rightarrow> environment result" where
  "Environment_ctor_copy env projectDir =
     Environment_commonCtor (env(ENV_KEY_CURRENT_PROJECT \<mapsto> generic_string projectDir))"

definition Environment_get :: "platform \<Rightarrow> environment \<Rightarrow> string \<Rightarrow> string result" where
  "Environment_get pf env strKey =
     (case env strKey of
        None \<Rightarrow> Inl (Rte (''Failed to locate environment variable: '' @ strKey))
      | Some v \<Rightarrow>
          (let strs = pf_to_vector pf v in
           if strs = [] then Inl (Rte (''Environment variable is empty: '' @ strKey))
           else Inr (concat strs)))"

definition Environment_expand :: "platform \<Rightarrow> environment \<Rightarrow> string \<Rightarrow> string result" where
  "Environment_expand pf env strPath = env_expand (Environment_get pf env) strPath"

definition Environment_printPath :: "platform \<Rightarrow> path \<Rightarrow> string" where
  "Environment_printPath pf p = pf_escape pf (generic_string p)"

text \<open>A function-local static path that is empty until the first call that succeeds.\<close>

definition static_path :: "path option \<Rightarrow> (path option \<Rightarrow> eg_process) \<Rightarrow> path result \<Rightarrow> eg_process
    \<Rightarrow> (path \<times> eg_process) result" where
  "static_path cached store compute ps =
     (case cached of
        Some p \<Rightarrow> if p \<noteq> [] then Inr (p, ps) else andThen compute (\<lambda>q. Inr (q, store (Some q)))
      | None \<Rightarrow> andThen compute (\<lambda>q. Inr (q, store (Some q))))"

definition installed :: "platform \<Rightarrow> environment \<Rightarrow> string \<Rightarrow> string \<Rightarrow> path result" where
  "installed pf env key file =
     andThen (Environment_get pf env key) (\<lambda>v. Inr (path_append (path_of v) file))"

definition startCompilationCommand :: "platform \<Rightarrow> eg_process \<Rightarrow> (string \<times> eg_process) result" where
  "startCompilationCommand pf ps =
     (let clang = (case st_clang ps of Some p \<Rightarrow> p | None \<Rightarrow> pf_search_path pf ''clang.exe'') in
      if clang = []
      then Inl (Rte ''Failed to locate clang.exe in path.  Please ensure the correct clang.exe is configured.'')
      else Inr (Environment_printPath pf clang @ '' '', ps\<lparr>st_clang := Some clang\<rparr>))"

definition startLogCommand :: "platform \<Rightarrow> environment \<Rightarrow> eg_process \<Rightarrow> (string \<times> eg_process) result" where
  "startLogCommand pf env ps =
     andThen (static_path (st_eglog ps) (\<lambda>c. ps\<lparr>st_eglog := c\<rparr>)
                (installed pf env ENV_KEY_EG_INSTALLATION ''bin/eglog.exe'') ps)
       (\<lambda>(p, ps'). Inr (Environment_printPath pf p @ '' '', ps'))"

definition startDriverCommand :: "platform \<Rightarrow> environment \<Rightarrow> eg_process \<Rightarrow> (string \<times> eg_process) result" where
  "startDriverCommand pf env ps =
     andThen (static_path (st_egdriver ps) (\<lambda>c. ps\<lparr>st_egdriver := c\<rparr>)
                (installed pf env ENV_KEY_EG_INSTALLATION ''bin/eg.exe'') ps)
       (\<lambda>(p, ps'). Inr (Environment_printPath pf p @ '' '', ps'))"

definition getClangPluginDll :: "platform \<Rightarrow> environment \<Rightarrow> eg_process \<Rightarrow> (path \<times> eg_process) result" where
  "getClangPluginDll pf env ps =
     static_path (st_plugin ps) (\<lambda>c. ps\<lparr>st_plugin := c\<rparr>)
       (installed pf env ENV_KEY_EG_INSTALLATION ''bin/eg_clang_plugin.dll'') ps"

definition getParserDll :: "platform \<Rightarrow> environment \<Rightarrow> eg_process \<Rightarrow> (path \<times> eg_process) result" where
  "getParserDll pf env ps =
     static_path (st_parser ps) (\<lambda>c. ps\<lparr>st_parser := c\<rparr>)
       (installed pf env ENV_KEY_EG_INSTALLATION ''bin/eg_parser.dll'') ps"

definition getEGLibraryInclude :: "platform \<Rightarrow> environment \<Rightarrow> eg_process \<Rightarrow> (path \<times> eg_process) result" where
  "getEGLibraryInclude pf env ps =
     static_path (st_library ps) (\<lambda>c. ps\<lparr>st_library := c\<rparr>)
       (installed pf env ENV_KEY_EG_INSTALLATION ''include'') ps"

definition getLogFolderPath :: "platform \<Rightarrow> environment \<Rightarrow> eg_process \<Rightarrow> (path \<times> eg_process) result" where
  "getLogFolderPath pf env ps =
     static_path (st_log ps) (\<lambda>c. ps\<lparr>st_log := c\<rparr>) (installed pf env ENV_KEY_CURRENT_PROJECT ''log'') ps"

definition getDataFolderPath :: "platform \<Rightarrow> environment \<Rightarrow> eg_process \<Rightarrow> (path \<times> eg_process) result" where
  "getDataFolderPath pf env ps =
     static_path (st_data ps) (\<lambda>c. ps\<lparr>st_data := c\<rparr>) (installed pf env ENV_KEY_CURRENT_PROJECT ''src/data'') ps"

definition Environment_getHost :: "platform \<Rightarrow> environment \<Rightarrow> string \<Rightarrow> eg_process \<Rightarrow> (xml_host \<times> eg_process) result" where
  "Environment_getHost pf env strHost ps =
     andThen (verify_rte (strHost \<noteq> []) ''Empty host specification'') (\<lambda>_.
     andThen (Environment_expand pf env strHost) (\<lambda>s.
       (let hostPath = pf_canonical pf (path_append (path_of s) EG_FILE_EXTENSION) in
        andThen (verify_rte (pf_exists pf hostPath) (''Failed to locate host at: '' @ generic_string hostPath)) (\<lambda>_.
        andThen (XMLManager_load pf hostPath ps) (\<lambda>(d, ps').
          case d of
            EG_Host h \<Rightarrow> Inr (h, ps')
          | _ \<Rightarrow> Inl (Rte (''Directory is not a host: '' @ generic_string hostPath)))))))"

definition Environment_getPackage :: "platform \<Rightarrow> environment \<Rightarrow> string \<Rightarrow> eg_process \<Rightarrow> (xml_package \<times> eg_process) result" where
  "Environment_getPackage pf env strPackage ps =
     andThen (verify_rte (strPackage \<noteq> []) ''Empty package specification'') (\<lambda>_.
     andThen (Environment_expand pf env strPackage) (\<lambda>s.
       (let packagePath = pf_canonical pf (path_append (path_of s) EG_FILE_EXTENSION) in
        andThen (verify_rte (pf_exists pf packagePath)
          (''Failed to locate package at: '' @ generic_string packagePath)) (\<lambda>_.
        andThen (XMLManager_load pf packagePath ps) (\<lambda>(d, ps').
          case d of
            EG_Package p \<Rightarrow> Inr (p, ps')
          | _ \<Rightarrow> Inl (Rte (''Directory is not a package: '' @ generic_string packagePath)))))))"

section \<open>The project of a directory\<close>

record project =
  pj_projectDir :: path
  pj_environment :: environment
  pj_project :: xml_project
  pj_host :: xml_host

definition Project_ctor :: "platform \<Rightarrow> path \<Rightarrow> environment \<Rightarrow> xml_project \<Rightarrow> eg_process \<Rightarrow> (project \<times> eg_process) result" where
  "Project_ctor pf projectDir env xml ps =
     andThen (Environment_ctor_copy env projectDir) (\<lambda>penv.
     andThen (Environment_getHost pf penv (xj_Host xml) ps) (\<lambda>(h, ps').
       Inr (\<lparr>pj_projectDir = projectDir, pj_environment = penv, pj_project = xml, pj_host = h\<rparr>, ps')))"

text \<open>The loop of \<open>collateUserIncludeFiles\<close> and of the functions \<open>collatePaths\<close>: each file once, in
  the order of its first mention, looked up in a set of those already seen.\<close>

fun collate :: "(string \<Rightarrow> path result) \<Rightarrow> path set \<Rightarrow> path list \<Rightarrow> string list \<Rightarrow> (path set \<times> path list) result" where
  "collate resolve uniquified directories [] = Inr (uniquified, directories)"
| "collate resolve uniquified directories (f # fs) =
     andThen (resolve f) (\<lambda>p.
       if p \<in> uniquified then collate resolve uniquified directories fs
       else collate resolve (insert p uniquified) (directories @ [p]) fs)"

definition resolve_file :: "platform \<Rightarrow> environment \<Rightarrow> string \<Rightarrow> path result" where
  "resolve_file pf env f =
     andThen (Environment_expand pf env f) (\<lambda>s. Inr (pf_canonical pf (path_of s)))"

definition collateUserIncludeFiles ::
  "platform \<Rightarrow> environment \<Rightarrow> path set \<Rightarrow> path list \<Rightarrow> xml_files \<Rightarrow> (path set \<times> path list) result" where
  "collateUserIncludeFiles pf env uniquified directories xmlFiles =
     collate (resolve_file pf env) uniquified directories (xf_Include xmlFiles)"

definition getHostIncludes :: "platform \<Rightarrow> project \<Rightarrow> path list result" where
  "getHostIncludes pf p =
     (case xp_Files (pj_host p) of
        Some fs \<Rightarrow> andThen (collateUserIncludeFiles pf (pj_environment p) {} [] fs) (\<lambda>(_, ps). Inr ps)
      | None \<Rightarrow> Inr [])"

end
