(* ===== verification/Project_Tree.thy ===== *)
theory Project_Tree
  imports Project_Environment
begin

text \<open>
  \<open>src/schema/projectTree.cpp\<close>: the tree of coordinators, hosts and projects that the directories
  under \<open>src\<close> of a workspace form, and the places of the files that a build reads and writes.
  A function of the class \<open>ProjectTree\<close> that returns a path or a name is a function of a
  \<open>project_tree\<close> of the same name.
\<close>

section \<open>The tree\<close>

record project_name =
  pn_path :: path
  pn_sourceFiles :: "path list"
  pn_project :: project

record host_name =
  hn_path :: path
  hn_projects :: "project_name list"

record coordinator_dir =
  co_path :: path
  co_hostNames :: "host_name list"

definition ProjectName_name :: "project_name \<Rightarrow> string" where
  "ProjectName_name p = filename (pn_path p)"

definition HostName_name :: "host_name \<Rightarrow> string" where
  "HostName_name h = filename (hn_path h)"

definition Coordinator_name :: "coordinator_dir \<Rightarrow> string" where
  "Coordinator_name c = filename (co_path c)"

record project_tree =
  pt_path :: path
  pt_coordinatorName :: "string option"
  pt_hostName :: "string option"
  pt_projectName :: string
  pt_coordinators :: "coordinator_dir list"

text \<open>The \<open>eg\<close> files of a directory; \<open>.eg\<close> itself, whose stem is empty, is the XML document.\<close>

definition getEGSourceCode :: "platform \<Rightarrow> path \<Rightarrow> path list" where
  "getEGSourceCode pf root =
     map (\<lambda>(n, d). root @ [n])
       (filter (\<lambda>(n, d). \<not> d \<and> extension n = EG_FILE_EXTENSION \<and> stem n \<noteq> []) (pf_dir pf root))"

definition ProjectName_ctor :: "platform \<Rightarrow> environment \<Rightarrow> path \<Rightarrow> eg_process \<Rightarrow> (project_name \<times> eg_process) result" where
  "ProjectName_ctor pf env root ps =
     (let f = path_append root EG_FILE_EXTENSION in
      andThen (XMLManager_load pf f ps) (\<lambda>(d, ps1).
      andThen (doc_Project d) (\<lambda>xml.
      andThen (Project_ctor pf f env xml ps1) (\<lambda>(pj, ps2).
        Inr (\<lparr>pn_path = root, pn_sourceFiles = getEGSourceCode pf root, pn_project = pj\<rparr>, ps2)))))"

text \<open>A loop over the entries of a directory that collects what its body finds.\<close>

fun collect_dir ::
  "((string \<times> bool) \<Rightarrow> eg_process \<Rightarrow> ('a option \<times> eg_process) result) \<Rightarrow> (string \<times> bool) list \<Rightarrow> eg_process
   \<Rightarrow> ('a list \<times> eg_process) result" where
  "collect_dir f [] ps = Inr ([], ps)"
| "collect_dir f (e # es) ps =
     andThen (f e ps) (\<lambda>(r, ps1). andThen (collect_dir f es ps1) (\<lambda>(rs, ps2).
       Inr (case r of None \<Rightarrow> rs | Some x \<Rightarrow> x # rs, ps2)))"

text \<open>The project of a folder: its \<open>.eg\<close> file makes it one, and there must not be two.\<close>

fun recurseProjectEntries ::
  "platform \<Rightarrow> environment \<Rightarrow> path \<Rightarrow> (string \<times> bool) list \<Rightarrow> project_name option \<Rightarrow> eg_process
   \<Rightarrow> (project_name option \<times> eg_process) result" where
  "recurseProjectEntries pf env p [] pProject ps = Inr (pProject, ps)"
| "recurseProjectEntries pf env p ((n, d) # es) pProject ps =
     (if \<not> d \<and> n = EG_FILE_EXTENSION
      then andThen (verify_rte (pProject = None) ''Duplicate .eg files found in project folder'') (\<lambda>_.
           andThen (ProjectName_ctor pf env p ps) (\<lambda>(pr, ps').
             recurseProjectEntries pf env p es (Some pr) ps'))
      else recurseProjectEntries pf env p es pProject ps)"

definition recurseProjectFolder :: "platform \<Rightarrow> environment \<Rightarrow> path \<Rightarrow> eg_process \<Rightarrow> (project_name option \<times> eg_process) result" where
  "recurseProjectFolder pf env p ps = recurseProjectEntries pf env p (pf_dir pf p) None ps"

definition recurseHostEntry ::
  "platform \<Rightarrow> environment \<Rightarrow> path \<Rightarrow> string \<Rightarrow> string \<times> bool \<Rightarrow> eg_process \<Rightarrow> (project_name option \<times> eg_process) result" where
  "recurseHostEntry pf env p projectName e ps =
     (if snd e \<and> fst e = projectName then recurseProjectFolder pf env (p @ [fst e]) ps else Inr (None, ps))"

definition recurseHostFolder ::
  "platform \<Rightarrow> environment \<Rightarrow> path \<Rightarrow> string \<Rightarrow> eg_process \<Rightarrow> (host_name option \<times> eg_process) result" where
  "recurseHostFolder pf env p projectName ps =
     andThen (collect_dir (recurseHostEntry pf env p projectName) (pf_dir pf p) ps) (\<lambda>(prs, ps').
       Inr (if prs = [] then None else Some \<lparr>hn_path = p, hn_projects = prs\<rparr>, ps'))"

definition recurseCoordinatorEntry ::
  "platform \<Rightarrow> environment \<Rightarrow> path \<Rightarrow> string \<Rightarrow> string \<times> bool \<Rightarrow> eg_process \<Rightarrow> (host_name option \<times> eg_process) result" where
  "recurseCoordinatorEntry pf env p projectName e ps =
     (if snd e then recurseHostFolder pf env (p @ [fst e]) projectName ps else Inr (None, ps))"

definition recurseCoordinatorFolder ::
  "platform \<Rightarrow> environment \<Rightarrow> path \<Rightarrow> string \<Rightarrow> eg_process \<Rightarrow> (coordinator_dir option \<times> eg_process) result" where
  "recurseCoordinatorFolder pf env p projectName ps =
     andThen (collect_dir (recurseCoordinatorEntry pf env p projectName) (pf_dir pf p) ps) (\<lambda>(hs, ps').
       Inr (if hs = [] then None else Some \<lparr>co_path = p, co_hostNames = hs\<rparr>, ps'))"

definition sourceFolderEntry ::
  "platform \<Rightarrow> environment \<Rightarrow> path \<Rightarrow> string \<Rightarrow> string \<times> bool \<Rightarrow> eg_process \<Rightarrow> (coordinator_dir option \<times> eg_process) result" where
  "sourceFolderEntry pf env p projectName e ps =
     (if snd e then recurseCoordinatorFolder pf env (p @ [fst e]) projectName ps else Inr (None, ps))"

definition getSourceFolder :: "project_tree \<Rightarrow> path" where
  "getSourceFolder t = path_append (pt_path t) ''src''"

definition ProjectTree_commonCtor :: "platform \<Rightarrow> environment \<Rightarrow> project_tree \<Rightarrow> eg_process \<Rightarrow> (project_tree \<times> eg_process) result" where
  "ProjectTree_commonCtor pf env t ps =
     (let sourceFolder = getSourceFolder t in
      if \<not> pf_exists pf sourceFolder
      then Inl (Rte (''Project source folder does not exist: '' @ generic_string sourceFolder))
      else andThen (collect_dir (sourceFolderEntry pf env sourceFolder (pt_projectName t)) (pf_dir pf sourceFolder) ps)
             (\<lambda>(cs, ps'). Inr (t\<lparr>pt_coordinators := pt_coordinators t @ cs\<rparr>, ps')))"

definition ProjectTree_ctor :: "platform \<Rightarrow> environment \<Rightarrow> path \<Rightarrow> string \<Rightarrow> eg_process \<Rightarrow> (project_tree \<times> eg_process) result" where
  "ProjectTree_ctor pf env root projectName ps =
     ProjectTree_commonCtor pf env
       \<lparr>pt_path = pf_canonical pf (pf_absolute pf root), pt_coordinatorName = None, pt_hostName = None,
        pt_projectName = projectName, pt_coordinators = []\<rparr> ps"

definition ProjectTree_ctor_component ::
  "platform \<Rightarrow> environment \<Rightarrow> path \<Rightarrow> string \<Rightarrow> string \<Rightarrow> string \<Rightarrow> eg_process \<Rightarrow> (project_tree \<times> eg_process) result" where
  "ProjectTree_ctor_component pf env root coordinatorName hostName projectName ps =
     ProjectTree_commonCtor pf env
       \<lparr>pt_path = pf_canonical pf (pf_absolute pf root), pt_coordinatorName = Some coordinatorName,
        pt_hostName = Some hostName, pt_projectName = projectName, pt_coordinators = []\<rparr> ps"

section \<open>Printing and the map of the sources\<close>

definition ProjectName_print :: "project_name \<Rightarrow> string" where
  "ProjectName_print p = ''      ProjectName: '' @ ProjectName_name p @ ''\<newline>''"

definition HostName_print :: "host_name \<Rightarrow> string" where
  "HostName_print h = ''    HostName: '' @ HostName_name h @ ''\<newline>'' @ concat (map ProjectName_print (hn_projects h))"

definition Coordinator_print :: "coordinator_dir \<Rightarrow> string" where
  "Coordinator_print c =
     ''  Coordinator: '' @ Coordinator_name c @ ''\<newline>'' @ concat (map HostName_print (co_hostNames c))"

definition ProjectTree_print :: "project_tree \<Rightarrow> string" where
  "ProjectTree_print t =
     ''Project: '' @ generic_string (pt_path t) @ ''\<newline>'' @ concat (map Coordinator_print (pt_coordinators t))"

type_synonym path_map = "(path \<times> path) list"

definition ProjectName_getSourceFilesMap :: "project_name \<Rightarrow> path_map \<Rightarrow> path_map" where
  "ProjectName_getSourceFilesMap p m =
     fold (\<lambda>f. mmap_insert (pn_path p) [filename f]) (pn_sourceFiles p) m"

definition HostName_getSourceFilesMap :: "host_name \<Rightarrow> path_map \<Rightarrow> path_map" where
  "HostName_getSourceFilesMap h m = fold ProjectName_getSourceFilesMap (hn_projects h) m"

definition Coordinator_getSourceFilesMap :: "coordinator_dir \<Rightarrow> path_map \<Rightarrow> path_map" where
  "Coordinator_getSourceFilesMap c m = fold HostName_getSourceFilesMap (co_hostNames c) m"

definition ProjectTree_getSourceFilesMap :: "project_tree \<Rightarrow> path_map \<Rightarrow> path_map" where
  "ProjectTree_getSourceFilesMap t m = fold Coordinator_getSourceFilesMap (pt_coordinators t) m"

section \<open>The component of a tree\<close>

text \<open>\<open>VERIFY_RTE( m_coordinatorName && m_hostName )\<close>.\<close>

definition component_names :: "project_tree \<Rightarrow> (string \<times> string) result" where
  "component_names t =
     (case (pt_coordinatorName t, pt_hostName t) of
        (Some c, Some h) \<Rightarrow> Inr (c, h)
      | _ \<Rightarrow> Inl (Rte ''m_coordinatorName && m_hostName''))"

text \<open>The first project of its name in the first host of its name of the first coordinator of its
  name: the breaks of the loops end them at the first hit.\<close>

definition getProjectNamePtr :: "project_tree \<Rightarrow> project_name result" where
  "getProjectNamePtr t =
     andThen (component_names t) (\<lambda>(c, h).
       case find (\<lambda>co. Coordinator_name co = c) (pt_coordinators t) of
         None \<Rightarrow> Inl (Rte ''Failed to locate project'')
       | Some co \<Rightarrow>
           (case find (\<lambda>hn. HostName_name hn = h) (co_hostNames co) of
              None \<Rightarrow> Inl (Rte ''Failed to locate project'')
            | Some hn \<Rightarrow>
                (case find (\<lambda>p. ProjectName_name p = pt_projectName t) (hn_projects hn) of
                   None \<Rightarrow> Inl (Rte ''Failed to locate project'')
                 | Some p \<Rightarrow> Inr p)))"

definition ProjectTree_getProject :: "project_tree \<Rightarrow> project result" where
  "ProjectTree_getProject t = andThen (getProjectNamePtr t) (\<lambda>p. Inr (pn_project p))"

text \<open>The names are options read with \<open>get\<close>, which has none without them.\<close>

definition getCoordinatorName :: "project_tree \<Rightarrow> string result" where
  "getCoordinatorName t =
     (case pt_coordinatorName t of Some c \<Rightarrow> Inr c | None \<Rightarrow> Inl (Ub ''optional without a value''))"

definition getHostName :: "project_tree \<Rightarrow> string result" where
  "getHostName t = (case pt_hostName t of Some h \<Rightarrow> Inr h | None \<Rightarrow> Inl (Ub ''optional without a value''))"

definition getComponentFileName :: "project_tree \<Rightarrow> bool \<Rightarrow> string result" where
  "getComponentFileName t bDebug =
     andThen (getCoordinatorName t) (\<lambda>c. andThen (getHostName t) (\<lambda>h.
       Inr (c @ ''_'' @ h @ ''_'' @ pt_projectName t @ (if bDebug then ''d'' else ''''))))"

definition getComponentFileNameExt :: "project_tree \<Rightarrow> bool \<Rightarrow> string result" where
  "getComponentFileNameExt t bDebug =
     andThen (getCoordinatorName t) (\<lambda>c. andThen (getHostName t) (\<lambda>h.
       Inr (c @ ''_'' @ h @ ''_'' @ pt_projectName t @ (if bDebug then ''d.dll'' else ''.dll''))))"

end
