(* ===== verification/Project_Paths.thy ===== *)
theory Project_Paths
  imports Project_Tree
begin

text \<open>
  The paths of \<open>ProjectTree\<close> in \<open>src/schema/projectTree.cpp\<close>.  \<open>absolute_path\<close> is
  \<open>edsCannonicalise( absolute( p ) )\<close>; a function that needs the names of the component fails without
  them, as \<open>VERIFY_RTE\<close> does.
\<close>

section \<open>Folders\<close>

definition getDataFolder :: "project_tree \<Rightarrow> path" where
  "getDataFolder t = path_append (getSourceFolder t) ''data''"

definition getInterfaceFolder :: "project_tree \<Rightarrow> path" where
  "getInterfaceFolder t = path_append (path_append (pt_path t) ''interface'') (pt_projectName t)"

definition getImplFolder :: "project_tree \<Rightarrow> path" where
  "getImplFolder t = path_append (pt_path t) ''impl''"

definition getBuildFolder :: "project_tree \<Rightarrow> path" where
  "getBuildFolder t = path_append (path_append (pt_path t) ''build'') (pt_projectName t)"

definition getStashFolder :: "project_tree \<Rightarrow> path" where
  "getStashFolder t = path_append (path_append (path_append (pt_path t) ''stash'') (pt_projectName t)) ''code''"

definition getAssetStashFolder :: "project_tree \<Rightarrow> path" where
  "getAssetStashFolder t = path_append (path_append (path_append (pt_path t) ''stash'') (pt_projectName t)) ''assets''"

definition getIntermediateFolder :: "project_tree \<Rightarrow> path" where
  "getIntermediateFolder t = path_append (path_append (pt_path t) ''intermediate'') (pt_projectName t)"

definition getUnrealSourceFolder :: "project_tree \<Rightarrow> path" where
  "getUnrealSourceFolder t = path_append (path_append (path_append (path_append (pt_path t) ''src'') (pt_projectName t)) ''Source'') (pt_projectName t)"

definition getUnrealContentFolder :: "project_tree \<Rightarrow> path" where
  "getUnrealContentFolder t = path_append (path_append (path_append (path_append (pt_path t) ''src'') (pt_projectName t)) ''Content'') (pt_projectName t)"

section \<open>Files of the interface\<close>

definition getManifestFile :: "project_tree \<Rightarrow> path" where
  "getManifestFile t = path_append (getDataFolder t) ''manifest.ed''"

definition getResourceInclude :: "string" where
  "getResourceInclude = ''resource.hpp''"

definition getResourceHeader :: "project_tree \<Rightarrow> path" where
  "getResourceHeader t = path_append (getInterfaceFolder t) getResourceInclude"

definition getResourceSource :: "project_tree \<Rightarrow> path" where
  "getResourceSource t = path_append (getUnrealSourceFolder t) ''resource.cpp''"

definition getParserDatabaseFilePreInterfaceAnalysis :: "project_tree \<Rightarrow> path" where
  "getParserDatabaseFilePreInterfaceAnalysis t = path_append (getInterfaceFolder t) ''parser_pre.db''"

definition getParserDatabaseFile :: "project_tree \<Rightarrow> path" where
  "getParserDatabaseFile t = path_append (getInterfaceFolder t) ''parser.db''"

definition getInterfaceDatabaseFile :: "project_tree \<Rightarrow> path" where
  "getInterfaceDatabaseFile t = path_append (getInterfaceFolder t) ''interface.db''"

definition getInterfacePCH :: "project_tree \<Rightarrow> path" where
  "getInterfacePCH t = path_append (getInterfaceFolder t) ''interface.pch''"

definition getInterfaceHeader :: "project_tree \<Rightarrow> path" where
  "getInterfaceHeader t = path_append (getInterfaceFolder t) ''interface.hpp''"

definition getIncludeHeader :: "project_tree \<Rightarrow> path" where
  "getIncludeHeader t = path_append (getInterfaceFolder t) ''include.hpp''"

definition getIncludePCH :: "project_tree \<Rightarrow> path" where
  "getIncludePCH t = path_append (getInterfaceFolder t) ''include.pch''"

definition getGenericsHeader :: "project_tree \<Rightarrow> path" where
  "getGenericsHeader t = path_append (getInterfaceFolder t) ''generics.hpp''"

definition getGenericsPCH :: "project_tree \<Rightarrow> path" where
  "getGenericsPCH t = path_append (getInterfaceFolder t) ''generics.pch''"

definition getBuildInfoFile :: "project_tree \<Rightarrow> path" where
  "getBuildInfoFile t = path_append (getInterfaceFolder t) ''build.txt''"

definition absolute_path :: "platform \<Rightarrow> path \<Rightarrow> path" where
  "absolute_path pf p = pf_canonical pf (pf_absolute pf p)"

definition getTUDBName :: "platform \<Rightarrow> project_tree \<Rightarrow> string \<Rightarrow> path" where
  "getTUDBName pf t strTUName =
     absolute_path pf (path_append (getInterfaceFolder t) (''tu_'' @ strTUName @ ''.db''))"

definition getOperationsHeader :: "platform \<Rightarrow> project_tree \<Rightarrow> string \<Rightarrow> path" where
  "getOperationsHeader pf t strTUName =
     absolute_path pf (path_append (getInterfaceFolder t) (strTUName @ ''_operations.hpp''))"

definition getOperationsPublicPCH :: "platform \<Rightarrow> project_tree \<Rightarrow> string \<Rightarrow> path" where
  "getOperationsPublicPCH pf t strTUName =
     absolute_path pf (path_append (getInterfaceFolder t) (strTUName @ ''_public.pch''))"

definition getOperationsPrivatePCH :: "platform \<Rightarrow> project_tree \<Rightarrow> string \<Rightarrow> path" where
  "getOperationsPrivatePCH pf t strTUName =
     absolute_path pf (path_append (getInterfaceFolder t) (strTUName @ ''_private.pch''))"

definition getStructuresInclude :: "string" where
  "getStructuresInclude = ''structures.hpp''"

definition getDataStructureSource :: "platform \<Rightarrow> project_tree \<Rightarrow> path" where
  "getDataStructureSource pf t = absolute_path pf (path_append (getInterfaceFolder t) getStructuresInclude)"

definition getAnalysisFileName :: "platform \<Rightarrow> project_tree \<Rightarrow> path" where
  "getAnalysisFileName pf t = absolute_path pf (path_append (getInterfaceFolder t) ''database.db'')"

definition getGeometryInclude :: "string" where
  "getGeometryInclude = ''geometry_interface.hpp''"

definition getGeometryInterface :: "platform \<Rightarrow> project_tree \<Rightarrow> path" where
  "getGeometryInterface pf t = absolute_path pf (path_append (getInterfaceFolder t) getGeometryInclude)"

section \<open>Files of a component\<close>

record component_ref =
  cr_coordinator :: "coordinator_dir option"
  cr_hostName :: "host_name option"
  cr_projectName :: "project_name option"

text \<open>\<open>Component::operator<\<close>, by the names.\<close>

definition component_less :: "coordinator_dir \<times> host_name \<times> project_name \<Rightarrow> coordinator_dir \<times> host_name \<times> project_name \<Rightarrow> bool" where
  "component_less a b =
     (case (a, b) of ((c, h, p), (c', h', p')) \<Rightarrow>
        if Coordinator_name c \<noteq> Coordinator_name c' then Coordinator_name c < Coordinator_name c'
        else if HostName_name h \<noteq> HostName_name h' then HostName_name h < HostName_name h'
        else if ProjectName_name p \<noteq> ProjectName_name p' then ProjectName_name p < ProjectName_name p'
        else False)"

definition component_folder :: "path \<Rightarrow> string \<Rightarrow> string \<Rightarrow> string \<Rightarrow> path" where
  "component_folder impl c h p = path_append (path_append (path_append impl c) h) p"

definition constructComponentFile :: "platform \<Rightarrow> component_ref \<Rightarrow> path \<Rightarrow> string \<Rightarrow> path result" where
  "constructComponentFile pf component implFolder pszFileName =
     (case (cr_coordinator component, cr_hostName component, cr_projectName component) of
        (Some c, Some h, Some p) \<Rightarrow>
          Inr (absolute_path pf (path_append
            (component_folder implFolder (Coordinator_name c) (HostName_name h) (ProjectName_name p)) pszFileName))
      | _ \<Rightarrow> Inl (Rte ''component.pCoordinator && component.pHostName && component.pProjectName''))"

definition getComponentParserDatabase :: "platform \<Rightarrow> project_tree \<Rightarrow> component_ref \<Rightarrow> path result" where
  "getComponentParserDatabase pf t component =
     constructComponentFile pf component (getImplFolder t) ''parser.db''"

definition getComponentIncludeHeader :: "platform \<Rightarrow> project_tree \<Rightarrow> component_ref \<Rightarrow> path result" where
  "getComponentIncludeHeader pf t component =
     constructComponentFile pf component (getImplFolder t) ''include.hpp''"

definition getComponentIncludePCH :: "platform \<Rightarrow> project_tree \<Rightarrow> component_ref \<Rightarrow> path result" where
  "getComponentIncludePCH pf t component =
     constructComponentFile pf component (getImplFolder t) ''include.pch''"

definition getComponentInterfacePCH :: "platform \<Rightarrow> project_tree \<Rightarrow> component_ref \<Rightarrow> path result" where
  "getComponentInterfacePCH pf t component =
     constructComponentFile pf component (getImplFolder t) ''interface.pch''"

definition getComponentGenericsPCH :: "platform \<Rightarrow> project_tree \<Rightarrow> component_ref \<Rightarrow> path result" where
  "getComponentGenericsPCH pf t component =
     constructComponentFile pf component (getImplFolder t) ''generics.pch''"

definition getComponentBuildInfoFile :: "platform \<Rightarrow> project_tree \<Rightarrow> component_ref \<Rightarrow> path result" where
  "getComponentBuildInfoFile pf t component =
     constructComponentFile pf component (getImplFolder t) ''build.info''"

text \<open>A file in the folder of the component that the tree is of.\<close>

definition own_component_file :: "platform \<Rightarrow> project_tree \<Rightarrow> string \<Rightarrow> path result" where
  "own_component_file pf t file =
     andThen (component_names t) (\<lambda>(c, h).
       Inr (absolute_path pf (path_append (component_folder (getImplFolder t) c h (pt_projectName t)) file)))"

definition getImplementationSource :: "platform \<Rightarrow> project_tree \<Rightarrow> string \<Rightarrow> path result" where
  "getImplementationSource pf t strTUName = own_component_file pf t (strTUName @ ''_operations.cpp'')"

definition getNetStateSourceInclude :: "project_tree \<Rightarrow> string result" where
  "getNetStateSourceInclude t = andThen (component_names t) (\<lambda>_. Inr ''netstate.hpp'')"

definition getNetStateSource :: "platform \<Rightarrow> project_tree \<Rightarrow> path result" where
  "getNetStateSource pf t = andThen (getNetStateSourceInclude t) (own_component_file pf t)"

definition getRuntimeSource :: "platform \<Rightarrow> project_tree \<Rightarrow> path result" where
  "getRuntimeSource pf t = own_component_file pf t ''runtime.cpp''"

definition getPythonSource :: "platform \<Rightarrow> project_tree \<Rightarrow> path result" where
  "getPythonSource pf t = own_component_file pf t ''python.cpp''"

definition getUnrealInterfaceInclude :: "project_tree \<Rightarrow> string result" where
  "getUnrealInterfaceInclude t = andThen (component_names t) (\<lambda>_. Inr ''unreal.hpp'')"

definition getUnrealInterface :: "platform \<Rightarrow> project_tree \<Rightarrow> path result" where
  "getUnrealInterface pf t = andThen (getUnrealInterfaceInclude t) (own_component_file pf t)"

definition getUnrealSource :: "platform \<Rightarrow> project_tree \<Rightarrow> path result" where
  "getUnrealSource pf t = own_component_file pf t ''unreal.cpp''"

definition getGeometrySource :: "platform \<Rightarrow> project_tree \<Rightarrow> path result" where
  "getGeometrySource pf t = own_component_file pf t ''geometry_interface.cpp''"

definition getConfigIOSource :: "platform \<Rightarrow> project_tree \<Rightarrow> path result" where
  "getConfigIOSource pf t = own_component_file pf t ''config_io.cpp''"

definition getEGComponentSource :: "platform \<Rightarrow> project_tree \<Rightarrow> path result" where
  "getEGComponentSource pf t = own_component_file pf t ''component.cpp''"

definition getObjectName :: "platform \<Rightarrow> project_tree \<Rightarrow> string \<Rightarrow> path \<Rightarrow> path result" where
  "getObjectName pf t strTUName binPath =
     andThen (component_names t) (\<lambda>_. Inr (absolute_path pf (path_append binPath (strTUName @ ''_object.obj''))))"

definition getObjectFile :: "platform \<Rightarrow> project_tree \<Rightarrow> path \<Rightarrow> path \<Rightarrow> path result" where
  "getObjectFile pf t sourceFile binPath =
     andThen (component_names t) (\<lambda>_.
       Inr (absolute_path pf (path_append binPath (stem (filename sourceFile) @ ''_object.obj''))))"

section \<open>Include directories and files\<close>

definition getSystemIncludes :: "path list" where
  "getSystemIncludes =
     map (\<lambda>s. [s]) [''<cmath>'', ''<cstddef>'', ''<cstdint>'', ''<type_traits>'', ''<chrono>'', ''<vector>'', ''<set>'', ''<bitset>'']"

definition getUserIncludes :: "platform \<Rightarrow> environment \<Rightarrow> path list result" where
  "getUserIncludes pf env =
     andThen (Environment_expand pf env ''egcomponent/traits.hpp'') (\<lambda>traits.
       Inr (map path_of [''unreal/unreal.hpp'', traits, ''boost/filesystem.hpp'', ''eg/include.hpp'',
         ''eg_runtime/eg_runtime.hpp'', ''egcomponent/egcomponent.hpp'', getResourceInclude]))"

definition expand_absolute :: "platform \<Rightarrow> environment \<Rightarrow> string \<Rightarrow> path result" where
  "expand_absolute pf env s =
     andThen (Environment_expand pf env s) (\<lambda>e. Inr (absolute_path pf (path_of e)))"

definition getCoroutineFrameSourceFilePath :: "platform \<Rightarrow> environment \<Rightarrow> path result" where
  "getCoroutineFrameSourceFilePath pf env = expand_absolute pf env ''${EG}/include/eg/frame.cpp''"

definition getBasicSchedulerFilePath :: "platform \<Rightarrow> environment \<Rightarrow> path result" where
  "getBasicSchedulerFilePath pf env = expand_absolute pf env ''${EG}/include/eg/basic_scheduler.cpp''"

text \<open>The three functions \<open>collatePaths\<close>: of one directory, of the directories and of the files of a
  document.\<close>

definition collatePaths_directory :: "platform \<Rightarrow> environment \<Rightarrow> path set \<Rightarrow> path list \<Rightarrow> string \<Rightarrow> (path set \<times> path list) result" where
  "collatePaths_directory pf env u ds s = collate (expand_absolute pf env) u ds [s]"

definition collatePaths_directories :: "platform \<Rightarrow> environment \<Rightarrow> path set \<Rightarrow> path list \<Rightarrow> xml_directories \<Rightarrow> (path set \<times> path list) result" where
  "collatePaths_directories pf env u ds xd = collate (expand_absolute pf env) u ds (xd_Include xd)"

definition collatePaths_files :: "platform \<Rightarrow> environment \<Rightarrow> path set \<Rightarrow> path list \<Rightarrow> xml_files \<Rightarrow> (path set \<times> path list) result" where
  "collatePaths_files pf env u ds xf = collate (resolve_file pf env) u ds (xf_Include xf)"

definition include_directories :: "string list" where
  "include_directories =
     [''${BOOST}/include/boost-1_73'', ''${PYBIND}/include'', ''${PYTHONHOME}/include'', ''${EG}/include'',
      ''${MEGA}/include'', ''${PROTOBUF}/include'', ''${MESSAGEPACK}/include'', ''${UNREAL}/Engine/Source'',
      ''${UNREAL}/Engine/Source/Runtime'', ''${UNREAL}/Engine/Source/Runtime/Core/Public'',
      ''${UNREAL}/Engine/Source/Runtime/TraceLog/Public'']"

definition getIncludeDirectories :: "platform \<Rightarrow> environment \<Rightarrow> project_tree \<Rightarrow> path list result" where
  "getIncludeDirectories pf env t =
     andThen (collate (expand_absolute pf env) {} [] include_directories) (\<lambda>(u, ds).
       Inr (ds @ [absolute_path pf (getInterfaceFolder t)]))"

definition getComponentIncludeDirectories :: "platform \<Rightarrow> environment \<Rightarrow> project_tree \<Rightarrow> component_ref \<Rightarrow> path list result" where
  "getComponentIncludeDirectories pf env t component =
     (case cr_projectName component of
        None \<Rightarrow> Inl (Rte ''component.pProjectName'')
      | Some p \<Rightarrow>
          andThen (getIncludeDirectories pf env t) (\<lambda>ds.
            case xp_Directories (pj_host (pn_project p)) of
              None \<Rightarrow> Inr ds
            | Some xd \<Rightarrow> andThen (collatePaths_directories pf env {} ds xd) (\<lambda>(_, ds'). Inr ds')))"

definition getComponentIncludeFiles :: "platform \<Rightarrow> environment \<Rightarrow> component_ref \<Rightarrow> path list result" where
  "getComponentIncludeFiles pf env component =
     (case cr_projectName component of
        None \<Rightarrow> Inl (Rte ''component.pProjectName'')
      | Some p \<Rightarrow>
          andThen (case xj_Files (pj_project (pn_project p)) of
                     None \<Rightarrow> Inr ({}, [])
                   | Some xf \<Rightarrow> collatePaths_files pf env {} [] xf) (\<lambda>(u, fs).
          case xp_Files (pj_host (pn_project p)) of
            None \<Rightarrow> Inr fs
          | Some xf \<Rightarrow> andThen (collatePaths_files pf env u fs xf) (\<lambda>(_, fs'). Inr fs')))"

end
