(* ===== verification/Build_Tools.thy ===== *)
theory Build_Tools
  imports Project_Paths
begin

text \<open>
  \<open>src/driver/build_tools.cpp\<close> and what the two builds share: a compilation and its command, the
  state of a build, and the inputs of a hash code.

  The stash with its hash codes and the hash functions (the library \<open>common\<close>), the sessions and
  generators of the \<open>eg\<close> compiler and the compiler process are not in the repository: they are the
  fields of an \<open>eg_api\<close>, over the types of hash codes, stashes, sessions and translation units.
\<close>

section \<open>A compilation\<close>

record compilation =
  cc_strCompilationFlags :: string
  cc_inputFile :: path
  cc_includeDirs :: "path list"
  cc_inputPCH :: "path list"
  cc_egdb :: "path option"
  cc_egtu :: "path option"
  cc_egtuid :: "string option"
  cc_outputPCH :: "path option"
  cc_outputObject :: "path option"
  cc_defines :: "string list"

definition Compilation_PCH :: "path \<Rightarrow> path \<Rightarrow> string \<Rightarrow> compilation" where
  "Compilation_PCH inputFile outputFile flags =
     \<lparr>cc_strCompilationFlags = flags, cc_inputFile = inputFile, cc_includeDirs = [], cc_inputPCH = [],
      cc_egdb = None, cc_egtu = None, cc_egtuid = None, cc_outputPCH = Some outputFile,
      cc_outputObject = None, cc_defines = []\<rparr>"

definition Compilation_OBJ :: "path \<Rightarrow> path \<Rightarrow> string \<Rightarrow> compilation" where
  "Compilation_OBJ inputFile outputFile flags =
     \<lparr>cc_strCompilationFlags = flags, cc_inputFile = inputFile, cc_includeDirs = [], cc_inputPCH = [],
      cc_egdb = None, cc_egtu = None, cc_egtuid = None, cc_outputPCH = None,
      cc_outputObject = Some outputFile, cc_defines = []\<rparr>"

text \<open>The parts of the command line of \<open>invokeCompiler\<close>.\<close>

fun command_defines :: "string list \<Rightarrow> string result" where
  "command_defines [] = Inr []"
| "command_defines (d # ds) =
     andThen (verify_rte (d \<noteq> []) ''!strDefine.empty()'') (\<lambda>_.
     andThen (command_defines ds) (\<lambda>s. Inr (''-D'' @ d @ '' '' @ s)))"

definition command_pch :: "platform \<Rightarrow> path list \<Rightarrow> string" where
  "command_pch pf pchs =
     concat (map (\<lambda>p. ''-Xclang -include-pch '' @ ''-Xclang '' @ Environment_printPath pf p @ '' '') pchs)"

definition command_eg :: "platform \<Rightarrow> environment \<Rightarrow> compilation \<Rightarrow> eg_process \<Rightarrow> (string \<times> eg_process) result" where
  "command_eg pf env c ps =
     (case cc_egdb c of
        Some db \<Rightarrow>
          andThen (getClangPluginDll pf env ps) (\<lambda>(dll, ps').
            (let s = ''-Xclang -egdb='' @ Environment_printPath pf db @ '' '' @
                     ''-Xclang -egdll='' @ Environment_printPath pf dll @ '' '' in
             case cc_egtu c of
               Some tu \<Rightarrow>
                 (case cc_egtuid c of
                    None \<Rightarrow> Inl (Rte ''compilation.egtuid'')
                  | Some i \<Rightarrow>
                      Inr (s @ ''-Xclang -egtu='' @ Environment_printPath pf tu @ '' '' @
                           ''-Xclang -egtuid='' @ i @ '' '', ps'))
             | None \<Rightarrow> andThen (verify_rte (cc_egtuid c = None) ''!compilation.egtuid'') (\<lambda>_. Inr (s, ps'))))
      | None \<Rightarrow>
          andThen (verify_rte (cc_egtu c = None) ''!compilation.egtu'') (\<lambda>_.
          andThen (verify_rte (cc_egtuid c = None) ''!compilation.egtuid'') (\<lambda>_. Inr ([], ps))))"

definition command_includes :: "platform \<Rightarrow> path list \<Rightarrow> string" where
  "command_includes pf ds = concat (map (\<lambda>d. ''-I '' @ Environment_printPath pf d @ '' '') ds)"

definition command_output :: "platform \<Rightarrow> compilation \<Rightarrow> string result" where
  "command_output pf c =
     (case cc_outputPCH c of
        Some p \<Rightarrow>
          andThen (verify_rte (cc_outputObject c = None) ''!compilation.outputObject'') (\<lambda>_.
            Inr (''-Xclang -emit-pch -o '' @ Environment_printPath pf p @ '' ''))
      | None \<Rightarrow>
          (case cc_outputObject c of
             Some p \<Rightarrow> Inr (''-c -o '' @ Environment_printPath pf p @ '' '')
           | None \<Rightarrow> Inl (Rte ''Missing compiler output'')))"

definition compiler_command :: "platform \<Rightarrow> environment \<Rightarrow> compilation \<Rightarrow> eg_process \<Rightarrow> (string \<times> eg_process) result" where
  "compiler_command pf env c ps =
     andThen (startCompilationCommand pf ps) (\<lambda>(start, ps1).
     andThen (command_defines (cc_defines c)) (\<lambda>defines.
     andThen (command_eg pf env c ps1) (\<lambda>(eg, ps2).
     andThen (command_output pf c) (\<lambda>output.
       Inr (start @ '' '' @ cc_strCompilationFlags c @ '' '' @ defines @ command_pch pf (cc_inputPCH c) @ eg @
            Environment_printPath pf (cc_inputFile c) @ '' '' @ command_includes pf (cc_includeDirs c) @ output,
            ps2)))))"

section \<open>The libraries of a build\<close>

type_synonym files = "path \<Rightarrow> string option"

text \<open>
  \<open>hs_\<close>: the hash functions; \<open>sh_\<close>: the stash; \<open>fs_\<close>: \<open>updateFileIfChanged\<close> of \<open>common\<close>; \<open>os_system\<close>:
  a process and its exit code; \<open>eg_\<close>: the \<open>eg\<close> compiler: the parser session, the interface session (opened
  from a database file, analysed, stored), the implementation session, the translation units and the
  generated texts.
\<close>

record ('h, 's, 'p, 'i, 'u) eg_api =
  hs_strings :: "string list \<Rightarrow> 'h"
  hs_file :: "path \<Rightarrow> files \<Rightarrow> 'h result"
  hs_combine :: "'h list \<Rightarrow> 'h"
  hs_combine2 :: "'h \<Rightarrow> 'h \<Rightarrow> 'h"
  sh_open :: "path \<Rightarrow> files \<Rightarrow> 's"
  sh_getBuildHashCode :: "path \<Rightarrow> 's \<Rightarrow> 'h result"
  sh_setBuildHashCode :: "path \<Rightarrow> 'h \<Rightarrow> 's \<Rightarrow> 's"
  sh_restore :: "path \<Rightarrow> 'h \<Rightarrow> 's \<Rightarrow> files \<Rightarrow> files option"
  sh_stash :: "path \<Rightarrow> 'h \<Rightarrow> files \<Rightarrow> 's \<Rightarrow> 's result"
  sh_loadBuildHashCodes :: "path \<Rightarrow> files \<Rightarrow> 's \<Rightarrow> 's result"
  sh_saveBuildHashCodes :: "path \<Rightarrow> 's \<Rightarrow> files \<Rightarrow> files result"
  fs_updateFileIfChanged :: "path \<Rightarrow> string \<Rightarrow> files \<Rightarrow> bool \<times> files"
  os_system :: "string \<Rightarrow> files \<Rightarrow> int \<times> files"
  eg_parse :: "path \<Rightarrow> path \<Rightarrow> path_map \<Rightarrow> files \<Rightarrow> 'p result"
  eg_parser_store :: "path \<Rightarrow> 'p \<Rightarrow> files \<Rightarrow> files"
  eg_open_interface :: "path \<Rightarrow> files \<Rightarrow> 'i result"
  eg_interface_analysis :: "path \<Rightarrow> (string \<Rightarrow> string option) \<Rightarrow> 'i \<Rightarrow> 'i result"
  eg_interface_store :: "path \<Rightarrow> 'i \<Rightarrow> files \<Rightarrow> files"
  eg_readFileID :: "path \<Rightarrow> files \<Rightarrow> string"
  eg_generateIncludeHeader :: "'p \<Rightarrow> path list \<Rightarrow> path list \<Rightarrow> string"
  eg_generateInterface :: "'p \<Rightarrow> string"
  eg_generateGenericsHeader :: "'i \<Rightarrow> string"
  eg_generateOperationSource :: "'p option \<Rightarrow> 'i \<Rightarrow> 'u \<Rightarrow> string"
  eg_getTU :: "'i \<Rightarrow> path \<Rightarrow> 'u option"
  eg_getTranslationUnits :: "'i \<Rightarrow> 'u list"
  eg_tu_name :: "'u \<Rightarrow> string"
  eg_tu_fileID :: "'u \<Rightarrow> string"
  eg_tu_hostDefine :: "'u \<Rightarrow> string"
  eg_MASTER_FILE :: string
  eg_fullProgramAnalysis :: "(string \<times> path) list \<Rightarrow> path \<Rightarrow> files \<Rightarrow> files result"

text \<open>The state of a build: the files, the stash, the process, the sessions, and the commands given to
  the compiler so far.\<close>

record ('s, 'p, 'i) build_world =
  bw_files :: files
  bw_stash :: 's
  bw_process :: eg_process
  bw_parserChanged :: bool
  bw_session_parser :: "'p option"
  bw_session_interface :: "'i option"
  bw_commands :: "string list"

record build_config =
  cx_platform :: platform
  cx_environment :: environment
  cx_tree :: project_tree
  cx_flags :: string

definition invokeCompiler ::
  "('h, 's, 'p, 'i, 'u) eg_api \<Rightarrow> build_config \<Rightarrow> compilation \<Rightarrow> ('s, 'p, 'i) build_world
   \<Rightarrow> ('s, 'p, 'i) build_world result" where
  "invokeCompiler api cx c w =
     andThen (compiler_command (cx_platform cx) (cx_environment cx) c (bw_process w)) (\<lambda>(cmd, ps).
       (let (iResult, fs) = os_system api cmd (bw_files w) in
        if iResult \<noteq> 0 then Inl (Rte ''Error invoking clang++'')
        else Inr (w\<lparr>bw_process := ps, bw_files := fs, bw_commands := bw_commands w @ [cmd]\<rparr>)))"

section \<open>Hash codes\<close>

text \<open>An element of a call of \<open>hash_combine\<close>: the hash of strings, of a file, or the code of a file.\<close>

datatype hash_input = H_Strings "string list" | H_File path | H_Code path

definition hash_of_input :: "('h, 's, 'p, 'i, 'u) eg_api \<Rightarrow> hash_input \<Rightarrow> ('s, 'p, 'i) build_world \<Rightarrow> 'h result" where
  "hash_of_input api x w =
     (case x of
        H_Strings ss \<Rightarrow> Inr (hs_strings api ss)
      | H_File p \<Rightarrow> hs_file api p (bw_files w)
      | H_Code p \<Rightarrow> sh_getBuildHashCode api p (bw_stash w))"

fun hash_inputs :: "('h, 's, 'p, 'i, 'u) eg_api \<Rightarrow> hash_input list \<Rightarrow> ('s, 'p, 'i) build_world \<Rightarrow> 'h list result" where
  "hash_inputs api [] w = Inr []"
| "hash_inputs api (x # xs) w =
     andThen (hash_of_input api x w) (\<lambda>h. andThen (hash_inputs api xs w) (\<lambda>hs. Inr (h # hs)))"

definition combined_hash :: "('h, 's, 'p, 'i, 'u) eg_api \<Rightarrow> hash_input list \<Rightarrow> ('s, 'p, 'i) build_world \<Rightarrow> 'h result" where
  "combined_hash api xs w = andThen (hash_inputs api xs w) (\<lambda>hs. Inr (hs_combine api hs))"

definition set_code :: "('h, 's, 'p, 'i, 'u) eg_api \<Rightarrow> path \<Rightarrow> 'h \<Rightarrow> ('s, 'p, 'i) build_world \<Rightarrow> ('s, 'p, 'i) build_world" where
  "set_code api p h w = w\<lparr>bw_stash := sh_setBuildHashCode api p h (bw_stash w)\<rparr>"

text \<open>The end of a task: restored from the stash, or done.\<close>

datatype outcome = Cached | Succeeded

text \<open>The steps that the tasks with a compilation have in common: restore the output, or write the
  generated text of the input file, compile, and stash the output.\<close>

definition restore_or_compile ::
  "('h, 's, 'p, 'i, 'u) eg_api \<Rightarrow> build_config \<Rightarrow> path \<Rightarrow> 'h \<Rightarrow> (path \<times> string) option
   \<Rightarrow> (eg_process \<Rightarrow> (compilation \<times> eg_process) result) \<Rightarrow> ('s, 'p, 'i) build_world \<Rightarrow> (('s, 'p, 'i) build_world \<times> outcome) result" where
  "restore_or_compile api cx output h source cmd w =
     (case sh_restore api output h (bw_stash w) (bw_files w) of
        Some fs \<Rightarrow> Inr (w\<lparr>bw_files := fs\<rparr>, Cached)
      | None \<Rightarrow>
          (let w1 = (case source of
                       Some (p, s) \<Rightarrow> w\<lparr>bw_files := snd (fs_updateFileIfChanged api p s (bw_files w))\<rparr>
                     | None \<Rightarrow> w) in
           andThen (cmd (bw_process w1)) (\<lambda>(c, ps).
           andThen (invokeCompiler api cx c (w1\<lparr>bw_process := ps\<rparr>)) (\<lambda>w2.
           andThen (sh_stash api output h (bw_files w2) (bw_stash w2)) (\<lambda>s.
             Inr (w2\<lparr>bw_stash := s\<rparr>, Succeeded))))))"

text \<open>The include directory of the installation, a static of the process.\<close>

definition with_library ::
  "build_config \<Rightarrow> path list result \<Rightarrow> (path list \<Rightarrow> compilation) \<Rightarrow> eg_process
   \<Rightarrow> (compilation \<times> eg_process) result" where
  "with_library cx ds c ps =
     andThen ds (\<lambda>l. andThen (getEGLibraryInclude (cx_platform cx) (cx_environment cx) ps) (\<lambda>(inc, ps').
       Inr (c (l @ [inc]), ps')))"

end
