(* ===== verification/Build_Interface.thy ===== *)
theory Build_Interface
  imports Build_Tools
begin

text \<open>
  \<open>src/driver/build_interface.cpp\<close>: the build of the interface of a project.  Each task is a
  constructor of \<open>task\<close> with the function \<open>run\<close> of its class; the task graph that \<open>build_interface\<close>
  makes is a list of tasks with the positions of the tasks they depend on, the position standing for
  the pointer.  The scheduler of \<open>common\<close> is a parameter: the order in which it runs the tasks, each
  as one step.
\<close>

type_synonym tree_component = "coordinator_dir \<times> host_name \<times> project_name"

definition ref_of_component :: "tree_component \<Rightarrow> component_ref" where
  "ref_of_component x =
     \<lparr>cr_coordinator = Some (fst x), cr_hostName = Some (fst (snd x)), cr_projectName = Some (snd (snd x))\<rparr>"

datatype task =
  Task_ParserSession
  | Task_ParserSessionCopy tree_component
  | Task_MainIncludePCH
  | Task_MainInterfacePCH
  | Task_InterfaceSession
  | Task_MainGenericsPCH
  | Task_ComponentIncludePCH tree_component
  | Task_ComponentInterfacePCH tree_component
  | Task_ComponentGenericsPCH tree_component
  | Task_OperationsHeader path
  | Task_OperationsPublicPCH path
  | Task_OperationsPrivatePCH tree_component path
  | Task_ImplementationSession

section \<open>The tasks\<close>

definition verified :: "'a option \<Rightarrow> string \<Rightarrow> 'a result" where
  "verified x msg = (case x of None \<Rightarrow> Inl (Rte msg) | Some y \<Rightarrow> Inr y)"

definition run_ParserSession :: "('s, 'p, 'i) build_world \<Rightarrow> (('s, 'p, 'i) build_world \<times> outcome) result" where
  "run_ParserSession w = Inr (w, Cached)"

definition copy_file :: "path \<Rightarrow> path \<Rightarrow> files \<Rightarrow> files result" where
  "copy_file source target fs =
     (case fs source of
        None \<Rightarrow> Inl (Rte ''boost::filesystem::copy'')
      | Some s \<Rightarrow> if fs target \<noteq> None then Inl (Rte ''boost::filesystem::copy'') else Inr (fs(target \<mapsto> s)))"

definition run_ParserSessionCopy ::
  "build_config \<Rightarrow> tree_component \<Rightarrow> ('s, 'p, 'i) build_world \<Rightarrow> (('s, 'p, 'i) build_world \<times> outcome) result" where
  "run_ParserSessionCopy cx c w =
     andThen (getComponentParserDatabase (cx_platform cx) (cx_tree cx) (ref_of_component c)) (\<lambda>targetFile.
       (let sourceFile = getParserDatabaseFile (cx_tree cx) in
        if bw_parserChanged w
        then andThen (verify_rte (bw_files w sourceFile \<noteq> None) ''boost::filesystem::exists( sourceFile )'') (\<lambda>_.
             andThen (copy_file sourceFile targetFile ((bw_files w)(targetFile := None))) (\<lambda>fs.
               Inr (w\<lparr>bw_files := fs\<rparr>, Cached)))
        else Inr (w, Cached)))"

definition run_MainIncludePCH ::
  "('h, 's, 'p, 'i, 'u) eg_api \<Rightarrow> build_config \<Rightarrow> ('s, 'p, 'i) build_world
   \<Rightarrow> (('s, 'p, 'i) build_world \<times> outcome) result" where
  "run_MainIncludePCH api cx w =
     (let pf = cx_platform cx; env = cx_environment cx; t = cx_tree cx in
      andThen (verified (bw_session_parser w) ''m_session_parser'') (\<lambda>parser.
      andThen (verify_rte (bw_files w (getResourceHeader t) \<noteq> None)
        (''Resource header missing: '' @ generic_string (getResourceHeader t))) (\<lambda>_.
      andThen (getUserIncludes pf env) (\<lambda>userIncludes.
        (let osInclude = eg_generateIncludeHeader api parser getSystemIncludes userIncludes in
         andThen (combined_hash api
             [H_Strings [osInclude, cx_flags cx], H_File (getResourceHeader t),
              H_Code (getParserDatabaseFilePreInterfaceAnalysis t)] w) (\<lambda>hashCode.
           restore_or_compile api cx (getIncludePCH t) hashCode (Some (getIncludeHeader t, osInclude))
             (with_library cx (getIncludeDirectories pf env t) (\<lambda>ds.
               (Compilation_PCH (getIncludeHeader t) (getIncludePCH t) (cx_flags cx))\<lparr>cc_includeDirs := ds\<rparr>))
             (set_code api (getIncludePCH t) hashCode w)))))))"

definition run_MainInterfacePCH ::
  "('h, 's, 'p, 'i, 'u) eg_api \<Rightarrow> build_config \<Rightarrow> ('s, 'p, 'i) build_world
   \<Rightarrow> (('s, 'p, 'i) build_world \<times> outcome) result" where
  "run_MainInterfacePCH api cx w =
     (let t = cx_tree cx in
      andThen (verified (bw_session_parser w) ''m_session_parser'') (\<lambda>parser.
        (let osInterface = eg_generateInterface api parser;
             w1 = set_code api (getInterfaceHeader t) (hs_strings api [cx_flags cx, osInterface]) w in
         andThen (combined_hash api
             [H_Strings [cx_flags cx, osInterface], H_Code (getParserDatabaseFilePreInterfaceAnalysis t),
              H_Code (getIncludePCH t)] w1) (\<lambda>interfaceHash.
           restore_or_compile api cx (getInterfacePCH t) interfaceHash (Some (getInterfaceHeader t, osInterface))
             (\<lambda>ps. Inr
               ((Compilation_PCH (getInterfaceHeader t) (getInterfacePCH t) (cx_flags cx))
                  \<lparr>cc_inputPCH := [getIncludePCH t], cc_egdb := Some (getParserDatabaseFile t)\<rparr>, ps))
             (set_code api (getInterfacePCH t) interfaceHash w1)))))"

definition run_InterfaceSession ::
  "('h, 's, 'p, 'i, 'u) eg_api \<Rightarrow> build_config \<Rightarrow> ('s, 'p, 'i) build_world
   \<Rightarrow> (('s, 'p, 'i) build_world \<times> outcome) result" where
  "run_InterfaceSession api cx w =
     (let t = cx_tree cx; db = getInterfaceDatabaseFile t in
      andThen (verified (bw_session_parser w) ''m_session_parser'') (\<lambda>_.
      andThen (combined_hash api
          [H_Strings [cx_flags cx], H_Code (getParserDatabaseFilePreInterfaceAnalysis t),
           H_Code (getIncludePCH t), H_Code (getInterfacePCH t)] w) (\<lambda>interfaceDBHash.
        (let w1 = set_code api db interfaceDBHash w in
         case sh_restore api db interfaceDBHash (bw_stash w1) (bw_files w1) of
           Some fs \<Rightarrow>
             andThen (eg_open_interface api db fs) (\<lambda>i.
               Inr (w1\<lparr>bw_files := fs, bw_session_interface := Some i\<rparr>, Cached))
         | None \<Rightarrow>
             andThen (eg_open_interface api (getParserDatabaseFile t) (bw_files w1)) (\<lambda>i0.
             andThen (eg_interface_analysis api (getSourceFolder t)
                 (\<lambda>strName.
                    (let dbPath = getTUDBName (cx_platform cx) t strName in
                     if bw_files w1 dbPath \<noteq> None then Some (eg_readFileID api dbPath (bw_files w1)) else None))
                 i0) (\<lambda>i.
               (let fs = eg_interface_store api db i (bw_files w1) in
                andThen (sh_stash api db interfaceDBHash fs (bw_stash w1)) (\<lambda>s.
                  Inr (w1\<lparr>bw_files := fs, bw_stash := s, bw_session_interface := Some i\<rparr>, Succeeded)))))))))"

definition run_MainGenericsPCH ::
  "('h, 's, 'p, 'i, 'u) eg_api \<Rightarrow> build_config \<Rightarrow> ('s, 'p, 'i) build_world
   \<Rightarrow> (('s, 'p, 'i) build_world \<times> outcome) result" where
  "run_MainGenericsPCH api cx w =
     (let t = cx_tree cx in
      andThen (verified (bw_session_interface w) ''m_session_interface'') (\<lambda>i.
        (let osImpl = eg_generateGenericsHeader api i;
             w1 = set_code api (getGenericsHeader t) (hs_strings api [osImpl, cx_flags cx]) w in
         andThen (combined_hash api
             [H_Strings [osImpl, cx_flags cx], H_Code (getParserDatabaseFilePreInterfaceAnalysis t),
              H_Code (getIncludePCH t), H_Code (getInterfacePCH t), H_Code (getInterfaceDatabaseFile t)] w1)
           (\<lambda>hashCode.
           restore_or_compile api cx (getGenericsPCH t) hashCode (Some (getGenericsHeader t, osImpl))
             (\<lambda>ps. Inr
               ((Compilation_PCH (getGenericsHeader t) (getGenericsPCH t) (cx_flags cx))
                  \<lparr>cc_inputPCH := [getIncludePCH t, getInterfacePCH t]\<rparr>, ps))
             (set_code api (getGenericsPCH t) hashCode w1)))))"

definition include_lines :: "path list \<Rightarrow> string" where
  "include_lines ps = concat (map (\<lambda>p. ''#include '' @ [CHR 0x22] @ generic_string p @ [CHR 0x22] @ ''\<newline>'') ps)"

definition run_ComponentIncludePCH ::
  "('h, 's, 'p, 'i, 'u) eg_api \<Rightarrow> build_config \<Rightarrow> tree_component \<Rightarrow> ('s, 'p, 'i) build_world
   \<Rightarrow> (('s, 'p, 'i) build_world \<times> outcome) result" where
  "run_ComponentIncludePCH api cx c w =
     (let pf = cx_platform cx; env = cx_environment cx; t = cx_tree cx; r = ref_of_component c in
      andThen (getComponentIncludeHeader pf t r) (\<lambda>header.
      andThen (getComponentIncludePCH pf t r) (\<lambda>pch.
      andThen (getComponentIncludeFiles pf env r) (\<lambda>includeFiles.
      andThen (combined_hash api
          [H_Strings [include_lines includeFiles, cx_flags cx],
           H_Code (getParserDatabaseFilePreInterfaceAnalysis t), H_Code (getIncludePCH t)] w) (\<lambda>hashCode.
        restore_or_compile api cx pch hashCode (Some (header, include_lines includeFiles))
          (with_library cx (getComponentIncludeDirectories pf env t r) (\<lambda>ds.
            (Compilation_PCH header pch (cx_flags cx))\<lparr>cc_includeDirs := ds, cc_inputPCH := [getIncludePCH t]\<rparr>))
          (set_code api pch hashCode w))))))"

definition run_ComponentInterfacePCH ::
  "('h, 's, 'p, 'i, 'u) eg_api \<Rightarrow> build_config \<Rightarrow> tree_component \<Rightarrow> ('s, 'p, 'i) build_world
   \<Rightarrow> (('s, 'p, 'i) build_world \<times> outcome) result" where
  "run_ComponentInterfacePCH api cx c w =
     (let pf = cx_platform cx; env = cx_environment cx; t = cx_tree cx; r = ref_of_component c in
      andThen (getComponentInterfacePCH pf t r) (\<lambda>pch.
      andThen (getComponentIncludePCH pf t r) (\<lambda>includePCH.
      andThen (getComponentParserDatabase pf t r) (\<lambda>db.
      andThen (combined_hash api
          [H_Code (getInterfaceHeader t), H_Strings [cx_flags cx],
           H_Code (getParserDatabaseFilePreInterfaceAnalysis t), H_Code (getIncludePCH t), H_Code includePCH] w)
        (\<lambda>hashCode.
        restore_or_compile api cx pch hashCode None
          (with_library cx (getComponentIncludeDirectories pf env t r) (\<lambda>ds.
            (Compilation_PCH (getInterfaceHeader t) pch (cx_flags cx))
              \<lparr>cc_includeDirs := ds, cc_inputPCH := [getIncludePCH t, includePCH], cc_egdb := Some db\<rparr>))
          (set_code api pch hashCode w))))))"

definition run_ComponentGenericsPCH ::
  "('h, 's, 'p, 'i, 'u) eg_api \<Rightarrow> build_config \<Rightarrow> tree_component \<Rightarrow> ('s, 'p, 'i) build_world
   \<Rightarrow> (('s, 'p, 'i) build_world \<times> outcome) result" where
  "run_ComponentGenericsPCH api cx c w =
     (let pf = cx_platform cx; env = cx_environment cx; t = cx_tree cx; r = ref_of_component c in
      andThen (getComponentGenericsPCH pf t r) (\<lambda>pch.
      andThen (getComponentIncludePCH pf t r) (\<lambda>includePCH.
      andThen (getComponentInterfacePCH pf t r) (\<lambda>interfacePCH.
      andThen (combined_hash api
          [H_Code (getGenericsHeader t), H_Strings [cx_flags cx],
           H_Code (getParserDatabaseFilePreInterfaceAnalysis t), H_Code (getIncludePCH t), H_Code includePCH,
           H_Code interfacePCH] w) (\<lambda>hashCode.
        restore_or_compile api cx pch hashCode None
          (with_library cx (getComponentIncludeDirectories pf env t r) (\<lambda>ds.
            (Compilation_PCH (getGenericsHeader t) pch (cx_flags cx))
              \<lparr>cc_includeDirs := ds, cc_inputPCH := [getIncludePCH t, includePCH, interfacePCH]\<rparr>))
          (set_code api pch hashCode w))))))"

text \<open>The translation unit of a source file in the interface session.\<close>

definition translation_unit ::
  "('h, 's, 'p, 'i, 'u) eg_api \<Rightarrow> path \<Rightarrow> string \<Rightarrow> ('s, 'p, 'i) build_world \<Rightarrow> ('i \<times> 'u) result" where
  "translation_unit api sourceFile msg w =
     andThen (verified (bw_session_interface w) ''m_session_interface'') (\<lambda>i.
     andThen (verified (eg_getTU api i sourceFile) msg) (\<lambda>u. Inr (i, u)))"

definition run_OperationsHeader ::
  "('h, 's, 'p, 'i, 'u) eg_api \<Rightarrow> build_config \<Rightarrow> path \<Rightarrow> ('s, 'p, 'i) build_world
   \<Rightarrow> (('s, 'p, 'i) build_world \<times> outcome) result" where
  "run_OperationsHeader api cx sourceFile w =
     andThen (translation_unit api sourceFile
         (''Failed to get translation unit for source file: '' @ generic_string sourceFile) w) (\<lambda>(i, u).
       (let header = getOperationsHeader (cx_platform cx) (cx_tree cx) (eg_tu_name api u);
            osOperations = eg_generateOperationSource api (bw_session_parser w) i u;
            w1 = set_code api header (hs_strings api [cx_flags cx, osOperations]) w;
            (bUpdated, fs) = fs_updateFileIfChanged api header osOperations (bw_files w1)
        in Inr (w1\<lparr>bw_files := fs\<rparr>, if bUpdated then Cached else Succeeded)))"

definition run_OperationsPublicPCH ::
  "('h, 's, 'p, 'i, 'u) eg_api \<Rightarrow> build_config \<Rightarrow> path \<Rightarrow> ('s, 'p, 'i) build_world
   \<Rightarrow> (('s, 'p, 'i) build_world \<times> outcome) result" where
  "run_OperationsPublicPCH api cx sourceFile w =
     (let pf = cx_platform cx; t = cx_tree cx in
      andThen (translation_unit api sourceFile ''pTranslationUnit'' w) (\<lambda>(i, u).
        (let header = getOperationsHeader pf t (eg_tu_name api u);
             pch = getOperationsPublicPCH pf t (eg_tu_name api u) in
         andThen (combined_hash api
             [H_Code header, H_Strings [cx_flags cx], H_Code (getParserDatabaseFilePreInterfaceAnalysis t),
              H_Code (getIncludePCH t), H_Code (getInterfacePCH t), H_Code (getGenericsPCH t)] w) (\<lambda>hashCode.
           restore_or_compile api cx pch hashCode None
             (\<lambda>ps. Inr
               ((Compilation_PCH header pch (cx_flags cx))
                  \<lparr>cc_inputPCH := [getIncludePCH t, getInterfacePCH t, getGenericsPCH t],
                   cc_egdb := Some (getInterfaceDatabaseFile t),
                   cc_egtu := Some (getTUDBName pf t (eg_tu_name api u)),
                   cc_egtuid := Some (eg_tu_fileID api u)\<rparr>, ps))
             (set_code api pch hashCode w)))))"

definition run_OperationsPrivatePCH ::
  "('h, 's, 'p, 'i, 'u) eg_api \<Rightarrow> build_config \<Rightarrow> tree_component \<Rightarrow> path \<Rightarrow> ('s, 'p, 'i) build_world
   \<Rightarrow> (('s, 'p, 'i) build_world \<times> outcome) result" where
  "run_OperationsPrivatePCH api cx c sourceFile w =
     (let pf = cx_platform cx; t = cx_tree cx; r = ref_of_component c in
      andThen (translation_unit api sourceFile ''pTranslationUnit'' w) (\<lambda>(i, u).
      andThen (getComponentIncludePCH pf t r) (\<lambda>includePCH.
      andThen (getComponentInterfacePCH pf t r) (\<lambda>interfacePCH.
      andThen (getComponentGenericsPCH pf t r) (\<lambda>genericsPCH.
        (let header = getOperationsHeader pf t (eg_tu_name api u);
             pch = getOperationsPrivatePCH pf t (eg_tu_name api u) in
         andThen (combined_hash api
             [H_Code header, H_Code (getParserDatabaseFilePreInterfaceAnalysis t), H_Code (getIncludePCH t),
              H_Code includePCH, H_Code interfacePCH, H_Code genericsPCH] w) (\<lambda>hashCode.
           restore_or_compile api cx pch hashCode None
             (\<lambda>ps. Inr
               ((Compilation_PCH header pch (cx_flags cx))
                  \<lparr>cc_inputPCH := [getIncludePCH t, includePCH, interfacePCH, genericsPCH],
                   cc_egdb := Some (getInterfaceDatabaseFile t),
                   cc_egtu := Some (getTUDBName pf t (eg_tu_name api u)),
                   cc_egtuid := Some (eg_tu_fileID api u),
                   cc_defines := [eg_tu_hostDefine api u]\<rparr>, ps))
             (set_code api pch hashCode w))))))))"

text \<open>The files of the analysis: the master file and the databases of the translation units that
  exist.  \<open>insert\<close> keeps the first file of an id.\<close>

definition insert_first :: "string \<times> path \<Rightarrow> (string \<times> path) list \<Rightarrow> (string \<times> path) list" where
  "insert_first e m = (if fst e \<in> fst ` set m then m else m @ [e])"

definition analysis_files ::
  "('h, 's, 'p, 'i, 'u) eg_api \<Rightarrow> build_config \<Rightarrow> 'i \<Rightarrow> files \<Rightarrow> (string \<times> path) list" where
  "analysis_files api cx i fs =
     (let tudb = (\<lambda>u. getTUDBName (cx_platform cx) (cx_tree cx) (eg_tu_name api u)) in
      fold (\<lambda>u m. if fs (tudb u) \<noteq> None then insert_first (eg_tu_fileID api u, tudb u) m else m)
        (eg_getTranslationUnits api i) [(eg_MASTER_FILE api, getInterfaceDatabaseFile (cx_tree cx))])"

definition run_ImplementationSession ::
  "('h, 's, 'p, 'i, 'u) eg_api \<Rightarrow> build_config \<Rightarrow> ('s, 'p, 'i) build_world
   \<Rightarrow> (('s, 'p, 'i) build_world \<times> outcome) result" where
  "run_ImplementationSession api cx w =
     (case bw_session_interface w of
        None \<Rightarrow> Inl (Ub ''m_session_interface is null'')
      | Some i \<Rightarrow>
          andThen (eg_fullProgramAnalysis api (analysis_files api cx i (bw_files w))
              (getAnalysisFileName (cx_platform cx) (cx_tree cx)) (bw_files w)) (\<lambda>fs.
            Inr (w\<lparr>bw_files := fs\<rparr>, Succeeded)))"

definition run_task ::
  "('h, 's, 'p, 'i, 'u) eg_api \<Rightarrow> build_config \<Rightarrow> task \<Rightarrow> ('s, 'p, 'i) build_world
   \<Rightarrow> (('s, 'p, 'i) build_world \<times> outcome) result" where
  "run_task api cx t w =
     (case t of
        Task_ParserSession \<Rightarrow> run_ParserSession w
      | Task_ParserSessionCopy c \<Rightarrow> run_ParserSessionCopy cx c w
      | Task_MainIncludePCH \<Rightarrow> run_MainIncludePCH api cx w
      | Task_MainInterfacePCH \<Rightarrow> run_MainInterfacePCH api cx w
      | Task_InterfaceSession \<Rightarrow> run_InterfaceSession api cx w
      | Task_MainGenericsPCH \<Rightarrow> run_MainGenericsPCH api cx w
      | Task_ComponentIncludePCH c \<Rightarrow> run_ComponentIncludePCH api cx c w
      | Task_ComponentInterfacePCH c \<Rightarrow> run_ComponentInterfacePCH api cx c w
      | Task_ComponentGenericsPCH c \<Rightarrow> run_ComponentGenericsPCH api cx c w
      | Task_OperationsHeader f \<Rightarrow> run_OperationsHeader api cx f w
      | Task_OperationsPublicPCH f \<Rightarrow> run_OperationsPublicPCH api cx f w
      | Task_OperationsPrivatePCH c f \<Rightarrow> run_OperationsPrivatePCH api cx c f w
      | Task_ImplementationSession \<Rightarrow> run_ImplementationSession api cx w)"

section \<open>The task graph\<close>

type_synonym node = "task \<times> nat list"

definition add_node :: "task \<Rightarrow> nat list \<Rightarrow> node list \<Rightarrow> nat \<times> node list" where
  "add_node t deps ts = (length ts, ts @ [(t, deps)])"

definition tree_components :: "project_tree \<Rightarrow> string \<Rightarrow> tree_component list" where
  "tree_components t strProject =
     concat (map (\<lambda>c. concat (map (\<lambda>h. map (\<lambda>p. (c, h, p))
       (filter (\<lambda>p. ProjectName_name p = strProject) (hn_projects h))) (co_hostNames c))) (pt_coordinators t))"

text \<open>\<open>ComponentTaskMap\<close> is ordered by the names of its components; \<open>insert\<close> keeps a component that is
  there.\<close>

definition component_key :: "tree_component \<Rightarrow> string list" where
  "component_key x =
     [Coordinator_name (fst x), HostName_name (fst (snd x)), ProjectName_name (snd (snd x))]"

fun add_copies :: "nat \<Rightarrow> tree_component list \<Rightarrow> node list \<times> (string list \<times> nat) list \<times> nat list
    \<Rightarrow> node list \<times> (string list \<times> nat) list \<times> nat list" where
  "add_copies pParserSession [] s = s"
| "add_copies pParserSession (c # cs) (ts, componentDBCopies, parserSessionCopies) =
     (let (i, ts') = add_node (Task_ParserSessionCopy c) [pParserSession] ts in
      add_copies pParserSession cs
        (ts', smap_insert (component_key c) i componentDBCopies, parserSessionCopies @ [i]))"

fun add_sources :: "tree_component \<Rightarrow> nat \<Rightarrow> nat \<Rightarrow> nat \<Rightarrow> path list \<Rightarrow> node list \<times> nat list \<Rightarrow> node list \<times> nat list" where
  "add_sources c pInterfaceSession pMainGenericsPCH pComponentGenericsPCH [] s = s"
| "add_sources c pInterfaceSession pMainGenericsPCH pComponentGenericsPCH (f # fs) (ts, publicOperationsTasks) =
     (let (pOperationsHeader, ts1) = add_node (Task_OperationsHeader f) [pInterfaceSession] ts;
          (pPublic, ts2) = add_node (Task_OperationsPublicPCH f) [pMainGenericsPCH, pOperationsHeader] ts1;
          (pPrivate, ts3) = add_node (Task_OperationsPrivatePCH c f) [pComponentGenericsPCH, pPublic] ts2
      in add_sources c pInterfaceSession pMainGenericsPCH pComponentGenericsPCH fs
           (ts3, publicOperationsTasks @ [pPublic]))"

text \<open>The positions of the tasks of the project, which the tasks of a component depend on.\<close>

record main_tasks =
  mt_includePCH :: nat
  mt_interfacePCH :: nat
  mt_interfaceSession :: nat
  mt_genericsPCH :: nat

fun add_components :: "main_tasks \<Rightarrow> (string list \<times> nat) list \<Rightarrow> tree_component list \<Rightarrow> node list \<times> nat list
    \<Rightarrow> (node list \<times> nat list) result" where
  "add_components m copies [] s = Inr s"
| "add_components m copies (c # cs) (ts, publicOperationsTasks) =
     (case map_of copies (component_key c) of
        None \<Rightarrow> Inl (Rte ''pParserDBCopy'')
      | Some pParserDBCopy \<Rightarrow>
          (let (i1, ts1) = add_node (Task_ComponentIncludePCH c) [mt_includePCH m] ts;
               (i2, ts2) = add_node (Task_ComponentInterfacePCH c) [i1, pParserDBCopy, mt_interfacePCH m] ts1;
               (i3, ts3) = add_node (Task_ComponentGenericsPCH c)
                             [i2, mt_interfaceSession m, mt_genericsPCH m] ts2
           in add_components m copies cs
                (add_sources c (mt_interfaceSession m) (mt_genericsPCH m) i3
                   (pn_sourceFiles (snd (snd c))) (ts3, publicOperationsTasks))))"

definition interface_tasks :: "project_tree \<Rightarrow> string \<Rightarrow> node list result" where
  "interface_tasks t strProject =
     (let cs = tree_components t strProject;
          (pParserSession, ts0) = add_node Task_ParserSession [] [];
          (ts1, componentDBCopies, parserSessionCopies) = add_copies pParserSession cs (ts0, [], []);
          (i1, ts2) = add_node Task_MainIncludePCH [pParserSession] ts1;
          (i2, ts3) = add_node Task_MainInterfacePCH [i1] ts2;
          (i3, ts4) = add_node Task_InterfaceSession (parserSessionCopies @ [i2]) ts3;
          (i4, ts5) = add_node Task_MainGenericsPCH [i3] ts4
      in andThen (add_components \<lparr>mt_includePCH = i1, mt_interfacePCH = i2, mt_interfaceSession = i3,
                     mt_genericsPCH = i4\<rparr> componentDBCopies cs (ts5, [i4]))
           (\<lambda>(ts, publicOperationsTasks).
              Inr (snd (add_node Task_ImplementationSession publicOperationsTasks ts))))"

section \<open>The build\<close>

text \<open>Running tasks in an order.\<close>

fun run_order ::
  "('h, 's, 'p, 'i, 'u) eg_api \<Rightarrow> build_config \<Rightarrow> node list \<Rightarrow> nat list \<Rightarrow> ('s, 'p, 'i) build_world
   \<Rightarrow> ('s, 'p, 'i) build_world result" where
  "run_order api cx ts [] w = Inr w"
| "run_order api cx ts (i # order) w =
     andThen (run_task api cx (fst (ts ! i)) w) (\<lambda>(w', _). run_order api cx ts order w')"

definition valid_order :: "node list \<Rightarrow> nat list \<Rightarrow> bool" where
  "valid_order ts order \<longleftrightarrow>
     distinct order \<and> set order \<subseteq> {..<length ts} \<and>
     (\<forall>k < length order. set (snd (ts ! (order ! k))) \<subseteq> set (take k order))"

text \<open>Parsing the sources, before the tasks are made: the database is copied, before the analysis of
  the interface changes it, unless the stash has it.\<close>

definition keep_parser_database ::
  "('h, 's, 'p, 'i, 'u) eg_api \<Rightarrow> build_config \<Rightarrow> 'h \<Rightarrow> ('s, 'p, 'i) build_world \<Rightarrow> ('s, 'p, 'i) build_world result" where
  "keep_parser_database api cx parserHash w =
     (let t = cx_tree cx; db = getParserDatabaseFile t; pre = getParserDatabaseFilePreInterfaceAnalysis t in
      case sh_restore api pre parserHash (bw_stash w) (bw_files w) of
        Some fs \<Rightarrow> Inr (w\<lparr>bw_files := fs, bw_parserChanged := False\<rparr>)
      | None \<Rightarrow>
          andThen (copy_file db pre ((bw_files w)(pre := None))) (\<lambda>fs.
          andThen (sh_stash api pre parserHash fs (bw_stash w)) (\<lambda>s.
            Inr (w\<lparr>bw_files := fs, bw_stash := s, bw_parserChanged := True\<rparr>))))"

definition parse_sources ::
  "('h, 's, 'p, 'i, 'u) eg_api \<Rightarrow> build_config \<Rightarrow> ('s, 'p, 'i) build_world \<Rightarrow> ('s, 'p, 'i) build_world result" where
  "parse_sources api cx w =
     (let t = cx_tree cx; db = getParserDatabaseFile t in
      andThen (getParserDll (cx_platform cx) (cx_environment cx) (bw_process w)) (\<lambda>(dll, ps).
      andThen (eg_parse api dll (getSourceFolder t) (ProjectTree_getSourceFilesMap t []) (bw_files w)) (\<lambda>parser.
        (let fs = eg_parser_store api db parser (bw_files w);
             w1 = w\<lparr>bw_process := ps, bw_session_parser := Some parser, bw_files := fs\<rparr> in
         andThen (hs_file api db fs) (\<lambda>h0.
           (let parserHash = hs_combine2 api h0 (hs_strings api [cx_flags cx]) in
            keep_parser_database api cx parserHash
              (set_code api (getParserDatabaseFilePreInterfaceAnalysis t) parserHash w1)))))))"

definition build_interface ::
  "('h, 's, 'p, 'i, 'u) eg_api \<Rightarrow> platform \<Rightarrow> environment \<Rightarrow> path \<Rightarrow> string \<Rightarrow> string
   \<Rightarrow> (node list \<Rightarrow> nat list) \<Rightarrow> files \<Rightarrow> eg_process \<Rightarrow> ('s, 'p, 'i) build_world result" where
  "build_interface api pf this_process projectDirectory strProject strCompilationFlags scheduler fs ps =
     andThen (Environment_ctor_project this_process projectDirectory) (\<lambda>env.
     andThen (ProjectTree_ctor pf env projectDirectory strProject ps) (\<lambda>(t, ps1).
       (let cx = \<lparr>cx_platform = pf, cx_environment = env, cx_tree = t, cx_flags = strCompilationFlags\<rparr>;
            w = \<lparr>bw_files = fs, bw_stash = sh_open api (getStashFolder t) fs, bw_process = ps1,
                 bw_parserChanged = False, bw_session_parser = None, bw_session_interface = None,
                 bw_commands = []\<rparr> in
        andThen (parse_sources api cx w) (\<lambda>w1.
        andThen (interface_tasks t strProject) (\<lambda>ts.
        andThen (run_order api cx ts (scheduler ts) w1) (\<lambda>w2.
        andThen (sh_saveBuildHashCodes api (getBuildInfoFile t) (bw_stash w2) (bw_files w2)) (\<lambda>fs'.
          Inr (w2\<lparr>bw_files := fs'\<rparr>))))))))"

end
