(* ===== verification/Build_Graph.thy ===== *)
theory Build_Graph
  imports Build_Interface
begin

text \<open>
  The task graph of the interface build: every task is made with the tasks it needs, and depends on
  earlier ones only, so the order in which the tasks are made is an order to run them in, and a set
  of tasks that is closed under dependencies has all that its tasks need.
\<close>

text \<open>The tasks whose results a task reads.\<close>

fun required_tasks :: "task \<Rightarrow> task list" where
  "required_tasks Task_ParserSession = []"
| "required_tasks (Task_ParserSessionCopy c) = [Task_ParserSession]"
| "required_tasks Task_MainIncludePCH = [Task_ParserSession]"
| "required_tasks Task_MainInterfacePCH = [Task_MainIncludePCH]"
| "required_tasks Task_InterfaceSession = [Task_MainInterfacePCH]"
| "required_tasks Task_MainGenericsPCH = [Task_InterfaceSession]"
| "required_tasks (Task_ComponentIncludePCH c) = [Task_MainIncludePCH]"
| "required_tasks (Task_ComponentInterfacePCH c) = [Task_ComponentIncludePCH c, Task_MainInterfacePCH]"
| "required_tasks (Task_ComponentGenericsPCH c) =
     [Task_ComponentInterfacePCH c, Task_InterfaceSession, Task_MainGenericsPCH]"
| "required_tasks (Task_OperationsHeader f) = [Task_InterfaceSession]"
| "required_tasks (Task_OperationsPublicPCH f) = [Task_MainGenericsPCH, Task_OperationsHeader f]"
| "required_tasks (Task_OperationsPrivatePCH c f) = [Task_ComponentGenericsPCH c, Task_OperationsPublicPCH f]"
| "required_tasks Task_ImplementationSession = [Task_MainGenericsPCH]"

definition is_at :: "node list \<Rightarrow> nat \<Rightarrow> task \<Rightarrow> bool" where
  "is_at ts i t \<longleftrightarrow> i < length ts \<and> fst (ts ! i) = t"

definition node_ok :: "node list \<Rightarrow> nat \<Rightarrow> bool" where
  "node_ok ts i \<longleftrightarrow>
     set (snd (ts ! i)) \<subseteq> {..<i} \<and>
     (\<forall>t \<in> set (required_tasks (fst (ts ! i))). \<exists>j \<in> set (snd (ts ! i)). is_at ts j t)"

definition graph_ok :: "node list \<Rightarrow> bool" where
  "graph_ok ts \<longleftrightarrow> (\<forall>i < length ts. node_ok ts i)"

lemma is_at_append: "is_at ts i t \<Longrightarrow> is_at (ts @ us) i t"
  by (auto simp: is_at_def nth_append)

lemma is_at_new [simp]: "is_at (ts @ [(t, deps)]) (length ts) t"
  by (simp add: is_at_def)

lemma graph_ok_Nil [simp]: "graph_ok []"
  by (simp add: graph_ok_def)

lemma graph_ok_add:
  assumes "graph_ok ts" and "set deps \<subseteq> {..<length ts}"
    and "\<And>u. u \<in> set (required_tasks t) \<Longrightarrow> \<exists>j \<in> set deps. is_at ts j u"
  shows "graph_ok (ts @ [(t, deps)])"
proof -
  have "node_ok (ts @ [(t, deps)]) i" if "i < length ts" for i
  proof -
    have "node_ok ts i" using assms(1) that by (simp add: graph_ok_def)
    then show ?thesis using that is_at_append by (fastforce simp: node_ok_def nth_append)
  qed
  moreover have "node_ok (ts @ [(t, deps)]) (length ts)"
    using assms(2,3) is_at_append by (fastforce simp: node_ok_def)
  ultimately show ?thesis by (auto simp: graph_ok_def less_Suc_eq)
qed

lemma is_at_less: "is_at ts i t \<Longrightarrow> i < length ts"
  by (simp add: is_at_def)

section \<open>The loops that make the tasks\<close>

lemma add_copies_append:
  assumes "add_copies p cs (ts, m, l) = (ts', m', l')"
  shows "ts' = ts @ map (\<lambda>c. (Task_ParserSessionCopy c, [p])) cs \<and>
    l' = l @ [length ts..<length ts + length cs] \<and>
    (smap_wf m \<longrightarrow> smap_wf m' \<and> fst ` set m' = fst ` set m \<union> component_key ` set cs) \<and>
    (list_all (\<lambda>e. snd e < length ts) m \<longrightarrow> list_all (\<lambda>e. snd e < length ts') m')"
  using assms
proof (induction cs arbitrary: ts m l)
  case (Cons c cs)
  let ?m = "smap_insert (component_key c) (length ts) m"
  have step: "add_copies p cs (ts @ [(Task_ParserSessionCopy c, [p])], ?m, l @ [length ts]) = (ts', m', l')"
    using Cons.prems by (simp add: add_node_def)
  have ins: "e \<in> set ?m \<Longrightarrow> e = (component_key c, length ts) \<or> e \<in> set m" for e
    by (induction "component_key c" "length ts" m rule: smap_insert.induct) (auto split: if_splits)
  have bound: "list_all (\<lambda>e. snd e < length ts) m \<Longrightarrow> list_all (\<lambda>e. snd e < Suc (length ts)) ?m"
    by (auto simp: list_all_iff dest!: ins)
  have upt: "[length ts..<length ts + length (c # cs)] = length ts # [Suc (length ts)..<Suc (length ts) + length cs]"
    by (simp add: upt_conv_Cons del: upt_Suc)
  show ?case
    using Cons.IH [OF step] bound smap_insert_wf [of m "component_key c" "length ts"]
    unfolding upt by (auto simp: fst_smap_insert)
qed simp

lemma graph_ok_copies:
  assumes "graph_ok ts" and "is_at ts p Task_ParserSession"
  shows "graph_ok (ts @ map (\<lambda>c. (Task_ParserSessionCopy c, [p])) cs)"
  using assms
proof (induction cs arbitrary: ts)
  case (Cons c cs)
  have "graph_ok (ts @ [(Task_ParserSessionCopy c, [p])])"
    by (rule graph_ok_add) (use Cons.prems in \<open>auto simp: is_at_less\<close>)
  then have "graph_ok ((ts @ [(Task_ParserSessionCopy c, [p])]) @ map (\<lambda>c. (Task_ParserSessionCopy c, [p])) cs)"
    by (rule Cons.IH) (use Cons.prems(2) is_at_append in blast)
  then show ?case by simp
qed simp

text \<open>Growing a graph by tasks other than the interface session.\<close>

definition extends :: "node list \<Rightarrow> node list \<Rightarrow> bool" where
  "extends ts ts' \<longleftrightarrow> (\<exists>us. ts' = ts @ us \<and> Task_InterfaceSession \<notin> fst ` set us)"

lemma extends_refl [simp]: "extends ts ts"
  by (simp add: extends_def)

lemma extends_trans: "extends a b \<Longrightarrow> extends b c \<Longrightarrow> extends a c"
  by (auto simp: extends_def image_Un)

lemma extends_add: "t \<noteq> Task_InterfaceSession \<Longrightarrow> extends ts (ts @ [(t, deps)])"
  by (auto simp: extends_def)

lemma extends_is_at: "extends ts ts' \<Longrightarrow> is_at ts i t \<Longrightarrow> is_at ts' i t"
  by (auto simp: extends_def is_at_append)

lemma add_sources_ok:
  assumes "add_sources c pI pM pC fs (ts, l) = (ts', l')"
    and "graph_ok ts" and "is_at ts pI Task_InterfaceSession" and "is_at ts pM Task_MainGenericsPCH"
    and "is_at ts pC (Task_ComponentGenericsPCH c)" and "set l \<subseteq> {..<length ts}"
  shows "graph_ok ts' \<and> extends ts ts' \<and> set l \<subseteq> set l' \<and> set l' \<subseteq> {..<length ts'}"
  using assms
proof (induction fs arbitrary: ts l)
  case (Cons f fs)
  let ?n = "length ts"
  let ?t1 = "ts @ [(Task_OperationsHeader f, [pI])]"
  let ?t2 = "?t1 @ [(Task_OperationsPublicPCH f, [pM, ?n])]"
  let ?t3 = "?t2 @ [(Task_OperationsPrivatePCH c f, [pC, Suc ?n])]"
  have rest: "add_sources c pI pM pC fs (?t3, l @ [Suc ?n]) = (ts', l')"
    using Cons.prems(1) by (simp add: add_node_def Let_def)
  have e: "extends ts ?t1" "extends ?t1 ?t2" "extends ?t2 ?t3" by (rule extends_add, simp)+
  have e3: "extends ts ?t3" using e extends_trans by blast
  have a1: "is_at ?t1 ?n (Task_OperationsHeader f)" by simp
  have a2: "is_at ?t2 (Suc ?n) (Task_OperationsPublicPCH f)"
    using is_at_new [of ?t1 "Task_OperationsPublicPCH f"] by simp
  have g1: "graph_ok ?t1"
    by (rule graph_ok_add) (use Cons.prems(2,3) in \<open>auto simp: is_at_less\<close>)
  have m1: "is_at ?t1 pM Task_MainGenericsPCH" using Cons.prems(4) is_at_append by blast
  have g2: "graph_ok ?t2"
    by (rule graph_ok_add [OF g1]) (use m1 a1 is_at_less [OF m1] in auto)
  have c2: "is_at ?t2 pC (Task_ComponentGenericsPCH c)" using Cons.prems(5) is_at_append by blast
  have g3: "graph_ok ?t3"
    by (rule graph_ok_add [OF g2]) (use c2 a2 is_at_less [OF c2] in auto)
  have "graph_ok ts' \<and> extends ?t3 ts' \<and> set (l @ [Suc ?n]) \<subseteq> set l' \<and> set l' \<subseteq> {..<length ts'}"
    by (rule Cons.IH [OF rest g3])
      (use Cons.prems(3-6) e3 extends_is_at in \<open>auto intro: less_trans\<close>)
  then show ?case using extends_trans [OF e3] by auto
qed auto

lemma add_components_ok:
  assumes "add_components m copies cs (ts, l) = Inr (ts', l')"
    and "graph_ok ts" and "is_at ts (mt_includePCH m) Task_MainIncludePCH"
    and "is_at ts (mt_interfacePCH m) Task_MainInterfacePCH"
    and "is_at ts (mt_interfaceSession m) Task_InterfaceSession"
    and "is_at ts (mt_genericsPCH m) Task_MainGenericsPCH"
    and "set l \<subseteq> {..<length ts}" and "list_all (\<lambda>e. snd e < length ts) copies"
  shows "graph_ok ts' \<and> extends ts ts' \<and> set l \<subseteq> set l' \<and> set l' \<subseteq> {..<length ts'}"
  using assms
proof (induction cs arbitrary: ts l)
  case (Cons c cs)
  let ?n = "length ts"
  from Cons.prems(1) obtain d where d: "map_of copies (component_key c) = Some d"
    by (auto split: option.splits)
  then have dn: "d < ?n" using Cons.prems(8) by (auto simp: list_all_iff dest!: map_of_SomeD)
  let ?t1 = "ts @ [(Task_ComponentIncludePCH c, [mt_includePCH m])]"
  let ?t2 = "?t1 @ [(Task_ComponentInterfacePCH c, [?n, d, mt_interfacePCH m])]"
  let ?t3 = "?t2 @ [(Task_ComponentGenericsPCH c, [Suc ?n, mt_interfaceSession m, mt_genericsPCH m])]"
  obtain t4 l4 where src: "add_sources c (mt_interfaceSession m) (mt_genericsPCH m) (Suc (Suc ?n))
      (pn_sourceFiles (snd (snd c))) (?t3, l) = (t4, l4)"
    by (cases "add_sources c (mt_interfaceSession m) (mt_genericsPCH m) (Suc (Suc ?n))
      (pn_sourceFiles (snd (snd c))) (?t3, l)")
  have rest: "add_components m copies cs (t4, l4) = Inr (ts', l')"
    using Cons.prems(1) d src by (simp add: add_node_def Let_def)
  have e: "extends ts ?t1" "extends ?t1 ?t2" "extends ?t2 ?t3" by (rule extends_add, simp)+
  have e3: "extends ts ?t3" using e extends_trans by blast
  have a2: "is_at ?t2 (Suc ?n) (Task_ComponentInterfacePCH c)"
    using is_at_new [of ?t1 "Task_ComponentInterfacePCH c"] by simp
  have a3: "is_at ?t3 (Suc (Suc ?n)) (Task_ComponentGenericsPCH c)"
    using is_at_new [of ?t2 "Task_ComponentGenericsPCH c"] by simp
  have g1: "graph_ok ?t1"
    by (rule graph_ok_add) (use Cons.prems(2,3) in \<open>auto simp: is_at_less\<close>)
  have m1: "is_at ?t1 (mt_interfacePCH m) Task_MainInterfacePCH" using Cons.prems(4) is_at_append by blast
  have g2: "graph_ok ?t2"
    by (rule graph_ok_add [OF g1]) (use m1 dn is_at_less [OF m1] is_at_new in auto)
  have m2: "is_at ?t2 (mt_interfaceSession m) Task_InterfaceSession"
    "is_at ?t2 (mt_genericsPCH m) Task_MainGenericsPCH"
    using Cons.prems(5,6) is_at_append by blast+
  have g3: "graph_ok ?t3"
    by (rule graph_ok_add [OF g2]) (use m2 a2 is_at_less [OF m2(1)] is_at_less [OF m2(2)] in auto)
  have s4: "graph_ok t4 \<and> extends ?t3 t4 \<and> set l \<subseteq> set l4 \<and> set l4 \<subseteq> {..<length t4}"
    by (rule add_sources_ok [OF src g3 _ _ a3])
      (use Cons.prems(5-7) e3 extends_is_at in \<open>auto intro: less_trans\<close>)
  then have e4: "extends ts t4" using e3 extends_trans by blast
  then have len: "?n \<le> length t4" by (auto simp: extends_def)
  have "graph_ok ts' \<and> extends t4 ts' \<and> set l4 \<subseteq> set l' \<and> set l' \<subseteq> {..<length ts'}"
    by (rule Cons.IH [OF rest])
      (use s4 Cons.prems(3-6,8) e4 extends_is_at len in \<open>auto simp: list_all_iff intro: less_le_trans\<close>)
  then show ?case using s4 extends_trans [OF e4] by auto
qed auto

lemma add_components_total:
  "\<forall>c \<in> set cs. component_key c \<in> fst ` set copies \<Longrightarrow> \<exists>s'. add_components m copies cs s = Inr s'"
proof (induction cs arbitrary: s)
  case (Cons c cs)
  obtain ts l where s: "s = (ts, l)" by (cases s)
  obtain d where "map_of copies (component_key c) = Some d"
    using Cons.prems by (metis list.set_intros(1) map_of_None_iff not_None_eq)
  then show ?case using Cons by (simp add: s add_node_def Let_def)
qed simp

lemma is_at_unique:
  assumes "t \<notin> fst ` set pre" and "t \<notin> fst ` set post"
  shows "is_at (pre @ (t, deps) # post) i t \<longleftrightarrow> i = length pre"
proof
  assume i: "is_at (pre @ (t, deps) # post) i t"
  show "i = length pre"
  proof (rule linorder_cases [of i "length pre"])
    assume "i < length pre"
    then have "fst (pre ! i) \<in> fst ` set pre" "fst (pre ! i) = t"
      using i by (auto simp: is_at_def nth_append)
    then show ?thesis using assms(1) by simp
  next
    assume g: "length pre < i"
    then have "fst (post ! (i - Suc (length pre))) \<in> fst ` set post"
      using i by (intro imageI nth_mem) (auto simp: is_at_def)
    moreover have "fst (post ! (i - Suc (length pre))) = t"
      using g i by (simp add: is_at_def nth_append nth_Cons')
    ultimately show ?thesis using assms(2) by simp
  qed
qed (simp add: is_at_def)

text \<open>Every component and every source of a component has its tasks.\<close>

definition made :: "node list \<Rightarrow> task set" where
  "made ts = fst ` set ts"

lemma made_simps [simp]:
  "made [] = {}" "made (n # ts) = insert (fst n) (made ts)" "made (ts @ us) = made ts \<union> made us"
  by (auto simp: made_def)

lemma add_sources_tasks:
  assumes "add_sources c pI pM pC fs (ts, l) = (ts', l')"
  shows "made ts \<subseteq> made ts' \<and>
    (\<forall>f \<in> set fs. Task_OperationsPublicPCH f \<in> made ts' \<and> Task_OperationsPrivatePCH c f \<in> made ts')"
  using assms
proof (induction fs arbitrary: ts l)
  case (Cons f fs)
  then have "add_sources c pI pM pC fs (ts @ [(Task_OperationsHeader f, [pI]),
      (Task_OperationsPublicPCH f, [pM, length ts]), (Task_OperationsPrivatePCH c f, [pC, Suc (length ts)])],
      l @ [Suc (length ts)]) = (ts', l')"
    by (simp add: add_node_def Let_def)
  from Cons.IH [OF this] show ?case by auto
qed auto

lemma add_components_tasks:
  assumes "add_components m copies cs (ts, l) = Inr (ts', l')"
  shows "made ts \<subseteq> made ts' \<and> (\<forall>c \<in> set cs. Task_ComponentGenericsPCH c \<in> made ts' \<and>
    (\<forall>f \<in> set (pn_sourceFiles (snd (snd c))).
      Task_OperationsPublicPCH f \<in> made ts' \<and> Task_OperationsPrivatePCH c f \<in> made ts'))"
  using assms
proof (induction cs arbitrary: ts l)
  case (Cons c cs)
  let ?n = "length ts"
  obtain d where d: "map_of copies (component_key c) = Some d" using Cons.prems by (auto split: option.splits)
  let ?t3 = "ts @ [(Task_ComponentIncludePCH c, [mt_includePCH m]),
      (Task_ComponentInterfacePCH c, [?n, d, mt_interfacePCH m]),
      (Task_ComponentGenericsPCH c, [Suc ?n, mt_interfaceSession m, mt_genericsPCH m])]"
  obtain t4 l4 where src: "add_sources c (mt_interfaceSession m) (mt_genericsPCH m) (Suc (Suc ?n))
      (pn_sourceFiles (snd (snd c))) (?t3, l) = (t4, l4)"
    by (cases "add_sources c (mt_interfaceSession m) (mt_genericsPCH m) (Suc (Suc ?n))
      (pn_sourceFiles (snd (snd c))) (?t3, l)")
  then have rest: "add_components m copies cs (t4, l4) = Inr (ts', l')"
    using Cons.prems d by (simp add: add_node_def Let_def)
  from Cons.IH [OF this] add_sources_tasks [OF src] show ?case by auto
qed auto

lemma interface_tasks_components:
  assumes "interface_tasks t strProject = Inr ts" and "c \<in> set (tree_components t strProject)"
  shows "Task_ComponentGenericsPCH c \<in> made ts"
    and "f \<in> set (pn_sourceFiles (snd (snd c))) \<Longrightarrow>
      Task_OperationsPublicPCH f \<in> made ts \<and> Task_OperationsPrivatePCH c f \<in> made ts"
proof -
  obtain m copies ts1 l ts' l' where
    "add_components m copies (tree_components t strProject) (ts1, l) = Inr (ts', l')"
    and sub: "ts = ts' @ [(Task_ImplementationSession, l')]"
    using assms(1) by (auto simp: interface_tasks_def add_node_def Let_def andThen_eq_Inr split: prod.splits)
  from add_components_tasks [OF this(1)] assms(2)
  show "Task_ComponentGenericsPCH c \<in> made ts"
    and "f \<in> set (pn_sourceFiles (snd (snd c))) \<Longrightarrow>
      Task_OperationsPublicPCH f \<in> made ts \<and> Task_OperationsPrivatePCH c f \<in> made ts"
    by (auto simp: sub)
qed

section \<open>The graph\<close>

text \<open> The tasks of the interface build can always be made.  Every task depends on tasks made before
  it and on every task whose results it reads, and the interface session is made once.\<close>

theorem interface_tasks_graph:
  "\<exists>ts. interface_tasks t strProject = Inr ts \<and> graph_ok ts \<and>
    card {i. is_at ts i Task_InterfaceSession} = 1 \<and> fst (last ts) = Task_ImplementationSession"
proof -
  let ?cs = "tree_components t strProject"
  let ?t0 = "[(Task_ParserSession, [])] :: node list"
  obtain ts1 m l where copies: "add_copies 0 ?cs (?t0, [], []) = (ts1, m, l)"
    by (cases "add_copies 0 ?cs (?t0, [], [])") auto
  define n where "n = length ts1"
  have ts1: "ts1 = ?t0 @ map (\<lambda>c. (Task_ParserSessionCopy c, [0])) ?cs"
    and l: "set l \<subseteq> {..<n}" and keys: "fst ` set m = component_key ` set ?cs"
    and bound: "list_all (\<lambda>e. snd e < n) m"
    using add_copies_append [OF copies] by (auto simp: n_def)
  have p0: "is_at ?t0 0 Task_ParserSession" by (simp add: is_at_def)
  have g0: "graph_ok ?t0" by (simp add: graph_ok_def node_ok_def)
  have g1: "graph_ok ts1" unfolding ts1 by (rule graph_ok_copies [OF g0 p0])
  have p1: "is_at ts1 0 Task_ParserSession" unfolding ts1 by (rule is_at_append [OF p0])
  let ?t2 = "ts1 @ [(Task_MainIncludePCH, [0])]"
  let ?t3 = "?t2 @ [(Task_MainInterfacePCH, [n])]"
  let ?t4 = "?t3 @ [(Task_InterfaceSession, l @ [Suc n])]"
  let ?t5 = "?t4 @ [(Task_MainGenericsPCH, [Suc (Suc n)])]"
  have a2: "is_at ?t2 n Task_MainIncludePCH" by (simp add: n_def)
  have a3: "is_at ?t3 (Suc n) Task_MainInterfacePCH"
    using is_at_new [of ?t2 Task_MainInterfacePCH] by (simp add: n_def)
  have a4: "is_at ?t4 (Suc (Suc n)) Task_InterfaceSession"
    using is_at_new [of ?t3 Task_InterfaceSession] by (simp add: n_def)
  have a5: "is_at ?t5 (Suc (Suc (Suc n))) Task_MainGenericsPCH"
    using is_at_new [of ?t4 Task_MainGenericsPCH] by (simp add: n_def)
  have g2: "graph_ok ?t2"
    by (rule graph_ok_add [OF g1]) (use p1 is_at_less [OF p1] in auto)
  have g3: "graph_ok ?t3"
    by (rule graph_ok_add [OF g2]) (use a2 in \<open>auto simp: n_def\<close>)
  have g4: "graph_ok ?t4"
    by (rule graph_ok_add [OF g3]) (use a3 l in \<open>auto simp: n_def\<close>)
  have g5: "graph_ok ?t5"
    by (rule graph_ok_add [OF g4]) (use a4 in \<open>auto simp: n_def\<close>)
  let ?m = "\<lparr>mt_includePCH = n, mt_interfacePCH = Suc n, mt_interfaceSession = Suc (Suc n),
    mt_genericsPCH = Suc (Suc (Suc n))\<rparr>"
  obtain t6 l6 where comps: "add_components ?m m ?cs (?t5, [Suc (Suc (Suc n))]) = Inr (t6, l6)"
    using add_components_total [of ?cs m ?m "(?t5, [Suc (Suc (Suc n))])"] keys by auto
  have at5: "is_at ?t5 n Task_MainIncludePCH" "is_at ?t5 (Suc n) Task_MainInterfacePCH"
    "is_at ?t5 (Suc (Suc n)) Task_InterfaceSession"
    using is_at_append [OF a2, of "[(Task_MainInterfacePCH, [n])]"]
      is_at_append [OF a3] is_at_append [OF a4] by (simp_all add: is_at_def nth_append n_def)
  have g6: "graph_ok t6 \<and> extends ?t5 t6 \<and> set [Suc (Suc (Suc n))] \<subseteq> set l6 \<and> set l6 \<subseteq> {..<length t6}"
    by (rule add_components_ok [OF comps g5])
      (use at5 a5 bound in \<open>auto simp: n_def list_all_iff intro: less_trans\<close>)
  let ?ts = "t6 @ [(Task_ImplementationSession, l6)]"
  have tasks: "interface_tasks t strProject = Inr ?ts"
    using copies comps by (simp add: interface_tasks_def add_node_def Let_def n_def)
  have a6: "is_at t6 (Suc (Suc (Suc n))) Task_MainGenericsPCH"
    using g6 a5 extends_is_at by blast
  have g7: "graph_ok ?ts"
    by (rule graph_ok_add) (use g6 a6 in auto)
  obtain us where us: "t6 = ?t5 @ us" "Task_InterfaceSession \<notin> fst ` set us"
    using g6 by (auto simp: extends_def)
  let ?rest = "(Task_MainGenericsPCH, [Suc (Suc n)]) # us @ [(Task_ImplementationSession, l6)]"
  have split: "?ts = ?t3 @ (Task_InterfaceSession, l @ [Suc n]) # ?rest" using us by simp
  have "is_at ?ts i Task_InterfaceSession \<longleftrightarrow> i = length ?t3" for i
    unfolding split by (rule is_at_unique) (use us in \<open>auto simp: ts1\<close>)
  then have "{i. is_at ?ts i Task_InterfaceSession} = {length ?t3}" by auto
  then show ?thesis using tasks g7 by (intro exI [of _ ?ts]) simp
qed

end
