(* ===== verification/Build_Implementation.thy ===== *)
theory Build_Implementation
  imports Build_Interface
begin

text \<open>
  \<open>src/driver/build_implementation.cpp\<close>: the build of one component, after the build of the interface:
  the generated sources, then one compilation for each C++ file and each translation unit.  The tasks
  have no dependencies.  The generators of texts and the analysis database are fields of an
  \<open>impl_api\<close>.
\<close>

text \<open>
  \<open>ir_open\<close> opens the database of the analysis; a translation unit has a name and the identifiers of
  its coordinator and host.
\<close>

record ('r, 'u) impl_api =
  ir_open :: "path \<Rightarrow> files \<Rightarrow> 'r result"
  ir_translationUnits :: "'r \<Rightarrow> 'u list"
  ir_tu_name :: "'u \<Rightarrow> string"
  ir_tu_coordinator :: "'u \<Rightarrow> string"
  ir_tu_host :: "'u \<Rightarrow> string"
  ir_networkAnalysis :: "'r \<Rightarrow> project_tree \<Rightarrow> unit result"
  ir_structures :: "'r \<Rightarrow> project_tree \<Rightarrow> string result"
  ir_netstate :: "'r \<Rightarrow> project_tree \<Rightarrow> string result"
  ir_runtime :: "'r \<Rightarrow> project_tree \<Rightarrow> string result"
  ir_configIO :: "'r \<Rightarrow> project_tree \<Rightarrow> string result"
  ir_python :: "'r \<Rightarrow> project_tree \<Rightarrow> string result"
  ir_unrealInterface :: "'r \<Rightarrow> project_tree \<Rightarrow> string result"
  ir_unreal :: "'r \<Rightarrow> project_tree \<Rightarrow> string result"
  ir_component :: "'r \<Rightarrow> project_tree \<Rightarrow> string \<Rightarrow> string result"
  ir_implementation :: "'r \<Rightarrow> project_tree \<Rightarrow> 'u \<Rightarrow> string list \<Rightarrow> string result"

record impl_config =
  ic_config :: build_config
  ic_component :: tree_component
  ic_defines :: string
  ic_binaryPath :: path

text \<open>\<open>szComponentTypeNames\<close> of \<open>generator.hpp\<close>.\<close>

definition component_type_names :: "string list" where
  "component_type_names = [''basic'', ''python'', ''unreal'', ''geometry'']"

section \<open>The tasks\<close>

definition run_CPPCompilation ::
  "('h, 's, 'p, 'i, 'v) eg_api \<Rightarrow> impl_config \<Rightarrow> path \<Rightarrow> ('s, 'p, 'i) build_world
   \<Rightarrow> (('s, 'p, 'i) build_world \<times> outcome) result" where
  "run_CPPCompilation api ic sourceFile w =
     (let cx = ic_config ic; pf = cx_platform cx; env = cx_environment cx; t = cx_tree cx;
          r = ref_of_component (ic_component ic) in
      andThen (getObjectFile pf t sourceFile (ic_binaryPath ic)) (\<lambda>objectFile.
      andThen (getComponentIncludePCH pf t r) (\<lambda>includePCH.
      andThen (getComponentInterfacePCH pf t r) (\<lambda>interfacePCH.
      andThen (getComponentGenericsPCH pf t r) (\<lambda>genericsPCH.
      andThen (combined_hash api
          [H_File sourceFile, H_Strings [cx_flags cx], H_Code (getParserDatabaseFilePreInterfaceAnalysis t),
           H_Code (getIncludePCH t), H_Code includePCH, H_Code interfacePCH, H_Code genericsPCH] w) (\<lambda>hashCode.
        restore_or_compile api cx objectFile hashCode None
          (with_library cx (getComponentIncludeDirectories pf env t r) (\<lambda>ds.
            (Compilation_OBJ sourceFile objectFile (cx_flags cx))
              \<lparr>cc_inputPCH := [getIncludePCH t, includePCH, interfacePCH, genericsPCH],
               cc_includeDirs := ds @ [getInterfaceFolder t], cc_defines := [ic_defines ic]\<rparr>))
          w))))))"

definition run_PublicEGImplCompilation ::
  "('h, 's, 'p, 'i, 'v) eg_api \<Rightarrow> ('r, 'u) impl_api \<Rightarrow> impl_config \<Rightarrow> 'r \<Rightarrow> 'u \<Rightarrow> ('s, 'p, 'i) build_world
   \<Rightarrow> (('s, 'p, 'i) build_world \<times> outcome) result" where
  "run_PublicEGImplCompilation api ia ic session u w =
     (let cx = ic_config ic; pf = cx_platform cx; env = cx_environment cx; t = cx_tree cx;
          strTUName = ir_tu_name ia u in
      andThen (getImplementationSource pf t strTUName) (\<lambda>source.
      andThen (getObjectName pf t strTUName (ic_binaryPath ic)) (\<lambda>objectName.
      andThen (getNetStateSourceInclude t) (\<lambda>netstate.
      andThen (ir_implementation ia session t u [getStructuresInclude, netstate]) (\<lambda>osImpl.
        (let pch = getOperationsPublicPCH pf t strTUName in
         andThen (combined_hash api
             [H_Strings [osImpl, cx_flags cx], H_Code (getParserDatabaseFilePreInterfaceAnalysis t),
              H_Code (getIncludePCH t), H_Code (getInterfacePCH t), H_Code (getGenericsPCH t), H_Code pch] w)
           (\<lambda>hashCode.
           restore_or_compile api cx objectName hashCode (Some (source, osImpl))
             (with_library cx (getIncludeDirectories pf env t) (\<lambda>ds.
               (Compilation_OBJ source objectName (cx_flags cx))
                 \<lparr>cc_inputPCH := [getIncludePCH t, getInterfacePCH t, getGenericsPCH t, pch],
                  cc_includeDirs := ds @ [getInterfaceFolder t], cc_defines := [ic_defines ic]\<rparr>))
             w)))))))"

definition run_PrivateEGImplCompilation ::
  "('h, 's, 'p, 'i, 'v) eg_api \<Rightarrow> ('r, 'u) impl_api \<Rightarrow> impl_config \<Rightarrow> 'r \<Rightarrow> 'u \<Rightarrow> ('s, 'p, 'i) build_world
   \<Rightarrow> (('s, 'p, 'i) build_world \<times> outcome) result" where
  "run_PrivateEGImplCompilation api ia ic session u w =
     (let cx = ic_config ic; pf = cx_platform cx; env = cx_environment cx; t = cx_tree cx;
          r = ref_of_component (ic_component ic); strTUName = ir_tu_name ia u in
      andThen (getImplementationSource pf t strTUName) (\<lambda>source.
      andThen (getObjectName pf t strTUName (ic_binaryPath ic)) (\<lambda>objectName.
      andThen (getNetStateSourceInclude t) (\<lambda>netstate.
      andThen (getComponentIncludePCH pf t r) (\<lambda>includePCH.
      andThen (getComponentInterfacePCH pf t r) (\<lambda>interfacePCH.
      andThen (getComponentGenericsPCH pf t r) (\<lambda>genericsPCH.
      andThen (ir_implementation ia session t u [getStructuresInclude, netstate]) (\<lambda>osImpl.
        (let pch = getOperationsPrivatePCH pf t strTUName in
         andThen (combined_hash api
             [H_Strings [osImpl, cx_flags cx], H_Code (getParserDatabaseFilePreInterfaceAnalysis t),
              H_Code (getIncludePCH t), H_Code includePCH, H_Code interfacePCH, H_Code genericsPCH, H_Code pch] w)
           (\<lambda>hashCode.
           restore_or_compile api cx objectName hashCode (Some (source, osImpl))
             (with_library cx (getComponentIncludeDirectories pf env t r) (\<lambda>ds.
               (Compilation_OBJ source objectName (cx_flags cx))
                 \<lparr>cc_inputPCH := [getIncludePCH t, includePCH, interfacePCH, genericsPCH, pch],
                  cc_includeDirs := ds @ [getInterfaceFolder t], cc_defines := [ic_defines ic]\<rparr>))
             w))))))))))"

section \<open>The build\<close>

text \<open>The loops that look for the component only break the innermost: the last host of its name of the
  last coordinator of its name is taken, with the first project of its name.\<close>

definition find_host :: "string \<Rightarrow> string \<Rightarrow> coordinator_dir \<Rightarrow> tree_component option \<Rightarrow> tree_component option" where
  "find_host strHost strProject c found =
     fold (\<lambda>h found.
       if HostName_name h = strHost
       then (case find (\<lambda>p. ProjectName_name p = strProject) (hn_projects h) of
               Some p \<Rightarrow> Some (c, h, p)
             | None \<Rightarrow> found)
       else found) (co_hostNames c) found"

definition find_component :: "project_tree \<Rightarrow> string \<Rightarrow> string \<Rightarrow> string \<Rightarrow> tree_component option" where
  "find_component t strCoordinator strHost strProject =
     fold (\<lambda>c found. if Coordinator_name c = strCoordinator then find_host strHost strProject c found else found)
       (pt_coordinators t) None"

definition update_file ::
  "('h, 's, 'p, 'i, 'v) eg_api \<Rightarrow> path \<Rightarrow> string \<Rightarrow> ('s, 'p, 'i) build_world \<Rightarrow> ('s, 'p, 'i) build_world" where
  "update_file api p s w = w\<lparr>bw_files := snd (fs_updateFileIfChanged api p s (bw_files w))\<rparr>"

text \<open>The generated sources of a component by the type of its host: each is written and, the interface
  of an unreal component apart, compiled.\<close>

definition write_source ::
  "('h, 's, 'p, 'i, 'v) eg_api \<Rightarrow> path result \<Rightarrow> string result \<Rightarrow> ('s, 'p, 'i) build_world \<times> path list
   \<Rightarrow> (('s, 'p, 'i) build_world \<times> path list) result" where
  "write_source api p s x =
     andThen s (\<lambda>text. andThen p (\<lambda>q. Inr (update_file api q text (fst x), snd x @ [q])))"

definition write_component_sources ::
  "('h, 's, 'p, 'i, 'v) eg_api \<Rightarrow> ('r, 'u) impl_api \<Rightarrow> build_config \<Rightarrow> 'r \<Rightarrow> string
   \<Rightarrow> ('s, 'p, 'i) build_world \<times> path list \<Rightarrow> (('s, 'p, 'i) build_world \<times> path list) result" where
  "write_component_sources api ia cx session strProjectType x =
     (let pf = cx_platform cx; t = cx_tree cx;
          egComponent = (\<lambda>ty. write_source api (getEGComponentSource pf t) (ir_component ia session t ty)) in
      if strProjectType = ''basic'' then egComponent ''basic'' x
      else if strProjectType = ''python''
      then andThen (write_source api (getPythonSource pf t) (ir_python ia session t) x) (egComponent ''python'')
      else if strProjectType = ''unreal''
      then andThen (ir_unrealInterface ia session t) (\<lambda>interface.
           andThen (getUnrealInterface pf t) (\<lambda>p.
           andThen (write_source api (getUnrealSource pf t) (ir_unreal ia session t)
             (update_file api p interface (fst x), snd x)) (egComponent ''unreal'')))
      else if strProjectType = ''geometry'' then egComponent ''geometry'' x
      else Inl (Rte (''Unknown project type: '' @ strProjectType)))"

definition write_sources ::
  "('h, 's, 'p, 'i, 'v) eg_api \<Rightarrow> ('r, 'u) impl_api \<Rightarrow> build_config \<Rightarrow> 'r \<Rightarrow> ('s, 'p, 'i) build_world
   \<Rightarrow> (('s, 'p, 'i) build_world \<times> path list) result" where
  "write_sources api ia cx session w =
     (let pf = cx_platform cx; env = cx_environment cx; t = cx_tree cx in
      andThen (getCoroutineFrameSourceFilePath pf env) (\<lambda>frame.
      andThen (getBasicSchedulerFilePath pf env) (\<lambda>scheduler.
      andThen (ir_structures ia session t) (\<lambda>structures.
      andThen (ir_netstate ia session t) (\<lambda>osNetState.
      andThen (getNetStateSource pf t) (\<lambda>netstate.
        (let w1 = update_file api (getDataStructureSource pf t) structures w;
             w2 = update_file api netstate osNetState w1 in
         andThen (write_source api (getRuntimeSource pf t) (ir_runtime ia session t) (w2, [frame, scheduler])) (\<lambda>x.
         andThen (write_source api (getConfigIOSource pf t) (ir_configIO ia session t) x) (\<lambda>x.
         andThen (ProjectTree_getProject t) (\<lambda>pj.
           write_component_sources api ia cx session (xp_Type (pj_host pj)) x))))))))))"

text \<open>The tasks: one for each source, then one for each named \<open>eg\<close> file, private to the component when
  its unit belongs to it.\<close>

datatype 'u impl_task = Task_CPPCompilation path | Task_Public 'u | Task_Private 'u

fun eg_tasks :: "('r, 'u) impl_api \<Rightarrow> tree_component \<Rightarrow> 'u list \<Rightarrow> string list \<Rightarrow> 'u impl_task list result" where
  "eg_tasks ia c units [] = Inr []"
| "eg_tasks ia c units (f # fs) =
     (case find (\<lambda>u. ir_tu_name ia u = f) units of
        None \<Rightarrow> Inl (Rte (''Task_EGImplCompilation:  COULD NOT LOCATE: '' @ f))
      | Some u \<Rightarrow>
          andThen (eg_tasks ia c units fs) (\<lambda>ts.
            Inr ((if ir_tu_coordinator ia u = Coordinator_name (fst c) \<and> ir_tu_host ia u = HostName_name (fst (snd c))
                  then Task_Private u else Task_Public u) # ts)))"

definition run_impl_task ::
  "('h, 's, 'p, 'i, 'v) eg_api \<Rightarrow> ('r, 'u) impl_api \<Rightarrow> impl_config \<Rightarrow> 'r \<Rightarrow> 'u impl_task \<Rightarrow> ('s, 'p, 'i) build_world
   \<Rightarrow> (('s, 'p, 'i) build_world \<times> outcome) result" where
  "run_impl_task api ia ic session t w =
     (case t of
        Task_CPPCompilation f \<Rightarrow> run_CPPCompilation api ic f w
      | Task_Public u \<Rightarrow> run_PublicEGImplCompilation api ia ic session u w
      | Task_Private u \<Rightarrow> run_PrivateEGImplCompilation api ia ic session u w)"

fun run_impl_order ::
  "('h, 's, 'p, 'i, 'v) eg_api \<Rightarrow> ('r, 'u) impl_api \<Rightarrow> impl_config \<Rightarrow> 'r \<Rightarrow> 'u impl_task list
   \<Rightarrow> ('s, 'p, 'i) build_world \<Rightarrow> ('s, 'p, 'i) build_world result" where
  "run_impl_order api ia ic session [] w = Inr w"
| "run_impl_order api ia ic session (t # ts) w =
     andThen (run_impl_task api ia ic session t w) (\<lambda>(w', _). run_impl_order api ia ic session ts w')"

definition build_implementation ::
  "('h, 's, 'p, 'i, 'v) eg_api \<Rightarrow> ('r, 'u) impl_api \<Rightarrow> platform \<Rightarrow> environment \<Rightarrow> path \<Rightarrow> string \<Rightarrow> string
   \<Rightarrow> string \<Rightarrow> string \<Rightarrow> string list \<Rightarrow> path \<Rightarrow> ('u impl_task list \<Rightarrow> 'u impl_task list) \<Rightarrow> files \<Rightarrow> eg_process
   \<Rightarrow> ('s, 'p, 'i) build_world result" where
  "build_implementation api ia pf this_process projectDirectory strCoordinator strHost strProject flags names
       binPath scheduler fs ps =
     andThen (Environment_ctor_project this_process projectDirectory) (\<lambda>env.
     andThen (ProjectTree_ctor_component pf env projectDirectory strCoordinator strHost strProject ps) (\<lambda>(t, ps1).
     andThen (verified (find_component t strCoordinator strHost strProject) ''pCoordinator'') (\<lambda>c.
     andThen (ir_open ia (getAnalysisFileName pf t) fs) (\<lambda>session.
     andThen (ir_networkAnalysis ia session t) (\<lambda>_.
       (let cx = \<lparr>cx_platform = pf, cx_environment = env, cx_tree = t, cx_flags = flags\<rparr>;
            w = \<lparr>bw_files = fs, bw_stash = sh_open api (getStashFolder t) fs, bw_process = ps1,
                 bw_parserChanged = False, bw_session_parser = None, bw_session_interface = None,
                 bw_commands = []\<rparr>;
            ic = \<lparr>ic_config = cx, ic_component = c, ic_defines = strCoordinator @ ''_'' @ strHost,
                  ic_binaryPath = binPath\<rparr> in
        andThen (write_sources api ia cx session w) (\<lambda>(w1, sourceFiles).
        andThen (sh_loadBuildHashCodes api (getBuildInfoFile t) (bw_files w1) (bw_stash w1)) (\<lambda>s.
        andThen (eg_tasks ia c (ir_translationUnits ia session) names) (\<lambda>ts.
          run_impl_order api ia ic session (scheduler (map Task_CPPCompilation sourceFiles @ ts))
            (w1\<lparr>bw_stash := s\<rparr>))))))))))"

end
