(* ===== verification/Build_Codes.thy ===== *)
theory Build_Codes
  imports Build_Graph Build_Implementation
begin

text \<open>
  Hash codes over a build: when every task runs after those it depends on, the code of each file that a
  task asks for has been set, in whatever order the scheduler runs the tasks; the codes that the build
  of a component asks for are among those that the build of the interface leaves.
\<close>

section \<open>Laws of the stash\<close>

text \<open>A code that is set is read back, other codes are left alone, and stashing a file changes no
  code.\<close>

definition stash_laws :: "('h, 's, 'p, 'i, 'u) eg_api \<Rightarrow> bool" where
  "stash_laws api \<longleftrightarrow>
     (\<forall>p h s. sh_getBuildHashCode api p (sh_setBuildHashCode api p h s) = Inr h) \<and>
     (\<forall>p q h s. q \<noteq> p \<longrightarrow>
        sh_getBuildHashCode api q (sh_setBuildHashCode api p h s) = sh_getBuildHashCode api q s) \<and>
     (\<forall>p q h fs s s'. sh_stash api p h fs s = Inr s' \<longrightarrow>
        sh_getBuildHashCode api q s' = sh_getBuildHashCode api q s)"

definition known :: "('h, 's, 'p, 'i, 'u) eg_api \<Rightarrow> ('s, 'p, 'i) build_world \<Rightarrow> path \<Rightarrow> bool" where
  "known api w p \<longleftrightarrow> (\<exists>h. sh_getBuildHashCode api p (bw_stash w) = Inr h)"

text \<open>The same libraries with a stash that has a code for every file.\<close>

definition total_codes :: "('h, 's, 'p, 'i, 'u) eg_api \<Rightarrow> 'h \<Rightarrow> ('h, 's, 'p, 'i, 'u) eg_api" where
  "total_codes api d =
     api\<lparr>sh_getBuildHashCode := \<lambda>p s. case sh_getBuildHashCode api p s of Inr h \<Rightarrow> Inr h | Inl _ \<Rightarrow> Inr d\<rparr>"

text \<open>A step that leaves the codes and the sessions alone.\<close>

definition keeps :: "('h, 's, 'p, 'i, 'u) eg_api \<Rightarrow> ('s, 'p, 'i) build_world \<Rightarrow> ('s, 'p, 'i) build_world \<Rightarrow> bool" where
  "keeps api w w' \<longleftrightarrow>
     (\<forall>q. sh_getBuildHashCode api q (bw_stash w') = sh_getBuildHashCode api q (bw_stash w)) \<and>
     bw_session_interface w' = bw_session_interface w"

lemma keeps_refl [simp]: "keeps api w w"
  by (simp add: keeps_def)

lemma keeps_known: "keeps api w w' \<Longrightarrow> known api w' p \<longleftrightarrow> known api w p"
  by (simp add: keeps_def known_def)

lemma keeps_session: "keeps api w w' \<Longrightarrow> bw_session_interface w' = bw_session_interface w"
  by (simp add: keeps_def)

lemma known_set_code:
  "stash_laws api \<Longrightarrow> known api (set_code api p h w) q \<longleftrightarrow> q = p \<or> known api w q"
  by (cases "q = p") (auto simp: known_def set_code_def stash_laws_def)

lemma set_code_session [simp]: "bw_session_interface (set_code api p h w) = bw_session_interface w"
  by (simp add: set_code_def)

lemma invokeCompiler_keeps: "invokeCompiler api cx c w = Inr w' \<Longrightarrow> keeps api w w'"
  by (auto simp: invokeCompiler_def andThen_eq_Inr keeps_def Let_def case_prod_beta split: if_splits)

lemma keeps_files [simp]: "keeps api w (w\<lparr>bw_files := fs\<rparr>)"
  by (simp add: keeps_def)

lemma restore_or_compile_keeps:
  assumes "stash_laws api" and "restore_or_compile api cx out h src cmd w = Inr (w', out')"
  shows "keeps api w w'"
proof (cases "sh_restore api out h (bw_stash w) (bw_files w)")
  case None
  define w1 where "w1 = (case src of
      Some (p, s) \<Rightarrow> w\<lparr>bw_files := snd (fs_updateFileIfChanged api p s (bw_files w))\<rparr> | None \<Rightarrow> w)"
  obtain c ps w2 s where w2: "invokeCompiler api cx c (w1\<lparr>bw_process := ps\<rparr>) = Inr w2"
    and s: "sh_stash api out h (bw_files w2) (bw_stash w2) = Inr s" and w': "w' = w2\<lparr>bw_stash := s\<rparr>"
    using assms(2) None unfolding restore_or_compile_def w1_def [symmetric]
    by (auto simp: andThen_eq_Inr Let_def)
  have "keeps api w w1" by (auto simp: w1_def split: option.split)
  with invokeCompiler_keeps [OF w2] have "keeps api w w2" by (simp add: keeps_def)
  with s w' assms(1) show ?thesis by (simp add: keeps_def stash_laws_def)
next
  case (Some fs)
  then show ?thesis using assms(2) by (auto simp: restore_or_compile_def)
qed

section \<open>The total stash\<close>

lemma total_codes_simps [simp]:
  "sh_getBuildHashCode (total_codes api d) p s =
     (case sh_getBuildHashCode api p s of Inr h \<Rightarrow> Inr h | Inl _ \<Rightarrow> Inr d)"
  "hs_strings (total_codes api d) = hs_strings api"
  "hs_file (total_codes api d) = hs_file api"
  "hs_combine (total_codes api d) = hs_combine api"
  "sh_setBuildHashCode (total_codes api d) = sh_setBuildHashCode api"
  "sh_restore (total_codes api d) = sh_restore api"
  "sh_stash (total_codes api d) = sh_stash api"
  "fs_updateFileIfChanged (total_codes api d) = fs_updateFileIfChanged api"
  "os_system (total_codes api d) = os_system api"
  "eg_open_interface (total_codes api d) = eg_open_interface api"
  "eg_interface_analysis (total_codes api d) = eg_interface_analysis api"
  "eg_interface_store (total_codes api d) = eg_interface_store api"
  "eg_readFileID (total_codes api d) = eg_readFileID api"
  "eg_generateIncludeHeader (total_codes api d) = eg_generateIncludeHeader api"
  "eg_generateInterface (total_codes api d) = eg_generateInterface api"
  "eg_generateGenericsHeader (total_codes api d) = eg_generateGenericsHeader api"
  "eg_generateOperationSource (total_codes api d) = eg_generateOperationSource api"
  "eg_getTU (total_codes api d) = eg_getTU api"
  "eg_getTranslationUnits (total_codes api d) = eg_getTranslationUnits api"
  "eg_tu_name (total_codes api d) = eg_tu_name api"
  "eg_tu_fileID (total_codes api d) = eg_tu_fileID api"
  "eg_tu_hostDefine (total_codes api d) = eg_tu_hostDefine api"
  "eg_MASTER_FILE (total_codes api d) = eg_MASTER_FILE api"
  "eg_fullProgramAnalysis (total_codes api d) = eg_fullProgramAnalysis api"
  by (simp_all add: total_codes_def)

lemma total_set_code [simp]: "set_code (total_codes api d) = set_code api"
  by (intro ext) (simp add: set_code_def Let_def cong: option.case_cong if_cong)

lemma total_invokeCompiler [simp]: "invokeCompiler (total_codes api d) = invokeCompiler api"
  by (intro ext) (simp add: invokeCompiler_def Let_def cong: option.case_cong if_cong)

lemma total_restore_or_compile [simp]: "restore_or_compile (total_codes api d) = restore_or_compile api"
  by (intro ext) (simp add: restore_or_compile_def Let_def cong: option.case_cong if_cong)

lemma total_translation_unit [simp]: "translation_unit (total_codes api d) = translation_unit api"
  by (intro ext) (simp add: translation_unit_def Let_def cong: option.case_cong if_cong)

lemma total_analysis_files [simp]: "analysis_files (total_codes api d) = analysis_files api"
  by (intro ext) (simp add: analysis_files_def Let_def cong: option.case_cong if_cong)

definition codes_of :: "hash_input list \<Rightarrow> path list" where
  "codes_of xs = concat (map (\<lambda>x. case x of H_Code p \<Rightarrow> [p] | _ \<Rightarrow> []) xs)"

lemma codes_of_simps [simp]:
  "codes_of [] = []" "codes_of (H_Code p # xs) = p # codes_of xs"
  "codes_of (H_Strings ss # xs) = codes_of xs" "codes_of (H_File p # xs) = codes_of xs"
  by (simp_all add: codes_of_def)

lemma total_combined_hash:
  "list_all (known api w) (codes_of xs) \<Longrightarrow> combined_hash (total_codes api d) xs w = combined_hash api xs w"
proof -
  have "list_all (known api w) (codes_of xs) \<Longrightarrow> hash_inputs (total_codes api d) xs w = hash_inputs api xs w"
  proof (induction xs)
    case (Cons x xs)
    then show ?case by (cases x) (auto simp: hash_of_input_def known_def)
  qed simp
  then show "list_all (known api w) (codes_of xs) \<Longrightarrow> ?thesis" by (simp add: combined_hash_def)
qed

section \<open>What a task asks for and what it sets\<close>

definition component_file_path :: "build_config \<Rightarrow> tree_component \<Rightarrow> string \<Rightarrow> path" where
  "component_file_path cx c f =
     absolute_path (cx_platform cx) (path_append
       (component_folder (getImplFolder (cx_tree cx)) (Coordinator_name (fst c)) (HostName_name (fst (snd c)))
         (ProjectName_name (snd (snd c)))) f)"

lemma component_files:
  "getComponentParserDatabase (cx_platform cx) (cx_tree cx) (ref_of_component c) = Inr (component_file_path cx c ''parser.db'')"
  "getComponentIncludeHeader (cx_platform cx) (cx_tree cx) (ref_of_component c) = Inr (component_file_path cx c ''include.hpp'')"
  "getComponentIncludePCH (cx_platform cx) (cx_tree cx) (ref_of_component c) = Inr (component_file_path cx c ''include.pch'')"
  "getComponentInterfacePCH (cx_platform cx) (cx_tree cx) (ref_of_component c) = Inr (component_file_path cx c ''interface.pch'')"
  "getComponentGenericsPCH (cx_platform cx) (cx_tree cx) (ref_of_component c) = Inr (component_file_path cx c ''generics.pch'')"
  by (simp_all add: component_file_path_def ref_of_component_def constructComponentFile_def
      getComponentParserDatabase_def getComponentIncludeHeader_def getComponentIncludePCH_def
      getComponentInterfacePCH_def getComponentGenericsPCH_def)

text \<open>The files of the unit of a source, when the session knows it.\<close>

definition unit_files ::
  "('h, 's, 'p, 'i, 'u) eg_api \<Rightarrow> ('s, 'p, 'i) build_world \<Rightarrow> path \<Rightarrow> ('u \<Rightarrow> path list) \<Rightarrow> path list" where
  "unit_files api w f g =
     (case bw_session_interface w of
        None \<Rightarrow> []
      | Some i \<Rightarrow> (case eg_getTU api i f of None \<Rightarrow> [] | Some u \<Rightarrow> g u))"

definition unit_header :: "('h, 's, 'p, 'i, 'u) eg_api \<Rightarrow> build_config \<Rightarrow> 'u \<Rightarrow> path" where
  "unit_header api cx u = getOperationsHeader (cx_platform cx) (cx_tree cx) (eg_tu_name api u)"

fun task_needs :: "('h, 's, 'p, 'i, 'u) eg_api \<Rightarrow> build_config \<Rightarrow> ('s, 'p, 'i) build_world \<Rightarrow> task \<Rightarrow> path list" where
  "task_needs api cx w Task_MainIncludePCH = [getParserDatabaseFilePreInterfaceAnalysis (cx_tree cx)]"
| "task_needs api cx w Task_MainInterfacePCH =
     [getParserDatabaseFilePreInterfaceAnalysis (cx_tree cx), getIncludePCH (cx_tree cx)]"
| "task_needs api cx w Task_InterfaceSession =
     [getParserDatabaseFilePreInterfaceAnalysis (cx_tree cx), getIncludePCH (cx_tree cx), getInterfacePCH (cx_tree cx)]"
| "task_needs api cx w Task_MainGenericsPCH =
     [getParserDatabaseFilePreInterfaceAnalysis (cx_tree cx), getIncludePCH (cx_tree cx), getInterfacePCH (cx_tree cx),
      getInterfaceDatabaseFile (cx_tree cx)]"
| "task_needs api cx w (Task_ComponentIncludePCH c) =
     [getParserDatabaseFilePreInterfaceAnalysis (cx_tree cx), getIncludePCH (cx_tree cx)]"
| "task_needs api cx w (Task_ComponentInterfacePCH c) =
     [getInterfaceHeader (cx_tree cx), getParserDatabaseFilePreInterfaceAnalysis (cx_tree cx),
      getIncludePCH (cx_tree cx), component_file_path cx c ''include.pch'']"
| "task_needs api cx w (Task_ComponentGenericsPCH c) =
     [getGenericsHeader (cx_tree cx), getParserDatabaseFilePreInterfaceAnalysis (cx_tree cx),
      getIncludePCH (cx_tree cx), component_file_path cx c ''include.pch'', component_file_path cx c ''interface.pch'']"
| "task_needs api cx w (Task_OperationsPublicPCH f) = unit_files api w f (\<lambda>u.
     [unit_header api cx u, getParserDatabaseFilePreInterfaceAnalysis (cx_tree cx), getIncludePCH (cx_tree cx),
      getInterfacePCH (cx_tree cx), getGenericsPCH (cx_tree cx)])"
| "task_needs api cx w (Task_OperationsPrivatePCH c f) = unit_files api w f (\<lambda>u.
     [unit_header api cx u, getParserDatabaseFilePreInterfaceAnalysis (cx_tree cx), getIncludePCH (cx_tree cx),
      component_file_path cx c ''include.pch'', component_file_path cx c ''interface.pch'',
      component_file_path cx c ''generics.pch''])"
| "task_needs api cx w _ = []"

fun task_sets :: "('h, 's, 'p, 'i, 'u) eg_api \<Rightarrow> build_config \<Rightarrow> ('s, 'p, 'i) build_world \<Rightarrow> task \<Rightarrow> path list" where
  "task_sets api cx w Task_MainIncludePCH = [getIncludePCH (cx_tree cx)]"
| "task_sets api cx w Task_MainInterfacePCH = [getInterfaceHeader (cx_tree cx), getInterfacePCH (cx_tree cx)]"
| "task_sets api cx w Task_InterfaceSession = [getInterfaceDatabaseFile (cx_tree cx)]"
| "task_sets api cx w Task_MainGenericsPCH = [getGenericsHeader (cx_tree cx), getGenericsPCH (cx_tree cx)]"
| "task_sets api cx w (Task_ComponentIncludePCH c) = [component_file_path cx c ''include.pch'']"
| "task_sets api cx w (Task_ComponentInterfacePCH c) = [component_file_path cx c ''interface.pch'']"
| "task_sets api cx w (Task_ComponentGenericsPCH c) = [component_file_path cx c ''generics.pch'']"
| "task_sets api cx w (Task_OperationsHeader f) = unit_files api w f (\<lambda>u. [unit_header api cx u])"
| "task_sets api cx w (Task_OperationsPublicPCH f) = unit_files api w f (\<lambda>u.
     [getOperationsPublicPCH (cx_platform cx) (cx_tree cx) (eg_tu_name api u)])"
| "task_sets api cx w (Task_OperationsPrivatePCH c f) = unit_files api w f (\<lambda>u.
     [getOperationsPrivatePCH (cx_platform cx) (cx_tree cx) (eg_tu_name api u)])"
| "task_sets api cx w _ = []"

lemma translation_unit_cases:
  "translation_unit api f msg w = Inr (i, u) \<longleftrightarrow> bw_session_interface w = Some i \<and> eg_getTU api i f = Some u"
  by (auto simp: translation_unit_def verified_def andThen_eq_Inr split: option.splits)

lemma translation_unit_needs:
  assumes "list_all P (unit_files api w f g)"
    and "\<And>i u. bw_session_interface w = Some i \<Longrightarrow> eg_getTU api i f = Some u \<Longrightarrow> list_all P (g u) \<Longrightarrow> k (i, u) = k' (i, u)"
  shows "andThen (translation_unit api f msg w) k = andThen (translation_unit api f msg w) k'"
proof (cases "translation_unit api f msg w")
  case (Inr x)
  then obtain i u where x: "x = (i, u)" and t: "translation_unit api f msg w = Inr (i, u)" by (cases x) auto
  then have "bw_session_interface w = Some i" "eg_getTU api i f = Some u" by (auto simp: translation_unit_cases)
  then have "k (i, u) = k' (i, u)" using assms by (simp add: unit_files_def)
  with t show ?thesis by simp
qed simp

lemma run_task_total:
  assumes laws: "stash_laws api" and needs: "list_all (known api w) (task_needs api cx w t)"
  shows "run_task (total_codes api d) cx t w = run_task api cx t w"
proof (cases t)
  case Task_MainIncludePCH
  then show ?thesis using needs
    by (simp add: run_task_def run_MainIncludePCH_def total_combined_hash)
next
  case Task_MainInterfacePCH
  then show ?thesis using needs
    by (simp add: run_task_def run_MainInterfacePCH_def total_combined_hash known_set_code [OF laws] Let_def)
next
  case Task_InterfaceSession
  then show ?thesis using needs
    by (simp add: run_task_def run_InterfaceSession_def total_combined_hash Let_def cong: option.case_cong if_cong)
next
  case Task_MainGenericsPCH
  then show ?thesis using needs
    by (simp add: run_task_def run_MainGenericsPCH_def total_combined_hash known_set_code [OF laws] Let_def)
next
  case (Task_ComponentIncludePCH c)
  then show ?thesis using needs
    by (simp add: run_task_def run_ComponentIncludePCH_def total_combined_hash component_files)
next
  case (Task_ComponentInterfacePCH c)
  then show ?thesis using needs
    by (simp add: run_task_def run_ComponentInterfacePCH_def total_combined_hash component_files)
next
  case (Task_ComponentGenericsPCH c)
  then show ?thesis using needs
    by (simp add: run_task_def run_ComponentGenericsPCH_def total_combined_hash component_files)
next
  case (Task_OperationsHeader f)
  then show ?thesis by (simp add: run_task_def run_OperationsHeader_def Let_def)
next
  case (Task_OperationsPublicPCH f)
  show ?thesis unfolding Task_OperationsPublicPCH run_task_def task.case run_OperationsPublicPCH_def Let_def
      total_translation_unit
    by (rule translation_unit_needs [OF needs [unfolded Task_OperationsPublicPCH task_needs.simps]])
      (simp add: total_combined_hash unit_header_def)
next
  case (Task_OperationsPrivatePCH c f)
  show ?thesis unfolding Task_OperationsPrivatePCH run_task_def task.case run_OperationsPrivatePCH_def Let_def
      total_translation_unit
    by (rule translation_unit_needs [OF needs [unfolded Task_OperationsPrivatePCH task_needs.simps]])
      (simp add: total_combined_hash unit_header_def component_files)
next
  case Task_ImplementationSession
  then show ?thesis by (simp add: run_task_def run_ImplementationSession_def cong: option.case_cong)
qed (simp_all add: run_task_def)

text \<open>After a task the codes that it sets are known, and the others still are.\<close>

definition codes_grow :: "('h, 's, 'p, 'i, 'u) eg_api \<Rightarrow> ('s, 'p, 'i) build_world \<Rightarrow> ('s, 'p, 'i) build_world \<Rightarrow> path list \<Rightarrow> bool" where
  "codes_grow api w w' ps \<longleftrightarrow> list_all (known api w') ps \<and> (\<forall>p. known api w p \<longrightarrow> known api w' p)"

lemma restore_or_compile_grow:
  assumes laws: "stash_laws api"
    and "restore_or_compile api cx out' h src cmd (set_code api p h' w) = Inr (w', o')"
  shows "codes_grow api w w' [p] \<and> bw_session_interface w' = bw_session_interface w"
  using restore_or_compile_keeps [OF assms]
  by (auto simp: codes_grow_def keeps_known known_set_code [OF laws] dest: keeps_session)

lemma restore_or_compile_grow2:
  assumes laws: "stash_laws api"
    and "restore_or_compile api cx out' h src cmd (set_code api p h' (set_code api q g w)) = Inr (w', o')"
  shows "codes_grow api w w' [q, p] \<and> bw_session_interface w' = bw_session_interface w"
  using restore_or_compile_keeps [OF assms]
  by (auto simp: codes_grow_def keeps_known known_set_code [OF laws] dest: keeps_session)

lemma codes_grow_set_code:
  "stash_laws api \<Longrightarrow> codes_grow api w ((set_code api p h w)\<lparr>bw_files := fs\<rparr>) [p]"
  using known_set_code [of api p h w] by (auto simp: codes_grow_def known_def)

lemma codes_grow_Nil: "keeps api w w' \<Longrightarrow> codes_grow api w w' []"
  by (simp add: codes_grow_def keeps_known)

lemma unit_files_session:
  "bw_session_interface w' = bw_session_interface w \<Longrightarrow> unit_files api w' f g = unit_files api w f g"
  by (simp add: unit_files_def)

lemma run_InterfaceSession_grow:
  assumes laws: "stash_laws api" and run: "run_InterfaceSession api cx w = Inr (w', o')"
  shows "codes_grow api w w' [getInterfaceDatabaseFile (cx_tree cx)]"
proof -
  let ?db = "getInterfaceDatabaseFile (cx_tree cx)"
  obtain h where "\<forall>q. sh_getBuildHashCode api q (bw_stash w') =
      sh_getBuildHashCode api q (bw_stash (set_code api ?db h w))"
    using run laws unfolding run_InterfaceSession_def Let_def stash_laws_def
    by (force simp: andThen_eq_Inr split: option.splits)
  then obtain h where "\<forall>q. known api w' q \<longleftrightarrow> known api (set_code api ?db h w) q"
    by (auto simp: known_def)
  then show ?thesis using known_set_code [OF laws] by (simp add: codes_grow_def)
qed

lemma run_OperationsHeader_grow:
  assumes laws: "stash_laws api" and run: "run_OperationsHeader api cx f w = Inr (w', o')"
  shows "codes_grow api w w' (unit_files api w f (\<lambda>u. [unit_header api cx u])) \<and>
    bw_session_interface w' = bw_session_interface w"
  using run codes_grow_set_code [OF laws]
  by (auto simp: run_OperationsHeader_def Let_def andThen_eq_Inr translation_unit_cases unit_files_def
      unit_header_def case_prod_beta)

lemma run_task_grow:
  assumes laws: "stash_laws api" and run: "run_task api cx t w = Inr (w', o')"
  shows "codes_grow api w w' (task_sets api cx w' t) \<and>
    (t \<noteq> Task_InterfaceSession \<longrightarrow> bw_session_interface w' = bw_session_interface w)"
proof (cases t)
  case Task_MainIncludePCH
  then show ?thesis using run
    by (auto simp: run_task_def run_MainIncludePCH_def Let_def andThen_eq_Inr dest: restore_or_compile_grow [OF laws])
next
  case Task_MainInterfacePCH
  then show ?thesis using run
    by (auto simp: run_task_def run_MainInterfacePCH_def Let_def andThen_eq_Inr dest!: restore_or_compile_grow2 [OF laws])
next
  case Task_InterfaceSession
  then show ?thesis using run run_InterfaceSession_grow [OF laws] by (auto simp: run_task_def)
next
  case Task_MainGenericsPCH
  then show ?thesis using run
    by (auto simp: run_task_def run_MainGenericsPCH_def Let_def andThen_eq_Inr dest!: restore_or_compile_grow2 [OF laws])
next
  case (Task_ComponentIncludePCH c)
  then show ?thesis using run
    by (auto simp: run_task_def run_ComponentIncludePCH_def Let_def andThen_eq_Inr component_files
        dest: restore_or_compile_grow [OF laws])
next
  case (Task_ComponentInterfacePCH c)
  then show ?thesis using run
    by (auto simp: run_task_def run_ComponentInterfacePCH_def Let_def andThen_eq_Inr component_files
        dest: restore_or_compile_grow [OF laws])
next
  case (Task_ComponentGenericsPCH c)
  then show ?thesis using run
    by (auto simp: run_task_def run_ComponentGenericsPCH_def Let_def andThen_eq_Inr component_files
        dest: restore_or_compile_grow [OF laws])
next
  case (Task_OperationsHeader f)
  then have "run_OperationsHeader api cx f w = Inr (w', o')" using run by (simp add: run_task_def)
  from run_OperationsHeader_grow [OF laws this] show ?thesis
    using Task_OperationsHeader by (simp add: unit_files_def)
next
  case (Task_OperationsPublicPCH f)
  then show ?thesis using run
    by (auto simp: run_task_def run_OperationsPublicPCH_def Let_def andThen_eq_Inr translation_unit_cases
        unit_files_def dest!: restore_or_compile_grow [OF laws])
next
  case (Task_OperationsPrivatePCH c f)
  then show ?thesis using run
    by (auto simp: run_task_def run_OperationsPrivatePCH_def Let_def andThen_eq_Inr translation_unit_cases
        unit_files_def component_files dest!: restore_or_compile_grow [OF laws])
next
  case (Task_ParserSessionCopy c)
  have "keeps api w w'" using run Task_ParserSessionCopy
    by (auto simp: run_task_def run_ParserSessionCopy_def Let_def andThen_eq_Inr component_files split: if_splits)
  then show ?thesis using Task_ParserSessionCopy by (simp add: codes_grow_Nil keeps_session)
next
  case Task_ImplementationSession
  have "keeps api w w'" using run Task_ImplementationSession
    by (auto simp: run_task_def run_ImplementationSession_def andThen_eq_Inr split: option.splits)
  then show ?thesis using Task_ImplementationSession by (simp add: codes_grow_Nil keeps_session)
next
  case Task_ParserSession
  then show ?thesis using run by (auto simp: run_task_def run_ParserSession_def codes_grow_def)
qed

section \<open>Every code is there in time\<close>

definition closed_tasks :: "task set \<Rightarrow> bool" where
  "closed_tasks T \<longleftrightarrow> (\<forall>t \<in> T. set (required_tasks t) \<subseteq> T)"

text \<open>What a task asks for is set by the tasks that it needs, directly or not, or before them.\<close>

lemma needs_covered:
  assumes "closed_tasks T" and "set (required_tasks t) \<subseteq> T" and "p \<in> set (task_needs api cx w t)"
  shows "p = getParserDatabaseFilePreInterfaceAnalysis (cx_tree cx) \<or> (\<exists>u \<in> T. p \<in> set (task_sets api cx w u))"
proof -
  note c = assms(1) [unfolded closed_tasks_def, rule_format]
  note req = c [of Task_MainInterfacePCH] c [of Task_InterfaceSession] c [of Task_MainGenericsPCH]
  show ?thesis
  proof (cases t)
    case (Task_ComponentInterfacePCH d)
    then show ?thesis using assms(2,3) req c [of "Task_ComponentIncludePCH d"] by fastforce
  next
    case (Task_ComponentGenericsPCH d)
    then show ?thesis
      using assms(2,3) req c [of "Task_ComponentInterfacePCH d"] c [of "Task_ComponentIncludePCH d"] by fastforce
  next
    case (Task_OperationsPublicPCH f)
    then show ?thesis using assms(2,3) req
      by (fastforce simp: unit_files_def split: option.splits)
  next
    case (Task_OperationsPrivatePCH d f)
    then show ?thesis
      using assms(2,3) req c [of "Task_ComponentGenericsPCH d"] c [of "Task_ComponentInterfacePCH d"]
        c [of "Task_ComponentIncludePCH d"] c [of "Task_OperationsPublicPCH f"]
      by (fastforce simp: unit_files_def split: option.splits)
  qed (use assms(2,3) req in fastforce)+
qed

fun uses_session :: "task \<Rightarrow> bool" where
  "uses_session (Task_OperationsHeader f) = True"
| "uses_session (Task_OperationsPublicPCH f) = True"
| "uses_session (Task_OperationsPrivatePCH c f) = True"
| "uses_session _ = False"

lemma uses_session_required:
  assumes "closed_tasks T" and "t \<in> T" and "uses_session t"
  shows "Task_InterfaceSession \<in> T"
proof -
  note c = assms(1) [unfolded closed_tasks_def, rule_format]
  show ?thesis
    using assms(2,3) c [of t] c [of "Task_OperationsHeader f" for f] c [of "Task_OperationsPublicPCH f" for f]
    by (cases t) fastforce+
qed

lemma task_sets_session:
  assumes "\<not> uses_session t \<or> bw_session_interface w' = bw_session_interface w"
  shows "task_sets api cx w' t = task_sets api cx w t"
  using assms by (cases t) (auto simp: unit_files_def)

definition tasks_at :: "node list \<Rightarrow> nat list \<Rightarrow> task set" where
  "tasks_at ts is = (\<lambda>i. fst (ts ! i)) ` set is"

definition codes_ready ::
  "('h, 's, 'p, 'i, 'u) eg_api \<Rightarrow> build_config \<Rightarrow> ('s, 'p, 'i) build_world \<Rightarrow> task set \<Rightarrow> bool" where
  "codes_ready api cx w T \<longleftrightarrow>
     known api w (getParserDatabaseFilePreInterfaceAnalysis (cx_tree cx)) \<and>
     (\<forall>t \<in> T. list_all (known api w) (task_sets api cx w t))"

lemma codes_ready_step:
  assumes laws: "stash_laws api" and ready: "codes_ready api cx w T" and closed: "closed_tasks T"
    and needs: "set (required_tasks t) \<subseteq> T" and once: "t = Task_InterfaceSession \<Longrightarrow> t \<notin> T"
    and run: "run_task api cx t w = Inr (w', o')"
  shows "codes_ready api cx w' (insert t T)"
proof -
  have grow: "codes_grow api w w' (task_sets api cx w' t)"
    and session: "t \<noteq> Task_InterfaceSession \<longrightarrow> bw_session_interface w' = bw_session_interface w"
    using run_task_grow [OF laws run] by auto
  have "task_sets api cx w' u = task_sets api cx w u" if "u \<in> T" for u
    by (rule task_sets_session) (use session once uses_session_required [OF closed that] in blast)
  then show ?thesis using ready grow by (auto simp: codes_ready_def codes_grow_def list_all_iff)
qed

lemma codes_ready_needs:
  assumes "codes_ready api cx w T" and "closed_tasks T" and "set (required_tasks t) \<subseteq> T"
  shows "list_all (known api w) (task_needs api cx w t)"
  using needs_covered [OF assms(2,3)] assms(1) by (fastforce simp: codes_ready_def list_all_iff)

lemma valid_order_mid:
  assumes "valid_order ts (hist @ i # rest)"
  shows "i < length ts" and "i \<notin> set hist" and "set hist \<subseteq> {..<length ts}"
    and "set (snd (ts ! i)) \<subseteq> set hist"
proof -
  have "\<forall>k < length (hist @ i # rest).
      set (snd (ts ! ((hist @ i # rest) ! k))) \<subseteq> set (take k (hist @ i # rest))"
    using assms unfolding valid_order_def by blast
  from this [rule_format, of "length hist"] show "set (snd (ts ! i)) \<subseteq> set hist" by simp
  show "i < length ts" "i \<notin> set hist" "set hist \<subseteq> {..<length ts}"
    using assms by (auto simp: valid_order_def)
qed

lemma run_order_total:
  assumes laws: "stash_laws api" and graph: "graph_ok ts"
    and once: "\<And>i j. is_at ts i Task_InterfaceSession \<Longrightarrow> is_at ts j Task_InterfaceSession \<Longrightarrow> i = j"
    and valid: "valid_order ts (hist @ rest)" and ready: "codes_ready api cx w (tasks_at ts hist)"
    and closed: "closed_tasks (tasks_at ts hist)"
  shows "run_order (total_codes api d) cx ts rest w = run_order api cx ts rest w \<and>
    (\<forall>w'. run_order api cx ts rest w = Inr w' \<longrightarrow> codes_ready api cx w' (tasks_at ts (hist @ rest)))"
  using valid ready closed
proof (induction rest arbitrary: hist w)
  case (Cons i rest)
  let ?t = "fst (ts ! i)" and ?T = "tasks_at ts hist"
  have i: "i < length ts" and fresh: "i \<notin> set hist" and bound: "set hist \<subseteq> {..<length ts}"
    and deps: "set (snd (ts ! i)) \<subseteq> set hist"
    by (rule valid_order_mid [OF Cons.prems(1)])+
  have node: "node_ok ts i" using graph i by (simp add: graph_ok_def)
  have needs: "set (required_tasks ?t) \<subseteq> ?T"
  proof
    fix u assume "u \<in> set (required_tasks ?t)"
    then obtain j where "j \<in> set (snd (ts ! i))" "is_at ts j u" using node by (auto simp: node_ok_def)
    then show "u \<in> ?T" using deps by (auto simp: tasks_at_def is_at_def)
  qed
  have nodup: "?t \<notin> ?T" if "?t = Task_InterfaceSession"
  proof
    assume "?t \<in> ?T"
    then obtain j where "j \<in> set hist" and "fst (ts ! j) = ?t" by (auto simp: tasks_at_def)
    then have "is_at ts j Task_InterfaceSession" using bound that by (auto simp: is_at_def)
    then have "i = j" using once [of i j] i that by (simp add: is_at_def)
    then show False using fresh \<open>j \<in> set hist\<close> by simp
  qed
  have same: "run_task (total_codes api d) cx ?t w = run_task api cx ?t w"
    by (rule run_task_total [OF laws codes_ready_needs [OF Cons.prems(2,3) needs]])
  have T': "tasks_at ts (hist @ [i]) = insert ?t ?T" by (auto simp: tasks_at_def)
  have closed': "closed_tasks (tasks_at ts (hist @ [i]))"
    using Cons.prems(3) needs unfolding T' by (auto simp: closed_tasks_def)
  have rest: "run_order (total_codes api d) cx ts rest w' = run_order api cx ts rest w' \<and>
      (\<forall>w''. run_order api cx ts rest w' = Inr w'' \<longrightarrow> codes_ready api cx w'' (tasks_at ts ((hist @ [i]) @ rest)))"
    if "run_task api cx ?t w = Inr (w', o')" for w' o'
    by (rule Cons.IH [OF _ _ closed'])
      (use Cons.prems(1) codes_ready_step [OF laws Cons.prems(2,3) needs nodup that] T' in simp_all)
  show ?case
  proof (cases "run_task api cx ?t w")
    case (Inr x)
    obtain w' o' where x: "x = (w', o')" by (cases x)
    show ?thesis using same rest [OF Inr [unfolded x]] Inr by (simp add: x)
  qed (use same in simp)
qed simp

lemma keep_parser_database_keeps:
  assumes laws: "stash_laws api" and run: "keep_parser_database api cx h w = Inr w'"
  shows "keeps api w w'"
  using run laws
  by (auto simp: keep_parser_database_def Let_def andThen_eq_Inr keeps_def stash_laws_def split: option.splits)

lemma parse_sources_known:
  assumes laws: "stash_laws api" and run: "parse_sources api cx w0 = Inr w"
  shows "known api w (getParserDatabaseFilePreInterfaceAnalysis (cx_tree cx))"
proof -
  let ?pre = "getParserDatabaseFilePreInterfaceAnalysis (cx_tree cx)"
  obtain h v where "keep_parser_database api cx h (set_code api ?pre h v) = Inr w"
    using run by (auto simp: parse_sources_def Let_def andThen_eq_Inr)
  from keep_parser_database_keeps [OF laws this] show ?thesis
    using known_set_code [OF laws, of ?pre h v ?pre] by (simp add: keeps_known)
qed

lemma interface_build_ready:
  assumes laws: "stash_laws api" and "parse_sources api cx w0 = Inr w"
    and tasks: "interface_tasks (cx_tree cx) strProject = Inr ts" and "valid_order ts order"
  shows "run_order (total_codes api d) cx ts order w = run_order api cx ts order w \<and>
    (\<forall>w'. run_order api cx ts order w = Inr w' \<longrightarrow> codes_ready api cx w' (tasks_at ts order))"
proof -
  have graph: "graph_ok ts" and card: "card {i. is_at ts i Task_InterfaceSession} = 1"
    using interface_tasks_graph [of "cx_tree cx" strProject] tasks by auto
  obtain k where k: "{i. is_at ts i Task_InterfaceSession} = {k}"
    using card by (rule card_1_singletonE)
  have once: "is_at ts i Task_InterfaceSession \<Longrightarrow> is_at ts j Task_InterfaceSession \<Longrightarrow> i = j" for i j
    using k by (metis mem_Collect_eq singletonD)
  have "run_order (total_codes api d) cx ts order w = run_order api cx ts order w \<and>
      (\<forall>w'. run_order api cx ts order w = Inr w' \<longrightarrow> codes_ready api cx w' (tasks_at ts ([] @ order)))"
    by (rule run_order_total [OF laws graph once])
      (use assms(4) parse_sources_known [OF laws assms(2)] in
        \<open>simp_all add: codes_ready_def tasks_at_def closed_tasks_def\<close>)
  then show ?thesis by simp
qed

section \<open>The codes for the build of a component\<close>

text \<open>The two builds name the same project, one of them with the names of a component.\<close>

definition same_project :: "build_config \<Rightarrow> build_config \<Rightarrow> bool" where
  "same_project cx cx' \<longleftrightarrow>
     cx_platform cx' = cx_platform cx \<and> pt_path (cx_tree cx') = pt_path (cx_tree cx) \<and>
     pt_projectName (cx_tree cx') = pt_projectName (cx_tree cx)"

lemma same_project_paths:
  assumes "same_project cx cx'"
  shows "getParserDatabaseFilePreInterfaceAnalysis (cx_tree cx') = getParserDatabaseFilePreInterfaceAnalysis (cx_tree cx)"
    and "getIncludePCH (cx_tree cx') = getIncludePCH (cx_tree cx)"
    and "getInterfacePCH (cx_tree cx') = getInterfacePCH (cx_tree cx)"
    and "getGenericsPCH (cx_tree cx') = getGenericsPCH (cx_tree cx)"
    and "getOperationsPublicPCH (cx_platform cx') (cx_tree cx') n = getOperationsPublicPCH (cx_platform cx) (cx_tree cx) n"
    and "getOperationsPrivatePCH (cx_platform cx') (cx_tree cx') n = getOperationsPrivatePCH (cx_platform cx) (cx_tree cx) n"
    and "component_key c' = component_key c \<Longrightarrow> component_file_path cx' c' f = component_file_path cx c f"
  using assms
  by (simp_all add: same_project_def getParserDatabaseFilePreInterfaceAnalysis_def getIncludePCH_def
      getInterfacePCH_def getGenericsPCH_def getOperationsPublicPCH_def getOperationsPrivatePCH_def
      getInterfaceFolder_def getImplFolder_def component_file_path_def component_key_def)

text \<open>A unit of which the interface build has seen the source file in one of the components.\<close>

definition unit_built ::
  "('h, 's, 'p, 'i, 'v) eg_api \<Rightarrow> ('s, 'p, 'i) build_world \<Rightarrow> tree_component set \<Rightarrow> string \<Rightarrow> bool" where
  "unit_built api w cs name \<longleftrightarrow>
     (\<exists>c \<in> cs. \<exists>f \<in> set (pn_sourceFiles (snd (snd c))). \<exists>i v.
        bw_session_interface w = Some i \<and> eg_getTU api i f = Some v \<and> eg_tu_name api v = name)"

definition task_prepared ::
  "('h, 's, 'p, 'i, 'v) eg_api \<Rightarrow> ('r, 'u) impl_api \<Rightarrow> ('s, 'p, 'i) build_world \<Rightarrow> tree_component \<Rightarrow> tree_component set
   \<Rightarrow> 'u impl_task \<Rightarrow> bool" where
  "task_prepared api ia w c cs t =
     (case t of
        Task_CPPCompilation f \<Rightarrow> True
      | Task_Public u \<Rightarrow> unit_built api w cs (ir_tu_name ia u)
      | Task_Private u \<Rightarrow> unit_built api w {c} (ir_tu_name ia u))"

lemma made_nth: "made ts = (\<lambda>i. fst (ts ! i)) ` {..<length ts}"
proof -
  have "set ts = (!) ts ` {..<length ts}" by (auto simp: set_conv_nth)
  then show ?thesis by (simp add: made_def image_image)
qed

lemma closed_made: "graph_ok ts \<Longrightarrow> closed_tasks (made ts)"
  unfolding closed_tasks_def graph_ok_def node_ok_def is_at_def made_nth by fastforce

lemma tasks_at_all: "set order = {..<length ts} \<Longrightarrow> tasks_at ts order = made ts"
  by (simp add: tasks_at_def made_nth)

lemma run_impl_task_total:
  assumes "same_project cx (ic_config ic)" and "component_key (ic_component ic) = component_key c"
    and base: "list_all (known api w)
      [getParserDatabaseFilePreInterfaceAnalysis (cx_tree cx), getIncludePCH (cx_tree cx), getInterfacePCH (cx_tree cx),
       getGenericsPCH (cx_tree cx), component_file_path cx c ''include.pch'',
       component_file_path cx c ''interface.pch'', component_file_path cx c ''generics.pch'']"
    and unit: "case t of
        Task_CPPCompilation f \<Rightarrow> True
      | Task_Public u \<Rightarrow> known api w (getOperationsPublicPCH (cx_platform cx) (cx_tree cx) (ir_tu_name ia u))
      | Task_Private u \<Rightarrow> known api w (getOperationsPrivatePCH (cx_platform cx) (cx_tree cx) (ir_tu_name ia u))"
  shows "run_impl_task (total_codes api d) ia ic session t w = run_impl_task api ia ic session t w"
proof (cases t)
  case (Task_CPPCompilation f)
  then show ?thesis using base
    by (simp add: run_impl_task_def run_CPPCompilation_def Let_def component_files total_combined_hash
        same_project_paths [OF assms(1)] same_project_paths(7) [OF assms(1,2)])
next
  case (Task_Public u)
  then show ?thesis using base unit
    by (simp add: run_impl_task_def run_PublicEGImplCompilation_def Let_def total_combined_hash
        same_project_paths [OF assms(1)])
next
  case (Task_Private u)
  then show ?thesis using base unit
    by (simp add: run_impl_task_def run_PrivateEGImplCompilation_def Let_def component_files total_combined_hash
        same_project_paths [OF assms(1)] same_project_paths(7) [OF assms(1,2)])
qed

end
