(* ===== verification/Build_Demo.thy ===== *)
theory Build_Demo
  imports Build_Codes
begin

text \<open>
  A workspace with one component, a platform and libraries small enough to compute with, on which the
  build runs.
\<close>

definition demo_dirs :: "path \<Rightarrow> (string \<times> bool) list" where
  "demo_dirs p =
     (if p = [''w'', ''src''] then [(''co'', True), (''data'', True)]
      else if p = [''w'', ''src'', ''co''] then [(''ho'', True)]
      else if p = [''w'', ''src'', ''co'', ''ho''] then [(''pr'', True), (''other'', True)]
      else if p = [''w'', ''src'', ''co'', ''ho'', ''pr''] then [(''.eg'', False), (''a.eg'', False), (''x.py'', False)]
      else [])"

definition demo_host :: xml_host where
  "demo_host = \<lparr>xp_Type = ''basic'', xp_Directories = None, xp_Files = None, xp_Command = []\<rparr>"

definition demo_project :: xml_project where
  "demo_project = \<lparr>xj_Host = ''${EG}/h'', xj_Description = None, xj_Package = [], xj_Files = None,
     xj_Build = [], xj_Run = [], xj_Defaults = False\<rparr>"

definition demo_platform :: platform where
  "demo_platform = \<lparr>pf_to_vector = (\<lambda>s. [s]), pf_canonical = (\<lambda>p. p), pf_absolute = (\<lambda>p. p),
     pf_exists = (\<lambda>p. True), pf_dir = demo_dirs, pf_search_path = (\<lambda>s. [s]), pf_escape = (\<lambda>s. s),
     pf_parse = (\<lambda>p. Inr (if p = [''eg'', ''h'', ''.eg''] then EG_Host demo_host else EG_Project demo_project))\<rparr>"

definition demo_environment :: environment where
  "demo_environment k =
     (if k \<in> {''EG'', ''BOOST'', ''PYBIND'', ''PYTHONHOME'', ''MEGA'', ''PROTOBUF'', ''MESSAGEPACK'', ''UNREAL''}
      then Some ''eg'' else None)"

definition result_ok :: "'a result \<Rightarrow> ('a \<Rightarrow> bool) \<Rightarrow> bool" where
  "result_ok r P = (case r of Inr x \<Rightarrow> P x | Inl e \<Rightarrow> False)"

text \<open>A stash that restores every file; every call of a library succeeds.\<close>

type_synonym demo_api_type = "(nat, path \<Rightarrow> nat option, unit, unit, path) eg_api"

definition demo_api :: demo_api_type where
  "demo_api = \<lparr>hs_strings = length, hs_file = (\<lambda>p fs. Inr 1), hs_combine = sum_list, hs_combine2 = (+),
     sh_open = (\<lambda>p fs q. None),
     sh_getBuildHashCode = (\<lambda>p s. case s p of Some h \<Rightarrow> Inr h | None \<Rightarrow> Inl (Rte ''no build hash code'')),
     sh_setBuildHashCode = (\<lambda>p h s. s(p \<mapsto> h)), sh_restore = (\<lambda>p h s fs. Some fs),
     sh_stash = (\<lambda>p h fs s. Inr s), sh_loadBuildHashCodes = (\<lambda>p fs s. Inr s),
     sh_saveBuildHashCodes = (\<lambda>p s fs. Inr fs),
     fs_updateFileIfChanged = (\<lambda>p c fs. (True, fs(p \<mapsto> c))), os_system = (\<lambda>c fs. (0, fs)),
     eg_parse = (\<lambda>d r m fs. Inr ()), eg_parser_store = (\<lambda>p x fs. fs(p \<mapsto> ''db'')),
     eg_open_interface = (\<lambda>p fs. Inr ()), eg_interface_analysis = (\<lambda>r f i. Inr i),
     eg_interface_store = (\<lambda>p i fs. fs(p \<mapsto> ''db'')), eg_readFileID = (\<lambda>p fs. ''1''),
     eg_generateIncludeHeader = (\<lambda>x ss us. ''include''), eg_generateInterface = (\<lambda>x. ''interface''),
     eg_generateGenericsHeader = (\<lambda>i. ''generics''), eg_generateOperationSource = (\<lambda>x i u. ''operations''),
     eg_getTU = (\<lambda>i f. Some f), eg_getTranslationUnits = (\<lambda>i. []),
     eg_tu_name = (\<lambda>u. stem (filename u)), eg_tu_fileID = (\<lambda>u. ''1''), eg_tu_hostDefine = (\<lambda>u. ''co_ho''),
     eg_MASTER_FILE = ''0'', eg_fullProgramAnalysis = (\<lambda>m p fs. Inr (fs(p \<mapsto> ''db'')))\<rparr>"

lemma demo_stash_laws: "stash_laws demo_api"
  by (simp add: stash_laws_def demo_api_def)

definition demo_files :: files where
  "demo_files p = (if p = [''w'', ''interface'', ''pr'', ''resource.hpp''] then Some [] else None)"

definition demo_build :: "(path \<Rightarrow> nat option, unit, unit) build_world result" where
  "demo_build =
     build_interface demo_api demo_platform demo_environment [''w''] ''pr'' ''-O2'' (\<lambda>ts. [0..<length ts]) demo_files
       eg_process_start"

lemma demo_tree_exists:
  "result_ok (ProjectTree_ctor demo_platform demo_environment [''w''] ''pr'' eg_process_start)
     (\<lambda>(t, ps). map component_key (tree_components t ''pr'') = [[''co'', ''ho'', ''pr'']] \<and> pt_path t = [''w'']
        \<and> concat (map (\<lambda>c. pn_sourceFiles (snd (snd c))) (tree_components t ''pr'')) = [[''w'', ''src'', ''co'', ''ho'', ''pr'', ''a.eg'']])"
  by code_simp

lemma demo_build_runs: "result_ok demo_build (\<lambda>w. bw_commands w = [])"
  by code_simp

end
