(* ===== verification/Project_Properties.thy ===== *)
theory Project_Properties
  imports Project_Paths
begin

text \<open>
  What the project schema promises: the tree is the one of the directories, the project of a
  component is found in it, references in texts are expanded, the files of a build do not share a
  path, include directories are listed once.
\<close>

section \<open>The tree of the directories\<close>

text \<open>The reference: a folder \<open>src/c/h/project\<close> with a document is a component.\<close>

definition is_project_folder :: "platform \<Rightarrow> path \<Rightarrow> bool" where
  "is_project_folder pf p \<longleftrightarrow> (EG_FILE_EXTENSION, False) \<in> set (pf_dir pf p)"

definition subfolders :: "platform \<Rightarrow> path \<Rightarrow> path list" where
  "subfolders pf p = map (\<lambda>e. p @ [fst e]) (filter snd (pf_dir pf p))"

definition project_folders :: "platform \<Rightarrow> string \<Rightarrow> path \<Rightarrow> path list" where
  "project_folders pf name p =
     filter (\<lambda>q. filename q = name \<and> is_project_folder pf q) (subfolders pf p)"

definition host_folders :: "platform \<Rightarrow> string \<Rightarrow> path \<Rightarrow> (path \<times> path list) list" where
  "host_folders pf name p =
     filter (\<lambda>(q, ps). ps \<noteq> []) (map (\<lambda>q. (q, project_folders pf name q)) (subfolders pf p))"

definition coordinator_folders :: "platform \<Rightarrow> string \<Rightarrow> path \<Rightarrow> (path \<times> (path \<times> path list) list) list" where
  "coordinator_folders pf name p =
     filter (\<lambda>(q, hs). hs \<noteq> []) (map (\<lambda>q. (q, host_folders pf name q)) (subfolders pf p))"

text \<open>The folders of a tree.\<close>

definition host_shape :: "host_name \<Rightarrow> path \<times> path list" where
  "host_shape h = (hn_path h, map pn_path (hn_projects h))"

definition coordinator_shape :: "coordinator_dir \<Rightarrow> path \<times> (path \<times> path list) list" where
  "coordinator_shape c = (co_path c, map host_shape (co_hostNames c))"

definition tree_shape :: "project_tree \<Rightarrow> (path \<times> (path \<times> path list) list) list" where
  "tree_shape t = map coordinator_shape (pt_coordinators t)"

text \<open>A loop whose body finds \<open>k e\<close>, when anything, is a filter.\<close>

lemma collect_dir_shape:
  assumes "collect_dir f es ps = Inr (rs, ps')"
    and "\<And>e ps r ps'. e \<in> set es \<Longrightarrow> f e ps = Inr (r, ps') \<Longrightarrow> map_option g r = (if P e then Some (k e) else None)"
  shows "map g rs = map k (filter P es)"
  using assms
proof (induction f es ps arbitrary: rs ps' rule: collect_dir.induct)
  case (2 f e es ps)
  from "2.prems"(1) obtain r ps1 rs' where f: "f e ps = Inr (r, ps1)"
    and c: "collect_dir f es ps1 = Inr (rs', ps')"
    and rs: "rs = (case r of None \<Rightarrow> rs' | Some x \<Rightarrow> x # rs')"
    by (auto simp: andThen_eq_Inr split: prod.splits)
  have "map g rs' = map k (filter P es)"
    by (rule "2.IH" [OF c]) (use "2.prems"(2) in auto)
  moreover have "map_option g r = (if P e then Some (k e) else None)"
    by (rule "2.prems"(2)) (use f in auto)
  ultimately show ?case by (cases r) (auto simp: rs split: if_splits)
qed simp

lemma ProjectName_ctor_path: "ProjectName_ctor pf env root ps = Inr (p, ps') \<Longrightarrow> pn_path p = root"
  by (auto simp: ProjectName_ctor_def Let_def andThen_eq_Inr)

lemma recurseProjectEntries_shape:
  assumes "recurseProjectEntries pf env p es pr ps = Inr (r, ps')"
    and "pr \<noteq> None \<Longrightarrow> map_option pn_path pr = Some p"
  shows "map_option pn_path r = (if pr \<noteq> None \<or> (EG_FILE_EXTENSION, False) \<in> set es then Some p else None)"
  using assms
proof (induction pf env p es pr ps arbitrary: r ps' rule: recurseProjectEntries.induct)
  case (2 pf env p n d es pr ps)
  show ?case
  proof (cases "\<not> d \<and> n = EG_FILE_EXTENSION")
    case True
    then obtain q ps1 where none: "pr = None" and q: "ProjectName_ctor pf env p ps = Inr (q, ps1)"
      and rest: "recurseProjectEntries pf env p es (Some q) ps1 = Inr (r, ps')"
      using "2.prems"(1) by (auto simp: andThen_eq_Inr)
    show ?thesis
      using "2.IH"(1) [OF True rest] none True ProjectName_ctor_path [OF q] by auto
  next
    case False
    then have "recurseProjectEntries pf env p es pr ps = Inr (r, ps')" using "2.prems"(1) by auto
    then show ?thesis using "2.IH"(2) [OF False] False "2.prems"(2) by auto
  qed
qed auto

lemma recurseProjectFolder_shape:
  "recurseProjectFolder pf env p ps = Inr (r, ps') \<Longrightarrow>
    map_option pn_path r = (if is_project_folder pf p then Some p else None)"
  using recurseProjectEntries_shape [of pf env p "pf_dir pf p" None ps r ps']
  by (simp add: recurseProjectFolder_def is_project_folder_def)

lemma filename_snoc [simp]: "filename (p @ [n]) = n"
  by (simp add: filename_def)

lemma recurseHostFolder_shape:
  assumes "recurseHostFolder pf env p name ps = Inr (r, ps')"
  shows "map_option host_shape r =
    (if project_folders pf name p \<noteq> [] then Some (p, project_folders pf name p) else None)"
proof -
  from assms obtain prs where c: "collect_dir (recurseHostEntry pf env p name) (pf_dir pf p) ps = Inr (prs, ps')"
    and r: "r = (if prs = [] then None else Some \<lparr>hn_path = p, hn_projects = prs\<rparr>)"
    by (auto simp: recurseHostFolder_def andThen_eq_Inr)
  have "map pn_path prs = map (\<lambda>e. p @ [fst e])
      (filter (\<lambda>e. snd e \<and> fst e = name \<and> is_project_folder pf (p @ [fst e])) (pf_dir pf p))"
    by (rule collect_dir_shape [OF c])
      (auto simp: recurseHostEntry_def dest: recurseProjectFolder_shape split: if_splits)
  then have "map pn_path prs = project_folders pf name p"
    by (simp add: project_folders_def subfolders_def filter_map comp_def conj_ac)
  with r show ?thesis by (auto simp: host_shape_def split: if_splits)
qed

lemma recurseCoordinatorFolder_shape:
  assumes "recurseCoordinatorFolder pf env p name ps = Inr (r, ps')"
  shows "map_option coordinator_shape r =
    (if host_folders pf name p \<noteq> [] then Some (p, host_folders pf name p) else None)"
proof -
  from assms obtain hs where c: "collect_dir (recurseCoordinatorEntry pf env p name) (pf_dir pf p) ps = Inr (hs, ps')"
    and r: "r = (if hs = [] then None else Some \<lparr>co_path = p, co_hostNames = hs\<rparr>)"
    by (auto simp: recurseCoordinatorFolder_def andThen_eq_Inr)
  have "map host_shape hs = map (\<lambda>e. (p @ [fst e], project_folders pf name (p @ [fst e])))
      (filter (\<lambda>e. snd e \<and> project_folders pf name (p @ [fst e]) \<noteq> []) (pf_dir pf p))"
    by (rule collect_dir_shape [OF c])
      (auto simp: recurseCoordinatorEntry_def dest: recurseHostFolder_shape split: if_splits)
  then have "map host_shape hs = host_folders pf name p"
    by (simp add: host_folders_def subfolders_def filter_map comp_def conj_ac)
  with r show ?thesis by (auto simp: coordinator_shape_def split: if_splits)
qed

lemma ProjectTree_commonCtor_shape:
  assumes "ProjectTree_commonCtor pf env t ps = Inr (t', ps')" and "pt_coordinators t = []"
  shows "tree_shape t' = coordinator_folders pf (pt_projectName t) (getSourceFolder t)"
    and "\<exists>cs. t' = t\<lparr>pt_coordinators := cs\<rparr>"
proof -
  let ?src = "getSourceFolder t" and ?name = "pt_projectName t"
  from assms obtain cs where c: "collect_dir (sourceFolderEntry pf env ?src ?name) (pf_dir pf ?src) ps = Inr (cs, ps')"
    and t': "t' = t\<lparr>pt_coordinators := cs\<rparr>"
    by (auto simp: ProjectTree_commonCtor_def Let_def andThen_eq_Inr split: if_splits)
  have "map coordinator_shape cs = map (\<lambda>e. (?src @ [fst e], host_folders pf ?name (?src @ [fst e])))
      (filter (\<lambda>e. snd e \<and> host_folders pf ?name (?src @ [fst e]) \<noteq> []) (pf_dir pf ?src))"
    by (rule collect_dir_shape [OF c])
      (auto simp: sourceFolderEntry_def dest: recurseCoordinatorFolder_shape split: if_splits)
  then show "tree_shape t' = coordinator_folders pf ?name ?src"
    by (simp add: tree_shape_def t' coordinator_folders_def subfolders_def filter_map comp_def conj_ac)
  show "\<exists>cs. t' = t\<lparr>pt_coordinators := cs\<rparr>" using t' by blast
qed

lemma mem_subfolders: "q \<in> set (subfolders pf p) \<longleftrightarrow> (\<exists>n. (n, True) \<in> set (pf_dir pf p) \<and> q = p @ [n])"
  by (force simp: subfolders_def)

lemma mem_project_folders:
  "q \<in> set (project_folders pf name p) \<longleftrightarrow>
    (name, True) \<in> set (pf_dir pf p) \<and> is_project_folder pf q \<and> q = p @ [name]"
  by (auto simp: project_folders_def mem_subfolders)

lemma mem_host_folders:
  "(q, qs) \<in> set (host_folders pf name p) \<longleftrightarrow>
    (\<exists>h. (h, True) \<in> set (pf_dir pf p) \<and> q = p @ [h] \<and> qs = project_folders pf name q \<and> qs \<noteq> [])"
  by (auto simp: host_folders_def mem_subfolders)

lemma mem_coordinator_folders:
  "(q, hs) \<in> set (coordinator_folders pf name p) \<longleftrightarrow>
    (\<exists>c. (c, True) \<in> set (pf_dir pf p) \<and> q = p @ [c] \<and> hs = host_folders pf name q \<and> hs \<noteq> [])"
  by (auto simp: coordinator_folders_def mem_subfolders)

text \<open>The component with the folder \<open>src/c/h/name\<close>.\<close>

definition component_present :: "platform \<Rightarrow> path \<Rightarrow> string \<Rightarrow> string \<Rightarrow> string \<Rightarrow> bool" where
  "component_present pf src c h name \<longleftrightarrow>
     (c, True) \<in> set (pf_dir pf src) \<and> (h, True) \<in> set (pf_dir pf (src @ [c])) \<and>
     (name, True) \<in> set (pf_dir pf (src @ [c, h])) \<and> is_project_folder pf (src @ [c, h, name])"

lemma find_None_not: "find P xs = None \<Longrightarrow> x \<in> set xs \<Longrightarrow> \<not> P x"
  by (auto simp: find_None_iff)

lemma find_Some_in: "find P xs = Some x \<Longrightarrow> x \<in> set xs \<and> P x"
  by (induction xs) (auto split: if_splits)

lemma find_project:
  assumes "map pn_path prs = project_folders pf name p"
  shows "case find (\<lambda>q. ProjectName_name q = name) prs of
      Some q \<Rightarrow> pn_path q = p @ [name] \<and> p @ [name] \<in> set (project_folders pf name p)
    | None \<Rightarrow> p @ [name] \<notin> set (project_folders pf name p)"
proof (cases "find (\<lambda>q. ProjectName_name q = name) prs")
  case None
  have "\<And>q. q \<in> set prs \<Longrightarrow> pn_path q \<noteq> p @ [name]"
    using find_None_not [OF None] by (metis ProjectName_name_def filename_snoc)
  then have "p @ [name] \<notin> set (map pn_path prs)" unfolding set_map by (metis imageE)
  with None assms show ?thesis by simp
next
  case (Some q)
  then have "pn_path q \<in> set (map pn_path prs)" using find_Some_in [OF Some] by simp
  with Some assms show ?thesis by (auto simp: mem_project_folders)
qed

lemma find_host:
  assumes shape: "map host_shape hs = host_folders pf name p"
  shows "case find (\<lambda>x. HostName_name x = h) hs of
      Some x \<Rightarrow> (h, True) \<in> set (pf_dir pf p) \<and> map pn_path (hn_projects x) = project_folders pf name (p @ [h])
    | None \<Rightarrow> (h, True) \<notin> set (pf_dir pf p) \<or> project_folders pf name (p @ [h]) = []"
proof (cases "find (\<lambda>x. HostName_name x = h) hs")
  case None
  have "(p @ [h], project_folders pf name (p @ [h])) \<notin> set (map host_shape hs)"
    using find_None_not [OF None] by (auto simp: HostName_name_def host_shape_def) (metis filename_snoc)
  with None shape show ?thesis by (auto simp: mem_host_folders)
next
  case (Some x)
  then have "host_shape x \<in> set (map host_shape hs)" "HostName_name x = h" using find_Some_in [OF Some] by auto
  with Some shape show ?thesis by (auto simp: mem_host_folders host_shape_def HostName_name_def)
qed

lemma find_coordinator:
  assumes shape: "map coordinator_shape cs = coordinator_folders pf name p"
  shows "case find (\<lambda>x. Coordinator_name x = c) cs of
      Some x \<Rightarrow> (c, True) \<in> set (pf_dir pf p) \<and> map host_shape (co_hostNames x) = host_folders pf name (p @ [c])
    | None \<Rightarrow> (c, True) \<notin> set (pf_dir pf p) \<or> host_folders pf name (p @ [c]) = []"
proof (cases "find (\<lambda>x. Coordinator_name x = c) cs")
  case None
  have "(p @ [c], host_folders pf name (p @ [c])) \<notin> set (map coordinator_shape cs)"
    using find_None_not [OF None] by (auto simp: Coordinator_name_def coordinator_shape_def) (metis filename_snoc)
  with None shape show ?thesis by (auto simp: mem_coordinator_folders)
next
  case (Some x)
  then have "coordinator_shape x \<in> set (map coordinator_shape cs)" "Coordinator_name x = c"
    using find_Some_in [OF Some] by auto
  with Some shape show ?thesis
    by (auto simp: mem_coordinator_folders coordinator_shape_def Coordinator_name_def)
qed

lemma component_present_folders:
  assumes "component_present pf src c h name"
  shows "(c, True) \<in> set (pf_dir pf src)" and "(h, True) \<in> set (pf_dir pf (src @ [c]))"
    and "project_folders pf name (src @ [c, h]) \<noteq> []" and "host_folders pf name (src @ [c]) \<noteq> []"
proof -
  have p: "src @ [c, h, name] \<in> set (project_folders pf name (src @ [c, h]))"
    using assms by (simp add: component_present_def mem_project_folders)
  then have "(src @ [c, h], project_folders pf name (src @ [c, h])) \<in> set (host_folders pf name (src @ [c]))"
    using assms by (auto simp: component_present_def mem_host_folders)
  with p assms show "(c, True) \<in> set (pf_dir pf src)" "(h, True) \<in> set (pf_dir pf (src @ [c]))"
    "project_folders pf name (src @ [c, h]) \<noteq> []" "host_folders pf name (src @ [c]) \<noteq> []"
    by (auto simp: component_present_def)
qed

lemma getProjectNamePtr_of_shape:
  assumes shape: "tree_shape t = coordinator_folders pf (pt_projectName t) src"
    and names: "component_names t = Inr (c, h)"
  shows "case getProjectNamePtr t of
      Inr p \<Rightarrow> pn_path p = src @ [c, h, pt_projectName t] \<and> component_present pf src c h (pt_projectName t)
    | Inl e \<Rightarrow> e = Rte ''Failed to locate project'' \<and> \<not> component_present pf src c h (pt_projectName t)"
proof (cases "find (\<lambda>x. Coordinator_name x = c) (pt_coordinators t)")
  case None
  have "\<not> component_present pf src c h (pt_projectName t)"
    using find_coordinator [OF shape [unfolded tree_shape_def], of c] None component_present_folders
    by fastforce
  with None names show ?thesis by (simp add: getProjectNamePtr_def)
next
  case (Some co)
  let ?n = "pt_projectName t"
  have c: "(c, True) \<in> set (pf_dir pf src)" and hosts: "map host_shape (co_hostNames co) = host_folders pf ?n (src @ [c])"
    using find_coordinator [OF shape [unfolded tree_shape_def], of c] Some by auto
  show ?thesis
  proof (cases "find (\<lambda>x. HostName_name x = h) (co_hostNames co)")
    case None
    have "\<not> component_present pf src c h ?n"
      using find_host [OF hosts, of h] None component_present_folders [of pf src c h ?n] by auto
    with None Some names show ?thesis by (simp add: getProjectNamePtr_def)
  next
    case h: (Some hn)
    have "(h, True) \<in> set (pf_dir pf (src @ [c]))"
      and prs: "map pn_path (hn_projects hn) = project_folders pf ?n (src @ [c, h])"
      using find_host [OF hosts, of h] h by auto
    then show ?thesis
      using find_project [OF prs] c Some h names
      by (auto simp: getProjectNamePtr_def component_present_def mem_project_folders split: option.splits)
  qed
qed

text \<open>C38.  A tree that is constructed has the coordinators, hosts and projects of the folders with a
  document under its source folder, in the order of the directories, and none without a project.\<close>

theorem project_tree_of_folders:
  assumes "ProjectTree_ctor pf env root name ps = Inr (t, ps')"
  shows "pt_path t = absolute_path pf root \<and>
    tree_shape t = coordinator_folders pf name (getSourceFolder t)"
proof -
  have "tree_shape t = coordinator_folders pf name (getSourceFolder t) \<and> pt_path t = absolute_path pf root"
    using ProjectTree_commonCtor_shape [OF assms [unfolded ProjectTree_ctor_def]]
    by (auto simp: absolute_path_def getSourceFolder_def)
  then show ?thesis by simp
qed

text \<open> The project of a component is found exactly when its folder, with a document, is there, and
  it is the project of that folder.\<close>

theorem component_project_found:
  assumes "ProjectTree_ctor_component pf env root c h name ps = Inr (t, ps')"
  shows "case getProjectNamePtr t of
      Inr p \<Rightarrow> pn_path p = getSourceFolder t @ [c, h, name] \<and> component_present pf (getSourceFolder t) c h name
    | Inl e \<Rightarrow> e = Rte ''Failed to locate project'' \<and> \<not> component_present pf (getSourceFolder t) c h name"
proof -
  obtain cs where t: "t = \<lparr>pt_path = absolute_path pf root, pt_coordinatorName = Some c,
      pt_hostName = Some h, pt_projectName = name, pt_coordinators = cs\<rparr>"
    and shape: "tree_shape t = coordinator_folders pf name (getSourceFolder t)"
    using ProjectTree_commonCtor_shape [OF assms [unfolded ProjectTree_ctor_component_def]]
    by (auto simp: absolute_path_def getSourceFolder_def)
  have names: "component_names t = Inr (c, h)" and n: "pt_projectName t = name"
    by (simp_all add: t component_names_def)
  show ?thesis
    by (rule getProjectNamePtr_of_shape [of t pf "getSourceFolder t" c h, unfolded n, OF shape names])
qed

section \<open>Texts with names\<close>

text \<open>C39.  A text of an XML document that is written from literals and names reads back as these: its
  expansion is the literals with the values of the names in their places, and the first name without a
  value makes it fail.\<close>

theorem expand_written_text:
  assumes "list_all segment_ok ss"
  shows "Environment_expand pf env (segments_text ss) = segments_value (Environment_get pf env) ss"
  unfolding Environment_expand_def by (rule env_expand_segments [OF assms])

end
