(* ===== verification/Project_Files.thy ===== *)
theory Project_Files
  imports Project_Properties
begin

text \<open>
  The files that a build writes do not overwrite each other: the kinds of files of the interface of a
  project and of its components, and the functions that give their places, are injective.
\<close>

section \<open>Names under a canonical root\<close>

definition normal_name :: "string \<Rightarrow> bool" where
  "normal_name s \<longleftrightarrow> plain_name s \<and> s \<noteq> ''.'' \<and> s \<noteq> ''..''"

text \<open>Making a path below the root absolute and canonical leaves it as it is, when its further
  elements are names.\<close>

definition canonical_root :: "platform \<Rightarrow> path \<Rightarrow> bool" where
  "canonical_root pf r \<longleftrightarrow> (\<forall>xs. list_all normal_name xs \<longrightarrow> absolute_path pf (r @ xs) = r @ xs)"

lemma suffix_clash:
  assumes "take k (rev s) \<noteq> take k (rev t)" and "k \<le> length s" and "k \<le> length t"
  shows "n @ s \<noteq> m @ t"
proof
  assume "n @ s = m @ t"
  then have "rev s @ rev n = rev t @ rev m" by (metis rev_append)
  then have "take k (rev s @ rev n) = take k (rev t @ rev m)" by simp
  with assms show False by simp
qed

lemma suffix_clash0:
  assumes "take k (rev s) \<noteq> take k (rev t)" and "k \<le> length s" and "k \<le> length t"
  shows "n @ s \<noteq> t"
  using suffix_clash [OF assms, of n "[]"] by simp

lemma normal_literals [simp]:
  "normal_name ''interface''" "normal_name ''impl''"
  by (simp_all add: normal_name_def plain_name_def is_separator_def)

lemma normal_suffix:
  assumes "normal_name n" and "list_all (\<lambda>c. \<not> is_separator c) s" and "2 < length s"
  shows "normal_name (n @ s)" and "normal_name (s @ n)"
proof -
  have "length (n @ s) > 2" "length (s @ n) > 2" using assms(3) by auto
  then have "n @ s \<noteq> ''.''" "n @ s \<noteq> ''..''" "s @ n \<noteq> ''.''" "s @ n \<noteq> ''..''" by force+
  then show "normal_name (n @ s)" "normal_name (s @ n)"
    using assms by (auto simp: normal_name_def plain_name_def)
qed

section \<open>The files of the interface\<close>

datatype interface_file =
  F_ResourceHeader | F_ParserPre | F_ParserDatabase | F_InterfaceDatabase | F_InterfacePCH
  | F_InterfaceHeader | F_IncludeHeader | F_IncludePCH | F_GenericsHeader | F_GenericsPCH
  | F_BuildInfo | F_Structures | F_Analysis | F_GeometryInterface
  | F_TUDB string | F_OperationsHeader string | F_PublicPCH string | F_PrivatePCH string

fun interface_path :: "platform \<Rightarrow> project_tree \<Rightarrow> interface_file \<Rightarrow> path" where
  "interface_path pf t F_ResourceHeader = getResourceHeader t"
| "interface_path pf t F_ParserPre = getParserDatabaseFilePreInterfaceAnalysis t"
| "interface_path pf t F_ParserDatabase = getParserDatabaseFile t"
| "interface_path pf t F_InterfaceDatabase = getInterfaceDatabaseFile t"
| "interface_path pf t F_InterfacePCH = getInterfacePCH t"
| "interface_path pf t F_InterfaceHeader = getInterfaceHeader t"
| "interface_path pf t F_IncludeHeader = getIncludeHeader t"
| "interface_path pf t F_IncludePCH = getIncludePCH t"
| "interface_path pf t F_GenericsHeader = getGenericsHeader t"
| "interface_path pf t F_GenericsPCH = getGenericsPCH t"
| "interface_path pf t F_BuildInfo = getBuildInfoFile t"
| "interface_path pf t F_Structures = getDataStructureSource pf t"
| "interface_path pf t F_Analysis = getAnalysisFileName pf t"
| "interface_path pf t F_GeometryInterface = getGeometryInterface pf t"
| "interface_path pf t (F_TUDB n) = getTUDBName pf t n"
| "interface_path pf t (F_OperationsHeader n) = getOperationsHeader pf t n"
| "interface_path pf t (F_PublicPCH n) = getOperationsPublicPCH pf t n"
| "interface_path pf t (F_PrivatePCH n) = getOperationsPrivatePCH pf t n"

fun interface_name :: "interface_file \<Rightarrow> string" where
  "interface_name F_ResourceHeader = ''resource.hpp''"
| "interface_name F_ParserPre = ''parser_pre.db''"
| "interface_name F_ParserDatabase = ''parser.db''"
| "interface_name F_InterfaceDatabase = ''interface.db''"
| "interface_name F_InterfacePCH = ''interface.pch''"
| "interface_name F_InterfaceHeader = ''interface.hpp''"
| "interface_name F_IncludeHeader = ''include.hpp''"
| "interface_name F_IncludePCH = ''include.pch''"
| "interface_name F_GenericsHeader = ''generics.hpp''"
| "interface_name F_GenericsPCH = ''generics.pch''"
| "interface_name F_BuildInfo = ''build.txt''"
| "interface_name F_Structures = ''structures.hpp''"
| "interface_name F_Analysis = ''database.db''"
| "interface_name F_GeometryInterface = ''geometry_interface.hpp''"
| "interface_name (F_TUDB n) = ''tu_'' @ n @ ''.db''"
| "interface_name (F_OperationsHeader n) = n @ ''_operations.hpp''"
| "interface_name (F_PublicPCH n) = n @ ''_public.pch''"
| "interface_name (F_PrivatePCH n) = n @ ''_private.pch''"

fun file_units :: "interface_file \<Rightarrow> string list" where
  "file_units (F_TUDB n) = [n]"
| "file_units (F_OperationsHeader n) = [n]"
| "file_units (F_PublicPCH n) = [n]"
| "file_units (F_PrivatePCH n) = [n]"
| "file_units _ = []"

definition file_ok :: "interface_file \<Rightarrow> bool" where
  "file_ok f \<longleftrightarrow> list_all normal_name (file_units f)"

lemma interface_name_normal: "file_ok f \<Longrightarrow> normal_name (interface_name f)"
  by (cases f)
    (auto simp: file_ok_def normal_name_def plain_name_def is_separator_def list_all_iff)

lemma interface_folder:
  "normal_name (pt_projectName t) \<Longrightarrow> getInterfaceFolder t = pt_path t @ [''interface'', pt_projectName t]"
  by (simp add: getInterfaceFolder_def path_append_plain normal_name_def plain_name_def is_separator_def)

lemma interface_path_name:
  assumes "canonical_root pf (pt_path t)" and "normal_name (pt_projectName t)" and "file_ok f"
  shows "interface_path pf t f = pt_path t @ [''interface'', pt_projectName t, interface_name f]"
proof -
  have plain: "plain_name (interface_name f)" and norm: "normal_name (interface_name f)"
    using interface_name_normal [OF assms(3)] by (auto simp: normal_name_def)
  have "absolute_path pf (path_append (getInterfaceFolder t) (interface_name f)) =
      path_append (getInterfaceFolder t) (interface_name f)"
    using assms(1,2) norm plain
    by (auto simp: canonical_root_def interface_folder path_append_plain
        dest: spec [of _ "[''interface'', pt_projectName t, interface_name f]"])
  moreover have "path_append (getInterfaceFolder t) (interface_name f) =
      pt_path t @ [''interface'', pt_projectName t, interface_name f]"
    using plain assms(2) by (simp add: interface_folder path_append_plain)
  ultimately show ?thesis
    by (cases f)
      (simp_all add: getResourceHeader_def getResourceInclude_def
        getParserDatabaseFilePreInterfaceAnalysis_def getParserDatabaseFile_def getInterfaceDatabaseFile_def
        getInterfacePCH_def getInterfaceHeader_def getIncludeHeader_def getIncludePCH_def getGenericsHeader_def
        getGenericsPCH_def getBuildInfoFile_def getDataStructureSource_def getStructuresInclude_def
        getAnalysisFileName_def getGeometryInterface_def getGeometryInclude_def getTUDBName_def
        getOperationsHeader_def getOperationsPublicPCH_def getOperationsPrivatePCH_def)
qed

lemma interface_name_inj: "interface_name f = interface_name g \<Longrightarrow> f = g"
  by (cases f; cases g; simp add: suffix_clash [of 6] suffix_clash0 [of 6])

text \<open> No two files of the interface of a project share a path, whatever the names of its
  translation units are.\<close>

theorem interface_files_distinct:
  assumes "canonical_root pf (pt_path t)" and "normal_name (pt_projectName t)"
  shows "inj_on (interface_path pf t) {f. file_ok f}"
  by (rule inj_onI) (use assms interface_name_inj in \<open>auto simp: interface_path_name\<close>)

section \<open>The files of the components\<close>

datatype component_file =
  K_ParserDatabase | K_IncludeHeader | K_IncludePCH | K_InterfacePCH | K_GenericsPCH | K_BuildInfo
  | K_NetState | K_Runtime | K_Python | K_UnrealInterface | K_Unreal | K_Geometry | K_ConfigIO
  | K_EGComponent | K_Implementation string

text \<open>A component as the two builds name it: by its entries of the tree, and by the names the tree is
  of.\<close>

definition component_ref_of :: "coordinator_dir \<times> host_name \<times> project_name \<Rightarrow> component_ref" where
  "component_ref_of x =
     (case x of (c, h, p) \<Rightarrow> \<lparr>cr_coordinator = Some c, cr_hostName = Some h, cr_projectName = Some p\<rparr>)"

definition names_of :: "coordinator_dir \<times> host_name \<times> project_name \<Rightarrow> string \<times> string \<times> string" where
  "names_of x = (case x of (c, h, p) \<Rightarrow> (Coordinator_name c, HostName_name h, ProjectName_name p))"

definition tree_of_names :: "project_tree \<Rightarrow> string \<times> string \<times> string \<Rightarrow> project_tree" where
  "tree_of_names t n =
     (case n of (c, h, p) \<Rightarrow> t\<lparr>pt_coordinatorName := Some c, pt_hostName := Some h, pt_projectName := p\<rparr>)"

fun component_path :: "platform \<Rightarrow> project_tree \<Rightarrow> coordinator_dir \<times> host_name \<times> project_name \<Rightarrow> component_file \<Rightarrow> path result" where
  "component_path pf t x K_ParserDatabase = getComponentParserDatabase pf t (component_ref_of x)"
| "component_path pf t x K_IncludeHeader = getComponentIncludeHeader pf t (component_ref_of x)"
| "component_path pf t x K_IncludePCH = getComponentIncludePCH pf t (component_ref_of x)"
| "component_path pf t x K_InterfacePCH = getComponentInterfacePCH pf t (component_ref_of x)"
| "component_path pf t x K_GenericsPCH = getComponentGenericsPCH pf t (component_ref_of x)"
| "component_path pf t x K_BuildInfo = getComponentBuildInfoFile pf t (component_ref_of x)"
| "component_path pf t x K_NetState = getNetStateSource pf (tree_of_names t (names_of x))"
| "component_path pf t x K_Runtime = getRuntimeSource pf (tree_of_names t (names_of x))"
| "component_path pf t x K_Python = getPythonSource pf (tree_of_names t (names_of x))"
| "component_path pf t x K_UnrealInterface = getUnrealInterface pf (tree_of_names t (names_of x))"
| "component_path pf t x K_Unreal = getUnrealSource pf (tree_of_names t (names_of x))"
| "component_path pf t x K_Geometry = getGeometrySource pf (tree_of_names t (names_of x))"
| "component_path pf t x K_ConfigIO = getConfigIOSource pf (tree_of_names t (names_of x))"
| "component_path pf t x K_EGComponent = getEGComponentSource pf (tree_of_names t (names_of x))"
| "component_path pf t x (K_Implementation n) = getImplementationSource pf (tree_of_names t (names_of x)) n"

fun component_file_name :: "component_file \<Rightarrow> string" where
  "component_file_name K_ParserDatabase = ''parser.db''"
| "component_file_name K_IncludeHeader = ''include.hpp''"
| "component_file_name K_IncludePCH = ''include.pch''"
| "component_file_name K_InterfacePCH = ''interface.pch''"
| "component_file_name K_GenericsPCH = ''generics.pch''"
| "component_file_name K_BuildInfo = ''build.info''"
| "component_file_name K_NetState = ''netstate.hpp''"
| "component_file_name K_Runtime = ''runtime.cpp''"
| "component_file_name K_Python = ''python.cpp''"
| "component_file_name K_UnrealInterface = ''unreal.hpp''"
| "component_file_name K_Unreal = ''unreal.cpp''"
| "component_file_name K_Geometry = ''geometry_interface.cpp''"
| "component_file_name K_ConfigIO = ''config_io.cpp''"
| "component_file_name K_EGComponent = ''component.cpp''"
| "component_file_name (K_Implementation n) = n @ ''_operations.cpp''"

lemma component_file_name_inj: "component_file_name f = component_file_name g \<Longrightarrow> f = g"
  by (cases f; cases g; simp add: suffix_clash [of 6] suffix_clash0 [of 6])

definition component_file_ok :: "component_file \<Rightarrow> bool" where
  "component_file_ok f \<longleftrightarrow> (case f of K_Implementation n \<Rightarrow> normal_name n | _ \<Rightarrow> True)"

lemma component_file_name_normal: "component_file_ok f \<Longrightarrow> normal_name (component_file_name f)"
  by (cases f)
    (auto simp: component_file_ok_def normal_name_def plain_name_def is_separator_def list_all_iff)

definition names_ok :: "string \<times> string \<times> string \<Rightarrow> bool" where
  "names_ok n \<longleftrightarrow> (case n of (c, h, p) \<Rightarrow> normal_name c \<and> normal_name h \<and> normal_name p)"

lemma normal_plain: "normal_name s \<Longrightarrow> plain_name s"
  by (simp add: normal_name_def)

lemma component_folder_names:
  "names_ok (c, h, p) \<Longrightarrow> component_folder impl c h p = impl @ [c, h, p]"
  by (simp add: component_folder_def path_append_plain normal_plain names_ok_def)

lemma impl_folder: "getImplFolder t = pt_path t @ [''impl'']"
  by (simp add: getImplFolder_def path_append_plain normal_plain)

lemma tree_of_names_simps:
  "pt_path (tree_of_names t n) = pt_path t"
  "component_names (tree_of_names t (c, h, p)) = Inr (c, h)"
  "pt_projectName (tree_of_names t (c, h, p)) = p"
  by (auto simp: tree_of_names_def component_names_def split: prod.splits)

lemma component_path_name:
  assumes "canonical_root pf (pt_path t)" and ok: "names_ok (names_of x)" and "component_file_ok f"
  shows "component_path pf t x f =
    (case names_of x of (c, h, p) \<Rightarrow> Inr (pt_path t @ [''impl'', c, h, p, component_file_name f]))"
proof -
  obtain c h p where x: "x = (c, h, p)" by (cases x)
  let ?c = "Coordinator_name c" and ?h = "HostName_name h" and ?p = "ProjectName_name p"
  have names: "names_of x = (?c, ?h, ?p)" by (simp add: x names_of_def)
  have norm: "normal_name (component_file_name f)" by (rule component_file_name_normal) fact
  have folder: "component_folder (getImplFolder t) ?c ?h ?p = pt_path t @ [''impl'', ?c, ?h, ?p]"
    using ok by (simp add: names component_folder_names impl_folder)
  have impl: "getImplFolder (tree_of_names t n) = getImplFolder t" for n
    by (simp add: getImplFolder_def tree_of_names_simps)
  have abs: "absolute_path pf (path_append (component_folder (getImplFolder t) ?c ?h ?p) (component_file_name f)) =
      pt_path t @ [''impl'', ?c, ?h, ?p, component_file_name f]"
    using assms(1) ok norm
    by (simp add: folder path_append_plain normal_plain canonical_root_def names_ok_def names)
  then show ?thesis
    unfolding names prod.case
    by (cases f)
      (simp_all add: x names_of_def component_ref_of_def constructComponentFile_def
        own_component_file_def tree_of_names_simps impl
        getComponentParserDatabase_def getComponentIncludeHeader_def getComponentIncludePCH_def
        getComponentInterfacePCH_def getComponentGenericsPCH_def getComponentBuildInfoFile_def
        getNetStateSource_def getNetStateSourceInclude_def getRuntimeSource_def getPythonSource_def
        getUnrealInterface_def getUnrealInterfaceInclude_def getUnrealSource_def getGeometrySource_def
        getConfigIOSource_def getEGComponentSource_def getImplementationSource_def)
qed

text \<open>C40.  A path in the implementation folder belongs to one file of one component: components of
  different names never write the same file.\<close>

theorem component_files_distinct:
  assumes "canonical_root pf (pt_path t)"
    and "names_ok (names_of x)" and "component_file_ok f" and "component_path pf t x f = Inr q"
    and "names_ok (names_of y)" and "component_file_ok g" and "component_path pf t y g = Inr q"
  shows "names_of x = names_of y \<and> f = g"
proof -
  obtain c h p where x: "names_of x = (c, h, p)" by (cases "names_of x")
  obtain c' h' p' where y: "names_of y = (c', h', p')" by (cases "names_of y")
  have "pt_path t @ [''impl'', c, h, p, component_file_name f] =
      pt_path t @ [''impl'', c', h', p', component_file_name g]"
    using component_path_name [OF assms(1-3)] component_path_name [OF assms(1,5,6)] assms(4,7) x y by simp
  then show ?thesis using x y component_file_name_inj by auto
qed

section \<open>The name of the plugin of a component\<close>

text \<open> The file name of the plugin of a component determines its names when those of the coordinator
  and the host have no underscore; otherwise it need not: the names \<open>(a_b, c)\<close> and \<open>(a, b_c)\<close> give the
  same file.\<close>

theorem component_file_name_unique:
  assumes "getComponentFileNameExt t b = Inr n" and "getComponentFileNameExt t' b = Inr n"
    and "pt_coordinatorName t = Some c" and "pt_hostName t = Some h"
    and "pt_coordinatorName t' = Some c'" and "pt_hostName t' = Some h'"
    and "list_all (\<lambda>s. CHR ''_'' \<notin> set s) [c, h, c', h']"
  shows "c = c' \<and> h = h' \<and> pt_projectName t = pt_projectName t'"
proof -
  have split: "s @ CHR ''_'' # r = s' @ CHR ''_'' # r' \<Longrightarrow> CHR ''_'' \<notin> set s \<Longrightarrow> CHR ''_'' \<notin> set s' \<Longrightarrow> s = s' \<and> r = r'"
    for s s' r r' :: string
    by (induction s arbitrary: s') (auto simp: Cons_eq_append_conv append_eq_Cons_conv)
  have e: "c @ CHR ''_'' # (h @ CHR ''_'' # (pt_projectName t @ (if b then ''d.dll'' else ''.dll''))) =
      c' @ CHR ''_'' # (h' @ CHR ''_'' # (pt_projectName t' @ (if b then ''d.dll'' else ''.dll'')))"
    using assms by (simp add: getComponentFileNameExt_def getCoordinatorName_def getHostName_def)
  from split [OF e] assms(7)
  have c: "c = c'" and h: "h @ CHR ''_'' # (pt_projectName t @ (if b then ''d.dll'' else ''.dll'')) =
      h' @ CHR ''_'' # (pt_projectName t' @ (if b then ''d.dll'' else ''.dll''))"
    by auto
  from split [OF h] assms(7) c show ?thesis by auto
qed

lemma component_file_name_clash:
  "getComponentFileNameExt (tree_of_names t (c @ ''_'' @ x, h, p)) b =
    getComponentFileNameExt (tree_of_names t (c, x @ ''_'' @ h, p)) b"
  by (simp add: tree_of_names_def getComponentFileNameExt_def getCoordinatorName_def getHostName_def)

end
