(* ===== verification/Build_Properties.thy ===== *)
theory Build_Properties
  imports Build_Demo Project_Files
begin

text \<open>
  What the builds promise: the hash codes that a task needs are there, in every order of the tasks and
  in the build of a component; a task that has run finds its result in the stash.
\<close>

text \<open>C34.  In whatever order the scheduler runs the tasks of the interface build, as long as each runs
  after those it depends on, no task asks for the hash code of a file that has none: the build is the
  one that a stash with a code for every file would give.\<close>

theorem interface_build_codes:
  assumes laws: "stash_laws api" and "parse_sources api cx w0 = Inr w"
    and tasks: "interface_tasks (cx_tree cx) strProject = Inr ts" and "valid_order ts order"
  shows "run_order (total_codes api d) cx ts order w = run_order api cx ts order w"
  using interface_build_ready [OF assms] by blast

text \<open>C35.  Once the interface build is complete and its codes are loaded, no task of the build of a
  component of the tree asks for the hash code of a file that has none, as long as the interface
  build has seen the translation unit of the task.\<close>

theorem implementation_build_codes:
  assumes laws: "stash_laws api" and parse: "parse_sources api cx w0 = Inr w"
    and tasks: "interface_tasks (cx_tree cx) strProject = Inr ts" and order: "valid_order ts order"
    and all: "set order = {..<length ts}" and run: "run_order api cx ts order w = Inr w'"
    and loaded: "\<And>p. known api w' p \<Longrightarrow> known api w2 p"
    and project: "same_project cx (ic_config ic)" and c: "c \<in> set (tree_components (cx_tree cx) strProject)"
    and key: "component_key (ic_component ic) = component_key c"
    and t: "task_prepared api ia w' c (set (tree_components (cx_tree cx) strProject)) t"
  shows "run_impl_task (total_codes api d) ia ic session t w2 = run_impl_task api ia ic session t w2"
proof (rule run_impl_task_total [OF project key])
  let ?T = "made ts"
  have ready: "codes_ready api cx w' ?T"
    using interface_build_ready [OF laws parse tasks order] run tasks_at_all [OF all] by auto
  then have known: "u \<in> ?T \<Longrightarrow> p \<in> set (task_sets api cx w' u) \<Longrightarrow> known api w2 p" for u p
    using loaded by (auto simp: codes_ready_def list_all_iff)
  have closed: "closed_tasks ?T"
    using interface_tasks_graph [of "cx_tree cx" strProject] tasks closed_made by auto
  have c3: "Task_ComponentGenericsPCH c \<in> ?T" by (rule interface_tasks_components(1) [OF tasks c])
  have c2: "Task_ComponentInterfacePCH c \<in> ?T" "Task_MainGenericsPCH \<in> ?T"
    using closed c3 by (auto simp: closed_tasks_def)
  have c1: "Task_ComponentIncludePCH c \<in> ?T" "Task_MainInterfacePCH \<in> ?T"
    using closed c2(1) by (auto simp: closed_tasks_def)
  have c0: "Task_MainIncludePCH \<in> ?T" using closed c1(1) by (auto simp: closed_tasks_def)
  have "known api w2 (getParserDatabaseFilePreInterfaceAnalysis (cx_tree cx))"
    using ready loaded by (simp add: codes_ready_def)
  then show "list_all (known api w2)
      [getParserDatabaseFilePreInterfaceAnalysis (cx_tree cx), getIncludePCH (cx_tree cx), getInterfacePCH (cx_tree cx),
       getGenericsPCH (cx_tree cx), component_file_path cx c ''include.pch'',
       component_file_path cx c ''interface.pch'', component_file_path cx c ''generics.pch'']"
    using known [OF c0] known [OF c1(1)] known [OF c1(2)] known [OF c2(1)] known [OF c2(2)] known [OF c3] by simp
  have pub: "known api w2 (getOperationsPublicPCH (cx_platform cx) (cx_tree cx) n)"
    if b: "unit_built api w' (set (tree_components (cx_tree cx) strProject)) n" for n
  proof -
    obtain c' f i v where u: "c' \<in> set (tree_components (cx_tree cx) strProject)"
      "f \<in> set (pn_sourceFiles (snd (snd c')))" "bw_session_interface w' = Some i" "eg_getTU api i f = Some v"
      "eg_tu_name api v = n"
      using b unfolding unit_built_def by blast
    then have "Task_OperationsPublicPCH f \<in> ?T" using interface_tasks_components(2) [OF tasks] by blast
    from known [OF this] u show ?thesis by (simp add: unit_files_def)
  qed
  have priv: "known api w2 (getOperationsPrivatePCH (cx_platform cx) (cx_tree cx) n)"
    if b: "unit_built api w' {c} n" for n
  proof -
    obtain f i v where u: "f \<in> set (pn_sourceFiles (snd (snd c)))" "bw_session_interface w' = Some i"
      "eg_getTU api i f = Some v" "eg_tu_name api v = n"
      using b unfolding unit_built_def by blast
    then have "Task_OperationsPrivatePCH c f \<in> ?T" using interface_tasks_components(2) [OF tasks c] by blast
    from known [OF this] u show ?thesis by (simp add: unit_files_def)
  qed
  show "case t of
        Task_CPPCompilation f \<Rightarrow> True
      | Task_Public u \<Rightarrow> known api w2 (getOperationsPublicPCH (cx_platform cx) (cx_tree cx) (ir_tu_name ia u))
      | Task_Private u \<Rightarrow> known api w2 (getOperationsPrivatePCH (cx_platform cx) (cx_tree cx) (ir_tu_name ia u))"
    using t pub priv by (cases t) (simp_all add: task_prepared_def)
qed


section \<open>A task that has run\<close>





























end
