(* ===== verification/Build_Witnesses.thy ===== *)
theory Build_Witnesses
  imports Build_Properties
begin

text \<open>
  The properties of the project tree, its files and the builds at the workspace of \<open>Build_Demo\<close>: each
  is applied to it, with its hypotheses discharged by evaluation.
\<close>

section \<open>The tree and its files\<close>

lemma result_okE: "result_ok r P \<Longrightarrow> (\<And>x. r = Inr x \<Longrightarrow> P x \<Longrightarrow> R) \<Longrightarrow> R"
  by (cases r) (auto simp: result_ok_def)

theorem project_tree_of_folders_witness:
  "\<exists>t ps. ProjectTree_ctor demo_platform demo_environment [''w''] ''pr'' eg_process_start = Inr (t, ps) \<and>
     map component_key (tree_components t ''pr'') = [[''co'', ''ho'', ''pr'']] \<and>
     tree_shape t = coordinator_folders demo_platform ''pr'' (getSourceFolder t)"
  using demo_tree_exists
  by (elim result_okE) (auto dest: project_tree_of_folders)

definition demo_component_tree :: "(project_tree \<times> eg_process) result" where
  "demo_component_tree =
     ProjectTree_ctor_component demo_platform demo_environment [''w''] ''co'' ''ho'' ''pr'' eg_process_start"

lemma demo_component_tree_found:
  "result_ok demo_component_tree (\<lambda>(t, ps). result_ok (getProjectNamePtr t) (\<lambda>p. pn_path p \<noteq> []))"
  by code_simp

theorem component_project_found_witness:
  "\<exists>t ps p. demo_component_tree = Inr (t, ps) \<and> getProjectNamePtr t = Inr p \<and>
     pn_path p = getSourceFolder t @ [''co'', ''ho'', ''pr'']"
proof -
  obtain t ps p where t: "demo_component_tree = Inr (t, ps)" and p: "getProjectNamePtr t = Inr p"
    using demo_component_tree_found by (auto elim!: result_okE)
  with component_project_found [OF t [unfolded demo_component_tree_def]] show ?thesis by auto
qed

lemma demo_root [simp]: "canonical_root demo_platform r"
  by (simp add: canonical_root_def absolute_path_def demo_platform_def)

definition demo_tree :: project_tree where
  "demo_tree = \<lparr>pt_path = [''w''], pt_coordinatorName = Some ''co'', pt_hostName = Some ''ho'',
     pt_projectName = ''pr'', pt_coordinators = []\<rparr>"

lemma demo_names [simp]: "normal_name ''pr''" "normal_name ''co''" "normal_name ''ho''"
  by (simp_all add: normal_name_def plain_name_def is_separator_def)

theorem interface_files_distinct_witness:
  "inj_on (interface_path demo_platform demo_tree) {f. file_ok f}"
  by (rule interface_files_distinct) (simp_all add: demo_tree_def)

definition demo_project_dir :: project where
  "demo_project_dir = \<lparr>pj_projectDir = [''pr''], pj_environment = demo_environment, pj_project = demo_project,
     pj_host = demo_host\<rparr>"

definition demo_component :: tree_component where
  "demo_component = (\<lparr>co_path = [''co''], co_hostNames = []\<rparr>, \<lparr>hn_path = [''ho''], hn_projects = []\<rparr>,
     \<lparr>pn_path = [''pr''], pn_sourceFiles = [], pn_project = demo_project_dir\<rparr>)"

lemma demo_component_names [simp]: "names_of demo_component = (''co'', ''ho'', ''pr'')"
  by (simp add: names_of_def demo_component_def Coordinator_name_def HostName_name_def ProjectName_name_def filename_def)

text \<open>The same names with other source files.\<close>

definition demo_component2 :: tree_component where
  "demo_component2 = (\<lparr>co_path = [''d'', ''co''], co_hostNames = []\<rparr>, fst (snd demo_component),
     (snd (snd demo_component))\<lparr>pn_sourceFiles := [[''a.eg'']]\<rparr>)"

theorem component_files_distinct_witness:
  "component_path demo_platform demo_tree demo_component (K_Implementation ''a'') =
     Inr [''w'', ''impl'', ''co'', ''ho'', ''pr'', ''a_operations.cpp''] \<and>
   component_path demo_platform demo_tree demo_component2 (K_Implementation ''a'') =
     Inr [''w'', ''impl'', ''co'', ''ho'', ''pr'', ''a_operations.cpp''] \<and>
   demo_component2 \<noteq> demo_component \<and> names_of demo_component = names_of demo_component2"
proof -
  let ?q = "[''w'', ''impl'', ''co'', ''ho'', ''pr'', ''a_operations.cpp'']"
  have a: "normal_name ''a''" by (simp add: normal_name_def plain_name_def is_separator_def)
  have n: "names_of demo_component2 = (''co'', ''ho'', ''pr'')"
    by (simp add: names_of_def demo_component2_def demo_component_def Coordinator_name_def HostName_name_def
        ProjectName_name_def filename_def)
  have p: "component_path demo_platform demo_tree c (K_Implementation ''a'') = Inr ?q"
    if "names_of c = (''co'', ''ho'', ''pr'')" for c
    using that a by (subst component_path_name) (simp_all add: names_ok_def component_file_ok_def demo_tree_def)
  have "names_of demo_component = names_of demo_component2"
    using component_files_distinct [OF demo_root _ _ p [of demo_component] _ _ p [OF n]] a n
    by (simp add: names_ok_def component_file_ok_def)
  moreover have "demo_component2 \<noteq> demo_component"
    by (simp add: demo_component2_def demo_component_def)
  ultimately show ?thesis using p n by simp
qed

theorem component_file_name_unique_witness:
  "getComponentFileNameExt demo_tree True = Inr ''co_ho_prd.dll'' \<and>
   pt_coordinatorName demo_tree = Some ''co'' \<and>
   (\<forall>t. getComponentFileNameExt t True = Inr ''co_ho_prd.dll'' \<and> pt_coordinatorName t = Some ''co'' \<and>
     pt_hostName t = Some ''ho'' \<longrightarrow> pt_projectName t = ''pr'')"
proof -
  have e: "getComponentFileNameExt demo_tree True = Inr ''co_ho_prd.dll''"
    by (simp add: demo_tree_def getComponentFileNameExt_def getCoordinatorName_def getHostName_def)
  have n: "pt_coordinatorName demo_tree = Some ''co''" "pt_hostName demo_tree = Some ''ho''"
    by (simp_all add: demo_tree_def)
  have "pt_projectName t = ''pr''"
    if t: "getComponentFileNameExt t True = Inr ''co_ho_prd.dll''" "pt_coordinatorName t = Some ''co''"
      "pt_hostName t = Some ''ho''" for t
  proof -
    have "pt_projectName demo_tree = pt_projectName t"
      using component_file_name_unique [OF e t(1) n t(2,3)] by simp
    then show ?thesis by (simp add: demo_tree_def)
  qed
  then show ?thesis using e n by blast
qed

section \<open>The builds\<close>

text \<open>The steps of the build of the interface of the workspace, with a task run again at the end.\<close>

definition demo_run where
  "demo_run =
     andThen (ProjectTree_ctor demo_platform demo_environment [''w''] ''pr'' eg_process_start) (\<lambda>(t, ps).
       (let cx = \<lparr>cx_platform = demo_platform, cx_environment = demo_environment, cx_tree = t, cx_flags = ''-O2''\<rparr>;
            w0 = \<lparr>bw_files = demo_files, bw_stash = sh_open demo_api (getStashFolder t) demo_files, bw_process = ps,
                  bw_parserChanged = False, bw_session_parser = None, bw_session_interface = None, bw_commands = []\<rparr> in
        andThen (parse_sources demo_api cx w0) (\<lambda>w.
        andThen (interface_tasks t ''pr'') (\<lambda>ts.
        andThen (run_order demo_api cx ts [0..<length ts] w) (\<lambda>w'.
        andThen (run_task demo_api cx Task_MainInterfacePCH w') (\<lambda>(v, _).
          Inr (cx, w0, w, ts, w', v)))))))"

lemma demo_run_ok:
  "result_ok demo_run (\<lambda>(cx, w0, w, ts, w', v). pt_projectName (cx_tree cx) = ''pr'' \<and>
     (case tree_components (cx_tree cx) ''pr'' of
        [c] \<Rightarrow> map (\<lambda>f. eg_tu_name demo_api f) (pn_sourceFiles (snd (snd c))) = [''a'']
      | _ \<Rightarrow> False) \<and> bw_session_interface w' = Some ())"
  by code_simp

lemma demo_stages:
  obtains cx w0 w ts w' v o' c f where
    "cx_platform cx = demo_platform" "pt_projectName (cx_tree cx) = ''pr''"
    "parse_sources demo_api cx w0 = Inr w" "interface_tasks (cx_tree cx) ''pr'' = Inr ts"
    "run_order demo_api cx ts [0..<length ts] w = Inr w'"
    "run_task demo_api cx Task_MainInterfacePCH w' = Inr (v, o')"
    "tree_components (cx_tree cx) ''pr'' = [c]" "pn_sourceFiles (snd (snd c)) = [f]" "eg_tu_name demo_api f = ''a''"
    "bw_session_interface w' = Some ()"
proof -
  obtain x where x: "demo_run = Inr x" and p: "case x of (cx, w0, w, ts, w', v) \<Rightarrow> pt_projectName (cx_tree cx) = ''pr'' \<and>
     (case tree_components (cx_tree cx) ''pr'' of
        [c] \<Rightarrow> map (\<lambda>f. eg_tu_name demo_api f) (pn_sourceFiles (snd (snd c))) = [''a'']
      | _ \<Rightarrow> False) \<and> bw_session_interface w' = Some ()"
    using demo_run_ok by (rule result_okE)
  obtain cx w0 w ts w' v where xs: "x = (cx, w0, w, ts, w', v)" by (cases x)
  obtain c where c: "tree_components (cx_tree cx) ''pr'' = [c]"
    using p by (auto simp: xs split: list.splits)
  obtain f where f: "pn_sourceFiles (snd (snd c)) = [f]" "eg_tu_name demo_api f = ''a''"
    using p by (auto simp: xs c)
  obtain o' where "cx_platform cx = demo_platform" "parse_sources demo_api cx w0 = Inr w"
    "interface_tasks (cx_tree cx) ''pr'' = Inr ts" "run_order demo_api cx ts [0..<length ts] w = Inr w'"
    "run_task demo_api cx Task_MainInterfacePCH w' = Inr (v, o')"
    using x by (auto simp: xs demo_run_def andThen_eq_Inr Let_def)
  then show ?thesis using that p c f by (simp add: xs)
qed

lemma graph_order: "graph_ok ts \<Longrightarrow> valid_order ts [0..<length ts]"
  unfolding valid_order_def graph_ok_def node_ok_def by fastforce

lemma tasks_order: "interface_tasks t p = Inr ts \<Longrightarrow> valid_order ts [0..<length ts]"
  using interface_tasks_graph [of t p] by (auto intro: graph_order)

theorem interface_build_codes_witness:
  "\<exists>cx ts w w'. run_order demo_api cx ts [0..<length ts] w = Inr w' \<and> length ts > 0 \<and>
     run_order (total_codes demo_api 0) cx ts [0..<length ts] w = Inr w'"
proof -
  obtain cx w0 w ts w' where r: "parse_sources demo_api cx w0 = Inr w" "interface_tasks (cx_tree cx) ''pr'' = Inr ts"
    "run_order demo_api cx ts [0..<length ts] w = Inr w'"
    by (rule demo_stages)
  have "ts \<noteq> []" using interface_tasks_graph [of "cx_tree cx" "''pr''"] r(2) by (auto simp: is_at_def)
  with interface_build_codes [OF demo_stash_laws r(1,2) tasks_order [OF r(2)], of 0] r(3) show ?thesis by auto
qed

text \<open>A translation unit of the component in the analysis database, of the source file of the workspace.\<close>

definition demo_impl :: "(unit, string) impl_api" where
  "demo_impl = \<lparr>ir_open = (\<lambda>p fs. Inr ()), ir_translationUnits = (\<lambda>s. [''a'']), ir_tu_name = (\<lambda>u. u),
     ir_tu_coordinator = (\<lambda>u. ''co''), ir_tu_host = (\<lambda>u. ''ho''), ir_networkAnalysis = (\<lambda>s t. Inr ()),
     ir_structures = (\<lambda>s t. Inr ''structures''), ir_netstate = (\<lambda>s t. Inr ''netstate''),
     ir_runtime = (\<lambda>s t. Inr ''runtime''), ir_configIO = (\<lambda>s t. Inr ''config''), ir_python = (\<lambda>s t. Inr ''python''),
     ir_unrealInterface = (\<lambda>s t. Inr ''interface''), ir_unreal = (\<lambda>s t. Inr ''unreal''),
     ir_component = (\<lambda>s t ty. Inr ty), ir_implementation = (\<lambda>s t u is. Inr u)\<rparr>"

theorem implementation_build_codes_witness:
  "\<exists>ic w. pt_projectName (cx_tree (ic_config ic)) = ''pr'' \<and>
     run_impl_task (total_codes demo_api 0) demo_impl ic () (Task_Private ''a'') w =
       run_impl_task demo_api demo_impl ic () (Task_Private ''a'') w"
proof -
  obtain cx w0 w ts w' c f where name: "pt_projectName (cx_tree cx) = ''pr''"
    and r: "parse_sources demo_api cx w0 = Inr w" "interface_tasks (cx_tree cx) ''pr'' = Inr ts"
    "run_order demo_api cx ts [0..<length ts] w = Inr w'"
    and c: "tree_components (cx_tree cx) ''pr'' = [c]"
    and f: "pn_sourceFiles (snd (snd c)) = [f]" "eg_tu_name demo_api f = ''a''" "bw_session_interface w' = Some ()"
    by (rule demo_stages)
  let ?ic = "\<lparr>ic_config = cx, ic_component = c, ic_defines = ''co_ho'', ic_binaryPath = [''bin'']\<rparr>"
  have "eg_getTU demo_api () f = Some f" by (simp add: demo_api_def)
  then have "unit_built demo_api w' {c} ''a''" using f by (auto simp: unit_built_def)
  then have t: "task_prepared demo_api demo_impl w' c (set (tree_components (cx_tree cx) ''pr'')) (Task_Private ''a'')"
    by (simp add: task_prepared_def demo_impl_def)
  have "run_impl_task (total_codes demo_api 0) demo_impl ?ic () (Task_Private ''a'') w' =
      run_impl_task demo_api demo_impl ?ic () (Task_Private ''a'') w'"
    by (rule implementation_build_codes [OF demo_stash_laws r(1,2) tasks_order [OF r(2)] _ r(3) _ _ _ _ t])
      (use c in \<open>auto simp: same_project_def\<close>)
  then show ?thesis using name by (intro exI [of _ ?ic] exI [of _ w']) simp
qed


theorem expand_written_text_witness:
  "Environment_expand demo_platform demo_environment (segments_text [Ref ''EG'', Lit ''/h'']) = Inr ''eg/h'' \<and>
   segments_text [Ref ''EG'', Lit ''/h''] = ''${EG}/h''"
proof -
  have "list_all segment_ok [Ref ''EG'', Lit ''/h'']" by simp
  from expand_written_text [OF this, of demo_platform demo_environment] show ?thesis
    by (simp add: segments_text_def Environment_get_def demo_environment_def demo_platform_def Let_def)
qed

end
