(* ===== verification/Program_Session.thy ===== *)
theory Program_Session
  imports Project_Tree
begin

text \<open>
  What the generators ask of the analysis database of a program.  The classes \<open>eg::ReadSession\<close>,
  \<open>eg::Layout\<close>, \<open>eg::interface::Context\<close> and \<open>eg::concrete::Action\<close> of the compiler are not in the
  repository: a \<open>read_session\<close> has a field for each of their functions that is called, over the types of
  contexts, actions, buffers and data members.
\<close>

datatype root_type = eInterfaceRoot | eMegaRoot | eCoordinator | eHostName | eProjectName | eOtherRoot

text \<open>The allocator that the parent of an action has for it.\<close>

datatype allocator = NothingAllocator | SingletonAllocator | RangeAllocator | OtherAllocator

text \<open>The classes of contexts that the generators tell apart, in the order in which they ask.\<close>

datatype context_class =
  AbstractContext | EventContext | FunctionContext | ActionContext | ObjectContext | LinkContext | OtherContext

text \<open>The tree of the instances: the elements below an action.  A dimension comes with its index, its data
  member and, when it is the generated state dimension of an action, that action.\<close>

datatype ('a, 'm) celement =
    CAction 'a "('a, 'm) celement list"
  | CDimension int 'm "'a option"
  | COther

text \<open>The tree of the interface: the elements below a context, of which only contexts are looked at.\<close>

datatype 'c ielement = IContext 'c "'c ielement list" | IOther

text \<open>
  \<^item> \<open>rs_rootType\<close>: the type of a context that is a \<open>Root\<close>;
  \<^item> \<open>rs_contextChain\<close>: a context and, in turn, the parents that are contexts; \<open>rs_actionChain\<close>: the same for
    actions;
  \<^item> \<open>rs_instances\<close>: the instances of the derivation analysis, with the action of those that are one;
  \<^item> \<open>rs_memberType\<close>, \<open>rs_allocation\<close>, \<open>rs_deallocation\<close>, \<open>rs_encode\<close>, \<open>rs_decode\<close>, \<open>rs_defaultPrinter\<close>: the
    texts of the generators of the compiler for a data member and an instance;
  \<^item> \<open>rs_memberDimension\<close>: the index of the instance dimension of a member; \<open>rs_referenceMember\<close>: the member of
    the reference dimension of an action;
  \<^item> \<open>rs_includeGuard\<close>, \<open>rs_line\<close>, \<open>rs_EG_INSTANCE\<close>: the text of \<open>generateIncludeGuard\<close>, of \<open>pszLine\<close> and of the name
    of the type of instances.
\<close>

record ('c, 'a, 'b, 'm) read_session =
  rs_treeRoot :: 'c
  rs_interfaceTree :: "'c ielement list"
  rs_instanceRoot :: 'a
  rs_instanceTree :: "('a, 'm) celement list"
  rs_buffers :: "'b list"
  rs_bufferIndex :: "'b \<Rightarrow> int"
  rs_bufferAction :: "'b \<Rightarrow> 'a"
  rs_bufferMembers :: "'b \<Rightarrow> 'm list"
  rs_bufferSize :: "'b \<Rightarrow> nat"
  rs_bufferSimple :: "'b \<Rightarrow> bool"
  rs_bufferVariable :: "'b \<Rightarrow> string"
  rs_bufferType :: "'b \<Rightarrow> string"
  rs_memberIndex :: "'m \<Rightarrow> int"
  rs_memberBuffer :: "'m \<Rightarrow> 'b"
  rs_memberName :: "'m \<Rightarrow> string"
  rs_memberType :: "'m \<Rightarrow> string"
  rs_memberDimension :: "'m \<Rightarrow> int"
  rs_allocation :: "'m \<Rightarrow> string \<Rightarrow> string"
  rs_deallocation :: "'m \<Rightarrow> string \<Rightarrow> string"
  rs_encode :: "'m \<Rightarrow> string \<Rightarrow> string"
  rs_decode :: "'m \<Rightarrow> string \<Rightarrow> string"
  rs_defaultPrinter :: "'m \<Rightarrow> string \<Rightarrow> string"
  rs_actions :: "'a list"
  rs_actionIndex :: "'a \<Rightarrow> int"
  rs_actionName :: "'a \<Rightarrow> string"
  rs_actionContext :: "'a \<Rightarrow> 'c"
  rs_actionChain :: "'a \<Rightarrow> 'a list"
  rs_actionParent :: "'a \<Rightarrow> bool"
  rs_referenceMember :: "'a \<Rightarrow> 'm option"
  rs_allocator :: "'a \<Rightarrow> allocator option"
  rs_identifier :: "'c \<Rightarrow> string"
  rs_staticType :: "'c \<Rightarrow> string"
  rs_rootType :: "'c \<Rightarrow> root_type option"
  rs_isLink :: "'c \<Rightarrow> bool"
  rs_class :: "'c \<Rightarrow> context_class"
  rs_hasDefinition :: "'c \<Rightarrow> bool"
  rs_isExecutable :: "'c \<Rightarrow> bool"
  rs_isMainExecutable :: "'c \<Rightarrow> bool"
  rs_contextChain :: "'c \<Rightarrow> 'c list"
  rs_childContexts :: "'c \<Rightarrow> 'c list"
  rs_childContext :: "'c \<Rightarrow> string \<Rightarrow> 'c option"
  rs_coordinatorHostname :: "'c \<Rightarrow> ('c \<times> 'c) option"
  rs_instances :: "'c \<Rightarrow> 'a option list"
  rs_includeGuard :: "string \<Rightarrow> string"
  rs_line :: string
  rs_EG_INSTANCE :: string

section \<open>Text\<close>

text \<open>Numbers as \<open>operator<<\<close> prints them.\<close>

fun dec_nat :: "nat \<Rightarrow> string" where
  "dec_nat n = (if n < 10 then [] else dec_nat (n div 10)) @ [char_of (48 + n mod 10)]"

declare dec_nat.simps [simp del]

definition dec :: "int \<Rightarrow> string" where
  "dec i = (if i < 0 then CHR ''-'' # dec_nat (nat (- i)) else dec_nat (nat i))"

definition quoted :: "string \<Rightarrow> string" where
  "quoted s = CHR 0x22 # s @ [CHR 0x22]"

definition line :: "string \<Rightarrow> string" where
  "line s = s @ ''\<newline>''"

end
