(* ===== verification/Network_Analysis.thy ===== *)
theory Network_Analysis
  imports Program_Session
begin

text \<open>
  \<open>NetworkAnalysis\<close> of \<open>src/api/egcomponent/generator.hpp\<close> and \<open>src/src/generators/generator.cpp\<close>: how the
  component that is being built reaches the buffers of its program, and the texts of an access to a
  data member.
\<close>

datatype buffer_relation = eComponent | eProcess | ePlanet

record 'a host_structures =
  hs_strWriteSetName :: string
  hs_strIdentityEnumName :: string
  hs_pRoot :: 'a

text \<open>The maps are ordered by the index of a buffer or a data member, and by the path of a host.\<close>

record ('a, 'b) network_analysis =
  na_bufferHostNames :: "(int \<times> host_name) list"
  na_bufferTypes :: "(int \<times> 'b \<times> buffer_relation) list"
  na_hashBases :: "(int \<times> 32 word) list"
  na_hashTotal :: "32 word"
  na_hostStructures :: "(path \<times> 'a host_structures) list"

section \<open>Buffers\<close>

definition buffer_relation_of ::
  "('c, 'a, 'b, 'm) read_session \<Rightarrow> project_tree \<Rightarrow> 'c \<Rightarrow> 'c \<Rightarrow> buffer_relation result" where
  "buffer_relation_of ss t pCoordinatorRoot pHostNameRoot =
     andThen (getCoordinatorName t) (\<lambda>c.
       if rs_identifier ss pCoordinatorRoot = c
       then andThen (getHostName t) (\<lambda>h.
              Inr (if rs_identifier ss pHostNameRoot = h then eComponent else eProcess))
       else Inr ePlanet)"

text \<open>\<open>operator[]\<close>: a buffer with the index of one that is there replaces its relation only.\<close>

definition set_relation ::
  "('c, 'a, 'b, 'm) read_session \<Rightarrow> 'b \<Rightarrow> buffer_relation \<Rightarrow> (int \<times> 'b \<times> buffer_relation) list
   \<Rightarrow> (int \<times> 'b \<times> buffer_relation) list" where
  "set_relation ss b r m =
     (case map_of m (rs_bufferIndex ss b) of
        None \<Rightarrow> smap_assign (rs_bufferIndex ss b) (b, r) m
      | Some (b0, _) \<Rightarrow> smap_assign (rs_bufferIndex ss b) (b0, r) m)"

fun getBufferTypes ::
  "('c, 'a, 'b, 'm) read_session \<Rightarrow> project_tree \<Rightarrow> 'b list \<Rightarrow> (int \<times> 'b \<times> buffer_relation) list
   \<Rightarrow> (int \<times> 'b \<times> buffer_relation) list result" where
  "getBufferTypes ss t [] m = Inr m"
| "getBufferTypes ss t (b # bs) m =
     (case rs_coordinatorHostname ss (rs_actionContext ss (rs_bufferAction ss b)) of
        None \<Rightarrow> Inl (Rte ''bSuccess'')
      | Some (c, h) \<Rightarrow>
          andThen (buffer_relation_of ss t c h) (\<lambda>r. getBufferTypes ss t bs (set_relation ss b r m)))"

definition getBufferRelation ::
  "('c, 'a, 'b, 'm) read_session \<Rightarrow> ('a, 'b) network_analysis \<Rightarrow> 'b \<Rightarrow> buffer_relation result" where
  "getBufferRelation ss na b =
     (case map_of (na_bufferTypes na) (rs_bufferIndex ss b) of
        None \<Rightarrow> Inl (Rte ''iFind != m_bufferTypes.end()'')
      | Some (_, r) \<Rightarrow> Inr r)"

definition isBufferInProcess ::
  "('c, 'a, 'b, 'm) read_session \<Rightarrow> ('a, 'b) network_analysis \<Rightarrow> 'b \<Rightarrow> bool result" where
  "isBufferInProcess ss na b =
     andThen (getBufferRelation ss na b) (\<lambda>r.
       Inr (case r of eComponent \<Rightarrow> True | eProcess \<Rightarrow> rs_bufferSimple ss b | ePlanet \<Rightarrow> False))"

section \<open>The bits of the data members\<close>

text \<open>A buffer whose members have bits: each member gets as many as the buffer has instances, in a sum
  kept in a \<open>std::int32_t\<close>.\<close>

definition hashed :: "('c, 'a, 'b, 'm) read_session \<Rightarrow> 'b \<Rightarrow> buffer_relation \<Rightarrow> bool" where
  "hashed ss b r = (case r of eComponent \<Rightarrow> False | eProcess \<Rightarrow> \<not> rs_bufferSimple ss b | ePlanet \<Rightarrow> True)"

definition add_hash_base ::
  "('c, 'a, 'b, 'm) read_session \<Rightarrow> 'b \<Rightarrow> 'm \<Rightarrow> (int \<times> 32 word) list \<times> 32 word \<Rightarrow> (int \<times> 32 word) list \<times> 32 word" where
  "add_hash_base ss b d s =
     (smap_insert (rs_memberIndex ss d) (snd s) (fst s), snd s + of_nat (rs_bufferSize ss b))"

definition getDataHashBases ::
  "('c, 'a, 'b, 'm) read_session \<Rightarrow> (int \<times> 'b \<times> buffer_relation) list \<Rightarrow> (int \<times> 32 word) list \<times> 32 word" where
  "getDataHashBases ss types =
     fold (\<lambda>(_, b, r) s. if hashed ss b r then fold (add_hash_base ss b) (rs_bufferMembers ss b) s else s)
       types ([], 0)"

definition getDataMemberReadHashBase ::
  "('c, 'a, 'b, 'm) read_session \<Rightarrow> ('a, 'b) network_analysis \<Rightarrow> 'm \<Rightarrow> 32 word result" where
  "getDataMemberReadHashBase ss na d =
     (case map_of (na_hashBases na) (rs_memberIndex ss d) of
        None \<Rightarrow> Inl (Rte ''iFind != m_hashBases.end()'')
      | Some h \<Rightarrow> Inr h)"

text \<open>As a \<open>std::size_t\<close>: the sign of the sum is extended.\<close>

definition getReadBitSetSize :: "('a, 'b) network_analysis \<Rightarrow> 64 word" where
  "getReadBitSetSize na = scast (na_hashTotal na)"

section \<open>Hosts\<close>

definition verify_root :: "('c, 'a, 'b, 'm) read_session \<Rightarrow> root_type \<Rightarrow> 'c option \<Rightarrow> 'c result" where
  "verify_root ss ty c =
     (case c of
        None \<Rightarrow> Inl (Rte ''dynamic_cast'')
      | Some d \<Rightarrow> if rs_rootType ss d = Some ty then Inr d else Inl (Rte ''getRootType()''))"

definition mega_root :: "('c, 'a, 'b, 'm) read_session \<Rightarrow> 'c result" where
  "mega_root ss =
     andThen (verify_root ss eInterfaceRoot (Some (rs_treeRoot ss))) (\<lambda>pRootRoot.
       case rs_childContexts ss pRootRoot of
         [r] \<Rightarrow> verify_root ss eMegaRoot (Some r)
       | _ \<Rightarrow> Inl (Rte ''roots.size() == 1U''))"

definition host_root_action :: "('c, 'a, 'b, 'm) read_session \<Rightarrow> 'c \<Rightarrow> 'a result" where
  "host_root_action ss pHostNameContext =
     (case rs_instances ss pHostNameContext of
        [Some a] \<Rightarrow> Inr a
      | _ \<Rightarrow> Inl (Rte ''instances.size() == 1U''))"

definition structures_of :: "string \<Rightarrow> string \<Rightarrow> 'a \<Rightarrow> 'a host_structures" where
  "structures_of c h a =
     \<lparr>hs_strWriteSetName = ''g_'' @ c @ ''_'' @ h @ ''_writes'', hs_strIdentityEnumName = ''e_'' @ c @ ''_'' @ h, hs_pRoot = a\<rparr>"

text \<open>The loop over the projects of a host, which ends with the project of the tree.\<close>

fun host_projects ::
  "('c, 'a, 'b, 'm) read_session \<Rightarrow> project_tree \<Rightarrow> coordinator_dir \<Rightarrow> host_name \<Rightarrow> 'c \<Rightarrow> project_name list
   \<Rightarrow> (path \<times> 'a host_structures) list \<Rightarrow> ((path \<times> 'a host_structures) list \<times> bool) result" where
  "host_projects ss t c h ctx [] m = Inr (m, False)"
| "host_projects ss t c h ctx (p # ps) m =
     andThen (verify_root ss eProjectName (rs_childContext ss ctx (ProjectName_name p))) (\<lambda>_.
     andThen (host_root_action ss ctx) (\<lambda>pProjectRoot.
       if ProjectName_name p = pt_projectName t
       then andThen (getCoordinatorName t) (\<lambda>strCoordinator.
            andThen (getHostName t) (\<lambda>strHost.
              Inr (if strCoordinator = Coordinator_name c \<and> strHost = HostName_name h then m
                   else smap_insert (hn_path h)
                     (structures_of (Coordinator_name c) (HostName_name h) pProjectRoot) m, True)))
       else host_projects ss t c h ctx ps m))"

type_synonym ('c, 'a) host_maps = "('c \<times> host_name) list \<times> (path \<times> 'a host_structures) list"

text \<open>\<open>hostNameMap\<close>, by the pointer of a context: \<open>insert\<close> keeps an entry.\<close>

definition insert_hostName :: "'c \<Rightarrow> host_name \<Rightarrow> ('c \<times> host_name) list \<Rightarrow> ('c \<times> host_name) list" where
  "insert_hostName ctx h m = (if ctx \<in> fst ` set m then m else m @ [(ctx, h)])"

fun coordinator_hosts ::
  "('c, 'a, 'b, 'm) read_session \<Rightarrow> project_tree \<Rightarrow> coordinator_dir \<Rightarrow> 'c \<Rightarrow> host_name list \<Rightarrow> ('c, 'a) host_maps
   \<Rightarrow> ('c, 'a) host_maps result" where
  "coordinator_hosts ss t c cctx [] s = Inr s"
| "coordinator_hosts ss t c cctx (h # hs) (names, structures) =
     andThen (verify_root ss eHostName (rs_childContext ss cctx (HostName_name h))) (\<lambda>ctx.
     andThen (host_projects ss t c h ctx (hn_projects h) structures) (\<lambda>(structures', bFoundHostNameProject).
     andThen (verify_rte bFoundHostNameProject ''bFoundHostNameProject'') (\<lambda>_.
       coordinator_hosts ss t c cctx hs (insert_hostName ctx h names, structures'))))"

fun tree_hosts ::
  "('c, 'a, 'b, 'm) read_session \<Rightarrow> project_tree \<Rightarrow> 'c \<Rightarrow> coordinator_dir list \<Rightarrow> ('c, 'a) host_maps
   \<Rightarrow> ('c, 'a) host_maps result" where
  "tree_hosts ss t root [] s = Inr s"
| "tree_hosts ss t root (c # cs) s =
     andThen (verify_root ss eCoordinator (rs_childContext ss root (Coordinator_name c))) (\<lambda>cctx.
     andThen (coordinator_hosts ss t c cctx (co_hostNames c) s) (\<lambda>s'.
       tree_hosts ss t root cs s'))"

text \<open>The host of a buffer: the nearest context above its action that is the root of a host.\<close>

definition buffer_host ::
  "('c, 'a, 'b, 'm) read_session \<Rightarrow> ('c \<times> host_name) list \<Rightarrow> 'b \<Rightarrow> host_name result" where
  "buffer_host ss names b =
     (case find (\<lambda>c. rs_rootType ss c = Some eHostName) (rs_contextChain ss (rs_actionContext ss (rs_bufferAction ss b))) of
        None \<Rightarrow> Inl (Rte ''bFound'')
      | Some ctx \<Rightarrow>
          (case map_of names ctx of
             None \<Rightarrow> Inl (Rte ''iFind != hostNameMap.end()'')
           | Some h \<Rightarrow> Inr h))"

fun buffer_hosts ::
  "('c, 'a, 'b, 'm) read_session \<Rightarrow> ('c \<times> host_name) list \<Rightarrow> 'b list \<Rightarrow> ('a, 'b) network_analysis
   \<Rightarrow> ('a, 'b) network_analysis result" where
  "buffer_hosts ss names [] na = Inr na"
| "buffer_hosts ss names (b # bs) na =
     andThen (buffer_host ss names b) (\<lambda>h.
       (let na' = na\<lparr>na_bufferHostNames := smap_insert (rs_bufferIndex ss b) h (na_bufferHostNames na)\<rparr> in
        andThen (getBufferRelation ss na' b) (\<lambda>r.
        andThen (if r = eComponent then Inr ()
                 else case map_of (na_bufferHostNames na') (rs_bufferIndex ss b) of
                        None \<Rightarrow> Inl (Rte ''iFind != m_bufferHostNames.end()'')
                      | Some h' \<Rightarrow>
                          verify_rte (map_of (na_hostStructures na') (hn_path h') \<noteq> None)
                            ''Could not find host structures '') (\<lambda>_.
          buffer_hosts ss names bs na'))))"

definition getHostStructures ::
  "('c, 'a, 'b, 'm) read_session \<Rightarrow> project_tree \<Rightarrow> ('a, 'b) network_analysis \<Rightarrow> ('a, 'b) network_analysis result" where
  "getHostStructures ss t na =
     andThen (mega_root ss) (\<lambda>root.
     andThen (tree_hosts ss t root (pt_coordinators t) ([], na_hostStructures na)) (\<lambda>(names, structures).
       buffer_hosts ss names (rs_buffers ss) (na\<lparr>na_hostStructures := structures\<rparr>)))"

definition NetworkAnalysis_ctor ::
  "('c, 'a, 'b, 'm) read_session \<Rightarrow> project_tree \<Rightarrow> ('a, 'b) network_analysis result" where
  "NetworkAnalysis_ctor ss t =
     andThen (getBufferTypes ss t (rs_buffers ss) []) (\<lambda>types.
       (let (bases, total) = getDataHashBases ss types in
        getHostStructures ss t
          \<lparr>na_bufferHostNames = [], na_bufferTypes = types, na_hashBases = bases, na_hashTotal = total,
           na_hostStructures = []\<rparr>))"

definition getHostStructures_buffer ::
  "('c, 'a, 'b, 'm) read_session \<Rightarrow> ('a, 'b) network_analysis \<Rightarrow> 'b \<Rightarrow> 'a host_structures result" where
  "getHostStructures_buffer ss na b =
     (case map_of (na_bufferHostNames na) (rs_bufferIndex ss b) of
        None \<Rightarrow> Inl (Rte ''iFind != m_bufferHostNames.end()'')
      | Some h \<Rightarrow>
          (case map_of (na_hostStructures na) (hn_path h) of
             None \<Rightarrow> Inl (Rte ''iFind2 != m_hostStructures.end()'')
           | Some s \<Rightarrow> Inr s))"

text \<open>The structures of the host that an action belongs to, when it is not the own.\<close>

fun host_of_chain ::
  "('c, 'a, 'b, 'm) read_session \<Rightarrow> ('a, 'b) network_analysis \<Rightarrow> 'a list \<Rightarrow> 'a host_structures option" where
  "host_of_chain ss na [] = None"
| "host_of_chain ss na (a # as) =
     (if rs_rootType ss (rs_actionContext ss a) = Some eHostName
      then (case find (\<lambda>s. hs_pRoot s = a) (map snd (na_hostStructures na)) of
              Some s \<Rightarrow> Some s
            | None \<Rightarrow> host_of_chain ss na as)
      else host_of_chain ss na as)"

definition getHostStructures_action ::
  "('c, 'a, 'b, 'm) read_session \<Rightarrow> ('a, 'b) network_analysis \<Rightarrow> 'a \<Rightarrow> 'a host_structures option" where
  "getHostStructures_action ss na a = host_of_chain ss na (rs_actionChain ss a)"

section \<open>The texts of an access\<close>

definition member_text :: "('c, 'a, 'b, 'm) read_session \<Rightarrow> 'm \<Rightarrow> string \<Rightarrow> string" where
  "member_text ss d i = rs_bufferVariable ss (rs_memberBuffer ss d) @ ''[ '' @ i @ '' ].'' @ rs_memberName ss d"

definition MegastructurePrinter_print :: "('c, 'a, 'b, 'm) read_session \<Rightarrow> 'm \<Rightarrow> string \<Rightarrow> string" where
  "MegastructurePrinter_print ss d i = member_text ss d i"

text \<open>The parts that the reader and the writer print alike: the type, the cycle and the bit of the lock
  of the host, the type of its root, and, for members with bits, their first one and the dimension.\<close>

definition lock_arguments :: "('c, 'a, 'b, 'm) read_session \<Rightarrow> 'm \<Rightarrow> 'a host_structures \<Rightarrow> string \<Rightarrow> string" where
  "lock_arguments ss d hs access =
     rs_memberType ss d @ '', '' @ hs_strIdentityEnumName hs @ ''_cycle , '' @ hs_strIdentityEnumName hs @ access @
     '', '' @ dec (rs_actionIndex ss (hs_pRoot hs))"

definition hash_arguments :: "('c, 'a, 'b, 'm) read_session \<Rightarrow> 'm \<Rightarrow> 32 word \<Rightarrow> string" where
  "hash_arguments ss d h = '', '' @ dec (sint h) @ '', '' @ dec (rs_memberDimension ss d)"

definition MegastructureReader_print ::
  "('c, 'a, 'b, 'm) read_session \<Rightarrow> ('a, 'b) network_analysis \<Rightarrow> 'm \<Rightarrow> string \<Rightarrow> string result" where
  "MegastructureReader_print ss na d i =
     (let b = rs_memberBuffer ss d in
      andThen (getBufferRelation ss na b) (\<lambda>r.
        case r of
          eComponent \<Rightarrow> Inr (member_text ss d i)
        | eProcess \<Rightarrow>
            andThen (getHostStructures_buffer ss na b) (\<lambda>hs.
              if rs_bufferSimple ss b
              then Inr (''eg::readlock< '' @ lock_arguments ss d hs ''_read'' @ '' >( '' @ member_text ss d i @ '' )'')
              else andThen (getDataMemberReadHashBase ss na d) (\<lambda>iHashBash.
                Inr (''eg::readlock< '' @ lock_arguments ss d hs ''_read'' @ hash_arguments ss d iHashBash @
                     '' >( '' @ i @ '', '' @ member_text ss d i @ '' )'')))
        | ePlanet \<Rightarrow>
            andThen (getHostStructures_buffer ss na b) (\<lambda>hs.
            andThen (getDataMemberReadHashBase ss na d) (\<lambda>iHashBash.
              Inr (''eg::readlock< '' @ lock_arguments ss d hs ''_read'' @ hash_arguments ss d iHashBash @
                   '' >( '' @ i @ '', '' @ member_text ss d i @ '' )'')))))"

definition MegastructureWriter_print ::
  "('c, 'a, 'b, 'm) read_session \<Rightarrow> ('a, 'b) network_analysis \<Rightarrow> 'm \<Rightarrow> string \<Rightarrow> string result" where
  "MegastructureWriter_print ss na d i =
     (let b = rs_memberBuffer ss d in
      andThen (getBufferRelation ss na b) (\<lambda>r.
        case r of
          eComponent \<Rightarrow> Inr (member_text ss d i)
        | eProcess \<Rightarrow>
            andThen (getHostStructures_buffer ss na b) (\<lambda>hs.
              if rs_bufferSimple ss b
              then Inr (''eg::writelock< '' @ lock_arguments ss d hs ''_write'' @ '' >( '' @ member_text ss d i @ '' )'')
              else andThen (getDataMemberReadHashBase ss na d) (\<lambda>iHashBash.
                Inr (''eg::writelock< '' @ lock_arguments ss d hs ''_write'' @ hash_arguments ss d iHashBash @
                     '' >( '' @ i @ '', '' @ hs_strWriteSetName hs @ '', '' @ member_text ss d i @ '' )'')))
        | ePlanet \<Rightarrow>
            andThen (getHostStructures_buffer ss na b) (\<lambda>hs.
            andThen (getDataMemberReadHashBase ss na d) (\<lambda>iHashBash.
              Inr (''eg::writelock< '' @ lock_arguments ss d hs ''_write'' @ hash_arguments ss d iHashBash @
                   '' >( '' @ i @ '', '' @ hs_strWriteSetName hs @ '', '' @ member_text ss d i @ '' )'')))))"

end
