(* ===== verification/Component_Generator.thy ===== *)
theory Component_Generator
  imports Network_Analysis Project_Paths
begin

text \<open>
  \<open>generate_eg_component\<close> of \<open>src/src/generators/generator.cpp\<close>: the source of a component.  A function that
  writes to a stream returns the text; one that can throw returns a \<open>string result\<close>.  The switches over the
  types of a program are written by recursion over the tree of its instances.
\<close>

text \<open>A loop whose body writes and may throw.\<close>

fun write_all :: "('x \<Rightarrow> string result) \<Rightarrow> 'x list \<Rightarrow> string result" where
  "write_all f [] = Inr []"
| "write_all f (x # xs) = andThen (f x) (\<lambda>s. andThen (write_all f xs) (\<lambda>rest. Inr (s @ rest)))"

text \<open>\<open>ComponentType\<close> of \<open>generator.hpp\<close>.\<close>

datatype component_type = eComponent_Basic | eComponent_Python | eComponent_Unreal | eComponent_Geometry

section \<open>Switches over types\<close>

definition generateRuntimeExterns :: "('c, 'a, 'b, 'm) read_session \<Rightarrow> string" where
  \<open>generateRuntimeExterns ss =
     concat (map (\<lambda>a.
       (if rs_actionParent ss a
        then
        ''extern '' @ rs_staticType ss (rs_actionContext ss a) @ '' '' @ rs_actionName ss a @ ''_starter( '' @
        rs_EG_INSTANCE ss @ '' );\<newline>'' @ ''extern void '' @ rs_actionName ss a @ ''_stopper( '' @
        rs_EG_INSTANCE ss @ '' );\<newline>''
        else []) @
       (if rs_isLink ss (rs_actionContext ss a)
        then
        ''extern void '' @ rs_actionName ss a @ ''_breaker( '' @ rs_EG_INSTANCE ss @ '' );\<newline>''
        else [])) (rs_actions ss))\<close>

fun recurseEncodeDecode :: "('c, 'a, 'b, 'm) read_session \<Rightarrow> 'c ielement list \<Rightarrow> string" where
  "recurseEncodeDecode ss [] = []"
| "recurseEncodeDecode ss (IOther # es) = recurseEncodeDecode ss es"
| \<open>recurseEncodeDecode ss (IContext c cs # es) =
     ''    template<> inline void encode( Encoder& encoder, const '' @ rs_staticType ss c @
     ''& value ){ encode( encoder, value.data ); }\<newline>'' @
     ''    template<> inline void decode( Decoder& decoder, '' @ rs_staticType ss c @
     ''& value )      { decode( decoder, value.data ); }\<newline>''
     @ recurseEncodeDecode ss cs @ recurseEncodeDecode ss es\<close>

text \<open>A line of a switch: the label, a statement, and the name of the action or data member.\<close>

definition encode_action :: "('c, 'a, 'b, 'm) read_session \<Rightarrow> 'a \<Rightarrow> string" where
  \<open>encode_action ss a =
     ''        case '' @ dec (rs_actionIndex ss a) @ '': '' @ '' break; //'' @ rs_actionName ss a @
     ''\<newline>''\<close>

definition encode_member :: "('c, 'a, 'b, 'm) read_session \<Rightarrow> int \<Rightarrow> 'm \<Rightarrow> string" where
  \<open>encode_member ss i m =
     ''        case '' @ dec i @ '': '' @ rs_encode ss m ''uiInstance'' @ '' break; //'' @ rs_memberName ss m @
     ''\<newline>''\<close>

fun recurseEncode_children :: "('c, 'a, 'b, 'm) read_session \<Rightarrow> ('a, 'm) celement list \<Rightarrow> string" where
  "recurseEncode_children ss [] = []"
| "recurseEncode_children ss (COther # es) = recurseEncode_children ss es"
| "recurseEncode_children ss (CDimension i m st # es) = encode_member ss i m @ recurseEncode_children ss es"
| "recurseEncode_children ss (CAction a cs # es) =
     encode_action ss a @ recurseEncode_children ss cs @ recurseEncode_children ss es"

definition recurseEncode :: "('c, 'a, 'b, 'm) read_session \<Rightarrow> 'a \<Rightarrow> ('a, 'm) celement list \<Rightarrow> string" where
  "recurseEncode ss a es = encode_action ss a @ recurseEncode_children ss es"

definition decode_action :: "('c, 'a, 'b, 'm) read_session \<Rightarrow> 'a \<Rightarrow> string" where
  \<open>decode_action ss a =
     ''        case '' @ dec (rs_actionIndex ss a) @ '': '' @ ''break; //'' @ rs_actionName ss a @
     ''\<newline>''\<close>

definition decode_member :: "('c, 'a, 'b, 'm) read_session \<Rightarrow> int \<Rightarrow> 'm \<Rightarrow> string" where
  \<open>decode_member ss i m =
     ''        case '' @ dec i @ '': '' @ rs_decode ss m ''uiInstance'' @ '' break; //'' @ rs_memberName ss m @
     ''\<newline>''\<close>

fun recurseDecode_children :: "('c, 'a, 'b, 'm) read_session \<Rightarrow> ('a, 'm) celement list \<Rightarrow> string" where
  "recurseDecode_children ss [] = []"
| "recurseDecode_children ss (COther # es) = recurseDecode_children ss es"
| "recurseDecode_children ss (CDimension i m st # es) = decode_member ss i m @ recurseDecode_children ss es"
| "recurseDecode_children ss (CAction a cs # es) =
     decode_action ss a @ recurseDecode_children ss cs @ recurseDecode_children ss es"

definition recurseDecode :: "('c, 'a, 'b, 'm) read_session \<Rightarrow> 'a \<Rightarrow> ('a, 'm) celement list \<Rightarrow> string" where
  "recurseDecode ss a es = decode_action ss a @ recurseDecode_children ss es"

section \<open>Write requests\<close>

text \<open>The switch over the states of an action, with the texts of its state and of its reference.\<close>

definition state_switch :: "('c, 'a, 'b, 'm) read_session \<Rightarrow> 'a \<Rightarrow> string \<Rightarrow> string \<Rightarrow> string" where
  \<open>state_switch ss a st ref =
     ''                    switch( previousState )\<newline>'' @ ''                    {\<newline>'' @
     ''                        case eg::action_stopped: \<newline>'' @ ''                            switch( '' @
     st @ '' )\<newline>'' @ ''                            {\<newline>'' @
     ''                                case eg::action_stopped:      break;\<newline>''
     @ (if rs_hasDefinition ss (rs_actionContext ss a)
        then
        ''                                case eg::action_running:      ::eg::Scheduler::call( '' @ ref @
        '', &'' @ rs_actionName ss a @ ''_stopper ); break;\<newline>'' @
        ''                                case eg::action_paused:       ::eg::Scheduler::call( '' @ ref @
        '', &'' @ rs_actionName ss a @ ''_stopper );\<newline>'' @
        ''                                                              ::eg::Scheduler::pause_ref( '' @ ref @
        ''.data ); break;\<newline>''
        else
        ''                                case eg::action_running:      ::eg::Scheduler::allocated_ref( '' @ ref @
        ''.data, &'' @ rs_actionName ss a @ ''_stopper ); break;\<newline>'' @
        ''                                case eg::action_paused:       ::eg::Scheduler::allocated_ref( '' @ ref @
        ''.data, &'' @ rs_actionName ss a @ ''_stopper );\<newline>'' @
        ''                                                              ::eg::Scheduler::pause_ref( '' @ ref @
        ''.data ); break;\<newline>'')
     @
     ''                                case eg::TOTAL_ACTION_STATES:\<newline>'' @
     ''                                    break;\<newline>'' @ ''                            }\<newline>'' @
     ''                            break;\<newline>'' @
     ''                        case eg::action_running: \<newline>'' @ ''                            switch( '' @
     st @ '' )\<newline>'' @ ''                            {\<newline>'' @
     ''                                case eg::action_stopped:      ::eg::Scheduler::stopperStopped( '' @ ref @
     ''.data ); break;\<newline>'' @
     ''                                case eg::action_running:      break;\<newline>'' @
     ''                                case eg::action_paused:       ::eg::Scheduler::pause_ref( '' @ ref @
     ''.data ); break;\<newline>'' @ ''                                case eg::TOTAL_ACTION_STATES:\<newline>'' @
     ''                                    break;\<newline>'' @ ''                            }\<newline>'' @
     ''                            break;\<newline>'' @
     ''                        case eg::action_paused:  \<newline>'' @ ''                            switch( '' @
     st @ '' )\<newline>'' @ ''                            {\<newline>'' @
     ''                                case eg::action_stopped:      ::eg::Scheduler::stopperStopped( '' @ ref @
     ''.data ); break;\<newline>'' @
     ''                                case eg::action_running:      ::eg::Scheduler::unpause_ref( '' @ ref @
     ''.data ); break;\<newline>'' @
     ''                                case eg::action_paused:       break;\<newline>'' @
     ''                                case eg::TOTAL_ACTION_STATES:\<newline>'' @
     ''                                    break;\<newline>'' @ ''                            }\<newline>'' @
     ''                            break;\<newline>'' @
     ''                        case eg::TOTAL_ACTION_STATES:\<newline>'' @
     ''                            break;\<newline>'' @ ''                    }\<newline>''\<close>

text \<open>What the switch of an action's state needs of the kind of the action and of its allocator.\<close>

definition switchable :: "context_class \<Rightarrow> allocator \<Rightarrow> unit result" where
  "switchable k al =
     (case k of
        AbstractContext \<Rightarrow> Inl (Rte ''Invalid attempt to invoke abstract'')
      | EventContext \<Rightarrow>
          (case al of
             NothingAllocator \<Rightarrow> Inl (Rte ''Unreachable'')
           | SingletonAllocator \<Rightarrow> Inl (Rte ''TODO - events not supported yet'')
           | RangeAllocator \<Rightarrow> Inl (Rte ''TODO - events not supported yet'')
           | OtherAllocator \<Rightarrow> Inl (Rte ''Unknown allocator type''))
      | FunctionContext \<Rightarrow> Inl (Rte ''Unreachable'')
      | _ \<Rightarrow>
          (case al of
             NothingAllocator \<Rightarrow> Inl (Rte ''Unreachable'')
           | OtherAllocator \<Rightarrow> Inl (Rte ''Unknown allocator type'')
           | _ \<Rightarrow> (if k = OtherContext then Inl (Rte ''Unknown abstract type'') else Inr ())))"

definition write_state ::
  "('c, 'a, 'b, 'm) read_session \<Rightarrow> ('a, 'b) network_analysis \<Rightarrow> 'a \<Rightarrow> int \<Rightarrow> 'm \<Rightarrow> string result" where
  \<open>write_state ss na a i m =
     (case rs_referenceMember ss a of
        None \<Rightarrow> Inl (Rte ''pReferenceDimension'')
      | Some r \<Rightarrow>
          andThen (verify_rte (rs_actionParent ss a) ''pParent'') (\<lambda>_.
          case rs_allocator ss a of
            None \<Rightarrow> Inl (Rte ''pAllocator'')
          | Some al \<Rightarrow>
              (let st = rs_defaultPrinter ss m ''typeInstance.instance'';
                   ref = rs_defaultPrinter ss r ''typeInstance.instance'' in
               andThen (isBufferInProcess ss na (rs_memberBuffer ss m)) (\<lambda>inProcess.
               andThen
                 (if inProcess
                  then andThen (switchable (rs_class ss (rs_actionContext ss a)) al) (\<lambda>_. Inr (
                  ''            case '' @ dec i @ '':\<newline>'' @ ''                {\<newline>'' @
                  ''                    const auto previousState = '' @ st @ '';\<newline>'' @
                  ''                    decode( typeInstance.type, typeInstance.instance, decoder );\<newline>''
                         @ state_switch ss a st ref))
                  else Inr (
                  ''            case '' @ dec i @ '':\<newline>'' @ ''                {\<newline>'' @
                  ''                    ERR( "Write request contained type not owned by this component" );\<newline>''))
                 (\<lambda>s. Inr (s @
                 ''                }\<newline>'' @ ''                break;\<newline>''))))))\<close>

text \<open>Only the states of actions that are executable and not the main one have a label.\<close>

fun recurseWriteRequest ::
  "('c, 'a, 'b, 'm) read_session \<Rightarrow> ('a, 'b) network_analysis \<Rightarrow> 'a \<Rightarrow> ('a, 'm) celement list \<Rightarrow> string result" where
  "recurseWriteRequest ss na pAction [] = Inr []"
| "recurseWriteRequest ss na pAction (COther # es) = recurseWriteRequest ss na pAction es"
| "recurseWriteRequest ss na pAction (CAction a cs # es) =
     andThen (recurseWriteRequest ss na a cs) (\<lambda>s.
     andThen (recurseWriteRequest ss na pAction es) (\<lambda>rest. Inr (s @ rest)))"
| "recurseWriteRequest ss na pAction (CDimension i m None # es) = recurseWriteRequest ss na pAction es"
| "recurseWriteRequest ss na pAction (CDimension i m (Some a) # es) =
     andThen (verify_rte (pAction = a) ''pAction == pStateDimension->getAction()'') (\<lambda>_.
     andThen (if rs_isExecutable ss (rs_actionContext ss a) \<and> \<not> rs_isMainExecutable ss (rs_actionContext ss a)
              then write_state ss na a i m else Inr []) (\<lambda>s.
     andThen (recurseWriteRequest ss na pAction es) (\<lambda>rest. Inr (s @ rest))))"

section \<open>The source\<close>

definition buffer_declaration :: "('c, 'a, 'b, 'm) read_session \<Rightarrow> ('a, 'b) network_analysis \<Rightarrow> 'b \<Rightarrow> string result" where
  \<open>buffer_declaration ss na b =
     andThen (isBufferInProcess ss na b) (\<lambda>inProcess. Inr (
       (if inProcess
        then
        ''megastructure::SharedBuffer* '' @ rs_bufferVariable ss b @ ''_mega;\<newline>''
        else
        ''megastructure::LocalBuffer* '' @ rs_bufferVariable ss b @ ''_mega;\<newline>'')
       @
       rs_bufferType ss b @ ''* '' @ rs_bufferVariable ss b @ '' = nullptr;\<newline>''))\<close>

definition buffer_allocation :: "('c, 'a, 'b, 'm) read_session \<Rightarrow> ('a, 'b) network_analysis \<Rightarrow> 'b \<Rightarrow> string result" where
  \<open>buffer_allocation ss na b =
     andThen (isBufferInProcess ss na b) (\<lambda>inProcess. Inr (
       (if inProcess
        then
        ''    '' @ rs_bufferVariable ss b @ ''_mega = pMemorySystem->getSharedBuffer( "'' @
        rs_bufferVariable ss b @ ''" , '' @ dec_nat (rs_bufferSize ss b) @ '' * sizeof( '' @ rs_bufferType ss b @
        '' ) );\<newline>''
        else
        ''    '' @ rs_bufferVariable ss b @ ''_mega = pMemorySystem->getLocalBuffer( "'' @
        rs_bufferVariable ss b @ ''" , '' @ dec_nat (rs_bufferSize ss b) @ '' * sizeof( '' @ rs_bufferType ss b @
        '' ) );\<newline>'')
       @
       ''    '' @ rs_bufferVariable ss b @ '' = reinterpret_cast< '' @ rs_bufferType ss b @ ''* >( '' @
       rs_bufferVariable ss b @ ''_mega->getData() );\<newline>'' @ ''    for( '' @ rs_EG_INSTANCE ss @
       '' i = 0U; i != '' @ dec_nat (rs_bufferSize ss b) @ ''; ++i )\<newline>'' @ ''    {\<newline>''
       @ concat (map (\<lambda>d. rs_allocation ss d ''i'') (rs_bufferMembers ss b)) @
       ''    }\<newline>''))\<close>

definition buffer_deallocation :: "('c, 'a, 'b, 'm) read_session \<Rightarrow> 'b \<Rightarrow> string" where
  \<open>buffer_deallocation ss b =
     ''    '' @ rs_bufferVariable ss b @ ''_mega->Release();\<newline>'' @ ''    for( '' @ rs_EG_INSTANCE ss @
     '' i = 0U; i != '' @ dec_nat (rs_bufferSize ss b) @ ''; ++i )\<newline>'' @ ''    {\<newline>''
     @ concat (map (\<lambda>d. rs_deallocation ss d ''i'') (rs_bufferMembers ss b)) @
     ''    }\<newline>''\<close>

text \<open>The functions \<open>encode\<close> and \<open>decode\<close> of the component.\<close>

definition encode_function :: "('c, 'a, 'b, 'm) read_session \<Rightarrow> string" where
  \<open>encode_function ss =
     ''\<newline>'' @ ''//encode decode\<newline>'' @
     ''void encode( std::int32_t iType, std::uint32_t uiInstance, eg::Encoder& buffer )\<newline>'' @
     ''{\<newline>'' @ ''    switch( iType )\<newline>'' @ ''    {\<newline>''
     @ recurseEncode ss (rs_instanceRoot ss) (rs_instanceTree ss) @
     ''        default: \<newline>'' @ ''        {\<newline>'' @
     ''            std::ostringstream _os;\<newline>'' @
     ''            _os << "encode error: unknown type: " << iType << " instance: " << uiInstance;\<newline>'' @
     ''            throw std::runtime_error( _os.str() );\<newline>'' @ ''        }\<newline>'' @
     ''    }\<newline>'' @ ''}\<newline>''\<close>

definition decode_function :: "('c, 'a, 'b, 'm) read_session \<Rightarrow> string" where
  \<open>decode_function ss =
     ''void decode( std::int32_t iType, std::uint32_t uiInstance, eg::Decoder& buffer )\<newline>'' @
     ''{\<newline>'' @ ''    switch( iType )\<newline>'' @ ''    {\<newline>''
     @ recurseDecode ss (rs_instanceRoot ss) (rs_instanceTree ss) @
     ''        default: \<newline>'' @ ''        {\<newline>'' @
     ''            std::ostringstream _os;\<newline>'' @
     ''            _os << "decode error: unknown type: " << iType << " instance: " << uiInstance;\<newline>'' @
     ''            throw std::runtime_error( _os.str() );\<newline>'' @ ''        }\<newline>'' @
     ''    }\<newline>'' @ ''}\<newline>'' @ ''\<newline>''\<close>

definition completeSimulationLocks_function :: "('c, 'a, 'b, 'm) read_session \<Rightarrow> 'a host_structures list \<Rightarrow> string" where
  \<open>completeSimulationLocks_function ss hss =
     ''void completeSimulationLocks( megastructure::MegaProtocol* pMegaProtocol )\<newline>'' @ ''{\<newline>''
     @ concat (map (\<lambda>hs.
     ''    if( g_hostLocks.test( '' @ hs_strIdentityEnumName hs @ ''_write ) )\<newline>'' @ ''    {\<newline>'' @
     ''        msgpack::sbuffer buffer;\<newline>'' @
     ''        msgpack::packer< msgpack::sbuffer > encoder( &buffer );\<newline>'' @
     ''        for( const eg::TypeInstance& typeInstance : '' @ hs_strWriteSetName hs @ '' )\<newline>'' @
     ''        {\<newline>'' @ ''            eg::encode( encoder, typeInstance.type );\<newline>'' @
     ''            eg::encode( encoder, typeInstance.instance );\<newline>'' @
     ''            encode( typeInstance.type, typeInstance.instance, encoder );\<newline>'' @
     ''        }\<newline>'' @ ''        pMegaProtocol->write( '' @ dec (rs_actionIndex ss (hs_pRoot hs)) @
     '', buffer.data(), buffer.size(), clock::cycle( 0 ) );\<newline>'' @ ''    }\<newline>'') hss) @
     ''\<newline>'' @ ''    g_reads.reset();\<newline>'' @ ''    g_hostLocks.reset();\<newline>''
     @ concat (map (\<lambda>hs.
     ''    '' @ hs_strWriteSetName hs @ ''.clear();\<newline>'') hss) @
     ''}\<newline>''\<close>

definition decodeWriteRequest_function ::
  "('c, 'a, 'b, 'm) read_session \<Rightarrow> ('a, 'b) network_analysis \<Rightarrow> string result" where
  \<open>decodeWriteRequest_function ss na =
     andThen (recurseWriteRequest ss na (rs_instanceRoot ss) (rs_instanceTree ss)) (\<lambda>s. Inr (
     ''void decodeWriteRequest( eg::Decoder& decoder )\<newline>'' @ ''{\<newline>'' @
     ''    eg::TypeInstance typeInstance;\<newline>'' @ ''    msgpack::object_handle objectHandle;\<newline>'' @
     ''    while( decoder.next( objectHandle ) )\<newline>'' @ ''    {\<newline>'' @
     ''        objectHandle.get().convert( typeInstance.type );\<newline>'' @
     ''        eg::decode( decoder, typeInstance.instance );\<newline>'' @
     ''        switch( typeInstance.type )\<newline>'' @ ''        {\<newline>''
       @ s @
       ''            default:\<newline>'' @
       ''               decode( typeInstance.type, typeInstance.instance, decoder );\<newline>'' @
       ''               break;\<newline>'' @ ''        }\<newline>'' @ ''    }\<newline>'' @ ''}\<newline>''))\<close>

definition component_externs :: "component_type \<Rightarrow> string" where
  \<open>component_externs ty =
     ''extern void config_io_load( const char* );\<newline>'' @
     ''extern void config_io_save( const char* );\<newline>''
     @ (if ty = eComponent_Python
        then
        ''extern eg::ComponentInterop& getPythonInterop();\<newline>'' @
        ''extern void setEGRuntime( eg::EGRuntime& egRuntime );\<newline>'' @
        ''extern void* getPythonRoot();\<newline>''
        else if ty = eComponent_Unreal
        then
        ''extern void* getUnrealRoot();\<newline>''
        else [])\<close>

definition EGComponentImpl_class :: "component_type \<Rightarrow> string" where
  \<open>EGComponentImpl_class ty =
     ''\<newline>'' @ ''    \<newline>'' @ ''namespace megastructure\<newline>'' @ ''{\<newline>'' @
     ''    \<newline>'' @
     ''class EGComponentImpl : public EGComponent, public EncodeDecode, public ConfigIO\<newline>'' @
     ''{\<newline>'' @ ''    MemorySystem* m_pMemorySystem = nullptr;\<newline>'' @
     ''    MegaProtocol* m_pMegaProtocol = nullptr;\<newline>'' @
     ''    EventLog* m_pEventLog = nullptr;\<newline>'' @ ''    eg::EGRuntimePtr m_pEGRuntime;\<newline>'' @
     ''    void* m_pHostInterface = nullptr;\<newline>'' @ ''public:\<newline>'' @
     ''    virtual ~EGComponentImpl()\<newline>'' @ ''    {\<newline>'' @ ''    }\<newline>'' @
     ''    \<newline>'' @ ''\<newline>'' @
     ''    virtual void Initialise( void* pHostInterface, EncodeDecode*& pEncodeDecode, ConfigIO*& pConfigIO, MemorySystem* pMemorySystem, MegaProtocol* pMegaProtocol, EventLog* pEventLog, const char* pszDataBasePath )\<newline>'' @
     ''    {\<newline>'' @ ''        pEncodeDecode = this;\<newline>'' @ ''        pConfigIO = this;\<newline>'' @
     ''        \<newline>'' @ ''        m_pMemorySystem = pMemorySystem;\<newline>'' @
     ''        m_pMegaProtocol = pMegaProtocol;\<newline>'' @ ''        m_pEventLog = pEventLog;\<newline>''
     @ (if ty = eComponent_Python
        then
        ''        eg::ComponentInterop& interop = getPythonInterop();\<newline>'' @
        ''        m_pEGRuntime = eg::constructRuntime( interop, pszDataBasePath );\<newline>'' @
        ''        setEGRuntime( *m_pEGRuntime );\<newline>''
        else [])
     @ (if ty = eComponent_Unreal
        then
        ''        m_pHostInterface = pHostInterface;\<newline>''
        else []) @
        ''\<newline>'' @ ''        allocate_buffers( m_pMemorySystem );\<newline>'' @ ''    }\<newline>''
     @ (if ty = eComponent_Python
        then
        ''    virtual void* GetRoot()\<newline>'' @ ''    {\<newline>'' @
        ''        return getPythonRoot();\<newline>'' @ ''    }\<newline>''
        else if ty = eComponent_Unreal
        then
        ''    virtual void* GetRoot()\<newline>'' @ ''    {\<newline>'' @
        ''        return getUnrealRoot();\<newline>'' @ ''    }\<newline>''
        else
        ''    virtual void* GetRoot()\<newline>'' @ ''    {\<newline>'' @ ''        return nullptr;\<newline>'' @
        ''    }\<newline>'') @
        ''    virtual eg::TimeStamp GetCurrentCycle()\<newline>'' @ ''    {\<newline>'' @
        ''        return clock::cycle( 0 );\<newline>'' @ ''    }\<newline>'' @
        ''    virtual void Uninitialise()\<newline>'' @ ''    {\<newline>'' @
        ''        deallocate_buffers( m_pMemorySystem );\<newline>'' @ ''    }\<newline>'' @ ''\<newline>'' @
        ''    virtual void Cycle()\<newline>'' @ ''    {\<newline>'' @
        ''        eg::Scheduler::cycle();\<newline>'' @
        ''        completeSimulationLocks( m_pMegaProtocol );\<newline>'' @ ''        clock::next();\<newline>'' @
        ''    }\<newline>''\<close>

definition component_plugin :: string where
  \<open>component_plugin =
     ''\<newline>'' @ ''\<newline>'' @ ''    virtual void load( const char* pszFilePath )\<newline>'' @
     ''    {\<newline>'' @ ''        ::config_io_load( pszFilePath );\<newline>'' @ ''    }\<newline>'' @
     ''    virtual void save( const char* pszFilePath )\<newline>'' @ ''    {\<newline>'' @
     ''        ::config_io_save( pszFilePath );\<newline>'' @ ''    }\<newline>'' @ ''    \<newline>'' @
     ''    virtual void encode( std::int32_t iType, std::uint32_t uiInstance, eg::Encoder& buffer )\<newline>'' @
     ''    {\<newline>'' @ ''        ::encode( iType, uiInstance, buffer );\<newline>'' @ ''    }\<newline>'' @
     ''    \<newline>'' @
     ''    virtual void decode( std::int32_t iType, std::uint32_t uiInstance, eg::Decoder& decoder )\<newline>'' @
     ''    {\<newline>'' @ ''        ::decode( iType, uiInstance, decoder );\<newline>'' @ ''    }\<newline>'' @
     ''    \<newline>'' @ [CHR 0x09] @ ''virtual void decode( eg::Decoder& decoder )\<newline>'' @
     ''    {\<newline>'' @ ''        ::decodeWriteRequest( decoder );\<newline>'' @ ''    }\<newline>'' @
     ''    \<newline>'' @ ''    \<newline>'' @ ''    //networking\<newline>'' @
     ''    eg::TimeStamp readlock( eg::TypeID component )\<newline>'' @ ''    {\<newline>'' @
     ''        return m_pMegaProtocol->readlock( component, clock::cycle( 0 ) );\<newline>'' @
     ''    }\<newline>'' @ ''    \<newline>'' @
     ''    void read( eg::TypeID type, eg::Instance instance )\<newline>'' @ ''    {\<newline>'' @
     ''        m_pMegaProtocol->read( type, instance, clock::cycle( 0 ) );\<newline>'' @ ''    }\<newline>'' @
     ''\<newline>'' @ ''    eg::TimeStamp writelock( eg::TypeID component )\<newline>'' @ ''    {\<newline>'' @
     ''        return m_pMegaProtocol->writelock( component, clock::cycle( 0 ) );\<newline>'' @
     ''    }\<newline>'' @ ''\<newline>'' @ ''    void* getHostInterface() const\<newline>'' @
     ''    {\<newline>'' @ ''        return m_pHostInterface;\<newline>'' @ ''    }\<newline>'' @
     ''    \<newline>'' @ ''    //event log\<newline>'' @
     ''    void put( const char* type, eg::TimeStamp timestamp, const void* value, std::size_t size )\<newline>'' @
     ''    {\<newline>'' @ ''        if( m_pEventLog )\<newline>'' @ ''        {\<newline>'' @
     ''            m_pEventLog->put( type, timestamp, value, size );\<newline>'' @ ''        }\<newline>'' @
     ''    }\<newline>'' @ ''\<newline>'' @ ''};\<newline>'' @ ''\<newline>'' @
     ''extern "C" BOOST_SYMBOL_EXPORT EGComponentImpl g_pluginSymbol;\<newline>'' @
     ''EGComponentImpl g_pluginSymbol;\<newline>'' @ ''\<newline>'' @ ''}\<newline>'' @ ''    \<newline>'' @
     ''    \<newline>''\<close>

definition component_events :: string where
  \<open>component_events =
     ''\<newline>'' @ ''    \<newline>'' @ ''    \<newline>'' @
     ''eg::event_iterator events::getIterator()\<newline>'' @ ''{\<newline>'' @
     ''    return eg::event_iterator{};\<newline>'' @ ''}\<newline>'' @ ''\<newline>'' @
     ''bool events::get( eg::event_iterator& iterator, Event& event )\<newline>'' @ ''{\<newline>'' @
     ''    return false;\<newline>'' @ ''}\<newline>'' @ ''\<newline>'' @
     ''void events::put( const char* type, eg::TimeStamp timestamp, const void* value, std::size_t size )\<newline>'' @
     ''{\<newline>'' @ ''    megastructure::g_pluginSymbol.put( type, timestamp, value, size );\<newline>'' @
     ''}\<newline>'' @ ''    \<newline>'' @ ''bool events::update()\<newline>'' @ ''{\<newline>'' @
     ''    return true;\<newline>'' @ ''}\<newline>'' @ ''\<newline>'' @ ''namespace eg\<newline>'' @
     ''{\<newline>'' @ ''    eg::TimeStamp Component::readlock( eg::TypeID component )\<newline>'' @
     ''    {\<newline>'' @ ''        return megastructure::g_pluginSymbol.readlock( component );\<newline>'' @
     ''    }\<newline>'' @ ''\<newline>'' @
     ''    void Component::read( eg::TypeID type, eg::Instance instance )\<newline>'' @ ''    {\<newline>'' @
     ''        megastructure::g_pluginSymbol.read( type, instance );\<newline>'' @ ''    }\<newline>'' @
     ''\<newline>'' @ ''    eg::TimeStamp Component::writelock( eg::TypeID component )\<newline>'' @
     ''    {\<newline>'' @ ''        return megastructure::g_pluginSymbol.writelock( component );\<newline>'' @
     ''    }\<newline>'' @ ''}\<newline>'' @ ''\<newline>'' @ ''    \<newline>''\<close>

definition component_unreal :: "component_type \<Rightarrow> string" where
  \<open>component_unreal ty =
     (if ty = eComponent_Unreal
      then
      ''\<newline>'' @ ''    \<newline>'' @ ''namespace Unreal\<newline>'' @ ''{\<newline>'' @
      ''    struct IEngineInterface\<newline>'' @ ''    {\<newline>'' @
      ''        virtual ~IEngineInterface(){}\<newline>'' @
      ''        virtual void log( const wchar_t* msg ) = 0;\<newline>'' @ ''    };\<newline>'' @
      ''    \<newline>'' @ ''    void log( const wchar_t* msg )\<newline>'' @ ''    {\<newline>'' @
      ''        IEngineInterface* pUnreal = reinterpret_cast< IEngineInterface* >( \<newline>'' @
      ''            megastructure::g_pluginSymbol.getHostInterface() );\<newline>'' @
      ''        pUnreal->log( msg );\<newline>'' @ ''    }\<newline>'' @ ''}\<newline>'' @ ''    \<newline>'' @
      ''    \<newline>''
      else
      ''\<newline>'' @ ''    \<newline>'' @ ''namespace Unreal\<newline>'' @ ''{\<newline>'' @
      ''    void log( const wchar_t* msg )\<newline>'' @ ''    {\<newline>'' @
      ''        ERR( "Unreal interface used outside unreal component" );\<newline>'' @ ''    }\<newline>'' @
      ''}\<newline>'' @ ''    \<newline>'' @ ''    \<newline>'')\<close>

definition generate_eg_component ::
  "project_tree \<Rightarrow> ('c, 'a, 'b, 'm) read_session \<Rightarrow> ('a, 'b) network_analysis \<Rightarrow> component_type \<Rightarrow> string result" where
  \<open>generate_eg_component t ss na ty =
     (let hss = map snd (na_hostStructures na) in
      andThen (getNetStateSourceInclude t) (\<lambda>netstate.
      andThen (write_all (buffer_declaration ss na) (rs_buffers ss)) (\<lambda>declarations.
      andThen (write_all (buffer_allocation ss na) (rs_buffers ss)) (\<lambda>allocations.
      andThen (decodeWriteRequest_function ss na) (\<lambda>requests. Inr (
      ''//ed was here\<newline>'' @ ''\<newline>'' @ ''#include "'' @ getStructuresInclude @ ''"\<newline>'' @
      ''#include "'' @ netstate @ ''"\<newline>'' @ ''\<newline>''
        @ generateRuntimeExterns ss @
        ''\<newline>'' @ ''//network state\<newline>'' @ ''std::bitset< '' @
        dec_nat (unat (getReadBitSetSize na)) @ '' > g_reads;\<newline>'' @
        ''std::bitset< g_TotalHostLocks > g_hostLocks;\<newline>'' @
        ''std::array< eg::TimeStamp, g_TotalHostCycles > g_hostCycles;\<newline>''
        @ concat (map (\<lambda>hs.
        ''std::set< eg::TypeInstance > '' @ hs_strWriteSetName hs @ '';\<newline>'') hss) @
        ''\<newline>'' @ ''//buffers\<newline>''
        @ declarations @
        ''\<newline>'' @ ''void allocate_buffers( megastructure::MemorySystem* pMemorySystem )\<newline>'' @
        ''{\<newline>''
        @ allocations @
        ''}\<newline>'' @ ''\<newline>'' @
        ''void deallocate_buffers(  megastructure::MemorySystem* pMemorySystem )\<newline>'' @ ''{\<newline>''
        @ concat (map (buffer_deallocation ss) (rev (rs_buffers ss))) @
        ''}\<newline>'' @ ''\<newline>'' @ ''namespace eg\<newline>'' @ ''{\<newline>''
        @ recurseEncodeDecode ss (rs_interfaceTree ss) @
        ''}\<newline>'' @ ''\<newline>''
        @ encode_function ss @ decode_function ss @ completeSimulationLocks_function ss hss @ requests @
        component_externs ty @ EGComponentImpl_class ty @ component_plugin @ component_events @ component_unreal ty))))))\<close>

end
