(* ===== verification/Build_Generators.thy ===== *)
theory Build_Generators
  imports Component_Generator
begin

text \<open>
  The generators of \<open>src/src/driver/build_implementation.cpp\<close>: the structures of the buffers, the header of the
  network state, and the clock; and the texts of operations in
  \<open>src/src/generators/instructionCodeGenerator.cpp\<close>.
\<close>

section \<open>Structures, network state and clock\<close>

definition structure_of_buffer :: "('c, 'a, 'b, 'm) read_session \<Rightarrow> 'b \<Rightarrow> string" where
  \<open>structure_of_buffer ss b =
     ''\<newline>//Buffer: '' @ rs_bufferType ss b @ '' type: '' @
     dec (rs_actionIndex ss (rs_bufferAction ss b)) @ '' size: '' @ dec_nat (rs_bufferSize ss b) @
     ''\<newline>'' @ ''struct '' @ rs_bufferType ss b @ ''\<newline>'' @ ''{\<newline>''
     @ concat (map (\<lambda>d.
     ''    '' @ rs_memberType ss d @ '' '' @ rs_memberName ss d @ '';\<newline>'') (rs_bufferMembers ss b)) @
     ''};\<newline>'' @ ''extern '' @ rs_bufferType ss b @ '' *'' @ rs_bufferVariable ss b @ '';\<newline>''\<close>

definition generateMegaBufferStructures :: "('c, 'a, 'b, 'm) read_session \<Rightarrow> string" where
  \<open>generateMegaBufferStructures ss =
     rs_includeGuard ss ''STRUCTURES'' @
     ''//data structures\<newline>''
     @ concat (map (structure_of_buffer ss) (rs_buffers ss)) @
     ''\<newline>'' @ rs_line ss @ rs_line ss @ ''#endif\<newline>''\<close>

text \<open>The enumerators for the bits of the locks and for the cycles of the hosts, in the order of the map.\<close>

definition lock_enumerators :: "('a, 'b) network_analysis \<Rightarrow> string list" where
  "lock_enumerators na =
     concat (map (\<lambda>(_, hs). [hs_strIdentityEnumName hs @ ''_read'', hs_strIdentityEnumName hs @ ''_write'']) (na_hostStructures na))"

definition cycle_enumerators :: "('a, 'b) network_analysis \<Rightarrow> string list" where
  "cycle_enumerators na = map (\<lambda>(_, hs). hs_strIdentityEnumName hs @ ''_cycle'') (na_hostStructures na)"

definition generateMegaStructureNetStateHeader ::
  "('c, 'a, 'b, 'm) read_session \<Rightarrow> project_tree \<Rightarrow> ('a, 'b) network_analysis \<Rightarrow> string result" where
  \<open>generateMegaStructureNetStateHeader ss t na =
     andThen (getCoordinatorName t) (\<lambda>_. andThen (getHostName t) (\<lambda>_. Inr (
       rs_includeGuard ss ''NETSTATE'' @
       ''\<newline>'' @ ''//network state data\<newline>'' @ ''extern std::bitset< '' @
       dec_nat (unat (getReadBitSetSize na)) @ '' > g_reads;\<newline>'' @ ''enum mega_HostID\<newline>'' @
       ''{\<newline>''
       @ concat (map (\<lambda>e. ''    '' @ e @ '',\<newline>'') (lock_enumerators na)) @
       ''    g_TotalHostLocks\<newline>'' @ ''};\<newline>'' @
       ''extern std::bitset< g_TotalHostLocks > g_hostLocks;\<newline>'' @ ''\<newline>'' @
       ''enum mega_HostCycleID\<newline>'' @ ''{\<newline>''
       @ concat (map (\<lambda>e. ''    '' @ e @ '',\<newline>'') (cycle_enumerators na)) @
       ''    g_TotalHostCycles\<newline>'' @ ''};\<newline>'' @
       ''extern std::array< eg::TimeStamp, g_TotalHostCycles > g_hostCycles;\<newline>'' @ ''\<newline>''
       @ concat (map (\<lambda>(_, hs).
       ''extern std::set< eg::TypeInstance > '' @ hs_strWriteSetName hs @ '';\<newline>'') (na_hostStructures na)) @
       ''\<newline>'' @ rs_line ss @ rs_line ss @ ''#endif\<newline>'')))\<close>

definition clock_source :: string where
  \<open>clock_source =
     ''\<newline>'' @ ''namespace\<newline>'' @ ''{\<newline>'' @ ''\<newline>'' @
     ''struct HostClock\<newline>'' @ ''{\<newline>'' @ ''public:\<newline>'' @
     ''    typedef std::chrono::steady_clock ClockType;\<newline>'' @
     ''    typedef ClockType::time_point Tick;\<newline>'' @
     ''    typedef ClockType::duration TickDuration;\<newline>'' @
     ''    typedef std::chrono::duration< float, std::ratio< 1 > > FloatTickDuration;\<newline>'' @
     ''    \<newline>'' @ ''    HostClock()\<newline>'' @ ''    {\<newline>'' @
     ''        m_lastTick = m_startTick = ClockType::now();\<newline>'' @ ''        m_cycle = 1U;\<newline>'' @
     ''        m_ct    = m_dt = 0.0f;\<newline>'' @ ''    }\<newline>'' @ ''    \<newline>'' @
     ''    inline void nextCycle()\<newline>'' @ ''    {\<newline>'' @
     ''        const Tick nowTick = ClockType::now();\<newline>'' @
     ''        m_dt = FloatTickDuration( nowTick - m_lastTick  ).count();\<newline>'' @
     ''        m_ct = FloatTickDuration( nowTick - m_startTick ).count();\<newline>'' @
     ''        m_lastTick = nowTick;\<newline>'' @ ''        ++m_cycle;\<newline>'' @ ''    }\<newline>'' @
     ''    \<newline>'' @ ''    inline Tick actual()           const { return ClockType::now(); }\<newline>'' @
     ''    inline eg::TimeStamp cycle()   const { return m_cycle; }\<newline>'' @
     ''    inline float ct()              const { return m_ct; }\<newline>'' @
     ''    inline float dt()              const { return m_dt; }\<newline>'' @ ''    \<newline>'' @
     ''private:\<newline>'' @ ''    Tick m_lastTick, m_startTick;\<newline>'' @
     ''    eg::TimeStamp m_cycle;\<newline>'' @ ''    float m_ct, m_dt;\<newline>'' @ ''} \<newline>'' @
     ''\<newline>'' @ ''theClock;\<newline>'' @ ''\<newline>'' @ ''}\<newline>'' @ ''\<newline>'' @
     ''float clock::ct()\<newline>'' @ ''{\<newline>'' @ ''    return theClock.ct();\<newline>'' @
     ''}\<newline>'' @ ''float clock::dt()\<newline>'' @ ''{\<newline>'' @
     ''    return theClock.dt();\<newline>'' @ ''}\<newline>'' @ ''void clock::next()\<newline>'' @
     ''{\<newline>'' @ ''    theClock.nextCycle();\<newline>'' @ ''}\<newline>''\<close>

definition clock_case :: "('c, 'a, 'b, 'm) read_session \<Rightarrow> ('a, 'b) network_analysis \<Rightarrow> 'a \<Rightarrow> string" where
  \<open>clock_case ss na a =
     (case getHostStructures_action ss na a of
        None \<Rightarrow> []
      | Some hs \<Rightarrow>
      ''        case '' @ dec (rs_actionIndex ss a) @ '': return '' @ ''eg::readlock< eg::TimeStamp, '' @
      hs_strIdentityEnumName hs @ ''_cycle , '' @ hs_strIdentityEnumName hs @ ''_read, '' @
      dec (rs_actionIndex ss (hs_pRoot hs)) @ '' >( g_hostCycles[ '' @ hs_strIdentityEnumName hs @
      ''_cycle ] );\<newline>'')\<close>

definition generateMegaStructureClockImpl ::
  "('c, 'a, 'b, 'm) read_session \<Rightarrow> ('a, 'b) network_analysis \<Rightarrow> string" where
  \<open>generateMegaStructureClockImpl ss na =
     clock_source @
     ''eg::TimeStamp clock::cycle( eg::TypeID type )\<newline>'' @ ''{\<newline>'' @
     ''    switch( type )\<newline>'' @ ''    {\<newline>''
     @ concat (map (clock_case ss na) (rs_actions ss)) @
     ''        default: return theClock.cycle();\<newline>'' @ ''    }\<newline>'' @ ''}\<newline>''\<close>

section \<open>Operations\<close>

text \<open>
  The instruction that is generated for: the action, and, from the generator of the compiler, the indentation and
  the expression of the instance.  \<open>in_tu\<close> are the coordinator and the host of the translation unit of a
  context; \<open>in_read\<close> and \<open>in_write\<close> print an access to a data member with the printers of the generator;
  \<open>in_state\<close> is the member of the state of an action and \<open>in_actionState\<close> the name of one of its values.
\<close>

record ('c, 'a, 'm) instruction =
  in_action :: 'a
  in_indent :: string
  in_instance :: string
  in_tu :: "'c \<Rightarrow> string \<times> string"
  in_read :: "'m \<Rightarrow> string \<Rightarrow> string result"
  in_write :: "'m \<Rightarrow> string \<Rightarrow> string result"
  in_state :: "'a \<Rightarrow> 'm"
  in_running :: string
  in_paused :: string

definition isContextWithinComponent :: "project_tree \<Rightarrow> ('c, 'a, 'm) instruction \<Rightarrow> 'c \<Rightarrow> bool result" where
  "isContextWithinComponent t ins c =
     andThen (getCoordinatorName t) (\<lambda>co.
       if fst (in_tu ins c) = co then andThen (getHostName t) (\<lambda>h. Inr (snd (in_tu ins c) = h)) else Inr False)"

definition call_signal :: "('c, 'a, 'b, 'm) read_session \<Rightarrow> ('c, 'a, 'm) instruction \<Rightarrow> bool \<Rightarrow> string" where
  \<open>call_signal ss ins within =
     (let a = in_action ins in
     in_indent ins @ rs_staticType ss (rs_actionContext ss a) @ '' ref = eg::reference{ '' @ in_instance ins @
     '', '' @ dec (rs_actionIndex ss a) @ '', clock::cycle( '' @ dec (rs_actionIndex ss a) @ '' ) };\<newline>''
      @ (if within
         then
         in_indent ins @ ''::eg::Scheduler::signal_ref( ref );\<newline>''
         else []) @
         in_indent ins @ ''return ref;\<newline>'')\<close>

definition call_event :: "('c, 'a, 'b, 'm) read_session \<Rightarrow> ('c, 'a, 'm) instruction \<Rightarrow> bool \<Rightarrow> string" where
  \<open>call_event ss ins within =
     (let a = in_action ins in
     in_indent ins @ rs_staticType ss (rs_actionContext ss a) @ '' ref = '' @ rs_actionName ss a @
     ''_starter( '' @ in_instance ins @ '' );\<newline>'' @ in_indent ins @ ''if( ref )\<newline>'' @
     in_indent ins @ ''{\<newline>''
      @ (if within
         then
         in_indent ins @ ''    ::eg::Scheduler::signal_ref( ref );\<newline>'' @ in_indent ins @ ''    '' @
         rs_actionName ss a @ ''_stopper( ref.data.instance );\<newline>''
         else []) @
         in_indent ins @ ''}\<newline>'' @ in_indent ins @ ''else\<newline>'' @ in_indent ins @ ''{\<newline>'' @
         in_indent ins @ ''    ERR( "Failed to allocate action: '' @ rs_actionName ss a @ ''" );\<newline>'' @
         in_indent ins @ ''}\<newline>'' @ in_indent ins @ ''return ref;\<newline>'')\<close>

definition call_function :: "('c, 'a, 'b, 'm) read_session \<Rightarrow> ('c, 'a, 'm) instruction \<Rightarrow> string" where
  \<open>call_function ss ins =
     (let a = in_action ins in
     in_indent ins @ rs_staticType ss (rs_actionContext ss a) @ '' ref = eg::reference{ '' @ in_instance ins @
     '', '' @ dec (rs_actionIndex ss a) @ '', clock::cycle( '' @ dec (rs_actionIndex ss a) @ '' ) };\<newline>'' @
     in_indent ins @ ''return ref( args... );\<newline>'')\<close>

definition call_action :: "('c, 'a, 'b, 'm) read_session \<Rightarrow> ('c, 'a, 'm) instruction \<Rightarrow> bool \<Rightarrow> string" where
  \<open>call_action ss ins within =
     (let a = in_action ins in
     in_indent ins @ rs_staticType ss (rs_actionContext ss a) @ '' ref = '' @ rs_actionName ss a @
     ''_starter( '' @ in_instance ins @ '' );\<newline>''
      @ (if rs_hasDefinition ss (rs_actionContext ss a)
         then
         in_indent ins @ ''if( ref )\<newline>'' @ in_indent ins @ ''{\<newline>''
           @ (if within
              then
              in_indent ins @ ''    ::eg::Scheduler::call( ref, &'' @ rs_actionName ss a @
              ''_stopper, args... );\<newline>''
              else []) @
              in_indent ins @ ''}\<newline>'' @ in_indent ins @ ''else\<newline>'' @ in_indent ins @
              ''{\<newline>'' @ in_indent ins @ ''    ERR( "Failed to allocate action: '' @ rs_actionName ss a @
              ''" );\<newline>'' @ in_indent ins @ ''}\<newline>'' @ in_indent ins @ ''return ref;\<newline>''
         else
         in_indent ins @ ''if( ref )\<newline>'' @ in_indent ins @ ''{\<newline>''
           @ (if within
              then
              in_indent ins @ ''    ::eg::Scheduler::allocated_ref( ref.data, &'' @ rs_actionName ss a @
              ''_stopper );\<newline>''
              else []) @
              in_indent ins @ ''}\<newline>'' @ in_indent ins @ ''else\<newline>'' @ in_indent ins @
              ''{\<newline>'' @ in_indent ins @ ''    ERR( "Failed to allocate action: '' @ rs_actionName ss a @
              ''" );\<newline>'' @ in_indent ins @ ''}\<newline>'' @ in_indent ins @ ''return ref;\<newline>''))\<close>

definition generate_CallOperation ::
  "project_tree \<Rightarrow> ('c, 'a, 'b, 'm) read_session \<Rightarrow> ('c, 'a, 'm) instruction \<Rightarrow> string result" where
  "generate_CallOperation t ss ins =
     (let a = in_action ins; c = rs_actionContext ss a in
      andThen (verify_rte (rs_actionParent ss a) ''pParent'') (\<lambda>_.
      case rs_allocator ss a of
        None \<Rightarrow> Inl (Rte ''pAllocator'')
      | Some al \<Rightarrow>
          andThen (isContextWithinComponent t ins c) (\<lambda>within.
            case rs_class ss c of
              AbstractContext \<Rightarrow> Inl (Rte ''Invalid attempt to invoke abstract'')
            | EventContext \<Rightarrow>
                (case al of
                   NothingAllocator \<Rightarrow> Inr (call_signal ss ins within)
                 | OtherAllocator \<Rightarrow> Inl (Rte ''Unknown allocator type'')
                 | _ \<Rightarrow> Inr (call_event ss ins within))
            | FunctionContext \<Rightarrow>
                andThen (verify_rte (al = NothingAllocator) ''pAllocator'') (\<lambda>_. Inr (call_function ss ins))
            | OtherContext \<Rightarrow> Inl (Rte ''Unknown abstract type'')
            | _ \<Rightarrow> Inr (call_action ss ins within))))"

definition generate_StartOperation :: "('c, 'a, 'm) instruction \<Rightarrow> string result" where
  "generate_StartOperation ins = Inl (Rte ''TODO StartOperation'')"

text \<open>The member of the reference of the action of an instruction, which the three operations below require.\<close>

definition operation_reference ::
  "project_tree \<Rightarrow> ('c, 'a, 'b, 'm) read_session \<Rightarrow> ('c, 'a, 'm) instruction \<Rightarrow> (bool \<times> 'm) result" where
  "operation_reference t ss ins =
     andThen (isContextWithinComponent t ins (rs_actionContext ss (in_action ins))) (\<lambda>within.
       case rs_referenceMember ss (in_action ins) of
         None \<Rightarrow> Inl (Rte ''pReferenceDimension'')
       | Some r \<Rightarrow> Inr (within, r))"

definition generate_StopOperation ::
  "project_tree \<Rightarrow> ('c, 'a, 'b, 'm) read_session \<Rightarrow> ('c, 'a, 'm) instruction \<Rightarrow> string result" where
  \<open>generate_StopOperation t ss ins =
     (let a = in_action ins in
      andThen (operation_reference t ss ins) (\<lambda>(within, r).
        if within
        then andThen (in_read ins r (in_instance ins)) (\<lambda>ref. Inr (
        in_indent ins @ ''::eg::Scheduler::stop_ref( '' @ ref @ ''.data );\<newline>''))
        else Inr (
        in_indent ins @ rs_actionName ss a @ ''_stopper( '' @ in_instance ins @ '' );\<newline>'')))\<close>

definition generate_PauseOperation ::
  "project_tree \<Rightarrow> ('c, 'a, 'b, 'm) read_session \<Rightarrow> ('c, 'a, 'm) instruction \<Rightarrow> string result" where
  \<open>generate_PauseOperation t ss ins =
     (let a = in_action ins in
      andThen (operation_reference t ss ins) (\<lambda>(within, r).
      andThen (in_read ins (in_state ins a) (in_instance ins)) (\<lambda>st.
      andThen (if within then in_read ins r (in_instance ins) else Inr []) (\<lambda>ref.
      andThen (in_write ins (in_state ins a) (in_instance ins)) (\<lambda>wr. Inr (
      in_indent ins @ ''if( '' @ st @ '' == '' @ in_running ins @ '' )\<newline>'' @ in_indent ins @
      ''{\<newline>''
        @ (if within
           then
           in_indent ins @ ''    ::eg::Scheduler::pause_ref( '' @ ref @ ''.data );\<newline>''
           else []) @
           in_indent ins @ ''    '' @ wr @ '' = '' @ in_paused ins @ '';\<newline>'' @ in_indent ins @
           ''}\<newline>''))))))\<close>

definition generate_ResumeOperation ::
  "project_tree \<Rightarrow> ('c, 'a, 'b, 'm) read_session \<Rightarrow> ('c, 'a, 'm) instruction \<Rightarrow> string result" where
  \<open>generate_ResumeOperation t ss ins =
     (let a = in_action ins in
      andThen (operation_reference t ss ins) (\<lambda>(within, r).
      andThen (in_read ins (in_state ins a) (in_instance ins)) (\<lambda>st.
      andThen (if within then in_read ins r (in_instance ins) else Inr []) (\<lambda>ref.
      andThen (in_write ins (in_state ins a) (in_instance ins)) (\<lambda>wr. Inr (
      in_indent ins @ ''if( '' @ st @ '' == '' @ in_paused ins @ '' )\<newline>'' @ in_indent ins @
      ''{\<newline>''
        @ (if within
           then
           in_indent ins @ ''    ::eg::Scheduler::unpause_ref( '' @ ref @ ''.data );\<newline>''
           else []) @
           in_indent ins @ ''    '' @ wr @ '' = '' @ in_running ins @ '';\<newline>'' @ in_indent ins @
           ''}\<newline>''))))))\<close>

end
