(* ===== verification/Component_Traits.thy ===== *)
theory Component_Traits
  imports Mega_Prelude
begin

text \<open>
  The lock functions of \<open>src/api/egcomponent/traits.hpp\<close>, through which a generated component reaches
  the data of other components.  Their template arguments are the fields of an \<open>address\<close>.

  The static functions of \<open>Component\<close> are only declared there: what they return or throw, after the
  calls so far, is a parameter.
\<close>

datatype component_call = CallReadLock u32 | CallRead u32 u32 | CallWriteLock u32

record component_api =
  ca_readlock :: "component_call list \<Rightarrow> u32 \<Rightarrow> u32 result"
  ca_read :: "component_call list \<Rightarrow> u32 \<Rightarrow> u32 \<Rightarrow> unit result"
  ca_writelock :: "component_call list \<Rightarrow> u32 \<Rightarrow> u32 result"

record address =
  ad_cycle :: nat
  ad_bit :: nat
  ad_rtt :: u32
  ad_hashBase :: nat
  ad_type :: u32

text \<open>\<open>g_reads\<close>, \<open>g_hostLocks\<close>, \<open>g_hostCycles\<close>, the write set of each host, by the type of its root, and
  the calls made.\<close>

record net_state =
  ns_reads :: "bool list"
  ns_hostLocks :: "bool list"
  ns_hostCycles :: "u32 list"
  ns_writes :: "u32 \<Rightarrow> (u32 \<times> u32) set"
  ns_calls :: "component_call list"

text \<open>\<open>std::bitset\<close> checks the position, \<open>std::array\<close> does not.\<close>

definition bit_test :: "bool list \<Rightarrow> nat \<Rightarrow> bool result" where
  "bit_test bs i = (if i < length bs then Inr (bs ! i) else Inl (Rte ''bitset::test''))"

definition bit_set :: "bool list \<Rightarrow> nat \<Rightarrow> bool list result" where
  "bit_set bs i = (if i < length bs then Inr (bs[i := True]) else Inl (Rte ''bitset::set''))"

definition set_cycle :: "net_state \<Rightarrow> nat \<Rightarrow> u32 \<Rightarrow> net_state result" where
  "set_cycle s i ts =
     (if i < length (ns_hostCycles s) then Inr (s\<lparr>ns_hostCycles := (ns_hostCycles s)[i := ts]\<rparr>)
      else Inl (Ub ''g_hostCycles''))"

definition set_hostLock :: "net_state \<Rightarrow> nat \<Rightarrow> net_state result" where
  "set_hostLock s i = andThen (bit_set (ns_hostLocks s) i) (\<lambda>bs. Inr (s\<lparr>ns_hostLocks := bs\<rparr>))"

definition set_read :: "net_state \<Rightarrow> nat \<Rightarrow> net_state result" where
  "set_read s i = andThen (bit_set (ns_reads s) i) (\<lambda>bs. Inr (s\<lparr>ns_reads := bs\<rparr>))"

definition Component_readlock :: "component_api \<Rightarrow> u32 \<Rightarrow> net_state \<Rightarrow> (u32 \<times> net_state) result" where
  "Component_readlock ca ty s =
     andThen (ca_readlock ca (ns_calls s) ty) (\<lambda>ts. Inr (ts, s\<lparr>ns_calls := ns_calls s @ [CallReadLock ty]\<rparr>))"

definition Component_read :: "component_api \<Rightarrow> u32 \<Rightarrow> u32 \<Rightarrow> net_state \<Rightarrow> net_state result" where
  "Component_read ca ty inst s =
     andThen (ca_read ca (ns_calls s) ty inst) (\<lambda>_. Inr (s\<lparr>ns_calls := ns_calls s @ [CallRead ty inst]\<rparr>))"

definition Component_writelock :: "component_api \<Rightarrow> u32 \<Rightarrow> net_state \<Rightarrow> (u32 \<times> net_state) result" where
  "Component_writelock ca ty s =
     andThen (ca_writelock ca (ns_calls s) ty) (\<lambda>ts. Inr (ts, s\<lparr>ns_calls := ns_calls s @ [CallWriteLock ty]\<rparr>))"

text \<open>The four functions.\<close>

definition take_readlock :: "component_api \<Rightarrow> address \<Rightarrow> net_state \<Rightarrow> net_state result" where
  "take_readlock ca a s =
     andThen (Component_readlock ca (ad_rtt a) s) (\<lambda>(ts, s1).
     andThen (set_cycle s1 (ad_cycle a) ts) (\<lambda>s2. set_hostLock s2 (ad_bit a)))"

definition take_writelock :: "component_api \<Rightarrow> address \<Rightarrow> net_state \<Rightarrow> net_state result" where
  "take_writelock ca a s =
     andThen (Component_writelock ca (ad_rtt a) s) (\<lambda>(ts, s1).
     andThen (set_cycle s1 (ad_cycle a) ts) (\<lambda>s2. set_hostLock s2 (ad_bit a)))"

definition readlock :: "component_api \<Rightarrow> address \<Rightarrow> net_state \<Rightarrow> net_state result" where
  "readlock ca a s =
     andThen (bit_test (ns_hostLocks s) (ad_bit a)) (\<lambda>locked.
       if \<not> locked then take_readlock ca a s else Inr s)"

definition readlock_instance :: "component_api \<Rightarrow> address \<Rightarrow> u32 \<Rightarrow> net_state \<Rightarrow> net_state result" where
  "readlock_instance ca a inst s =
     andThen (bit_test (ns_hostLocks s) (ad_bit a)) (\<lambda>locked.
       if \<not> locked
       then andThen (take_readlock ca a s) (\<lambda>s1.
            andThen (Component_read ca (ad_type a) inst s1) (\<lambda>s2.
              set_read s2 (ad_hashBase a + unat inst)))
       else andThen (bit_test (ns_reads s) (ad_hashBase a + unat inst)) (\<lambda>isRead.
              if \<not> isRead
              then andThen (Component_read ca (ad_type a) inst s) (\<lambda>s1. set_read s1 (ad_hashBase a + unat inst))
              else Inr s))"

definition writelock :: "component_api \<Rightarrow> address \<Rightarrow> net_state \<Rightarrow> net_state result" where
  "writelock ca a s =
     andThen (bit_test (ns_hostLocks s) (ad_bit a)) (\<lambda>locked.
       if \<not> locked then take_writelock ca a s else Inr s)"

definition writelock_instance :: "component_api \<Rightarrow> address \<Rightarrow> u32 \<Rightarrow> net_state \<Rightarrow> net_state result" where
  "writelock_instance ca a inst s =
     andThen (bit_test (ns_hostLocks s) (ad_bit a)) (\<lambda>locked.
     andThen (if \<not> locked then take_writelock ca a s else Inr s) (\<lambda>s1.
     andThen (set_read s1 (ad_hashBase a + unat inst)) (\<lambda>s2.
       Inr (s2\<lparr>ns_writes := (ns_writes s2)(ad_rtt a := insert (inst, ad_type a) (ns_writes s2 (ad_rtt a)))\<rparr>))))"

end
