(* ===== verification/Component_Codec.thy ===== *)
theory Component_Codec
  imports Mega_Prelude
begin

text \<open>
  The encoding of values in the messages between components: \<open>encode\<close>, \<open>decode\<close> and \<open>DimensionTraits\<close> of
  \<open>src/api/egcomponent/traits.hpp\<close>.

  An \<open>Encoder\<close> is the list of the msgpack objects packed so far, a \<open>Decoder\<close> the list of those not read yet.
  The library is a parameter: how it packs an integer, a boolean, an array or any other value into an object
  and converts it back; a conversion that throws is \<open>None\<close>.
\<close>

text \<open>
  \<open>mp_pack\<close> and \<open>mp_convert\<close> are for the values of the types that only the program knows.  The integers
  are \<open>std::uint8_t\<close>, \<open>Instance\<close> and \<open>TimeStamp\<close> (32 bits), \<open>TypeID\<close> (32 bits, signed) and \<open>std::size_t\<close>.
\<close>

record ('o, 'v) msgpack =
  mp_pack :: "'v \<Rightarrow> 'o"
  mp_convert :: "'o \<Rightarrow> 'v option"
  mp_pack_u8 :: "8 word \<Rightarrow> 'o"
  mp_convert_u8 :: "'o \<Rightarrow> 8 word option"
  mp_pack_u32 :: "u32 \<Rightarrow> 'o"
  mp_convert_u32 :: "'o \<Rightarrow> u32 option"
  mp_pack_type :: "u32 \<Rightarrow> 'o"
  mp_convert_type :: "'o \<Rightarrow> u32 option"
  mp_pack_u64 :: "64 word \<Rightarrow> 'o"
  mp_convert_u64 :: "'o \<Rightarrow> 64 word option"
  mp_pack_bool :: "bool \<Rightarrow> 'o"
  mp_convert_bool :: "'o \<Rightarrow> bool option"
  mp_pack_array :: "u32 list \<Rightarrow> 'o"
  mp_convert_array :: "nat \<Rightarrow> 'o \<Rightarrow> u32 list option"

text \<open>What is packed is converted back to the same value of the same type; a \<open>std::array\<close> has its size.\<close>

definition msgpack_laws :: "('o, 'v) msgpack \<Rightarrow> bool" where
  "msgpack_laws mp \<longleftrightarrow>
     (\<forall>v. mp_convert mp (mp_pack mp v) = Some v) \<and>
     (\<forall>x. mp_convert_u8 mp (mp_pack_u8 mp x) = Some x) \<and>
     (\<forall>x. mp_convert_u32 mp (mp_pack_u32 mp x) = Some x) \<and>
     (\<forall>x. mp_convert_type mp (mp_pack_type mp x) = Some x) \<and>
     (\<forall>x. mp_convert_u64 mp (mp_pack_u64 mp x) = Some x) \<and>
     (\<forall>x. mp_convert_bool mp (mp_pack_bool mp x) = Some x) \<and>
     (\<forall>xs. mp_convert_array mp (length xs) (mp_pack_array mp xs) = Some xs) \<and>
     (\<forall>n ob xs. mp_convert_array mp n ob = Some xs \<longrightarrow> length xs = n)"

section \<open>The functions\<close>

definition decode_object :: "('o \<Rightarrow> 'x option) \<Rightarrow> 'o list \<Rightarrow> ('x \<times> 'o list) result" where
  "decode_object convert os =
     (case os of
        [] \<Rightarrow> Inl (Rte ''Decoder error'')
      | ob # rest \<Rightarrow> (case convert ob of None \<Rightarrow> Inl (Rte ''type_error'') | Some x \<Rightarrow> Inr (x, rest)))"

text \<open>An \<open>ActionState\<close> is the value of its enumerator.\<close>

definition encode_ActionState :: "('o, 'v) msgpack \<Rightarrow> int \<Rightarrow> 'o list" where
  "encode_ActionState mp value = [mp_pack_u8 mp (word_of_int value)]"

definition decode_ActionState :: "('o, 'v) msgpack \<Rightarrow> 'o list \<Rightarrow> (int \<times> 'o list) result" where
  "decode_ActionState mp os = andThen (decode_object (mp_convert_u8 mp) os) (\<lambda>(ui, os'). Inr (uint ui, os'))"

record reference =
  ref_instance :: u32
  ref_type :: u32
  ref_timestamp :: u32

definition encode_reference :: "('o, 'v) msgpack \<Rightarrow> reference \<Rightarrow> 'o list" where
  "encode_reference mp r =
     [mp_pack_u32 mp (ref_instance r), mp_pack_type mp (ref_type r), mp_pack_u32 mp (ref_timestamp r)]"

definition decode_reference :: "('o, 'v) msgpack \<Rightarrow> 'o list \<Rightarrow> (reference \<times> 'o list) result" where
  "decode_reference mp os =
     andThen (decode_object (mp_convert_u32 mp) os) (\<lambda>(i, os1).
     andThen (decode_object (mp_convert_type mp) os1) (\<lambda>(t, os2).
     andThen (decode_object (mp_convert_u32 mp) os2) (\<lambda>(ts, os3).
       Inr (\<lparr>ref_instance = i, ref_type = t, ref_timestamp = ts\<rparr>, os3))))"

text \<open>Bit sets, the lowest bit first.  \<open>unsigned long\<close> has 32 bits and \<open>unsigned long long\<close> 64: a set whose
  value does not fit throws.\<close>

definition bitset_value :: "bool list \<Rightarrow> nat" where
  "bitset_value bs = horner_sum of_bool 2 bs"

definition bitset_of :: "nat \<Rightarrow> nat \<Rightarrow> bool list" where
  "bitset_of n v = map (bit v) [0..<n]"

definition encode_bitmask32 :: "('o, 'v) msgpack \<Rightarrow> bool list \<Rightarrow> 'o list result" where
  "encode_bitmask32 mp bs =
     (if bitset_value bs < 2 ^ 32 then Inr [mp_pack_u32 mp (of_nat (bitset_value bs))]
      else Inl (Rte ''bitset::to_ulong''))"

definition decode_bitmask32 :: "('o, 'v) msgpack \<Rightarrow> nat \<Rightarrow> 'o list \<Rightarrow> (bool list \<times> 'o list) result" where
  "decode_bitmask32 mp n os =
     andThen (decode_object (mp_convert_u32 mp) os) (\<lambda>(v, os'). Inr (bitset_of n (unat v), os'))"

definition encode_bitmask64 :: "('o, 'v) msgpack \<Rightarrow> bool list \<Rightarrow> 'o list result" where
  "encode_bitmask64 mp bs =
     (if bitset_value bs < 2 ^ 64 then Inr [mp_pack_u64 mp (of_nat (bitset_value bs))]
      else Inl (Rte ''bitset::to_ullong''))"

definition decode_bitmask64 :: "('o, 'v) msgpack \<Rightarrow> nat \<Rightarrow> 'o list \<Rightarrow> (bool list \<times> 'o list) result" where
  "decode_bitmask64 mp n os =
     andThen (decode_object (mp_convert_u64 mp) os) (\<lambda>(v, os'). Inr (bitset_of n (unat v), os'))"

record ring_allocator =
  ra_head :: "64 word"
  ra_tail :: "64 word"
  ra_full :: bool
  ra_ring :: "u32 list"

definition encode_ring :: "('o, 'v) msgpack \<Rightarrow> ring_allocator \<Rightarrow> 'o list" where
  "encode_ring mp r =
     [mp_pack_u64 mp (ra_head r), mp_pack_u64 mp (ra_tail r), mp_pack_bool mp (ra_full r), mp_pack_array mp (ra_ring r)]"

definition decode_ring :: "('o, 'v) msgpack \<Rightarrow> nat \<Rightarrow> 'o list \<Rightarrow> (ring_allocator \<times> 'o list) result" where
  "decode_ring mp n os =
     andThen (decode_object (mp_convert_u64 mp) os) (\<lambda>(h, os1).
     andThen (decode_object (mp_convert_u64 mp) os1) (\<lambda>(t, os2).
     andThen (decode_object (mp_convert_bool mp) os2) (\<lambda>(f, os3).
     andThen (decode_object (mp_convert_array mp n) os3) (\<lambda>(ring, os4).
       Inr (\<lparr>ra_head = h, ra_tail = t, ra_full = f, ra_ring = ring\<rparr>, os4)))))"

section \<open>The dimensions\<close>

text \<open>A dimension of a program by its type: a value of the program, a state, a reference (also the \<open>data\<close> of
  an event or a variant), or an allocator.\<close>

datatype dimension_type = T_value | T_state | T_reference | T_bitmask32 nat | T_bitmask64 nat | T_ring nat

datatype 'v dimension = D_value 'v | D_state int | D_reference reference | D_bitmask "bool list" | D_ring ring_allocator

text \<open>The values of a type.\<close>

fun has_type :: "'v dimension \<Rightarrow> dimension_type \<Rightarrow> bool" where
  "has_type (D_value v) T_value = True"
| "has_type (D_state s) T_state = (0 \<le> s \<and> s < 256)"
| "has_type (D_reference r) T_reference = True"
| "has_type (D_bitmask bs) (T_bitmask32 n) = (length bs = n)"
| "has_type (D_bitmask bs) (T_bitmask64 n) = (length bs = n)"
| "has_type (D_ring r) (T_ring n) = (length (ra_ring r) = n)"
| "has_type _ _ = False"

fun DimensionTraits_encode :: "('o, 'v) msgpack \<Rightarrow> dimension_type \<Rightarrow> 'v dimension \<Rightarrow> 'o list result" where
  "DimensionTraits_encode mp (T_bitmask32 n) (D_bitmask bs) = encode_bitmask32 mp bs"
| "DimensionTraits_encode mp (T_bitmask64 n) (D_bitmask bs) = encode_bitmask64 mp bs"
| "DimensionTraits_encode mp T_value (D_value v) = Inr [mp_pack mp v]"
| "DimensionTraits_encode mp T_state (D_state s) = Inr (encode_ActionState mp s)"
| "DimensionTraits_encode mp T_reference (D_reference r) = Inr (encode_reference mp r)"
| "DimensionTraits_encode mp (T_ring n) (D_ring r) = Inr (encode_ring mp r)"
| "DimensionTraits_encode mp _ _ = Inl (Ub ''a value of another type'')"

text \<open>The decoded value has the static type of the dimension.\<close>

definition typed_as :: "('x \<Rightarrow> 'v dimension) \<Rightarrow> ('x \<times> 'o list) result \<Rightarrow> ('v dimension \<times> 'o list) result" where
  "typed_as f r = andThen r (\<lambda>(x, os). Inr (f x, os))"

fun DimensionTraits_decode :: "('o, 'v) msgpack \<Rightarrow> dimension_type \<Rightarrow> 'o list \<Rightarrow> ('v dimension \<times> 'o list) result" where
  "DimensionTraits_decode mp T_value os = typed_as D_value (decode_object (mp_convert mp) os)"
| "DimensionTraits_decode mp T_state os = typed_as D_state (decode_ActionState mp os)"
| "DimensionTraits_decode mp T_reference os = typed_as D_reference (decode_reference mp os)"
| "DimensionTraits_decode mp (T_bitmask32 n) os = typed_as D_bitmask (decode_bitmask32 mp n os)"
| "DimensionTraits_decode mp (T_bitmask64 n) os = typed_as D_bitmask (decode_bitmask64 mp n os)"
| "DimensionTraits_decode mp (T_ring n) os = typed_as D_ring (decode_ring mp n os)"

end
