(* ===== verification/Traits_Properties.thy ===== *)
theory Traits_Properties
  imports Component_Traits
begin

text \<open>
  What the lock functions of \<open>traits.hpp\<close> promise over the accesses of one cycle: each lock is asked
  for once, each instance is read once, and every position is in range.
\<close>

section \<open>The accesses of a cycle\<close>

datatype access = Read address | ReadInstance address u32 | Write address | WriteInstance address u32

fun run_access :: "component_api \<Rightarrow> access \<Rightarrow> net_state \<Rightarrow> net_state result" where
  "run_access ca (Read a) s = readlock ca a s"
| "run_access ca (ReadInstance a inst) s = readlock_instance ca a inst s"
| "run_access ca (Write a) s = writelock ca a s"
| "run_access ca (WriteInstance a inst) s = writelock_instance ca a inst s"

fun run_accesses :: "component_api \<Rightarrow> access list \<Rightarrow> net_state \<Rightarrow> net_state result" where
  "run_accesses ca [] s = Inr s"
| "run_accesses ca (x # xs) s = andThen (run_access ca x s) (run_accesses ca xs)"

text \<open>The state at the begin of a cycle, with the sizes of the sets.\<close>

definition cycle_start :: "nat \<Rightarrow> nat \<Rightarrow> nat \<Rightarrow> net_state" where
  "cycle_start reads locks cycles =
     \<lparr>ns_reads = replicate reads False, ns_hostLocks = replicate locks False, ns_hostCycles = replicate cycles 0,
      ns_writes = (\<lambda>_. {}), ns_calls = []\<rparr>"

fun access_address :: "access \<Rightarrow> address" where
  "access_address (Read a) = a"
| "access_address (ReadInstance a inst) = a"
| "access_address (Write a) = a"
| "access_address (WriteInstance a inst) = a"

fun access_bits :: "access \<Rightarrow> nat list" where
  "access_bits (ReadInstance a inst) = [ad_hashBase a + unat inst]"
| "access_bits (WriteInstance a inst) = [ad_hashBase a + unat inst]"
| "access_bits _ = []"

fun access_call :: "access \<Rightarrow> component_call" where
  "access_call (Read a) = CallReadLock (ad_rtt a)"
| "access_call (ReadInstance a inst) = CallReadLock (ad_rtt a)"
| "access_call (Write a) = CallWriteLock (ad_rtt a)"
| "access_call (WriteInstance a inst) = CallWriteLock (ad_rtt a)"

text \<open>Accesses with the addresses that the analysis of a program gives: in range, one bit for each kind
  of lock of a host, and one bit for each instance of a data member.\<close>

definition in_range :: "nat \<Rightarrow> nat \<Rightarrow> nat \<Rightarrow> access \<Rightarrow> bool" where
  "in_range reads locks cycles x \<longleftrightarrow>
     ad_cycle (access_address x) < cycles \<and> ad_bit (access_address x) < locks \<and> list_all (\<lambda>i. i < reads) (access_bits x)"

definition locks_apart :: "access \<Rightarrow> access \<Rightarrow> bool" where
  "locks_apart x y \<longleftrightarrow> (ad_bit (access_address x) = ad_bit (access_address y) \<longleftrightarrow> access_call x = access_call y)"

definition answers :: "component_api \<Rightarrow> bool" where
  "answers ca \<longleftrightarrow> (\<forall>cs ty. \<exists>ts. ca_readlock ca cs ty = Inr ts) \<and> (\<forall>cs ty inst. ca_read ca cs ty inst = Inr ()) \<and>
     (\<forall>cs ty. \<exists>ts. ca_writelock ca cs ty = Inr ts)"

definition is_lock :: "component_call \<Rightarrow> bool" where
  "is_lock c = (case c of CallReadLock _ \<Rightarrow> True | CallRead _ _ \<Rightarrow> False | CallWriteLock _ \<Rightarrow> True)"

definition locks_of :: "net_state \<Rightarrow> component_call list" where
  "locks_of s = filter is_lock (ns_calls s)"

definition reads_of :: "net_state \<Rightarrow> (u32 \<times> u32) list" where
  "reads_of s = concat (map (\<lambda>c. case c of CallRead ty i \<Rightarrow> [(ty, i)] | _ \<Rightarrow> []) (ns_calls s))"

text \<open>The invariant: the bits of the locks say which calls were made, each once.\<close>

definition locks_ok :: "nat \<Rightarrow> nat \<Rightarrow> nat \<Rightarrow> access set \<Rightarrow> net_state \<Rightarrow> bool" where
  "locks_ok reads locks cycles X s \<longleftrightarrow>
     length (ns_reads s) = reads \<and> length (ns_hostLocks s) = locks \<and> length (ns_hostCycles s) = cycles \<and>
     distinct (locks_of s) \<and>
     (\<forall>x \<in> X. ns_hostLocks s ! ad_bit (access_address x) \<longleftrightarrow> access_call x \<in> set (ns_calls s))"

lemma bit_simps [simp]:
  "i < length bs \<Longrightarrow> bit_test bs i = Inr (bs ! i)"
  "i < length bs \<Longrightarrow> bit_set bs i = Inr (bs[i := True])"
  by (simp_all add: bit_test_def bit_set_def)

lemma access_call_lock [simp]: "is_lock (access_call x)"
  by (cases x) (simp_all add: is_lock_def)

lemma locks_of_append: "ns_calls s' = ns_calls s @ [c] \<Longrightarrow> locks_of s' = locks_of s @ (if is_lock c then [c] else [])"
  by (simp add: locks_of_def)

text \<open>Taking the lock of an access, and noting a read, keep the invariant.\<close>

definition lock_taken :: "access \<Rightarrow> net_state \<Rightarrow> net_state \<Rightarrow> bool" where
  "lock_taken x s s' \<longleftrightarrow>
     ns_hostLocks s' = (ns_hostLocks s)[ad_bit (access_address x) := True] \<and> ns_reads s' = ns_reads s \<and>
     length (ns_hostCycles s') = length (ns_hostCycles s) \<and> ns_calls s' = ns_calls s @ [access_call x]"

lemma lock_taken_ok:
  assumes "locks_ok r l c X s" and "in_range r l c x" and "x \<in> X" and "\<And>y. y \<in> X \<Longrightarrow> locks_apart x y"
    and free: "\<not> ns_hostLocks s ! ad_bit (access_address x)" and "lock_taken x s s'"
  shows "locks_ok r l c X s'" and "ns_hostLocks s' ! ad_bit (access_address x)"
proof -
  have new: "access_call x \<notin> set (ns_calls s)" using assms(1,3) free by (simp add: locks_ok_def)
  have bit: "ad_bit (access_address x) < length (ns_hostLocks s)" using assms(1,2) by (simp add: locks_ok_def in_range_def)
  show "ns_hostLocks s' ! ad_bit (access_address x)" using assms(6) bit by (simp add: lock_taken_def)
  have "distinct (locks_of s')"
    using assms(1,6) new locks_of_append [of s' s "access_call x"] by (auto simp: locks_ok_def lock_taken_def locks_of_def)
  moreover have "ns_hostLocks s' ! ad_bit (access_address y) \<longleftrightarrow> access_call y \<in> set (ns_calls s')" if "y \<in> X" for y
  proof (cases "ad_bit (access_address y) = ad_bit (access_address x)")
    case True
    then show ?thesis using assms(4) [OF that] assms(6) bit by (auto simp: lock_taken_def locks_apart_def)
  next
    case False
    then have "access_call x \<noteq> access_call y" using assms(4) [OF that] by (auto simp: locks_apart_def)
    with False show ?thesis using assms(1,6) that by (auto simp: lock_taken_def locks_ok_def)
  qed
  ultimately show "locks_ok r l c X s'" using assms(1,6) by (simp add: locks_ok_def lock_taken_def)
qed

lemma take_lock_taken:
  assumes ca: "answers ca" and ok: "locks_ok r l c X s" and x: "in_range r l c x"
  shows "access_call x = CallReadLock (ad_rtt (access_address x)) \<Longrightarrow>
      \<exists>s'. take_readlock ca (access_address x) s = Inr s' \<and> lock_taken x s s' \<and> ns_writes s' = ns_writes s"
    and "access_call x = CallWriteLock (ad_rtt (access_address x)) \<Longrightarrow>
      \<exists>s'. take_writelock ca (access_address x) s = Inr s' \<and> lock_taken x s s' \<and> ns_writes s' = ns_writes s"
proof -
  have range: "ad_cycle (access_address x) < length (ns_hostCycles s)" "ad_bit (access_address x) < length (ns_hostLocks s)"
    using ok x by (simp_all add: locks_ok_def in_range_def)
  obtain ts where "ca_readlock ca (ns_calls s) (ad_rtt (access_address x)) = Inr ts"
    using ca unfolding answers_def by blast
  then show "access_call x = CallReadLock (ad_rtt (access_address x)) \<Longrightarrow>
      \<exists>s'. take_readlock ca (access_address x) s = Inr s' \<and> lock_taken x s s' \<and> ns_writes s' = ns_writes s"
    using range
    by (simp add: take_readlock_def Component_readlock_def set_cycle_def set_hostLock_def lock_taken_def)
  obtain ts where "ca_writelock ca (ns_calls s) (ad_rtt (access_address x)) = Inr ts"
    using ca unfolding answers_def by blast
  then show "access_call x = CallWriteLock (ad_rtt (access_address x)) \<Longrightarrow>
      \<exists>s'. take_writelock ca (access_address x) s = Inr s' \<and> lock_taken x s s' \<and> ns_writes s' = ns_writes s"
    using range
    by (simp add: take_writelock_def Component_writelock_def set_cycle_def set_hostLock_def lock_taken_def)
qed

text \<open>Noting a read or a write.\<close>

lemma note_read_ok:
  assumes "locks_ok r l c X s" and "i < r"
  shows "\<exists>s'. set_read s i = Inr s' \<and> locks_ok r l c X s' \<and> ns_hostLocks s' = ns_hostLocks s \<and>
    ns_reads s' = (ns_reads s)[i := True] \<and> ns_calls s' = ns_calls s"
  using assms by (simp add: set_read_def locks_ok_def locks_of_def)

lemma call_read_ok:
  assumes "answers ca" and "locks_ok r l c X s"
  shows "\<exists>s'. Component_read ca ty inst s = Inr s' \<and> locks_ok r l c X s' \<and> ns_hostLocks s' = ns_hostLocks s \<and>
    ns_reads s' = ns_reads s \<and> ns_calls s' = ns_calls s @ [CallRead ty inst]"
proof -
  have "access_call y \<noteq> CallRead ty inst" for y by (cases y) auto
  then show ?thesis
    using assms by (auto simp: Component_read_def answers_def locks_ok_def locks_of_def is_lock_def)
qed

text \<open>One access: afterwards its lock is held, and its bit, if it has one, is set.\<close>

definition access_done :: "access \<Rightarrow> net_state \<Rightarrow> bool" where
  "access_done x s \<longleftrightarrow> ns_hostLocks s ! ad_bit (access_address x) \<and> list_all (\<lambda>i. ns_reads s ! i) (access_bits x)"

definition extends_calls :: "access \<Rightarrow> net_state \<Rightarrow> net_state \<Rightarrow> bool" where
  "extends_calls x s s' \<longleftrightarrow> (\<exists>cs. ns_calls s' = ns_calls s @ cs \<and> set (filter is_lock cs) \<subseteq> {access_call x})"

lemma locked_or_taken:
  assumes ca: "answers ca" and ok: "locks_ok r l c X s" and x: "in_range r l c x" "x \<in> X"
    and apart: "\<And>y. y \<in> X \<Longrightarrow> locks_apart x y"
  shows "bit_test (ns_hostLocks s) (ad_bit (access_address x)) = Inr (ns_hostLocks s ! ad_bit (access_address x))"
    and "\<not> ns_hostLocks s ! ad_bit (access_address x) \<Longrightarrow>
      access_call x = CallReadLock (ad_rtt (access_address x)) \<Longrightarrow>
      \<exists>s'. take_readlock ca (access_address x) s = Inr s' \<and> lock_taken x s s' \<and> locks_ok r l c X s' \<and>
        ns_hostLocks s' ! ad_bit (access_address x)"
    and "\<not> ns_hostLocks s ! ad_bit (access_address x) \<Longrightarrow>
      access_call x = CallWriteLock (ad_rtt (access_address x)) \<Longrightarrow>
      \<exists>s'. take_writelock ca (access_address x) s = Inr s' \<and> lock_taken x s s' \<and> locks_ok r l c X s' \<and>
        ns_hostLocks s' ! ad_bit (access_address x)"
proof -
  show "bit_test (ns_hostLocks s) (ad_bit (access_address x)) = Inr (ns_hostLocks s ! ad_bit (access_address x))"
    using ok x by (simp add: locks_ok_def in_range_def)
  note taken = take_lock_taken [OF ca ok x(1)]
  note keep = lock_taken_ok [OF ok x apart]
  show "\<not> ns_hostLocks s ! ad_bit (access_address x) \<Longrightarrow>
      access_call x = CallReadLock (ad_rtt (access_address x)) \<Longrightarrow>
      \<exists>s'. take_readlock ca (access_address x) s = Inr s' \<and> lock_taken x s s' \<and> locks_ok r l c X s' \<and>
        ns_hostLocks s' ! ad_bit (access_address x)"
    using taken(1) keep by blast
  show "\<not> ns_hostLocks s ! ad_bit (access_address x) \<Longrightarrow>
      access_call x = CallWriteLock (ad_rtt (access_address x)) \<Longrightarrow>
      \<exists>s'. take_writelock ca (access_address x) s = Inr s' \<and> lock_taken x s s' \<and> locks_ok r l c X s' \<and>
        ns_hostLocks s' ! ad_bit (access_address x)"
    using taken(2) keep by blast
qed

lemma run_access_ok:
  assumes ca: "answers ca" and ok: "locks_ok r l c X s" and x: "in_range r l c x" "x \<in> X"
    and apart: "\<And>y. y \<in> X \<Longrightarrow> locks_apart x y"
  shows "\<exists>s'. run_access ca x s = Inr s' \<and> locks_ok r l c X s' \<and> access_done x s' \<and> extends_calls x s s'"
proof (cases "ns_hostLocks s ! ad_bit (access_address x)")
  case True
  note locked = locked_or_taken(1) [OF ca ok x apart] True
  show ?thesis
  proof (cases x)
    case (ReadInstance a inst)
    let ?i = "ad_hashBase a + unat inst"
    have i: "?i < r" "length (ns_reads s) = r" using x(1) ok ReadInstance by (simp_all add: in_range_def locks_ok_def)
    obtain s1 where s1: "Component_read ca (ad_type a) inst s = Inr s1" "locks_ok r l c X s1"
      "ns_hostLocks s1 = ns_hostLocks s" "ns_reads s1 = ns_reads s" "ns_calls s1 = ns_calls s @ [CallRead (ad_type a) inst]"
      using call_read_ok [OF ca ok] by blast
    obtain s2 where s2: "set_read s1 ?i = Inr s2" "locks_ok r l c X s2" "ns_hostLocks s2 = ns_hostLocks s1"
      "ns_reads s2 = (ns_reads s1)[?i := True]" "ns_calls s2 = ns_calls s1"
      using note_read_ok [OF s1(2) i(1)] by blast
    show ?thesis using locked ReadInstance s1 s2 i ok
      by (cases "ns_reads s ! ?i")
        (auto simp: readlock_instance_def access_done_def extends_calls_def is_lock_def)
  next
    case (WriteInstance a inst)
    let ?i = "ad_hashBase a + unat inst"
    have i: "?i < r" "length (ns_reads s) = r" using x(1) ok WriteInstance by (simp_all add: in_range_def locks_ok_def)
    obtain s2 where s2: "set_read s ?i = Inr s2" "locks_ok r l c X s2" "ns_hostLocks s2 = ns_hostLocks s"
      "ns_reads s2 = (ns_reads s)[?i := True]" "ns_calls s2 = ns_calls s"
      using note_read_ok [OF ok i(1)] by blast
    show ?thesis using locked WriteInstance s2 i
      by (simp add: writelock_instance_def access_done_def extends_calls_def locks_ok_def locks_of_def)
  qed (use locked ok in \<open>simp_all add: readlock_def writelock_def access_done_def extends_calls_def\<close>)
next
  case False
  note free = locked_or_taken [OF ca ok x apart] False
  show ?thesis
  proof (cases x)
    case (Read a)
    then show ?thesis using free(1,2,4)
      by (auto simp: readlock_def access_done_def extends_calls_def lock_taken_def)
  next
    case (Write a)
    then show ?thesis using free(1,3,4)
      by (auto simp: writelock_def access_done_def extends_calls_def lock_taken_def)
  next
    case (ReadInstance a inst)
    let ?i = "ad_hashBase a + unat inst"
    obtain s0 where s0: "take_readlock ca a s = Inr s0" "lock_taken x s s0" "locks_ok r l c X s0" "ns_hostLocks s0 ! ad_bit a"
      using free(2,4) ReadInstance by auto
    have i: "?i < r" "length (ns_reads s0) = r" using x(1) s0(3) ReadInstance by (simp_all add: in_range_def locks_ok_def)
    obtain s1 where s1: "Component_read ca (ad_type a) inst s0 = Inr s1" "locks_ok r l c X s1"
      "ns_hostLocks s1 = ns_hostLocks s0" "ns_reads s1 = ns_reads s0" "ns_calls s1 = ns_calls s0 @ [CallRead (ad_type a) inst]"
      using call_read_ok [OF ca s0(3)] by blast
    obtain s2 where s2: "set_read s1 ?i = Inr s2" "locks_ok r l c X s2" "ns_hostLocks s2 = ns_hostLocks s1"
      "ns_reads s2 = (ns_reads s1)[?i := True]" "ns_calls s2 = ns_calls s1"
      using note_read_ok [OF s1(2) i(1)] by blast
    show ?thesis using free(1,4) ReadInstance s0 s1 s2 i
      by (auto simp: readlock_instance_def access_done_def extends_calls_def lock_taken_def is_lock_def)
  next
    case (WriteInstance a inst)
    let ?i = "ad_hashBase a + unat inst"
    obtain s0 where s0: "take_writelock ca a s = Inr s0" "lock_taken x s s0" "locks_ok r l c X s0" "ns_hostLocks s0 ! ad_bit a"
      using free(3,4) WriteInstance by auto
    have i: "?i < r" "length (ns_reads s0) = r" using x(1) s0(3) WriteInstance by (simp_all add: in_range_def locks_ok_def)
    obtain s2 where s2: "set_read s0 ?i = Inr s2" "locks_ok r l c X s2" "ns_hostLocks s2 = ns_hostLocks s0"
      "ns_reads s2 = (ns_reads s0)[?i := True]" "ns_calls s2 = ns_calls s0"
      using note_read_ok [OF s0(3) i(1)] by blast
    show ?thesis using free(1,4) WriteInstance s0 s2 i
      by (auto simp: writelock_instance_def access_done_def extends_calls_def lock_taken_def locks_ok_def locks_of_def is_lock_def)
  qed
qed

section \<open>A cycle\<close>

lemma run_accesses_ok:
  assumes ca: "answers ca" and "locks_ok r l c X s" and "set xs \<subseteq> X" and "\<And>x. x \<in> X \<Longrightarrow> in_range r l c x"
    and "\<And>x y. x \<in> X \<Longrightarrow> y \<in> X \<Longrightarrow> locks_apart x y"
  shows "\<exists>s'. run_accesses ca xs s = Inr s' \<and> locks_ok r l c X s' \<and>
    set (locks_of s') = set (locks_of s) \<union> access_call ` set xs"
  using assms(2,3)
proof (induction xs arbitrary: s)
  case (Cons x xs)
  have x: "x \<in> X" using Cons.prems(2) by simp
  obtain s1 where s1: "run_access ca x s = Inr s1" "locks_ok r l c X s1" "access_done x s1" "extends_calls x s s1"
    using run_access_ok [OF ca Cons.prems(1) assms(4) [OF x] x assms(5) [OF x]] by blast
  have "access_call x \<in> set (ns_calls s1)" using s1(2,3) x by (simp add: locks_ok_def access_done_def)
  then have "access_call x \<in> set (locks_of s1)" by (simp add: locks_of_def)
  then have locks: "set (locks_of s1) = insert (access_call x) (set (locks_of s))"
    using s1(4) by (auto simp: extends_calls_def locks_of_def)
  obtain s2 where "run_accesses ca xs s1 = Inr s2" "locks_ok r l c X s2"
    "set (locks_of s2) = set (locks_of s1) \<union> access_call ` set xs"
    using Cons.IH [OF s1(2)] Cons.prems(2) by auto
  with s1(1) locks show ?case by auto
qed simp

lemma cycle_start_ok:
  assumes "\<And>x. x \<in> X \<Longrightarrow> in_range r l c x"
  shows "locks_ok r l c X (cycle_start r l c)"
  using assms by (auto simp: locks_ok_def cycle_start_def locks_of_def in_range_def)

text \<open>Over the accesses of a cycle, reads and writes in any order, no bit is out of range, and a
  component asks each other one at most once for each kind of lock, exactly for those it accesses.\<close>

lemma locks_taken_once:
  assumes "answers ca" and "\<And>x. x \<in> set xs \<Longrightarrow> in_range reads locks cycles x"
    and "\<And>x y. x \<in> set xs \<Longrightarrow> y \<in> set xs \<Longrightarrow> locks_apart x y"
  shows "\<exists>s. run_accesses ca xs (cycle_start reads locks cycles) = Inr s \<and> distinct (locks_of s) \<and>
    set (locks_of s) = access_call ` set xs"
proof -
  have start: "locks_ok reads locks cycles (set xs) (cycle_start reads locks cycles)"
    by (rule cycle_start_ok) (rule assms(2))
  have run: "\<exists>s'. run_accesses ca xs (cycle_start reads locks cycles) = Inr s' \<and> locks_ok reads locks cycles (set xs) s' \<and>
      set (locks_of s') = set (locks_of (cycle_start reads locks cycles)) \<union> access_call ` set xs"
    by (rule run_accesses_ok [OF assms(1) start subset_refl]) (use assms(2,3) in auto)
  moreover have "locks_of (cycle_start reads locks cycles) = []" by (simp add: locks_of_def cycle_start_def)
  ultimately show ?thesis
    by (auto simp: locks_ok_def)
qed

text \<open>Reads of instances: a bit stands for one instance of one data member of one host.\<close>

fun instance_of :: "access \<Rightarrow> (u32 \<times> u32) list" where
  "instance_of (ReadInstance a inst) = [(ad_type a, inst)]"
| "instance_of _ = []"

definition is_read :: "access \<Rightarrow> bool" where
  "is_read x = (case x of Read _ \<Rightarrow> True | ReadInstance _ _ \<Rightarrow> True | _ \<Rightarrow> False)"

definition bits_apart :: "access \<Rightarrow> access \<Rightarrow> bool" where
  "bits_apart x y \<longleftrightarrow>
     list_all (\<lambda>i. list_all (\<lambda>j. (i = j \<longleftrightarrow> instance_of x = instance_of y) \<and>
       (i = j \<longrightarrow> ad_bit (access_address x) = ad_bit (access_address y))) (access_bits y)) (access_bits x)"

definition reads_ok :: "access set \<Rightarrow> net_state \<Rightarrow> bool" where
  "reads_ok X s \<longleftrightarrow> distinct (reads_of s) \<and>
     (\<forall>x \<in> X. \<forall>e \<in> set (instance_of x). \<forall>i \<in> set (access_bits x).
        (ns_reads s ! i \<longleftrightarrow> e \<in> set (reads_of s)) \<and> (ns_reads s ! i \<longrightarrow> ns_hostLocks s ! ad_bit (access_address x)))"

lemma update_true: "bs ! i \<Longrightarrow> bs[i := True] = bs"
  by (metis (full_types) list_update_id)

lemma take_readlock_effect:
  assumes "take_readlock ca a s = Inr s'"
  shows "ns_reads s' = ns_reads s \<and> reads_of s' = reads_of s \<and> ns_hostLocks s' = (ns_hostLocks s)[ad_bit a := True]"
  using assms
  by (auto simp: take_readlock_def Component_readlock_def set_cycle_def set_hostLock_def bit_set_def reads_of_def
      andThen_eq_Inr split: if_splits)

lemma readlock_effect:
  assumes "readlock ca a s = Inr s'"
  shows "ns_reads s' = ns_reads s \<and> reads_of s' = reads_of s \<and> ns_hostLocks s' = (ns_hostLocks s)[ad_bit a := True]"
proof (cases "ns_hostLocks s ! ad_bit a")
  case True
  then show ?thesis using assms
    by (auto simp: readlock_def bit_test_def andThen_eq_Inr update_true split: if_splits)
next
  case False
  then show ?thesis using assms take_readlock_effect
    by (auto simp: readlock_def bit_test_def andThen_eq_Inr split: if_splits)
qed

lemma readlock_instance_effect:
  assumes "readlock_instance ca a inst s = Inr s'"
  shows "ns_hostLocks s' = (ns_hostLocks s)[ad_bit a := True] \<and>
    (if ns_hostLocks s ! ad_bit a \<and> ns_reads s ! (ad_hashBase a + unat inst)
     then ns_reads s' = ns_reads s \<and> reads_of s' = reads_of s
     else ns_reads s' = (ns_reads s)[ad_hashBase a + unat inst := True] \<and>
       reads_of s' = reads_of s @ [(ad_type a, inst)])"
proof (cases "ns_hostLocks s ! ad_bit a")
  case True
  then show ?thesis using assms
    by (auto simp: readlock_instance_def bit_test_def bit_set_def Component_read_def set_read_def reads_of_def
        andThen_eq_Inr update_true split: if_splits)
next
  case False
  then obtain s1 where "take_readlock ca a s = Inr s1"
    and "andThen (Component_read ca (ad_type a) inst s1) (\<lambda>s2. set_read s2 (ad_hashBase a + unat inst)) = Inr s'"
    using assms by (auto simp: readlock_instance_def bit_test_def andThen_eq_Inr split: if_splits)
  then show ?thesis using False take_readlock_effect [of ca a s s1]
    by (auto simp: bit_set_def Component_read_def set_read_def reads_of_def andThen_eq_Inr split: if_splits)
qed

lemma nth_update_mono: "bs ! j \<Longrightarrow> bs[k := True] ! j"
  by (cases "k < length bs") (auto simp: nth_list_update list_update_beyond)

lemma run_read_ok:
  assumes ok: "reads_ok X s" and run: "run_access ca x s = Inr s'" and x: "is_read x" "x \<in> X" "in_range r l c x"
    and lengths: "length (ns_reads s) = r" "length (ns_hostLocks s) = l"
    and apart: "\<And>y. y \<in> X \<Longrightarrow> bits_apart x y"
  shows "reads_ok X s' \<and> set (reads_of s') = set (reads_of s) \<union> set (instance_of x)"
proof (cases x)
  case (Read a)
  then have "ns_reads s' = ns_reads s \<and> reads_of s' = reads_of s \<and> ns_hostLocks s' = (ns_hostLocks s)[ad_bit a := True]"
    using run by (intro readlock_effect) simp
  then show ?thesis using ok Read by (auto simp: reads_ok_def intro: nth_update_mono)
next
  case (ReadInstance a inst)
  let ?i = "ad_hashBase a + unat inst" and ?e = "(ad_type a, inst)"
  have i: "?i < r" and b: "ad_bit a < l" using x(3) ReadInstance by (simp_all add: in_range_def)
  have effect: "ns_hostLocks s' = (ns_hostLocks s)[ad_bit a := True] \<and>
      (if ns_hostLocks s ! ad_bit a \<and> ns_reads s ! ?i then ns_reads s' = ns_reads s \<and> reads_of s' = reads_of s
       else ns_reads s' = (ns_reads s)[?i := True] \<and> reads_of s' = reads_of s @ [?e])"
    using run ReadInstance by (intro readlock_instance_effect) simp
  have own: "ns_reads s ! ?i \<longleftrightarrow> ?e \<in> set (reads_of s)" "ns_reads s ! ?i \<longrightarrow> ns_hostLocks s ! ad_bit a"
    using ok x(2) ReadInstance by (force simp: reads_ok_def)+
  show ?thesis
  proof (cases "ns_reads s ! ?i")
    case True
    then show ?thesis using effect own ok ReadInstance by (auto simp: reads_ok_def update_true)
  next
    case False
    then have new: "ns_reads s' = (ns_reads s)[?i := True]" "reads_of s' = reads_of s @ [?e]"
      "ns_hostLocks s' = (ns_hostLocks s)[ad_bit a := True]"
      using effect by simp_all
    have "(ns_reads s' ! j \<longleftrightarrow> e \<in> set (reads_of s')) \<and> (ns_reads s' ! j \<longrightarrow> ns_hostLocks s' ! ad_bit (access_address y))"
      if y: "y \<in> X" "e \<in> set (instance_of y)" "j \<in> set (access_bits y)" for y e j
    proof -
      have inst: "instance_of y = [e]" using y(2) by (cases y) auto
      have "(?i = j \<longleftrightarrow> [?e] = instance_of y) \<and> (?i = j \<longrightarrow> ad_bit a = ad_bit (access_address y))"
        using apart [OF y(1)] y(3) ReadInstance by (auto simp: bits_apart_def list_all_iff)
      then have apart': "?i = j \<longleftrightarrow> ?e = e" "?i = j \<longrightarrow> ad_bit a = ad_bit (access_address y)" using inst by auto
      have old: "(ns_reads s ! j \<longleftrightarrow> e \<in> set (reads_of s)) \<and> (ns_reads s ! j \<longrightarrow> ns_hostLocks s ! ad_bit (access_address y))"
        using ok y by (force simp: reads_ok_def)
      show ?thesis
      proof (cases "?i = j")
        case True
        then show ?thesis using apart' new i b lengths by auto
      next
        case False
        then show ?thesis using apart' new old by (auto intro: nth_update_mono)
      qed
    qed
    moreover have "distinct (reads_of s')" using ok own False new by (auto simp: reads_ok_def)
    ultimately show ?thesis using new ReadInstance by (auto simp: reads_ok_def)
  qed
qed (use x in \<open>simp_all add: is_read_def\<close>)

lemma run_reads_ok:
  assumes ca: "answers ca" and "locks_ok r l c X s" and "reads_ok X s" and "set xs \<subseteq> X" and "list_all is_read xs"
    and "\<And>x. x \<in> X \<Longrightarrow> in_range r l c x"
    and "\<And>x y. x \<in> X \<Longrightarrow> y \<in> X \<Longrightarrow> locks_apart x y" and "\<And>x y. x \<in> X \<Longrightarrow> y \<in> X \<Longrightarrow> bits_apart x y"
  shows "\<exists>s'. run_accesses ca xs s = Inr s' \<and> reads_ok X s' \<and>
    set (reads_of s') = set (reads_of s) \<union> (\<Union>x \<in> set xs. set (instance_of x))"
  using assms(2-5)
proof (induction xs arbitrary: s)
  case (Cons x xs)
  have x: "x \<in> X" "is_read x" using Cons.prems by simp_all
  obtain s1 where s1: "run_access ca x s = Inr s1" "locks_ok r l c X s1"
    using run_access_ok [OF ca Cons.prems(1) assms(6) [OF x(1)] x(1) assms(7) [OF x(1)]] by blast
  have r1: "reads_ok X s1 \<and> set (reads_of s1) = set (reads_of s) \<union> set (instance_of x)"
    by (rule run_read_ok [OF Cons.prems(2) s1(1) x(2,1) assms(6) [OF x(1)] _ _ assms(8) [OF x(1)]])
      (use Cons.prems(1) in \<open>simp_all add: locks_ok_def\<close>)
  obtain s2 where "run_accesses ca xs s1 = Inr s2" "reads_ok X s2"
    "set (reads_of s2) = set (reads_of s1) \<union> (\<Union>x \<in> set xs. set (instance_of x))"
    using Cons.IH [OF s1(2)] r1 Cons.prems(3,4) by auto
  with s1(1) r1 show ?case by auto
qed simp

text \<open>Over the reads of a cycle, in any order and with repetitions, a component fetches every instance of
  another component that it reads exactly once.\<close>

lemma instances_read_once:
  assumes "answers ca" and "list_all is_read xs" and "\<And>x. x \<in> set xs \<Longrightarrow> in_range reads locks cycles x"
    and "\<And>x y. x \<in> set xs \<Longrightarrow> y \<in> set xs \<Longrightarrow> locks_apart x y"
    and "\<And>x y. x \<in> set xs \<Longrightarrow> y \<in> set xs \<Longrightarrow> bits_apart x y"
  shows "\<exists>s. run_accesses ca xs (cycle_start reads locks cycles) = Inr s \<and> distinct (reads_of s) \<and>
    set (reads_of s) = (\<Union>x \<in> set xs. set (instance_of x))"
proof -
  have start: "locks_ok reads locks cycles (set xs) (cycle_start reads locks cycles)"
    by (rule cycle_start_ok) (rule assms(3))
  have bits: "i < reads" if "x \<in> set xs" "i \<in> set (access_bits x)" for x i
    using assms(3) [OF that(1)] that(2) by (simp add: in_range_def list_all_iff)
  have "reads_ok (set xs) (cycle_start reads locks cycles)"
    using bits by (auto simp: reads_ok_def reads_of_def cycle_start_def)
  then have "\<exists>s'. run_accesses ca xs (cycle_start reads locks cycles) = Inr s' \<and> reads_ok (set xs) s' \<and>
      set (reads_of s') = set (reads_of (cycle_start reads locks cycles)) \<union> (\<Union>x \<in> set xs. set (instance_of x))"
    by (rule run_reads_ok [OF assms(1) start _ subset_refl assms(2)]) (use assms(3-5) in auto)
  moreover have "reads_of (cycle_start reads locks cycles) = []" by (simp add: reads_of_def cycle_start_def)
  ultimately show ?thesis by (auto simp: reads_ok_def)
qed

text \<open>An instance that has been written is fetched again when it is the first that is read of its host in
  the cycle, although its bit says that it need not be.\<close>

lemma fetch_after_write:
  assumes "answers ca" and "in_range reads locks cycles (WriteInstance w inst)"
    and "in_range reads locks cycles (ReadInstance a inst)" and "ad_bit a \<noteq> ad_bit w"
    and "ad_hashBase a = ad_hashBase w" and "ad_rtt a = ad_rtt w" and "ad_type a = ad_type w"
  shows "\<exists>s. run_accesses ca [WriteInstance w inst, ReadInstance a inst] (cycle_start reads locks cycles) = Inr s \<and>
    ns_calls s = [CallWriteLock (ad_rtt w), CallReadLock (ad_rtt w), CallRead (ad_type w) inst] \<and>
    (inst, ad_type w) \<in> ns_writes s (ad_rtt w)"
proof -
  have total: "\<exists>ts. ca_readlock ca cs ty = Inr ts" "ca_read ca cs ty i = Inr ()" "\<exists>ts. ca_writelock ca cs ty = Inr ts"
    for cs ty i using assms(1) unfolding answers_def by blast+
  obtain ts where ts: "ca_writelock ca [] (ad_rtt w) = Inr ts" using total(3) by blast
  obtain ts' where ts': "ca_readlock ca [CallWriteLock (ad_rtt w)] (ad_rtt w) = Inr ts'" using total(1) by blast
  show ?thesis
    using assms(2-7) ts ts' total(2)
    by (simp add: in_range_def cycle_start_def writelock_instance_def readlock_instance_def take_writelock_def
        take_readlock_def Component_writelock_def Component_readlock_def Component_read_def set_cycle_def
        set_hostLock_def set_read_def)
qed

end
