(* ===== verification/Component_Writes.thy ===== *)
theory Component_Writes
  imports Component_Traits Component_Codec Traits_Properties
begin

text \<open>
  What the source of a component does that \<open>generate_eg_component\<close> in \<open>src/src/generators/generator.cpp\<close>
  writes, as far as it concerns the data of other components: \<open>encode\<close>, \<open>decode\<close>,
  \<open>completeSimulationLocks\<close>, which sends the writes of a cycle to their owners, and \<open>decodeWriteRequest\<close>,
  with which an owner takes them.

  The texts of \<open>generateEncode\<close> and \<open>generateDecode\<close> come from the compiler: a \<open>member_code\<close> is what they do for a
  data member.  A \<open>program_code\<close> says which labels the switches have.
\<close>

datatype action_state = action_stopped | action_running | action_paused | TOTAL_ACTION_STATES

record ('o, 'x) member_code =
  mc_encode :: "'x \<Rightarrow> 'o list result"
  mc_decode :: "'o list \<Rightarrow> ('x \<times> 'o list) result"

text \<open>A label of \<open>decodeWriteRequest\<close>: the state of an action of this component, with whether it has a
  definition, the type of its reference and its index, or a state that is not in the process.\<close>

datatype state_case = OwnState bool u32 u32 | ForeignState

record ('o, 'x) program_code =
  pc_action :: "u32 \<Rightarrow> bool"
  pc_member :: "u32 \<Rightarrow> ('o, 'x) member_code option"
  pc_state :: "u32 \<Rightarrow> state_case option"
  pc_stateOf :: "'x \<Rightarrow> action_state"

text \<open>The calls of the scheduler, with the reference of the action, and the action for its stopper.\<close>

datatype 'x scheduler_call =
  Scheduler_call 'x u32 | Scheduler_allocated_ref 'x u32 | Scheduler_pause_ref 'x | Scheduler_unpause_ref 'x |
  Scheduler_stopperStopped 'x

text \<open>The buffers of the component, by the type of a data member and the instance.\<close>

record 'x component_data =
  cd_store :: "u32 \<times> u32 \<Rightarrow> 'x"
  cd_calls :: "'x scheduler_call list"

section \<open>Reading and writing a value\<close>

definition encode_case :: "('o, 'x) program_code \<Rightarrow> (u32 \<times> u32 \<Rightarrow> 'x) \<Rightarrow> u32 \<Rightarrow> u32 \<Rightarrow> 'o list result" where
  "encode_case pc store iType uiInstance =
     (if pc_action pc iType then Inr []
      else case pc_member pc iType of
        None \<Rightarrow> Inl (Rte ''encode error: unknown type: '')
      | Some m \<Rightarrow> mc_encode m (store (iType, uiInstance)))"

definition decode_case ::
  "('o, 'x) program_code \<Rightarrow> u32 \<Rightarrow> u32 \<Rightarrow> 'x component_data \<times> 'o list \<Rightarrow> ('x component_data \<times> 'o list) result" where
  "decode_case pc iType uiInstance s =
     (if pc_action pc iType then Inr s
      else case pc_member pc iType of
        None \<Rightarrow> Inl (Rte ''decode error: unknown type: '')
      | Some m \<Rightarrow>
          andThen (mc_decode m (snd s)) (\<lambda>(x, os).
            Inr ((fst s)\<lparr>cd_store := (cd_store (fst s))((iType, uiInstance) := x)\<rparr>, os)))"

section \<open>The end of a cycle\<close>

text \<open>A write set in its order: the comparison of \<open>TypeInstance\<close> is not in the repository.\<close>

fun encode_writes ::
  "('o, 'v) msgpack \<Rightarrow> ('o, 'x) program_code \<Rightarrow> (u32 \<times> u32 \<Rightarrow> 'x) \<Rightarrow> (u32 \<times> u32) list \<Rightarrow> 'o list result" where
  "encode_writes mp pc store [] = Inr []"
| "encode_writes mp pc store ((inst, ty) # ws) =
     andThen (encode_case pc store ty inst) (\<lambda>os.
     andThen (encode_writes mp pc store ws) (\<lambda>rest.
       Inr (mp_pack_type mp ty # mp_pack_u32 mp inst # os @ rest)))"

text \<open>The hosts with the bit of their write lock and the type of their root; a message for each that is locked.\<close>

fun send_writes ::
  "('o, 'v) msgpack \<Rightarrow> ('o, 'x) program_code \<Rightarrow> ((u32 \<times> u32) set \<Rightarrow> (u32 \<times> u32) list) \<Rightarrow> (u32 \<times> u32 \<Rightarrow> 'x)
   \<Rightarrow> (nat \<times> u32) list \<Rightarrow> net_state \<Rightarrow> (u32 \<times> 'o list) list result" where
  "send_writes mp pc in_order store [] s = Inr []"
| "send_writes mp pc in_order store ((b, rtt) # hs) s =
     andThen (bit_test (ns_hostLocks s) b) (\<lambda>locked.
     andThen (if locked
              then andThen (encode_writes mp pc store (in_order (ns_writes s rtt))) (\<lambda>os. Inr [(rtt, os)])
              else Inr []) (\<lambda>ms.
     andThen (send_writes mp pc in_order store hs s) (\<lambda>rest. Inr (ms @ rest))))"

definition completeSimulationLocks ::
  "('o, 'v) msgpack \<Rightarrow> ('o, 'x) program_code \<Rightarrow> ((u32 \<times> u32) set \<Rightarrow> (u32 \<times> u32) list) \<Rightarrow> (u32 \<times> u32 \<Rightarrow> 'x)
   \<Rightarrow> (nat \<times> u32) list \<Rightarrow> net_state \<Rightarrow> ((u32 \<times> 'o list) list \<times> net_state) result" where
  "completeSimulationLocks mp pc in_order store hs s =
     andThen (send_writes mp pc in_order store hs s) (\<lambda>ms.
       Inr (ms, s\<lparr>ns_reads := replicate (length (ns_reads s)) False,
                  ns_hostLocks := replicate (length (ns_hostLocks s)) False,
                  ns_writes := (\<lambda>rtt. if rtt \<in> snd ` set hs then {} else ns_writes s rtt)\<rparr>))"

section \<open>A write request\<close>

text \<open>What the scheduler is told when the state of an action has changed.\<close>

fun state_calls :: "bool \<Rightarrow> u32 \<Rightarrow> 'x \<Rightarrow> action_state \<Rightarrow> action_state \<Rightarrow> 'x scheduler_call list" where
  "state_calls def a r action_stopped action_running =
     [if def then Scheduler_call r a else Scheduler_allocated_ref r a]"
| "state_calls def a r action_stopped action_paused =
     [if def then Scheduler_call r a else Scheduler_allocated_ref r a, Scheduler_pause_ref r]"
| "state_calls def a r action_running action_stopped = [Scheduler_stopperStopped r]"
| "state_calls def a r action_running action_paused = [Scheduler_pause_ref r]"
| "state_calls def a r action_paused action_stopped = [Scheduler_stopperStopped r]"
| "state_calls def a r action_paused action_running = [Scheduler_unpause_ref r]"
| "state_calls def a r _ _ = []"

text \<open>An error is only logged for a state that is not in the process: its value is not read.\<close>

definition decode_write_case ::
  "('o, 'x) program_code \<Rightarrow> u32 \<Rightarrow> u32 \<Rightarrow> 'x component_data \<times> 'o list \<Rightarrow> ('x component_data \<times> 'o list) result" where
  "decode_write_case pc ty inst s =
     (case pc_state pc ty of
        None \<Rightarrow> decode_case pc ty inst s
      | Some ForeignState \<Rightarrow> Inr s
      | Some (OwnState def ref_ty a) \<Rightarrow>
          (let previousState = pc_stateOf pc (cd_store (fst s) (ty, inst)) in
           andThen (decode_case pc ty inst s) (\<lambda>(d, os).
             Inr (d\<lparr>cd_calls := cd_calls d @ state_calls def a (cd_store d (ref_ty, inst)) previousState
                      (pc_stateOf pc (cd_store d (ty, inst)))\<rparr>, os))))"

partial_function (option) decodeWriteRequest ::
  "('o, 'v) msgpack \<Rightarrow> ('o, 'x) program_code \<Rightarrow> 'o list \<Rightarrow> 'x component_data \<Rightarrow> 'x component_data result option" where
  "decodeWriteRequest mp pc os d =
     (case os of
        [] \<Rightarrow> Some (Inr d)
      | ob # os1 \<Rightarrow>
          (case mp_convert_type mp ob of
             None \<Rightarrow> Some (Inl (Rte ''type_error''))
           | Some ty \<Rightarrow>
               (case decode_object (mp_convert_u32 mp) os1 of
                  Inl e \<Rightarrow> Some (Inl e)
                | Inr (inst, os2) \<Rightarrow>
                    (case decode_write_case pc ty inst (d, os2) of
                       Inl e \<Rightarrow> Some (Inl e)
                     | Inr (d', os3) \<Rightarrow> decodeWriteRequest mp pc os3 d'))))"

end
