(* ===== verification/Codec_Properties.thy ===== *)
theory Codec_Properties
  imports Component_Codec
begin

text \<open>
  Each decoder of \<open>traits.hpp\<close> undoes its encoder: one contract, \<open>codec\<close>, that every pair of functions keeps,
  and what follows for the dimensions of a program.
\<close>

section \<open>The contract\<close>

locale codec =
  fixes enc :: "('o, 'v) msgpack \<Rightarrow> 'x \<Rightarrow> 'o list result"
    and dec :: "('o, 'v) msgpack \<Rightarrow> 'o list \<Rightarrow> ('x \<times> 'o list) result"
    and ok :: "'x \<Rightarrow> bool"
  assumes decode_encode:
    "msgpack_laws mp \<Longrightarrow> ok x \<Longrightarrow> enc mp x = Inr os \<Longrightarrow> dec mp (os @ rest) = Inr (x, rest)"
begin

text \<open>So no encoding is the begin of another one: a value is found again whatever follows it.\<close>

lemma prefix_free:
  assumes "msgpack_laws mp" and "ok x" and "ok y" and "enc mp x = Inr os" and "enc mp y = Inr os'"
    and "os @ rest = os' @ rest'"
  shows "x = y \<and> rest = rest'"
  using decode_encode [OF assms(1,2,4), of rest] decode_encode [OF assms(1,3,5), of rest'] assms(6) by simp

end

lemma decode_object_Cons [simp]:
  "convert ob = Some x \<Longrightarrow> decode_object convert (ob # rest) = Inr (x, rest)"
  by (simp add: decode_object_def)

lemma bitset_round: "bitset_of (length bs) (bitset_value bs) = bs"
  by (rule nth_equalityI) (simp_all add: bitset_of_def bitset_value_def bit_horner_sum_bit_iff)

lemma bitset_bound: "bitset_value bs < 2 ^ length bs"
  by (simp add: bitset_value_def horner_sum_bound)

interpretation plain: codec "\<lambda>mp v. Inr [mp_pack mp v]" "\<lambda>mp. decode_object (mp_convert mp)" "\<lambda>_. True"
  by unfold_locales (auto simp: msgpack_laws_def)

interpretation action_state: codec "\<lambda>mp s. Inr (encode_ActionState mp s)" decode_ActionState "\<lambda>s. 0 \<le> s \<and> s < 256"
  by unfold_locales
    (auto simp: msgpack_laws_def encode_ActionState_def decode_ActionState_def uint_word_of_int take_bit_int_eq_self)

interpretation reference: codec "\<lambda>mp r. Inr (encode_reference mp r)" decode_reference "\<lambda>_. True"
  by unfold_locales (auto simp: msgpack_laws_def encode_reference_def decode_reference_def)

interpretation bitmask32: codec encode_bitmask32 "\<lambda>mp. decode_bitmask32 mp n" "\<lambda>bs. length bs = n" for n
  by unfold_locales
    (auto simp: msgpack_laws_def encode_bitmask32_def decode_bitmask32_def unat_of_nat bitset_round split: if_splits)

interpretation bitmask64: codec encode_bitmask64 "\<lambda>mp. decode_bitmask64 mp n" "\<lambda>bs. length bs = n" for n
  by unfold_locales
    (auto simp: msgpack_laws_def encode_bitmask64_def decode_bitmask64_def unat_of_nat bitset_round split: if_splits)

interpretation ring: codec "\<lambda>mp r. Inr (encode_ring mp r)" "\<lambda>mp. decode_ring mp n" "\<lambda>r. length (ra_ring r) = n" for n
  by unfold_locales (auto simp: msgpack_laws_def encode_ring_def decode_ring_def)

section \<open>Dimensions\<close>

fun_cases has_typeE: "has_type v ty"

lemma typed_as_Inr [simp]: "typed_as f (Inr (x, os)) = Inr (f x, os)"
  by (simp add: typed_as_def)

lemma dimension_decode_encode:
  assumes laws: "msgpack_laws mp" and "has_type v ty" and "DimensionTraits_encode mp ty v = Inr os"
  shows "DimensionTraits_decode mp ty (os @ rest) = Inr (v, rest)"
  using assms(2,3)
  by (elim has_typeE)
    (auto simp: plain.decode_encode [OF laws, simplified] action_state.decode_encode [OF laws] reference.decode_encode [OF laws]
      bitmask32.decode_encode [OF laws] bitmask64.decode_encode [OF laws] ring.decode_encode [OF laws])

interpretation dimension: codec "\<lambda>mp. DimensionTraits_encode mp ty" "\<lambda>mp. DimensionTraits_decode mp ty" "\<lambda>v. has_type v ty"
  for ty
  by unfold_locales (rule dimension_decode_encode)

text \<open>C29.  A value that can be encoded for a dimension is decoded from the begin of a message to itself, with what
  follows left over, and a set of bits can be encoded when it has no more bits than the integer.\<close>

theorem dimension_roundtrip:
  assumes "msgpack_laws mp" and "has_type v ty"
  shows "(\<forall>os rest. DimensionTraits_encode mp ty v = Inr os \<longrightarrow> DimensionTraits_decode mp ty (os @ rest) = Inr (v, rest)) \<and>
    ((case ty of T_bitmask32 n \<Rightarrow> n \<le> 32 | T_bitmask64 n \<Rightarrow> n \<le> 64 | _ \<Rightarrow> True) \<longrightarrow>
      (\<exists>os. DimensionTraits_encode mp ty v = Inr os))"
proof -
  have fits: "bitset_value bs < 2 ^ k" if "length bs \<le> k" for bs k
    using bitset_bound [of bs] power_increasing [OF that, of "2 :: nat"] by linarith
  have "\<exists>os. DimensionTraits_encode mp ty v = Inr os"
    if "case ty of T_bitmask32 n \<Rightarrow> n \<le> 32 | T_bitmask64 n \<Rightarrow> n \<le> 64 | _ \<Rightarrow> True"
    using assms(2) that fits [of _ 32] fits [of _ 64]
    by (elim has_typeE) (auto simp: encode_bitmask32_def encode_bitmask64_def)
  then show ?thesis using dimension_decode_encode [OF assms] by simp
qed

end
