(* ===== verification/Writes_Properties.thy ===== *)
theory Writes_Properties
  imports Component_Writes Codec_Properties
begin

text \<open>
  The writes of a component arrive: what it has written in a cycle to the data of another component is
  sent at the end of the cycle, and the owner ends with the same values.
\<close>

section \<open>One request\<close>

text \<open>A value that the writer can encode for a data member and the owner can decode.\<close>

definition transferable :: "('o, 'x) program_code \<Rightarrow> ('o, 'x) program_code \<Rightarrow> u32 \<Rightarrow> 'x \<Rightarrow> bool" where
  "transferable writer owner ty x \<longleftrightarrow>
     \<not> pc_action writer ty \<and> \<not> pc_action owner ty \<and> pc_state owner ty \<noteq> Some ForeignState \<and>
     (\<exists>m m' os. pc_member writer ty = Some m \<and> pc_member owner ty = Some m' \<and> mc_encode m x = Inr os \<and>
        (\<forall>rest. mc_decode m' (os @ rest) = Inr (x, rest)))"

text \<open>What a write does to the data of its owner.\<close>

definition apply_write ::
  "('o, 'x) program_code \<Rightarrow> (u32 \<times> u32 \<Rightarrow> 'x) \<Rightarrow> u32 \<times> u32 \<Rightarrow> 'x component_data \<Rightarrow> 'x component_data" where
  "apply_write owner store w d =
     (case w of (inst, ty) \<Rightarrow>
        (let d' = d\<lparr>cd_store := (cd_store d)((ty, inst) := store (ty, inst))\<rparr> in
         case pc_state owner ty of
           Some (OwnState def ref_ty a) \<Rightarrow>
             d'\<lparr>cd_calls := cd_calls d' @ state_calls def a (cd_store d' (ref_ty, inst))
                  (pc_stateOf owner (cd_store d (ty, inst))) (pc_stateOf owner (store (ty, inst)))\<rparr>
         | _ \<Rightarrow> d'))"

lemma apply_write_store [simp]:
  "cd_store (apply_write owner store (inst, ty) d) = (cd_store d)((ty, inst) := store (ty, inst))"
  by (simp add: apply_write_def Let_def split: option.split state_case.split)

lemma apply_writes_store:
  "cd_store (fold (apply_write owner store) ws d) k =
     (if k \<in> (\<lambda>(inst, ty). (ty, inst)) ` set ws then store k else cd_store d k)"
proof (induction ws arbitrary: d)
  case (Cons w ws)
  then show ?case by (cases w) auto
qed simp

lemma encode_writes_all:
  assumes "\<And>inst ty. (inst, ty) \<in> set ws \<Longrightarrow> \<exists>os. encode_case writer store ty inst = Inr os"
  shows "\<exists>os. encode_writes mp writer store ws = Inr os"
  using assms
proof (induction ws)
  case (Cons w ws)
  obtain inst ty where w: "w = (inst, ty)" by (cases w)
  have "\<exists>os. encode_writes mp writer store ws = Inr os" by (rule Cons.IH) (use Cons.prems in auto)
  then show ?case using Cons.prems [of inst ty] by (auto simp: w)
qed simp

lemma decode_write_case_transfer:
  assumes "transferable writer owner ty (store (ty, inst))"
  shows "\<exists>os. encode_case writer store ty inst = Inr os \<and>
    decode_write_case owner ty inst (d, os @ rest) = Inr (apply_write owner store (inst, ty) d, rest)"
  using assms
  by (auto simp: transferable_def encode_case_def decode_write_case_def decode_case_def apply_write_def Let_def
      split: option.split state_case.split)

lemma decode_encoded_writes:
  assumes laws: "msgpack_laws mp"
    and "\<And>inst ty. (inst, ty) \<in> set ws \<Longrightarrow> transferable writer owner ty (store (ty, inst))"
    and "encode_writes mp writer store ws = Inr os"
  shows "decodeWriteRequest mp owner os d = Some (Inr (fold (apply_write owner store) ws d))"
  using assms(2,3)
proof (induction ws arbitrary: os d)
  case Nil
  then show ?case by (simp add: decodeWriteRequest.simps)
next
  case (Cons w ws)
  obtain inst ty where w: "w = (inst, ty)" by (cases w)
  obtain vs rest where vs: "encode_case writer store ty inst = Inr vs" and rest: "encode_writes mp writer store ws = Inr rest"
    and os: "os = mp_pack_type mp ty # mp_pack_u32 mp inst # vs @ rest"
    using Cons.prems(2) by (auto simp: w andThen_eq_Inr)
  have step: "decode_write_case owner ty inst (d, vs @ rest) = Inr (apply_write owner store (inst, ty) d, rest)"
    using decode_write_case_transfer [where store = store, OF Cons.prems(1) [of inst ty], of d rest] vs by (auto simp: w)
  have conv: "mp_convert_type mp (mp_pack_type mp ty) = Some ty" "mp_convert_u32 mp (mp_pack_u32 mp inst) = Some inst"
    using laws by (simp_all add: msgpack_laws_def)
  have "decodeWriteRequest mp owner os d = decodeWriteRequest mp owner rest (apply_write owner store (inst, ty) d)"
    by (subst decodeWriteRequest.simps) (simp add: os conv step)
  also have "\<dots> = Some (Inr (fold (apply_write owner store) ws (apply_write owner store (inst, ty) d)))"
    by (rule Cons.IH [OF _ rest]) (use Cons.prems(1) in auto)
  finally show ?case by (simp add: w)
qed

section \<open>A cycle\<close>

text \<open>The instances that the accesses of a cycle write in a host.\<close>

definition written :: "access list \<Rightarrow> u32 \<Rightarrow> (u32 \<times> u32) set" where
  "written xs rtt = {(inst, ad_type a) | a inst. WriteInstance a inst \<in> set xs \<and> ad_rtt a = rtt}"

lemma take_lock_writes:
  "take_readlock ca a s = Inr s' \<Longrightarrow> ns_writes s' = ns_writes s"
  "take_writelock ca a s = Inr s' \<Longrightarrow> ns_writes s' = ns_writes s"
  by (auto simp: take_readlock_def take_writelock_def Component_readlock_def Component_writelock_def set_cycle_def
      set_hostLock_def andThen_eq_Inr split: if_splits)

lemma run_access_writes:
  assumes "run_access ca x s = Inr s'"
  shows "ns_writes s' = (\<lambda>rtt. ns_writes s rtt \<union> written [x] rtt)"
  using assms
  by (cases x)
    (auto simp: written_def readlock_def readlock_instance_def writelock_def writelock_instance_def Component_read_def
      set_read_def andThen_eq_Inr take_lock_writes fun_eq_iff split: if_splits)

lemma run_accesses_writes:
  "run_accesses ca xs s = Inr s' \<Longrightarrow> ns_writes s' = (\<lambda>rtt. ns_writes s rtt \<union> written xs rtt)"
proof (induction xs arbitrary: s)
  case Nil
  then show ?case by (simp add: written_def)
next
  case (Cons x xs)
  obtain s1 where s1: "run_access ca x s = Inr s1" "run_accesses ca xs s1 = Inr s'"
    using Cons.prems by (auto simp: andThen_eq_Inr)
  have "written (x # xs) rtt = written [x] rtt \<union> written xs rtt" for rtt by (auto simp: written_def)
  then show ?case using Cons.IH [OF s1(2)] run_access_writes [OF s1(1)] by (simp add: Un_assoc)
qed

text \<open>Sending succeeds when the values can be transferred, with one message for each locked host.\<close>

lemma send_writes_ok:
  assumes "\<And>b rtt. (b, rtt) \<in> set hs \<Longrightarrow> b < length (ns_hostLocks s)"
    and "\<And>b rtt. (b, rtt) \<in> set hs \<Longrightarrow> \<exists>os. encode_writes mp writer store (in_order (ns_writes s rtt)) = Inr os"
    and "distinct (map snd hs)"
  shows "\<exists>ms. send_writes mp writer in_order store hs s = Inr ms \<and> fst ` set ms \<subseteq> snd ` set hs \<and>
    (\<forall>(b, rtt) \<in> set hs. map_of ms rtt =
       (if ns_hostLocks s ! b then Some (projr (encode_writes mp writer store (in_order (ns_writes s rtt)))) else None))"
  using assms
proof (induction hs)
  case (Cons h hs)
  obtain b rtt where h: "h = (b, rtt)" by (cases h)
  have "\<exists>ms. send_writes mp writer in_order store hs s = Inr ms \<and> fst ` set ms \<subseteq> snd ` set hs \<and>
    (\<forall>(b, rtt) \<in> set hs. map_of ms rtt =
       (if ns_hostLocks s ! b then Some (projr (encode_writes mp writer store (in_order (ns_writes s rtt)))) else None))"
    using Cons.prems by (intro Cons.IH) (meson list.set_intros(2) | simp)+
  then obtain ms where ms: "send_writes mp writer in_order store hs s = Inr ms" "fst ` set ms \<subseteq> snd ` set hs"
    "\<forall>(b, rtt) \<in> set hs. map_of ms rtt =
       (if ns_hostLocks s ! b then Some (projr (encode_writes mp writer store (in_order (ns_writes s rtt)))) else None)"
    by blast
  obtain os where os: "encode_writes mp writer store (in_order (ns_writes s rtt)) = Inr os"
    using Cons.prems(2) [of b rtt] by (auto simp: h)
  have b: "b < length (ns_hostLocks s)" using Cons.prems(1) [of b rtt] by (simp add: h)
  have new: "rtt \<notin> snd ` set hs" using Cons.prems(3) by (simp add: h)
  then have "map_of ms rtt = None" using ms(2) by (auto simp: map_of_eq_None_iff)
  moreover have "rtt' \<noteq> rtt" if "(b', rtt') \<in> set hs" for b' rtt' using new that by force
  moreover have "send_writes mp writer in_order store (h # hs) s = Inr ((if ns_hostLocks s ! b then [(rtt, os)] else []) @ ms)"
    using ms(1) os b by (simp add: h)
  ultimately show ?case using ms(2,3) os
    by (intro exI [of _ "(if ns_hostLocks s ! b then [(rtt, os)] else []) @ ms"]) (auto simp: h)
qed simp


text \<open>The hosts of a component with the bits of their write locks: every write of the cycle is to one of them.\<close>

definition hosts_of_accesses :: "(nat \<times> u32) list \<Rightarrow> nat \<Rightarrow> access list \<Rightarrow> bool" where
  "hosts_of_accesses hs locks xs \<longleftrightarrow>
     distinct (map snd hs) \<and> (\<forall>(b, rtt) \<in> set hs. b < locks) \<and>
     (\<forall>a inst. WriteInstance a inst \<in> set xs \<longrightarrow> (ad_bit a, ad_rtt a) \<in> set hs)"

lemma written_finite: "finite (written xs rtt)"
proof -
  have "written xs rtt \<subseteq> (\<lambda>x. case x of WriteInstance a inst \<Rightarrow> (inst, ad_type a) | _ \<Rightarrow> (0, 0)) ` set xs"
    by (force simp: written_def)
  then show ?thesis by (rule finite_subset) simp
qed

text \<open>After the accesses of a cycle, one message goes to each host that was written, and the owner that gets
  it ends with the values of the writer for the instances written there, and all others as they were.\<close>

lemma writes_reach_owner:
  assumes mp: "msgpack_laws mp" and ca: "answers ca" and ord: "\<And>S. finite S \<Longrightarrow> set (in_order S) = S"
    and range: "\<And>x. x \<in> set xs \<Longrightarrow> in_range reads locks cycles x"
    and apart: "\<And>x y. x \<in> set xs \<Longrightarrow> y \<in> set xs \<Longrightarrow> locks_apart x y"
    and hosts: "hosts_of_accesses hs locks xs"
    and enc: "\<And>a inst. WriteInstance a inst \<in> set xs \<Longrightarrow> \<exists>os. encode_case writer store (ad_type a) inst = Inr os"
    and vals: "\<And>a inst. WriteInstance a inst \<in> set xs \<Longrightarrow> ad_rtt a = ad_rtt w \<Longrightarrow>
      transferable writer owner (ad_type a) (store (ad_type a, inst))"
    and w: "WriteInstance w i \<in> set xs"
  shows "\<exists>s ms n os d'.
    run_accesses ca xs (cycle_start reads locks cycles) = Inr s \<and>
    completeSimulationLocks mp writer in_order store hs s = Inr (ms, n) \<and>
    map_of ms (ad_rtt w) = Some os \<and> decodeWriteRequest mp owner os d = Some (Inr d') \<and>
    (\<forall>inst ty. cd_store d' (ty, inst) = (if (inst, ty) \<in> written xs (ad_rtt w) then store else cd_store d) (ty, inst)) \<and>
    ns_reads n = replicate reads False \<and> ns_hostLocks n = replicate locks False \<and> ns_writes n = (\<lambda>_. {})"
proof -
  let ?X = "set xs"
  have "locks_ok reads locks cycles ?X (cycle_start reads locks cycles)"
    by (rule cycle_start_ok) (rule range)
  then obtain s where s: "run_accesses ca xs (cycle_start reads locks cycles) = Inr s" "locks_ok reads locks cycles ?X s"
    "set (locks_of s) = set (locks_of (cycle_start reads locks cycles)) \<union> access_call ` set xs"
    using run_accesses_ok [OF ca _ subset_refl range apart] by blast
  have ws: "ns_writes s = written xs"
    using run_accesses_writes [OF s(1)] by (simp add: cycle_start_def)
  have sizes: "length (ns_reads s) = reads" "length (ns_hostLocks s) = locks" using s(2) by (simp_all add: locks_ok_def)
  have trans: "transferable writer owner ty (store (ty, inst))" if "(inst, ty) \<in> set (in_order (written xs (ad_rtt w)))"
    for inst ty using that vals ord [OF written_finite, of xs "ad_rtt w"] by (auto simp: written_def)
  have all: "\<exists>os. encode_case writer store ty inst = Inr os" if "(inst, ty) \<in> set (in_order (written xs rtt))" for inst ty rtt
    using that enc ord [OF written_finite, of xs rtt] by (auto simp: written_def)
  have sends: "\<exists>os. encode_writes mp writer store (in_order (ns_writes s rtt)) = Inr os" for rtt
    unfolding ws by (rule encode_writes_all) (rule all)
  have "\<exists>ms. send_writes mp writer in_order store hs s = Inr ms \<and> fst ` set ms \<subseteq> snd ` set hs \<and>
    (\<forall>(b, rtt) \<in> set hs. map_of ms rtt =
       (if ns_hostLocks s ! b then Some (projr (encode_writes mp writer store (in_order (ns_writes s rtt)))) else None))"
    by (rule send_writes_ok) (use hosts sends sizes in \<open>auto simp: hosts_of_accesses_def\<close>)
  then obtain ms where ms: "send_writes mp writer in_order store hs s = Inr ms"
    "\<forall>(b, rtt) \<in> set hs. map_of ms rtt =
       (if ns_hostLocks s ! b then Some (projr (encode_writes mp writer store (in_order (ns_writes s rtt)))) else None)"
    by blast
  obtain os where os: "encode_writes mp writer store (in_order (written xs (ad_rtt w))) = Inr os"
    using sends [of "ad_rtt w"] by (auto simp: ws)
  have "CallWriteLock (ad_rtt w) \<in> set (locks_of s)" using s(3) w by force
  then have "ns_hostLocks s ! ad_bit w" using s(2) w by (force simp: locks_ok_def locks_of_def)
  moreover have "(ad_bit w, ad_rtt w) \<in> set hs" using hosts w by (auto simp: hosts_of_accesses_def)
  ultimately have sent: "map_of ms (ad_rtt w) = Some os" using ms(2) os by (auto simp: ws)
  let ?ws = "in_order (written xs (ad_rtt w))" and ?n = "s\<lparr>ns_reads := replicate reads False, ns_hostLocks := replicate locks False, ns_writes := (\<lambda>_. {})\<rparr>"
  have decoded: "decodeWriteRequest mp owner os d = Some (Inr (fold (apply_write owner store) ?ws d))"
    by (rule decode_encoded_writes [OF mp _ os]) (rule trans)
  have "written xs rtt = {}" if "rtt \<notin> snd ` set hs" for rtt
    using hosts that by (force simp: hosts_of_accesses_def written_def)
  then have "(\<lambda>rtt. if rtt \<in> snd ` set hs then {} else written xs rtt) = (\<lambda>_. {})"
    by (simp add: fun_eq_iff)
  then have complete: "completeSimulationLocks mp writer in_order store hs s = Inr (ms, ?n)"
    unfolding completeSimulationLocks_def ms(1) ws sizes by simp
  have stored: "cd_store (fold (apply_write owner store) ?ws d) (ty, inst) =
      (if (inst, ty) \<in> written xs (ad_rtt w) then store else cd_store d) (ty, inst)" for inst ty
    using ord [OF written_finite, of xs "ad_rtt w"] by (auto simp: apply_writes_store image_iff)
  show ?thesis
    by (intro exI conjI) (use s(1) complete sent decoded stored in auto)
qed

text \<open>A state that is not in the process of the component that gets a write request is not read: the
  objects of its value are taken for the type of the next entry.\<close>

lemma foreign_state_not_skipped:
  assumes "msgpack_laws mp" and "pc_state owner ty = Some ForeignState"
  shows "decodeWriteRequest mp owner (mp_pack_type mp ty # mp_pack_u32 mp inst # vs @ rest) d =
    decodeWriteRequest mp owner (vs @ rest) d"
  using assms
  by (subst decodeWriteRequest.simps) (simp add: msgpack_laws_def decode_write_case_def)

end
