(* ===== verification/Network_Properties.thy ===== *)
theory Network_Properties
  imports Network_Analysis
begin

text \<open>
  What the analysis promises the generated component: the bits of two data members never overlap and
  all lie in the set, and every access to a data member of the program can be printed.
\<close>

text \<open>Indices tell buffers and data members apart, and a member knows its buffer.\<close>

definition session_laws :: "('c, 'a, 'b, 'm) read_session \<Rightarrow> bool" where
  "session_laws ss \<longleftrightarrow>
     distinct (map (rs_bufferIndex ss) (rs_buffers ss)) \<and>
     distinct (map (rs_memberIndex ss) (concat (map (rs_bufferMembers ss) (rs_buffers ss)))) \<and>
     (\<forall>b \<in> set (rs_buffers ss). \<forall>d \<in> set (rs_bufferMembers ss b). rs_memberBuffer ss d = b)"

section \<open>The bits\<close>

definition type_members ::
  "('c, 'a, 'b, 'm) read_session \<Rightarrow> int \<times> 'b \<times> buffer_relation \<Rightarrow> ('b \<times> 'm) list" where
  "type_members ss e = (case e of (_, b, r) \<Rightarrow> if hashed ss b r then map (Pair b) (rs_bufferMembers ss b) else [])"

definition hashed_members ::
  "('c, 'a, 'b, 'm) read_session \<Rightarrow> (int \<times> 'b \<times> buffer_relation) list \<Rightarrow> ('b \<times> 'm) list" where
  "hashed_members ss types = concat (map (type_members ss) types)"

definition bits :: "('c, 'a, 'b, 'm) read_session \<Rightarrow> ('b \<times> 'm) list \<Rightarrow> nat" where
  "bits ss xs = sum_list (map (\<lambda>(b, d). rs_bufferSize ss b) xs)"

lemma bits_simps [simp]:
  "bits ss [] = 0" "bits ss ((b, d) # xs) = rs_bufferSize ss b + bits ss xs"
  "bits ss (xs @ ys) = bits ss xs + bits ss ys"
  by (simp_all add: bits_def)

lemma fold_members:
  "fold (add_hash_base ss b) ds s = fold (\<lambda>(b, d). add_hash_base ss b d) (map (Pair b) ds) s"
  by (induction ds arbitrary: s) simp_all

lemma getDataHashBases_members:
  "getDataHashBases ss types = fold (\<lambda>(b, d). add_hash_base ss b d) (hashed_members ss types) ([], 0)"
proof -
  have "fold (\<lambda>(_, b, r) s. if hashed ss b r then fold (add_hash_base ss b) (rs_bufferMembers ss b) s else s) types s =
      fold (\<lambda>(b, d). add_hash_base ss b d) (hashed_members ss types) s" for s
    by (induction types arbitrary: s) (auto simp: hashed_members_def type_members_def fold_members)
  then show ?thesis by (simp add: getDataHashBases_def)
qed

definition add_members ::
  "('c, 'a, 'b, 'm) read_session \<Rightarrow> ('b \<times> 'm) list \<Rightarrow> (int \<times> 32 word) list \<times> 32 word \<Rightarrow> (int \<times> 32 word) list \<times> 32 word" where
  "add_members ss xs s = fold (\<lambda>(b, d). add_hash_base ss b d) xs s"

lemma add_members_simps [simp]:
  "add_members ss [] s = s"
  "add_members ss ((b, d) # xs) s = add_members ss xs (add_hash_base ss b d s)"
  "add_members ss (xs @ ys) s = add_members ss ys (add_members ss xs s)"
  by (simp_all add: add_members_def)

lemma add_members_total: "snd (add_members ss xs s) = snd s + of_nat (bits ss xs)"
proof (induction xs arbitrary: s)
  case (Cons x xs)
  then show ?case by (cases x) (simp add: add_hash_base_def)
qed simp

lemma add_members_wf: "smap_wf (fst s) \<Longrightarrow> smap_wf (fst (add_members ss xs s))"
proof (induction xs arbitrary: s)
  case (Cons x xs)
  then show ?case by (cases x) (simp add: add_hash_base_def smap_insert_wf)
qed simp

lemma add_members_keep:
  "smap_wf (fst s) \<Longrightarrow> map_of (fst s) i = Some v \<Longrightarrow> map_of (fst (add_members ss xs s)) i = Some v"
proof (induction xs arbitrary: s)
  case (Cons x xs)
  obtain b d where x: "x = (b, d)" by (cases x)
  have "i \<in> fst ` set (fst s)" using map_of_SomeD [OF Cons.prems(2)] by force
  then have "map_of (smap_insert (rs_memberIndex ss d) (snd s) (fst s)) i = map_of (fst s) i"
    unfolding smap_insert_find [OF Cons.prems(1)] by (cases "i = rs_memberIndex ss d") simp_all
  then have "map_of (smap_insert (rs_memberIndex ss d) (snd s) (fst s)) i = Some v" using Cons.prems(2) by simp
  then show ?case using Cons.prems Cons.IH [of "add_hash_base ss b d s"]
    by (simp add: x add_hash_base_def smap_insert_wf)
qed simp

lemma add_members_other:
  "smap_wf (fst s) \<Longrightarrow> i \<notin> (\<lambda>x. rs_memberIndex ss (snd x)) ` set xs \<Longrightarrow>
    map_of (fst (add_members ss xs s)) i = map_of (fst s) i"
proof (induction xs arbitrary: s)
  case (Cons x xs)
  then show ?case by (cases x) (auto simp: add_hash_base_def smap_insert_wf smap_insert_find)
qed simp

text \<open>The base of a member is the number of bits of those before it.\<close>

lemma hash_base:
  assumes "hashed_members ss types = ys @ (b, d) # zs"
    and "rs_memberIndex ss d \<notin> (\<lambda>x. rs_memberIndex ss (snd x)) ` set ys"
  shows "map_of (fst (getDataHashBases ss types)) (rs_memberIndex ss d) = Some (of_nat (bits ss ys))"
proof -
  let ?s = "add_members ss ys ([], 0)"
  have wf: "smap_wf (fst ?s)" by (simp add: add_members_wf)
  have "map_of (fst ?s) (rs_memberIndex ss d) = None"
    using assms(2) by (subst add_members_other) simp_all
  moreover have "snd ?s = of_nat (bits ss ys)" by (simp add: add_members_total)
  ultimately have "map_of (fst (add_hash_base ss b d ?s)) (rs_memberIndex ss d) = Some (of_nat (bits ss ys))"
    using wf by (auto simp: add_hash_base_def smap_insert_find map_of_eq_None_iff)
  moreover have "smap_wf (fst (add_hash_base ss b d ?s))"
    using wf by (simp add: add_hash_base_def smap_insert_wf)
  moreover have "getDataHashBases ss types = add_members ss zs (add_hash_base ss b d ?s)"
    by (simp add: getDataHashBases_members assms(1) flip: add_members_def)
  ultimately show ?thesis by (simp add: add_members_keep)
qed

lemma hash_total: "snd (getDataHashBases ss types) = of_nat (bits ss (hashed_members ss types))"
  using add_members_total [of ss "hashed_members ss types" "([], 0)"]
  by (simp add: getDataHashBases_members add_members_def)

section \<open>Distinct members\<close>

lemma distinct_parts:
  assumes "distinct (map h (concat (map f xs)))" and "x \<in> set xs"
  shows "distinct (map h (f x))"
    and "y \<in> set xs \<Longrightarrow> y \<noteq> x \<Longrightarrow> h ` set (f x) \<inter> h ` set (f y) = {}"
  using assms by (induction xs) (auto 0 3 simp: map_concat)

lemma distinct_of_parts:
  assumes "distinct xs" and "\<And>x. x \<in> set xs \<Longrightarrow> distinct (map h (f x))"
    and "\<And>x y. x \<in> set xs \<Longrightarrow> y \<in> set xs \<Longrightarrow> y \<noteq> x \<Longrightarrow> h ` set (f x) \<inter> h ` set (f y) = {}"
  shows "distinct (map h (concat (map f xs)))"
  using assms
proof (induction xs)
  case (Cons x xs)
  have "distinct (map h (concat (map f xs)))" by (rule Cons.IH) (use Cons.prems in auto)
  moreover have "h ` set (f x) \<inter> h ` set (concat (map f xs)) = {}"
    using Cons.prems(1) Cons.prems(3) [of x] by fastforce
  ultimately show ?case using Cons.prems(2) [of x] by (simp add: image_Un)
qed simp

text \<open>The map of the buffers has each buffer under its index.\<close>

definition types_ok :: "('c, 'a, 'b, 'm) read_session \<Rightarrow> (int \<times> 'b \<times> buffer_relation) list \<Rightarrow> bool" where
  "types_ok ss m \<longleftrightarrow> smap_wf m \<and> (\<forall>(i, b, r) \<in> set m. i = rs_bufferIndex ss b \<and> b \<in> set (rs_buffers ss))"

lemma set_smap_assign: "set (smap_assign k v m) \<subseteq> insert (k, v) (set m)"
  by (induction k v m rule: smap_assign.induct) auto

lemma set_relation_ok:
  assumes "types_ok ss m" and "b \<in> set (rs_buffers ss)"
  shows "types_ok ss (set_relation ss b r m)"
proof (cases "map_of m (rs_bufferIndex ss b)")
  case None
  then show ?thesis
    using assms set_smap_assign [of "rs_bufferIndex ss b" "(b, r)" m]
    by (auto simp: types_ok_def set_relation_def smap_assign_wf)
next
  case (Some e)
  obtain b0 r0 where e: "e = (b0, r0)" by (cases e)
  have "(rs_bufferIndex ss b, b0, r0) \<in> set m" using Some e by (auto dest: map_of_SomeD)
  then show ?thesis
    using assms Some set_smap_assign [of "rs_bufferIndex ss b" "(b0, r)" m]
    by (auto 0 4 simp: types_ok_def set_relation_def smap_assign_wf e)
qed

lemma getBufferTypes_ok:
  "getBufferTypes ss t bs m = Inr m' \<Longrightarrow> types_ok ss m \<Longrightarrow> set bs \<subseteq> set (rs_buffers ss) \<Longrightarrow> types_ok ss m'"
proof (induction bs arbitrary: m)
  case (Cons b bs)
  then show ?case by (auto simp: andThen_eq_Inr set_relation_ok split: option.splits)
qed simp

lemma hashed_members_distinct:
  assumes laws: "session_laws ss" and ok: "types_ok ss m"
  shows "distinct (map (\<lambda>x. rs_memberIndex ss (snd x)) (hashed_members ss m))"
  unfolding hashed_members_def
proof (rule distinct_of_parts)
  have members: "distinct (map (rs_memberIndex ss) (concat (map (rs_bufferMembers ss) (rs_buffers ss))))"
    using laws by (simp add: session_laws_def)
  have idx: "map (\<lambda>x. rs_memberIndex ss (snd x)) (type_members ss e) =
      (if hashed ss (fst (snd e)) (snd (snd e)) then map (rs_memberIndex ss) (rs_bufferMembers ss (fst (snd e))) else [])"
    for e by (auto simp: type_members_def split: prod.split)
  have sub: "(\<lambda>x. rs_memberIndex ss (snd x)) ` set (type_members ss e) \<subseteq>
      rs_memberIndex ss ` set (rs_bufferMembers ss (fst (snd e)))" for e
    by (auto simp: type_members_def split: prod.splits if_splits)
  have b: "e \<in> set m \<Longrightarrow> fst (snd e) \<in> set (rs_buffers ss)" for e
    using ok by (auto simp: types_ok_def)
  show "distinct m"
    using ok smap_wf_distinct [of m] by (auto simp: types_ok_def distinct_map)
  show "distinct (map (\<lambda>x. rs_memberIndex ss (snd x)) (type_members ss e))" if "e \<in> set m" for e
    unfolding idx using distinct_parts(1) [OF members b [OF that]] by simp
  show "(\<lambda>x. rs_memberIndex ss (snd x)) ` set (type_members ss e) \<inter>
      (\<lambda>x. rs_memberIndex ss (snd x)) ` set (type_members ss e') = {}"
    if "e \<in> set m" "e' \<in> set m" "e' \<noteq> e" for e e'
  proof -
    have "fst e' \<noteq> fst e" using that ok smap_wf_distinct [of m] by (auto simp: types_ok_def distinct_map inj_on_def)
    moreover have "fst e = rs_bufferIndex ss (fst (snd e))" if "e \<in> set m" for e
      using that ok by (auto simp: types_ok_def)
    ultimately have "fst (snd e') \<noteq> fst (snd e)" using that by metis
    from distinct_parts(2) [OF members b [OF that(1)] b [OF that(2)] this] show ?thesis
      using sub [of e] sub [of e'] by blast
  qed
qed

section \<open>The analysis\<close>

lemma buffer_hosts_keeps:
  "buffer_hosts ss names bs na = Inr na' \<Longrightarrow>
    na_bufferTypes na' = na_bufferTypes na \<and> na_hashBases na' = na_hashBases na \<and> na_hashTotal na' = na_hashTotal na \<and>
    na_hostStructures na' = na_hostStructures na"
proof (induction bs arbitrary: na)
  case (Cons b bs)
  then show ?case by (fastforce simp: andThen_eq_Inr Let_def)
qed simp

lemma NetworkAnalysis_parts:
  assumes "NetworkAnalysis_ctor ss t = Inr na"
  shows "getBufferTypes ss t (rs_buffers ss) [] = Inr (na_bufferTypes na)"
    and "na_hashBases na = fst (getDataHashBases ss (na_bufferTypes na))"
    and "na_hashTotal na = of_nat (bits ss (hashed_members ss (na_bufferTypes na)))"
proof -
  obtain types root names structures where types: "getBufferTypes ss t (rs_buffers ss) [] = Inr types"
    and hosts: "buffer_hosts ss names (rs_buffers ss)
      \<lparr>na_bufferHostNames = [], na_bufferTypes = types, na_hashBases = fst (getDataHashBases ss types),
       na_hashTotal = snd (getDataHashBases ss types), na_hostStructures = structures\<rparr> = Inr na"
    using assms
    by (auto simp: NetworkAnalysis_ctor_def getHostStructures_def andThen_eq_Inr Let_def case_prod_beta)
  from buffer_hosts_keeps [OF hosts] types
  show "getBufferTypes ss t (rs_buffers ss) [] = Inr (na_bufferTypes na)"
    and "na_hashBases na = fst (getDataHashBases ss (na_bufferTypes na))"
    and "na_hashTotal na = of_nat (bits ss (hashed_members ss (na_bufferTypes na)))"
    by (simp_all add: hash_total)
qed

lemma index_position:
  assumes "distinct (map (\<lambda>x. rs_memberIndex ss (snd x)) xs)" and "x \<in> set xs" and "y \<in> set xs" and "x \<noteq> y"
  obtains ys zs us where "xs = ys @ x # zs @ y # us \<or> xs = ys @ y # zs @ x # us"
proof -
  obtain ys zs where xs: "xs = ys @ x # zs" using split_list [OF assms(2)] by blast
  then have "y \<in> set ys \<or> y \<in> set zs" using assms(3,4) by auto
  then show thesis
  proof
    assume "y \<in> set ys"
    then obtain us vs where "ys = us @ y # vs" using split_list by metis
    then show thesis using that [of us vs zs] xs by simp
  next
    assume "y \<in> set zs"
    then obtain us vs where "zs = us @ y # vs" using split_list by metis
    then show thesis using that [of ys us vs] xs by simp
  qed
qed

text \<open>The base of a member is where its bits begin; they end below the base of every later member and
  the size of the set.\<close>

lemma member_base:
  assumes ctor: "NetworkAnalysis_ctor ss t = Inr na" and laws: "session_laws ss"
    and small: "bits ss (hashed_members ss (na_bufferTypes na)) < 2 ^ 31"
    and xs: "hashed_members ss (na_bufferTypes na) = ys @ (b, d) # zs"
  shows "\<exists>h. getDataMemberReadHashBase ss na d = Inr h \<and> unat h = bits ss ys"
proof -
  have ok: "types_ok ss (na_bufferTypes na)"
    by (rule getBufferTypes_ok [OF NetworkAnalysis_parts(1) [OF ctor]]) (simp_all add: types_ok_def)
  have "rs_memberIndex ss d \<notin> (\<lambda>x. rs_memberIndex ss (snd x)) ` set ys"
    using hashed_members_distinct [OF laws ok] by (auto simp: xs image_def)
  from hash_base [OF xs this] have "getDataMemberReadHashBase ss na d = Inr (of_nat (bits ss ys))"
    by (simp add: getDataMemberReadHashBase_def NetworkAnalysis_parts(2) [OF ctor])
  moreover have "bits ss ys < 2 ^ 32" using small by (simp add: xs)
  ultimately show ?thesis by (simp add: unat_of_nat)
qed

lemma sint_of_nat_small: "n < 2 ^ 31 \<Longrightarrow> sint (of_nat n :: 32 word) = int n"
proof -
  assume n: "n < 2 ^ 31"
  have "sint (of_nat n :: 32 word) = signed_take_bit 31 (int n)" by (simp add: signed_of_nat)
  also have "\<dots> = int n" using n by (intro signed_take_bit_int_eq_self) auto
  finally show ?thesis .
qed

lemma bit_set_size:
  assumes "NetworkAnalysis_ctor ss t = Inr na" and "bits ss (hashed_members ss (na_bufferTypes na)) < 2 ^ 31"
  shows "unat (getReadBitSetSize na) = bits ss (hashed_members ss (na_bufferTypes na))"
proof -
  let ?n = "bits ss (hashed_members ss (na_bufferTypes na))"
  have "sint (na_hashTotal na) = int ?n"
    using assms(2) sint_of_nat_small [of ?n] by (simp add: NetworkAnalysis_parts(3) [OF assms(1)])
  then have "getReadBitSetSize na = of_nat ?n"
    by (simp add: getReadBitSetSize_def scast_eq)
  then show ?thesis using assms(2) by (simp add: unat_of_nat)
qed

text \<open>The bits of two members are apart, and lie in the set.\<close>

lemma hash_bits_apart:
  assumes ctor: "NetworkAnalysis_ctor ss t = Inr na" and laws: "session_laws ss"
    and small: "bits ss (hashed_members ss (na_bufferTypes na)) < 2 ^ 31"
    and d: "(b, d) \<in> set (hashed_members ss (na_bufferTypes na))" "i < rs_bufferSize ss b"
    and d': "(b', d') \<in> set (hashed_members ss (na_bufferTypes na))" "i' < rs_bufferSize ss b'" "d' \<noteq> d"
  shows "\<exists>h h'. getDataMemberReadHashBase ss na d = Inr h \<and> getDataMemberReadHashBase ss na d' = Inr h' \<and>
    unat h + i \<noteq> unat h' + i' \<and> unat h + i < unat (getReadBitSetSize na)"
proof -
  let ?xs = "hashed_members ss (na_bufferTypes na)"
  have ok: "types_ok ss (na_bufferTypes na)"
    by (rule getBufferTypes_ok [OF NetworkAnalysis_parts(1) [OF ctor]]) (simp_all add: types_ok_def)
  note base = member_base [OF ctor laws small]
  have size: "unat (getReadBitSetSize na) = bits ss ?xs" by (rule bit_set_size [OF ctor small])
  have "(b, d) \<noteq> (b', d')" using d'(3) by simp
  then obtain ys zs us where "?xs = ys @ (b, d) # zs @ (b', d') # us \<or> ?xs = ys @ (b', d') # zs @ (b, d) # us"
    using index_position [OF hashed_members_distinct [OF laws ok] d(1) d'(1)] by metis
  then show ?thesis
  proof
    assume xs: "?xs = ys @ (b, d) # zs @ (b', d') # us"
    obtain h where h: "getDataMemberReadHashBase ss na d = Inr h" "unat h = bits ss ys"
      using base [of ys b d "zs @ (b', d') # us"] xs by auto
    obtain h' where h': "getDataMemberReadHashBase ss na d' = Inr h'"
      "unat h' = bits ss ys + rs_bufferSize ss b + bits ss zs"
      using base [of "ys @ (b, d) # zs" b' d' us] xs by auto
    have "unat h + i < unat (getReadBitSetSize na)" using d(2) h(2) by (simp add: size xs)
    then show ?thesis using h h' d(2) d'(2) by auto
  next
    assume xs: "?xs = ys @ (b', d') # zs @ (b, d) # us"
    obtain h' where h': "getDataMemberReadHashBase ss na d' = Inr h'" "unat h' = bits ss ys"
      using base [of ys b' d' "zs @ (b, d) # us"] xs by auto
    obtain h where h: "getDataMemberReadHashBase ss na d = Inr h"
      "unat h = bits ss ys + rs_bufferSize ss b' + bits ss zs"
      using base [of "ys @ (b', d') # zs" b d us] xs by auto
    have "unat h + i < unat (getReadBitSetSize na)" using d(2) h(2) by (simp add: size xs)
    then show ?thesis using h h' d(2) d'(2) by auto
  qed
qed

text \<open>C26.  Two data members never share a bit of the set that records what a component has read of other
  components in a cycle, and every bit of a member lies in the set, as long as the bits fit a signed
  32 bit integer.\<close>

theorem hash_bits_disjoint:
  assumes "NetworkAnalysis_ctor ss t = Inr na" and "session_laws ss"
    and "bits ss (hashed_members ss (na_bufferTypes na)) < 2 ^ 31"
    and "(b, d) \<in> set (hashed_members ss (na_bufferTypes na))" and "i < rs_bufferSize ss b"
    and "(b', d') \<in> set (hashed_members ss (na_bufferTypes na))" and "i' < rs_bufferSize ss b'" and "d' \<noteq> d"
  shows "\<exists>h h'. getDataMemberReadHashBase ss na d = Inr h \<and> getDataMemberReadHashBase ss na d' = Inr h' \<and>
    unat h + i \<noteq> unat h' + i' \<and> unat h + i < unat (getReadBitSetSize na)"
  using assms by (rule hash_bits_apart)

section \<open>Accesses\<close>

lemma getBufferTypes_all:
  "getBufferTypes ss t bs m = Inr m' \<Longrightarrow> smap_wf m \<Longrightarrow>
    (\<forall>i. map_of m i \<noteq> None \<longrightarrow> map_of m' i \<noteq> None) \<and>
    (\<forall>b \<in> set bs. map_of m' (rs_bufferIndex ss b) \<noteq> None)"
proof (induction bs arbitrary: m)
  case (Cons b bs)
  obtain r where rest: "getBufferTypes ss t bs (set_relation ss b r m) = Inr m'"
    using Cons.prems(1) by (auto simp: andThen_eq_Inr split: option.splits)
  have wf: "smap_wf (set_relation ss b r m)"
    using Cons.prems(2) by (auto simp: set_relation_def smap_assign_wf split: option.split)
  have "map_of (set_relation ss b r m) i \<noteq> None \<longleftrightarrow> i = rs_bufferIndex ss b \<or> map_of m i \<noteq> None" for i
    using Cons.prems(2) by (auto simp: set_relation_def smap_assign_find split: option.split)
  then show ?case using Cons.IH [OF rest wf] by auto
qed simp

lemma buffer_hosts_all:
  "buffer_hosts ss names bs na = Inr na' \<Longrightarrow> smap_wf (na_bufferHostNames na) \<Longrightarrow>
   (\<forall>i h. map_of (na_bufferHostNames na) i = Some h \<longrightarrow> map_of (na_bufferHostNames na') i = Some h) \<and>
   (\<forall>b \<in> set bs. \<forall>r. getBufferRelation ss na b = Inr r \<longrightarrow> r \<noteq> eComponent \<longrightarrow>
      (\<exists>hs. getHostStructures_buffer ss na' b = Inr hs))"
proof (induction bs arbitrary: na)
  case (Cons b bs)
  obtain h r where rest: "buffer_hosts ss names bs
      (na\<lparr>na_bufferHostNames := smap_insert (rs_bufferIndex ss b) h (na_bufferHostNames na)\<rparr>) = Inr na'"
    and r: "getBufferRelation ss na b = Inr r"
    and found: "r \<noteq> eComponent \<Longrightarrow> \<exists>h'. map_of (smap_insert (rs_bufferIndex ss b) h (na_bufferHostNames na)) (rs_bufferIndex ss b) = Some h' \<and>
      map_of (na_hostStructures na) (hn_path h') \<noteq> None"
    using Cons.prems(1)
    by (auto simp: andThen_eq_Inr Let_def getBufferRelation_def split: option.splits if_splits)
  let ?na = "na\<lparr>na_bufferHostNames := smap_insert (rs_bufferIndex ss b) h (na_bufferHostNames na)\<rparr>"
  have wf: "smap_wf (na_bufferHostNames ?na)" using Cons.prems(2) by (simp add: smap_insert_wf)
  have rel: "getBufferRelation ss ?na b = getBufferRelation ss na b" for b by (simp add: getBufferRelation_def)
  note IH = Cons.IH [OF rest wf, unfolded rel]
  have structures: "na_hostStructures na' = na_hostStructures na"
    using buffer_hosts_keeps [OF rest] by simp
  have keep: "map_of (na_bufferHostNames ?na) i = Some h'" if "map_of (na_bufferHostNames na) i = Some h'" for i h'
    using that map_of_SomeD [OF that] Cons.prems(2) by (force simp: smap_insert_find)
  have "\<exists>hs. getHostStructures_buffer ss na' b = Inr hs" if ne: "r \<noteq> eComponent"
  proof -
    obtain h' where h': "map_of (na_bufferHostNames ?na) (rs_bufferIndex ss b) = Some h'"
      "map_of (na_hostStructures na) (hn_path h') \<noteq> None"
      using found [OF ne] by auto
    then have "map_of (na_bufferHostNames na') (rs_bufferIndex ss b) = Some h'" using IH by blast
    with h'(2) show ?thesis by (auto simp: getHostStructures_buffer_def structures)
  qed
  then show ?case using IH keep r by auto
qed simp

text \<open>What an access to a member of a buffer prints: the member itself in the own component, otherwise the
  lock of the host of the buffer around it, with the bits of the member unless its buffer is shared.\<close>

definition access_text ::
  "('c, 'a, 'b, 'm) read_session \<Rightarrow> buffer_relation \<Rightarrow> 'm \<Rightarrow> string \<Rightarrow> 'a host_structures \<Rightarrow> 32 word \<Rightarrow> bool \<Rightarrow> string" where
  "access_text ss r d i hs h write =
     (if r = eComponent then member_text ss d i
      else if r = eProcess \<and> rs_bufferSimple ss (rs_memberBuffer ss d)
      then (if write then ''eg::writelock< '' else ''eg::readlock< '') @
           lock_arguments ss d hs (if write then ''_write'' else ''_read'') @ '' >( '' @ member_text ss d i @ '' )''
      else (if write then ''eg::writelock< '' else ''eg::readlock< '') @
           lock_arguments ss d hs (if write then ''_write'' else ''_read'') @ hash_arguments ss d h @ '' >( '' @ i @ '', '' @
           (if write then hs_strWriteSetName hs @ '', '' else []) @ member_text ss d i @ '' )'')"

text \<open> Once the analysis has succeeded the generator can print every read and every write of every
  data member of the program; both go through the locks of one host with the same bits.\<close>

theorem accesses_printed:
  assumes ctor: "NetworkAnalysis_ctor ss t = Inr na" and laws: "session_laws ss"
    and small: "bits ss (hashed_members ss (na_bufferTypes na)) < 2 ^ 31"
    and b: "b \<in> set (rs_buffers ss)" and d: "d \<in> set (rs_bufferMembers ss b)"
  shows "\<exists>r hs h. getBufferRelation ss na b = Inr r \<and>
    MegastructureReader_print ss na d i = Inr (access_text ss r d i hs h False) \<and>
    MegastructureWriter_print ss na d i = Inr (access_text ss r d i hs h True) \<and>
    (r \<noteq> eComponent \<longrightarrow> getHostStructures_buffer ss na b = Inr hs) \<and>
    (hashed ss b r \<longrightarrow> getDataMemberReadHashBase ss na d = Inr h)"
proof -
  have types: "getBufferTypes ss t (rs_buffers ss) [] = Inr (na_bufferTypes na)"
    by (rule NetworkAnalysis_parts(1) [OF ctor])
  have ok: "types_ok ss (na_bufferTypes na)"
    by (rule getBufferTypes_ok [OF types]) (simp_all add: types_ok_def)
  obtain b0 r where e: "map_of (na_bufferTypes na) (rs_bufferIndex ss b) = Some (b0, r)"
    using getBufferTypes_all [OF types] b by fastforce
  then have mem: "(rs_bufferIndex ss b, b0, r) \<in> set (na_bufferTypes na)" by (rule map_of_SomeD)
  then have "b0 = b"
    using ok b laws by (auto simp: types_ok_def session_laws_def distinct_map inj_on_def)
  have r: "getBufferRelation ss na b = Inr r" using e by (simp add: getBufferRelation_def)
  have buf: "rs_memberBuffer ss d = b" using laws b d by (simp add: session_laws_def)
  obtain names na0 where hosts: "buffer_hosts ss names (rs_buffers ss) na0 = Inr na" "na_bufferHostNames na0 = []"
    using ctor by (auto simp: NetworkAnalysis_ctor_def getHostStructures_def andThen_eq_Inr Let_def case_prod_beta)
  have "getBufferRelation ss na0 b = getBufferRelation ss na b"
    using buffer_hosts_keeps [OF hosts(1)] by (simp add: getBufferRelation_def)
  then have hs: "\<exists>hs. r \<noteq> eComponent \<longrightarrow> getHostStructures_buffer ss na b = Inr hs"
    using buffer_hosts_all [OF hosts(1)] hosts(2) b r by auto
  have h: "\<exists>h. hashed ss b r \<longrightarrow> getDataMemberReadHashBase ss na d = Inr h"
  proof (cases "hashed ss b r")
    case True
    then have "(b, d) \<in> set (hashed_members ss (na_bufferTypes na))"
      using mem d \<open>b0 = b\<close> by (force simp: hashed_members_def type_members_def)
    then obtain ys zs where "hashed_members ss (na_bufferTypes na) = ys @ (b, d) # zs" by (meson split_list)
    from member_base [OF ctor laws small this] show ?thesis by blast
  qed simp
  obtain hs h where "r \<noteq> eComponent \<longrightarrow> getHostStructures_buffer ss na b = Inr hs"
    and "hashed ss b r \<longrightarrow> getDataMemberReadHashBase ss na d = Inr h"
    using hs h by blast
  then show ?thesis using r
    by (intro exI [of _ r] exI [of _ hs] exI [of _ h])
      (cases r; simp add: MegastructureReader_print_def MegastructureWriter_print_def Let_def buf access_text_def hashed_def)
qed

end
