(* ===== verification/Network_Locking.thy ===== *)
theory Network_Locking
  imports Traits_Properties Network_Properties Sim_Lock
begin

text \<open>
  The analysis, the lock functions and the lock of the other component together: the addresses that the
  analysis gives satisfy what the lock functions need, and what the lock makes of their requests.
\<close>

section \<open>Addresses from the analysis\<close>

text \<open>The address of the data member of a buffer in the host whose structures are the \<open>k\<close>-th of the
  analysis: the enumerations of \<open>generateMegaStructureNetStateHeader\<close> give a host two lock bits and one
  cycle.\<close>

definition member_address ::
  "('c, 'a, 'b, 'm) read_session \<Rightarrow> ('a, 'b) network_analysis \<Rightarrow> nat \<Rightarrow> bool \<Rightarrow> 'm \<Rightarrow> 32 word \<Rightarrow> address" where
  "member_address ss na k write d h =
     \<lparr>ad_cycle = k, ad_bit = 2 * k + (if write then 1 else 0),
      ad_rtt = word_of_int (rs_actionIndex ss (hs_pRoot (snd (na_hostStructures na ! k)))),
      ad_hashBase = unat h, ad_type = word_of_int (rs_memberDimension ss d)\<rparr>"

text \<open>An access that the printers generate for a data member of another component.  It goes to the host of
  the member's buffer.  The instances of a member with bits are read and written with the base of the
  member; a member of a simple buffer in a host of the same coordinator has no bits, and of it the value
  as such is locked (\<open>readlock\<close> and \<open>writelock\<close> without an instance, which use neither base nor
  dimension).\<close>

definition generated_access ::
  "('c, 'a, 'b, 'm) read_session \<Rightarrow> ('a, 'b) network_analysis \<Rightarrow> 'm \<Rightarrow> u32 \<Rightarrow> access \<Rightarrow> bool" where
  "generated_access ss na d inst x \<longleftrightarrow>
     (\<exists>k < length (na_hostStructures na).
        getHostStructures_buffer ss na (rs_memberBuffer ss d) = Inr (snd (na_hostStructures na ! k)) \<and>
        ((\<exists>h. (rs_memberBuffer ss d, d) \<in> set (hashed_members ss (na_bufferTypes na)) \<and>
            unat inst < rs_bufferSize ss (rs_memberBuffer ss d) \<and>
            getDataMemberReadHashBase ss na d = Inr h \<and>
            (x = ReadInstance (member_address ss na k False d h) inst \<or>
             x = WriteInstance (member_address ss na k True d h) inst)) \<or>
         getBufferRelation ss na (rs_memberBuffer ss d) = Inr eProcess \<and> rs_bufferSimple ss (rs_memberBuffer ss d) \<and>
           (x = Read (member_address ss na k False d 0) \<or> x = Write (member_address ss na k True d 0))))"

text \<open>Of an access to an instance.\<close>

definition instance_access ::
  "('c, 'a, 'b, 'm) read_session \<Rightarrow> ('a, 'b) network_analysis \<Rightarrow> 'm \<Rightarrow> u32 \<Rightarrow> nat \<Rightarrow> 32 word \<Rightarrow> bool" where
  "instance_access ss na d inst k h \<longleftrightarrow>
     k < length (na_hostStructures na) \<and>
     (rs_memberBuffer ss d, d) \<in> set (hashed_members ss (na_bufferTypes na)) \<and>
     unat inst < rs_bufferSize ss (rs_memberBuffer ss d) \<and>
     getDataMemberReadHashBase ss na d = Inr h \<and>
     getHostStructures_buffer ss na (rs_memberBuffer ss d) = Inr (snd (na_hostStructures na ! k))"

lemma generated_instance:
  "generated_access ss na d inst (ReadInstance a i) \<longleftrightarrow>
     i = inst \<and> (\<exists>k h. instance_access ss na d inst k h \<and> a = member_address ss na k False d h)"
  "generated_access ss na d inst (WriteInstance a i) \<longleftrightarrow>
     i = inst \<and> (\<exists>k h. instance_access ss na d inst k h \<and> a = member_address ss na k True d h)"
  by (auto simp: generated_access_def instance_access_def)

text \<open>In general.\<close>

lemma generated_lock:
  assumes "generated_access ss na d inst x"
  obtains k where "k < length (na_hostStructures na)" "ad_cycle (access_address x) = k"
    "ad_rtt (access_address x) = word_of_int (rs_actionIndex ss (hs_pRoot (snd (na_hostStructures na ! k))))"
    "ad_bit (access_address x) = 2 * k \<and> access_call x = CallReadLock (ad_rtt (access_address x)) \<or>
     ad_bit (access_address x) = 2 * k + 1 \<and> access_call x = CallWriteLock (ad_rtt (access_address x))"
  using assms by (fastforce simp: generated_access_def member_address_def)

text \<open>The indices that the compiler gives to the roots of the hosts and to the dimensions of the members are
  different values of the \<open>TypeID\<close> of the messages.\<close>

definition index_laws :: "('c, 'a, 'b, 'm) read_session \<Rightarrow> ('a, 'b) network_analysis \<Rightarrow> bool" where
  "index_laws ss na \<longleftrightarrow>
     distinct (map (\<lambda>e. word_of_int (rs_actionIndex ss (hs_pRoot (snd e))) :: u32) (na_hostStructures na)) \<and>
     inj_on (\<lambda>x. word_of_int (rs_memberDimension ss (snd x)) :: u32) (set (hashed_members ss (na_bufferTypes na)))"

lemma generated_in_range:
  assumes ctor: "NetworkAnalysis_ctor ss t = Inr na" and laws: "session_laws ss"
    and small: "bits ss (hashed_members ss (na_bufferTypes na)) < 2 ^ 31"
    and x: "generated_access ss na d inst x"
  shows "in_range (unat (getReadBitSetSize na)) (2 * length (na_hostStructures na)) (length (na_hostStructures na)) x"
proof -
  obtain k where k: "k < length (na_hostStructures na)" "ad_cycle (access_address x) = k"
    "ad_bit (access_address x) = 2 * k \<or> ad_bit (access_address x) = 2 * k + 1"
    using generated_lock [OF x] by metis
  have "list_all (\<lambda>i. i < unat (getReadBitSetSize na)) (access_bits x)"
  proof (cases "access_bits x")
    case (Cons b bs)
    then obtain k h where m: "instance_access ss na d inst k h" and i: "access_bits x = [unat h + unat inst]"
      using x by (cases x) (auto simp: generated_instance member_address_def)
    obtain ys zs where xs: "hashed_members ss (na_bufferTypes na) = ys @ (rs_memberBuffer ss d, d) # zs"
      using m split_list [of "(rs_memberBuffer ss d, d)" "hashed_members ss (na_bufferTypes na)"]
      by (auto simp: instance_access_def)
    have "unat h = bits ss ys" using member_base [OF ctor laws small xs] m by (auto simp: instance_access_def)
    then have "unat h + unat inst < unat (getReadBitSetSize na)"
      using m by (simp add: bit_set_size [OF ctor small] xs instance_access_def)
    with i show ?thesis by simp
  qed simp
  with k show ?thesis by (auto simp: in_range_def)
qed

lemma host_index:
  assumes "index_laws ss na" and "k < length (na_hostStructures na)" and "k' < length (na_hostStructures na)"
  shows "word_of_int (rs_actionIndex ss (hs_pRoot (snd (na_hostStructures na ! k)))) =
      (word_of_int (rs_actionIndex ss (hs_pRoot (snd (na_hostStructures na ! k')))) :: u32) \<longleftrightarrow> k = k'"
  using nth_eq_iff_index_eq [of "map (\<lambda>e. word_of_int (rs_actionIndex ss (hs_pRoot (snd e))) :: u32) (na_hostStructures na)" k k']
    assms by (simp add: index_laws_def)

lemma generated_locks_apart:
  assumes "index_laws ss na" and "generated_access ss na d inst x" and "generated_access ss na d' inst' y"
  shows "locks_apart x y"
proof -
  obtain k where k: "k < length (na_hostStructures na)"
    "ad_rtt (access_address x) = word_of_int (rs_actionIndex ss (hs_pRoot (snd (na_hostStructures na ! k))))"
    "ad_bit (access_address x) = 2 * k \<and> access_call x = CallReadLock (ad_rtt (access_address x)) \<or>
     ad_bit (access_address x) = 2 * k + 1 \<and> access_call x = CallWriteLock (ad_rtt (access_address x))"
    using generated_lock [OF assms(2)] by metis
  obtain k' where k': "k' < length (na_hostStructures na)"
    "ad_rtt (access_address y) = word_of_int (rs_actionIndex ss (hs_pRoot (snd (na_hostStructures na ! k'))))"
    "ad_bit (access_address y) = 2 * k' \<and> access_call y = CallReadLock (ad_rtt (access_address y)) \<or>
     ad_bit (access_address y) = 2 * k' + 1 \<and> access_call y = CallWriteLock (ad_rtt (access_address y))"
    using generated_lock [OF assms(3)] by metis
  have "ad_rtt (access_address x) = ad_rtt (access_address y) \<longleftrightarrow> k = k'"
    using host_index [OF assms(1) k(1) k'(1)] k(2) k'(2) by simp
  with k(3) k'(3) show ?thesis by (auto simp: locks_apart_def; presburger)
qed

lemma generated_bits_apart:
  assumes ctor: "NetworkAnalysis_ctor ss t = Inr na" and laws: "session_laws ss" and idx: "index_laws ss na"
    and small: "bits ss (hashed_members ss (na_bufferTypes na)) < 2 ^ 31"
    and x: "generated_access ss na d inst x" "is_read x" and y: "generated_access ss na d' inst' y" "is_read y"
  shows "bits_apart x y"
proof (cases "access_bits x = [] \<or> access_bits y = []")
  case True
  then show ?thesis by (auto simp: bits_apart_def list_all_iff)
next
  case some: False
  obtain k h where m: "instance_access ss na d inst k h" and form: "x = ReadInstance (member_address ss na k False d h) inst"
    using x some by (cases x) (auto simp: generated_instance is_read_def)
  obtain k' h' where m': "instance_access ss na d' inst' k' h'"
    and form': "y = ReadInstance (member_address ss na k' False d' h') inst'"
    using y some by (cases y) (auto simp: generated_instance is_read_def)
  show ?thesis
  proof (cases "d' = d")
    case True
    have "k = k'" using m m' True host_index [OF idx, of k k'] by (simp add: instance_access_def)
    with True m m' form form' show ?thesis
      by (auto simp: bits_apart_def member_address_def instance_access_def dest: unsigned_word_eqI)
  next
    case False
    have mem: "(rs_memberBuffer ss d, d) \<in> set (hashed_members ss (na_bufferTypes na))"
      "(rs_memberBuffer ss d', d') \<in> set (hashed_members ss (na_bufferTypes na))"
      using m m' by (simp_all add: instance_access_def)
    have "unat h + unat inst \<noteq> unat h' + unat inst'"
      using hash_bits_apart [OF ctor laws small mem(1) _ mem(2) _ False, of "unat inst" "unat inst'"] m m' by (auto simp: instance_access_def)
    moreover have "word_of_int (rs_memberDimension ss d) \<noteq> (word_of_int (rs_memberDimension ss d') :: u32)"
      using idx mem False by (fastforce simp: index_laws_def inj_on_def)
    ultimately show ?thesis using form form' by (auto simp: bits_apart_def member_address_def)
  qed
qed

text \<open>C25.  Over the accesses that are generated for the data members of other components, those of simple buffers
  of a host of the same coordinator and those with instances, in any order and with repetitions, a cycle runs
  within the sets that are generated for the component and asks for each lock once; when it only reads, it
  fetches each instance once.\<close>

theorem generated_cycle:
  assumes ctor: "NetworkAnalysis_ctor ss t = Inr na" and laws: "session_laws ss" "index_laws ss na"
    and small: "bits ss (hashed_members ss (na_bufferTypes na)) < 2 ^ 31" and ca: "answers ca"
    and xs: "\<And>x. x \<in> set xs \<Longrightarrow> \<exists>d inst. generated_access ss na d inst x"
  shows "\<exists>s. run_accesses ca xs (cycle_start (unat (getReadBitSetSize na)) (2 * length (na_hostStructures na))
        (length (na_hostStructures na))) = Inr s \<and>
    distinct (locks_of s) \<and> set (locks_of s) = access_call ` set xs \<and>
    (list_all is_read xs \<longrightarrow> distinct (reads_of s) \<and> set (reads_of s) = (\<Union>x \<in> set xs. set (instance_of x)))"
proof -
  have range: "in_range (unat (getReadBitSetSize na)) (2 * length (na_hostStructures na)) (length (na_hostStructures na)) x"
    if "x \<in> set xs" for x
    using xs [OF that] generated_in_range [OF ctor laws(1) small] by blast
  have apart: "locks_apart x y" if "x \<in> set xs" "y \<in> set xs" for x y
    using xs [OF that(1)] xs [OF that(2)] generated_locks_apart [OF laws(2)] by blast
  have bits: "bits_apart x y" if "list_all is_read xs" "x \<in> set xs" "y \<in> set xs" for x y
    using xs [OF that(2)] xs [OF that(3)] that generated_bits_apart [OF ctor laws small] by (auto simp: list_all_iff)
  obtain s where s: "run_accesses ca xs (cycle_start (unat (getReadBitSetSize na)) (2 * length (na_hostStructures na))
        (length (na_hostStructures na))) = Inr s" "distinct (locks_of s)" "set (locks_of s) = access_call ` set xs"
    using locks_taken_once [OF ca range apart] by blast
  have "distinct (reads_of s) \<and> set (reads_of s) = (\<Union>x \<in> set xs. set (instance_of x))" if "list_all is_read xs"
    using instances_read_once [OF ca that range apart bits [OF that]] s(1) by auto
  with s show ?thesis by blast
qed

section \<open>A read after a write\<close>

lemma read_lock_twice:
  assumes "m_pCurrentSimLock s = Some l" and "getHostCycleState l host = Some st" and "uiCycle st = cycle"
  shows "OnReadLock coordinator host cycle s = Inl (Rte ''Already have lock state when requesting read lock'')"
  using assms by (simp add: OnReadLock_def getOrCreateCurrentLock_def)

text \<open>C27.  A component that writes to another one and then, as its first read in the cycle, reads from it, asks
  for the read lock while it holds the write lock; the lock of the other component faults on that request,
  which comes from a host that has an entry for the same cycle.\<close>

theorem write_then_read_faults:
  assumes "answers ca" and "in_range reads locks cycles (WriteInstance w inst)"
    and "in_range reads locks cycles (ReadInstance a inst)" and "ad_bit a \<noteq> ad_bit w"
    and "ad_hashBase a = ad_hashBase w" and "ad_rtt a = ad_rtt w" and "ad_type a = ad_type w"
    and "m_pCurrentSimLock s = Some l" and "getHostCycleState l host = Some st" and "uiCycle st = cycle"
  shows "\<exists>n. run_accesses ca [WriteInstance w inst, ReadInstance a inst] (cycle_start reads locks cycles) = Inr n \<and>
    (\<exists>rest. ns_calls n = CallWriteLock (ad_rtt w) # CallReadLock (ad_rtt w) # rest) \<and>
    OnReadLock coordinator host cycle s = Inl (Rte ''Already have lock state when requesting read lock'')"
  using fetch_after_write [OF assms(1-7)] read_lock_twice [OF assms(8-10)] by blast

end
