(* ===== verification/Component_Program.thy ===== *)
theory Component_Program
  imports Build_Generators Writes_Properties Network_Locking
begin

text \<open>
  What the switches of a generated component say: their labels are the elements of the tree of the instances,
  the same in \<open>encode\<close> and in \<open>decode\<close>, and those of \<open>decodeWriteRequest\<close> are among them.  With that a component is
  the \<open>program_code\<close> of its session, and two components of one program understand each other's writes.
\<close>

section \<open>Labels\<close>

datatype ('a, 'm) label = ActionLabel 'a | MemberLabel int 'm

fun labels :: "('a, 'm) celement list \<Rightarrow> ('a, 'm) label list" where
  "labels [] = []"
| "labels (COther # es) = labels es"
| "labels (CDimension i m st # es) = MemberLabel i m # labels es"
| "labels (CAction a cs # es) = ActionLabel a # labels cs @ labels es"

definition tree_labels :: "('c, 'a, 'b, 'm) read_session \<Rightarrow> ('a, 'm) label list" where
  "tree_labels ss = ActionLabel (rs_instanceRoot ss) # labels (rs_instanceTree ss)"

text \<open>The number of the case of a label.\<close>

definition label_index :: "('c, 'a, 'b, 'm) read_session \<Rightarrow> ('a, 'm) label \<Rightarrow> int" where
  "label_index ss l = (case l of ActionLabel a \<Rightarrow> rs_actionIndex ss a | MemberLabel i m \<Rightarrow> i)"

text \<open>The cases: nothing is done for an action, and for a member what the compiler gives for it.\<close>

definition encode_label :: "('c, 'a, 'b, 'm) read_session \<Rightarrow> ('a, 'm) label \<Rightarrow> string" where
  "encode_label ss l =
     ''        case '' @ dec (label_index ss l) @ '': '' @
     (case l of ActionLabel a \<Rightarrow> '' break; //'' @ rs_actionName ss a
      | MemberLabel i m \<Rightarrow> rs_encode ss m ''uiInstance'' @ '' break; //'' @ rs_memberName ss m) @ ''\<newline>''"

definition decode_label :: "('c, 'a, 'b, 'm) read_session \<Rightarrow> ('a, 'm) label \<Rightarrow> string" where
  "decode_label ss l =
     ''        case '' @ dec (label_index ss l) @ '': '' @
     (case l of ActionLabel a \<Rightarrow> ''break; //'' @ rs_actionName ss a
      | MemberLabel i m \<Rightarrow> rs_decode ss m ''uiInstance'' @ '' break; //'' @ rs_memberName ss m) @ ''\<newline>''"

text \<open>The states that have a label in \<open>decodeWriteRequest\<close>: of the executable actions but the main one.\<close>

fun states :: "('c, 'a, 'b, 'm) read_session \<Rightarrow> ('a, 'm) celement list \<Rightarrow> ('a \<times> int \<times> 'm) list" where
  "states ss [] = []"
| "states ss (COther # es) = states ss es"
| "states ss (CDimension i m None # es) = states ss es"
| "states ss (CDimension i m (Some a) # es) =
     (if rs_isExecutable ss (rs_actionContext ss a) \<and> \<not> rs_isMainExecutable ss (rs_actionContext ss a)
      then [(a, i, m)] else []) @ states ss es"
| "states ss (CAction a cs # es) = states ss cs @ states ss es"

lemma recurse_children_labels:
  "recurseEncode_children ss es = concat (map (encode_label ss) (labels es))"
  "recurseDecode_children ss es = concat (map (decode_label ss) (labels es))"
  by (induction es rule: labels.induct)
    (simp_all add: encode_label_def decode_label_def label_index_def encode_action_def encode_member_def decode_action_def
      decode_member_def)

lemma states_labels: "(a, i, m) \<in> set (states ss es) \<Longrightarrow> MemberLabel i m \<in> set (labels es)"
  by (induction ss es rule: states.induct) (auto split: if_splits)

lemma recurseWriteRequest_states:
  assumes "recurseWriteRequest ss na pAction es = Inr s"
  shows "write_all (\<lambda>(a, i, m). write_state ss na a i m) (states ss es) = Inr s"
proof -
  have app: "write_all f (xs @ ys) = andThen (write_all f xs) (\<lambda>s. andThen (write_all f ys) (\<lambda>r. Inr (s @ r)))"
    for f :: "'x \<Rightarrow> string result" and xs ys
    by (induction xs) (simp_all add: andThen_def split: sum.split)
  show ?thesis using assms
    by (induction ss na pAction es arbitrary: s rule: recurseWriteRequest.induct)
      (auto simp: andThen_eq_Inr app split: if_splits)
qed

lemma write_state_label:
  assumes "write_state ss na a i m = Inr s"
  shows "\<exists>rest. s = ''            case '' @ dec i @ '':\<newline>'' @ rest"
  using assms by (auto simp: write_state_def andThen_eq_Inr Let_def split: option.splits if_splits)


lemma write_all_Inr: "write_all f xs = Inr s \<longleftrightarrow> (\<exists>ts. map f xs = map Inr ts \<and> s = concat ts)"
proof (induction xs arbitrary: s)
  case (Cons x xs)
  then show ?case by (auto simp: andThen_eq_Inr Cons_eq_map_conv)
qed auto

text \<open>How the text of the switches and \<open>program_code_of\<close> correspond: the generator writes the cases of the labels
  in \<open>tree_labels\<close>, which \<open>program_code_of\<close> dispatches on, in their order, and for write requests the case of
  each state of an executable action, which is one of them.\<close>

lemma generated_switches:
  "recurseEncode ss (rs_instanceRoot ss) (rs_instanceTree ss) = concat (map (encode_label ss) (tree_labels ss)) \<and>
   recurseDecode ss (rs_instanceRoot ss) (rs_instanceTree ss) = concat (map (decode_label ss) (tree_labels ss)) \<and>
   (recurseWriteRequest ss na (rs_instanceRoot ss) (rs_instanceTree ss) = Inr s \<longrightarrow>
     (\<exists>ts. s = concat ts \<and>
        list_all2 (\<lambda>t (a, i, m). (\<exists>rest. t = ''            case '' @ dec i @ '':\<newline>'' @ rest) \<and>
          MemberLabel i m \<in> set (tree_labels ss)) ts (states ss (rs_instanceTree ss))))"
proof -
  have "\<exists>ts. s = concat ts \<and>
      list_all2 (\<lambda>t (a, i, m). (\<exists>rest. t = ''            case '' @ dec i @ '':\<newline>'' @ rest) \<and>
        MemberLabel i m \<in> set (tree_labels ss)) ts (states ss (rs_instanceTree ss))"
    if run: "recurseWriteRequest ss na (rs_instanceRoot ss) (rs_instanceTree ss) = Inr s"
  proof -
    obtain ts where ts: "map (\<lambda>(a, i, m). write_state ss na a i m) (states ss (rs_instanceTree ss)) = map Inr ts"
      "s = concat ts"
      using recurseWriteRequest_states [OF run] by (auto simp: write_all_Inr)
    have len: "length ts = length (states ss (rs_instanceTree ss))" using ts(1) by (metis length_map)
    have "list_all2 (\<lambda>t (a, i, m). (\<exists>rest. t = ''            case '' @ dec i @ '':\<newline>'' @ rest) \<and>
        MemberLabel i m \<in> set (tree_labels ss)) ts (states ss (rs_instanceTree ss))"
    proof (rule list_all2_all_nthI [OF len])
      fix n assume n: "n < length ts"
      obtain a i m where e: "states ss (rs_instanceTree ss) ! n = (a, i, m)" by (metis prod_cases3)
      have "map (\<lambda>(a, i, m). write_state ss na a i m) (states ss (rs_instanceTree ss)) ! n = map Inr ts ! n"
        by (simp only: ts(1))
      then have t: "write_state ss na a i m = Inr (ts ! n)" using n len e by simp
      have "(a, i, m) \<in> set (states ss (rs_instanceTree ss))" using n len e by (metis nth_mem)
      then show "case states ss (rs_instanceTree ss) ! n of (a, i, m) \<Rightarrow>
          (\<exists>rest. ts ! n = ''            case '' @ dec i @ '':\<newline>'' @ rest) \<and> MemberLabel i m \<in> set (tree_labels ss)"
        unfolding e prod.case using write_state_label [OF t] states_labels by (simp add: tree_labels_def)
    qed
    with ts(2) show ?thesis by blast
  qed
  moreover have "recurseEncode ss (rs_instanceRoot ss) (rs_instanceTree ss) = concat (map (encode_label ss) (tree_labels ss))"
    "recurseDecode ss (rs_instanceRoot ss) (rs_instanceTree ss) = concat (map (decode_label ss) (tree_labels ss))"
    by (simp_all add: recurseEncode_def recurseDecode_def recurse_children_labels tree_labels_def encode_label_def
        decode_label_def label_index_def encode_action_def decode_action_def)
  ultimately show ?thesis by blast
qed

section \<open>The code of a component\<close>

definition label_type :: "('c, 'a, 'b, 'm) read_session \<Rightarrow> ('a, 'm) label \<Rightarrow> u32" where
  "label_type ss l = word_of_int (label_index ss l)"

text \<open>What the functions of a component do with a type: \<open>code\<close> is what the texts of the compiler for a data member do.\<close>

definition program_code_of ::
  "('c, 'a, 'b, 'm) read_session \<Rightarrow> ('a, 'b) network_analysis \<Rightarrow> ('m \<Rightarrow> ('o, 'x) member_code) \<Rightarrow> ('x \<Rightarrow> action_state)
   \<Rightarrow> ('o, 'x) program_code" where
  "program_code_of ss na code st = \<lparr>
     pc_action = (\<lambda>ty. case find (\<lambda>l. label_type ss l = ty) (tree_labels ss) of Some (ActionLabel a) \<Rightarrow> True | _ \<Rightarrow> False),
     pc_member = (\<lambda>ty. case find (\<lambda>l. label_type ss l = ty) (tree_labels ss) of
        Some (MemberLabel i m) \<Rightarrow> Some (code m) | _ \<Rightarrow> None),
     pc_state = (\<lambda>ty. case find (\<lambda>(a, i, m). word_of_int i = ty) (states ss (rs_instanceTree ss)) of
        None \<Rightarrow> None
      | Some (a, i, m) \<Rightarrow>
          Some (if isBufferInProcess ss na (rs_memberBuffer ss m) = Inr True
                then OwnState (rs_hasDefinition ss (rs_actionContext ss a))
                  (case rs_referenceMember ss a of Some r \<Rightarrow> word_of_int (rs_memberDimension ss r) | None \<Rightarrow> 0)
                  (word_of_int (rs_actionIndex ss a))
                else ForeignState)),
     pc_stateOf = st\<rparr>"

lemma find_SomeD: "find P xs = Some x \<Longrightarrow> P x \<and> x \<in> set xs"
  by (induction xs) (auto split: if_splits)

text \<open>Components of one program transfer the values of a data member to a component that has its buffer.\<close>

definition code_ok :: "('o, 'x) member_code \<Rightarrow> 'x \<Rightarrow> bool" where
  "code_ok c x \<longleftrightarrow> (\<exists>os. mc_encode c x = Inr os \<and> (\<forall>rest. mc_decode c (os @ rest) = Inr (x, rest)))"

lemma program_members:
  assumes "distinct (map (label_type ss) (tree_labels ss))" and "MemberLabel i m \<in> set (tree_labels ss)"
  shows "\<not> pc_action (program_code_of ss na code st) (word_of_int i)"
    and "pc_member (program_code_of ss na code st) (word_of_int i) = Some (code m)"
proof -
  have "find (\<lambda>l. label_type ss l = word_of_int i) (tree_labels ss) = Some (MemberLabel i m)"
    by (rule find_distinct [OF assms]) (simp add: label_type_def label_index_def)
  then show "\<not> pc_action (program_code_of ss na code st) (word_of_int i)"
    and "pc_member (program_code_of ss na code st) (word_of_int i) = Some (code m)"
    by (simp_all add: program_code_of_def)
qed

lemma program_transfers:
  assumes labels: "distinct (map (label_type ss) (tree_labels ss))" "MemberLabel i m \<in> set (tree_labels ss)"
    and own: "isBufferInProcess ss na' (rs_memberBuffer ss m) = Inr True" and ok: "code_ok (code m) x"
  shows "transferable (program_code_of ss na code st) (program_code_of ss na' code st) (word_of_int i) x"
proof -
  have "i' = i \<and> m' = m" if "(a', i', m') \<in> set (states ss (rs_instanceTree ss))" "word_of_int i' = (word_of_int i :: u32)"
    for a' i' m'
  proof -
    have "MemberLabel i' m' \<in> set (tree_labels ss)" using states_labels [OF that(1)] by (simp add: tree_labels_def)
    moreover have "label_type ss (MemberLabel i' m') = label_type ss (MemberLabel i m)"
      using that(2) by (simp add: label_type_def label_index_def)
    ultimately show ?thesis using labels by (auto simp: distinct_map inj_on_def)
  qed
  then have "pc_state (program_code_of ss na' code st) (word_of_int i) \<noteq> Some ForeignState"
    using own by (auto simp: program_code_of_def split: option.split dest!: find_SomeD)
  with ok show ?thesis by (simp add: transferable_def program_members [OF labels] code_ok_def)
qed


section \<open>Enumerators\<close>

lemma concat_pairs_nth: "k < length xs \<Longrightarrow> concat (map (\<lambda>x. [f x, g x]) xs) ! (2 * k + (if w then 1 else 0)) =
    (if w then g (xs ! k) else f (xs ! k))"
proof (induction xs arbitrary: k)
  case (Cons x xs)
  then show ?case by (cases k) (auto simp: nth_Cons')
qed simp

text \<open> The numbers by which the lock functions address a host are the values of the enumerators that the header of
  the component declares and the accesses name, and the sets have a place for each.\<close>

theorem enumerators_of_addresses:
  assumes "k < length (na_hostStructures na)"
  shows "lock_enumerators na ! ad_bit (member_address ss na k w d h) =
      hs_strIdentityEnumName (snd (na_hostStructures na ! k)) @ (if w then ''_write'' else ''_read'') \<and>
    cycle_enumerators na ! ad_cycle (member_address ss na k w d h) =
      hs_strIdentityEnumName (snd (na_hostStructures na ! k)) @ ''_cycle'' \<and>
    length (lock_enumerators na) = 2 * length (na_hostStructures na) \<and>
    length (cycle_enumerators na) = length (na_hostStructures na)"
proof -
  let ?f = "\<lambda>e. hs_strIdentityEnumName (snd e) @ ''_read''" and ?g = "\<lambda>e. hs_strIdentityEnumName (snd e) @ ''_write''"
  have pairs: "lock_enumerators na = concat (map (\<lambda>e. [?f e, ?g e]) (na_hostStructures na))"
    by (simp add: lock_enumerators_def case_prod_unfold)
  have "length (concat (map (\<lambda>e. [?f e, ?g e]) xs)) = 2 * length xs" for xs :: "(path \<times> 'a host_structures) list"
    by (induction xs) simp_all
  then show ?thesis
    using concat_pairs_nth [OF assms, of ?f ?g w] assms
    by (simp add: pairs member_address_def cycle_enumerators_def case_prod_unfold)
qed

section \<open>Writes between the components of a program\<close>

text \<open>The hosts that \<open>completeSimulationLocks\<close> goes through: the bit of \<open>_write\<close> and the index of the root.\<close>

definition hosts_of_analysis :: "('c, 'a, 'b, 'm) read_session \<Rightarrow> ('a, 'b) network_analysis \<Rightarrow> (nat \<times> u32) list" where
  "hosts_of_analysis ss na =
     map (\<lambda>k. (2 * k + 1, word_of_int (rs_actionIndex ss (hs_pRoot (snd (na_hostStructures na ! k))))))
       [0..<length (na_hostStructures na)]"

text \<open>The component of a tree owns a buffer.\<close>

definition owns_buffer :: "('c, 'a, 'b, 'm) read_session \<Rightarrow> project_tree \<Rightarrow> 'b \<Rightarrow> bool" where
  "owns_buffer ss t b \<longleftrightarrow>
     (case rs_coordinatorHostname ss (rs_actionContext ss (rs_bufferAction ss b)) of
        None \<Rightarrow> False
      | Some (c, h) \<Rightarrow> getCoordinatorName t = Inr (rs_identifier ss c) \<and> getHostName t = Inr (rs_identifier ss h))"

lemma getBufferTypes_relation:
  assumes "getBufferTypes ss t bs m = Inr m'" and "distinct (map (rs_bufferIndex ss) bs)" and "smap_wf m"
  shows "(\<forall>b \<in> set bs. \<exists>c h r b0. rs_coordinatorHostname ss (rs_actionContext ss (rs_bufferAction ss b)) = Some (c, h) \<and>
      buffer_relation_of ss t c h = Inr r \<and> map_of m' (rs_bufferIndex ss b) = Some (b0, r)) \<and>
    (\<forall>i. i \<notin> rs_bufferIndex ss ` set bs \<longrightarrow> map_of m' i = map_of m i)"
  using assms
proof (induction bs arbitrary: m)
  case (Cons b bs)
  obtain c h r where b: "rs_coordinatorHostname ss (rs_actionContext ss (rs_bufferAction ss b)) = Some (c, h)"
    "buffer_relation_of ss t c h = Inr r" and rest: "getBufferTypes ss t bs (set_relation ss b r m) = Inr m'"
    using Cons.prems(1) by (auto simp: andThen_eq_Inr split: option.splits)
  have wf: "smap_wf (set_relation ss b r m)"
    using Cons.prems(3) by (auto simp: set_relation_def smap_assign_wf split: option.split)
  have new: "\<exists>b0. map_of (set_relation ss b r m) (rs_bufferIndex ss b) = Some (b0, r)"
    "\<And>i. i \<noteq> rs_bufferIndex ss b \<Longrightarrow> map_of (set_relation ss b r m) i = map_of m i"
    using Cons.prems(3) by (auto simp: set_relation_def smap_assign_find split: option.split)
  have distinct: "distinct (map (rs_bufferIndex ss) bs)" "rs_bufferIndex ss b \<notin> rs_bufferIndex ss ` set bs"
    using Cons.prems(2) by simp_all
  note IH = Cons.IH [OF rest distinct(1) wf]
  have "map_of m' (rs_bufferIndex ss b) = map_of (set_relation ss b r m) (rs_bufferIndex ss b)"
    using IH distinct(2) by blast
  then show ?case using IH b new by auto
qed simp

lemma owned_in_process:
  assumes ctor: "NetworkAnalysis_ctor ss t = Inr na" and laws: "session_laws ss" and "b \<in> set (rs_buffers ss)"
    and own: "owns_buffer ss t b"
  shows "isBufferInProcess ss na b = Inr True"
proof -
  obtain c h r b0 where r: "rs_coordinatorHostname ss (rs_actionContext ss (rs_bufferAction ss b)) = Some (c, h)"
    "buffer_relation_of ss t c h = Inr r" "map_of (na_bufferTypes na) (rs_bufferIndex ss b) = Some (b0, r)"
    using getBufferTypes_relation [OF NetworkAnalysis_parts(1) [OF ctor]] laws assms(3)
    by (force simp: session_laws_def)
  have "r = eComponent" using r(1,2) own by (auto simp: owns_buffer_def buffer_relation_of_def)
  then show ?thesis using r(3) by (simp add: isBufferInProcess_def getBufferRelation_def)
qed


lemma hashed_buffer:
  assumes ctor: "NetworkAnalysis_ctor ss t = Inr na" and "(b, d) \<in> set (hashed_members ss (na_bufferTypes na))"
  shows "b \<in> set (rs_buffers ss)"
proof -
  have "types_ok ss (na_bufferTypes na)"
    by (rule getBufferTypes_ok [OF NetworkAnalysis_parts(1) [OF ctor]]) (simp_all add: types_ok_def)
  with assms(2) show ?thesis
    by (auto simp: hashed_members_def type_members_def types_ok_def split: if_splits)
qed

lemma generated_hosts:
  assumes laws: "index_laws ss na" and xs: "\<And>x. x \<in> set xs \<Longrightarrow> \<exists>d inst. generated_access ss na d inst x"
  shows "hosts_of_accesses (hosts_of_analysis ss na) (2 * length (na_hostStructures na)) xs"
proof -
  have "map snd (hosts_of_analysis ss na) =
      map (\<lambda>e. word_of_int (rs_actionIndex ss (hs_pRoot (snd e)))) (na_hostStructures na)"
    by (rule nth_equalityI) (simp_all add: hosts_of_analysis_def)
  then have "distinct (map snd (hosts_of_analysis ss na))" using laws by (simp add: index_laws_def)
  moreover have "(ad_bit a, ad_rtt a) \<in> set (hosts_of_analysis ss na)" if "WriteInstance a inst \<in> set xs" for a inst
    using xs [OF that]
    by (auto simp: generated_instance instance_access_def member_address_def hosts_of_analysis_def)
  ultimately show ?thesis by (auto simp: hosts_of_accesses_def hosts_of_analysis_def)
qed

text \<open>C4.  In a cycle a component writes to data members that other components of the program own.  At its end one
  message goes to the host of each; the component built for that host, which decodes the message, then has the
  values of the writer for the instances that were written there, and all its other data as before.  The
  writer starts its next cycle with empty sets.\<close>

theorem program_writes_reach_owner:
  assumes ctor: "NetworkAnalysis_ctor ss t = Inr na" and laws: "session_laws ss" "index_laws ss na"
    and small: "bits ss (hashed_members ss (na_bufferTypes na)) < 2 ^ 31"
    and labels: "distinct (map (label_type ss) (tree_labels ss))"
      "\<And>b d. (b, d) \<in> set (hashed_members ss (na_bufferTypes na)) \<Longrightarrow> MemberLabel (rs_memberDimension ss d) d \<in> set (tree_labels ss)"
    and libs: "msgpack_laws mp" "answers ca" "\<And>S. finite S \<Longrightarrow> set (in_order S) = S"
    and xs: "\<And>x. x \<in> set xs \<Longrightarrow> \<exists>d inst. generated_access ss na d inst x"
    and code: "\<And>b d i. (b, d) \<in> set (hashed_members ss (na_bufferTypes na)) \<Longrightarrow>
      code_ok (code d) (store (word_of_int (rs_memberDimension ss d), i))"
    and w: "WriteInstance w i \<in> set xs"
    and owner: "NetworkAnalysis_ctor ss t' = Inr na'"
      "\<And>d inst a. WriteInstance a inst \<in> set xs \<Longrightarrow> ad_rtt a = ad_rtt w \<Longrightarrow> generated_access ss na d inst (WriteInstance a inst)
        \<Longrightarrow> owns_buffer ss t' (rs_memberBuffer ss d)"
  shows "\<exists>s ms n os d'.
    run_accesses ca xs (cycle_start (unat (getReadBitSetSize na)) (2 * length (na_hostStructures na))
      (length (na_hostStructures na))) = Inr s \<and>
    completeSimulationLocks mp (program_code_of ss na code st) in_order store (hosts_of_analysis ss na) s = Inr (ms, n) \<and>
    map_of ms (ad_rtt w) = Some os \<and> decodeWriteRequest mp (program_code_of ss na' code st) os d = Some (Inr d') \<and>
    (\<forall>inst ty. cd_store d' (ty, inst) = (if (inst, ty) \<in> written xs (ad_rtt w) then store else cd_store d) (ty, inst)) \<and>
    ns_reads n = replicate (unat (getReadBitSetSize na)) False \<and>
    ns_hostLocks n = replicate (2 * length (na_hostStructures na)) False \<and> ns_writes n = (\<lambda>_. {})"
proof (rule writes_reach_owner [OF libs(1,2,3)])
  let ?writer = "program_code_of ss na code st" and ?owner = "program_code_of ss na' code st"
  have member: "MemberLabel (rs_memberDimension ss d) d \<in> set (tree_labels ss)"
    "code_ok (code d) (store (word_of_int (rs_memberDimension ss d), inst))" "ad_type a = word_of_int (rs_memberDimension ss d)"
    "rs_memberBuffer ss d \<in> set (rs_buffers ss)"
    if "generated_access ss na d inst (WriteInstance a inst)" for d inst a
  proof -
    from that have m: "(rs_memberBuffer ss d, d) \<in> set (hashed_members ss (na_bufferTypes na))"
      and "ad_type a = word_of_int (rs_memberDimension ss d)"
      by (auto simp: generated_instance instance_access_def member_address_def)
    then show "ad_type a = word_of_int (rs_memberDimension ss d)" by simp
    show "MemberLabel (rs_memberDimension ss d) d \<in> set (tree_labels ss)" by (rule labels(2) [OF m])
    show "code_ok (code d) (store (word_of_int (rs_memberDimension ss d), inst))" by (rule code [OF m])
    show "rs_memberBuffer ss d \<in> set (rs_buffers ss)" by (rule hashed_buffer [OF ctor m])
  qed
  have access: "\<exists>d. generated_access ss na d inst (WriteInstance a inst)" if "WriteInstance a inst \<in> set xs" for a inst
    using xs [OF that] by (auto simp: generated_instance)
  show "in_range (unat (getReadBitSetSize na)) (2 * length (na_hostStructures na)) (length (na_hostStructures na)) x"
    if "x \<in> set xs" for x
    using xs [OF that] generated_in_range [OF ctor laws(1) small] by blast
  show "locks_apart x y" if "x \<in> set xs" "y \<in> set xs" for x y
    using xs [OF that(1)] xs [OF that(2)] generated_locks_apart [OF laws(2)] by blast
  show "hosts_of_accesses (hosts_of_analysis ss na) (2 * length (na_hostStructures na)) xs"
    by (rule generated_hosts [OF laws(2) xs])
  show "\<exists>os. encode_case ?writer store (ad_type a) inst = Inr os" if a: "WriteInstance a inst \<in> set xs" for a inst
  proof -
    obtain d where d: "generated_access ss na d inst (WriteInstance a inst)" using access [OF a] by blast
    show ?thesis using member(2,3) [OF d] program_members [OF labels(1) member(1) [OF d], of na code st]
      by (auto simp: encode_case_def code_ok_def)
  qed
  show "transferable ?writer ?owner (ad_type a) (store (ad_type a, inst))"
    if a: "WriteInstance a inst \<in> set xs" "ad_rtt a = ad_rtt w" for a inst
  proof -
    obtain d where d: "generated_access ss na d inst (WriteInstance a inst)" using access [OF a(1)] by blast
    have "isBufferInProcess ss na' (rs_memberBuffer ss d) = Inr True"
      by (rule owned_in_process [OF owner(1) laws(1) member(4) [OF d] owner(2) [OF a d]])
    from program_transfers [where code = code, OF labels(1) member(1) [OF d] this member(2) [OF d], of na st] show ?thesis
      by (simp add: member(3) [OF d])
  qed
  show "WriteInstance w i \<in> set xs" by (rule w)
qed

end
