(* ===== verification/Network_Witnesses.thy ===== *)
theory Network_Witnesses
  imports Network_Locking Build_Witnesses
begin

text \<open>
  A program with two hosts in one coordinator, and the properties of the analysis and of the lock
  functions at it: the first host builds its component, the second owns two buffers with three members.
\<close>

definition demo_session :: "(nat, nat, nat, nat) read_session" where
  "demo_session = \<lparr>
     rs_treeRoot = 0,
     rs_interfaceTree = [],
     rs_instanceRoot = 0,
     rs_instanceTree = [CDimension 20 0 None, CDimension 21 1 None, CAction 14 [CDimension 22 2 (Some 14)]],
     rs_buffers = [0, 1],
     rs_bufferIndex = int,
     rs_bufferAction = (\<lambda>b. 14),
     rs_bufferMembers = (\<lambda>b. if b = 0 then [0] else [1, 2]),
     rs_bufferSize = (\<lambda>b. if b = 0 then 3 else 2),
     rs_bufferSimple = (\<lambda>b. False),
     rs_bufferVariable = (\<lambda>b. ''g_'' @ dec_nat b),
     rs_bufferType = (\<lambda>b. ''B'' @ dec_nat b),
     rs_memberIndex = int,
     rs_memberBuffer = (\<lambda>d. if d = 0 then 0 else 1),
     rs_memberName = (\<lambda>d. ''m'' @ dec_nat d),
     rs_memberType = (\<lambda>d. ''int''),
     rs_memberDimension = (\<lambda>d. 20 + int d),
     rs_allocation = (\<lambda>d i. []),
     rs_deallocation = (\<lambda>d i. []),
     rs_encode = (\<lambda>d i. []),
     rs_decode = (\<lambda>d i. []),
     rs_defaultPrinter = (\<lambda>d i. ''m'' @ dec_nat d),
     rs_actions = [],
     rs_actionIndex = int,
     rs_actionName = (\<lambda>a. []),
     rs_actionContext = (\<lambda>a. if a = 13 then 3 else 4),
     rs_actionChain = (\<lambda>a. [a]),
     rs_actionParent = (\<lambda>a. a = 14),
     rs_referenceMember = (\<lambda>a. Some 1),
     rs_allocator = (\<lambda>a. Some SingletonAllocator),
     rs_identifier = (\<lambda>c. if c = 2 then ''co'' else if c = 3 then ''h1'' else if c = 4 then ''h2'' else ''pr''),
     rs_staticType = (\<lambda>c. []),
     rs_rootType = (\<lambda>c. Some (if c = 0 then eInterfaceRoot else if c = 1 then eMegaRoot else if c = 2 then eCoordinator
        else if c = 3 \<or> c = 4 then eHostName else eProjectName)),
     rs_isLink = (\<lambda>c. False),
     rs_class = (\<lambda>c. ActionContext),
     rs_hasDefinition = (\<lambda>c. False),
     rs_isExecutable = (\<lambda>c. c = 4),
     rs_isMainExecutable = (\<lambda>c. False),
     rs_contextChain = (\<lambda>c. [c, 2, 1, 0]),
     rs_childContexts = (\<lambda>c. if c = 0 then [1] else []),
     rs_childContext = (\<lambda>c n. if c = 1 then Some 2 else if c = 2 then Some (if n = ''h1'' then 3 else 4)
        else if c = 3 then Some 5 else Some 6),
     rs_coordinatorHostname = (\<lambda>c. Some (2, 4)),
     rs_instances = (\<lambda>c. [Some (10 + c)]),
     rs_includeGuard = (\<lambda>s. s),
     rs_line = [],
     rs_EG_INSTANCE = []\<rparr>"

definition demo_host_dir :: "string \<Rightarrow> host_name" where
  "demo_host_dir h = \<lparr>hn_path = [''w'', ''src'', ''co'', h],
     hn_projects = [\<lparr>pn_path = [''w'', ''src'', ''co'', h, ''pr''], pn_sourceFiles = [], pn_project = demo_project_dir\<rparr>]\<rparr>"

definition demo_network_tree :: project_tree where
  "demo_network_tree = \<lparr>pt_path = [''w''], pt_coordinatorName = Some ''co'', pt_hostName = Some ''h1'',
     pt_projectName = ''pr'',
     pt_coordinators = [\<lparr>co_path = [''w'', ''src'', ''co''], co_hostNames = [demo_host_dir ''h1'', demo_host_dir ''h2'']\<rparr>]\<rparr>"

definition demo_analysis :: "(nat, nat) network_analysis" where
  "demo_analysis = \<lparr>
     na_bufferHostNames = [(0, demo_host_dir ''h2''), (1, demo_host_dir ''h2'')],
     na_bufferTypes = [(0, 0, eProcess), (1, 1, eProcess)],
     na_hashBases = [(0, 0), (1, 3), (2, 5)],
     na_hashTotal = 7,
     na_hostStructures = [([''w'', ''src'', ''co'', ''h2''],
       \<lparr>hs_strWriteSetName = ''g_co_h2_writes'', hs_strIdentityEnumName = ''e_co_h2'', hs_pRoot = 14\<rparr>)]\<rparr>"

lemmas demo_analysis_simps =
  NetworkAnalysis_ctor_def demo_session_def demo_network_tree_def demo_analysis_def buffer_relation_of_def getHostName_def
  getCoordinatorName_def getDataHashBases_def hashed_def add_hash_base_def set_relation_def getHostStructures_def
  mega_root_def verify_root_def demo_host_dir_def HostName_name_def Coordinator_name_def ProjectName_name_def
  host_root_action_def structures_of_def insert_hostName_def buffer_host_def getBufferRelation_def filename_def Let_def
  verify_rte_def

lemma demo_session_analysis: "NetworkAnalysis_ctor demo_session demo_network_tree = Inr demo_analysis"
  by (simp add: demo_analysis_simps)

lemma demo_laws: "session_laws demo_session" "index_laws demo_session demo_analysis"
  by (simp_all add: session_laws_def index_laws_def demo_session_def demo_analysis_def hashed_members_def
      type_members_def hashed_def)

lemma demo_members: "hashed_members demo_session (na_bufferTypes demo_analysis) = [(0, 0), (1, 1), (1, 2)]"
  by (simp add: hashed_members_def type_members_def hashed_def demo_session_def demo_analysis_def)

lemma demo_bits: "bits demo_session (hashed_members demo_session (na_bufferTypes demo_analysis)) < 2 ^ 31"
  by (simp add: demo_members) (simp add: demo_session_def)

lemma demo_sizes [simp]:
  "rs_bufferSize demo_session 0 = 3" "rs_bufferSize demo_session (Suc 0) = 2" "rs_buffers demo_session = [0, 1]"
  "rs_bufferMembers demo_session (Suc 0) = [1, 2]" "rs_memberBuffer demo_session 0 = 0" "rs_memberBuffer demo_session 2 = 1"
  by (simp_all add: demo_session_def)

theorem hash_bits_disjoint_witness:
  "\<exists>h h'. getDataMemberReadHashBase demo_session demo_analysis 1 = Inr h \<and>
     getDataMemberReadHashBase demo_session demo_analysis 0 = Inr h' \<and>
     unat h + 1 \<noteq> unat h' + 2 \<and> unat h + 1 < unat (getReadBitSetSize demo_analysis)"
  by (rule hash_bits_disjoint [OF demo_session_analysis demo_laws(1) demo_bits, where b = 1 and b' = 0])
    (simp_all add: demo_members)

theorem accesses_printed_witness:
  "MegastructureReader_print demo_session demo_analysis 2 ''i'' =
     Inr ''eg::readlock< int, e_co_h2_cycle , e_co_h2_read, 14, 5, 22 >( i, g_1[ i ].m2 )'' \<and>
   MegastructureWriter_print demo_session demo_analysis 2 ''i'' =
     Inr ''eg::writelock< int, e_co_h2_cycle , e_co_h2_write, 14, 5, 22 >( i, g_co_h2_writes, g_1[ i ].m2 )''"
proof -
  obtain r hs h where p: "getBufferRelation demo_session demo_analysis 1 = Inr r"
    "MegastructureReader_print demo_session demo_analysis 2 ''i'' = Inr (access_text demo_session r 2 ''i'' hs h False)"
    "MegastructureWriter_print demo_session demo_analysis 2 ''i'' = Inr (access_text demo_session r 2 ''i'' hs h True)"
    "r \<noteq> eComponent \<longrightarrow> getHostStructures_buffer demo_session demo_analysis 1 = Inr hs"
    "hashed demo_session 1 r \<longrightarrow> getDataMemberReadHashBase demo_session demo_analysis 2 = Inr h"
    using accesses_printed [OF demo_session_analysis demo_laws(1) demo_bits, of 1 2 "''i''"] by auto
  have r: "r = eProcess" using p(1) by (simp add: getBufferRelation_def demo_session_def demo_analysis_def)
  have h: "h = 5" using p(5)
    by (simp add: r hashed_def getDataMemberReadHashBase_def demo_session_def demo_analysis_def)
  have hs: "hs = \<lparr>hs_strWriteSetName = ''g_co_h2_writes'', hs_strIdentityEnumName = ''e_co_h2'', hs_pRoot = 14\<rparr>"
    using p(4) by (simp add: r getHostStructures_buffer_def demo_session_def demo_analysis_def demo_host_dir_def)
  show ?thesis unfolding p(2,3) r h hs
    by (simp add: access_text_def lock_arguments_def hash_arguments_def member_text_def demo_session_def dec_def
        dec_nat.simps char_of_def bit_0)
qed

definition demo_component_api :: component_api where
  "demo_component_api = \<lparr>ca_readlock = (\<lambda>cs ty. Inr 1), ca_read = (\<lambda>cs ty i. Inr ()), ca_writelock = (\<lambda>cs ty. Inr 1)\<rparr>"

lemma demo_answers: "answers demo_component_api"
  by (simp add: answers_def demo_component_api_def)

definition demo_member_address :: address where
  "demo_member_address = \<lparr>ad_cycle = 0, ad_bit = 0, ad_rtt = 14, ad_hashBase = 5, ad_type = 22\<rparr>"

text \<open>The same program with its first buffer simple: its member has no bits, and is read and written as a value.\<close>

definition mixed_session :: "(nat, nat, nat, nat) read_session" where
  "mixed_session = demo_session\<lparr>rs_bufferSimple := (\<lambda>b. b = 0)\<rparr>"

definition mixed_analysis :: "(nat, nat) network_analysis" where
  "mixed_analysis = demo_analysis\<lparr>na_hashBases := [(1, 0), (2, 2)], na_hashTotal := 4\<rparr>"

lemma mixed_session_analysis: "NetworkAnalysis_ctor mixed_session demo_network_tree = Inr mixed_analysis"
  by (simp add: mixed_session_def mixed_analysis_def demo_analysis_simps)

lemmas mixed_simps = mixed_session_def mixed_analysis_def demo_session_def demo_analysis_def

lemma mixed_members: "hashed_members mixed_session (na_bufferTypes mixed_analysis) = [(1, 1), (1, 2)]"
  by (simp add: hashed_members_def type_members_def hashed_def mixed_simps)

lemma mixed_laws: "session_laws mixed_session" "index_laws mixed_session mixed_analysis"
    "bits mixed_session (hashed_members mixed_session (na_bufferTypes mixed_analysis)) < 2 ^ 31"
  unfolding index_laws_def mixed_members
  by (simp_all add: session_laws_def mixed_simps)

definition mixed_access :: "access list" where
  "mixed_access =
    [Read \<lparr>ad_cycle = 0, ad_bit = 0, ad_rtt = 14, ad_hashBase = 0, ad_type = 20\<rparr>,
     ReadInstance \<lparr>ad_cycle = 0, ad_bit = 0, ad_rtt = 14, ad_hashBase = 2, ad_type = 22\<rparr> 1,
     Read \<lparr>ad_cycle = 0, ad_bit = 0, ad_rtt = 14, ad_hashBase = 0, ad_type = 20\<rparr>]"

lemma mixed_generated:
  "generated_access mixed_session mixed_analysis 0 0 (Read \<lparr>ad_cycle = 0, ad_bit = 0, ad_rtt = 14, ad_hashBase = 0, ad_type = 20\<rparr>)"
  "generated_access mixed_session mixed_analysis 2 1
     (ReadInstance \<lparr>ad_cycle = 0, ad_bit = 0, ad_rtt = 14, ad_hashBase = 2, ad_type = 22\<rparr> 1)"
proof -
  show "generated_access mixed_session mixed_analysis 0 0
      (Read \<lparr>ad_cycle = 0, ad_bit = 0, ad_rtt = 14, ad_hashBase = 0, ad_type = 20\<rparr>)"
    unfolding generated_access_def
    by (rule exI [of _ 0]) (simp add: mixed_simps demo_host_dir_def member_address_def getBufferRelation_def
        getHostStructures_buffer_def)
  show "generated_access mixed_session mixed_analysis 2 1
      (ReadInstance \<lparr>ad_cycle = 0, ad_bit = 0, ad_rtt = 14, ad_hashBase = 2, ad_type = 22\<rparr> 1)"
    unfolding generated_instance instance_access_def
    by (intro conjI [OF refl] exI [of _ 0] exI [of _ 2])
      (simp add: mixed_members, simp add: mixed_simps demo_host_dir_def member_address_def
        getDataMemberReadHashBase_def getHostStructures_buffer_def)
qed

theorem generated_cycle_witness:
  "\<exists>s. run_accesses demo_component_api mixed_access (cycle_start (unat (getReadBitSetSize mixed_analysis)) 2 1) = Inr s \<and>
     locks_of s = [CallReadLock 14] \<and> reads_of s = [(22, 1)]"
proof -
  have one: "length (na_hostStructures mixed_analysis) = 1" by (simp add: mixed_simps)
  obtain s where s: "run_accesses demo_component_api mixed_access (cycle_start (unat (getReadBitSetSize mixed_analysis)) 2 1) = Inr s"
    "distinct (locks_of s)" "set (locks_of s) = access_call ` set mixed_access"
    "distinct (reads_of s)" "set (reads_of s) = (\<Union>x \<in> set mixed_access. set (instance_of x))"
    using generated_cycle [OF mixed_session_analysis mixed_laws demo_answers, of mixed_access] mixed_generated
    by (auto simp: one is_read_def mixed_access_def)
  have single: "xs = [y]" if "distinct xs" "set xs = {y}" for xs :: "'z list" and y
    using that by (cases xs; cases "tl xs") auto
  have "locks_of s = [CallReadLock 14]" "reads_of s = [(22, 1)]"
    using s(2-5) by (auto intro!: single simp: mixed_access_def)
  then show ?thesis using s(1) by blast
qed

definition demo_write_address :: address where
  "demo_write_address = demo_member_address\<lparr>ad_bit := 1\<rparr>"

definition demo_writing :: sim_locks where
  "demo_writing = \<lparr>m_pCurrentSimLock =
       Some [\<lparr>uiCoordinator = 1, uiHost = 7, cycleState = \<lparr>uiCycle = 3, state = eWriting\<rparr>\<rparr>],
     m_pFutureSimLock = None, m_bCurrentLockReleased = False\<rparr>"

theorem write_then_read_faults_witness:
  "\<exists>n rest. run_accesses demo_component_api [WriteInstance demo_write_address 1, ReadInstance demo_member_address 1]
       (cycle_start 7 2 1) = Inr n \<and>
     ns_calls n = CallWriteLock 14 # CallReadLock 14 # rest \<and>
     OnReadLock 1 7 3 demo_writing = Inl (Rte ''Already have lock state when requesting read lock'')"
  using write_then_read_faults [OF demo_answers, where w = demo_write_address and a = demo_member_address and
      reads = 7 and locks = 2 and cycles = 1 and inst = 1 and s = demo_writing and host = 7 and coordinator = 1]
  by (simp add: demo_write_address_def demo_member_address_def demo_writing_def in_range_def)

end
