(* ===== verification/Writes_Witnesses.thy ===== *)
theory Writes_Witnesses
  imports Component_Program Network_Witnesses "HOL-Library.Product_Lexorder"
begin

text \<open>
  The properties of the encoding and of the writes at a program whose action 14 has a state, member 22, and a
  reference, member 23.  An object of the library is the list of the integers in it.
\<close>

definition demo_msgpack :: "(int list, int) msgpack" where
  "demo_msgpack = \<lparr>
     mp_pack = (\<lambda>v. [v]),
     mp_convert = (\<lambda>ob. case ob of [v] \<Rightarrow> Some v | _ \<Rightarrow> None),
     mp_pack_u8 = (\<lambda>x. [uint x]),
     mp_convert_u8 = (\<lambda>ob. case ob of [v] \<Rightarrow> Some (word_of_int v) | _ \<Rightarrow> None),
     mp_pack_u32 = (\<lambda>x. [uint x]),
     mp_convert_u32 = (\<lambda>ob. case ob of [v] \<Rightarrow> Some (word_of_int v) | _ \<Rightarrow> None),
     mp_pack_type = (\<lambda>x. [sint x]),
     mp_convert_type = (\<lambda>ob. case ob of [v] \<Rightarrow> Some (word_of_int v) | _ \<Rightarrow> None),
     mp_pack_u64 = (\<lambda>x. [uint x]),
     mp_convert_u64 = (\<lambda>ob. case ob of [v] \<Rightarrow> Some (word_of_int v) | _ \<Rightarrow> None),
     mp_pack_bool = (\<lambda>b. [of_bool b]),
     mp_convert_bool = (\<lambda>ob. case ob of [v] \<Rightarrow> Some (v = 1) | _ \<Rightarrow> None),
     mp_pack_array = (\<lambda>xs. map uint xs),
     mp_convert_array = (\<lambda>n ob. if length ob = n then Some (map word_of_int ob) else None)\<rparr>"

lemma demo_msgpack_laws: "msgpack_laws demo_msgpack"
  by (simp add: msgpack_laws_def demo_msgpack_def comp_def map_idI)

theorem dimension_roundtrip_witness:
  "\<exists>os. DimensionTraits_encode demo_msgpack (T_bitmask32 3) (D_bitmask [True, False, True]) = Inr os \<and>
     DimensionTraits_decode demo_msgpack (T_bitmask32 3) (os @ [[7]]) = Inr (D_bitmask [True, False, True], [[7]])"
proof -
  have "has_type (D_bitmask [True, False, True] :: int dimension) (T_bitmask32 3)" by simp
  from dimension_roundtrip [OF demo_msgpack_laws this] show ?thesis by auto
qed

section \<open>A write\<close>

definition demo_member :: "dimension_type \<Rightarrow> (int list, int dimension) member_code" where
  "demo_member ty = \<lparr>mc_encode = DimensionTraits_encode demo_msgpack ty, mc_decode = DimensionTraits_decode demo_msgpack ty\<rparr>"

definition demo_state :: "int dimension \<Rightarrow> action_state" where
  "demo_state v = (if v = D_state 1 then action_running else action_stopped)"

definition demo_program_data :: "int dimension component_data" where
  "demo_program_data = \<lparr>cd_store = (\<lambda>_. D_state 0), cd_calls = []\<rparr>"

definition demo_owner_tree :: project_tree where
  "demo_owner_tree = demo_network_tree\<lparr>pt_hostName := Some ''h2''\<rparr>"

definition demo_owner_analysis :: "(nat, nat) network_analysis" where
  "demo_owner_analysis = \<lparr>
     na_bufferHostNames = [(0, demo_host_dir ''h2''), (1, demo_host_dir ''h2'')],
     na_bufferTypes = [(0, 0, eComponent), (1, 1, eComponent)],
     na_hashBases = [], na_hashTotal = 0,
     na_hostStructures = [([''w'', ''src'', ''co'', ''h1''],
       \<lparr>hs_strWriteSetName = ''g_co_h1_writes'', hs_strIdentityEnumName = ''e_co_h1'', hs_pRoot = 13\<rparr>)]\<rparr>"

lemma demo_owner_session: "NetworkAnalysis_ctor demo_session demo_owner_tree = Inr demo_owner_analysis"
  by (simp add: demo_analysis_simps demo_owner_tree_def demo_owner_analysis_def)

lemma demo_labels:
  "distinct (map (label_type demo_session) (tree_labels demo_session))"
  "set (tree_labels demo_session) =
     {ActionLabel 0, ActionLabel 14, MemberLabel 20 0, MemberLabel 21 1, MemberLabel 22 2}"
  by (auto simp: tree_labels_def demo_session_def label_type_def label_index_def)

lemma demo_code_ok: "code_ok (demo_member T_state) (D_state 1)"
proof -
  have "has_type (D_state 1 :: int dimension) T_state" by simp
  from dimension.decode_encode [OF demo_msgpack_laws this] show ?thesis by (simp add: code_ok_def demo_member_def)
qed

lemma demo_write_generated: "generated_access demo_session demo_analysis 2 1 (WriteInstance demo_write_address 1)"
  unfolding generated_instance instance_access_def
  by (intro conjI [OF refl] exI [of _ 0] exI [of _ 5])
    (simp add: demo_members, simp add: demo_session_def demo_analysis_def demo_host_dir_def member_address_def
      demo_member_address_def demo_write_address_def getDataMemberReadHashBase_def getHostStructures_buffer_def)

theorem enumerators_of_addresses_witness:
  "lock_enumerators demo_analysis ! ad_bit (member_address demo_session demo_analysis 0 True 2 5) = ''e_co_h2_write''"
  using enumerators_of_addresses [of 0 demo_analysis demo_session True 2 5] by (simp add: demo_analysis_def)

theorem program_writes_reach_owner_witness:
  "\<exists>s ms n os d'.
     run_accesses demo_component_api [WriteInstance demo_write_address 1] (cycle_start 7 2 1) = Inr s \<and>
     completeSimulationLocks demo_msgpack (program_code_of demo_session demo_analysis (\<lambda>_. demo_member T_state) demo_state)
       sorted_list_of_set (\<lambda>_. D_state 1) (hosts_of_analysis demo_session demo_analysis) s = Inr (ms, n) \<and>
     map_of ms 14 = Some os \<and>
     decodeWriteRequest demo_msgpack (program_code_of demo_session demo_owner_analysis (\<lambda>_. demo_member T_state) demo_state)
       os demo_program_data = Some (Inr d') \<and>
     cd_store d' (22, 1) = D_state 1 \<and> cd_store d' (22, 2) = D_state 0"
proof -
  let ?xs = "[WriteInstance demo_write_address 1]" and ?code = "\<lambda>_ :: nat. demo_member T_state"
  have a: "ad_rtt demo_write_address = 14" by (simp add: demo_write_address_def demo_member_address_def)
  have w: "written ?xs 14 = {(1, 22)}"
    by (auto simp: written_def demo_write_address_def demo_member_address_def)
  have sizes: "length (na_hostStructures demo_analysis) = 1" "unat (getReadBitSetSize demo_analysis) = 7"
    by (simp_all add: demo_analysis_def getReadBitSetSize_def)
  have dims: "rs_memberDimension demo_session d = 20 + int d" for d by (simp add: demo_session_def)
  have owns: "owns_buffer demo_session demo_owner_tree b" for b
    by (simp add: owns_buffer_def demo_session_def demo_owner_tree_def demo_network_tree_def getCoordinatorName_def
        getHostName_def)
  have "\<exists>s ms n os d'.
     run_accesses demo_component_api ?xs (cycle_start (unat (getReadBitSetSize demo_analysis))
       (2 * length (na_hostStructures demo_analysis)) (length (na_hostStructures demo_analysis))) = Inr s \<and>
     completeSimulationLocks demo_msgpack (program_code_of demo_session demo_analysis ?code demo_state)
       sorted_list_of_set (\<lambda>_. D_state 1) (hosts_of_analysis demo_session demo_analysis) s = Inr (ms, n) \<and>
     map_of ms (ad_rtt demo_write_address) = Some os \<and>
     decodeWriteRequest demo_msgpack (program_code_of demo_session demo_owner_analysis ?code demo_state)
       os demo_program_data = Some (Inr d') \<and>
     (\<forall>inst ty. cd_store d' (ty, inst) = (if (inst, ty) \<in> written ?xs (ad_rtt demo_write_address)
        then \<lambda>_. D_state 1 else cd_store demo_program_data) (ty, inst)) \<and>
     ns_reads n = replicate (unat (getReadBitSetSize demo_analysis)) False \<and>
     ns_hostLocks n = replicate (2 * length (na_hostStructures demo_analysis)) False \<and> ns_writes n = (\<lambda>_. {})"
    by (rule program_writes_reach_owner [OF demo_session_analysis demo_laws demo_bits demo_labels(1) _ demo_msgpack_laws
          demo_answers, where t' = demo_owner_tree and i = 1])
      (use demo_write_generated in \<open>auto simp: demo_labels demo_members dims demo_code_ok demo_owner_session owns\<close>)
  then obtain s ms n os d' where r: "run_accesses demo_component_api ?xs (cycle_start 7 2 1) = Inr s"
    "completeSimulationLocks demo_msgpack (program_code_of demo_session demo_analysis ?code demo_state)
       sorted_list_of_set (\<lambda>_. D_state 1) (hosts_of_analysis demo_session demo_analysis) s = Inr (ms, n)"
    "map_of ms 14 = Some os"
    "decodeWriteRequest demo_msgpack (program_code_of demo_session demo_owner_analysis ?code demo_state)
       os demo_program_data = Some (Inr d')"
    and d: "\<forall>inst ty. cd_store d' (ty, inst) =
       (if (inst, ty) \<in> {(1, 22)} then \<lambda>_. D_state 1 else cd_store demo_program_data) (ty, inst)"
    unfolding a w sizes by auto
  have "cd_store d' (22, 1) = D_state 1" "cd_store d' (22, 2) = D_state 0"
    using d by (simp_all add: demo_program_data_def)
  with r show ?thesis by blast
qed

end
