(* ===== verification/Config_Generator.thy ===== *)
theory Config_Generator
  imports Component_Generator
begin

text \<open>
  The generator of the configuration functions of a component, \<open>src/src/generators/configio_generator.cpp\<close>:
  the trees of the constants below each object of the component, and the source with \<open>config_io_load\<close> and
  \<open>config_io_save\<close>.
\<close>

text \<open>
  What it asks of the analysis besides a \<open>read_session\<close>: the index of a context, by which the map of the objects is
  ordered, the identifiers of \<open>getPath\<close>, the number of instances of an action in one of its parent, and the
  dimension of a data member that is declared in the program.
\<close>

record user_dimension =
  ud_const :: bool
  ud_isEGType :: bool
  ud_identifier :: string
  ud_friendlyName :: string

record ('c, 'a, 'm) user_session =
  us_contextIndex :: "'c \<Rightarrow> int"
  us_path :: "'c \<Rightarrow> string list"
  us_localDomainSize :: "'a \<Rightarrow> nat"
  us_dimension :: "'m \<Rightarrow> user_dimension option"

section \<open>The trees of constants\<close>

datatype ('a, 'm) const_tree = ConstTree (pAction: 'a) (children: "('a, 'm) const_tree list") (constants: "('m \<times> user_dimension) list")

text \<open>A child of the tree of instances must be an action whose context is a root of the given type.\<close>

definition root_of_type :: "('c, 'a, 'b, 'm) read_session \<Rightarrow> root_type \<Rightarrow> 'a \<Rightarrow> unit result" where
  "root_of_type ss ty a =
     (case rs_rootType ss (rs_actionContext ss a) of
        None \<Rightarrow> Inl (Rte ''pRoot'')
      | Some r \<Rightarrow> verify_rte (r = ty) ''getRootType'')"

text \<open>The loops over coordinators, hosts and projects return the first project that matches.\<close>

fun find_project ::
  "project_tree \<Rightarrow> ('c, 'a, 'b, 'm) read_session \<Rightarrow> ('a, 'm) celement list \<Rightarrow> ('a \<times> ('a, 'm) celement list) option result" where
  "find_project t ss [] = Inr None"
| "find_project t ss (CAction a cs # es) =
     andThen (root_of_type ss eProjectName a) (\<lambda>_.
       if rs_identifier ss (rs_actionContext ss a) = pt_projectName t then Inr (Some (a, cs)) else find_project t ss es)"
| "find_project t ss (e # es) = find_project t ss es"

fun find_hostRoot ::
  "project_tree \<Rightarrow> ('c, 'a, 'b, 'm) read_session \<Rightarrow> ('a, 'm) celement list \<Rightarrow> ('a \<times> ('a, 'm) celement list) option result" where
  "find_hostRoot t ss [] = Inr None"
| "find_hostRoot t ss (CAction a cs # es) =
     andThen (root_of_type ss eHostName a) (\<lambda>_.
     andThen (getHostName t) (\<lambda>host.
     andThen (if rs_identifier ss (rs_actionContext ss a) = host then find_project t ss cs else Inr None) (\<lambda>r.
       case r of Some p \<Rightarrow> Inr (Some p) | None \<Rightarrow> find_hostRoot t ss es)))"
| "find_hostRoot t ss (e # es) = find_hostRoot t ss es"

fun find_coordinator ::
  "project_tree \<Rightarrow> ('c, 'a, 'b, 'm) read_session \<Rightarrow> ('a, 'm) celement list \<Rightarrow> ('a \<times> ('a, 'm) celement list) option result" where
  "find_coordinator t ss [] = Inr None"
| "find_coordinator t ss (CAction a cs # es) =
     andThen (root_of_type ss eCoordinator a) (\<lambda>_.
     andThen (getCoordinatorName t) (\<lambda>coordinator.
     andThen (if rs_identifier ss (rs_actionContext ss a) = coordinator then find_hostRoot t ss cs else Inr None) (\<lambda>r.
       case r of Some p \<Rightarrow> Inr (Some p) | None \<Rightarrow> find_coordinator t ss es)))"
| "find_coordinator t ss (e # es) = find_coordinator t ss es"

definition findComponentRoot ::
  "project_tree \<Rightarrow> ('c, 'a, 'b, 'm) read_session \<Rightarrow> ('a \<times> ('a, 'm) celement list) option result" where
  "findComponentRoot t ss =
     andThen (root_of_type ss eInterfaceRoot (rs_instanceRoot ss)) (\<lambda>_.
     andThen (verify_rte (length (rs_instanceTree ss) = 1) ''getChildren'') (\<lambda>_.
       case rs_instanceTree ss of
         [CAction m cs] \<Rightarrow> andThen (root_of_type ss eMegaRoot m) (\<lambda>_. find_coordinator t ss cs)
       | _ \<Rightarrow> Inl (Ub ''pMegaRoot'')))"

fun build_children :: "('c, 'a, 'm) user_session \<Rightarrow> ('a, 'm) celement list \<Rightarrow> ('a, 'm) const_tree list"
  and build_constants :: "('c, 'a, 'm) user_session \<Rightarrow> ('a, 'm) celement list \<Rightarrow> ('m \<times> user_dimension) list" where
  "build_children us [] = []"
| "build_children us (CAction a cs # es) = ConstTree a (build_children us cs) (build_constants us cs) # build_children us es"
| "build_children us (CDimension i m st # es) = build_children us es"
| "build_children us (COther # es) = build_children us es"
| "build_constants us [] = []"
| "build_constants us (CDimension i m st # es) =
     (case us_dimension us m of
        None \<Rightarrow> build_constants us es
      | Some d \<Rightarrow> if ud_const d then (m, d) # build_constants us es else build_constants us es)"
| "build_constants us (CAction a cs # es) = build_constants us es"
| "build_constants us (COther # es) = build_constants us es"

definition buildTree :: "('c, 'a, 'm) user_session \<Rightarrow> 'a \<Rightarrow> ('a, 'm) celement list \<Rightarrow> ('a, 'm) const_tree" where
  "buildTree us a es = ConstTree a (build_children us es) (build_constants us es)"

text \<open>Without the subtrees that have no constants; and whether there are none in the tree.\<close>

fun pruneTree :: "('a, 'm) const_tree \<Rightarrow> bool \<times> ('a, 'm) const_tree" where
  "pruneTree (ConstTree a cs ks) =
     (let kept = map snd (filter (\<lambda>r. \<not> fst r) (map pruneTree cs)) in
      (kept = [] \<and> ks = [], ConstTree a kept ks))"

type_synonym ('c, 'a, 'm) object_trees = "(int \<times> 'c \<times> ('a, 'm) const_tree) list"

text \<open>The trees of the objects leave the tree above them; the map keeps the first tree of an object.\<close>

fun gatherObjectTrees ::
  "('c, 'a, 'b, 'm) read_session \<Rightarrow> ('c, 'a, 'm) user_session \<Rightarrow> ('c, 'a, 'm) object_trees \<Rightarrow> ('a, 'm) const_tree
   \<Rightarrow> ('c, 'a, 'm) object_trees \<times> bool \<times> ('a, 'm) const_tree"
  and gather_children ::
  "('c, 'a, 'b, 'm) read_session \<Rightarrow> ('c, 'a, 'm) user_session \<Rightarrow> ('c, 'a, 'm) object_trees \<Rightarrow> ('a, 'm) const_tree list
   \<Rightarrow> ('c, 'a, 'm) object_trees \<times> ('a, 'm) const_tree list" where
  "gatherObjectTrees ss us m (ConstTree a cs ks) =
     (let (m', kept) = gather_children ss us m cs; c = rs_actionContext ss a; t = ConstTree a kept ks in
      if rs_class ss c = ObjectContext
      then (let (empty, t') = pruneTree t in
            (if empty then m' else smap_insert (us_contextIndex us c) (c, t') m', True, t'))
      else (m', False, t))"
| "gather_children ss us m [] = (m, [])"
| "gather_children ss us m (t # ts) =
     (let (m', taken, t') = gatherObjectTrees ss us m t; (m'', ts') = gather_children ss us m' ts in
      (m'', if taken then ts' else t' # ts'))"

section \<open>Instances\<close>

text \<open>
  The instance of an action within an object, from the indices of the levels between them: the numbers of the
  indices with their factors.  \<open>chain\<close> is the action and its parents in turn.
\<close>

fun index_factors ::
  "('c, 'a, 'b, 'm) read_session \<Rightarrow> ('c, 'a, 'm) user_session \<Rightarrow> 'c \<Rightarrow> 'a list \<Rightarrow> int \<Rightarrow> int \<Rightarrow> (int \<times> int) list result" where
  "index_factors ss us pObject [] iNodeCount factor = Inl (Ub ''pAction'')"
| "index_factors ss us pObject (a # chain) iNodeCount factor =
     (if rs_actionContext ss a = pObject then Inr []
      else case chain of
        [] \<Rightarrow> Inl (Ub ''pAction'')
      | p # _ \<Rightarrow> andThen (index_factors ss us pObject chain (iNodeCount - 1) (factor * int (us_localDomainSize us p)))
          (\<lambda>fs. Inr ((iNodeCount, factor) # fs)))"

definition computeIndexString ::
  "('c, 'a, 'b, 'm) read_session \<Rightarrow> ('c, 'a, 'm) user_session \<Rightarrow> 'c \<Rightarrow> 'a \<Rightarrow> int \<Rightarrow> string result" where
  "computeIndexString ss us pObject a iNodeCount =
     andThen (index_factors ss us pObject (rs_actionChain ss a) (iNodeCount - 1) (int (us_localDomainSize us a))) (\<lambda>fs.
       Inr ('' ( index_'' @ dec iNodeCount @ '' ) '' @
         concat (map (\<lambda>(k, f). '' + ( index_'' @ dec k @ '' * '' @ dec f @ '' ) '') fs)))"

section \<open>The functions that load\<close>

text \<open>The branch that reads a constant.\<close>

definition load_constant ::
  "('c, 'a, 'b, 'm) read_session \<Rightarrow> ('c, 'a, 'm) user_session \<Rightarrow> ('a, 'b) network_analysis \<Rightarrow> 'c \<Rightarrow> 'a \<Rightarrow> string \<Rightarrow> int
   \<Rightarrow> 'm \<times> user_dimension \<Rightarrow> string result" where
  \<open>load_constant ss us na pObject a ind n k =
     (let d = snd k in
      andThen (computeIndexString ss us pObject a n) (\<lambda>i.
      andThen (MegastructureWriter_print ss na (fst k) i) (\<lambda>wr. Inr (
      ind @ ''    //load: '' @ ud_friendlyName d @ ''\<newline>'' @ ind @ ''    else if( identity_'' @
      dec (n + 1) @ '' == "'' @ ud_identifier d @ ''" )\<newline>'' @ ind @ ''    {\<newline>'' @ ind @
      ''      Ed::IShorthandStream is( n'' @ dec (n + 1) @ ''.statement.shorthand.get() );\<newline>''
        @ (if ud_isEGType d
           then
           ind @ ''      {\<newline>'' @ ind @ ''        eg::reference egRef;\<newline>'' @ ind @
           ''        Ed::Ref edRef;\<newline>'' @ ind @
           ''        is >> egRef.instance >> edRef >> egRef.timestamp;\<newline>'' @ ind @
           ''        egRef.type = fromReference( edRef );\<newline>'' @ ind @ ''        '' @ wr @
           ''.data = egRef;\<newline>'' @ ind @ ''      }\<newline>''
           else
           ind @ ''      is >> '' @ wr @ '';\<newline>'') @
           ind @ ''    }\<newline>''))))\<close>

lemma write_all_cong [fundef_cong]:
  "xs = ys \<Longrightarrow> (\<And>x. x \<in> set ys \<Longrightarrow> f x = g x) \<Longrightarrow> write_all f xs = write_all g ys"
proof (induction xs arbitrary: ys)
  case (Cons x xs)
  then show ?case by (cases ys) auto
qed simp

fun generateLoadRecurse ::
  "('c, 'a, 'b, 'm) read_session \<Rightarrow> ('c, 'a, 'm) user_session \<Rightarrow> ('a, 'b) network_analysis \<Rightarrow> 'c \<Rightarrow> string \<Rightarrow> int
   \<Rightarrow> ('a, 'm) const_tree \<Rightarrow> string result" where
  \<open>generateLoadRecurse ss us na pObject strIndent n (ConstTree a cs ks) =
     (let ind = strIndent @ ''      '' in
      andThen (write_all (load_constant ss us na pObject a ind n) ks) (\<lambda>constants.
      andThen (write_all (\<lambda>child.
        andThen (computeIndexString ss us pObject (pAction child) (n + 1)) (\<lambda>own.
        andThen (computeIndexString ss us pObject a n) (\<lambda>parent.
        andThen (generateLoadRecurse ss us na pObject ind (n + 1) child) (\<lambda>rest. Inr (
        ind @ ''    else if( identity_'' @ dec (n + 1) @ '' == "'' @
        rs_identifier ss (rs_actionContext ss (pAction child)) @ ''" )\<newline>'' @ ind @ ''    {\<newline>'' @
        ind @ ''        if( !::isActionActive< '' @ rs_staticType ss (rs_actionContext ss (pAction child)) @
        '' >( '' @ dec (rs_actionIndex ss (pAction child)) @ '', '' @ own @ ''  ) )\<newline>'' @ ind @
        ''        {\<newline>'' @ ind @ ''          '' @ rs_actionName ss (pAction child) @ ''_starter( '' @
        parent @ '' );\<newline>'' @ ind @ ''        }\<newline>''
          @ rest @
          ind @ ''    }\<newline>''))))) cs) (\<lambda>branches. Inr (
          ind @ ''int index_'' @ dec (n + 1) @ '';\<newline>'' @ ind @ ''for( const Ed::Node& n'' @ dec (n + 1) @
          '' : n'' @ dec n @ ''.children )\<newline>'' @ ind @ ''{\<newline>'' @ ind @
          ''  std::string identity_'' @ dec (n + 1) @ '';\<newline>'' @ ind @ ''  if( parseIdentifier( n'' @
          dec (n + 1) @ ''.statement.declarator.identifier.get(), identity_'' @ dec (n + 1) @ '', index_'' @
          dec (n + 1) @ '' ) )\<newline>'' @ ind @ ''  {\<newline>'' @ ind @ ''    if( identity_'' @ dec (n + 1) @
          '' == "" )\<newline>'' @ ind @ ''    {\<newline>'' @ ind @
          ''      ERR( "Node missing identifier" );\<newline>'' @ ind @ ''    }\<newline>''
        @ constants @ branches @
        ind @ ''    else\<newline>'' @ ind @ ''    {\<newline>'' @ ind @
        ''      ERR( "Failed to match node: " << identity_'' @ dec (n + 1) @ '' );\<newline>'' @ ind @
        ''    }\<newline>'' @ ind @ ''  }\<newline>'' @ ind @ ''  else\<newline>'' @ ind @ ''  {\<newline>'' @
        ind @ ''    ERR( "Failed to match node: " << identity_'' @ dec (n + 1) @ '' );\<newline>'' @ ind @
        ''  }\<newline>'' @ ind @ ''}\<newline>''))))\<close>

definition generateLoad ::
  "('c, 'a, 'b, 'm) read_session \<Rightarrow> ('c, 'a, 'm) user_session \<Rightarrow> ('a, 'b) network_analysis \<Rightarrow> 'c \<Rightarrow> ('a, 'm) const_tree
   \<Rightarrow> string result" where
  \<open>generateLoad ss us na pObject t =
     andThen (generateLoadRecurse ss us na pObject ''      '' 1 t) (\<lambda>rest. Inr (
     '' {\<newline>'' @ ''  boost::filesystem::path edFilePath = sourceFolderPath / "'' @
     rs_identifier ss pObject @ ''.ed";\<newline>'' @
     ''  if( boost::filesystem::exists( edFilePath ) )\<newline>'' @ ''  {\<newline>'' @ ''    try\<newline>'' @
     ''    {\<newline>'' @ ''      Ed::Node node;\<newline>'' @ ''      {\<newline>'' @
     ''        Ed::BasicFileSystem filesystem;\<newline>'' @
     ''        Ed::File edFile( filesystem, edFilePath.string() );\<newline>'' @
     ''        edFile.expandShorthand();\<newline>'' @ ''        edFile.removeTypes();\<newline>'' @
     ''        edFile.toNode( node );\<newline>'' @ ''      }\<newline>'' @
     ''      for( const Ed::Node& n : node.children )\<newline>'' @ ''      {\<newline>'' @
     ''      for( const Ed::Node& n1 : n.children )\<newline>'' @ ''      {\<newline>'' @
     ''        std::string identity_1;\<newline>'' @ ''        int index_1;\<newline>'' @
     ''        if( parseIdentifier( n1.statement.declarator.identifier.get(), identity_1, index_1 ) )\<newline>'' @
     ''        {\<newline>'' @ ''          if( identity_1 == "" )\<newline>'' @ ''          {\<newline>'' @
     ''            ERR( "Node missing identifier" );\<newline>'' @ ''          }\<newline>'' @
     ''          else if( identity_1 == "'' @ rs_identifier ss (rs_actionContext ss (pAction t)) @
     ''" )\<newline>'' @ ''          {\<newline>'' @ ''            if( !::isActionActive< '' @
     rs_staticType ss (rs_actionContext ss (pAction t)) @ '' >( '' @ dec (rs_actionIndex ss (pAction t)) @
     '', index_1  ) )\<newline>'' @ ''            {\<newline>'' @ ''              '' @
     rs_actionName ss (pAction t) @ ''_starter( 0 );\<newline>'' @ ''            }\<newline>''
       @ rest @
       ''          }\<newline>'' @ ''          else\<newline>'' @ ''          {\<newline>'' @
       ''            ERR( "Failed to match node: " << identity_1 );\<newline>'' @ ''          }\<newline>'' @
       ''        }\<newline>'' @ ''        else\<newline>'' @ ''        {\<newline>'' @
       ''          ERR( "Failed to match node: " << identity_1 );\<newline>'' @ ''        }\<newline>'' @
       ''        }\<newline>'' @ ''      }\<newline>'' @ ''    }\<newline>'' @
       ''    catch( std::exception& ex )\<newline>'' @ ''    {\<newline>'' @
       ''      ERR( "Error loading config file: " << edFilePath.string() << " : " << ex.what() );\<newline>'' @
       ''    }\<newline>'' @ ''  }\<newline>'' @ ''  else\<newline>'' @ ''  {\<newline>'' @
       ''    ERR( "Config file not found: " << edFilePath.string() );\<newline>'' @ ''  }\<newline>'' @
       '' }\<newline>''))\<close>

section \<open>The functions that save\<close>

definition save_constant ::
  "('c, 'a, 'b, 'm) read_session \<Rightarrow> ('c, 'a, 'm) user_session \<Rightarrow> ('a, 'b) network_analysis \<Rightarrow> 'c \<Rightarrow> 'a \<Rightarrow> string \<Rightarrow> int
   \<Rightarrow> 'm \<times> user_dimension \<Rightarrow> string result" where
  \<open>save_constant ss us na pObject a ind n k =
     (let d = snd k in
      andThen (computeIndexString ss us pObject a (n + 1)) (\<lambda>i.
      andThen (MegastructureReader_print ss na (fst k) i) (\<lambda>rd. Inr (
      ind @ ''//save: '' @ ud_friendlyName d @ ''\<newline>'' @ ind @ ''{\<newline>'' @ ind @
      ''  Ed::Node dimNode;\<newline>'' @ ind @
      ''  dimNode.statement.declarator.identifier = makeIdentifier( "'' @ ud_identifier d @ ''", 0);\<newline>'' @
      ind @ ''  if( !dimNode.statement.shorthand )\<newline>'' @ ind @
      ''    dimNode.statement.shorthand = Ed::Shorthand();\<newline>'' @ ind @
      ''  Ed::OShorthandStream os( dimNode.statement.shorthand.get() );\<newline>''
        @ (if ud_isEGType d
           then
           ind @ ''  {\<newline>'' @ ind @ ''    const eg::reference& egRef = '' @ rd @ ''.data;\<newline>'' @
           ind @ ''    const Ed::Ref edRef = fromRunTimeTypeID( egRef.type );\<newline>'' @ ind @
           ''    os << egRef.instance << edRef << egRef.timestamp;\<newline>'' @ ind @ ''  }\<newline>''
           else
           ind @ ''  os << '' @ rd @ '';\<newline>'') @
           ind @ ''  n'' @ dec (n + 1) @ ''.children.push_back( dimNode );\<newline>'' @ ind @ ''}\<newline>''))))\<close>

fun generateSaveRecurse ::
  "('c, 'a, 'b, 'm) read_session \<Rightarrow> ('c, 'a, 'm) user_session \<Rightarrow> ('a, 'b) network_analysis \<Rightarrow> 'c \<Rightarrow> string \<Rightarrow> int
   \<Rightarrow> ('a, 'm) const_tree \<Rightarrow> string result" where
  \<open>generateSaveRecurse ss us na pObject strIndent n (ConstTree a cs ks) =
     (let ind1 = strIndent @ ''  ''; ind2 = ind1 @ ''  ''; ind = ind2 @ ''  '' in
      andThen (computeIndexString ss us pObject a (n + 1)) (\<lambda>own.
      andThen (write_all (save_constant ss us na pObject a ind n) ks) (\<lambda>constants.
      andThen (write_all (\<lambda>child.
        andThen (generateSaveRecurse ss us na pObject ind (n + 1) child) (\<lambda>rest. Inr (
        ind @ ''{\<newline>''
          @ rest @
          ind @ ''}\<newline>''))) cs) (\<lambda>below. Inr (
          ind1 @ ''for( int index_'' @ dec (n + 1) @ '' = 0; index_'' @ dec (n + 1) @ '' != '' @
          dec_nat (us_localDomainSize us a) @ ''; ++index_'' @ dec (n + 1) @ '' )\<newline>'' @ ind1 @
          ''{\<newline>''
        @
        ind2 @ ''if( ::isActionActive< '' @ rs_staticType ss (rs_actionContext ss a) @ '' >( '' @
        dec (rs_actionIndex ss a) @ '', '' @ own @ ''  ) )\<newline>'' @ ind2 @ ''{\<newline>''
        @
        ind @ ''Ed::Node n'' @ dec (n + 1) @ '';\<newline>'' @ ind @ ''n'' @ dec (n + 1) @
        ''.statement.declarator.identifier = makeIdentifier( "'' @ rs_identifier ss (rs_actionContext ss a) @
        ''", index_'' @ dec (n + 1) @ '');\<newline>''
        @ constants @ below @
        ind @ ''n'' @ dec n @ ''.children.push_back( n'' @ dec (n + 1) @ '' );\<newline>''
        @
        ind2 @ ''}\<newline>''
        @
        ind1 @ ''}\<newline>'')))))\<close>

definition generateSave ::
  "('c, 'a, 'b, 'm) read_session \<Rightarrow> ('c, 'a, 'm) user_session \<Rightarrow> ('a, 'b) network_analysis \<Rightarrow> 'c \<Rightarrow> ('a, 'm) const_tree
   \<Rightarrow> string result" where
  \<open>generateSave ss us na pObject t =
     andThen (generateSaveRecurse ss us na pObject ''    '' 1 t) (\<lambda>rest. Inr (
     ''{\<newline>'' @ ''    Ed::Node n1( Ed::Statement( Ed::Declarator( "'' @ rs_identifier ss pObject @
     ''" ) ) );\<newline>'' @ ''    {\<newline>''
       @ rest @
       ''    }\<newline>'' @ ''    boost::filesystem::path edFilePath = sourceFolderPath / "'' @
       rs_identifier ss pObject @ ''.ed";\<newline>'' @
       ''    std::ofstream os( edFilePath.string() );\<newline>'' @ ''    os << n1;\<newline>'' @
       ''}\<newline>''))\<close>

section \<open>References\<close>

text \<open>The two functions between the types of the program and the references in a file.\<close>

definition reference_text :: "string list \<Rightarrow> string" where
  \<open>reference_text ids =
     (case ids of
        [] \<Rightarrow> []
      | _ \<Rightarrow> concat (map (\<lambda>(first, i). (if first then [] else '','') @ ''Ed::Identifier{"'' @ i @ ''"}'')
          (zip (True # replicate (length ids - 1) False) ids)))\<close>

definition type_case :: "('c, 'a, 'b, 'm) read_session \<Rightarrow> ('c, 'a, 'm) user_session \<Rightarrow> 'a \<Rightarrow> string" where
  \<open>type_case ss us a =
     ''    case '' @ dec (rs_actionIndex ss a) @ '': return Ed::make_ref( Ed::Reference{'' @
     reference_text (us_path us (rs_actionContext ss a)) @ ''} );\<newline>''\<close>

fun recurseFromRunTimeTypeID_children ::
  "('c, 'a, 'b, 'm) read_session \<Rightarrow> ('c, 'a, 'm) user_session \<Rightarrow> ('a, 'm) celement list \<Rightarrow> string" where
  "recurseFromRunTimeTypeID_children ss us [] = []"
| "recurseFromRunTimeTypeID_children ss us (CAction a cs # es) =
     type_case ss us a @ recurseFromRunTimeTypeID_children ss us cs @ recurseFromRunTimeTypeID_children ss us es"
| "recurseFromRunTimeTypeID_children ss us (e # es) = recurseFromRunTimeTypeID_children ss us es"

fun recurseFromReference_children ::
  "('c, 'a, 'b, 'm) read_session \<Rightarrow> string \<Rightarrow> ('a, 'm) celement list \<Rightarrow> string" where
  "recurseFromReference_children ss strIndent [] = []"
| \<open>recurseFromReference_children ss strIndent (CAction a cs # es) =
     (let ind = strIndent @ ''    '' in
     ind @ ''if( boost::get< Ed::Identifier >( *iter ) == "'' @ rs_identifier ss (rs_actionContext ss a) @
     ''" )\<newline>'' @ ind @ ''{\<newline>'' @ ind @ ''  ++iter;\<newline>'' @ ind @
     ''  if( iter == iterEnd )\<newline>'' @ ind @ ''  {\<newline>'' @ ind @ ''    return '' @
     dec (rs_actionIndex ss a) @ '';\<newline>'' @ ind @ ''  }\<newline>'' @ ind @ ''  else\<newline>'' @ ind @
     ''  {\<newline>''
      @ recurseFromReference_children ss ind cs @
      ind @ ''  }\<newline>'' @ ind @ ''}\<newline>'') @
     recurseFromReference_children ss strIndent es\<close>
| "recurseFromReference_children ss strIndent (e # es) = recurseFromReference_children ss strIndent es"

section \<open>The source\<close>

definition config_identifiers :: string where
  \<open>config_identifiers =
     ''inline bool parseIdentifier( const Ed::Identifier& identifier, std::string& strID, int& index )\<newline>'' @
     ''{\<newline>'' @ ''    if( identifier.size() > 5 )\<newline>'' @ ''    {\<newline>'' @
     ''        if( identifier[ identifier.size() - 5U ] == '' @ [CHR 0x27] @ ''_'' @ [CHR 0x27] @
     '' )\<newline>'' @ ''        {\<newline>'' @
     ''            if( std::isdigit( identifier[ identifier.size() - 1U ] ) &&\<newline>'' @
     ''                std::isdigit( identifier[ identifier.size() - 2U ] ) &&\<newline>'' @
     ''                std::isdigit( identifier[ identifier.size() - 3U ] ) &&\<newline>'' @
     ''                std::isdigit( identifier[ identifier.size() - 4U ] ) )\<newline>'' @
     ''            {\<newline>'' @
     ''                strID.assign( identifier.begin(), identifier.begin() + identifier.size() - 5U );\<newline>'' @
     ''                index = stoi( identifier.substr( identifier.size() - 4U, 4U ) );\<newline>'' @
     ''                return true;\<newline>'' @ ''            }\<newline>'' @ ''        }\<newline>'' @
     ''    }\<newline>'' @ ''    return false;\<newline>'' @ ''}\<newline>'' @ ''\<newline>'' @
     ''inline std::string makeIdentifier( const Ed::Identifier& identifier, int index )\<newline>'' @
     ''{\<newline>'' @ ''    std::ostringstream os;\<newline>'' @ ''    os << identifier << '' @ [CHR 0x27] @
     ''_'' @ [CHR 0x27] @ '' << std::setw( 4 ) << std::setfill( '' @ [CHR 0x27] @ ''0'' @ [CHR 0x27] @
     '' ) << index;\<newline>'' @ ''    return os.str();\<newline>'' @ ''}\<newline>'' @ ''\<newline>''\<close>

text \<open>The root of the instances has one child, an action.\<close>

definition generateConfigIO ::
  "('c, 'a, 'b, 'm) read_session \<Rightarrow> ('c, 'a, 'm) user_session \<Rightarrow> project_tree \<Rightarrow> ('a, 'b) network_analysis \<Rightarrow> string result" where
  \<open>generateConfigIO ss us t na =
     andThen (verify_rte (length (rs_instanceTree ss) = 1) ''children.size() == 1U'') (\<lambda>_.
     andThen (findComponentRoot t ss) (\<lambda>pComponentRoot.
       case pComponentRoot of
         None \<Rightarrow> Inl (Rte ''Could not find component root'')
       | Some (a, es) \<Rightarrow>
           (let (objectTreeMap, bRootIsObject, _) = gatherObjectTrees ss us [] (buildTree us a es) in
            andThen (verify_rte bRootIsObject ''bRootIsObject'') (\<lambda>_.
            andThen (getNetStateSourceInclude t) (\<lambda>netstate.
            andThen (write_all (\<lambda>(_, c, tr). generateLoad ss us na c tr) objectTreeMap) (\<lambda>loads.
            andThen (write_all (\<lambda>(_, c, tr). generateSave ss us na c tr) objectTreeMap) (\<lambda>saves. Inr (
            ''#include "geometry/config_conversions.hpp"\<newline>'' @ ''#include "'' @ getStructuresInclude @
            ''"\<newline>'' @ ''#include "'' @ netstate @ ''"\<newline>'' @ ''#include "ed/file.hpp"\<newline>'' @
            ''#include <fstream>\<newline>'' @ ''\<newline>''
              @ config_identifiers @
              ''Ed::Ref fromRunTimeTypeID( eg::TypeID typeID )\<newline>'' @ ''{\<newline>'' @
              ''  Ed::Ref r;\<newline>'' @ ''  switch( typeID )\<newline>'' @ ''  {\<newline>''
              @ recurseFromRunTimeTypeID_children ss us (rs_instanceTree ss) @
              ''     case 0: return Ed::make_ref( Ed::Reference{} );\<newline>'' @
              ''     default: ERR( "Failed to match runtime type for: " << typeID );\<newline>'' @
              ''  }\<newline>'' @ ''  return r;\<newline>'' @ ''}\<newline>'' @
              ''eg::TypeID fromReference( const Ed::Ref& reference )\<newline>'' @ ''{\<newline>'' @
              ''  if( reference.size() == 1U )\<newline>'' @ ''  {\<newline>'' @
              ''      Ed::Reference::const_iterator iter      = reference.front().begin();\<newline>'' @
              ''      Ed::Reference::const_iterator iterEnd   = reference.front().end();\<newline>'' @
              ''      if( iter != iterEnd )\<newline>'' @ ''      {\<newline>''
              @ recurseFromReference_children ss [] (rs_instanceTree ss) @
              ''      }\<newline>'' @ ''      else\<newline>'' @ ''      {\<newline>'' @
              ''        return 0;\<newline>'' @ ''      }\<newline>'' @
              ''      ERR( "Invalid reference:" << reference );\<newline>'' @ ''  }\<newline>'' @
              ''  return 0;\<newline>'' @ ''}\<newline>'' @
              ''void config_io_load( const char* pszSrcFolderPath )\<newline>'' @ ''{\<newline>'' @
              ''  const boost::filesystem::path sourceFolderPath = pszSrcFolderPath;\<newline>'' @
              ''  LOG( "config_io_load: " << sourceFolderPath.string() );\<newline>''
              @ loads @
              ''}\<newline>'' @ ''void config_io_save( const char* pszSrcFolderPath )\<newline>'' @
              ''{\<newline>'' @
              ''  const boost::filesystem::path sourceFolderPath = pszSrcFolderPath;\<newline>'' @
              ''  LOG( "config_io_save: " << sourceFolderPath.string() );\<newline>''
              @ saves @
              ''}\<newline>''))))))))\<close>

end
