(* ===== verification/Config_Semantics.thy ===== *)
theory Config_Semantics
  imports Config_Generator Component_Codec
begin

text \<open>
  What the source does that \<open>generateConfigIO\<close> in \<open>src/src/generators/configio_generator.cpp\<close> writes:
  \<open>config_io_save\<close> writes a document for each object of the component, \<open>config_io_load\<close> reads them.

  The documents are nodes of the ed library, which is a parameter: how a value or a reference becomes the
  shorthand of a node and is read back, and how a node is printed to a file and a file parsed.  What the
  starter of an action does to the state is a parameter too.  The expression of an instance is evaluated in
  an environment for the variables \<open>index_1\<close>, \<open>index_2\<close>, \<open>\<dots>\<close>.
\<close>

section \<open>Identifiers\<close>

definition is_digit :: "char \<Rightarrow> bool" where
  "is_digit c \<longleftrightarrow> CHR ''0'' \<le> c \<and> c \<le> CHR ''9''"

definition stoi :: "string \<Rightarrow> nat" where
  "stoi s = foldl (\<lambda>n c. 10 * n + (of_char c - 48)) 0 s"

definition parseIdentifier :: "string \<Rightarrow> (string \<times> nat) option" where
  "parseIdentifier identifier =
     (let n = length identifier in
      if 5 < n \<and> identifier ! (n - 5) = CHR ''_'' \<and> list_all is_digit (drop (n - 4) identifier)
      then Some (take (n - 5) identifier, stoi (drop (n - 4) identifier))
      else None)"

definition makeIdentifier :: "string \<Rightarrow> nat \<Rightarrow> string" where
  "makeIdentifier identifier index =
     identifier @ ''_'' @ replicate (4 - length (dec_nat index)) CHR ''0'' @ dec_nat index"

section \<open>References\<close>

text \<open>An \<open>Ed::Ref\<close> is a list of references, each a list of parts, of which an identifier is one kind.\<close>

datatype ed_part = Identifier string | OtherPart

type_synonym ed_ref = "ed_part list list"

datatype 'sh ed_node = EdNode (ed_identifier: "string option") (ed_shorthand: "'sh option") (ed_children: "'sh ed_node list")

record ('m, 'v, 'sh, 'f) ed_api =
  ed_make_ref :: "string list \<Rightarrow> ed_ref"
  ed_put :: "'v \<Rightarrow> 'sh"
  ed_get :: "'m \<Rightarrow> 'sh \<Rightarrow> 'v option"
  ed_put_reference :: "u32 \<Rightarrow> ed_ref \<Rightarrow> u32 \<Rightarrow> 'sh"
  ed_get_reference :: "'sh \<Rightarrow> (u32 \<times> ed_ref \<times> u32) option"
  ed_print :: "'sh ed_node \<Rightarrow> 'f"
  ed_parse :: "'f \<Rightarrow> 'sh ed_node option"

text \<open>The labels of the switch over types, with the references.\<close>

fun type_labels ::
  "('c, 'a, 'b, 'm) read_session \<Rightarrow> ('c, 'a, 'm) user_session \<Rightarrow> ('a, 'm) celement list \<Rightarrow> (u32 \<times> string list) list" where
  "type_labels ss us [] = []"
| "type_labels ss us (CAction a cs # es) =
     (word_of_int (rs_actionIndex ss a), us_path us (rs_actionContext ss a)) # type_labels ss us cs @ type_labels ss us es"
| "type_labels ss us (e # es) = type_labels ss us es"

definition fromRunTimeTypeID ::
  "('m, 'v, 'sh, 'f) ed_api \<Rightarrow> ('c, 'a, 'b, 'm) read_session \<Rightarrow> ('c, 'a, 'm) user_session \<Rightarrow> u32 \<Rightarrow> ed_ref" where
  "fromRunTimeTypeID ed ss us typeID =
     (case map_of (type_labels ss us (rs_instanceTree ss)) typeID of
        Some path \<Rightarrow> ed_make_ref ed path
      | None \<Rightarrow> if typeID = 0 then ed_make_ref ed [] else [])"

text \<open>The nested conditions: a type, or the place of the iterator after them.  \<open>boost::get\<close> throws on another
  kind of part.\<close>

fun match_children ::
  "('c, 'a, 'b, 'm) read_session \<Rightarrow> ('a, 'm) celement list \<Rightarrow> ed_part list \<Rightarrow> (u32 + ed_part list) result" where
  "match_children ss [] iter = Inr (Inr iter)"
| "match_children ss (CAction a cs # es) iter =
     (case iter of
        [] \<Rightarrow> Inl (Ub ''iter'')
      | OtherPart # _ \<Rightarrow> Inl (Rte ''bad_get'')
      | Identifier s # iter' \<Rightarrow>
          if s = rs_identifier ss (rs_actionContext ss a)
          then if iter' = [] then Inr (Inl (word_of_int (rs_actionIndex ss a)))
               else andThen (match_children ss cs iter') (\<lambda>r.
                 case r of Inl typeID \<Rightarrow> Inr (Inl typeID) | Inr iter'' \<Rightarrow> match_children ss es iter'')
          else match_children ss es iter)"
| "match_children ss (e # es) iter = match_children ss es iter"

definition fromReference :: "('c, 'a, 'b, 'm) read_session \<Rightarrow> ed_ref \<Rightarrow> u32 result" where
  "fromReference ss reference =
     (case reference of
        [parts] \<Rightarrow>
          if parts = [] then Inr 0
          else andThen (match_children ss (rs_instanceTree ss) parts) (\<lambda>r.
            case r of Inl typeID \<Rightarrow> Inr typeID | Inr _ \<Rightarrow> Inr 0)
      | _ \<Rightarrow> Inr 0)"

section \<open>The state\<close>

text \<open>The values of the data members of types of the program and of references, by instance, and the actions
  that are active.\<close>

record ('a, 'm, 'v) config_state =
  cs_value :: "'m \<Rightarrow> int \<Rightarrow> 'v"
  cs_reference :: "'m \<Rightarrow> int \<Rightarrow> reference"
  cs_active :: "'a \<Rightarrow> int \<Rightarrow> bool"

text \<open>Without factors the generator has thrown, and there is no source.\<close>

definition instance_of_indices ::
  "('c, 'a, 'b, 'm) read_session \<Rightarrow> ('c, 'a, 'm) user_session \<Rightarrow> 'c \<Rightarrow> 'a \<Rightarrow> int \<Rightarrow> (int \<Rightarrow> int) \<Rightarrow> int" where
  "instance_of_indices ss us pObject a n env =
     (case index_factors ss us pObject (rs_actionChain ss a) (n - 1) (int (us_localDomainSize us a)) of
        Inl _ \<Rightarrow> 0
      | Inr fs \<Rightarrow> env n + sum_list (map (\<lambda>(k, f). env k * f) fs))"

section \<open>Saving\<close>

definition save_constant_node ::
  "('m, 'v, 'sh, 'f) ed_api \<Rightarrow> ('c, 'a, 'b, 'm) read_session \<Rightarrow> ('c, 'a, 'm) user_session \<Rightarrow> ('a, 'm, 'v) config_state \<Rightarrow> int
   \<Rightarrow> 'm \<times> user_dimension \<Rightarrow> 'sh ed_node" where
  "save_constant_node ed ss us st inst = (\<lambda>(m, d).
     EdNode (Some (makeIdentifier (ud_identifier d) 0))
       (Some (if ud_isEGType d
              then let egRef = cs_reference st m inst in
                ed_put_reference ed (ref_instance egRef) (fromRunTimeTypeID ed ss us (ref_type egRef)) (ref_timestamp egRef)
              else ed_put ed (cs_value st m inst))) [])"

fun save_tree ::
  "('m, 'v, 'sh, 'f) ed_api \<Rightarrow> ('c, 'a, 'b, 'm) read_session \<Rightarrow> ('c, 'a, 'm) user_session \<Rightarrow> ('a, 'm, 'v) config_state \<Rightarrow> 'c
   \<Rightarrow> (int \<Rightarrow> int) \<Rightarrow> int \<Rightarrow> ('a, 'm) const_tree \<Rightarrow> 'sh ed_node list" where
  "save_tree ed ss us st pObject env n (ConstTree a cs ks) =
     concat (map (\<lambda>i.
       let env' = env(n + 1 := int i); inst = instance_of_indices ss us pObject a (n + 1) env' in
       if cs_active st a inst
       then [EdNode (Some (makeIdentifier (rs_identifier ss (rs_actionContext ss a)) i)) None
               (map (save_constant_node ed ss us st inst) ks @
                concat (map (save_tree ed ss us st pObject env' (n + 1)) cs))]
       else []) [0..<us_localDomainSize us a])"

definition save_object ::
  "('m, 'v, 'sh, 'f) ed_api \<Rightarrow> ('c, 'a, 'b, 'm) read_session \<Rightarrow> ('c, 'a, 'm) user_session \<Rightarrow> ('a, 'm, 'v) config_state \<Rightarrow> 'c
   \<Rightarrow> ('a, 'm) const_tree \<Rightarrow> 'sh ed_node" where
  "save_object ed ss us st pObject t =
     EdNode (Some (rs_identifier ss pObject)) None (save_tree ed ss us st pObject (\<lambda>_. 0) 1 t)"

text \<open>The files of a folder by name, with what they hold.\<close>

fun config_io_save ::
  "('m, 'v, 'sh, 'f) ed_api \<Rightarrow> ('c, 'a, 'b, 'm) read_session \<Rightarrow> ('c, 'a, 'm) user_session \<Rightarrow> ('c, 'a, 'm) object_trees
   \<Rightarrow> ('a, 'm, 'v) config_state \<Rightarrow> (string \<Rightarrow> 'f option) \<Rightarrow> (string \<Rightarrow> 'f option)" where
  "config_io_save ed ss us [] st files = files"
| "config_io_save ed ss us ((_, pObject, t) # ts) st files =
     config_io_save ed ss us ts st
       (files(rs_identifier ss pObject @ ''.ed'' \<mapsto> ed_print ed (save_object ed ss us st pObject t)))"

section \<open>Loading\<close>

text \<open>A conversion of the shorthand that throws ends the load of the object.\<close>

definition load_constant_node ::
  "('m, 'v, 'sh, 'f) ed_api \<Rightarrow> ('c, 'a, 'b, 'm) read_session \<Rightarrow> 'm \<times> user_dimension \<Rightarrow> int \<Rightarrow> 'sh option
   \<Rightarrow> ('a, 'm, 'v) config_state \<Rightarrow> fault option \<times> ('a, 'm, 'v) config_state" where
  "load_constant_node ed ss k inst shorthand st =
     (let m = fst k; d = snd k in
      case shorthand of
        None \<Rightarrow> (Some (Ub ''shorthand''), st)
      | Some sh \<Rightarrow>
          if ud_isEGType d
          then (case ed_get_reference ed sh of
                  None \<Rightarrow> (Some (Rte ''shorthand''), st)
                | Some (i, edRef, ts) \<Rightarrow>
                    (case fromReference ss edRef of
                       Inl e \<Rightarrow> (Some e, st)
                     | Inr ty \<Rightarrow> (None, st\<lparr>cs_reference := (cs_reference st)(m := (cs_reference st m)(inst :=
                         \<lparr>ref_instance = i, ref_type = ty, ref_timestamp = ts\<rparr>))\<rparr>)))
          else (case ed_get ed m sh of
                  None \<Rightarrow> (Some (Rte ''shorthand''), st)
                | Some v \<Rightarrow> (None, st\<lparr>cs_value := (cs_value st)(m := (cs_value st m)(inst := v))\<rparr>)))"

text \<open>The nodes below one that stands for an instance of the action of the tree.  An identifier that cannot be
  parsed, that is empty or that matches nothing is only logged.\<close>

fun load_nodes ::
  "('m, 'v, 'sh, 'f) ed_api \<Rightarrow> ('c, 'a, 'b, 'm) read_session \<Rightarrow> ('c, 'a, 'm) user_session
   \<Rightarrow> ('a \<Rightarrow> int \<Rightarrow> ('a, 'm, 'v) config_state \<Rightarrow> ('a, 'm, 'v) config_state) \<Rightarrow> 'c \<Rightarrow> ('a, 'm) const_tree \<Rightarrow> int \<Rightarrow> (int \<Rightarrow> int)
   \<Rightarrow> 'sh ed_node list \<Rightarrow> ('a, 'm, 'v) config_state \<Rightarrow> fault option \<times> ('a, 'm, 'v) config_state" where
  "load_nodes ed ss us starter pObject t n env [] st = (None, st)"
| "load_nodes ed ss us starter pObject t n env (EdNode identifier shorthand below # nodes) st =
     (let inst = instance_of_indices ss us pObject (pAction t) n env;
          r = (case identifier of
                 None \<Rightarrow> (Some (Ub ''identifier''), st)
               | Some identifier \<Rightarrow>
                   (case parseIdentifier identifier of
                      None \<Rightarrow> (None, st)
                    | Some (identity, index) \<Rightarrow>
                        let env' = env(n + 1 := int index) in
                        if identity = '''' then (None, st)
                        else case find (\<lambda>k. ud_identifier (snd k) = identity) (constants t) of
                          Some k \<Rightarrow> load_constant_node ed ss k inst shorthand st
                        | None \<Rightarrow>
                            (case find (\<lambda>c. rs_identifier ss (rs_actionContext ss (pAction c)) = identity) (children t) of
                               None \<Rightarrow> (None, st)
                             | Some c \<Rightarrow>
                                 let own = instance_of_indices ss us pObject (pAction c) (n + 1) env';
                                     st' = (if cs_active st (pAction c) own then st else starter (pAction c) inst st) in
                                 load_nodes ed ss us starter pObject c (n + 1) env' below st')))
      in case fst r of
           None \<Rightarrow> load_nodes ed ss us starter pObject t n env nodes (snd r)
         | Some e \<Rightarrow> r)"

text \<open>The nodes that stand for the instances of the object.\<close>

fun load_instances ::
  "('m, 'v, 'sh, 'f) ed_api \<Rightarrow> ('c, 'a, 'b, 'm) read_session \<Rightarrow> ('c, 'a, 'm) user_session
   \<Rightarrow> ('a \<Rightarrow> int \<Rightarrow> ('a, 'm, 'v) config_state \<Rightarrow> ('a, 'm, 'v) config_state) \<Rightarrow> 'c \<Rightarrow> ('a, 'm) const_tree
   \<Rightarrow> 'sh ed_node list \<Rightarrow> ('a, 'm, 'v) config_state \<Rightarrow> fault option \<times> ('a, 'm, 'v) config_state" where
  "load_instances ed ss us starter pObject t [] st = (None, st)"
| "load_instances ed ss us starter pObject t (n1 # nodes) st =
     (let r = (case ed_identifier n1 of
                 None \<Rightarrow> (Some (Ub ''identifier''), st)
               | Some identifier \<Rightarrow>
                   (case parseIdentifier identifier of
                      None \<Rightarrow> (None, st)
                    | Some (identity, index) \<Rightarrow>
                        if identity = '''' then (None, st)
                        else if identity = rs_identifier ss (rs_actionContext ss (pAction t))
                        then (let st' = (if cs_active st (pAction t) (int index) then st else starter (pAction t) 0 st) in
                              load_nodes ed ss us starter pObject t 1 ((\<lambda>_. 0)(1 := int index)) (ed_children n1) st')
                        else (None, st)))
      in case fst r of
           None \<Rightarrow> load_instances ed ss us starter pObject t nodes (snd r)
         | Some e \<Rightarrow> r)"

text \<open>A missing file, one that cannot be parsed and a fault are logged.\<close>

definition load_object ::
  "('m, 'v, 'sh, 'f) ed_api \<Rightarrow> ('c, 'a, 'b, 'm) read_session \<Rightarrow> ('c, 'a, 'm) user_session
   \<Rightarrow> ('a \<Rightarrow> int \<Rightarrow> ('a, 'm, 'v) config_state \<Rightarrow> ('a, 'm, 'v) config_state) \<Rightarrow> (string \<Rightarrow> 'f option) \<Rightarrow> 'c
   \<Rightarrow> ('a, 'm) const_tree \<Rightarrow> ('a, 'm, 'v) config_state \<Rightarrow> ('a, 'm, 'v) config_state" where
  "load_object ed ss us starter files pObject t st =
     (case files (rs_identifier ss pObject @ ''.ed'') of
        None \<Rightarrow> st
      | Some text \<Rightarrow>
          (case ed_parse ed text of
             None \<Rightarrow> st
           | Some node \<Rightarrow>
               snd (load_instances ed ss us starter pObject t (concat (map ed_children (ed_children node))) st)))"

fun config_io_load ::
  "('m, 'v, 'sh, 'f) ed_api \<Rightarrow> ('c, 'a, 'b, 'm) read_session \<Rightarrow> ('c, 'a, 'm) user_session
   \<Rightarrow> ('a \<Rightarrow> int \<Rightarrow> ('a, 'm, 'v) config_state \<Rightarrow> ('a, 'm, 'v) config_state) \<Rightarrow> ('c, 'a, 'm) object_trees \<Rightarrow> (string \<Rightarrow> 'f option)
   \<Rightarrow> ('a, 'm, 'v) config_state \<Rightarrow> ('a, 'm, 'v) config_state" where
  "config_io_load ed ss us starter [] files st = st"
| "config_io_load ed ss us starter ((_, pObject, t) # ts) files st =
     config_io_load ed ss us starter ts files (load_object ed ss us starter files pObject t st)"

end
