(* ===== verification/Config_Properties.thy ===== *)
theory Config_Properties
  imports Config_Semantics
begin

text \<open>
  Loading the configuration of a component restores what was saved: the identifiers of the documents, the
  references, the nodes of an object and all its objects.
\<close>

section \<open>Identifiers\<close>

abbreviation digit_char :: "nat \<Rightarrow> char" where
  "digit_char d \<equiv> char_of (48 + d)"

lemma of_digit_char: "d < 10 \<Longrightarrow> of_char (digit_char d) = 48 + (d::nat)"
  by (simp add: of_char_of)

lemma is_digit_char: "d < 10 \<Longrightarrow> is_digit (digit_char d)"
  by (auto simp: is_digit_def less_eq_char_def of_char_of)

lemma dec_nat_digits: "list_all is_digit (dec_nat n)"
proof (induction n rule: dec_nat.induct)
  case (1 n)
  then show ?case by (cases "n < 10") (simp_all add: dec_nat.simps [of n] is_digit_char)
qed

lemma stoi_snoc: "stoi (s @ [c]) = 10 * stoi s + (of_char c - 48)"
  by (simp add: stoi_def)

lemma stoi_dec_nat: "stoi (dec_nat n) = n"
proof (induction n rule: dec_nat.induct)
  case (1 n)
  then show ?case
    by (cases "n < 10") (simp_all add: dec_nat.simps [of n] stoi_snoc of_digit_char, simp_all add: stoi_def of_digit_char)
qed

lemma stoi_zeros: "stoi (replicate k CHR ''0'' @ s) = stoi s"
  by (induction k) (simp_all add: stoi_def)

lemma dec_nat_length: "length (dec_nat n) \<le> Suc k \<longleftrightarrow> n < 10 ^ Suc k"
proof (induction k arbitrary: n)
  case 0
  have "dec_nat (n div 10) \<noteq> []" by (simp add: dec_nat.simps [of "n div 10"])
  then show ?case by (simp add: dec_nat.simps [of n])
next
  case (Suc k)
  show ?case
  proof (cases "n < 10")
    case True
    moreover have "(1 :: nat) \<le> 10 ^ k" by simp
    ultimately have "n < 10 ^ Suc (Suc k)" unfolding power_Suc by linarith
    with True show ?thesis by (simp add: dec_nat.simps [of n])
  next
    case False
    then have "length (dec_nat n) = Suc (length (dec_nat (n div 10)))" by (simp add: dec_nat.simps [of n])
    then show ?thesis using Suc [of "n div 10"] by (simp add: div_less_iff_less_mult mult.commute)
  qed
qed

lemma parse_make_small:
  assumes "s \<noteq> []" "i < 10000"
  shows "parseIdentifier (makeIdentifier s i) = Some (s, i)"
proof -
  let ?ds = "replicate (4 - length (dec_nat i)) CHR ''0'' @ dec_nat i"
  have len: "length ?ds = 4" using dec_nat_length [of i 3] assms(2) by simp
  have ds: "list_all is_digit ?ds" using dec_nat_digits [of i] by (auto simp: list_all_iff is_digit_def less_eq_char_def)
  have "stoi ?ds = i" by (simp add: stoi_zeros stoi_dec_nat)
  moreover have "makeIdentifier s i = s @ CHR ''_'' # ?ds" by (simp add: makeIdentifier_def)
  moreover have "drop (length (s @ CHR ''_'' # ?ds) - 4) (s @ CHR ''_'' # ?ds) = ?ds" using len by simp
  ultimately show ?thesis
    using assms(1) len ds by (simp add: parseIdentifier_def Let_def nth_append)
qed

lemma parse_make_large:
  assumes "\<not> i < 10000"
  shows "parseIdentifier (makeIdentifier s i) = None"
proof -
  have len: "4 < length (dec_nat i)" using dec_nat_length [of i 3] assms by simp
  then have "makeIdentifier s i = s @ CHR ''_'' # dec_nat i" by (simp add: makeIdentifier_def)
  moreover have "(s @ CHR ''_'' # dec_nat i) ! (length (s @ CHR ''_'' # dec_nat i) - 5) = dec_nat i ! (length (dec_nat i) - 5)"
  proof -
    have "length (s @ CHR ''_'' # dec_nat i) - 5 = length s + Suc (length (dec_nat i) - 5)" using len by simp
    then show ?thesis by (simp only: nth_append_length_plus nth_Cons_Suc)
  qed
  moreover have "is_digit (dec_nat i ! (length (dec_nat i) - 5))"
    using dec_nat_digits [of i] len by (simp add: list_all_length)
  ultimately show ?thesis by (auto simp: parseIdentifier_def Let_def is_digit_def less_eq_char_def)
qed


section \<open>References\<close>

text \<open>The actions of the tree with their paths, and trees in which the children of an action have different names.\<close>

fun tree_paths :: "('c, 'a, 'b, 'm) read_session \<Rightarrow> ('a, 'm) celement list \<Rightarrow> ('a \<times> string list) list" where
  "tree_paths ss [] = []"
| "tree_paths ss (CAction a cs # es) =
     (let i = rs_identifier ss (rs_actionContext ss a) in
      (a, [i]) # map (\<lambda>(b, p). (b, i # p)) (tree_paths ss cs) @ tree_paths ss es)"
| "tree_paths ss (e # es) = tree_paths ss es"

definition child_names :: "('c, 'a, 'b, 'm) read_session \<Rightarrow> ('a, 'm) celement list \<Rightarrow> string list" where
  "child_names ss es = concat (map (\<lambda>e. case e of CAction a cs \<Rightarrow> [rs_identifier ss (rs_actionContext ss a)] | _ \<Rightarrow> []) es)"

fun siblings_apart :: "('c, 'a, 'b, 'm) read_session \<Rightarrow> ('a, 'm) celement list \<Rightarrow> bool" where
  "siblings_apart ss [] = True"
| "siblings_apart ss (CAction a cs # es) =
     (rs_identifier ss (rs_actionContext ss a) \<notin> set (child_names ss es) \<and> siblings_apart ss cs \<and> siblings_apart ss es)"
| "siblings_apart ss (e # es) = siblings_apart ss es"

lemma tree_path_head: "(a, p) \<in> set (tree_paths ss es) \<Longrightarrow> p \<noteq> [] \<and> hd p \<in> set (child_names ss es)"
  by (induction ss es arbitrary: p rule: tree_paths.induct) (auto simp: child_names_def Let_def)

lemma match_path:
  "siblings_apart ss es \<Longrightarrow> (a, p) \<in> set (tree_paths ss es) \<Longrightarrow>
   match_children ss es (map Identifier p) = Inr (Inl (word_of_int (rs_actionIndex ss a)))"
proof (induction ss es arbitrary: p rule: tree_paths.induct)
  case (2 ss b cs es)
  let ?i = "rs_identifier ss (rs_actionContext ss b)"
  consider "a = b" "p = [?i]" | q where "p = ?i # q" "(a, q) \<in> set (tree_paths ss cs)" | "(a, p) \<in> set (tree_paths ss es)"
    using "2.prems"(2) by (auto simp: Let_def)
  then show ?case
  proof cases
    case 1
    then show ?thesis by simp
  next
    case (2 q)
    then show ?thesis using "2.IH"(1) [OF refl, of q] "2.prems"(1) tree_path_head [of a q ss cs] by simp
  next
    case 3
    then obtain h q where "p = h # q" "h \<noteq> ?i" using tree_path_head [OF 3] "2.prems"(1) by (cases p) auto
    then show ?thesis using "2.IH"(2) [OF refl, of p] 3 "2.prems"(1) by simp
  qed
qed simp_all

lemma type_labels_paths:
  "type_labels ss us es = map (\<lambda>(a, p). (word_of_int (rs_actionIndex ss a), us_path us (rs_actionContext ss a))) (tree_paths ss es)"
  by (induction ss us es rule: type_labels.induct) (simp_all add: Let_def case_prod_unfold comp_def)

text \<open>The path of a context is the one through the tree of the instances: no action is inherited.\<close>

definition names_of_paths :: "('c, 'a, 'b, 'm) read_session \<Rightarrow> ('c, 'a, 'm) user_session \<Rightarrow> bool" where
  "names_of_paths ss us \<longleftrightarrow>
     (\<forall>(a, p) \<in> set (tree_paths ss (rs_instanceTree ss)). us_path us (rs_actionContext ss a) = p)"

lemma reference_roundtrip:
  assumes ed: "\<And>ids. ed_make_ref ed ids = [map Identifier ids]"
    and apart: "siblings_apart ss (rs_instanceTree ss)" and paths: "names_of_paths ss us"
    and known: "ty = 0 \<or> ty \<in> fst ` set (type_labels ss us (rs_instanceTree ss))"
    and null: "0 \<notin> fst ` set (type_labels ss us (rs_instanceTree ss))"
    and labels: "distinct (map fst (type_labels ss us (rs_instanceTree ss)))"
  shows "fromReference ss (fromRunTimeTypeID ed ss us ty) = Inr ty"
proof (cases "ty = 0")
  case True
  then show ?thesis using null ed by (simp add: fromRunTimeTypeID_def fromReference_def map_of_eq_None_iff [THEN iffD2])
next
  case False
  then obtain a p where ap: "(a, p) \<in> set (tree_paths ss (rs_instanceTree ss))" "ty = word_of_int (rs_actionIndex ss a)"
    using known by (auto simp: type_labels_paths)
  then have "us_path us (rs_actionContext ss a) = p" using paths by (auto simp: names_of_paths_def)
  then have "map_of (type_labels ss us (rs_instanceTree ss)) ty = Some p"
    using ap labels by (auto simp: type_labels_paths intro!: map_of_is_SomeI)
  then show ?thesis
    using match_path [OF apart ap(1)] ap(2) ed tree_path_head [OF ap(1)]
    by (simp add: fromRunTimeTypeID_def fromReference_def)
qed

section \<open>Loading what was saved\<close>

text \<open>What a value that has been written reads back as.  That is up to the \<open><<\<close> and \<open>>>\<close> of its type: a
  transform is read with its rotation normalised, or refused (theory \<open>Unreal_Values\<close>).\<close>

definition reread :: "('m, 'v, 'sh, 'f) ed_api \<Rightarrow> 'm \<Rightarrow> 'v \<Rightarrow> 'v" where
  "reread ed m v = (case ed_get ed m (ed_put ed v) of Some v' \<Rightarrow> v' | None \<Rightarrow> v)"

text \<open>No value among the constants in \<open>S\<close> is refused when it is read back.\<close>

definition readable ::
  "('m, 'v, 'sh, 'f) ed_api \<Rightarrow> ('a, 'm, 'v) config_state \<Rightarrow> (('m \<times> user_dimension) \<times> int) set \<Rightarrow> bool" where
  "readable ed st S \<longleftrightarrow>
     (\<forall>((m, d), j) \<in> S. \<not> ud_isEGType d \<longrightarrow> ed_get ed m (ed_put ed (cs_value st m j)) \<noteq> None)"

text \<open>\<open>st1\<close> has the constants in \<open>S\<close> of \<open>st\<close>, as they read back, and the others of \<open>st0\<close>.\<close>

definition restored ::
  "('m, 'v, 'sh, 'f) ed_api \<Rightarrow> (('m \<times> user_dimension) \<times> int) set \<Rightarrow> ('a, 'm, 'v) config_state \<Rightarrow> ('a, 'm, 'v) config_state
   \<Rightarrow> ('a, 'm, 'v) config_state \<Rightarrow> bool" where
  "restored ed S st st0 st1 \<longleftrightarrow>
     (\<forall>m j. cs_value st1 m j =
              (if \<exists>d. ((m, d), j) \<in> S \<and> \<not> ud_isEGType d then reread ed m (cs_value st m j) else cs_value st0 m j) \<and>
            cs_reference st1 m j = (if \<exists>d. ((m, d), j) \<in> S \<and> ud_isEGType d then cs_reference st m j else cs_reference st0 m j))"

lemma readable_Un: "readable ed st (S \<union> T) \<longleftrightarrow> readable ed st S \<and> readable ed st T"
  by (simp add: readable_def ball_Un)

lemma restored_none: "restored ed {} st st0 st0"
  by (simp add: restored_def)

lemma restored_trans: "restored ed S st a b \<Longrightarrow> restored ed T st b c \<Longrightarrow> restored ed (S \<union> T) st a c"
  unfolding restored_def by (auto split: if_splits)

lemma restored_from:
  "restored ed S st a c \<Longrightarrow> cs_value a = cs_value b \<and> cs_reference a = cs_reference b \<Longrightarrow> restored ed S st b c"
  by (simp only: restored_def simp_thms)

text \<open>
  A reader of the nodes of a document goes through them in order, threading the state, until one faults.
  \<open>loads ed read S st nodes\<close>: when the values in \<open>S\<close> are readable, it reads the nodes from every state without a
  fault, after which the values in \<open>S\<close> are those of \<open>st\<close>, as they read back.
\<close>

definition loads :: "('m, 'v, 'sh, 'f) ed_api \<Rightarrow> ('n list \<Rightarrow> ('a, 'm, 'v) config_state \<Rightarrow> fault option \<times> ('a, 'm, 'v) config_state)
   \<Rightarrow> (('m \<times> user_dimension) \<times> int) set \<Rightarrow> ('a, 'm, 'v) config_state \<Rightarrow> 'n list \<Rightarrow> bool" where
  "loads ed read S st nodes \<longleftrightarrow>
     (readable ed st S \<longrightarrow> (\<forall>st0. \<exists>st1. read nodes st0 = (None, st1) \<and> restored ed S st st0 st1))"

locale document_reader =
  fixes read :: "'n list \<Rightarrow> ('a, 'm, 'v) config_state \<Rightarrow> fault option \<times> ('a, 'm, 'v) config_state"
  assumes read_nil: "read [] st = (None, st)"
    and read_append: "read xs st = (None, st') \<Longrightarrow> read (xs @ ys) st = read ys st'"
begin

lemma loads_nil: "loads api read {} st []"
  by (simp add: loads_def read_nil restored_none)

lemma loads_append: "loads api read S st xs \<Longrightarrow> loads api read T st ys \<Longrightarrow> loads api read (S \<union> T) st (xs @ ys)"
  unfolding loads_def readable_Un by (metis read_append restored_trans)

lemma loads_concat:
  "(\<And>x. x \<in> set xs \<Longrightarrow> loads api read (S x) st (f x)) \<Longrightarrow> loads api read (\<Union>x \<in> set xs. S x) st (concat (map f xs))"
proof (induction xs)
  case (Cons x xs)
  then show ?case using loads_append [OF Cons.prems Cons.IH] by simp
qed (simp add: loads_nil)

end

text \<open>The constants that a tree saves, with their instances.\<close>

fun saved ::
  "('c, 'a, 'b, 'm) read_session \<Rightarrow> ('c, 'a, 'm) user_session \<Rightarrow> ('a, 'm, 'v) config_state \<Rightarrow> 'c
   \<Rightarrow> (int \<Rightarrow> int) \<Rightarrow> int \<Rightarrow> ('a, 'm) const_tree \<Rightarrow> (('m \<times> user_dimension) \<times> int) set" where
  "saved ss us st pObject env n (ConstTree a cs ks) =
     (\<Union>i \<in> {0..<us_localDomainSize us a}.
       let env' = env(n + 1 := int i); inst = instance_of_indices ss us pObject a (n + 1) env' in
       if cs_active st a inst
       then (\<lambda>k. (k, inst)) ` set ks \<union> (\<Union>c \<in> set cs. saved ss us st pObject env' (n + 1) c)
       else {})"

lemma load_nodes_append:
  "load_nodes ed ss us starter pObject t n env xs st = (None, st') \<Longrightarrow>
   load_nodes ed ss us starter pObject t n env (xs @ ys) st = load_nodes ed ss us starter pObject t n env ys st'"
proof (induction xs arbitrary: st)
  case (Cons x xs)
  then show ?case by (cases x) (auto simp: Let_def split: option.splits if_splits)
qed simp

lemma load_instances_append:
  "load_instances ed ss us starter pObject t xs st = (None, st') \<Longrightarrow>
   load_instances ed ss us starter pObject t (xs @ ys) st = load_instances ed ss us starter pObject t ys st'"
  by (induction xs arbitrary: st) (auto simp: Let_def split: option.splits if_splits)

interpretation nodes: document_reader "load_nodes ed ss us starter pObject t n env"
  for ed :: "('m, 'v, 'sh, 'f) ed_api" and ss :: "('c, 'a, 'b, 'm) read_session" and us starter pObject t n env
  by unfold_locales (simp_all add: load_nodes_append)

interpretation instances: document_reader "load_instances ed ss us starter pObject t"
  for ed :: "('m, 'v, 'sh, 'f) ed_api" and ss :: "('c, 'a, 'b, 'm) read_session" and us starter pObject t
  by unfold_locales (simp_all add: load_instances_append)

lemma index_factors_shift:
  "index_factors ss us pObject chain (n + 1) f =
   andThen (index_factors ss us pObject chain n f) (\<lambda>fs. Inr (map (\<lambda>(k, g). (k + 1, g)) fs))"
proof (induction chain arbitrary: n f)
  case (Cons a chain)
  show ?case using Cons [of "n - 1"] by (cases chain) (auto simp: andThen_def split: sum.splits)
qed simp

lemma instance_shift:
  assumes "\<And>k. env' (k + 1) = env k"
  shows "instance_of_indices ss us pObject a (n + 1) env' = instance_of_indices ss us pObject a n env"
proof -
  have "index_factors ss us pObject (rs_actionChain ss a) (n + 1 - 1) (int (us_localDomainSize us a)) =
    andThen (index_factors ss us pObject (rs_actionChain ss a) (n - 1) (int (us_localDomainSize us a)))
      (\<lambda>fs. Inr (map (\<lambda>(k, g). (k + 1, g)) fs))"
    using index_factors_shift [of ss us pObject "rs_actionChain ss a" "n - 1"] by simp
  then show ?thesis
    using assms by (simp add: instance_of_indices_def case_prod_unfold comp_def split: sum.splits)
qed

text \<open>References are read back, and the document of a file holds the node that was printed.\<close>

definition ed_laws :: "('m, 'v, 'sh, 'f) ed_api \<Rightarrow> bool" where
  "ed_laws ed \<longleftrightarrow>
     (\<forall>ids. ed_make_ref ed ids = [map Identifier ids]) \<and>
     (\<forall>i r ts. ed_get_reference ed (ed_put_reference ed i r ts) = Some (i, r, ts)) \<and>
     (\<forall>n. \<exists>root. ed_parse ed (ed_print ed n) = Some root \<and> ed_children root = [n])"

text \<open>The constants and children of an action have different names, and at most 10000 instances.\<close>

fun tree_names_ok :: "('c, 'a, 'b, 'm) read_session \<Rightarrow> ('c, 'a, 'm) user_session \<Rightarrow> ('a, 'm) const_tree \<Rightarrow> bool" where
  "tree_names_ok ss us (ConstTree a cs ks) =
     (us_localDomainSize us a \<le> 10000 \<and>
      (let names = map (\<lambda>k. ud_identifier (snd k)) ks @ map (\<lambda>c. rs_identifier ss (rs_actionContext ss (pAction c))) cs in
       distinct names \<and> [] \<notin> set names) \<and>
      (\<forall>c \<in> set cs. tree_names_ok ss us c))"

lemma find_none: "y \<notin> f ` set xs \<Longrightarrow> find (\<lambda>x. f x = y) xs = None"
  by (auto simp: find_None_iff)

lemma load_saved_constant:
  assumes laws: "ed_laws ed" and d: "k \<in> set (constants t)" "[] \<noteq> ud_identifier (snd k)" "distinct (map (\<lambda>k. ud_identifier (snd k)) (constants t))"
    and parse: "parseIdentifier (makeIdentifier (ud_identifier (snd k)) 0) = Some (ud_identifier (snd k), 0)"
    and ref: "ud_isEGType (snd k) \<Longrightarrow>
      fromReference ss (fromRunTimeTypeID ed ss us (ref_type (cs_reference st (fst k) inst))) = Inr (ref_type (cs_reference st (fst k) inst))"
    and inst: "inst = instance_of_indices ss us pObject (pAction t) n env"
  shows "loads ed (load_nodes ed ss us starter pObject t n env) {(k, inst)} st [save_constant_node ed ss us st inst k]"
proof -
  obtain m d where k: "k = (m, d)" by (cases k)
  have "find (\<lambda>k'. ud_identifier (snd k') = ud_identifier (snd k)) (constants t) = Some k"
    using find_distinct [OF d(3,1) refl] .
  then show ?thesis
    using laws parse ref d(2)
    by (cases "ud_isEGType d")
      (auto simp: loads_def restored_def readable_def reread_def save_constant_node_def load_constant_node_def k inst Let_def ed_laws_def)
qed

lemma load_saved_nodes:
  fixes t :: "('a, 'm) const_tree"
  assumes laws: "ed_laws ed"
    and keeps: "\<And>a i st. cs_value (starter a i st) = cs_value st \<and> cs_reference (starter a i st) = cs_reference st"
    and refs: "\<And>m j. fromReference ss (fromRunTimeTypeID ed ss us (ref_type (cs_reference st m j))) = Inr (ref_type (cs_reference st m j))"
    and names: "tree_names_ok ss us t" and shift: "\<And>k. env' (k + 1) = env k"
    and inst: "inst = instance_of_indices ss us pObject (pAction t) n env"
  shows "loads ed (load_nodes ed ss us starter pObject t n env)
    ((\<lambda>k. (k, inst)) ` set (constants t) \<union> (\<Union>c \<in> set (children t). saved ss us st pObject env' (n + 1) c)) st
    (map (save_constant_node ed ss us st inst) (constants t) @ concat (map (save_tree ed ss us st pObject env' (n + 1)) (children t)))"
  using names shift inst
proof (induction t arbitrary: n env env' inst)
  case (ConstTree a cs ks)
  let ?t = "ConstTree a cs ks" and ?ident = "\<lambda>c. rs_identifier ss (rs_actionContext ss (pAction c))"
  let ?L = "load_nodes ed ss us starter pObject ?t n env" and ?loads = "loads ed (load_nodes ed ss us starter pObject ?t n env)"
  have names: "distinct (map (\<lambda>k. ud_identifier (snd k)) ks)" "distinct (map ?ident cs)"
    "\<And>k c. k \<in> set ks \<Longrightarrow> c \<in> set cs \<Longrightarrow> ud_identifier (snd k) \<noteq> ?ident c"
    "\<And>k. k \<in> set ks \<Longrightarrow> [] \<noteq> ud_identifier (snd k)" "\<And>c. c \<in> set cs \<Longrightarrow> ?ident c \<noteq> []"
    using ConstTree.prems(1) by (auto simp: Let_def) (metis image_eqI)
  have "?loads (\<Union>k \<in> set ks. {(k, inst)}) st (concat (map (\<lambda>k. [save_constant_node ed ss us st inst k]) ks))"
  proof (rule nodes.loads_concat)
    fix k assume k: "k \<in> set ks"
    show "?loads {(k, inst)} st [save_constant_node ed ss us st inst k]"
      by (rule load_saved_constant [OF laws _ names(4) [OF k] _ parse_make_small _ ConstTree.prems(3)])
        (use k names(1) names(4) [OF k] refs in auto)
  qed
  moreover have "?loads (\<Union>c \<in> set cs. saved ss us st pObject env' (n + 1) c) st (concat (map (save_tree ed ss us st pObject env' (n + 1)) cs))"
  proof (rule nodes.loads_concat)
    fix c assume c: "c \<in> set cs"
    obtain b ds js where ct: "c = ConstTree b ds js" by (cases c)
    let ?e = "\<lambda>i. env'(n + 1 + 1 := int i)" and ?i = "\<lambda>i. instance_of_indices ss us pObject b (n + 1 + 1) (env'(n + 1 + 1 := int i))"
    let ?node = "\<lambda>i. if cs_active st b (?i i)
      then [EdNode (Some (makeIdentifier (?ident c) i)) None
         (map (save_constant_node ed ss us st (?i i)) js @ concat (map (save_tree ed ss us st pObject (?e i) (n + 1 + 1)) ds))]
      else []"
    let ?S = "\<lambda>i. if cs_active st b (?i i)
      then (\<lambda>k. (k, ?i i)) ` set js \<union> (\<Union>d \<in> set ds. saved ss us st pObject (?e i) (n + 1 + 1) d) else {}"
    have small: "us_localDomainSize us b \<le> 10000" using ConstTree.prems(1) c by (auto simp: ct)
    have "?loads (\<Union>i \<in> set [0..<us_localDomainSize us b]. ?S i) st (concat (map ?node [0..<us_localDomainSize us b]))"
    proof (rule nodes.loads_concat)
      fix i assume "i \<in> set [0..<us_localDomainSize us b]"
      then have i: "parseIdentifier (makeIdentifier (?ident c) i) = Some (?ident c, i)"
        using small names(5) [OF c] by (simp add: parse_make_small)
      let ?env = "env(n + 1 := int i)"
      have shift: "?e i (k + 1) = ?env k" for k using ConstTree.prems(2) by simp
      have own: "?i i = instance_of_indices ss us pObject (pAction c) (n + 1) ?env"
        using instance_shift [of "?e i" ?env ss us pObject b "n + 1"] shift by (simp add: ct)
      have found: "find (\<lambda>k. ud_identifier (snd k) = ?ident c) ks = None" "find (\<lambda>c'. ?ident c' = ?ident c) cs = Some c"
        using names(3) [OF _ c] find_distinct [OF names(2) c refl] by (auto simp: find_None_iff)
      have child: "loads ed (load_nodes ed ss us starter pObject c (n + 1) ?env) (?S i) st
          (map (save_constant_node ed ss us st (?i i)) js @ concat (map (save_tree ed ss us st pObject (?e i) (n + 1 + 1)) ds))"
        if "cs_active st b (?i i)"
      proof -
        have "tree_names_ok ss us c" using ConstTree.prems(1) c by simp
        from ConstTree.IH [OF c this shift own] show ?thesis using that by (simp only: ct const_tree.sel if_True)
      qed
      show "?loads (?S i) st (?node i)"
      proof (cases "cs_active st b (?i i)")
        case True
        show ?thesis unfolding loads_def
        proof (intro impI allI)
          assume reads: "readable ed st (?S i)"
          fix st0 :: "('a, 'm, _) config_state"
          let ?st0 = "if cs_active st0 (pAction c) (instance_of_indices ss us pObject (pAction c) (n + 1) ?env) then st0
            else starter (pAction c) (instance_of_indices ss us pObject a n env) st0"
          obtain st1 where st1: "load_nodes ed ss us starter pObject c (n + 1) ?env
            (map (save_constant_node ed ss us st (?i i)) js @ concat (map (save_tree ed ss us st pObject (?e i) (n + 1 + 1)) ds)) ?st0 =
              (None, st1)" "restored ed (?S i) st ?st0 st1"
            using child [OF True] reads unfolding loads_def by blast
          have "cs_value ?st0 = cs_value st0 \<and> cs_reference ?st0 = cs_reference st0" using keeps by simp
          from restored_from [OF st1(2) this] have "restored ed (?S i) st st0 st1" .
          moreover have "?L (?node i) st0 = (None, st1)"
            using True i found names(5) [OF c] st1(1) by (simp add: Let_def cong: if_cong)
          ultimately show "\<exists>st1. ?L (?node i) st0 = (None, st1) \<and> restored ed (?S i) st st0 st1" by blast
        qed
      qed (simp add: nodes.loads_nil)
    qed
    then show "?loads (saved ss us st pObject env' (n + 1) c) st (save_tree ed ss us st pObject env' (n + 1) c)"
      by (simp only: ct saved.simps save_tree.simps Let_def set_upt const_tree.sel)
  qed
  ultimately show ?case using nodes.loads_append [where api = ed] by (simp add: UNION_singleton_eq_range)
qed


lemma load_saved_instances:
  fixes t :: "('a, 'm) const_tree"
  assumes laws: "ed_laws ed"
    and keeps: "\<And>a i st. cs_value (starter a i st) = cs_value st \<and> cs_reference (starter a i st) = cs_reference st"
    and refs: "\<And>m j. fromReference ss (fromRunTimeTypeID ed ss us (ref_type (cs_reference st m j))) = Inr (ref_type (cs_reference st m j))"
    and names: "tree_names_ok ss us t" "rs_identifier ss (rs_actionContext ss (pAction t)) \<noteq> []"
  shows "loads ed (load_instances ed ss us starter pObject t) (saved ss us st pObject (\<lambda>_. 0) 1 t) st (save_tree ed ss us st pObject (\<lambda>_. 0) 1 t)"
proof -
  obtain a cs ks where t: "t = ConstTree a cs ks" by (cases t)
  let ?e = "\<lambda>i. (\<lambda>_. 0)(1 + 1 := int i)" and ?ident = "rs_identifier ss (rs_actionContext ss a)"
  let ?i = "\<lambda>i. instance_of_indices ss us pObject a (1 + 1) (?e i)"
  let ?below = "\<lambda>i. map (save_constant_node ed ss us st (?i i)) ks @ concat (map (save_tree ed ss us st pObject (?e i) (1 + 1)) cs)"
  let ?node = "\<lambda>i. if cs_active st a (?i i) then [EdNode (Some (makeIdentifier ?ident i)) None (?below i)] else []"
  let ?S = "\<lambda>i. if cs_active st a (?i i)
    then (\<lambda>k. (k, ?i i)) ` set ks \<union> (\<Union>c \<in> set cs. saved ss us st pObject (?e i) (1 + 1) c) else {}"
  have "loads ed (load_instances ed ss us starter pObject t) (\<Union>i \<in> set [0..<us_localDomainSize us a]. ?S i) st
    (concat (map ?node [0..<us_localDomainSize us a]))"
  proof (rule instances.loads_concat)
    fix i assume "i \<in> set [0..<us_localDomainSize us a]"
    then have i: "parseIdentifier (makeIdentifier ?ident i) = Some (?ident, i)"
      using names by (simp add: parse_make_small t)
    let ?env = "(\<lambda>_. 0)(1 := int i) :: int \<Rightarrow> int"
    have shift: "?e i (k + 1) = ?env k" for k by simp
    have own: "?i i = instance_of_indices ss us pObject (pAction t) 1 ?env"
      using instance_shift [of "?e i" ?env ss us pObject a 1, OF shift] by (simp only: t const_tree.sel)
    show "loads ed (load_instances ed ss us starter pObject t) (?S i) st (?node i)"
    proof (cases "cs_active st a (?i i)")
      case True
      have below: "loads ed (load_nodes ed ss us starter pObject t 1 ?env) (?S i) st (?below i)"
        using load_saved_nodes [OF laws keeps refs names(1) shift own] True by (simp only: t const_tree.sel if_True)
      show ?thesis unfolding loads_def
      proof (intro impI allI)
        assume reads: "readable ed st (?S i)"
        fix st0 :: "('a, 'm, _) config_state"
        let ?st0 = "if cs_active st0 a (int i) then st0 else starter a 0 st0"
        obtain st1 where st1: "load_nodes ed ss us starter pObject t 1 ?env (?below i) ?st0 = (None, st1)"
          "restored ed (?S i) st ?st0 st1"
          using below reads unfolding loads_def by blast
        have "cs_value ?st0 = cs_value st0 \<and> cs_reference ?st0 = cs_reference st0" using keeps by simp
        from restored_from [OF st1(2) this] have "restored ed (?S i) st st0 st1" .
        moreover have "load_instances ed ss us starter pObject t (?node i) st0 = (None, st1)"
          using True i names(2) st1(1) by (simp add: Let_def t cong: if_cong)
        ultimately show "\<exists>st1. load_instances ed ss us starter pObject t (?node i) st0 = (None, st1) \<and> restored ed (?S i) st st0 st1"
          by blast
      qed
    qed (simp add: instances.loads_nil)
  qed
  then show ?thesis by (simp only: t saved.simps save_tree.simps Let_def set_upt)
qed

lemma config_io_save_other:
  "(\<And>i c t. (i, c, t) \<in> set ts \<Longrightarrow> rs_identifier ss c @ ''.ed'' \<noteq> f) \<Longrightarrow> config_io_save ed ss us ts st files f = files f"
  by (induction ed ss us ts st files rule: config_io_save.induct) (simp, fastforce)

lemma config_io_save_file:
  "distinct (map (\<lambda>(i, c, t). rs_identifier ss c) ts) \<Longrightarrow> (i, c, t) \<in> set ts \<Longrightarrow>
   config_io_save ed ss us ts st files (rs_identifier ss c @ ''.ed'') = Some (ed_print ed (save_object ed ss us st c t))"
proof (induction ed ss us ts st files rule: config_io_save.induct)
  case (2 ed ss us j c' t' ts st files)
  show ?case
  proof (cases "(i, c, t) \<in> set ts")
    case True
    have "distinct (map (\<lambda>(i, c, t). rs_identifier ss c) ts)" using "2.prems"(1) by simp
    from "2.IH" [OF this True] show ?thesis by (simp only: config_io_save.simps)
  next
    case False
    then have "c = c'" "t = t'" "rs_identifier ss c' \<notin> (\<lambda>(i, c, t). rs_identifier ss c) ` set ts"
      using "2.prems" by auto
    moreover from this(3) have "config_io_save ed ss us ts st files' (rs_identifier ss c' @ ''.ed'') =
        files' (rs_identifier ss c' @ ''.ed'')" for files'
      by (intro config_io_save_other) (auto simp: image_iff)
    ultimately show ?thesis by simp
  qed
qed simp

lemma config_io_load_restores:
  fixes ts :: "('c, 'a, 'm) object_trees"
  assumes laws: "ed_laws ed"
    and keeps: "\<And>a i st. cs_value (starter a i st) = cs_value st \<and> cs_reference (starter a i st) = cs_reference st"
    and refs: "\<And>m j. fromReference ss (fromRunTimeTypeID ed ss us (ref_type (cs_reference st m j))) = Inr (ref_type (cs_reference st m j))"
    and ts: "\<And>i c t. (i, c, t) \<in> set ts \<Longrightarrow> tree_names_ok ss us t \<and> rs_identifier ss (rs_actionContext ss (pAction t)) \<noteq> [] \<and>
      files (rs_identifier ss c @ ''.ed'') = Some (ed_print ed (save_object ed ss us st c t))"
    and reads: "readable ed st (\<Union>(i, c, t) \<in> set ts. saved ss us st c (\<lambda>_. 0) 1 t)"
  shows "restored ed (\<Union>(i, c, t) \<in> set ts. saved ss us st c (\<lambda>_. 0) 1 t) st st0 (config_io_load ed ss us starter ts files st0)"
  using ts reads
proof (induction ts arbitrary: st0)
  case Nil
  then show ?case by (simp add: restored_none)
next
  case (Cons x ts)
  obtain i c t where x: "x = (i, c, t)" by (cases x)
  have ok: "tree_names_ok ss us t" "rs_identifier ss (rs_actionContext ss (pAction t)) \<noteq> []"
    "files (rs_identifier ss c @ ''.ed'') = Some (ed_print ed (save_object ed ss us st c t))"
    using Cons.prems(1) [of i c t] by (auto simp: x)
  obtain root where root: "ed_parse ed (ed_print ed (save_object ed ss us st c t)) = Some root"
    "ed_children root = [save_object ed ss us st c t]"
    using laws unfolding ed_laws_def by blast
  obtain st1 where st1: "load_instances ed ss us starter c t (save_tree ed ss us st c (\<lambda>_. 0) 1 t) st0 = (None, st1)"
    "restored ed (saved ss us st c (\<lambda>_. 0) 1 t) st st0 st1"
    using load_saved_instances [where starter = starter, OF laws keeps refs ok(1,2)] Cons.prems(2)
    unfolding loads_def by (auto simp: x readable_Un)
  then have "load_object ed ss us starter files c t st0 = st1"
    using ok(3) root by (simp add: load_object_def save_object_def)
  moreover have "restored ed (\<Union>(i, c, t) \<in> set ts. saved ss us st c (\<lambda>_. 0) 1 t) st st1 (config_io_load ed ss us starter ts files st1)"
  proof (rule Cons.IH)
    fix j d u assume "(j, d, u) \<in> set ts"
    then show "tree_names_ok ss us u \<and> rs_identifier ss (rs_actionContext ss (pAction u)) \<noteq> [] \<and>
        files (rs_identifier ss d @ ''.ed'') = Some (ed_print ed (save_object ed ss us st d u))"
      using Cons.prems(1) [of j d u] by simp
  qed (use Cons.prems(2) in \<open>simp add: readable_Un\<close>)
  ultimately show ?case using restored_trans [OF st1(2)] by (simp add: x)
qed


text \<open> The identifier of a node carries an index that is read back exactly below 10000: from there on it has a
  fifth digit, and the node is not recognised any more.\<close>

theorem config_index_bound:
  assumes "s \<noteq> []"
  shows "parseIdentifier (makeIdentifier s i) = (if i < 10000 then Some (s, i) else None)"
  using assms by (simp add: parse_make_small parse_make_large)

text \<open> A reference to an action that does not exist can be taken for another one: after a child that matches and
  fails, the iterator stays behind its name, and the next children are compared with the name below.\<close>

theorem config_reference_skips_level:
  assumes tree: "rs_instanceTree ss = [CAction r (CAction a as # CAction b bs # es)]"
    and name: "rs_identifier ss (rs_actionContext ss b) \<notin> set (child_names ss as)"
  shows "fromReference ss [map (Identifier \<circ> rs_identifier ss \<circ> rs_actionContext ss) [r, a, b]] =
    Inr (word_of_int (rs_actionIndex ss b))"
proof -
  have "match_children ss as [Identifier (rs_identifier ss (rs_actionContext ss b))] =
      Inr (Inr [Identifier (rs_identifier ss (rs_actionContext ss b))])"
    using name
    by (induction ss as "[Identifier (rs_identifier ss (rs_actionContext ss b))]" rule: match_children.induct)
      (auto simp: child_names_def)
  then show ?thesis by (simp add: fromReference_def tree)
qed

text \<open>C5.  What a component saves of its constants, for all its objects, is what a component of the same program
  has after loading the files, whatever its own constants were, and its other constants keep their values:
  each reference comes back as it was, and each other constant has the value that its text reads back as,
  which is the value saved for every type whose text is exact, and for a transform the one with its rotation
  normalised.  The conditions: no value saved is refused when it is read (as an invalid transform is), starting
  an action changes no constant, the constants and children of an action have different names, an action has at
  most 10000 instances below one of its parent, the files of the objects have different names, and the references are null or to
  actions of the program, none of them inherited.\<close>

theorem config_load_restores:
  assumes laws: "ed_laws ed"
    and keeps: "\<And>a i st. cs_value (starter a i st) = cs_value st \<and> cs_reference (starter a i st) = cs_reference st"
    and trees: "findComponentRoot t ss = Inr (Some (a, es))" "ts = fst (gatherObjectTrees ss us [] (buildTree us a es))"
    and names: "\<And>i c tr. (i, c, tr) \<in> set ts \<Longrightarrow> tree_names_ok ss us tr \<and> rs_identifier ss (rs_actionContext ss (pAction tr)) \<noteq> []"
      "distinct (map (\<lambda>(i, c, tr). rs_identifier ss c) ts)"
    and paths: "siblings_apart ss (rs_instanceTree ss)" "names_of_paths ss us"
    and labels: "distinct (0 # map fst (type_labels ss us (rs_instanceTree ss)))"
    and types: "\<And>m j. ref_type (cs_reference st m j) \<in> insert 0 (fst ` set (type_labels ss us (rs_instanceTree ss)))"
    and reads: "readable ed st (\<Union>(i, c, tr) \<in> set ts. saved ss us st c (\<lambda>_. 0) 1 tr)"
  shows "restored ed (\<Union>(i, c, tr) \<in> set ts. saved ss us st c (\<lambda>_. 0) 1 tr) st st0
    (config_io_load ed ss us starter ts (config_io_save ed ss us ts st files) st0)"
proof (rule config_io_load_restores [OF laws keeps])
  fix m j
  show "fromReference ss (fromRunTimeTypeID ed ss us (ref_type (cs_reference st m j))) = Inr (ref_type (cs_reference st m j))"
    by (rule reference_roundtrip [OF _ paths]) (use laws labels types [of m j] in \<open>auto simp: ed_laws_def\<close>)
next
  fix i c tr assume tr: "(i, c, tr) \<in> set ts"
  show "tree_names_ok ss us tr \<and> rs_identifier ss (rs_actionContext ss (pAction tr)) \<noteq> [] \<and>
      config_io_save ed ss us ts st files (rs_identifier ss c @ ''.ed'') = Some (ed_print ed (save_object ed ss us st c tr))"
    using names(1) [OF tr] config_io_save_file [OF names(2) tr] by simp
qed (rule reads)

end
