(* ===== verification/Config_Trees.thy ===== *)
theory Config_Trees
  imports Config_Properties "HOL-Library.Multiset"
begin

text \<open>
  Which constants are saved: the trees of the objects hold every constant of the component once, and a tree
  covers the instances of its actions below the first instance of what is above the object.
\<close>

section \<open>The trees of the objects\<close>

fun tree_constants :: "('a, 'm) const_tree \<Rightarrow> ('m \<times> user_dimension) list" where
  "tree_constants (ConstTree a cs ks) = ks @ concat (map tree_constants cs)"

text \<open>No subtree without constants; no object.\<close>

fun pruned :: "('a, 'm) const_tree \<Rightarrow> bool" where
  "pruned (ConstTree a cs ks) = (\<forall>c \<in> set cs. pruned c \<and> tree_constants c \<noteq> [])"

fun object_free :: "('c, 'a, 'b, 'm) read_session \<Rightarrow> ('a, 'm) const_tree \<Rightarrow> bool" where
  "object_free ss (ConstTree a cs ks) =
     (rs_class ss (rs_actionContext ss a) \<noteq> ObjectContext \<and> (\<forall>c \<in> set cs. object_free ss c))"

lemma set_kept:
  "set (map snd (filter (\<lambda>r. \<not> fst r) (map f cs))) = {snd (f c) |c. c \<in> set cs \<and> \<not> fst (f c)}"
  by force

lemma pruneTree_constants:
  "tree_constants (snd (pruneTree t)) = tree_constants t \<and> (fst (pruneTree t) \<longleftrightarrow> tree_constants t = []) \<and>
   pruned (snd (pruneTree t)) \<and> pAction (snd (pruneTree t)) = pAction t"
proof (induction t)
  case (ConstTree a cs ks)
  let ?kept = "map snd (filter (\<lambda>r. \<not> fst r) (map pruneTree cs))"
  have "concat (map tree_constants ?kept) = concat (map tree_constants cs)"
    using ConstTree by (induction cs) auto
  moreover have "?kept = [] \<longleftrightarrow> (\<forall>c \<in> set cs. tree_constants c = [])"
    using ConstTree by (auto simp: filter_empty_conv)
  moreover have "\<forall>c \<in> set ?kept. pruned c \<and> tree_constants c \<noteq> []" unfolding set_kept using ConstTree by auto
  ultimately show ?case by (auto simp: Let_def)
qed

lemma pruneTree_object_free: "object_free ss t \<Longrightarrow> object_free ss (snd (pruneTree t))"
proof (induction t)
  case (ConstTree a cs ks)
  then have "\<forall>c \<in> set (map snd (filter (\<lambda>r. \<not> fst r) (map pruneTree cs))). object_free ss c"
    unfolding set_kept by auto
  with ConstTree.prems show ?case by (simp add: Let_def)
qed

lemma pruneTree_children:
  "(\<forall>c \<in> set (children t). object_free ss c) \<Longrightarrow> \<forall>c \<in> set (children (snd (pruneTree t))). object_free ss c"
proof (cases t)
  case (ConstTree a cs ks)
  assume "\<forall>c \<in> set (children t). object_free ss c"
  then have "\<forall>c \<in> set (map snd (filter (\<lambda>r. \<not> fst r) (map pruneTree cs))). object_free ss c"
    unfolding set_kept using ConstTree pruneTree_object_free by auto
  then show ?thesis by (simp add: Let_def ConstTree)
qed

fun objects :: "('c, 'a, 'b, 'm) read_session \<Rightarrow> ('c, 'a, 'm) user_session \<Rightarrow> ('a, 'm) const_tree \<Rightarrow> int list" where
  "objects ss us (ConstTree a cs ks) =
     concat (map (objects ss us) cs) @
     (if rs_class ss (rs_actionContext ss a) = ObjectContext then [us_contextIndex us (rs_actionContext ss a)] else [])"

definition all_constants :: "('c, 'a, 'm) object_trees \<Rightarrow> ('m \<times> user_dimension) list" where
  "all_constants ts = concat (map (\<lambda>(i, c, t). tree_constants t) ts)"

definition object_tree :: "('c, 'a, 'b, 'm) read_session \<Rightarrow> int \<times> 'c \<times> ('a, 'm) const_tree \<Rightarrow> bool" where
  "object_tree ss = (\<lambda>(i, c, t). rs_actionContext ss (pAction t) = c \<and> rs_class ss c = ObjectContext \<and> pruned t \<and>
     (\<forall>b \<in> set (children t). object_free ss b))"

lemma all_constants_insert:
  "k \<notin> fst ` set ts \<Longrightarrow> mset (all_constants (smap_insert k (c, t) ts)) = mset (tree_constants t) + mset (all_constants ts)"
proof (induction ts)
  case (Cons x ts)
  then show ?case by (cases x) (auto simp: all_constants_def)
qed (simp add: all_constants_def)

lemma set_smap_insert: "set (smap_insert k v ts) \<subseteq> insert (k, v) (set ts)"
  by (induction k v ts rule: smap_insert.induct) auto

lemma gather_covers:
  "distinct (objects ss us t) \<Longrightarrow> set (objects ss us t) \<inter> fst ` set m = {} \<Longrightarrow> list_all (object_tree ss) m \<Longrightarrow>
   gatherObjectTrees ss us m t = (m', taken, t') \<Longrightarrow>
     mset (all_constants m') + (if taken then {#} else mset (tree_constants t')) = mset (all_constants m) + mset (tree_constants t) \<and>
     fst ` set m' \<subseteq> fst ` set m \<union> set (objects ss us t) \<and> list_all (object_tree ss) m' \<and> (\<not> taken \<longrightarrow> object_free ss t')"
  and "distinct (concat (map (objects ss us) ts)) \<Longrightarrow> set (concat (map (objects ss us) ts)) \<inter> fst ` set m = {} \<Longrightarrow>
   list_all (object_tree ss) m \<Longrightarrow> gather_children ss us m ts = (m', ts') \<Longrightarrow>
     mset (all_constants m') + mset (concat (map tree_constants ts')) = mset (all_constants m) + mset (concat (map tree_constants ts)) \<and>
     fst ` set m' \<subseteq> fst ` set m \<union> set (concat (map (objects ss us) ts)) \<and> list_all (object_tree ss) m' \<and>
     (\<forall>c \<in> set ts'. object_free ss c)"
proof (induction ss us m t and ss us m ts arbitrary: m' taken t' and m' ts' rule: gatherObjectTrees_gather_children.induct)
  case (1 ss us m a cs ks)
  let ?c = "rs_actionContext ss a"
  obtain m1 kept where g: "gather_children ss us m cs = (m1, kept)" by fastforce
  have sub: "distinct (concat (map (objects ss us) cs))" "set (concat (map (objects ss us) cs)) \<inter> fst ` set m = {}"
    using "1.prems" by auto
  note ih = "1.IH" [OF sub "1.prems"(3) g]
  let ?t = "ConstTree a kept ks"
  show ?case
  proof (cases "rs_class ss ?c = ObjectContext")
    case False
    then show ?thesis using "1.prems"(4) ih by (auto simp: g ac_simps)
  next
    case True
    have new: "us_contextIndex us ?c \<notin> fst ` set m1" using ih "1.prems"(1,2) True by auto
    have tree: "object_tree ss (us_contextIndex us ?c, ?c, snd (pruneTree ?t))"
      using True ih pruneTree_constants [of ?t] pruneTree_children [of ?t ss] by (auto simp: object_tree_def)
    show ?thesis
    proof (cases "fst (pruneTree ?t)")
      case True
      then have "ks @ concat (map tree_constants kept) = []" using pruneTree_constants [of ?t] by (simp del: pruneTree.simps)
      then have ks: "ks = []" "concat (map tree_constants kept) = []" by simp_all
      have "mset (all_constants m1) + mset (concat (map tree_constants kept)) =
          mset (all_constants m) + mset (concat (map tree_constants cs))" using ih by blast
      then have "mset (all_constants m1) = mset (all_constants m) + mset (concat (map tree_constants cs))"
        by (simp only: ks mset.simps add_0_right)
      then show ?thesis using True \<open>rs_class ss ?c = ObjectContext\<close> "1.prems"(4) ih
        by (auto simp: g ks(1) Let_def case_prod_unfold)
    next
      case False
      then have m': "m' = smap_insert (us_contextIndex us ?c) (?c, snd (pruneTree ?t)) m1" "taken"
        using True "1.prems"(4) by (auto simp: g Let_def case_prod_unfold)
      have "list_all (object_tree ss) m'"
        using ih tree set_smap_insert by (fastforce simp: m' list_all_iff)
      then show ?thesis
        using ih True m' all_constants_insert [OF new] pruneTree_constants [of ?t]
        by (auto simp: fst_smap_insert ac_simps)
    qed
  qed
next
  case (2 ss us m)
  then show ?case by simp
next
  case (3 ss us m t ts)
  obtain m1 taken t1 where g: "gatherObjectTrees ss us m t = (m1, taken, t1)" by (metis prod_cases3)
  obtain m2 ts2 where h: "gather_children ss us m1 ts = (m2, ts2)" by fastforce
  have sub: "distinct (objects ss us t)" "set (objects ss us t) \<inter> fst ` set m = {}" using "3.prems" by auto
  note ih1 = "3.IH"(1) [OF sub "3.prems"(3) g]
  have sub2: "distinct (concat (map (objects ss us) ts))" "set (concat (map (objects ss us) ts)) \<inter> fst ` set m1 = {}"
  proof -
    have keys: "fst ` set m1 \<subseteq> fst ` set m \<union> set (objects ss us t)" using ih1 by blast
    note prems = "3.prems"(1,2) [unfolded list.map concat.simps distinct_append set_append]
    show "distinct (concat (map (objects ss us) ts))" using prems by blast
    show "set (concat (map (objects ss us) ts)) \<inter> fst ` set m1 = {}" using prems keys by blast
  qed
  have ok: "list_all (object_tree ss) m1" using ih1 by blast
  note ih2 = "3.IH"(2) [OF g [symmetric] refl refl sub2 ok h]
  have res: "m' = m2" "ts' = (if taken then ts2 else t1 # ts2)" using "3.prems"(4) by (auto simp: g h)
  let ?C = "\<lambda>us. mset (concat (map tree_constants us))" and ?X = "if taken then {#} else mset (tree_constants t1)"
  have "?C ts' = ?X + ?C ts2" by (simp add: res)
  then have "mset (all_constants m') + ?C ts' = (mset (all_constants m2) + ?C ts2) + ?X"
    by (simp only: res ac_simps)
  also have "\<dots> = (mset (all_constants m1) + ?X) + ?C ts" using ih2 by (simp only: ac_simps)
  also have "\<dots> = mset (all_constants m) + ?C (t # ts)" using ih1 by (simp add: ac_simps)
  finally have "mset (all_constants m') + ?C ts' = mset (all_constants m) + ?C (t # ts)" .
  moreover have "fst ` set m' \<subseteq> fst ` set m \<union> set (concat (map (objects ss us) (t # ts)))"
    using ih1 ih2 unfolding res list.map concat.simps set_append by blast
  moreover have "list_all (object_tree ss) m' \<and> (\<forall>c \<in> set ts'. object_free ss c)" using ih1 ih2 by (simp add: res)
  ultimately show ?case by blast
qed

text \<open>C6.  When the root of the component is an object and no object occurs twice among its actions, the trees that are
  saved hold every constant declared in the component, each as often as there is an action with it, and in the
  tree of the nearest object above it; no subtree of them is without constants.  (Of an object that occurs twice,
  the code keeps the first tree only, and the constants in the others are not saved.)\<close>

theorem config_trees_cover:
  assumes root: "rs_class ss (rs_actionContext ss a) = ObjectContext"
    and objects: "distinct (objects ss us (buildTree us a es))"
    and ts: "ts = fst (gatherObjectTrees ss us [] (buildTree us a es))"
  shows "mset (all_constants ts) = mset (tree_constants (buildTree us a es)) \<and> list_all (object_tree ss) ts"
proof -
  obtain m' taken t' where g: "gatherObjectTrees ss us [] (buildTree us a es) = (m', taken, t')" by (metis prod_cases3)
  have "taken" using g root by (auto simp: buildTree_def Let_def case_prod_unfold split: if_splits)
  then show ?thesis
    using gather_covers(1) [OF objects _ _ g] ts by (simp add: g all_constants_def)
qed

section \<open>The instances\<close>

text \<open>The parents of an action are those in the tree, and only its root is the object.\<close>

fun below_object :: "('c, 'a, 'b, 'm) read_session \<Rightarrow> 'c \<Rightarrow> 'a list \<Rightarrow> ('a, 'm) const_tree \<Rightarrow> bool" where
  "below_object ss pObject ps (ConstTree a cs ks) =
     (rs_actionChain ss a = a # ps \<and> rs_actionContext ss a \<noteq> pObject \<and> (\<forall>c \<in> set cs. below_object ss pObject (a # ps) c))"

definition chained :: "('c, 'a, 'b, 'm) read_session \<Rightarrow> 'c \<Rightarrow> ('a, 'm) const_tree \<Rightarrow> bool" where
  "chained ss pObject t \<longleftrightarrow> rs_actionContext ss (pAction t) = pObject \<and>
     (\<exists>ps. rs_actionChain ss (pAction t) = pAction t # ps \<and> (\<forall>c \<in> set (children t). below_object ss pObject (pAction t # ps) c))"

text \<open>The constants of a tree with the number of instances from its root down.\<close>

fun spans :: "('c, 'a, 'm) user_session \<Rightarrow> ('a, 'm) const_tree \<Rightarrow> (('m \<times> user_dimension) \<times> nat) list" where
  "spans us (ConstTree a cs ks) =
     map (\<lambda>k. (k, us_localDomainSize us a)) ks @
     concat (map (\<lambda>c. map (\<lambda>(k, q). (k, q * us_localDomainSize us a)) (spans us c)) cs)"

lemma index_factors_scale:
  "index_factors ss us pObject chain n (x * f) =
   andThen (index_factors ss us pObject chain n f) (\<lambda>fs. Inr (map (\<lambda>(k, g). (k, x * g)) fs))"
proof (induction chain arbitrary: n f)
  case (Cons a chain)
  show ?case
    using Cons [of "n - 1"] by (cases chain) (auto simp: andThen_def mult.assoc split: sum.splits)
qed simp

lemma index_factors_below:
  "index_factors ss us pObject chain n f = Inr fs \<Longrightarrow> (k, g) \<in> set fs \<Longrightarrow> k \<le> n"
proof (induction chain arbitrary: n f fs)
  case (Cons a chain)
  show ?case
  proof (cases "rs_actionContext ss a = pObject")
    case True
    then show ?thesis using Cons.prems by simp
  next
    case False
    then obtain p ps gs where "chain = p # ps"
      "index_factors ss us pObject chain (n - 1) (f * int (us_localDomainSize us p)) = Inr gs" "fs = (n, f) # gs"
      using Cons.prems(1) by (cases chain) (auto elim!: andThen_InrE)
    then show ?thesis using Cons.IH Cons.prems(2) by fastforce
  qed
qed simp

lemma instance_update:
  "instance_of_indices ss us pObject a n (env(n + 1 := i)) = instance_of_indices ss us pObject a n env"
proof (cases "index_factors ss us pObject (rs_actionChain ss a) (n - 1) (int (us_localDomainSize us a))")
  case (Inr fs)
  have "map (\<lambda>(k, f). (env(n + 1 := i)) k * f) fs = map (\<lambda>(k, f). env k * f) fs"
  proof (rule map_cong [OF refl])
    fix x assume x: "x \<in> set fs"
    obtain k f where kf: "x = (k, f)" by (cases x)
    have "k \<le> n - 1" using index_factors_below [OF Inr] x kf by blast
    then show "(case x of (k, f) \<Rightarrow> (env(n + 1 := i)) k * f) = (case x of (k, f) \<Rightarrow> env k * f)" by (simp add: kf)
  qed
  then show ?thesis by (simp only: instance_of_indices_def Inr sum.case) simp
qed (simp add: instance_of_indices_def)

lemma instance_root:
  "rs_actionContext ss a = pObject \<Longrightarrow> rs_actionChain ss a = a # ps \<Longrightarrow> instance_of_indices ss us pObject a n env = env n"
  by (simp add: instance_of_indices_def)

definition well_chained :: "('c, 'a, 'b, 'm) read_session \<Rightarrow> ('c, 'a, 'm) user_session \<Rightarrow> 'c \<Rightarrow> 'a list \<Rightarrow> bool" where
  "well_chained ss us pObject ps \<longleftrightarrow>
     (\<exists>p qs. ps = p # qs \<and> rs_actionChain ss p = ps \<and> (\<forall>n f. \<exists>fs. index_factors ss us pObject ps n f = Inr fs))"

lemma instance_below:
  assumes "rs_actionChain ss a = a # ps" "rs_actionContext ss a \<noteq> pObject" "well_chained ss us pObject ps"
  shows "instance_of_indices ss us pObject a (n + 1) env =
    env (n + 1) + int (us_localDomainSize us a) * instance_of_indices ss us pObject (hd ps) n env"
proof -
  obtain p qs where ps: "ps = p # qs" "rs_actionChain ss p = ps" using assms(3) by (auto simp: well_chained_def)
  let ?D = "int (us_localDomainSize us a)" and ?P = "int (us_localDomainSize us p)"
  obtain fs where fs: "index_factors ss us pObject (p # qs) (n - 1) ?P = Inr fs"
    using assms(3) by (auto simp: well_chained_def ps)
  have "index_factors ss us pObject (a # ps) n ?D = Inr ((n, ?D) # map (\<lambda>(k, g). (k, ?D * g)) fs)"
    using assms(2) fs by (simp add: ps index_factors_scale del: index_factors.simps(2)) (simp add: index_factors_scale fs)
  moreover have "sum_list (map (\<lambda>(k, g). env k * g) (map (\<lambda>(k, g). (k, ?D * g)) fs)) = ?D * sum_list (map (\<lambda>(k, g). env k * g) fs)"
    by (induction fs) (auto simp: algebra_simps)
  ultimately have "instance_of_indices ss us pObject a (n + 1) env =
      env (n + 1) + (env n * ?D + ?D * sum_list (map (\<lambda>(k, g). env k * g) fs))"
    by (simp add: instance_of_indices_def assms(1) del: index_factors.simps map_map)
  moreover have "instance_of_indices ss us pObject p n env = env n + sum_list (map (\<lambda>(k, g). env k * g) fs)"
    using ps fs by (simp add: instance_of_indices_def del: index_factors.simps)
  ultimately show ?thesis by (simp add: ps(1) distrib_left)
qed

lemma well_chained_Cons:
  assumes "rs_actionChain ss a = a # ps" "rs_actionContext ss a = pObject \<or> well_chained ss us pObject ps"
  shows "well_chained ss us pObject (a # ps)"
proof -
  have "\<exists>fs. index_factors ss us pObject (a # ps) n f = Inr fs" for n f
  proof (cases "rs_actionContext ss a = pObject")
    case False
    then obtain p qs where "ps = p # qs" "\<forall>n f. \<exists>fs. index_factors ss us pObject ps n f = Inr fs"
      using assms(2) by (auto simp: well_chained_def)
    then show ?thesis using False
      by (metis (no_types, lifting) andThen_Inr index_factors.simps(2) list.simps(5))
  qed simp
  then show ?thesis using assms(1) by (simp add: well_chained_def)
qed

lemma mult_le_div: "0 < (q :: int) \<Longrightarrow> q * x \<le> j \<longleftrightarrow> x \<le> j div q"
proof
  assume q: "0 < q"
  show "x \<le> j div q" if "q * x \<le> j" using zdiv_mono1 [OF that q] q by simp
  show "q * x \<le> j" if "x \<le> j div q"
    using mult_left_mono [OF that, of q] q mult_div_mod_eq [of q j] pos_mod_sign [OF q, of j] by linarith
qed

lemma ex_offset: "(\<exists>i < D. (j :: int) = int i + c) \<longleftrightarrow> c \<le> j \<and> j < c + int D"
proof
  assume "c \<le> j \<and> j < c + int D"
  then show "\<exists>i < D. j = int i + c" by (intro exI [of _ "nat (j - c)"]) auto
qed auto

lemma intervals:
  fixes j P :: int and q D :: nat
  shows "(\<exists>i < D. int q * (int i + int D * P) \<le> j \<and> j < int q * (int i + int D * P + 1)) \<longleftrightarrow>
    int (q * D) * P \<le> j \<and> j < int (q * D) * (P + 1)"
proof (cases "q = 0")
  case False
  then have q: "0 < int q" by simp
  let ?J = "j div int q"
  have less: "j < int q * x \<longleftrightarrow> ?J < x" for x using mult_le_div [OF q, of x j] by linarith
  have "(\<exists>i < D. int q * (int i + int D * P) \<le> j \<and> j < int q * (int i + int D * P + 1)) \<longleftrightarrow>
      (\<exists>i < D. ?J = int i + int D * P)"
    by (auto simp: mult_le_div [OF q] less)
  also have "\<dots> \<longleftrightarrow> int D * P \<le> ?J \<and> ?J < int D * P + int D" by (rule ex_offset)
  also have "\<dots> \<longleftrightarrow> int (q * D) * P \<le> j \<and> j < int (q * D) * (P + 1)"
    using mult_le_div [OF q, of "int D * P" j] less [of "int D * P + int D"] by (simp add: algebra_simps)
  finally show ?thesis .
qed auto

lemma pair_set_eqI: "(\<And>k j. (k, j) \<in> A \<longleftrightarrow> (k, j) \<in> B) \<Longrightarrow> A = B"
  by auto

lemma member_levels:
  fixes D :: nat
  shows "(k, j) \<in> (\<Union>i \<in> {0..<D}. (\<lambda>k. (k, f i)) ` K \<union> (\<Union>c \<in> C. {(k, j). \<exists>q. (k, q) \<in> S c \<and> A q i j})) \<longleftrightarrow>
   (k \<in> K \<and> (\<exists>i < D. j = f i)) \<or> (\<exists>c \<in> C. \<exists>q. (k, q) \<in> S c \<and> (\<exists>i < D. A q i j))"
  by (simp only: UN_iff Un_iff image_iff mem_Collect_eq case_prod_conv atLeast0LessThan lessThan_iff prod.inject) blast

lemma spans_iff:
  "(\<exists>q. (k, q) \<in> set (spans us (ConstTree a cs ks)) \<and> Q q) \<longleftrightarrow>
   (k \<in> set ks \<and> Q (us_localDomainSize us a)) \<or> (\<exists>c \<in> set cs. \<exists>q. (k, q) \<in> set (spans us c) \<and> Q (q * us_localDomainSize us a))"
  by (auto simp: image_iff) force

lemma intervals_from_zero:
  "(\<exists>i < D. int q * int i \<le> j \<and> j < int q * (int i + 1)) \<longleftrightarrow> 0 \<le> j \<and> j < int (q * D)"
  using intervals [of D q 0 j] by simp

lemma saved_below:
  assumes active: "\<And>a j. cs_active st a j"
  shows "below_object ss pObject ps t \<Longrightarrow> well_chained ss us pObject ps \<Longrightarrow> P = instance_of_indices ss us pObject (hd ps) n env \<Longrightarrow>
    saved ss us st pObject env n t = {(k, j). \<exists>q. (k, q) \<in> set (spans us t) \<and> int q * P \<le> j \<and> j < int q * (P + 1)}"
proof (induction t arbitrary: ps P n env)
  case (ConstTree a cs ks)
  let ?D = "us_localDomainSize us a" and ?e = "\<lambda>i. env(n + 1 := int i)"
  have a: "rs_actionChain ss a = a # ps" "rs_actionContext ss a \<noteq> pObject" and cs: "\<And>c. c \<in> set cs \<Longrightarrow> below_object ss pObject (a # ps) c"
    using ConstTree.prems(1) by auto
  have inst: "instance_of_indices ss us pObject a (n + 1) (?e i) = int i + int ?D * P" for i
    using instance_below [OF a ConstTree.prems(2), of n "?e i"] ConstTree.prems(3) by (simp add: instance_update)
  have child: "saved ss us st pObject (?e i) (n + 1) c =
      {(k, j). \<exists>q. (k, q) \<in> set (spans us c) \<and> int q * (int i + int ?D * P) \<le> j \<and> j < int q * (int i + int ?D * P + 1)}"
    if "c \<in> set cs" for c i
  proof -
    have "well_chained ss us pObject (a # ps)" using well_chained_Cons [OF a(1)] ConstTree.prems(2) by blast
    moreover have "int i + int ?D * P = instance_of_indices ss us pObject (hd (a # ps)) (n + 1) (?e i)"
      by (simp only: list.sel inst)
    ultimately show ?thesis by (rule ConstTree.IH [OF that cs [OF that]])
  qed
  have "(k, j) \<in> saved ss us st pObject env n (ConstTree a cs ks) \<longleftrightarrow>
      (\<exists>q. (k, q) \<in> set (spans us (ConstTree a cs ks)) \<and> int q * P \<le> j \<and> j < int q * (P + 1))" for k j
  proof -
    have "(k, j) \<in> saved ss us st pObject env n (ConstTree a cs ks) \<longleftrightarrow>
        (k \<in> set ks \<and> (\<exists>i < ?D. j = int i + int ?D * P)) \<or>
        (\<exists>c \<in> set cs. \<exists>q. (k, q) \<in> set (spans us c) \<and>
          (\<exists>i < ?D. int q * (int i + int ?D * P) \<le> j \<and> j < int q * (int i + int ?D * P + 1)))"
      unfolding saved.simps Let_def inst by (simp only: active if_True child member_levels cong: SUP_cong)
    also have "(\<exists>i < ?D. j = int i + int ?D * P) \<longleftrightarrow> int ?D * P \<le> j \<and> j < int ?D * (P + 1)"
      unfolding ex_offset by (simp add: distrib_left)
    finally show ?thesis by (simp only: intervals spans_iff)
  qed
  then show ?case by (intro pair_set_eqI) (simp only: mem_Collect_eq case_prod_conv)
qed

text \<open>With everything below an object active, its tree saves an interval of instances of each constant.\<close>

lemma saved_interval:
  assumes "chained ss pObject t" "\<And>a j. cs_active st a j"
  shows "saved ss us st pObject (\<lambda>_. 0) 1 t = {(k, j). \<exists>q. (k, q) \<in> set (spans us t) \<and> 0 \<le> j \<and> j < int q}"
proof -
  obtain a cs ks where t: "t = ConstTree a cs ks" by (cases t)
  obtain ps where a: "rs_actionContext ss a = pObject" "rs_actionChain ss a = a # ps"
    and cs: "\<And>c. c \<in> set cs \<Longrightarrow> below_object ss pObject (a # ps) c"
    using assms(1) by (auto simp: chained_def t)
  let ?D = "us_localDomainSize us a" and ?e = "\<lambda>i. (\<lambda>_. 0)(2 := int i)"
  have inst: "instance_of_indices ss us pObject a (2) (?e i) = int i" for i
    using instance_root [OF a, of us 2 "?e i"] by simp
  have child: "saved ss us st pObject (?e i) (2) c =
      {(k, j). \<exists>q. (k, q) \<in> set (spans us c) \<and> int q * int i \<le> j \<and> j < int q * (int i + 1)}"
    if "c \<in> set cs" for c i
  proof -
    have "well_chained ss us pObject (a # ps)" using well_chained_Cons [OF a(2)] a(1) by blast
    moreover have "int i = instance_of_indices ss us pObject (hd (a # ps)) 2 (?e i)" by (simp only: list.sel inst)
    ultimately show ?thesis by (rule saved_below [OF assms(2) cs [OF that]])
  qed
  have "(k, j) \<in> saved ss us st pObject (\<lambda>_. 0) 1 t \<longleftrightarrow> (\<exists>q. (k, q) \<in> set (spans us t) \<and> 0 \<le> j \<and> j < int q)" for k j
  proof -
    have "(k, j) \<in> saved ss us st pObject (\<lambda>_. 0) 1 t \<longleftrightarrow> (k \<in> set ks \<and> (\<exists>i < ?D. j = int i)) \<or>
        (\<exists>c \<in> set cs. \<exists>q. (k, q) \<in> set (spans us c) \<and> (\<exists>i < ?D. int q * int i \<le> j \<and> j < int q * (int i + 1)))"
      unfolding t saved.simps Let_def one_add_one inst by (simp only: assms(2) if_True child member_levels cong: SUP_cong)
    also have "(\<exists>i < ?D. j = int i) \<longleftrightarrow> 0 \<le> j \<and> j < int ?D"
      by (metis int_ops(1) nat_int nat_less_iff of_nat_0_le_iff of_nat_less_iff zero_le_imp_eq_int)
    finally show ?thesis by (simp only: intervals_from_zero spans_iff t)
  qed
  then show ?thesis by (intro pair_set_eqI) (simp only: mem_Collect_eq case_prod_conv)
qed

text \<open>C7.  When everything below an object is active, what its file gives back of a constant is the instances below
  one instance of what is above the object, from the first on, each with the value that its text reads back as
  (the value saved, but for a transform, whose rotation is normalised); the instances below the others keep the
  values that they have before the file is loaded.  The conditions are those of loading: no value saved is refused
  when it is read, starting an action changes no constant, names are different and the instances of an action at
  most 10000, the actions of the tree have the parents that the compiler gives them, and references are null or to actions of the program, none of them inherited.\<close>

theorem config_saved_instances:
  assumes laws: "ed_laws ed"
    and keeps: "\<And>a i st. cs_value (starter a i st) = cs_value st \<and> cs_reference (starter a i st) = cs_reference st"
    and tree: "tree_names_ok ss us t" "rs_identifier ss (rs_actionContext ss (pAction t)) \<noteq> []" "chained ss pObject t"
    and paths: "siblings_apart ss (rs_instanceTree ss)" "names_of_paths ss us"
    and labels: "distinct (0 # map fst (type_labels ss us (rs_instanceTree ss)))"
    and types: "\<And>m j. ref_type (cs_reference st m j) \<in> insert 0 (fst ` set (type_labels ss us (rs_instanceTree ss)))"
    and active: "\<And>a j. cs_active st a j"
    and reads: "readable ed st {(k, j). \<exists>q. (k, q) \<in> set (spans us t) \<and> 0 \<le> j \<and> j < int q}"
  shows "restored ed {(k, j). \<exists>q. (k, q) \<in> set (spans us t) \<and> 0 \<le> j \<and> j < int q} st st0
    (config_io_load ed ss us starter [(i, pObject, t)] (config_io_save ed ss us [(i, pObject, t)] st files) st0)"
proof -
  have "restored ed (\<Union>(i, c, tr) \<in> set [(i, pObject, t)]. saved ss us st c (\<lambda>_. 0) 1 tr) st st0
    (config_io_load ed ss us starter [(i, pObject, t)] (config_io_save ed ss us [(i, pObject, t)] st files) st0)"
  proof (rule config_io_load_restores [OF laws keeps])
    fix m j
    show "fromReference ss (fromRunTimeTypeID ed ss us (ref_type (cs_reference st m j))) = Inr (ref_type (cs_reference st m j))"
      by (rule reference_roundtrip [OF _ paths]) (use laws labels types [of m j] in \<open>auto simp: ed_laws_def\<close>)
  next
    fix i' c tr assume "(i', c, tr) \<in> set [(i, pObject, t)]"
    then have x: "i' = i" "c = pObject" "tr = t" by simp_all
    have "config_io_save ed ss us [(i, pObject, t)] st files (rs_identifier ss pObject @ ''.ed'') =
        Some (ed_print ed (save_object ed ss us st pObject t))"
      by (rule config_io_save_file) simp_all
    then show "tree_names_ok ss us tr \<and> rs_identifier ss (rs_actionContext ss (pAction tr)) \<noteq> [] \<and>
        config_io_save ed ss us [(i, pObject, t)] st files (rs_identifier ss c @ ''.ed'') = Some (ed_print ed (save_object ed ss us st c tr))"
      using tree by (simp add: x)
  qed (use reads saved_interval [OF tree(3) active] in simp)
  then show ?thesis using saved_interval [OF tree(3) active] by simp
qed

end
