(* ===== verification/Config_Witnesses.thy ===== *)
theory Config_Witnesses
  imports Config_Trees Network_Witnesses
begin

text \<open>
  The properties of the configuration at a program whose project \<open>pr\<close> has a constant \<open>c\<close> and an action \<open>act\<close> with
  three instances and a constant \<open>r\<close> that is a reference.
\<close>

definition config_session :: "(nat, nat, nat, nat) read_session" where
  "config_session = demo_session\<lparr>
     rs_instanceTree := [CAction 1 [CAction 2 [CAction 3 [CAction 5 [CDimension 50 5 None, CAction 6 [CDimension 60 6 None]]]]]],
     rs_actionContext := (\<lambda>a. a),
     rs_actionChain := (\<lambda>a. if a = 6 then [6, 5, 3, 2, 1, 0] else [a, 3, 2, 1, 0]),
     rs_class := (\<lambda>c. if c = 5 then ObjectContext else ActionContext),
     rs_identifier := (\<lambda>c. if c = 1 then ''root'' else if c = 2 then ''co'' else if c = 3 then ''h1'' else if c = 5 then ''pr'' else ''act'')\<rparr>"

definition config_user :: "(nat, nat, nat) user_session" where
  "config_user = \<lparr>
     us_contextIndex = int,
     us_path = (\<lambda>c. take c ([''root'', ''co'', ''h1''] @ (if c = 5 then [''pr''] else [''pr'', ''act'']))),
     us_localDomainSize = (\<lambda>a. if a = 6 then 3 else 1),
     us_dimension = (\<lambda>m. Some \<lparr>ud_const = True, ud_isEGType = (m = 6),
       ud_identifier = (if m = 6 then ''r'' else ''c''), ud_friendlyName = []\<rparr>)\<rparr>"

text \<open>The values of \<open>c\<close> are read back in a normal form, as those of a transform are.\<close>

datatype demo_shorthand = ShValue nat | ShReference u32 ed_ref u32

definition demo_ed :: "(nat, nat, demo_shorthand, demo_shorthand ed_node) ed_api" where
  "demo_ed = \<lparr>
     ed_make_ref = (\<lambda>ids. [map Identifier ids]),
     ed_put = ShValue,
     ed_get = (\<lambda>m sh. case sh of ShValue v \<Rightarrow> Some (if m = 5 then min v 4 else v) | _ \<Rightarrow> None),
     ed_put_reference = ShReference,
     ed_get_reference = (\<lambda>sh. case sh of ShReference i r ts \<Rightarrow> Some (i, r, ts) | _ \<Rightarrow> None),
     ed_print = (\<lambda>n. n),
     ed_parse = (\<lambda>n. Some (EdNode None None [n]))\<rparr>"

definition demo_starter :: "nat \<Rightarrow> int \<Rightarrow> (nat, nat, nat) config_state \<Rightarrow> (nat, nat, nat) config_state" where
  "demo_starter a i st = st\<lparr>cs_active := (cs_active st)(a := (\<lambda>_. True))\<rparr>"

definition config_saved_state :: "(nat, nat, nat) config_state" where
  "config_saved_state = \<lparr>cs_value = (\<lambda>m j. m + nat j),
     cs_reference = (\<lambda>m j. \<lparr>ref_instance = 1, ref_type = 6, ref_timestamp = 0\<rparr>), cs_active = (\<lambda>a j. True)\<rparr>"

definition config_fresh_state :: "(nat, nat, nat) config_state" where
  "config_fresh_state = \<lparr>cs_value = (\<lambda>m j. 0),
     cs_reference = (\<lambda>m j. \<lparr>ref_instance = 0, ref_type = 0, ref_timestamp = 0\<rparr>), cs_active = (\<lambda>a j. False)\<rparr>"

definition demo_dimension :: "nat \<Rightarrow> user_dimension" where
  "demo_dimension m = \<lparr>ud_const = True, ud_isEGType = (m = 6), ud_identifier = (if m = 6 then ''r'' else ''c''), ud_friendlyName = []\<rparr>"

definition demo_const_tree :: "(nat, nat) const_tree" where
  "demo_const_tree = ConstTree 5 [ConstTree 6 [] [(6, demo_dimension 6)]] [(5, demo_dimension 5)]"

lemmas config_simps = config_session_def demo_session_def config_user_def demo_dimension_def demo_const_tree_def

lemma demo_component_root:
  "findComponentRoot demo_network_tree config_session = Inr (Some (5, [CDimension 50 5 None, CAction 6 [CDimension 60 6 None]]))"
  by (simp add: findComponentRoot_def root_of_type_def config_session_def demo_session_def demo_network_tree_def
      getCoordinatorName_def getHostName_def)

lemma demo_buildTree: "buildTree config_user 5 [CDimension 50 5 None, CAction 6 [CDimension 60 6 None]] = demo_const_tree"
  by (simp add: buildTree_def config_simps)

lemma demo_object_trees:
  "fst (gatherObjectTrees config_session config_user [] demo_const_tree) = [(5, 5, demo_const_tree)]"
  by (simp add: config_simps Let_def)

lemma demo_ed_laws: "ed_laws demo_ed"
  by (simp add: ed_laws_def demo_ed_def)

lemma demo_tree_constants: "mset (tree_constants demo_const_tree) = {#(5, demo_dimension 5), (6, demo_dimension 6)#}"
  by (simp add: config_simps add_mset_commute)

theorem config_trees_cover_witness:
  "mset (all_constants [(5 :: int, 5 :: nat, demo_const_tree)]) = {#(5, demo_dimension 5), (6, demo_dimension 6)#} \<and>
   object_tree config_session (5, 5, demo_const_tree)"
proof -
  have "rs_class config_session (rs_actionContext config_session 5) = ObjectContext"
    "distinct (objects config_session config_user demo_const_tree)"
    by (simp_all add: config_simps)
  then show ?thesis
    using config_trees_cover [of config_session 5 config_user "[CDimension 50 5 None, CAction 6 [CDimension 60 6 None]]", OF _ _ refl]
    unfolding demo_buildTree demo_object_trees demo_tree_constants by simp
qed

lemma demo_keeps: "cs_value (demo_starter a i st) = cs_value st \<and> cs_reference (demo_starter a i st) = cs_reference st"
  by (simp add: demo_starter_def)

lemma demo_tree_names:
  "tree_names_ok config_session config_user demo_const_tree"
  "rs_identifier config_session (rs_actionContext config_session (pAction demo_const_tree)) \<noteq> []"
  "chained config_session 5 demo_const_tree"
  by (simp_all add: config_simps Let_def chained_def)

lemma demo_program:
  "siblings_apart config_session (rs_instanceTree config_session)" "names_of_paths config_session config_user"
  "distinct (0 # map fst (type_labels config_session config_user (rs_instanceTree config_session)))"
  "ref_type (cs_reference config_saved_state m j) \<in> insert 0 (fst ` set (type_labels config_session config_user (rs_instanceTree config_session)))"
  "distinct (map (\<lambda>(i, c, tr). rs_identifier config_session c) [(5 :: int, 5 :: nat, demo_const_tree)])"
  by (simp_all add: config_session_def demo_session_def config_user_def child_names_def names_of_paths_def config_saved_state_def Let_def)

lemma demo_readable: "readable demo_ed st S"
  by (auto simp: readable_def demo_ed_def)

lemma demo_restored:
  assumes "restored demo_ed {((5, demo_dimension 5), 0), ((6, demo_dimension 6), 0), ((6, demo_dimension 6), 1), ((6, demo_dimension 6), 2)}
    config_saved_state config_fresh_state st1"
  shows "cs_value st1 5 0 = 4" "cs_reference st1 6 2 = \<lparr>ref_instance = 1, ref_type = 6, ref_timestamp = 0\<rparr>" "cs_value st1 7 0 = 0"
  using assms [unfolded restored_def, rule_format, of 5 0] assms [unfolded restored_def, rule_format, of 6 2]
    assms [unfolded restored_def, rule_format, of 7 0]
  by (simp_all add: reread_def demo_ed_def config_saved_state_def config_fresh_state_def demo_dimension_def)

theorem config_saved_instances_witness:
  "restored demo_ed {(k, j). \<exists>q. (k, q) \<in> set [((5, demo_dimension 5), 1), ((6, demo_dimension 6), 3)] \<and> 0 \<le> j \<and> j < int q}
    config_saved_state config_fresh_state
    (config_io_load demo_ed config_session config_user demo_starter [(5, 5, demo_const_tree)]
      (config_io_save demo_ed config_session config_user [(5, 5, demo_const_tree)] config_saved_state (\<lambda>_. None)) config_fresh_state)"
proof -
  have "spans config_user demo_const_tree = [((5, demo_dimension 5), 1), ((6, demo_dimension 6), 3)]"
    "\<And>a j. cs_active config_saved_state a j"
    by (simp_all add: config_simps config_saved_state_def)
  then show ?thesis
    using config_saved_instances [where starter = demo_starter and st = config_saved_state and i = 5,
        OF demo_ed_laws demo_keeps demo_tree_names demo_program(1-4) _ demo_readable]
    by simp
qed

lemma demo_saved:
  "saved config_session config_user config_saved_state 5 (\<lambda>_. 0) 1 demo_const_tree =
    {((5, demo_dimension 5), 0), ((6, demo_dimension 6), 0), ((6, demo_dimension 6), 1), ((6, demo_dimension 6), 2)}"
proof -
  have "spans config_user demo_const_tree = [((5, demo_dimension 5), 1), ((6, demo_dimension 6), 3)]"
    by (simp add: config_simps)
  moreover have "cs_active config_saved_state a j" for a j by (simp add: config_saved_state_def)
  ultimately have "saved config_session config_user config_saved_state 5 (\<lambda>_. 0) 1 demo_const_tree =
      {(k, j). (k = (5, demo_dimension 5) \<and> 0 \<le> j \<and> j < 1) \<or> (k = (6, demo_dimension 6) \<and> 0 \<le> j \<and> j < 3)}"
    using saved_interval [OF demo_tree_names(3), of config_saved_state config_user] by auto
  moreover have "0 \<le> j \<and> j < 1 \<longleftrightarrow> j = 0" "0 \<le> j \<and> j < 3 \<longleftrightarrow> j = 0 \<or> j = 1 \<or> j = 2" for j :: int by arith+
  ultimately show ?thesis by auto
qed

theorem config_load_restores_witness:
  "let st1 = config_io_load demo_ed config_session config_user demo_starter [(5, 5, demo_const_tree)]
      (config_io_save demo_ed config_session config_user [(5, 5, demo_const_tree)] config_saved_state (\<lambda>_. None)) config_fresh_state
   in cs_value config_saved_state 5 0 = 5 \<and> cs_value st1 5 0 = 4 \<and>
      cs_reference st1 6 2 = \<lparr>ref_instance = 1, ref_type = 6, ref_timestamp = 0\<rparr> \<and> cs_value st1 7 0 = 0"
proof -
  have ts: "[(5, 5, demo_const_tree)] = fst (gatherObjectTrees config_session config_user []
      (buildTree config_user 5 [CDimension 50 5 None, CAction 6 [CDimension 60 6 None]]))"
    by (simp only: demo_buildTree demo_object_trees)
  have names: "tree_names_ok config_session config_user tr \<and> rs_identifier config_session (rs_actionContext config_session (pAction tr)) \<noteq> []"
    if "(i, c, tr) \<in> set [(5 :: int, 5 :: nat, demo_const_tree)]" for i c tr
    using that demo_tree_names by simp
  note s = demo_saved
  let ?st1 = "config_io_load demo_ed config_session config_user demo_starter [(5, 5, demo_const_tree)]
      (config_io_save demo_ed config_session config_user [(5, 5, demo_const_tree)] config_saved_state (\<lambda>_. None)) config_fresh_state"
  have u: "(\<Union>(i, c, tr) \<in> set [(5 :: int, 5 :: nat, demo_const_tree)]. saved config_session config_user config_saved_state c (\<lambda>_. 0) 1 tr) =
      saved config_session config_user config_saved_state 5 (\<lambda>_. 0) 1 demo_const_tree" by simp
  note r = demo_restored [OF config_load_restores [where ed = demo_ed and starter = demo_starter and st = config_saved_state
        and ?st0.0 = config_fresh_state and files = "\<lambda>_. None",
        OF demo_ed_laws demo_keeps demo_component_root ts names demo_program(5,1,2,3,4) demo_readable, unfolded u s]]
  have "cs_value config_saved_state 5 0 = 5" by (simp add: config_saved_state_def)
  with r show ?thesis by (simp only: Let_def simp_thms)
qed

end
