(* ===== verification/Unreal_Generator.thy ===== *)
theory Unreal_Generator
  imports Config_Generator
begin

text \<open>
  The generator of the Unreal binding of a component, \<open>src/src/generators/unreal_generator.cpp\<close>: the interface with
  one abstract class for each context of the hosts named unreal, and the source that implements it for each action
  with an array of objects, one for each instance.
\<close>

text \<open>
  What it asks of the analysis besides a \<open>read_session\<close> and a \<open>user_session\<close>.
  \<^item> \<open>un_class\<close>: the first class of a context among those that \<open>ContextType\<close> asks for, in its order;
  \<^item> \<open>un_hostname\<close>: the host root that \<open>getCoordinatorHostname\<close> gives, if it gives one;
  \<^item> \<open>un_parent\<close>, \<open>un_parentContext\<close>, \<open>un_grandparent\<close>: whether a context has a parent, one that is a context, and whether
    the parent has one;
  \<^item> \<open>un_links\<close>: the link map of an action: the name, the member of the back reference and its group;
  \<^item> \<open>un_compatible\<close>: the dynamic compatible types of a context;
  \<^item> \<open>un_userDimension\<close>: for a member that is declared in the program its dimension and whether it is of a link group;
  \<^item> \<open>un_visits\<close>: the calls that \<open>pushpop\<close> over the children of a context makes of a visitor.
\<close>

record ('c, 'a) link_group =
  lg_linkName :: string
  lg_interfaceTargets :: "'c list"
  lg_concreteLinks :: "'a list"

record 'c interface_dimension =
  di_identifier :: string
  di_canonicalType :: string
  di_contextTypes :: "'c list"
  di_parentContext :: "'c option"

datatype 'c visit = PushContext 'c | PushDimension "'c interface_dimension" | PopContext 'c | OtherVisit

record ('c, 'a, 'm) unreal_session =
  un_class :: "'c \<Rightarrow> context_class"
  un_hostname :: "'c \<Rightarrow> 'c option"
  un_parent :: "'c \<Rightarrow> bool"
  un_parentContext :: "'c \<Rightarrow> bool"
  un_grandparent :: "'c \<Rightarrow> bool"
  un_baseContexts :: "'c \<Rightarrow> 'c list"
  un_totalDomainSize :: "'a \<Rightarrow> nat"
  un_linkGroups :: "('c, 'a) link_group list"
  un_links :: "'a \<Rightarrow> (string \<times> 'm \<times> ('c, 'a) link_group option) list"
  un_compatible :: "'c \<Rightarrow> 'a list"
  un_userDimension :: "'m \<Rightarrow> ('c interface_dimension \<times> bool) option"
  un_visits :: "'c \<Rightarrow> 'c visit list"

section \<open>Names\<close>

definition interfaceName :: "string \<Rightarrow> string" where
  "interfaceName identifier = ''I'' @ identifier"

definition fullInterfaceType :: "('c, 'a, 'm) user_session \<Rightarrow> 'c \<Rightarrow> string" where
  "fullInterfaceType us c =
     (case us_path us c of
        [] \<Rightarrow> []
      | i # is \<Rightarrow> interfaceName i @ concat (map (\<lambda>i. ''::'' @ interfaceName i) is))"

definition implName :: "('c, 'a, 'b, 'm) read_session \<Rightarrow> 'a \<Rightarrow> string" where
  "implName ss a = ''C'' @ rs_actionName ss a"

definition arrayName :: "('c, 'a, 'b, 'm) read_session \<Rightarrow> 'a \<Rightarrow> string" where
  "arrayName ss a = ''u_'' @ rs_actionName ss a"

section \<open>The kind of a context\<close>

record context_type =
  isPointer :: bool
  isEnumerable :: bool
  isObject :: bool

text \<open>A context below a coordinator or host root of another name has no class; one that is in no host has one.\<close>

definition ContextType :: "('c, 'a, 'b, 'm) read_session \<Rightarrow> ('c, 'a, 'm) unreal_session \<Rightarrow> 'c \<Rightarrow> context_type result" where
  "ContextType ss un c =
     (case un_hostname un c of
        None \<Rightarrow> Inr \<lparr>isPointer = True, isEnumerable = True, isObject = True\<rparr>
      | Some h \<Rightarrow>
          if rs_identifier ss h = ''unreal'' then
            case un_class un c of
              EventContext \<Rightarrow> Inr \<lparr>isPointer = False, isEnumerable = False, isObject = False\<rparr>
            | FunctionContext \<Rightarrow> Inr \<lparr>isPointer = False, isEnumerable = False, isObject = False\<rparr>
            | ActionContext \<Rightarrow> Inr \<lparr>isPointer = True, isEnumerable = True, isObject = False\<rparr>
            | ObjectContext \<Rightarrow> Inr \<lparr>isPointer = True, isEnumerable = True, isObject = True\<rparr>
            | LinkContext \<Rightarrow> Inr \<lparr>isPointer = True, isEnumerable = True, isObject = False\<rparr>
            | AbstractContext \<Rightarrow> Inr \<lparr>isPointer = True, isEnumerable = False, isObject = False\<rparr>
            | OtherContext \<Rightarrow> Inl (Rte ''Unknown context type'')
          else Inr \<lparr>isPointer = False, isEnumerable = False, isObject = False\<rparr>)"

definition dataTypeSupported :: "'c interface_dimension \<Rightarrow> bool" where
  "dataTypeSupported d \<longleftrightarrow> di_contextTypes d = [] \<or> length (di_contextTypes d) = 1"

definition dataType :: "('c, 'a, 'm) user_session \<Rightarrow> 'c interface_dimension \<Rightarrow> string result" where
  "dataType us d =
     (case di_contextTypes d of
        [] \<Rightarrow> Inr (''const '' @ di_canonicalType d @ ''&'')
      | [c] \<Rightarrow> Inr (''const '' @ fullInterfaceType us c @ ''*'')
      | _ \<Rightarrow> Inl (Rte ''Variants not supported in interface''))"

definition dataTypeFull :: "('c, 'a, 'm) user_session \<Rightarrow> 'c interface_dimension \<Rightarrow> string result" where
  "dataTypeFull us d =
     (case di_contextTypes d of
        [] \<Rightarrow> Inr (''const '' @ di_canonicalType d @ ''&'')
      | [c] \<Rightarrow> Inr (''const '' @ fullInterfaceType us c @ ''*'')
      | _ \<Rightarrow> Inl (Rte ''Variants not supported in interface''))"

section \<open>The interface\<close>

text \<open>The visitors ask for the instances of a context and look at the only one.\<close>

definition only_instance :: "('c, 'a, 'b, 'm) read_session \<Rightarrow> 'c \<Rightarrow> 'a option result" where
  "only_instance ss c =
     (case rs_instances ss c of
        [Some a] \<Rightarrow> Inr (Some a)
      | [None] \<Rightarrow> Inl (Ub ''pConcreteAction'')
      | _ \<Rightarrow> Inr None)"

definition pushIndent :: "string \<Rightarrow> string" where
  "pushIndent strIndent = strIndent @ ''  ''"

definition popIndent :: "string \<Rightarrow> string result" where
  "popIndent strIndent =
     (if length strIndent < 2 then Inl (Ub ''pop_back'') else Inr (take (length strIndent - 2) strIndent))"

definition StaticInterfaceVisitor_pushDimension ::
  "('c, 'a, 'b, 'm) read_session \<Rightarrow> ('c, 'a, 'm) user_session \<Rightarrow> ('c, 'a, 'm) unreal_session
   \<Rightarrow> string \<Rightarrow> 'c interface_dimension \<Rightarrow> string result" where
  \<open>StaticInterfaceVisitor_pushDimension ss us un strIndent d =
     (case di_parentContext d of
        None \<Rightarrow> Inl (Rte ''pContext'')
      | Some c \<Rightarrow>
          andThen (ContextType ss un c) (\<lambda>contextType.
            if isPointer contextType \<and> dataTypeSupported d
            then andThen (dataType us d) (\<lambda>ty. Inr (
            strIndent @ ''virtual '' @ ty @ '' '' @ di_identifier d @ ''() const = 0;\<newline>''))
            else Inr []))\<close>

definition struct_head ::
  "('c, 'a, 'b, 'm) read_session \<Rightarrow> ('c, 'a, 'm) user_session \<Rightarrow> ('c, 'a, 'm) unreal_session \<Rightarrow> string \<Rightarrow> context_type
   \<Rightarrow> 'c \<Rightarrow> string" where
  \<open>struct_head ss us un strIndent contextType c =
     (if rs_isLink ss c
      then
      strIndent @ ''struct '' @ interfaceName (rs_identifier ss c) @ '' : public IContext\<newline>'' @
      strIndent @ ''{\<newline>''
      else case un_baseContexts un c of
        b # bs \<Rightarrow> (let osBaseList = fullInterfaceType us b @ '' '' @ concat (map (\<lambda>b. '', '' @ fullInterfaceType us b @ '' '') bs) in
        strIndent @ ''struct '' @ interfaceName (rs_identifier ss c) @ '' : public '' @ osBaseList @
        ''\<newline>'' @ strIndent @ ''{\<newline>'')
      | [] \<Rightarrow>
          if isObject contextType
          then
          strIndent @ ''struct '' @ interfaceName (rs_identifier ss c) @ '' : public IObject\<newline>'' @
          strIndent @ ''{\<newline>''
          else
          strIndent @ ''struct '' @ interfaceName (rs_identifier ss c) @ '' : public IContext\<newline>'' @
          strIndent @ ''{\<newline>'')\<close>

definition StaticInterfaceVisitor_pushContext ::
  "('c, 'a, 'b, 'm) read_session \<Rightarrow> ('c, 'a, 'm) user_session \<Rightarrow> ('c, 'a, 'm) unreal_session
   \<Rightarrow> string \<Rightarrow> 'c \<Rightarrow> (string \<times> string) result" where
  \<open>StaticInterfaceVisitor_pushContext ss us un strIndent c =
     andThen (ContextType ss un c) (\<lambda>contextType.
     andThen
       (if isPointer contextType
        then andThen (only_instance ss c) (\<lambda>instance. Inr (
          struct_head ss us un strIndent contextType c @
          (if un_parentContext un c
           then
           strIndent @ ''  virtual const IContext* getParent() const = 0;\<newline>''
           else []) @
          (case instance of
             Some a \<Rightarrow>
             strIndent @ ''  static const std::size_t TOTAL = '' @ dec_nat (un_totalDomainSize un a) @
             '';\<newline>''
           | None \<Rightarrow> []) @
          concat (map (\<lambda>g. if c \<in> set (lg_interfaceTargets g)
            then
            strIndent @ ''  virtual const IContext* '' @ lg_linkName g @ ''() const = 0;\<newline>''
            else []) (un_linkGroups un))))
        else Inr [])
       (\<lambda>s. Inr (pushIndent strIndent, s)))\<close>

definition StaticInterfaceVisitor_popContext ::
  "('c, 'a, 'b, 'm) read_session \<Rightarrow> ('c, 'a, 'm) user_session \<Rightarrow> ('c, 'a, 'm) unreal_session
   \<Rightarrow> string \<Rightarrow> 'c \<Rightarrow> (string \<times> string) result" where
  \<open>StaticInterfaceVisitor_popContext ss us un strIndent' c =
     andThen (popIndent strIndent') (\<lambda>strIndent.
     andThen (ContextType ss un c) (\<lambda>contextType. Inr (strIndent,
       if isPointer contextType
       then
       strIndent @ ''};\<newline>''
         @ (if isEnumerable contextType \<and> un_grandparent un c
            then
            strIndent @ ''virtual const '' @ fullInterfaceType us c @ ''* '' @ rs_identifier ss c @
            ''( std::size_t iterator ) const = 0;\<newline>'' @ strIndent @ ''virtual std::size_t '' @
            rs_identifier ss c @ ''_begin() const = 0;\<newline>'' @ strIndent @ ''virtual std::size_t '' @
            rs_identifier ss c @ ''_next( std::size_t iterator ) const = 0;\<newline>''
            else [])
       else [])))\<close>

fun StaticInterfaceVisitor ::
  "('c, 'a, 'b, 'm) read_session \<Rightarrow> ('c, 'a, 'm) user_session \<Rightarrow> ('c, 'a, 'm) unreal_session
   \<Rightarrow> string \<Rightarrow> 'c visit list \<Rightarrow> (string \<times> string) result" where
  "StaticInterfaceVisitor ss us un strIndent [] = Inr (strIndent, [])"
| "StaticInterfaceVisitor ss us un strIndent (v # vs) =
     andThen
       (case v of
          PushContext c \<Rightarrow> StaticInterfaceVisitor_pushContext ss us un strIndent c
        | PushDimension d \<Rightarrow> andThen (StaticInterfaceVisitor_pushDimension ss us un strIndent d) (\<lambda>s. Inr (strIndent, s))
        | PopContext c \<Rightarrow> StaticInterfaceVisitor_popContext ss us un strIndent c
        | OtherVisit \<Rightarrow> Inr (strIndent, []))
       (\<lambda>(ind, s). andThen (StaticInterfaceVisitor ss us un ind vs) (\<lambda>(ind', r). Inr (ind', s @ r)))"

text \<open>The visitors that print one line for each context with one instance.\<close>

definition root_accessor ::
  "('c, 'a, 'b, 'm) read_session \<Rightarrow> ('c, 'a, 'm) unreal_session \<Rightarrow> ('c \<Rightarrow> 'a \<Rightarrow> string) \<Rightarrow> 'c visit \<Rightarrow> string result" where
  "root_accessor ss un text v =
     (case v of
        PushContext c \<Rightarrow>
          andThen (ContextType ss un c) (\<lambda>contextType.
            if isPointer contextType
            then andThen (only_instance ss c) (\<lambda>instance. Inr (case instance of Some a \<Rightarrow> text c a | None \<Rightarrow> []))
            else Inr [])
      | _ \<Rightarrow> Inr [])"

definition RootAccessorVisitor ::
  "('c, 'a, 'b, 'm) read_session \<Rightarrow> ('c, 'a, 'm) user_session \<Rightarrow> ('c, 'a, 'm) unreal_session
   \<Rightarrow> 'c visit list \<Rightarrow> string result" where
  \<open>RootAccessorVisitor ss us un = write_all (root_accessor ss un (\<lambda>c a.
     ''  virtual const Iter< '' @ fullInterfaceType us c @ '' > get_'' @ arrayName ss a @
     ''() const = 0;\<newline>''))\<close>

definition RootAccessorDeclVisitor ::
  "('c, 'a, 'b, 'm) read_session \<Rightarrow> ('c, 'a, 'm) user_session \<Rightarrow> ('c, 'a, 'm) unreal_session
   \<Rightarrow> 'c visit list \<Rightarrow> string result" where
  \<open>RootAccessorDeclVisitor ss us un = write_all (root_accessor ss un (\<lambda>c a.
     ''  const Iter< '' @ fullInterfaceType us c @ '' > get_'' @ arrayName ss a @ ''() const;\<newline>''))\<close>

definition RootAccessorImplVisitor ::
  "('c, 'a, 'b, 'm) read_session \<Rightarrow> ('c, 'a, 'm) user_session \<Rightarrow> ('c, 'a, 'm) unreal_session
   \<Rightarrow> 'c visit list \<Rightarrow> string result" where
  \<open>RootAccessorImplVisitor ss us un = write_all (root_accessor ss un (\<lambda>c a.
     ''const Iter< '' @ fullInterfaceType us c @ '' > Croot::get_'' @ arrayName ss a @
     ''() const { return Iter< '' @ fullInterfaceType us c @ '' >( &'' @ arrayName ss a @ ''[ 0U ], sizeof( '' @
     implName ss a @ '' ) ); }\<newline>''))\<close>

text \<open>The tree of the interface has one child, a root.\<close>

definition actual_root :: "('c, 'a, 'b, 'm) read_session \<Rightarrow> 'c result" where
  "actual_root ss =
     (case rs_interfaceTree ss of
        [IContext c _] \<Rightarrow> (if rs_rootType ss c = None then Inl (Ub ''pActualRoot'') else Inr c)
      | [IOther] \<Rightarrow> Inl (Ub ''pActualRoot'')
      | _ \<Rightarrow> Inl (Rte ''getChildren''))"

definition generateUnrealInterface ::
  "('c, 'a, 'b, 'm) read_session \<Rightarrow> ('c, 'a, 'm) user_session \<Rightarrow> ('c, 'a, 'm) unreal_session \<Rightarrow> string result" where
  \<open>generateUnrealInterface ss us un =
     andThen (actual_root ss) (\<lambda>root.
     andThen (StaticInterfaceVisitor ss us un (pushIndent []) (un_visits un root)) (\<lambda>(_, interfaces).
     andThen (RootAccessorVisitor ss us un (un_visits un root)) (\<lambda>accessors. Inr (
     ''#ifndef UNREAL_INTERFACE\<newline>'' @ ''#define UNREAL_INTERFACE\<newline>'' @ ''\<newline>'' @
     ''\<newline>'' @ ''template< typename T >\<newline>'' @ ''class Iter\<newline>'' @ ''{\<newline>'' @
     ''  const char* m_pBase;\<newline>'' @ ''  std::size_t m_szStride;\<newline>'' @ ''public:\<newline>'' @
     ''  Iter( const void* pBase, std::size_t szStride )\<newline>'' @
     ''      :   m_pBase( reinterpret_cast< const char* >( pBase ) ),\<newline>'' @
     ''          m_szStride( szStride )\<newline>'' @ ''  {\<newline>'' @ ''  }\<newline>'' @
     ''  inline const T* get() const { return reinterpret_cast< const T* >( m_pBase ); }\<newline>'' @
     ''  inline void inc()\<newline>'' @ ''  {\<newline>'' @ ''      m_pBase += m_szStride;\<newline>'' @
     ''  }\<newline>'' @ ''};\<newline>'' @ ''\<newline>'' @ ''struct IContext\<newline>'' @ ''{\<newline>'' @
     ''    virtual ~IContext();\<newline>'' @ ''    enum ContextState : char\<newline>'' @ ''    {\<newline>'' @
     ''        eOff,\<newline>'' @ ''        eRunning,\<newline>'' @ ''        eStopping,\<newline>'' @
     ''        eSuspended\<newline>'' @ ''    };\<newline>'' @
     ''    virtual std::size_t getInstance() const = 0;\<newline>'' @
     ''    virtual ContextState getState() const = 0;\<newline>'' @ ''};\<newline>'' @
     ''struct IObject : public IContext\<newline>'' @ ''{\<newline>'' @ ''};\<newline>'' @ ''\<newline>'' @
     ''//Object Interface\<newline>'' @ ''struct Iroot : public IObject\<newline>'' @ ''{\<newline>'' @
     ''  static const std::size_t TOTAL = 1;\<newline>''
       @ interfaces @ accessors @
       ''};\<newline>'' @ ''\<newline>'' @ ''#endif //UNREAL_INTERFACE\<newline>''))))\<close>

section \<open>The classes of the implementation\<close>

definition dimension_declaration ::
  "('c, 'a, 'm) user_session \<Rightarrow> 'c interface_dimension \<Rightarrow> bool \<Rightarrow> string result" where
  \<open>dimension_declaration us d linked =
     (if linked \<or> dataTypeSupported d
      then andThen (dataTypeFull us d) (\<lambda>ty. Inr (
      ''  '' @ ty @ '' '' @ di_identifier d @ ''() const;\<newline>''))
      else Inr [])\<close>

definition child_declaration ::
  "('c, 'a, 'b, 'm) read_session \<Rightarrow> ('c, 'a, 'm) user_session \<Rightarrow> ('c, 'a, 'm) unreal_session \<Rightarrow> 'a \<Rightarrow> string result" where
  \<open>child_declaration ss us un child =
     (let c = rs_actionContext ss child in
      andThen (ContextType ss un c) (\<lambda>contextType.
        if isEnumerable contextType \<and> un_parent un c
        then Inr (
        ''  const '' @ fullInterfaceType us c @ ''* '' @ rs_identifier ss c @
        ''( std::size_t iterator ) const;\<newline>'' @ ''  std::size_t '' @ rs_identifier ss c @
        ''_begin() const;\<newline>'' @ ''  std::size_t '' @ rs_identifier ss c @
        ''_next( std::size_t iterator ) const;\<newline>'')
        else Inr []))\<close>

definition implementation_struct ::
  "('c, 'a, 'b, 'm) read_session \<Rightarrow> ('c, 'a, 'm) user_session \<Rightarrow> ('c, 'a, 'm) unreal_session
   \<Rightarrow> 'a \<Rightarrow> ('a, 'm) celement list \<Rightarrow> string result" where
  \<open>implementation_struct ss us un a es =
     (let c = rs_actionContext ss a in
      if rs_actionParent ss a
      then
        andThen (write_all (\<lambda>e. case e of
            CDimension _ m _ \<Rightarrow> (case un_userDimension un m of
                Some (d, linked) \<Rightarrow> dimension_declaration us d linked
              | None \<Rightarrow> Inr [])
          | CAction child _ \<Rightarrow> child_declaration ss us un child
          | COther \<Rightarrow> Inr []) es) (\<lambda>members.
        andThen (if fullInterfaceType us c = ''Iroot'' then RootAccessorDeclVisitor ss us un (un_visits un c) else Inr []) (\<lambda>accessors.
        Inr (
        ''struct '' @ implName ss a @ '' : public '' @ fullInterfaceType us c @ ''\<newline>'' @ ''{\<newline>'' @
        ''  '' @ implName ss a @ ''(){}\<newline>'' @ ''  eg::TypeInstance ref;\<newline>'' @
        ''  std::size_t getInstance() const { return ref.instance; };\<newline>''
          @ (if un_parentContext un c
             then
             ''  const IContext* getParent() const;\<newline>''
             else []) @
             ''  ContextState getState() const\<newline>'' @ ''  {\<newline>'' @ ''      switch( ::getState< '' @
             rs_staticType ss c @ '' >( ref.type, ref.instance ) )\<newline>'' @ ''      {\<newline>'' @
             ''          case eg::action_stopped :\<newline>'' @ ''              if( ::getStopCycle< '' @
             rs_staticType ss c @ '' >( ref.type, ref.instance ) == clock::cycle( ref.type ) )\<newline>'' @
             ''                  return eStopping;\<newline>'' @ ''              else\<newline>'' @
             ''                  return eOff;\<newline>'' @
             ''          case eg::action_running : return eRunning;\<newline>'' @
             ''          case eg::action_paused  : return eSuspended;\<newline>'' @
             ''          case eg::TOTAL_ACTION_STATES  : return eOff;\<newline>'' @ ''      }\<newline>'' @
             ''  }\<newline>''
          @ concat (map (\<lambda>(name, _).
          ''  virtual const IContext* '' @ name @ ''() const;\<newline>'') (un_links un a))
          @ members @ accessors @
          ''};\<newline>'')))
      else Inr [])\<close>

fun implementation_structs ::
  "('c, 'a, 'b, 'm) read_session \<Rightarrow> ('c, 'a, 'm) user_session \<Rightarrow> ('c, 'a, 'm) unreal_session
   \<Rightarrow> ('a, 'm) celement list \<Rightarrow> string result" where
  "implementation_structs ss us un [] = Inr []"
| "implementation_structs ss us un (CAction child cs # es) =
     andThen (ContextType ss un (rs_actionContext ss child)) (\<lambda>contextType.
     andThen
       (if isPointer contextType
        then andThen (implementation_struct ss us un child cs) (\<lambda>s.
             andThen (implementation_structs ss us un cs) (\<lambda>r. Inr (s @ r)))
        else Inr []) (\<lambda>s.
     andThen (implementation_structs ss us un es) (\<lambda>r. Inr (s @ r))))"
| "implementation_structs ss us un (e # es) = implementation_structs ss us un es"

definition generateImplementationDeclarations ::
  "('c, 'a, 'b, 'm) read_session \<Rightarrow> ('c, 'a, 'm) user_session \<Rightarrow> ('c, 'a, 'm) unreal_session
   \<Rightarrow> 'a \<Rightarrow> ('a, 'm) celement list \<Rightarrow> string result" where
  "generateImplementationDeclarations ss us un a es =
     andThen (implementation_struct ss us un a es) (\<lambda>s.
     andThen (implementation_structs ss us un es) (\<lambda>r. Inr (s @ r)))"

definition allocation_line :: "('c, 'a, 'b, 'm) read_session \<Rightarrow> ('c, 'a, 'm) unreal_session \<Rightarrow> 'a \<Rightarrow> string result" where
  \<open>allocation_line ss un a =
     andThen (verify_rte (rs_actionParent ss a) ''getParent'') (\<lambda>_. Inr (
     ''const InterfaceArray< '' @ implName ss a @ '', '' @ dec_nat (un_totalDomainSize un a) @ '', '' @
     dec (rs_actionIndex ss a) @ '' > '' @ arrayName ss a @ '';\<newline>''))\<close>

fun allocation_lines ::
  "('c, 'a, 'b, 'm) read_session \<Rightarrow> ('c, 'a, 'm) unreal_session \<Rightarrow> ('a, 'm) celement list \<Rightarrow> string result" where
  "allocation_lines ss un [] = Inr []"
| "allocation_lines ss un (CAction child cs # es) =
     andThen (ContextType ss un (rs_actionContext ss child)) (\<lambda>contextType.
     andThen
       (if isEnumerable contextType
        then andThen (allocation_line ss un child) (\<lambda>s. andThen (allocation_lines ss un cs) (\<lambda>r. Inr (s @ r)))
        else Inr []) (\<lambda>s.
     andThen (allocation_lines ss un es) (\<lambda>r. Inr (s @ r))))"
| "allocation_lines ss un (e # es) = allocation_lines ss un es"

definition generateAllocations ::
  "('c, 'a, 'b, 'm) read_session \<Rightarrow> ('c, 'a, 'm) unreal_session \<Rightarrow> 'a \<Rightarrow> ('a, 'm) celement list \<Rightarrow> string result" where
  "generateAllocations ss un a es =
     andThen (allocation_line ss un a) (\<lambda>s. andThen (allocation_lines ss un es) (\<lambda>r. Inr (s @ r)))"

section \<open>The member functions\<close>

definition parent_definition ::
  "('c, 'a, 'b, 'm) read_session \<Rightarrow> ('c, 'a, 'm) user_session \<Rightarrow> 'a \<Rightarrow> string" where
  \<open>parent_definition ss us a =
     (case rs_actionChain ss a of
        _ # parent # _ \<Rightarrow>
          if arrayName ss parent = ''u_''
          then
          ''const IContext* '' @ implName ss a @ ''::getParent() const { return nullptr; }\<newline>''
          else
          ''const IContext* '' @ implName ss a @ ''::getParent() const { return &'' @ arrayName ss parent @
          ''[ ref.instance / '' @ dec_nat (us_localDomainSize us a) @ '' ]; }\<newline>''
      | _ \<Rightarrow> [])\<close>

text \<open>A switch over the types that a reference may have, which gives the object for the instance.\<close>

definition link_definition ::
  "('c, 'a, 'b, 'm) read_session \<Rightarrow> ('a, 'b) network_analysis \<Rightarrow> 'a \<Rightarrow> string \<times> 'm \<times> ('c, 'a) link_group option \<Rightarrow> string result" where
  \<open>link_definition ss na a link =
     (let (name, m, group) = link in
      case group of
        None \<Rightarrow> Inl (Rte ''pLinkGroup'')
      | Some g \<Rightarrow>
          andThen (MegastructureReader_print ss na m ''ref.instance'') (\<lambda>rd. Inr (
          ''const IContext* '' @ implName ss a @ ''::'' @ name @ ''() const\<newline>'' @ ''{\<newline>'' @
          ''  const auto& backLinkRef = '' @ rd @ '';\<newline>'' @ ''  switch( backLinkRef.type )\<newline>'' @
          ''  {\<newline>''
            @ concat (map (\<lambda>t.
            ''    case '' @ dec (rs_actionIndex ss t) @ '': return &'' @ arrayName ss t @
            ''[ backLinkRef.instance ];\<newline>'') (lg_concreteLinks g)) @
            ''    default: return nullptr;\<newline>'' @ ''  }\<newline>'' @ ''}\<newline>'')))\<close>

definition linked_dimension_definition ::
  "('c, 'a, 'b, 'm) read_session \<Rightarrow> ('c, 'a, 'm) user_session \<Rightarrow> ('c, 'a, 'm) unreal_session \<Rightarrow> ('a, 'b) network_analysis
   \<Rightarrow> 'a \<Rightarrow> 'm \<Rightarrow> 'c interface_dimension \<Rightarrow> string result" where
  \<open>linked_dimension_definition ss us un na a m d =
     andThen (dataTypeFull us d) (\<lambda>ty.
     andThen (MegastructureReader_print ss na m ''ref.instance'') (\<lambda>rd.
       case di_contextTypes d of
         [pLinkTargetType] \<Rightarrow> Inr (
         ty @ '' '' @ implName ss a @ ''::'' @ di_identifier d @ ''() const\<newline>'' @ ''{\<newline>'' @
         ''  const auto& linkRef = '' @ rd @ '';\<newline>'' @ ''  switch( linkRef.data.type )\<newline>'' @
         ''  {\<newline>''
           @ concat (map (\<lambda>t.
           ''      case '' @ dec (rs_actionIndex ss t) @ '': return &'' @ arrayName ss t @
           ''[ linkRef.data.instance ];\<newline>'') (un_compatible un pLinkTargetType)) @
           ''      default: return nullptr;\<newline>'' @ ''  }\<newline>'' @ ''}\<newline>'')
       | _ \<Rightarrow> Inl (Rte ''pLinkTargetType'')))\<close>

definition dimension_definition ::
  "('c, 'a, 'b, 'm) read_session \<Rightarrow> ('c, 'a, 'm) user_session \<Rightarrow> ('c, 'a, 'm) unreal_session \<Rightarrow> ('a, 'b) network_analysis
   \<Rightarrow> 'a \<Rightarrow> 'm \<Rightarrow> 'c interface_dimension \<Rightarrow> string result" where
  \<open>dimension_definition ss us un na a m d =
     (case di_contextTypes d of
        [] \<Rightarrow>
          andThen (dataTypeFull us d) (\<lambda>ty.
          andThen (MegastructureReader_print ss na m ''ref.instance'') (\<lambda>rd. Inr (
          ty @ '' '' @ implName ss a @ ''::'' @ di_identifier d @ ''() const { return '' @ rd @
          ''; }\<newline>'')))
      | [target] \<Rightarrow>
          andThen (MegastructureReader_print ss na m ''ref.instance'') (\<lambda>rd. Inr (
          ''const '' @ fullInterfaceType us target @ ''* '' @ implName ss a @ ''::'' @ di_identifier d @
          ''() const\<newline>'' @ ''{\<newline>'' @ ''  const eg::reference& r = '' @ rd @ ''.data;\<newline>'' @
          ''  switch( r.type )\<newline>'' @ ''  {\<newline>''
            @ concat (map (\<lambda>t.
            ''    case '' @ dec (rs_actionIndex ss t) @ '': return &'' @ arrayName ss t @
            ''[ r.instance ];\<newline>'') (un_compatible un target)) @
            ''    default: return nullptr;\<newline>'' @ ''  }\<newline>'' @ ''}\<newline>''))
      | _ \<Rightarrow> Inr [])\<close>

definition child_definition ::
  "('c, 'a, 'b, 'm) read_session \<Rightarrow> ('c, 'a, 'm) user_session \<Rightarrow> ('c, 'a, 'm) unreal_session \<Rightarrow> 'a \<Rightarrow> 'a \<Rightarrow> string result" where
  \<open>child_definition ss us un a child =
     (let c = rs_actionContext ss child in
      andThen (ContextType ss un c) (\<lambda>contextType.
        if isEnumerable contextType
        then Inr (
        ''const '' @ fullInterfaceType us c @ ''* '' @ implName ss a @ ''::'' @ rs_identifier ss c @
        ''( std::size_t iterator ) const\<newline>'' @ ''{\<newline>'' @
        ''    const std::size_t _end = ( ref.instance + 1 ) * '' @ dec_nat (us_localDomainSize us child) @
        '';\<newline>'' @ ''    return ( iterator != _end ) ? &'' @ arrayName ss child @
        ''[ iterator ] : nullptr;\<newline>'' @ ''}\<newline>''
          @
          ''std::size_t '' @ implName ss a @ ''::'' @ rs_identifier ss c @ ''_begin() const\<newline>'' @
          ''{\<newline>'' @ ''    const std::size_t _end = ( ref.instance + 1 ) * '' @
          dec_nat (us_localDomainSize us child) @ '';\<newline>'' @
          ''    std::size_t iterator = ref.instance * '' @ dec_nat (us_localDomainSize us child) @
          '';\<newline>'' @ ''    for( ; iterator != _end; ++iterator )\<newline>'' @ ''    {\<newline>'' @
          ''        if( isActionActive< '' @ rs_staticType ss c @ '' >( '' @ dec (rs_actionIndex ss child) @
          '', iterator )  )\<newline>'' @ ''            break;\<newline>'' @ ''    }\<newline>'' @
          ''    return iterator;\<newline>'' @ ''}\<newline>''
          @
          ''std::size_t '' @ implName ss a @ ''::'' @ rs_identifier ss c @
          ''_next( std::size_t iterator ) const\<newline>'' @ ''{\<newline>'' @
          ''    const std::size_t _end = ( ref.instance + 1 ) * '' @ dec_nat (us_localDomainSize us child) @
          '';\<newline>'' @ ''    for( ; iterator != _end;  )\<newline>'' @ ''    {\<newline>'' @
          ''        ++iterator;\<newline>'' @ ''        if( isActionActive< '' @ rs_staticType ss c @ '' >( '' @
          dec (rs_actionIndex ss child) @ '', iterator )  )\<newline>'' @ ''            break;\<newline>'' @
          ''    }\<newline>'' @ ''    return iterator;\<newline>'' @ ''}\<newline>'')
        else Inr []))\<close>

definition implementation_functions ::
  "('c, 'a, 'b, 'm) read_session \<Rightarrow> ('c, 'a, 'm) user_session \<Rightarrow> ('c, 'a, 'm) unreal_session \<Rightarrow> ('a, 'b) network_analysis
   \<Rightarrow> 'a \<Rightarrow> ('a, 'm) celement list \<Rightarrow> string result" where
  "implementation_functions ss us un na a es =
     (if rs_actionParent ss a
      then
        andThen (write_all (link_definition ss na a) (un_links un a)) (\<lambda>links.
        andThen (write_all (\<lambda>e. case e of
            CDimension _ m _ \<Rightarrow> (case un_userDimension un m of
                Some (d, True) \<Rightarrow> linked_dimension_definition ss us un na a m d
              | Some (d, False) \<Rightarrow> dimension_definition ss us un na a m d
              | None \<Rightarrow> Inr [])
          | CAction child _ \<Rightarrow> child_definition ss us un a child
          | COther \<Rightarrow> Inr []) es) (\<lambda>members. Inr (parent_definition ss us a @ links @ members)))
      else Inr [])"

fun implementation_functions_below ::
  "('c, 'a, 'b, 'm) read_session \<Rightarrow> ('c, 'a, 'm) user_session \<Rightarrow> ('c, 'a, 'm) unreal_session \<Rightarrow> ('a, 'b) network_analysis
   \<Rightarrow> ('a, 'm) celement list \<Rightarrow> string result" where
  "implementation_functions_below ss us un na [] = Inr []"
| "implementation_functions_below ss us un na (CAction child cs # es) =
     andThen (ContextType ss un (rs_actionContext ss child)) (\<lambda>contextType.
     andThen
       (if isPointer contextType
        then andThen (implementation_functions ss us un na child cs) (\<lambda>s.
             andThen (implementation_functions_below ss us un na cs) (\<lambda>r. Inr (s @ r)))
        else Inr []) (\<lambda>s.
     andThen (implementation_functions_below ss us un na es) (\<lambda>r. Inr (s @ r))))"
| "implementation_functions_below ss us un na (e # es) = implementation_functions_below ss us un na es"

definition generateImplementationDefinitions ::
  "('c, 'a, 'b, 'm) read_session \<Rightarrow> ('c, 'a, 'm) user_session \<Rightarrow> ('c, 'a, 'm) unreal_session \<Rightarrow> ('a, 'b) network_analysis
   \<Rightarrow> 'a \<Rightarrow> ('a, 'm) celement list \<Rightarrow> string result" where
  "generateImplementationDefinitions ss us un na a es =
     andThen (implementation_functions ss us un na a es) (\<lambda>s.
     andThen (implementation_functions_below ss us un na es) (\<lambda>r. Inr (s @ r)))"

section \<open>The source\<close>

definition generateUnrealCode ::
  "project_tree \<Rightarrow> ('c, 'a, 'b, 'm) read_session \<Rightarrow> ('c, 'a, 'm) user_session \<Rightarrow> ('c, 'a, 'm) unreal_session
   \<Rightarrow> ('a, 'b) network_analysis \<Rightarrow> string result" where
  \<open>generateUnrealCode t ss us un na =
     andThen (getNetStateSourceInclude t) (\<lambda>netstate.
     andThen (getUnrealInterfaceInclude t) (\<lambda>interface.
     andThen (verify_rte (\<not> rs_actionParent ss (rs_instanceRoot ss)) ''getParent'') (\<lambda>_.
     andThen (verify_rte (length (rs_instanceTree ss) = 1) ''getChildren'') (\<lambda>_.
       case rs_instanceTree ss of
         [CAction a es] \<Rightarrow>
           andThen (generateImplementationDeclarations ss us un a es) (\<lambda>declarations.
           andThen (generateAllocations ss un a es) (\<lambda>allocations.
           andThen (generateImplementationDefinitions ss us un na a es) (\<lambda>definitions.
           andThen (actual_root ss) (\<lambda>root.
           andThen (RootAccessorImplVisitor ss us un (un_visits un root)) (\<lambda>accessors. Inr (
           ''#include "unreal/unreal.hpp"\<newline>'' @ ''#include "'' @ getStructuresInclude @ ''"\<newline>'' @
           ''#include "'' @ netstate @ ''"\<newline>'' @ ''#include "'' @ interface @ ''"\<newline>'' @
           ''\<newline>''
             @ declarations @
             ''\<newline>'' @ ''using R = eg::TypeInstance;\<newline>'' @ ''IContext::~IContext(){}\<newline>'' @
             ''template< typename T, eg::Instance Size, eg::TypeID Index >\<newline>'' @
             ''struct InterfaceArray\<newline>'' @ ''{\<newline>'' @
             ''    std::array< T, Size > data;\<newline>'' @ ''    InterfaceArray()\<newline>'' @
             ''    {\<newline>'' @ ''          for( eg::Instance sz = 0U; sz != Size; ++sz )\<newline>'' @
             ''          {\<newline>'' @
             ''              data[ sz ].ref = eg::TypeInstance{ sz, Index };\<newline>'' @
             ''          }\<newline>'' @ ''    }\<newline>'' @
             ''    const T& operator[]( std::size_t sz )const { return data[ sz ]; }\<newline>'' @
             ''};\<newline>''
             @ allocations @ definitions @ accessors @
             ''\<newline>'' @ ''void* getUnrealRoot()\<newline>'' @ ''{\<newline>'' @
             ''    return const_cast< void* >( reinterpret_cast< const void* >( &'' @ arrayName ss a @
             ''[ 0 ] ) );\<newline>'' @ ''}\<newline>''))))))
       | _ \<Rightarrow> Inl (Ub ''pActualRoot'')))))\<close>

end
