(* ===== verification/Unreal_Navigation.thy ===== *)
theory Unreal_Navigation
  imports Unreal_Generator
begin

text \<open>
  What the generated classes of \<open>src/src/generators/unreal_generator.cpp\<close> do: the functions with which Unreal goes
  through the active instances of a child of a context, and back to the context.  Instances are 32 bits wide, the
  iterators are \<open>std::size_t\<close>.
\<close>

type_synonym size = "64 word"

section \<open>The member functions\<close>

text \<open>\<open>D\<close> is the number of instances of the child in one of its parent, a literal of the source.\<close>

definition child_end :: "u32 \<Rightarrow> nat \<Rightarrow> size" where
  "child_end ref D = ucast ((ref + 1) * of_nat D)"

definition child_at :: "u32 \<Rightarrow> nat \<Rightarrow> size \<Rightarrow> size option" where
  "child_at ref D iterator = (if iterator \<noteq> child_end ref D then Some iterator else None)"

text \<open>\<open>active\<close> is \<open>isActionActive\<close> of the child for an instance, which a generated accessor reads from the buffer.\<close>

function begin_loop :: "(u32 \<Rightarrow> bool result) \<Rightarrow> size \<Rightarrow> size \<Rightarrow> size result" where
  "begin_loop active e iterator =
     (if iterator = e then Inr iterator
      else andThen (active (ucast iterator)) (\<lambda>b. if b then Inr iterator else begin_loop active e (iterator + 1)))"
  by pat_completeness auto

function next_loop :: "(u32 \<Rightarrow> bool result) \<Rightarrow> size \<Rightarrow> size \<Rightarrow> size result" where
  "next_loop active e iterator =
     (if iterator = e then Inr iterator
      else andThen (active (ucast (iterator + 1))) (\<lambda>b.
        if b then Inr (iterator + 1) else next_loop active e (iterator + 1)))"
  by pat_completeness auto

text \<open>The loops end: the iterator wraps around, so each step brings it nearer to the end.\<close>

lemma nearer: "iterator \<noteq> e \<Longrightarrow> unat (e - (iterator + 1)) < unat (e - iterator)" for iterator e :: size
proof -
  assume "iterator \<noteq> e"
  then have "e - iterator \<noteq> 0" by simp
  moreover have "e - (iterator + 1) = e - iterator - 1" by simp
  ultimately show ?thesis by (metis unat_minus_one diff_less less_numeral_extra(1) unat_gt_0)
qed

termination begin_loop
  by (relation "measure (\<lambda>(_, e, iterator). unat (e - iterator))") (simp_all add: nearer)

termination next_loop
  by (relation "measure (\<lambda>(_, e, iterator). unat (e - iterator))") (simp_all add: nearer)

declare begin_loop.simps [simp del] next_loop.simps [simp del]

definition child_begin :: "(u32 \<Rightarrow> bool result) \<Rightarrow> u32 \<Rightarrow> nat \<Rightarrow> size result" where
  "child_begin active ref D = begin_loop active (child_end ref D) (ucast (ref * of_nat D))"

definition child_next :: "(u32 \<Rightarrow> bool result) \<Rightarrow> u32 \<Rightarrow> nat \<Rightarrow> size \<Rightarrow> size result" where
  "child_next active ref D iterator = next_loop active (child_end ref D) iterator"

text \<open>The instance of the parent of an instance; \<open>D\<close> is not zero for an action that has instances.\<close>

definition child_parent :: "nat \<Rightarrow> u32 \<Rightarrow> u32" where
  "child_parent D inst = inst div of_nat D"

section \<open>The instances that a client sees\<close>

text \<open>A client calls \<open>begin\<close> and then \<open>next\<close> until there is no object.  More rounds than instances are an error.\<close>

fun visit_children :: "nat \<Rightarrow> (u32 \<Rightarrow> bool result) \<Rightarrow> u32 \<Rightarrow> nat \<Rightarrow> size \<Rightarrow> u32 list result" where
  "visit_children 0 active ref D iterator = Inl (Rte ''more rounds than instances'')"
| "visit_children (Suc n) active ref D iterator =
     (case child_at ref D iterator of
        None \<Rightarrow> Inr []
      | Some i \<Rightarrow>
          andThen (child_next active ref D iterator) (\<lambda>iterator'.
          andThen (visit_children n active ref D iterator') (\<lambda>is. Inr (ucast i # is))))"

definition children_seen :: "(u32 \<Rightarrow> bool result) \<Rightarrow> u32 \<Rightarrow> nat \<Rightarrow> u32 list result" where
  "children_seen active ref D = andThen (child_begin active ref D) (visit_children (Suc D) active ref D)"

lemma word_of_nat_inject: "m < 2 ^ 32 \<Longrightarrow> n < 2 ^ 32 \<Longrightarrow> (of_nat m :: size) = of_nat n \<longleftrightarrow> m = n"
  by (subst word_of_nat_eq_iff) (simp add: take_bit_nat_eq_self)

lemma instance_of_size: "(ucast (of_nat n :: size) :: u32) = of_nat n"
  by (rule bit_word_eqI) (simp add: bit_simps)

lemma size_of_instance: "n < 2 ^ 32 \<Longrightarrow> (ucast (of_nat n :: u32) :: size) = of_nat n"
  by (simp add: unsigned_of_nat take_bit_nat_eq_self)

lemma child_end_nat:
  assumes "(unat ref + 1) * D < 2 ^ 32"
  shows "child_end ref D = of_nat ((unat ref + 1) * D)"
proof -
  have "(ref + 1) * of_nat D = of_nat ((unat ref + 1) * D)" by (simp add: distrib_right)
  then show ?thesis using size_of_instance [OF assms] by (simp add: child_end_def)
qed

section \<open>The loops\<close>

text \<open>The instances of a range that are active, as numbers.\<close>

lemma begin_loop_first:
  assumes "n \<le> e" "\<And>i. n \<le> i \<Longrightarrow> i < e \<Longrightarrow> active (of_nat i) = Inr (act i)" "e < 2 ^ 32"
  shows "begin_loop active (of_nat e) (of_nat n) =
    Inr (of_nat (case filter act [n..<e] of [] \<Rightarrow> e | i # _ \<Rightarrow> i))"
  using assms
proof (induction "e - n" arbitrary: n)
  case 0
  then show ?case by (subst begin_loop.simps) simp
next
  case (Suc k)
  then have n: "n < e" and "n < 2 ^ 32" by simp_all
  then have ne: "(of_nat n :: size) \<noteq> of_nat e" using word_of_nat_inject Suc.prems(3) by blast
  have "begin_loop active (of_nat e) (of_nat (Suc n)) =
    Inr (of_nat (case filter act [Suc n..<e] of [] \<Rightarrow> e | i # _ \<Rightarrow> i))"
    using Suc n by (intro Suc.hyps(1)) simp_all
  then show ?case
    using n ne Suc.prems(2) [of n]
    by (subst begin_loop.simps) (simp add: instance_of_size upt_conv_Cons add.commute del: upt_Suc)
qed

lemma next_loop_next:
  assumes "n < e" "\<And>i. n < i \<Longrightarrow> i < e \<Longrightarrow> active (of_nat i) = Inr (act i)" "e < 2 ^ 32"
  shows "next_loop active (of_nat e) (of_nat n) =
    (case filter act [Suc n..<e] of [] \<Rightarrow> andThen (active (of_nat e)) (\<lambda>_. Inr (of_nat e)) | i # _ \<Rightarrow> Inr (of_nat i))"
  using assms
proof (induction "e - n" arbitrary: n)
  case (Suc k)
  have ne: "(of_nat n :: size) \<noteq> of_nat e" using word_of_nat_inject [of n e] Suc.prems by simp
  show ?case
  proof (cases "Suc n = e")
    case True
    then have "(of_nat n :: size) + 1 = of_nat e" by (metis add.commute of_nat_Suc)
    then show ?thesis
      using True ne instance_of_size [of e]
      by (subst next_loop.simps) (auto simp: andThen_def next_loop.simps [of _ "of_nat e" "of_nat e"] split: sum.split)
  next
    case False
    then have n: "Suc n < e" using Suc.prems by simp
    have "next_loop active (of_nat e) (of_nat (Suc n)) =
      (case filter act [Suc (Suc n)..<e] of [] \<Rightarrow> andThen (active (of_nat e)) (\<lambda>_. Inr (of_nat e)) | i # _ \<Rightarrow> Inr (of_nat i))"
      using Suc n by (intro Suc.hyps(1)) simp_all
    moreover have "(of_nat n :: size) + 1 = of_nat (Suc n)" by simp
    ultimately show ?thesis
      using n ne Suc.prems(2) [of "Suc n"] instance_of_size [of "Suc n"]
      by (subst next_loop.simps) (simp add: upt_conv_Cons del: upt_Suc of_nat_Suc)
  qed
qed simp

section \<open>The iteration\<close>

lemma filter_upt_Cons:
  "filter P [m..<e] = i # is \<Longrightarrow> m \<le> i \<and> i < e \<and> P i \<and> filter P [Suc i..<e] = is"
proof (induction "e - m" arbitrary: m)
  case (Suc k)
  then have m: "[m..<e] = m # [Suc m..<e]" by (simp add: upt_conv_Cons)
  show ?case
  proof (cases "P m")
    case True
    then show ?thesis using Suc by (auto simp: m)
  next
    case False
    then have "Suc m \<le> i \<and> i < e \<and> P i \<and> filter P [Suc i..<e] = is"
      using Suc.hyps(2) Suc.prems by (intro Suc.hyps(1)) (simp_all add: m)
    then show ?thesis by simp
  qed
qed simp

lemma visit_children_active:
  assumes e: "e = (unat ref + 1) * D" "e < 2 ^ 32"
  shows "n < e \<Longrightarrow> (\<And>i. n < i \<Longrightarrow> i < e \<Longrightarrow> active (of_nat i) = Inr (act i)) \<Longrightarrow>
    filter act [Suc n..<e] = is \<Longrightarrow> length is + 2 \<le> fuel \<Longrightarrow>
    visit_children fuel active ref D (of_nat n) = andThen (active (of_nat e)) (\<lambda>_. Inr (map of_nat (n # is)))"
proof (induction "is" arbitrary: n fuel)
  case Nil
  obtain k where fuel: "fuel = Suc (Suc k)" using Nil.prems(4) by (metis add_2_eq_Suc' le_Suc_ex add_Suc)
  have last: "child_end ref D = of_nat e" using child_end_nat e by simp
  have at: "child_at ref D (of_nat n) = Some (of_nat n)" "child_at ref D (of_nat e) = None"
    using word_of_nat_inject [of n e] Nil.prems(1) e(2) by (simp_all add: child_at_def last)
  have "child_next active ref D (of_nat n) = andThen (active (of_nat e)) (\<lambda>_. Inr (of_nat e))"
    using next_loop_next [where active = active and act = act, OF Nil.prems(1,2) e(2)] Nil.prems(3) by (simp add: child_next_def last)
  then show ?case by (cases "active (of_nat e)") (simp_all add: fuel at instance_of_size)
next
  case (Cons i "is")
  then obtain k where fuel: "fuel = Suc k" by (cases fuel) auto
  have i: "n < i" "i < e" "filter act [Suc i..<e] = is" using filter_upt_Cons [OF Cons.prems(3)] by simp_all
  have last: "child_end ref D = of_nat e" using child_end_nat e by simp
  have at: "child_at ref D (of_nat n) = Some (of_nat n)"
    using word_of_nat_inject [of n e] Cons.prems(1) e(2) by (simp add: child_at_def last)
  have "child_next active ref D (of_nat n) = Inr (of_nat i)"
    using next_loop_next [where active = active and act = act, OF Cons.prems(1,2) e(2)] Cons.prems(3) by (simp add: child_next_def last)
  moreover have "visit_children k active ref D (of_nat i) = andThen (active (of_nat e)) (\<lambda>_. Inr (map of_nat (i # is)))"
    using Cons i fuel by (intro Cons.IH) simp_all
  ultimately show ?case by (cases "active (of_nat e)") (simp_all add: fuel at instance_of_size)
qed

lemma parent_of_child:
  assumes "unat ref * D \<le> i" "i < (unat ref + 1) * D" "(unat ref + 1) * D < 2 ^ 32"
  shows "child_parent D (of_nat i) = ref"
proof -
  have "D \<noteq> 0" using assms by auto
  moreover have "i div D = unat ref" using assms by (intro div_nat_eqI) (simp_all add: mult.commute)
  moreover have "D \<le> (unat ref + 1) * D" by simp
  then have "D < 2 ^ 32" using assms(3) by linarith
  ultimately show ?thesis
    using assms by (simp add: child_parent_def word_arith_nat_div unat_of_nat take_bit_nat_eq_self)
qed

text \<open>C31.  What Unreal sees of a child of a context are its active instances below that instance of the context, each
  once and in order, and the parent of each is the context again.  Before it is told that there are no more, the
  last call of \<open>next\<close> asks whether the instance behind the range is active: of the last context that is an access
  behind the buffer.\<close>

theorem unreal_children:
  assumes "(unat ref + 1) * D < 2 ^ 32"
    and "\<And>i. unat ref * D \<le> i \<Longrightarrow> i < (unat ref + 1) * D \<Longrightarrow> active (of_nat i) = Inr (act i)"
    and "is = filter act [unat ref * D..<(unat ref + 1) * D]"
  shows "children_seen active ref D =
      (if is = [] then Inr [] else andThen (active (of_nat ((unat ref + 1) * D))) (\<lambda>_. Inr (map of_nat is))) \<and>
    list_all (\<lambda>i. child_parent D (of_nat i) = ref) is"
proof
  let ?e = "(unat ref + 1) * D" and ?b = "unat ref * D"
  have b: "?b \<le> ?e" "?b < 2 ^ 32" using assms(1) by simp_all
  have "ucast (ref * of_nat D) = (of_nat ?b :: size)"
    using size_of_instance [OF b(2)] by simp
  then have first: "child_begin active ref D = Inr (of_nat (case is of [] \<Rightarrow> ?e | i # _ \<Rightarrow> i))"
    using begin_loop_first [where active = active and act = act, OF b(1) assms(2,1)] by (simp add: child_begin_def child_end_nat [OF assms(1)] assms(3))
  show "children_seen active ref D =
      (if is = [] then Inr [] else andThen (active (of_nat ?e)) (\<lambda>_. Inr (map of_nat is)))"
  proof (cases "is")
    case Nil
    then show ?thesis by (simp add: children_seen_def first child_at_def child_end_nat [OF assms(1)])
  next
    case (Cons i js)
    have "filter act [?b..<?e] = i # js" using assms(3) Cons by (simp only:)
    then have i: "?b \<le> i" "i < ?e" "filter act [Suc i..<?e] = js" by (blast dest: filter_upt_Cons)+
    have "length is \<le> D"
      unfolding assms(3) using length_filter_le [of act "[?b..<?e]"] by simp
    then have "visit_children (Suc D) active ref D (of_nat i) = andThen (active (of_nat ?e)) (\<lambda>_. Inr (map of_nat is))"
      unfolding Cons using i assms(2) by (intro visit_children_active [OF refl assms(1)]) simp_all
    then show ?thesis by (simp add: children_seen_def first Cons)
  qed
  show "list_all (\<lambda>i. child_parent D (of_nat i) = ref) is"
    unfolding list_all_iff using parent_of_child assms(1) by (auto simp: assms(3))
qed

text \<open>The second of two contexts with three instances of a child each, of which two are active; the state of the
  seventh instance is not in the buffer.\<close>

theorem unreal_children_witness:
  "children_seen (\<lambda>i. if i < 6 then Inr (i = 3 \<or> i = 5) else Inl (Ub ''data'')) 1 3 = Inl (Ub ''data'') \<and>
   children_seen (\<lambda>i. if i < 6 then Inr (i = 3 \<or> i = 5) else Inl (Ub ''data'')) 0 3 = Inr []"
proof -
  let ?active = "\<lambda>i :: u32. if i < 6 then Inr (i = 3 \<or> i = 5) else Inl (Ub ''data'') :: bool result"
  have active: "?active (of_nat i) = Inr (i = 3 \<or> i = 5)" if "i < 6" for i
  proof -
    have "i = 0 \<or> i = 1 \<or> i = 2 \<or> i = 3 \<or> i = 4 \<or> i = 5" using that by arith
    then show ?thesis by (elim disjE) simp_all
  qed
  have "children_seen ?active 1 3 = Inl (Ub ''data'')"
    using unreal_children [of 1 3 ?active "\<lambda>i. i = 3 \<or> i = 5", OF _ active refl] by (simp add: upt_rec)
  moreover have "children_seen ?active 0 3 = Inr []"
    using unreal_children [of 0 3 ?active "\<lambda>i. i = 3 \<or> i = 5", OF _ active refl] by (simp add: upt_rec)
  ultimately show ?thesis by simp
qed

end
