(* ===== verification/Geometry_Generator.thy ===== *)
theory Geometry_Generator
  imports Component_Generator
begin

text \<open>
  The generator of the geometry source of a component, \<open>src/src/generators/geometry_generator.cpp\<close>: includes, when
  the program has one context named config.
\<close>

text \<open>The actions whose context is named config, below the root of the instances.\<close>

definition config_action :: "('c, 'a, 'b, 'm) read_session \<Rightarrow> 'a \<Rightarrow> 'a list" where
  "config_action ss a = (if rs_identifier ss (rs_actionContext ss a) = ''config'' then [a] else [])"

fun findConfig_children :: "('c, 'a, 'b, 'm) read_session \<Rightarrow> ('a, 'm) celement list \<Rightarrow> 'a list" where
  "findConfig_children ss [] = []"
| "findConfig_children ss (CAction a cs # es) = config_action ss a @ findConfig_children ss cs @ findConfig_children ss es"
| "findConfig_children ss (e # es) = findConfig_children ss es"

definition findConfig :: "('c, 'a, 'b, 'm) read_session \<Rightarrow> 'a \<Rightarrow> ('a, 'm) celement list \<Rightarrow> 'a list" where
  "findConfig ss a es = config_action ss a @ findConfig_children ss es"

text \<open>The search for the type of a reference, one nested condition for each action.\<close>

definition has_action :: "('a, 'm) celement list \<Rightarrow> bool" where
  "has_action es \<longleftrightarrow> list_ex (\<lambda>e. case e of CAction _ _ \<Rightarrow> True | _ \<Rightarrow> False) es"

fun recursePathSearch_children ::
  "('c, 'a, 'b, 'm) read_session \<Rightarrow> string \<Rightarrow> int \<Rightarrow> ('a, 'm) celement list \<Rightarrow> string" where
  "recursePathSearch_children ss indent iIterIndex [] = []"
| \<open>recursePathSearch_children ss indent iIterIndex (CAction a cs # es) =
     (let strIndent = indent @ ''    '' in
     strIndent @ ''if( boost::apply_visitor( visitor, *i'' @ dec iIterIndex @ '' ) == "'' @
     rs_identifier ss (rs_actionContext ss a) @ ''" )\<newline>'' @ strIndent @ ''{\<newline>'' @ strIndent @
     ''  Ed::Reference::const_iterator i'' @ dec (iIterIndex + 1) @ '' = i'' @ dec iIterIndex @
     '' + 1;\<newline>'' @ strIndent @ ''  if( i'' @ dec (iIterIndex + 1) @ '' == iterEnd )\<newline>'' @
     strIndent @ ''  {\<newline>'' @ strIndent @ ''    return Event( eg::reference{ 0U, '' @
     dec (rs_actionIndex ss a) @ '', 0U } );\<newline>'' @ strIndent @ ''  }\<newline>''
       @ (if has_action cs
          then
          strIndent @ ''  else\<newline>'' @ strIndent @ ''  {\<newline>''
            @ recursePathSearch_children ss strIndent (iIterIndex + 1) cs @
            strIndent @ ''  }\<newline>''
          else []) @
          strIndent @ ''}\<newline>'') @
      recursePathSearch_children ss indent iIterIndex es\<close>
| "recursePathSearch_children ss indent iIterIndex (e # es) = recursePathSearch_children ss indent iIterIndex es"

definition recursePathSearch ::
  "('c, 'a, 'b, 'm) read_session \<Rightarrow> 'a \<Rightarrow> ('a, 'm) celement list \<Rightarrow> string \<Rightarrow> int \<Rightarrow> string" where
  "recursePathSearch ss a es strIndent iIterIndex = recursePathSearch_children ss strIndent iIterIndex [CAction a es]"

definition generateGeometryCode :: "project_tree \<Rightarrow> ('c, 'a, 'b, 'm) read_session \<Rightarrow> string result" where
  \<open>generateGeometryCode t ss =
     andThen (getNetStateSourceInclude t) (\<lambda>netstate.
     andThen (verify_rte (findConfig ss (rs_instanceRoot ss) (rs_instanceTree ss) \<noteq> []) ''Failed to find config context'') (\<lambda>_.
     andThen (verify_rte (length (findConfig ss (rs_instanceRoot ss) (rs_instanceTree ss)) = 1) ''Found multiple config contexts'') (\<lambda>_.
     Inr (
     ''#include "'' @ getGeometryInclude @ ''"\<newline>'' @
     ''#include "geometry/config_conversions.hpp"\<newline>'' @ ''#include "'' @ getStructuresInclude @
     ''"\<newline>'' @ ''#include "'' @ netstate @ ''"\<newline>'' @ ''#include "ed/file.hpp"\<newline>'' @
     ''#include <fstream>\<newline>'' @ ''\<newline>'' @ ''\<newline>'' @ ''\<newline>'' @ ''\<newline>'' @
     ''\<newline>''))))\<close>

end
