(* ===== verification/Python_Generator.thy ===== *)
theory Python_Generator
  imports Config_Generator
begin

text \<open>
  The generator of the Python bindings of a component, \<open>src/src/generators/python_generator.cpp\<close>: the type casters,
  the implementation of the interface with which Python code reads, writes and calls the program, and the
  types and times of the references.
\<close>

text \<open>
  What it asks of the analysis besides a \<open>read_session\<close> and a \<open>user_session\<close>.
  \<^item> \<open>py_contexts\<close>: the contexts among the objects of the program; \<open>py_contextParent\<close>: whether one has a parent;
  \<^item> \<open>py_interfaceType\<close>: the text of \<open>getInterfaceType\<close>;
  \<^item> \<open>py_private\<close>, \<open>py_hostDefine\<close>, \<open>py_tu\<close>: the visibility of a context, and the define, the coordinator and the host
    of its translation unit;
  \<^item> \<open>py_grandparent\<close>: whether the parent of an action has one;
  \<^item> \<open>py_stateMember\<close>, \<open>py_stopCycleMember\<close>: the members of the dimensions for the state and the cycle of the stop;
  \<^item> the names \<open>EG_REFERENCE_TYPE\<close>, \<open>EG_TYPE_ID\<close>, \<open>EG_ACTION_STATE\<close>, \<open>EG_TIME_STAMP\<close> and those of two states.
\<close>

record ('c, 'a, 'm) python_session =
  py_contexts :: "'c list"
  py_contextParent :: "'c \<Rightarrow> bool"
  py_interfaceType :: "string \<Rightarrow> string"
  py_private :: "'c \<Rightarrow> bool"
  py_hostDefine :: "'c \<Rightarrow> string"
  py_tu :: "'c \<Rightarrow> string \<times> string"
  py_grandparent :: "'a \<Rightarrow> bool"
  py_returnType :: "'c \<Rightarrow> string"
  py_parameters :: "'c \<Rightarrow> string list"
  py_stateMember :: "'a \<Rightarrow> 'm option"
  py_stopCycleMember :: "'a \<Rightarrow> 'm option"
  py_EG_REFERENCE_TYPE :: string
  py_EG_TYPE_ID :: string
  py_EG_ACTION_STATE :: string
  py_EG_TIME_STAMP :: string
  py_running :: string
  py_paused :: string

section \<open>Type casters\<close>

text \<open>The root of the instances has one child that is an action.\<close>

definition instance_root_action :: "('c, 'a, 'b, 'm) read_session \<Rightarrow> 'a result" where
  "instance_root_action ss =
     (case concat (map (\<lambda>e. case e of CAction a _ \<Rightarrow> [a] | _ \<Rightarrow> []) (rs_instanceTree ss)) of
        [a] \<Rightarrow> Inr a
      | _ \<Rightarrow> Inl (Ub ''roots''))"

definition interface_type_name :: "('c, 'a, 'm) user_session \<Rightarrow> ('c, 'a, 'm) python_session \<Rightarrow> 'c \<Rightarrow> string" where
  "interface_type_name us py c =
     concat (map (\<lambda>(i, identifier). (if i = 0 then [] else ''::'') @ py_interfaceType py identifier @ ''< void >'')
       (enumerate 0 (us_path us c)))"

definition caster_types :: "('c, 'a, 'm) user_session \<Rightarrow> ('c, 'a, 'm) python_session \<Rightarrow> (int \<times> string) list" where
  "caster_types us py =
     fold (\<lambda>c m. if py_contextParent py c then smap_insert (us_contextIndex us c) (interface_type_name us py c) m else m)
       (py_contexts py) []"

definition type_caster :: "string \<Rightarrow> string \<Rightarrow> string" where
  \<open>type_caster strType strReferenceTypeName =
     ''        template <> struct type_caster< '' @ strType @ '' >\<newline>'' @ ''        {\<newline>'' @
     ''        public:\<newline>'' @ ''            PYBIND11_TYPE_CASTER( '' @ strType @ '', _("'' @
     strReferenceTypeName @ ''"));\<newline>'' @ ''        \<newline>'' @
     ''            bool load( handle src, bool )\<newline>'' @ ''            {\<newline>'' @
     ''                const megastructure::PythonEGReference* pEGReference =\<newline>'' @
     ''                    megastructure::PythonEGReferenceFactory::getReference( src.ptr() );\<newline>'' @
     ''                value.data = pEGReference->getEGReference();\<newline>'' @
     ''                return !PyErr_Occurred();\<newline>'' @ ''            }\<newline>'' @
     ''        \<newline>'' @ ''            static handle cast( '' @ strType @
     '' src, return_value_policy /* policy */, handle /* parent */)\<newline>'' @ ''            {\<newline>'' @
     ''                return g_pEGRefType->create( src.data );\<newline>'' @ ''            }\<newline>'' @
     ''        };\<newline>''\<close>

definition generateTypeCasters ::
  "project_tree \<Rightarrow> ('c, 'a, 'b, 'm) read_session \<Rightarrow> ('c, 'a, 'm) user_session \<Rightarrow> ('c, 'a, 'm) python_session \<Rightarrow> string result" where
  \<open>generateTypeCasters t ss us py =
     andThen (instance_root_action ss) (\<lambda>_.
     andThen (getComponentFileName t True) (\<lambda>componentFileName.
       (let strReferenceTypeName = componentFileName @ ''.reference'' in Inr (
       ''std::shared_ptr< megastructure::PythonEGReferenceFactory > g_pEGRefType;\<newline>'' @ ''\<newline>'' @
       ''//Python Interface Converters\<newline>'' @ ''namespace pybind11\<newline>'' @ ''{\<newline>'' @
       ''    namespace detail\<newline>'' @ ''    {\<newline>'' @
       ''        template <> struct type_caster< eg::Event >\<newline>'' @ ''        {\<newline>'' @
       ''        public:\<newline>'' @ ''            PYBIND11_TYPE_CASTER( eg::Event, _("'' @
       strReferenceTypeName @ ''"));\<newline>'' @ ''        \<newline>'' @
       ''            bool load( handle src, bool )\<newline>'' @ ''            {\<newline>'' @
       ''                const megastructure::PythonEGReference* pEGReference =\<newline>'' @
       ''                    megastructure::PythonEGReferenceFactory::getReference( src.ptr() );\<newline>'' @
       ''                value.data = pEGReference->getEGReference();\<newline>'' @
       ''                return !PyErr_Occurred();\<newline>'' @ ''            }\<newline>'' @
       ''        \<newline>'' @
       ''            static handle cast( eg::Event src, return_value_policy /* policy */, handle /* parent */)\<newline>'' @
       ''            {\<newline>'' @ ''                return g_pEGRefType->create( src.data );\<newline>'' @
       ''            }\<newline>'' @ ''        };\<newline>'' @
       ''        template < typename... Ts > struct type_caster< __eg_variant< Ts... > >\<newline>'' @
       ''        {\<newline>'' @ ''        public:\<newline>'' @
       ''            PYBIND11_TYPE_CASTER( __eg_variant< Ts... >, _("'' @ strReferenceTypeName @
       ''"));\<newline>'' @ ''        \<newline>'' @ ''            bool load( handle src, bool )\<newline>'' @
       ''            {\<newline>'' @
       ''                const megastructure::PythonEGReference* pEGReference =\<newline>'' @
       ''                    megastructure::PythonEGReferenceFactory::getReference( src.ptr() );\<newline>'' @
       ''                value.data = pEGReference->getEGReference();\<newline>'' @
       ''                return !PyErr_Occurred();\<newline>'' @ ''            }\<newline>'' @
       ''        \<newline>'' @
       ''            static handle cast( eg::Event src, return_value_policy /* policy */, handle /* parent */)\<newline>'' @
       ''            {\<newline>'' @ ''                return g_pEGRefType->create( src.data );\<newline>'' @
       ''            }\<newline>'' @ ''        };\<newline>''
         @ concat (map (\<lambda>(_, strType). type_caster strType strReferenceTypeName) (caster_types us py)) @
         ''    }   //namespace detail\<newline>'' @ ''} // namespace pybind11\<newline>'' @ ''\<newline>''))))\<close>

section \<open>Reading and writing\<close>

definition dataMembers :: "('c, 'a, 'b, 'm) read_session \<Rightarrow> 'm list" where
  "dataMembers ss = concat (map (rs_bufferMembers ss) (rs_buffers ss))"

definition userMembers :: "('c, 'a, 'b, 'm) read_session \<Rightarrow> ('c, 'a, 'm) user_session \<Rightarrow> 'm list" where
  "userMembers ss us = filter (\<lambda>m. us_dimension us m \<noteq> None) (dataMembers ss)"

definition referenceMembers :: "('c, 'a, 'b, 'm) read_session \<Rightarrow> ('c, 'a, 'm) user_session \<Rightarrow> 'm list" where
  "referenceMembers ss us =
     filter (\<lambda>m. case us_dimension us m of Some d \<Rightarrow> ud_isEGType d | None \<Rightarrow> False) (dataMembers ss)"

definition dereferenceDimension ::
  "('c, 'a, 'b, 'm) read_session \<Rightarrow> ('c, 'a, 'm) user_session \<Rightarrow> ('c, 'a, 'm) python_session \<Rightarrow> ('a, 'b) network_analysis \<Rightarrow> string result" where
  \<open>dereferenceDimension ss us py na =
     andThen (write_all (\<lambda>m. andThen (MegastructureReader_print ss na m ''action.instance'') (\<lambda>rd. Inr (
     ''            case '' @ dec (rs_memberDimension ss m) @ '':\<newline>'' @ ''                return '' @ rd @
     ''.data;\<newline>''))) (referenceMembers ss us)) (\<lambda>cases. Inr (
     py_EG_REFERENCE_TYPE py @ '' PythonInterop::dereferenceDimension( const '' @ py_EG_REFERENCE_TYPE py @
     ''& action, const '' @ py_EG_TYPE_ID py @ ''& dimensionType )\<newline>'' @ ''{\<newline>''
       @ (if referenceMembers ss us \<noteq> []
          then
          ''    if( Evaluation::SharedPtr pEvaluation = m_pEvaluation.lock() )\<newline>'' @ ''    {\<newline>'' @
          ''        switch( dimensionType )\<newline>'' @ ''        {\<newline>''
            @ cases @
            ''            default:\<newline>'' @ ''                break;\<newline>'' @ ''        }\<newline>'' @
            ''    }\<newline>'' @ ''    return '' @ py_EG_REFERENCE_TYPE py @ ''{ 0, 0, 0 };\<newline>''
          else
          ''    throw std::runtime_error( "Unreachable" );\<newline>'') @
          ''}\<newline>''))\<close>

definition doRead ::
  "('c, 'a, 'b, 'm) read_session \<Rightarrow> ('c, 'a, 'm) user_session \<Rightarrow> ('c, 'a, 'm) python_session \<Rightarrow> ('a, 'b) network_analysis \<Rightarrow> string result" where
  \<open>doRead ss us py na =
     andThen (write_all (\<lambda>m. andThen (MegastructureReader_print ss na m ''reference.instance'') (\<lambda>rd. Inr (
     ''            case '' @ dec (rs_memberDimension ss m) @ '':\<newline>'' @
     ''                pEvaluation->m_result = pybind11::cast( '' @ rd @ '' );\<newline>'' @
     ''                break;\<newline>''))) (userMembers ss us)) (\<lambda>cases. Inr (
     ''void PythonInterop::doRead( const '' @ py_EG_REFERENCE_TYPE py @ ''& reference, '' @ py_EG_TYPE_ID py @
     '' dimensionType )\<newline>'' @ ''{\<newline>'' @
     ''    if( Evaluation::SharedPtr pEvaluation = m_pEvaluation.lock() )\<newline>'' @ ''    {\<newline>'' @
     ''        switch( dimensionType )\<newline>'' @ ''        {\<newline>''
       @ cases @
       ''            default:\<newline>'' @ ''                break;\<newline>'' @ ''        }\<newline>'' @
       ''    }\<newline>'' @ ''}\<newline>''))\<close>

definition doWrite ::
  "('c, 'a, 'b, 'm) read_session \<Rightarrow> ('c, 'a, 'm) user_session \<Rightarrow> ('c, 'a, 'm) python_session \<Rightarrow> ('a, 'b) network_analysis \<Rightarrow> string result" where
  \<open>doWrite ss us py na =
     andThen (write_all (\<lambda>m. andThen (MegastructureWriter_print ss na m ''reference.instance'') (\<lambda>wr. Inr (
     ''            case '' @ dec (rs_memberDimension ss m) @ '':\<newline>'' @ ''                 '' @ wr @
     '' = pybind11::cast< '' @ rs_memberType ss m @ '' >( args[ 0 ] );\<newline>'' @
     ''                 break;\<newline>''))) (userMembers ss us)) (\<lambda>cases. Inr (
     ''void PythonInterop::doWrite( const '' @ py_EG_REFERENCE_TYPE py @ ''& reference, '' @ py_EG_TYPE_ID py @
     '' dimensionType )\<newline>'' @ ''{\<newline>'' @
     ''    if( Evaluation::SharedPtr pEvaluation = m_pEvaluation.lock() )\<newline>'' @ ''    {\<newline>'' @
     ''        pybind11::args args = pybind11::reinterpret_borrow< pybind11::args >( pEvaluation->args );\<newline>'' @
     ''        switch( dimensionType )\<newline>'' @ ''        {\<newline>''
       @ cases @
       ''            default:\<newline>'' @ ''                break;\<newline>'' @ ''        }\<newline>'' @
       ''    }\<newline>'' @ ''}\<newline>''))\<close>

definition doGetDimension ::
  "('c, 'a, 'b, 'm) read_session \<Rightarrow> ('c, 'a, 'm) user_session \<Rightarrow> ('c, 'a, 'm) python_session \<Rightarrow> ('a, 'b) network_analysis \<Rightarrow> string result" where
  \<open>doGetDimension ss us py na =
     andThen (write_all (\<lambda>m. andThen (MegastructureReader_print ss na m ''reference.instance'') (\<lambda>rd. Inr (
     ''            case '' @ dec (rs_memberDimension ss m) @ '':\<newline>'' @
     ''                pEvaluation->m_result = pybind11::cast( '' @ rd @ '' );\<newline>'' @
     ''                break;\<newline>''))) (userMembers ss us)) (\<lambda>cases. Inr (
     ''void PythonInterop::doGetDimension( const '' @ py_EG_REFERENCE_TYPE py @ ''& reference, '' @
     py_EG_TYPE_ID py @ '' dimensionType )\<newline>'' @ ''{\<newline>'' @
     ''    if( Evaluation::SharedPtr pEvaluation = m_pEvaluation.lock() )\<newline>'' @ ''    {\<newline>'' @
     ''        switch( dimensionType )\<newline>'' @ ''        {\<newline>''
       @ cases @
       ''            default:\<newline>'' @ ''                break;\<newline>'' @ ''        }\<newline>'' @
       ''    }\<newline>'' @ ''}\<newline>''))\<close>

section \<open>Operations on actions\<close>

definition python_isContextWithinComponent ::
  "project_tree \<Rightarrow> ('c, 'a, 'm) python_session \<Rightarrow> 'c \<Rightarrow> bool result" where
  "python_isContextWithinComponent t py c =
     andThen (getCoordinatorName t) (\<lambda>coordinator.
       if fst (py_tu py c) = coordinator then andThen (getHostName t) (\<lambda>host. Inr (snd (py_tu py c) = host)) else Inr False)"

text \<open>A case of a switch over the executable actions, with what the operation does for the action.\<close>

definition action_case ::
  "project_tree \<Rightarrow> ('c, 'a, 'b, 'm) read_session \<Rightarrow> ('c, 'a, 'm) python_session \<Rightarrow> (allocator \<Rightarrow> bool \<Rightarrow> 'a \<Rightarrow> string result) \<Rightarrow> 'a
   \<Rightarrow> string result" where
  \<open>action_case t ss py body a =
     (let c = rs_actionContext ss a in
      if rs_isExecutable ss c \<and> \<not> rs_isMainExecutable ss c
      then andThen (verify_rte (rs_actionParent ss a \<and> py_grandparent py a) ''getParent'') (\<lambda>_.
           case rs_allocator ss a of
             None \<Rightarrow> Inl (Rte ''pAllocator'')
           | Some al \<Rightarrow>
               andThen (python_isContextWithinComponent t py c) (\<lambda>within.
               andThen (body al within a) (\<lambda>s. Inr (
               ''            case '' @ dec (rs_actionIndex ss a) @ '':\<newline>'' @
               ''                {\<newline>''
                 @ s @
                 ''                }\<newline>'' @ ''                break;\<newline>''))))
      else Inr [])\<close>

definition parameter_casts :: "string list \<Rightarrow> string" where
  \<open>parameter_casts parameters =
     concat (map (\<lambda>(i, strParamType). (if i = 0 then '' '' else '', '') @
       ''pybind11::cast< '' @ strParamType @ '' >( args[ '' @ dec_nat i @ '' ] )'') (enumerate 0 parameters))\<close>

definition python_call ::
  "('c, 'a, 'b, 'm) read_session \<Rightarrow> ('c, 'a, 'm) python_session \<Rightarrow> allocator \<Rightarrow> bool \<Rightarrow> 'a \<Rightarrow> string result" where
  \<open>python_call ss py al within a =
     (let c = rs_actionContext ss a in
      case rs_class ss c of
        AbstractContext \<Rightarrow> Inr (
        ''                    ERR( "Attempt to call abstract type" );\<newline>'')
      | EventContext \<Rightarrow>
          (case al of
             NothingAllocator \<Rightarrow> Inr (
             ''                    '' @ rs_staticType ss c @ '' ref = '' @ py_EG_REFERENCE_TYPE py @
             ''{ reference.instance, '' @ dec (rs_actionIndex ss a) @ '', clock::cycle( '' @
             dec (rs_actionIndex ss a) @ '' ) };\<newline>''
               @ (if within then
               ''                    ::eg::Scheduler::signal_ref( ref );\<newline>''
                  else
                  ''                    ERR( "Attempt to call event from wrong component" );\<newline>'') @
                  ''                    pEvaluation->m_result = pybind11::reinterpret_borrow< pybind11::object >( g_pEGRefType->create( ref.data ) );\<newline>'')
           | OtherAllocator \<Rightarrow> Inl (Rte ''Unknown allocator type'')
           | _ \<Rightarrow> Inr (
           ''                    '' @ rs_staticType ss c @ '' ref = '' @ rs_actionName ss a @
           ''_starter( reference.instance );\<newline>'' @ ''                    if( ref )\<newline>'' @
           ''                    {\<newline>''
               @ (if within then
               ''                        ::eg::Scheduler::signal_ref( ref );\<newline>''
                  else
                  ''                        ERR( "Attempt to call event from wrong component" );\<newline>'') @
                  ''                        '' @ rs_actionName ss a @
                  ''_stopper( ref.data.instance );\<newline>'' @ ''                    }\<newline>'' @
                  ''                    else\<newline>'' @ ''                    {\<newline>'' @
                  ''                        ERR( "Failed to allocate action: '' @ rs_actionName ss a @
                  ''" );\<newline>'' @ ''                    }\<newline>'' @
                  ''                    pEvaluation->m_result = pybind11::reinterpret_borrow< pybind11::object >( g_pEGRefType->create( ref.data ) );\<newline>''))
      | FunctionContext \<Rightarrow>
          andThen (verify_rte (al = NothingAllocator) ''pAllocator'') (\<lambda>_. Inr (
          ''                    '' @ rs_staticType ss c @ '' ref = '' @ py_EG_REFERENCE_TYPE py @
          ''{ reference.instance, '' @ dec (rs_actionIndex ss a) @ '', clock::cycle( '' @
          dec (rs_actionIndex ss a) @ '' ) };\<newline>''
            @ (if py_returnType py c = ''void''
               then
               ''                    ref(''
                 @ parameter_casts (py_parameters py c) @
                 '');\<newline>'' @ ''                    Py_INCREF( Py_None );\<newline>'' @
                 ''                    pEvaluation->m_result = pybind11::reinterpret_borrow< pybind11::object >( Py_None );\<newline>''
               else
               ''                    pEvaluation->m_result = pybind11::cast< '' @ py_returnType py c @
               '' >( ref(''
                 @ parameter_casts (py_parameters py c) @
                 '') );\<newline>'')))
      | OtherContext \<Rightarrow> Inl (Rte ''Unknown abstract type'')
      | _ \<Rightarrow> Inr (
      ''                    '' @ rs_staticType ss c @ '' ref = '' @ rs_actionName ss a @
      ''_starter( reference.instance );\<newline>''
          @ (if rs_hasDefinition ss c
             then
             ''                    if( ref )\<newline>'' @ ''                    {\<newline>''
               @ (if within then
               ''                        ::eg::Scheduler::call( ref, &'' @ rs_actionName ss a @
               ''_stopper );\<newline>''
                  else []) @
                  ''                    }\<newline>'' @ ''                    else\<newline>'' @
                  ''                    {\<newline>'' @
                  ''                        ERR( "Failed to allocate action: '' @ rs_actionName ss a @
                  ''" );\<newline>'' @ ''                    }\<newline>'' @
                  ''                    pEvaluation->m_result = pybind11::reinterpret_borrow< pybind11::object >( g_pEGRefType->create( ref.data ) );\<newline>''
             else
             ''                    if( ref )\<newline>'' @ ''                    {\<newline>''
               @ (if within then
               ''                        ::eg::Scheduler::allocated_ref( ref.data, &'' @ rs_actionName ss a @
               ''_stopper );\<newline>''
                  else []) @
                  ''                    }\<newline>'' @ ''                    else\<newline>'' @
                  ''                    {\<newline>'' @
                  ''                        ERR( "Failed to allocate action: '' @ rs_actionName ss a @
                  ''" );\<newline>'' @ ''                    }\<newline>'' @
                  ''                    pEvaluation->m_result = pybind11::reinterpret_borrow< pybind11::object >( g_pEGRefType->create( ref.data ) );\<newline>'')))\<close>

text \<open>A private context is only called in the host of its translation unit.\<close>

definition python_guarded_call ::
  "('c, 'a, 'b, 'm) read_session \<Rightarrow> ('c, 'a, 'm) python_session \<Rightarrow> allocator \<Rightarrow> bool \<Rightarrow> 'a \<Rightarrow> string result" where
  \<open>python_guarded_call ss py al within a =
     (let strDefine = py_hostDefine py (rs_actionContext ss a);
          guarded = (py_private py (rs_actionContext ss a) \<and> strDefine \<noteq> []) in
      andThen (python_call ss py al within a) (\<lambda>s. Inr (
        (if guarded then
        ''#ifdef '' @ strDefine @ ''\<newline>''
         else []) @ s @
        (if guarded then
        ''#else\<newline>'' @ ''                    ERR( "Attempt to call private context" );\<newline>'' @
        ''                    Py_INCREF( Py_None );\<newline>'' @
        ''                    pEvaluation->m_result = pybind11::reinterpret_borrow< pybind11::object >( Py_None );\<newline>'' @
        ''#endif\<newline>''
         else []))))\<close>

definition doCall ::
  "project_tree \<Rightarrow> ('c, 'a, 'b, 'm) read_session \<Rightarrow> ('c, 'a, 'm) python_session \<Rightarrow> string result" where
  \<open>doCall t ss py =
     andThen (write_all (action_case t ss py (python_guarded_call ss py)) (rs_actions ss)) (\<lambda>cases. Inr (
     ''void PythonInterop::doCall( const '' @ py_EG_REFERENCE_TYPE py @ ''& reference, '' @ py_EG_TYPE_ID py @
     '' actionType )\<newline>'' @ ''{\<newline>'' @
     ''    if( Evaluation::SharedPtr pEvaluation = m_pEvaluation.lock() )\<newline>'' @ ''    {\<newline>'' @
     ''        pybind11::args args = pybind11::reinterpret_borrow< pybind11::args >( pEvaluation->args );\<newline>'' @
     ''        switch( actionType )\<newline>'' @ ''        {\<newline>''
       @ cases @
       ''            default:\<newline>'' @ ''                break;\<newline>'' @ ''        }\<newline>'' @
       ''    }\<newline>'' @ ''}\<newline>''))\<close>

definition python_stop ::
  "('c, 'a, 'b, 'm) read_session \<Rightarrow> allocator \<Rightarrow> bool \<Rightarrow> 'a \<Rightarrow> string result" where
  \<open>python_stop ss al within a =
     (case rs_class ss (rs_actionContext ss a) of
        AbstractContext \<Rightarrow> Inr (
        ''                    ERR( "Attempted to stop abstract: '' @ rs_actionName ss a @ ''" );\<newline>'')
      | EventContext \<Rightarrow> Inr (
      ''                    ERR( "Attempted to stop event: '' @ rs_actionName ss a @ ''" );\<newline>'')
      | FunctionContext \<Rightarrow> andThen (verify_rte (al = NothingAllocator) ''pAllocator'') (\<lambda>_. Inr (
      ''                    ERR( "Attempted to stop function: '' @ rs_actionName ss a @ ''" );\<newline>''))
      | OtherContext \<Rightarrow> Inl (Rte ''Unknown abstract type'')
      | _ \<Rightarrow> Inr (if within then
      ''                    ::eg::Scheduler::stop_ref( reference );\<newline>''
                 else
                 ''                    '' @ rs_actionName ss a @ ''_stopper( reference.instance );\<newline>''))\<close>

definition doStop ::
  "project_tree \<Rightarrow> ('c, 'a, 'b, 'm) read_session \<Rightarrow> ('c, 'a, 'm) python_session \<Rightarrow> string result" where
  \<open>doStop t ss py =
     andThen (write_all (action_case t ss py (python_stop ss)) (rs_actions ss)) (\<lambda>cases. Inr (
     ''void PythonInterop::doStop( const '' @ py_EG_REFERENCE_TYPE py @ ''& reference )\<newline>'' @
     ''{\<newline>'' @ ''    if( Evaluation::SharedPtr pEvaluation = m_pEvaluation.lock() )\<newline>'' @
     ''    {\<newline>'' @ ''        switch( reference.type )\<newline>'' @ ''        {\<newline>''
       @ cases @
       ''            default:\<newline>'' @ ''                break;\<newline>'' @ ''        }\<newline>'' @
       ''    }\<newline>'' @ ''}\<newline>''))\<close>

definition python_pause ::
  "('c, 'a, 'b, 'm) read_session \<Rightarrow> ('c, 'a, 'm) python_session \<Rightarrow> ('a, 'b) network_analysis \<Rightarrow> allocator \<Rightarrow> bool \<Rightarrow> 'a \<Rightarrow> string result" where
  \<open>python_pause ss py na al within a =
     (case rs_class ss (rs_actionContext ss a) of
        AbstractContext \<Rightarrow> Inr (
        ''                    ERR( "Attempted to pause abstract: '' @ rs_actionName ss a @ ''" );\<newline>'')
      | EventContext \<Rightarrow> Inr (
      ''                    ERR( "Attempted to pause event: '' @ rs_actionName ss a @ ''" );\<newline>'')
      | FunctionContext \<Rightarrow> andThen (verify_rte (al = NothingAllocator) ''pAllocator'') (\<lambda>_. Inr (
      ''                    ERR( "Attempted to pause function: '' @ rs_actionName ss a @ ''" );\<newline>''))
      | OtherContext \<Rightarrow> Inl (Rte ''Unknown abstract type'')
      | _ \<Rightarrow>
          (case py_stateMember py a of
             None \<Rightarrow> Inl (Rte ''pStateDim'')
           | Some m \<Rightarrow>
               andThen (MegastructureReader_print ss na m ''reference.instance'') (\<lambda>rd.
               andThen (MegastructureWriter_print ss na m ''reference.instance'') (\<lambda>wr. Inr (
               ''                    if( '' @ rd @ '' == '' @ py_running py @ '' )\<newline>'' @
               ''                    {\<newline>''
                 @ (if within then
                 ''                        ::eg::Scheduler::pause_ref( reference );\<newline>''
                    else []) @
                    ''                        '' @ wr @ '' = '' @ py_paused py @ '';\<newline>'' @
                    ''                    }\<newline>'')))))\<close>

definition doPause ::
  "project_tree \<Rightarrow> ('c, 'a, 'b, 'm) read_session \<Rightarrow> ('c, 'a, 'm) python_session \<Rightarrow> ('a, 'b) network_analysis \<Rightarrow> string result" where
  \<open>doPause t ss py na =
     andThen (write_all (action_case t ss py (python_pause ss py na)) (rs_actions ss)) (\<lambda>cases. Inr (
     ''void PythonInterop::doPause( const '' @ py_EG_REFERENCE_TYPE py @ ''& reference )\<newline>'' @
     ''{\<newline>'' @ ''    if( Evaluation::SharedPtr pEvaluation = m_pEvaluation.lock() )\<newline>'' @
     ''    {\<newline>'' @ ''        switch( reference.type )\<newline>'' @ ''        {\<newline>''
       @ cases @
       ''            default:\<newline>'' @ ''                break;\<newline>'' @ ''        }\<newline>'' @
       ''    }\<newline>'' @ ''}\<newline>''))\<close>

definition python_resume ::
  "('c, 'a, 'b, 'm) read_session \<Rightarrow> ('c, 'a, 'm) python_session \<Rightarrow> ('a, 'b) network_analysis \<Rightarrow> allocator \<Rightarrow> bool \<Rightarrow> 'a \<Rightarrow> string result" where
  \<open>python_resume ss py na al within a =
     (case rs_class ss (rs_actionContext ss a) of
        AbstractContext \<Rightarrow> Inr (
        ''                    ERR( "Attempted to pause abstract: '' @ rs_actionName ss a @ ''" );\<newline>'')
      | EventContext \<Rightarrow> Inr (
      ''                    ERR( "Attempted to pause event: '' @ rs_actionName ss a @ ''" );\<newline>'')
      | FunctionContext \<Rightarrow> andThen (verify_rte (al = NothingAllocator) ''pAllocator'') (\<lambda>_. Inr (
      ''                    ERR( "Attempted to pause function: '' @ rs_actionName ss a @ ''" );\<newline>''))
      | OtherContext \<Rightarrow> Inl (Rte ''Unknown abstract type'')
      | _ \<Rightarrow>
          (case py_stateMember py a of
             None \<Rightarrow> Inl (Rte ''pStateDim'')
           | Some m \<Rightarrow>
               andThen (MegastructureReader_print ss na m ''reference.instance'') (\<lambda>rd.
               andThen (MegastructureWriter_print ss na m ''reference.instance'') (\<lambda>wr. Inr (
               ''                    if( '' @ rd @ '' == '' @ py_paused py @ '' )\<newline>'' @
               ''                    {\<newline>''
                 @ (if within then
                 ''                        ::eg::Scheduler::unpause_ref( reference );\<newline>''
                    else []) @
                    ''                        '' @ wr @ '' = '' @ py_running py @ '';\<newline>'' @
                    ''                    }\<newline>'')))))\<close>

definition doResume ::
  "project_tree \<Rightarrow> ('c, 'a, 'b, 'm) read_session \<Rightarrow> ('c, 'a, 'm) python_session \<Rightarrow> ('a, 'b) network_analysis \<Rightarrow> string result" where
  \<open>doResume t ss py na =
     andThen (write_all (action_case t ss py (python_resume ss py na)) (rs_actions ss)) (\<lambda>cases. Inr (
     ''void PythonInterop::doResume( const '' @ py_EG_REFERENCE_TYPE py @ ''& reference )\<newline>'' @
     ''{\<newline>'' @ ''    if( Evaluation::SharedPtr pEvaluation = m_pEvaluation.lock() )\<newline>'' @
     ''    {\<newline>'' @ ''        switch( reference.type )\<newline>'' @ ''        {\<newline>''
       @ cases @
       ''            default:\<newline>'' @ ''                break;\<newline>'' @ ''        }\<newline>'' @
       ''    }\<newline>'' @ ''}\<newline>''))\<close>

section \<open>The interface\<close>

definition python_interop :: string where
  \<open>python_interop =
     ''\<newline>'' @ ''\<newline>'' @
     ''struct PythonInterop : public eg::ComponentInterop, public eg::RuntimeTypeInterop\<newline>'' @
     ''{\<newline>'' @ ''private:\<newline>'' @
     ''    struct Evaluation : public eg::RuntimeTypeInterop::Evaluation\<newline>'' @ ''    {\<newline>'' @
     ''        PyObject *args;\<newline>'' @ ''        PyObject *kwargs;\<newline>'' @
     ''        pybind11::object m_result;\<newline>'' @
     ''        Evaluation( PyObject *args, PyObject *kwargs )\<newline>'' @
     ''            :   args( args ), kwargs( kwargs )\<newline>'' @ ''        {\<newline>'' @
     ''            Py_INCREF( args );\<newline>'' @ ''        }\<newline>'' @
     ''        ~Evaluation()\<newline>'' @ ''        {\<newline>'' @
     ''            Py_DECREF( args );\<newline>'' @ ''        }\<newline>'' @
     ''        using WeakPtr = std::weak_ptr< Evaluation >;\<newline>'' @
     ''        using SharedPtr = std::shared_ptr< Evaluation >;\<newline>'' @ ''        \<newline>'' @
     ''        //eg::RuntimeTypeInterop::Evaluation\<newline>'' @
     ''        virtual bool isResult() const\<newline>'' @ ''        {\<newline>'' @
     ''            return m_result ? true : false;\<newline>'' @ ''        }\<newline>'' @
     ''        \<newline>'' @ ''        virtual void* getResult() const\<newline>'' @ ''        {\<newline>'' @
     ''            pybind11::handle h = m_result;\<newline>'' @ ''            h.inc_ref();\<newline>'' @
     ''            return h.ptr();\<newline>'' @ ''        }\<newline>'' @ ''    };\<newline>'' @
     ''public:\<newline>'' @ ''    //eg::ComponentInterop\<newline>'' @
     ''    virtual eg::reference dereferenceDimension( const eg::reference& action, const eg::TypeID& dimensionType );\<newline>'' @
     ''    virtual void doRead( const eg::reference& reference, eg::TypeID dimensionType );\<newline>'' @
     ''    virtual void doWrite( const eg::reference& reference, eg::TypeID dimensionType );\<newline>'' @
     ''    virtual void doCall( const eg::reference& reference, eg::TypeID actionType );\<newline>'' @
     ''    virtual void doStart( const eg::reference& reference, eg::TypeID actionType );\<newline>'' @
     ''    virtual void doStop( const eg::reference& reference );\<newline>'' @
     ''    virtual void doPause( const eg::reference& reference );\<newline>'' @
     ''    virtual void doResume( const eg::reference& reference );\<newline>'' @
     ''    virtual void doDone( const eg::reference& reference );\<newline>'' @
     ''    virtual void doWaitAction( const eg::reference& reference );\<newline>'' @
     ''    virtual void doWaitDimension( const eg::reference& reference, eg::TypeID dimensionType );\<newline>'' @
     ''    virtual void doGetAction( const eg::reference& reference );\<newline>'' @
     ''    virtual void doGetDimension( const eg::reference& reference, eg::TypeID dimensionType );\<newline>'' @
     ''    virtual void doRange( eg::EGRangeDescriptionPtr pRange );\<newline>'' @
     ''    virtual void doLink( const eg::reference& linkeeRef, eg::TypeID linkeeDimension, const eg::reference& linkValue );\<newline>'' @
     ''    \<newline>'' @ ''    //eg::RuntimeTypeInterop\<newline>'' @
     ''    virtual eg::RuntimeTypeInterop::Evaluation::Ptr begin( void* pArgs, void* pKWArgs )\<newline>'' @
     ''    {\<newline>'' @
     ''        Evaluation::SharedPtr pEvaluation = std::make_shared< Evaluation >( \<newline>'' @
     ''            reinterpret_cast< PyObject* >( pArgs ), \<newline>'' @
     ''            reinterpret_cast< PyObject* >( pKWArgs ) );\<newline>'' @
     ''        m_pEvaluation = pEvaluation;\<newline>'' @ ''        return pEvaluation;\<newline>'' @
     ''    }\<newline>'' @ ''    \<newline>'' @
     ''    virtual eg::TimeStamp   getTimestamp( eg::TypeID type, eg::Instance instance );\<newline>'' @
     ''    virtual eg::ActionState getState( eg::TypeID type, eg::Instance instance );\<newline>'' @
     ''    virtual eg::TimeStamp   getStopCycle( eg::TypeID type, eg::Instance instance );\<newline>'' @
     ''    virtual eg::TimeStamp   getClockCycle( eg::TypeID type );\<newline>'' @ ''private:\<newline>'' @
     ''    Evaluation::WeakPtr m_pEvaluation;\<newline>'' @ ''};\<newline>'' @ ''\<newline>'' @
     ''static PythonInterop g_interop;\<newline>'' @ ''\<newline>'' @
     ''eg::ComponentInterop& getPythonInterop()\<newline>'' @ ''{\<newline>'' @
     ''    return g_interop;\<newline>'' @ ''}\<newline>'' @ ''\<newline>''\<close>

definition generateRuntimeInterface ::
  "project_tree \<Rightarrow> ('c, 'a, 'b, 'm) read_session \<Rightarrow> ('c, 'a, 'm) user_session \<Rightarrow> ('c, 'a, 'm) python_session
   \<Rightarrow> ('a, 'b) network_analysis \<Rightarrow> string result" where
  \<open>generateRuntimeInterface t ss us py na =
     andThen (getComponentFileName t True) (\<lambda>componentFileName.
     andThen (dereferenceDimension ss us py na) (\<lambda>dereference.
     andThen (doRead ss us py na) (\<lambda>reads.
     andThen (doWrite ss us py na) (\<lambda>writes.
     andThen (doCall t ss py) (\<lambda>calls.
     andThen (doStop t ss py) (\<lambda>stops.
     andThen (doPause t ss py na) (\<lambda>pauses.
     andThen (doResume t ss py na) (\<lambda>resumes.
     andThen (doGetDimension ss us py na) (\<lambda>dimensions. Inr (
       python_interop @
       ''void setEGRuntime( eg::EGRuntime& egRuntime )\<newline>'' @ ''{\<newline>'' @
       ''    g_pEGRefType = std::make_shared< megastructure::PythonEGReferenceFactory >( "'' @ componentFileName @
       ''", egRuntime, g_interop );\<newline>'' @ ''}\<newline>'' @ ''\<newline>''
       @ dereference @ reads @ writes @ calls @
       ''void PythonInterop::doStart( const '' @ py_EG_REFERENCE_TYPE py @ ''& reference, '' @ py_EG_TYPE_ID py @
       '' actionType )\<newline>'' @ ''{\<newline>'' @ ''    ERR( "Start used" );\<newline>'' @ ''}\<newline>''
       @ stops @ pauses @ resumes @
       ''void PythonInterop::doDone( const '' @ py_EG_REFERENCE_TYPE py @ ''& reference )\<newline>'' @
       ''{\<newline>'' @ ''    ERR( "Done used" );\<newline>'' @ ''}\<newline>'' @
       ''void PythonInterop::doWaitAction( const '' @ py_EG_REFERENCE_TYPE py @ ''& reference )\<newline>'' @
       ''{\<newline>'' @ ''    ERR( "Wait used" );\<newline>'' @ ''}\<newline>'' @
       ''void PythonInterop::doWaitDimension( const '' @ py_EG_REFERENCE_TYPE py @ ''& reference, '' @
       py_EG_TYPE_ID py @ '' dimensionType )\<newline>'' @ ''{\<newline>'' @
       ''    ERR( "Wait used" );\<newline>'' @ ''}\<newline>'' @ ''void PythonInterop::doGetAction( const '' @
       py_EG_REFERENCE_TYPE py @ ''& reference )\<newline>'' @ ''{\<newline>'' @
       ''    if( Evaluation::SharedPtr pEvaluation = m_pEvaluation.lock() )\<newline>'' @ ''    {\<newline>'' @
       ''        pEvaluation->m_result = pybind11::reinterpret_borrow< pybind11::object >( g_pEGRefType->create( reference ) );\<newline>'' @
       ''    }\<newline>'' @ ''}\<newline>''
       @ dimensions @
       ''void PythonInterop::doRange( eg::EGRangeDescriptionPtr pRange )\<newline>'' @ ''{\<newline>'' @
       ''    if( Evaluation::SharedPtr pEvaluation = m_pEvaluation.lock() )\<newline>'' @ ''    {\<newline>'' @
       ''        pEvaluation->m_result = pybind11::make_iterator( megastructure::PythonIterator( *g_pEGRefType, pRange, false ), megastructure::PythonIterator( *g_pEGRefType, pRange, true ) );\<newline>'' @
       ''    }\<newline>'' @ ''}\<newline>'' @
       ''void PythonInterop::doLink( const eg::reference& linkeeRef, eg::TypeID linkeeDimension, const eg::reference& linkValue )\<newline>'' @
       ''{\<newline>'' @ ''    ERR( "Link used" );\<newline>'' @ ''}\<newline>''))))))))))\<close>

section \<open>Types and times\<close>

definition timestamp_case ::
  "('c, 'a, 'b, 'm) read_session \<Rightarrow> ('a, 'b) network_analysis \<Rightarrow> 'a \<Rightarrow> string result" where
  \<open>timestamp_case ss na a =
     (case rs_referenceMember ss a of
        None \<Rightarrow> Inr []
      | Some m \<Rightarrow> andThen (MegastructureReader_print ss na m ''instance'') (\<lambda>rd. Inr (
      ''        case '' @ dec (rs_actionIndex ss a) @ '': return '' @ rd @ ''.data.timestamp;\<newline>'')))\<close>

definition getState_case ::
  "('c, 'a, 'b, 'm) read_session \<Rightarrow> ('c, 'a, 'm) python_session \<Rightarrow> ('a, 'b) network_analysis \<Rightarrow> 'a \<Rightarrow> string result" where
  \<open>getState_case ss py na a =
     (case py_stateMember py a of
        Some m \<Rightarrow> andThen (MegastructureReader_print ss na m ''instance'') (\<lambda>rd. Inr (
        ''        case '' @ dec (rs_actionIndex ss a) @ '': return '' @ rd @ '';\<newline>''))
      | None \<Rightarrow> Inr (
      ''        case '' @ dec (rs_actionIndex ss a) @ '': return eg::action_running;\<newline>''))\<close>

definition stopCycle_case ::
  "('c, 'a, 'b, 'm) read_session \<Rightarrow> ('c, 'a, 'm) python_session \<Rightarrow> ('a, 'b) network_analysis \<Rightarrow> 'a \<Rightarrow> string result" where
  \<open>stopCycle_case ss py na a =
     (case (if rs_actionParent ss a then py_stopCycleMember py a else None) of
        Some m \<Rightarrow> andThen (MegastructureReader_print ss na m ''instance'') (\<lambda>rd. Inr (
        ''        case '' @ dec (rs_actionIndex ss a) @ '': return '' @ rd @ '';\<newline>''))
      | None \<Rightarrow> Inr [])\<close>

definition generateRuntimeTypeInterop ::
  "('c, 'a, 'b, 'm) read_session \<Rightarrow> ('c, 'a, 'm) python_session \<Rightarrow> ('a, 'b) network_analysis \<Rightarrow> string result" where
  \<open>generateRuntimeTypeInterop ss py na =
     andThen (write_all (timestamp_case ss na) (rs_actions ss)) (\<lambda>timestamps.
     andThen (write_all (getState_case ss py na) (rs_actions ss)) (\<lambda>states.
     andThen (write_all (stopCycle_case ss py na) (rs_actions ss)) (\<lambda>stopCycles.
     andThen (instance_root_action ss) (\<lambda>root. Inr (
     ''eg::TimeStamp PythonInterop::getTimestamp( '' @ py_EG_TYPE_ID py @ '' typeID, '' @ rs_EG_INSTANCE ss @
     '' instance )\<newline>'' @ ''{\<newline>'' @ ''    switch( typeID )\<newline>'' @ ''    {\<newline>''
       @ timestamps @
       ''        default: throw std::runtime_error( "Invalid action instance" );\<newline>'' @
       ''    }\<newline>'' @ ''}\<newline>'' @ py_EG_ACTION_STATE py @ '' PythonInterop::getState( '' @
       py_EG_TYPE_ID py @ '' typeID, '' @ rs_EG_INSTANCE ss @ '' instance )\<newline>'' @ ''{\<newline>'' @
       ''    switch( typeID )\<newline>'' @ ''    {\<newline>''
       @ states @
       ''        default: throw std::runtime_error( "Invalid action instance" );\<newline>'' @
       ''    }\<newline>'' @ ''}\<newline>'' @ py_EG_TIME_STAMP py @ '' PythonInterop::getStopCycle( '' @
       py_EG_TYPE_ID py @ '' typeID, '' @ rs_EG_INSTANCE ss @ '' instance )\<newline>'' @ ''{\<newline>'' @
       ''    switch( typeID )\<newline>'' @ ''    {\<newline>''
       @ stopCycles @
       ''        default: throw std::runtime_error( "Invalid action instance" );\<newline>'' @
       ''    }\<newline>'' @ ''}\<newline>'' @ py_EG_TIME_STAMP py @
       '' PythonInterop::getClockCycle( eg::TypeID typeID )\<newline>'' @ ''{\<newline>'' @
       ''    return clock::cycle( typeID );\<newline>'' @ ''}\<newline>'' @ ''\<newline>'' @
       ''void* getPythonRoot()\<newline>'' @ ''{\<newline>'' @ ''    return g_pEGRefType->create( '' @
       py_EG_REFERENCE_TYPE py @ ''{ 0, '' @ dec (rs_actionIndex ss root) @ '', 0 } );\<newline>'' @
       ''}\<newline>'')))))\<close>

definition generatePythonBindings ::
  "project_tree \<Rightarrow> ('c, 'a, 'b, 'm) read_session \<Rightarrow> ('c, 'a, 'm) user_session \<Rightarrow> ('c, 'a, 'm) python_session
   \<Rightarrow> ('a, 'b) network_analysis \<Rightarrow> string result" where
  \<open>generatePythonBindings t ss us py na =
     andThen (getNetStateSourceInclude t) (\<lambda>netstate.
     andThen (generateTypeCasters t ss us py) (\<lambda>casters.
     andThen (generateRuntimeInterface t ss us py na) (\<lambda>interface.
     andThen (generateRuntimeTypeInterop ss py na) (\<lambda>types. Inr (
     ''#include "'' @ getStructuresInclude @ ''"\<newline>'' @ ''#include "'' @ netstate @ ''"\<newline>''
       @ generateRuntimeExterns ss @ casters @ interface @ types)))))\<close>

end
