(* ===== verification/Build_Program.thy ===== *)
theory Build_Program
  imports Build_Implementation Build_Generators Python_Generator Unreal_Generator Project_Files
begin

text \<open>
  The build of a component with the generators it uses: what \<open>build_implementation\<close> of
  \<open>src/src/driver/build_implementation.cpp\<close> calls for each generated file, over what it knows of a program.
\<close>

text \<open>
  A program is what the analysis database gives to the generators, with its translation units, and the texts that
  the compiler generates with the printers of the component: the accessors, the functions of the instances and the
  operations of a translation unit.
\<close>

record generated_unit =
  gu_name :: string
  gu_coordinator :: string
  gu_host :: string

record ('c, 'a, 'b, 'm) generated_program =
  pg_read :: "('c, 'a, 'b, 'm) read_session"
  pg_user :: "('c, 'a, 'm) user_session"
  pg_python :: "('c, 'a, 'm) python_session"
  pg_unreal :: "('c, 'a, 'm) unreal_session"
  pg_units :: "generated_unit list"
  pg_accessors :: "('m \<Rightarrow> string \<Rightarrow> string result) \<Rightarrow> ('m \<Rightarrow> string \<Rightarrow> string result) \<Rightarrow> string result"
  pg_instances :: "('m \<Rightarrow> string \<Rightarrow> string result) \<Rightarrow> ('m \<Rightarrow> string \<Rightarrow> string result) \<Rightarrow> string result"
  pg_operations :: "('a, 'b) network_analysis \<Rightarrow> project_tree \<Rightarrow> generated_unit \<Rightarrow> string list \<Rightarrow> string result"

section \<open>The texts\<close>

definition runtime_source ::
  "('c, 'a, 'b, 'm) generated_program \<Rightarrow> project_tree \<Rightarrow> ('a, 'b) network_analysis \<Rightarrow> string result" where
  \<open>runtime_source pg t na =
     (let ss = pg_read pg; reader = MegastructureReader_print ss na; writer = MegastructureWriter_print ss na in
      andThen (getNetStateSourceInclude t) (\<lambda>netstate.
      andThen (pg_accessors pg reader writer) (\<lambda>accessors.
      andThen (pg_instances pg reader writer) (\<lambda>instances. Inr (
        ''#include "'' @ getStructuresInclude @ ''"\<newline>'' @ ''#include "'' @ netstate @ ''"\<newline>'' @
        accessors @ instances @ generateMegaStructureClockImpl ss na)))))\<close>

definition component_type_of :: "string \<Rightarrow> component_type" where
  "component_type_of name =
     (if name = ''python'' then eComponent_Python else if name = ''unreal'' then eComponent_Unreal
      else if name = ''geometry'' then eComponent_Geometry else eComponent_Basic)"

text \<open>The analysis of the component is made once; each text is given the result.\<close>

definition analysed ::
  "('c, 'a, 'b, 'm) generated_program \<Rightarrow> project_tree \<Rightarrow> (('a, 'b) network_analysis \<Rightarrow> 'x result) \<Rightarrow> 'x result" where
  "analysed pg t f = andThen (NetworkAnalysis_ctor (pg_read pg) t) f"

definition program_api ::
  "(path \<Rightarrow> files \<Rightarrow> ('c, 'a, 'b, 'm) generated_program result) \<Rightarrow> (('c, 'a, 'b, 'm) generated_program, generated_unit) impl_api" where
  "program_api read = \<lparr>
     ir_open = read,
     ir_translationUnits = pg_units,
     ir_tu_name = gu_name,
     ir_tu_coordinator = gu_coordinator,
     ir_tu_host = gu_host,
     ir_networkAnalysis = (\<lambda>pg t. analysed pg t (\<lambda>na. Inr ())),
     ir_structures = (\<lambda>pg t. Inr (generateMegaBufferStructures (pg_read pg))),
     ir_netstate = (\<lambda>pg t. analysed pg t (generateMegaStructureNetStateHeader (pg_read pg) t)),
     ir_runtime = (\<lambda>pg t. analysed pg t (runtime_source pg t)),
     ir_configIO = (\<lambda>pg t. analysed pg t (generateConfigIO (pg_read pg) (pg_user pg) t)),
     ir_python = (\<lambda>pg t. analysed pg t (generatePythonBindings t (pg_read pg) (pg_user pg) (pg_python pg))),
     ir_unrealInterface = (\<lambda>pg t. generateUnrealInterface (pg_read pg) (pg_user pg) (pg_unreal pg)),
     ir_unreal = (\<lambda>pg t. analysed pg t (generateUnrealCode t (pg_read pg) (pg_user pg) (pg_unreal pg))),
     ir_component = (\<lambda>pg t ty. analysed pg t (\<lambda>na. generate_eg_component t (pg_read pg) na (component_type_of ty))),
     ir_implementation = (\<lambda>pg t u includes. analysed pg t (\<lambda>na. pg_operations pg na t u includes))\<rparr>"

section \<open>The files\<close>

text \<open>The files that belong to the component, with what is written to each; and those that are compiled.\<close>

definition program_files ::
  "('c, 'a, 'b, 'm) generated_program \<Rightarrow> project_tree \<Rightarrow> ('a, 'b) network_analysis \<Rightarrow> string \<Rightarrow> (component_file \<times> string result) list" where
  "program_files pg t na ty =
     [(K_NetState, generateMegaStructureNetStateHeader (pg_read pg) t na),
      (K_Runtime, runtime_source pg t na),
      (K_ConfigIO, generateConfigIO (pg_read pg) (pg_user pg) t na)] @
     (if ty = ''python''
      then [(K_Python, generatePythonBindings t (pg_read pg) (pg_user pg) (pg_python pg) na)]
      else if ty = ''unreal''
      then [(K_UnrealInterface, generateUnrealInterface (pg_read pg) (pg_user pg) (pg_unreal pg)),
            (K_Unreal, generateUnrealCode t (pg_read pg) (pg_user pg) (pg_unreal pg) na)]
      else []) @
     [(K_EGComponent, generate_eg_component t (pg_read pg) na (component_type_of ty))]"

definition compiled :: "component_file \<Rightarrow> bool" where
  "compiled f \<longleftrightarrow> f \<notin> {K_NetState, K_UnrealInterface}"

text \<open>\<open>updateFileIfChanged\<close> leaves the text in the file and the other files alone.\<close>

definition update_law :: "('h, 's, 'p, 'i, 'v) eg_api \<Rightarrow> bool" where
  "update_law api \<longleftrightarrow> (\<forall>p s fs. snd (fs_updateFileIfChanged api p s fs) = fs(p \<mapsto> s))"

lemma write_sourceE:
  assumes "write_source api p s x = Inr y"
  obtains q content where "p = Inr q" "s = Inr content" "y = (update_file api q content (fst x), snd x @ [q])"
  using assms by (auto simp: write_source_def elim!: andThen_InrE)

lemma update_file_files: "update_law api \<Longrightarrow> bw_files (update_file api p s w) = (bw_files w)(p \<mapsto> s)"
  by (simp add: update_file_def update_law_def)

text \<open>The files that are written, in order, with the list of those compiled.\<close>

fun write_files ::
  "('h, 's, 'p, 'i, 'v) eg_api \<Rightarrow> (component_file \<Rightarrow> path result) \<Rightarrow> (component_file \<times> string result) list
   \<Rightarrow> ('s, 'p, 'i) build_world \<times> path list \<Rightarrow> (('s, 'p, 'i) build_world \<times> path list) result" where
  "write_files api path [] x = Inr x"
| "write_files api path ((f, s) # fs) x =
     andThen s (\<lambda>text. andThen (path f) (\<lambda>q.
       write_files api path fs (update_file api q text (fst x), snd x @ (if compiled f then [q] else []))))"

lemma write_files_append:
  "write_files api path (fs @ gs) x = andThen (write_files api path fs x) (write_files api path gs)"
  by (induction api path fs x rule: write_files.induct) (auto simp: andThen_def split: sum.split)

lemma write_files_result:
  assumes "update_law api" and g: "inj_on g (fst ` set fs)" "distinct (map fst fs)"
    and "\<And>f. f \<in> fst ` set fs \<Longrightarrow> path f = Inr (g f)"
    and "write_files api path fs (w, ps) = Inr (w', ps')"
  shows "(\<forall>(f, s) \<in> set fs. \<exists>content. s = Inr content \<and> bw_files w' (g f) = Some content) \<and>
    (\<forall>q. q \<notin> g ` fst ` set fs \<longrightarrow> bw_files w' q = bw_files w q) \<and> ps' = ps @ map g (filter compiled (map fst fs))"
  using assms(2-)
proof (induction fs arbitrary: w ps)
  case Nil
  then show ?case by simp
next
  case (Cons x fs)
  obtain f s where x: "x = (f, s)" by (cases x)
  then obtain content where s: "s = Inr content"
    and rest: "write_files api path fs (update_file api (g f) content w, ps @ (if compiled f then [g f] else [])) = Inr (w', ps')"
    using Cons.prems(3) [of f] Cons.prems(4) by (auto elim!: andThen_InrE)
  have "inj_on g (fst ` set fs)" using Cons.prems(1) by (auto simp: inj_on_def)
  then have ih: "\<forall>(f, s) \<in> set fs. \<exists>content. s = Inr content \<and> bw_files w' (g f) = Some content"
    "\<forall>q. q \<notin> g ` fst ` set fs \<longrightarrow> bw_files w' q = bw_files (update_file api (g f) content w) q"
    "ps' = ps @ (if compiled f then [g f] else []) @ map g (filter compiled (map fst fs))"
    using Cons.IH [OF _ _ _ rest] Cons.prems(2,3) by auto
  have "g f \<notin> g ` fst ` set fs" using Cons.prems(1,2) by (force simp: x inj_on_def)
  then have "bw_files w' (g f) = Some content" using ih(2) by (simp add: update_file_files [OF assms(1)])
  then show ?case using ih by (auto simp: x s update_file_files [OF assms(1)])
qed

section \<open>The build writes the generated texts\<close>

lemma write_sources_files:
  assumes na: "NetworkAnalysis_ctor (pg_read pg) (cx_tree cx) = Inr na"
    and own: "tree_of_names (cx_tree cx) (names_of x) = cx_tree cx"
    and written: "write_sources api (program_api read) cx pg w = Inr (w', sources)"
  obtains pj frame scheduler where "ProjectTree_getProject (cx_tree cx) = Inr pj"
    "getCoroutineFrameSourceFilePath (cx_platform cx) (cx_environment cx) = Inr frame"
    "getBasicSchedulerFilePath (cx_platform cx) (cx_environment cx) = Inr scheduler"
    "write_files api (component_path (cx_platform cx) (cx_tree cx) x) (program_files pg (cx_tree cx) na (xp_Type (pj_host pj)))
      (update_file api (getDataStructureSource (cx_platform cx) (cx_tree cx)) (generateMegaBufferStructures (pg_read pg)) w,
       [frame, scheduler]) = Inr (w', sources)"
proof -
  let ?t = "cx_tree cx" and ?pf = "cx_platform cx"
  have apis [simp]: "ir_structures (program_api read) pg ?t = Inr (generateMegaBufferStructures (pg_read pg))"
    "ir_netstate (program_api read) pg ?t = generateMegaStructureNetStateHeader (pg_read pg) ?t na"
    "ir_runtime (program_api read) pg ?t = runtime_source pg ?t na"
    "ir_configIO (program_api read) pg ?t = generateConfigIO (pg_read pg) (pg_user pg) ?t na"
    "ir_python (program_api read) pg ?t = generatePythonBindings ?t (pg_read pg) (pg_user pg) (pg_python pg) na"
    "ir_unrealInterface (program_api read) pg ?t = generateUnrealInterface (pg_read pg) (pg_user pg) (pg_unreal pg)"
    "ir_unreal (program_api read) pg ?t = generateUnrealCode ?t (pg_read pg) (pg_user pg) (pg_unreal pg) na"
    "ir_component (program_api read) pg ?t ty = generate_eg_component ?t (pg_read pg) na (component_type_of ty)" for ty
    by (simp_all add: program_api_def analysed_def na)
  obtain frame scheduler osNetState netstate x1 x2 pj where run:
    "getCoroutineFrameSourceFilePath ?pf (cx_environment cx) = Inr frame"
    "getBasicSchedulerFilePath ?pf (cx_environment cx) = Inr scheduler"
    "generateMegaStructureNetStateHeader (pg_read pg) ?t na = Inr osNetState" "getNetStateSource ?pf ?t = Inr netstate"
    "write_source api (getRuntimeSource ?pf ?t) (runtime_source pg ?t na)
      (update_file api netstate osNetState
        (update_file api (getDataStructureSource ?pf ?t) (generateMegaBufferStructures (pg_read pg)) w), [frame, scheduler]) = Inr x1"
    "write_source api (getConfigIOSource ?pf ?t) (generateConfigIO (pg_read pg) (pg_user pg) ?t na) x1 = Inr x2"
    "ProjectTree_getProject ?t = Inr pj"
    "write_component_sources api (program_api read) cx pg (xp_Type (pj_host pj)) x2 = Inr (w', sources)"
    using written by (auto simp: write_sources_def Let_def elim!: andThen_InrE)
  show ?thesis
  proof (rule that [OF run(7,1,2)])
    show "write_files api (component_path ?pf ?t x) (program_files pg ?t na (xp_Type (pj_host pj)))
      (update_file api (getDataStructureSource ?pf ?t) (generateMegaBufferStructures (pg_read pg)) w, [frame, scheduler]) =
      Inr (w', sources)"
      using run(3-6,8)
      by (auto simp: program_files_def own compiled_def write_component_sources_def Let_def split: if_splits
          elim!: write_sourceE andThen_InrE)
  qed
qed

lemma program_files_simple:
  assumes "(f, s) \<in> set (program_files pg t na ty)"
  shows "component_file_ok f"
  using assms by (auto simp: program_files_def component_file_ok_def split: if_splits)

text \<open>C30.  When the build of a component has written its sources, each of its files holds the text of the generator
  for it, by the type of the project, and so does the header of the structures; no generator has failed, no other
  file has changed, and the sources to compile are those two of the library and every file written that is not a
  header.\<close>

theorem program_sources_written:
  assumes api: "update_law api"
    and t: "t = cx_tree cx" "canonical_root (cx_platform cx) (pt_path t)" "normal_name (pt_projectName t)"
    and x: "names_ok (names_of x)" "tree_of_names t (names_of x) = t"
    and na: "NetworkAnalysis_ctor (pg_read pg) t = Inr na"
    and pj: "ProjectTree_getProject t = Inr pj" "fs = program_files pg t na (xp_Type (pj_host pj))"
    and written: "write_sources api (program_api read) cx pg w = Inr (w', sources)"
  shows "list_all (\<lambda>(f, s). \<exists>p content. component_path (cx_platform cx) t x f = Inr p \<and> s = Inr content \<and> bw_files w' p = Some content) fs \<and>
    bw_files w' (getDataStructureSource (cx_platform cx) t) = Some (generateMegaBufferStructures (pg_read pg)) \<and>
    {p. bw_files w' p \<noteq> bw_files w p} \<subseteq>
      insert (getDataStructureSource (cx_platform cx) t) {p. Inr p \<in> component_path (cx_platform cx) t x ` fst ` set fs} \<and>
    map Inr (drop 2 sources) = map (component_path (cx_platform cx) t x) (filter compiled (map fst fs))"
proof -
  let ?pf = "cx_platform cx" and ?w = "update_file api (getDataStructureSource (cx_platform cx) t) (generateMegaBufferStructures (pg_read pg)) w"
  obtain frame scheduler where files: "write_files api (component_path ?pf t x) fs (?w, [frame, scheduler]) = Inr (w', sources)"
    by (rule write_sources_files [OF na [unfolded t(1)] x(2) [unfolded t(1)] written]) (use pj in \<open>simp add: t(1)\<close>)
  obtain c h p where n: "names_of x = (c, h, p)" by (cases "names_of x")
  define g where "g f = pt_path t @ [''impl'', c, h, p, component_file_name f]" for f
  have g: "component_path ?pf t x f = Inr (g f)" if f: "f \<in> fst ` set fs" for f
  proof -
    obtain s where "(f, s) \<in> set (program_files pg t na (xp_Type (pj_host pj)))" using f by (auto simp: pj(2))
    then show ?thesis using component_path_name [OF t(2) x(1) program_files_simple] by (simp add: n g_def)
  qed
  have inj: "inj_on g A" for A by (auto simp: inj_on_def g_def component_file_name_inj)
  have dist: "distinct (map fst fs)" unfolding pj(2) program_files_def by (auto split: if_splits)
  have struct: "getDataStructureSource ?pf t \<notin> g ` fst ` set fs"
    using interface_path_name [OF t(2,3), of F_Structures] by (auto simp: g_def file_ok_def)
  note res = write_files_result [OF api inj dist g files]
  have "list_all (\<lambda>(f, s). \<exists>p content. component_path ?pf t x f = Inr p \<and> s = Inr content \<and> bw_files w' p = Some content) fs"
    unfolding list_all_iff using res g by fastforce
  moreover have "bw_files w' (getDataStructureSource ?pf t) = Some (generateMegaBufferStructures (pg_read pg))"
    using res struct by (simp add: update_file_files [OF api])
  moreover have "{p. bw_files w' p \<noteq> bw_files w p} \<subseteq>
      insert (getDataStructureSource ?pf t) {p. Inr p \<in> component_path ?pf t x ` fst ` set fs}"
  proof
    fix q assume q: "q \<in> {p. bw_files w' p \<noteq> bw_files w p}"
    show "q \<in> insert (getDataStructureSource ?pf t) {p. Inr p \<in> component_path ?pf t x ` fst ` set fs}"
    proof (cases "q \<in> g ` fst ` set fs")
      case True
      then obtain f where "f \<in> fst ` set fs" "q = g f" by blast
      then show ?thesis using g [of f] by (metis (mono_tags, lifting) image_eqI insertCI mem_Collect_eq)
    next
      case False
      then have "bw_files w' q = bw_files ?w q" using res by blast
      then show ?thesis using q by (auto simp: update_file_files [OF api] split: if_splits)
    qed
  qed
  moreover have "map Inr (drop 2 sources) = map (component_path ?pf t x) (filter compiled (map fst fs))"
    using res g by (auto simp: image_iff)
  ultimately show ?thesis by blast
qed

end
