(* ===== verification/Program_Witnesses.thy ===== *)
theory Program_Witnesses
  imports Build_Program Config_Witnesses
begin

text \<open>
  The build of the sources of a component of the type unreal, of a program with an object and an action below it.
\<close>

definition written_session :: "(nat, nat, nat, nat) read_session" where
  "written_session = config_session\<lparr>rs_buffers := [], rs_interfaceTree := [IContext 1 []], rs_actionParent := (\<lambda>a. a \<noteq> 0)\<rparr>"

definition written_user :: "(nat, nat, nat) user_session" where
  "written_user = config_user\<lparr>us_dimension := (\<lambda>m. None)\<rparr>"

definition unreal_demo :: "(nat, nat, nat) unreal_session" where
  "unreal_demo = \<lparr>un_class = (\<lambda>c. ActionContext), un_hostname = (\<lambda>c. None), un_parent = (\<lambda>c. True), un_parentContext = (\<lambda>c. True),
     un_grandparent = (\<lambda>c. True), un_baseContexts = (\<lambda>c. []), un_totalDomainSize = (\<lambda>a. 3), un_linkGroups = [], un_links = (\<lambda>a. []),
     un_compatible = (\<lambda>c. []), un_userDimension = (\<lambda>m. None), un_visits = (\<lambda>c. [])\<rparr>"

definition python_demo :: "(nat, nat, nat) python_session" where
  "python_demo = \<lparr>py_contexts = [], py_contextParent = (\<lambda>c. True), py_interfaceType = (\<lambda>s. s), py_private = (\<lambda>c. False),
     py_hostDefine = (\<lambda>c. []), py_tu = (\<lambda>c. ([], [])), py_grandparent = (\<lambda>a. True), py_returnType = (\<lambda>c. []),
     py_parameters = (\<lambda>c. []), py_stateMember = (\<lambda>a. None), py_stopCycleMember = (\<lambda>a. None), py_EG_REFERENCE_TYPE = [],
     py_EG_TYPE_ID = [], py_EG_ACTION_STATE = [], py_EG_TIME_STAMP = [], py_running = [], py_paused = []\<rparr>"

definition written_program :: "(nat, nat, nat, nat) generated_program" where
  "written_program = \<lparr>pg_read = written_session, pg_user = written_user, pg_python = python_demo, pg_unreal = unreal_demo,
     pg_units = [], pg_accessors = (\<lambda>r w. Inr []), pg_instances = (\<lambda>r w. Inr []), pg_operations = (\<lambda>na t u is. Inr [])\<rparr>"

definition unreal_project :: project where
  "unreal_project = demo_project_dir\<lparr>pj_host := demo_host\<lparr>xp_Type := ''unreal''\<rparr>\<rparr>"

definition unreal_component :: tree_component where
  "unreal_component = (\<lparr>co_path = [''w'', ''src'', ''co''], co_hostNames = []\<rparr>,
     \<lparr>hn_path = [''w'', ''src'', ''co'', ''h1''], hn_projects = []\<rparr>,
     \<lparr>pn_path = [''w'', ''src'', ''co'', ''h1'', ''pr''], pn_sourceFiles = [], pn_project = unreal_project\<rparr>)"

definition unreal_tree :: project_tree where
  "unreal_tree = demo_network_tree\<lparr>pt_coordinators := [\<lparr>co_path = [''w'', ''src'', ''co''], co_hostNames = [
     \<lparr>hn_path = [''w'', ''src'', ''co'', ''h1''], hn_projects = [snd (snd unreal_component)]\<rparr>]\<rparr>]\<rparr>"

definition unreal_config :: build_config where
  "unreal_config = \<lparr>cx_platform = demo_platform, cx_environment = demo_environment, cx_tree = unreal_tree, cx_flags = []\<rparr>"

lemmas written_simps = written_session_def config_session_def demo_session_def unreal_tree_def demo_network_tree_def
  unreal_component_def

lemma unreal_analysis: "\<exists>na. NetworkAnalysis_ctor written_session unreal_tree = Inr na"
  by (simp add: written_simps demo_analysis_simps)

lemma unreal_getProject: "ProjectTree_getProject unreal_tree = Inr unreal_project"
  by (simp add: ProjectTree_getProject_def getProjectNamePtr_def written_simps component_names_def HostName_name_def
      Coordinator_name_def ProjectName_name_def filename_def)

lemma unreal_names: "names_of unreal_component = (''co'', ''h1'', ''pr'')"
  by (simp add: names_of_def unreal_component_def Coordinator_name_def HostName_name_def ProjectName_name_def filename_def)

lemma unreal_tree_names: "names_ok (''co'', ''h1'', ''pr'')" "tree_of_names unreal_tree (''co'', ''h1'', ''pr'') = unreal_tree"
  by (simp_all add: names_ok_def normal_name_def plain_name_def is_separator_def tree_of_names_def unreal_tree_def demo_network_tree_def)

lemma unreal_root: "canonical_root demo_platform (pt_path unreal_tree)"
  by (simp add: canonical_root_def absolute_path_def demo_platform_def)

lemma library_sources:
  "\<exists>p. getCoroutineFrameSourceFilePath demo_platform demo_environment = Inr p"
  "\<exists>p. getBasicSchedulerFilePath demo_platform demo_environment = Inr p"
proof -
  have "getCoroutineFrameSourceFilePath demo_platform demo_environment = Inr [''eg'',''include'',''eg'',''frame.cpp'']"
    "getBasicSchedulerFilePath demo_platform demo_environment = Inr [''eg'',''include'',''eg'',''basic_scheduler.cpp'']"
    by code_simp+
  then show "\<exists>p. getCoroutineFrameSourceFilePath demo_platform demo_environment = Inr p"
    "\<exists>p. getBasicSchedulerFilePath demo_platform demo_environment = Inr p" by simp_all
qed

lemma written_fields:
  "rs_actionContext written_session a = a" "rs_actionParent written_session a \<longleftrightarrow> a \<noteq> 0" "rs_instanceRoot written_session = 0"
  "rs_instanceTree written_session = [CAction 1 [CAction 2 [CAction 3 [CAction 5 [CDimension 50 5 None, CAction 6 [CDimension 60 6 None]]]]]]"
  "rs_interfaceTree written_session = [IContext 1 []]" "rs_rootType written_session (Suc 0) = Some eMegaRoot"
  "rs_buffers written_session = []" "rs_class written_session c = (if c = 5 then ObjectContext else ActionContext)"
  "ContextType written_session unreal_demo c = Inr \<lparr>isPointer = True, isEnumerable = True, isObject = True\<rparr>"
  "un_links unreal_demo a = []" "un_userDimension unreal_demo m = None" "un_parent unreal_demo c" "un_visits unreal_demo c = []"
  by (simp_all add: written_simps ContextType_def unreal_demo_def)

lemma unreal_includes: "getNetStateSourceInclude unreal_tree = Inr ''netstate.hpp''" "getUnrealInterfaceInclude unreal_tree = Inr ''unreal.hpp''"
  "getCoordinatorName unreal_tree = Inr ''co''" "getHostName unreal_tree = Inr ''h1''"
  by (simp_all add: written_simps getNetStateSourceInclude_def getUnrealInterfaceInclude_def component_names_def getHostName_def
      getCoordinatorName_def)

lemma written_texts:
  "\<exists>s. generateMegaStructureNetStateHeader written_session unreal_tree na = Inr s"
  "\<exists>s. runtime_source written_program unreal_tree na = Inr s"
  "\<exists>s. generateUnrealInterface written_session written_user unreal_demo = Inr s"
  "\<exists>s. generate_eg_component unreal_tree written_session na ty = Inr s"
  by (simp_all add: generateMegaStructureNetStateHeader_def runtime_source_def generateUnrealInterface_def RootAccessorVisitor_def
      actual_root_def generate_eg_component_def decodeWriteRequest_function_def written_program_def written_fields unreal_includes
      andThen_eq_Inr Let_def)

lemma written_root:
  "findComponentRoot unreal_tree written_session = Inr (Some (5, [CDimension 50 5 None, CAction 6 [CDimension 60 6 None]]))"
  by (simp add: findComponentRoot_def root_of_type_def written_simps getCoordinatorName_def getHostName_def verify_rte_def)

lemma written_trees:
  "gatherObjectTrees written_session written_user [] (buildTree written_user 5 [CDimension 50 5 None, CAction 6 [CDimension 60 6 None]]) =
     ([], True, ConstTree 5 [] [])"
  by (simp add: buildTree_def written_user_def written_fields Let_def)

lemma written_configIO: "\<exists>s. generateConfigIO written_session written_user unreal_tree na = Inr s"
  unfolding generateConfigIO_def andThen_eq_Inr written_root
  by (simp add: verify_rte_def written_trees written_fields unreal_includes andThen_eq_Inr)

lemma written_unreal: "\<exists>s. generateUnrealCode unreal_tree written_session written_user unreal_demo na = Inr s"
  by (simp add: generateUnrealCode_def generateImplementationDeclarations_def implementation_struct_def child_declaration_def
      RootAccessorDeclVisitor_def RootAccessorImplVisitor_def generateAllocations_def allocation_line_def
      generateImplementationDefinitions_def implementation_functions_def child_definition_def actual_root_def verify_rte_def
      written_fields unreal_includes andThen_eq_Inr Let_def)

lemma unreal_paths:
  "\<exists>p. getNetStateSource demo_platform unreal_tree = Inr p" "\<exists>p. getRuntimeSource demo_platform unreal_tree = Inr p"
  "\<exists>p. getConfigIOSource demo_platform unreal_tree = Inr p" "\<exists>p. getUnrealInterface demo_platform unreal_tree = Inr p"
  "\<exists>p. getUnrealSource demo_platform unreal_tree = Inr p" "\<exists>p. getEGComponentSource demo_platform unreal_tree = Inr p"
proof -
  have "component_names unreal_tree = Inr (''co'', ''h1'')" by (simp add: component_names_def written_simps)
  then show "\<exists>p. getNetStateSource demo_platform unreal_tree = Inr p" "\<exists>p. getRuntimeSource demo_platform unreal_tree = Inr p"
    "\<exists>p. getConfigIOSource demo_platform unreal_tree = Inr p" "\<exists>p. getUnrealInterface demo_platform unreal_tree = Inr p"
    "\<exists>p. getUnrealSource demo_platform unreal_tree = Inr p" "\<exists>p. getEGComponentSource demo_platform unreal_tree = Inr p"
    by (simp_all add: getNetStateSource_def getRuntimeSource_def getConfigIOSource_def getUnrealInterface_def getUnrealSource_def
        getEGComponentSource_def own_component_file_def unreal_includes)
qed

definition written_world :: "(path \<Rightarrow> nat option, unit, unit) build_world" where
  "written_world = \<lparr>bw_files = demo_files, bw_stash = (\<lambda>p. None), bw_process = eg_process_start, bw_parserChanged = False,
     bw_session_parser = None, bw_session_interface = None, bw_commands = []\<rparr>"

lemma written_runs:
  "\<exists>w' sources. write_sources demo_api (program_api (\<lambda>p fs. Inr written_program)) unreal_config written_program written_world =
     Inr (w', sources)"
proof -
  obtain na where na: "NetworkAnalysis_ctor written_session unreal_tree = Inr na" using unreal_analysis by blast
  have pg: "pg_read written_program = written_session" "pg_user written_program = written_user"
    "pg_unreal written_program = unreal_demo" by (simp_all add: written_program_def)
  have type: "xp_Type (pj_host unreal_project) = ''unreal''" by (simp add: unreal_project_def)
  obtain p1 p2 where p: "getCoroutineFrameSourceFilePath demo_platform demo_environment = Inr p1"
    "getBasicSchedulerFilePath demo_platform demo_environment = Inr p2" using library_sources by blast
  obtain q1 q2 q3 q4 q5 q6 where q:
    "getNetStateSource demo_platform unreal_tree = Inr q1" "getRuntimeSource demo_platform unreal_tree = Inr q2"
    "getConfigIOSource demo_platform unreal_tree = Inr q3" "getUnrealInterface demo_platform unreal_tree = Inr q4"
    "getUnrealSource demo_platform unreal_tree = Inr q5" "getEGComponentSource demo_platform unreal_tree = Inr q6"
    using unreal_paths by blast
  obtain s1 s2 s3 s4 s5 s6 where s:
    "generateMegaStructureNetStateHeader written_session unreal_tree na = Inr s1"
    "runtime_source written_program unreal_tree na = Inr s2"
    "generateConfigIO written_session written_user unreal_tree na = Inr s3"
    "generateUnrealInterface written_session written_user unreal_demo = Inr s4"
    "generateUnrealCode unreal_tree written_session written_user unreal_demo na = Inr s5"
    "generate_eg_component unreal_tree written_session na (component_type_of ''unreal'') = Inr s6"
    using written_texts written_configIO written_unreal by blast
  show ?thesis
    by (simp add: write_sources_def write_component_sources_def write_source_def program_api_def analysed_def pg na p q s type
        unreal_getProject unreal_config_def)
qed

theorem program_sources_written_witness:
  "\<exists>w' sources na p content.
     write_sources demo_api (program_api (\<lambda>p fs. Inr written_program)) unreal_config written_program written_world = Inr (w', sources) \<and>
     NetworkAnalysis_ctor written_session unreal_tree = Inr na \<and>
     getUnrealSource demo_platform unreal_tree = Inr p \<and>
     generateUnrealCode unreal_tree written_session written_user unreal_demo na = Inr content \<and> bw_files w' p = Some content"
proof -
  obtain na where na: "NetworkAnalysis_ctor written_session unreal_tree = Inr na" using unreal_analysis by blast
  obtain w' sources where run:
    "write_sources demo_api (program_api (\<lambda>p fs. Inr written_program)) unreal_config written_program written_world = Inr (w', sources)"
    using written_runs by blast
  have pg: "pg_read written_program = written_session" "pg_user written_program = written_user"
    "pg_unreal written_program = unreal_demo" by (simp_all add: written_program_def)
  have law: "update_law demo_api" by (simp add: update_law_def demo_api_def)
  have cx: "unreal_tree = cx_tree unreal_config" "cx_platform unreal_config = demo_platform" by (simp_all add: unreal_config_def)
  have name: "normal_name (pt_projectName unreal_tree)" by (simp add: unreal_tree_def demo_network_tree_def)
  have "list_all (\<lambda>(f, s). \<exists>p content. component_path demo_platform unreal_tree unreal_component f = Inr p \<and> s = Inr content \<and>
      bw_files w' p = Some content) (program_files written_program unreal_tree na (xp_Type (pj_host unreal_project)))"
    using program_sources_written [OF law cx(1) _ name, of unreal_component, OF _ _ _ _ unreal_getProject refl run]
      unreal_root unreal_names unreal_tree_names na by (simp add: cx(2) pg)
  then show ?thesis
    using run na by (auto simp: program_files_def unreal_project_def pg unreal_names unreal_tree_names)
qed

end
