(* ===== verification/Python_Binding.thy ===== *)
theory Python_Binding
  imports Component_Writes Program_Session
begin

text \<open>
  The objects that Python code holds, \<open>src/src/python\<close>: references to the actions of a program with the names that
  were looked up on them, their calls, and the iterator over the instances of a range.
\<close>

text \<open>
  What the binding calls, over the state \<open>'st\<close> of the program.
  \<^item> \<open>rt_getTypeID\<close>, \<open>rt_printType\<close>, \<open>rt_invoke\<close>: the runtime \<open>eg::EGRuntime\<close>: the type of a name, the text of a
    type, and the evaluation of an invocation, which may throw and may leave a result;
  \<^item> \<open>rt_getState\<close>, \<open>rt_getStopCycle\<close>, \<open>rt_getClockCycle\<close>, \<open>rt_getTimestamp\<close>: the generated
    \<open>eg::RuntimeTypeInterop\<close>;
  \<^item> \<open>rt_getActionState\<close>: the name of a state.
\<close>

record ('st, 'arg, 'o) python_runtime =
  rt_getTypeID :: "string \<Rightarrow> u32"
  rt_printType :: "u32 \<Rightarrow> string"
  rt_invoke :: "reference \<Rightarrow> u32 list \<Rightarrow> bool \<Rightarrow> 'arg list \<Rightarrow> 'st \<Rightarrow> (string + 'o option) \<times> 'st"
  rt_getState :: "'st \<Rightarrow> u32 \<Rightarrow> u32 \<Rightarrow> action_state"
  rt_getStopCycle :: "'st \<Rightarrow> u32 \<Rightarrow> u32 \<Rightarrow> u32"
  rt_getClockCycle :: "'st \<Rightarrow> u32 \<Rightarrow> u32"
  rt_getTimestamp :: "'st \<Rightarrow> u32 \<Rightarrow> u32 \<Rightarrow> u32"
  rt_getActionState :: "action_state \<Rightarrow> string"

section \<open>References\<close>

record python_reference =
  pr_reference :: reference
  pr_type_path :: "u32 list"

text \<open>What a function gives to Python: \<open>None\<close>, a reference, a text or the result of an evaluation.\<close>

datatype 'o py_object = Py_None | Py_Reference python_reference | Py_Text string | Py_Object 'o

definition PythonEGReferenceFactory_create :: "reference \<Rightarrow> python_reference" where
  "PythonEGReferenceFactory_create egReference = \<lparr>pr_reference = egReference, pr_type_path = []\<rparr>"

definition PythonEGReference_get :: "('st, 'arg, 'o) python_runtime \<Rightarrow> python_reference \<Rightarrow> string \<Rightarrow> 'o py_object" where
  "PythonEGReference_get rt ref pszAttributeIdentity =
     (let typeID = rt_getTypeID rt pszAttributeIdentity in
      if typeID = 0 then Py_None
      else Py_Reference ((PythonEGReferenceFactory_create (pr_reference ref))\<lparr>pr_type_path := pr_type_path ref @ [typeID]\<rparr>))"

text \<open>An assignment to an attribute succeeds and does nothing.\<close>

definition PythonEGReference_set :: "python_reference \<Rightarrow> string \<Rightarrow> 'o py_object \<Rightarrow> int \<times> python_reference" where
  "PythonEGReference_set ref pszAttributeIdentity pValue = (0, ref)"

definition PythonEGReference_str :: "('st, 'arg, 'o) python_runtime \<Rightarrow> 'st \<Rightarrow> python_reference \<Rightarrow> string" where
  "PythonEGReference_str rt st ref =
     (let r = pr_reference ref in
      ''type: '' @ rt_printType rt (ref_type r) @
      '' instance: '' @ dec (uint (ref_instance r)) @ '' typeid: '' @ dec (sint (ref_type r)) @
      '' timestamp: '' @ dec (uint (ref_timestamp r)) @
      (if pr_type_path ref = [] then [] else '' type path: '') @
      concat (map (\<lambda>i. dec (sint i) @ '' '') (pr_type_path ref)) @
      (if 0 < sint (ref_type r)
       then '' state: '' @ rt_getActionState rt (rt_getState rt st (ref_type r) (ref_instance r))
       else '' state: null''))"

definition PythonEGReferenceFactory_invoke ::
  "('st, 'arg, 'o) python_runtime \<Rightarrow> reference \<Rightarrow> u32 list \<Rightarrow> 'arg list \<Rightarrow> 'st \<Rightarrow> 'o py_object \<times> 'st" where
  "PythonEGReferenceFactory_invoke rt reference typePath args st =
     (if ref_type reference \<noteq> 0
      then case rt_invoke rt reference typePath (args \<noteq> []) args st of
             (Inl ex, st') \<Rightarrow> (Py_None, st')
           | (Inr (Some res), st') \<Rightarrow> (Py_Object res, st')
           | (Inr None, st') \<Rightarrow> (Py_None, st')
      else (Py_None, st))"

definition PythonEGReference_call ::
  "('st, 'arg, 'o) python_runtime \<Rightarrow> python_reference \<Rightarrow> 'arg list \<Rightarrow> 'st \<Rightarrow> 'o py_object \<times> 'st" where
  "PythonEGReference_call rt ref args st =
     (if 0 < sint (ref_type (pr_reference ref))
      then PythonEGReferenceFactory_invoke rt (pr_reference ref) (pr_type_path ref) args st
      else (Py_None, st))"

text \<open>The entries of the Python type: on an object without a reference the error of the protocol.\<close>

definition type_get :: "('st, 'arg, 'o) python_runtime \<Rightarrow> python_reference option \<Rightarrow> string \<Rightarrow> 'o py_object option" where
  "type_get rt self pClosure = (case self of Some pRef \<Rightarrow> Some (PythonEGReference_get rt pRef pClosure) | None \<Rightarrow> None)"

definition type_set :: "python_reference option \<Rightarrow> 'o py_object \<Rightarrow> string \<Rightarrow> int \<times> python_reference option" where
  "type_set self pValue pClosure =
     (case self of
        Some pRef \<Rightarrow> (let (r, ref) = PythonEGReference_set pRef pClosure pValue in (r, Some ref))
      | None \<Rightarrow> (- 1, None))"

definition type_str :: "('st, 'arg, 'o) python_runtime \<Rightarrow> 'st \<Rightarrow> python_reference option \<Rightarrow> 'o py_object option" where
  "type_str rt st self = (case self of Some pRef \<Rightarrow> Some (Py_Text (PythonEGReference_str rt st pRef)) | None \<Rightarrow> None)"

definition type_call ::
  "('st, 'arg, 'o) python_runtime \<Rightarrow> python_reference option \<Rightarrow> 'arg list \<Rightarrow> 'st \<Rightarrow> 'o py_object option \<times> 'st" where
  "type_call rt callable args st =
     (case callable of
        Some pRef \<Rightarrow> (let (r, st') = PythonEGReference_call rt pRef args st in (Some r, st'))
      | None \<Rightarrow> (None, st))"

section \<open>The iterator\<close>

text \<open>A range of the runtime: subranges of instances, each of one type.  It is known by its address.\<close>

record egrange =
  rg_raw :: bool
  rg_size :: u32
  rg_begin :: "u32 \<Rightarrow> u32"
  rg_end :: "u32 \<Rightarrow> u32"
  rg_type :: "u32 \<Rightarrow> u32"

record python_iterator =
  pi_range :: nat
  pi_position :: u32
  pi_subRange :: u32

text \<open>The inner loop: over the subranges that are at their end.\<close>

lemma word_nearer: "x \<noteq> e \<Longrightarrow> unat (e - (x + 1)) < unat (e - x)" for x e :: u32
proof -
  assume "x \<noteq> e"
  then have "e - x \<noteq> 0" by simp
  moreover have "e - (x + 1) = e - x - 1" by simp
  ultimately show ?thesis by (metis unat_minus_one diff_less less_numeral_extra(1) unat_gt_0)
qed

function leave_ended :: "egrange \<Rightarrow> u32 \<Rightarrow> u32 \<Rightarrow> u32 \<times> u32" where
  "leave_ended rg pos sub =
     (if sub \<noteq> rg_size rg \<and> pos = rg_end rg sub
      then if sub + 1 = rg_size rg then (pos, sub + 1) else leave_ended rg (rg_begin rg (sub + 1)) (sub + 1)
      else (pos, sub))"
  by pat_completeness auto

termination leave_ended
  by (relation "measure (\<lambda>(rg, pos, sub). unat (rg_size rg - sub))") (simp_all add: word_nearer)

declare leave_ended.simps [simp del]

lemma leave_ended_nearer:
  assumes "leave_ended rg pos sub = (pos', sub')" "sub' \<noteq> rg_size rg"
  shows "pos' \<noteq> rg_end rg sub' \<and>
    ((pos', sub') = (pos, sub) \<or> unat (rg_size rg - sub') < unat (rg_size rg - sub))"
  using assms
proof (induction rg pos sub rule: leave_ended.induct)
  case (1 rg pos sub)
  show ?case
  proof (cases "sub \<noteq> rg_size rg \<and> pos = rg_end rg sub \<and> sub + 1 \<noteq> rg_size rg")
    case True
    then have "leave_ended rg (rg_begin rg (sub + 1)) (sub + 1) = (pos', sub')"
      using 1(2) by (subst (asm) leave_ended.simps) simp
    then have "pos' \<noteq> rg_end rg sub' \<and> ((pos', sub') = (rg_begin rg (sub + 1), sub + 1) \<or>
        unat (rg_size rg - sub') < unat (rg_size rg - (sub + 1)))"
      using 1(1) True 1(3) by simp
    then show ?thesis using word_nearer [of sub "rg_size rg"] True by auto
  next
    case False
    then show ?thesis using 1(2,3) by (subst (asm) leave_ended.simps) (auto split: if_splits)
  qed
qed

text \<open>Whether an instance is one that Python sees: of a raw range each; otherwise not one that stopped in an earlier
  cycle.\<close>

definition position_valid :: "('st, 'arg, 'o) python_runtime \<Rightarrow> 'st \<Rightarrow> egrange \<Rightarrow> u32 \<Rightarrow> u32 \<Rightarrow> bool" where
  "position_valid rt st rg pos sub \<longleftrightarrow>
     rg_raw rg \<or>
     (let type = rg_type rg sub in
      rt_getState rt st type pos \<noteq> action_stopped \<or> rt_getStopCycle rt st type pos = rt_getClockCycle rt st type)"

function scanToNextOrEnd :: "('st, 'arg, 'o) python_runtime \<Rightarrow> 'st \<Rightarrow> egrange \<Rightarrow> u32 \<Rightarrow> u32 \<Rightarrow> u32 \<times> u32" where
  "scanToNextOrEnd rt st rg pos sub =
     (case leave_ended rg pos sub of
        (pos', sub') \<Rightarrow>
          if sub' = rg_size rg \<or> position_valid rt st rg pos' sub' then (pos', sub')
          else scanToNextOrEnd rt st rg (pos' + 1) sub')"
  by pat_completeness auto

lemma scan_nearer:
  assumes "(pos', sub') = leave_ended rg pos sub" "sub' \<noteq> rg_size rg"
  shows "unat (rg_size rg - sub') < unat (rg_size rg - sub) \<or>
    unat (rg_size rg - sub') = unat (rg_size rg - sub) \<and> unat (rg_end rg sub' - (pos' + 1)) < unat (rg_end rg sub - pos)"
  using leave_ended_nearer [OF assms(1) [symmetric] assms(2)] word_nearer [of pos' "rg_end rg sub'"] by auto

termination scanToNextOrEnd
  by (relation "measures [\<lambda>(rt, st, rg, pos, sub). unat (rg_size rg - sub), \<lambda>(rt, st, rg, pos, sub). unat (rg_end rg sub - pos)]")
    (auto dest: scan_nearer)

declare scanToNextOrEnd.simps [simp del]

definition PythonIterator_ctor ::
  "('st, 'arg, 'o) python_runtime \<Rightarrow> 'st \<Rightarrow> (nat \<Rightarrow> egrange) \<Rightarrow> nat \<Rightarrow> bool \<Rightarrow> python_iterator" where
  "PythonIterator_ctor rt st ranges pRange bEnd =
     (let rg = ranges pRange in
      if bEnd then \<lparr>pi_range = pRange, pi_position = 0, pi_subRange = rg_size rg\<rparr>
      else if 0 \<noteq> rg_size rg
      then let (pos, sub) = scanToNextOrEnd rt st rg (rg_begin rg 0) 0 in
           \<lparr>pi_range = pRange, pi_position = pos, pi_subRange = sub\<rparr>
      else \<lparr>pi_range = pRange, pi_position = 0, pi_subRange = 0\<rparr>)"

definition PythonIterator_increment ::
  "('st, 'arg, 'o) python_runtime \<Rightarrow> 'st \<Rightarrow> (nat \<Rightarrow> egrange) \<Rightarrow> python_iterator \<Rightarrow> python_iterator" where
  "PythonIterator_increment rt st ranges it =
     (let (pos, sub) = scanToNextOrEnd rt st (ranges (pi_range it)) (pi_position it + 1) (pi_subRange it) in
      it\<lparr>pi_position := pos, pi_subRange := sub\<rparr>)"

definition PythonIterator_postfix ::
  "('st, 'arg, 'o) python_runtime \<Rightarrow> 'st \<Rightarrow> (nat \<Rightarrow> egrange) \<Rightarrow> python_iterator \<Rightarrow> python_iterator \<times> python_iterator" where
  "PythonIterator_postfix rt st ranges it = (it, PythonIterator_increment rt st ranges it)"

definition PythonIterator_equal :: "(nat \<Rightarrow> egrange) \<Rightarrow> python_iterator \<Rightarrow> python_iterator \<Rightarrow> bool" where
  "PythonIterator_equal ranges it rhs \<longleftrightarrow>
     pi_range it = pi_range rhs \<and> pi_subRange it = pi_subRange rhs \<and>
     (pi_subRange it = rg_size (ranges (pi_range it)) \<or> pi_position it = pi_position rhs)"

definition PythonIterator_deref ::
  "('st, 'arg, 'o) python_runtime \<Rightarrow> 'st \<Rightarrow> (nat \<Rightarrow> egrange) \<Rightarrow> python_iterator \<Rightarrow> 'o py_object" where
  "PythonIterator_deref rt st ranges it =
     (let rg = ranges (pi_range it) in
      if pi_subRange it = rg_size rg then Py_None
      else let typeID = rg_type rg (pi_subRange it) in
           Py_Reference (PythonEGReferenceFactory_create
             \<lparr>ref_instance = pi_position it, ref_type = typeID,
              ref_timestamp = rt_getTimestamp rt st typeID (pi_position it)\<rparr>))"

end
