(* ===== verification/Python_Iteration.thy ===== *)
theory Python_Iteration
  imports Python_Binding
begin

text \<open>
  A Python loop over a range: which instances of the program it sees.
\<close>

text \<open>A client compares with the end iterator, takes the object and increments.  The rounds are bounded.\<close>

fun iterate ::
  "nat \<Rightarrow> ('st, 'arg, 'o) python_runtime \<Rightarrow> 'st \<Rightarrow> (nat \<Rightarrow> egrange) \<Rightarrow> python_iterator \<Rightarrow> 'o py_object list option" where
  "iterate 0 rt st ranges it = None"
| "iterate (Suc n) rt st ranges it =
     (if PythonIterator_equal ranges it (PythonIterator_ctor rt st ranges (pi_range it) True) then Some []
      else map_option (Cons (PythonIterator_deref rt st ranges it)) (iterate n rt st ranges (PythonIterator_increment rt st ranges it)))"

text \<open>The visible instances of a subrange from one on, and from a place of the range on.\<close>

definition visible_in :: "('st, 'arg, 'o) python_runtime \<Rightarrow> 'st \<Rightarrow> egrange \<Rightarrow> nat \<Rightarrow> nat \<Rightarrow> (nat \<times> nat) list" where
  "visible_in rt st rg p s =
     map (\<lambda>j. (j, s)) (filter (\<lambda>j. position_valid rt st rg (of_nat j) (of_nat s)) [p..<unat (rg_end rg (of_nat s))])"

definition visible_later :: "('st, 'arg, 'o) python_runtime \<Rightarrow> 'st \<Rightarrow> egrange \<Rightarrow> nat \<Rightarrow> (nat \<times> nat) list" where
  "visible_later rt st rg s = concat (map (\<lambda>k. visible_in rt st rg (unat (rg_begin rg (of_nat k))) k) [s..<unat (rg_size rg)])"

definition visible_from :: "('st, 'arg, 'o) python_runtime \<Rightarrow> 'st \<Rightarrow> egrange \<Rightarrow> nat \<Rightarrow> nat \<Rightarrow> (nat \<times> nat) list" where
  "visible_from rt st rg p s = visible_in rt st rg p s @ visible_later rt st rg (Suc s)"

definition visible_reference :: "('st, 'arg, 'o) python_runtime \<Rightarrow> 'st \<Rightarrow> egrange \<Rightarrow> nat \<times> nat \<Rightarrow> 'o py_object" where
  "visible_reference rt st rg x =
     (let ty = rg_type rg (of_nat (snd x)) in
      Py_Reference \<lparr>pr_reference = \<lparr>ref_instance = of_nat (fst x), ref_type = ty,
        ref_timestamp = rt_getTimestamp rt st ty (of_nat (fst x))\<rparr>, pr_type_path = []\<rparr>)"

text \<open>The subranges do not end before they begin.\<close>

definition range_ok :: "egrange \<Rightarrow> bool" where
  "range_ok rg \<longleftrightarrow> (\<forall>s < unat (rg_size rg). unat (rg_begin rg (of_nat s)) \<le> unat (rg_end rg (of_nat s)))"

text \<open>A place of a range.\<close>

definition place_ok :: "egrange \<Rightarrow> nat \<Rightarrow> nat \<Rightarrow> bool" where
  "place_ok rg p s \<longleftrightarrow> s < unat (rg_size rg) \<and> p \<le> unat (rg_end rg (of_nat s))"

lemma of_nat_u32: "n \<le> unat (w :: u32) \<Longrightarrow> unat (of_nat n :: u32) = n"
proof -
  assume "n \<le> unat w"
  moreover have "unat w < 2 ^ LENGTH(32)" by (rule unsigned_less)
  ultimately show ?thesis by (simp add: unat_of_nat take_bit_nat_eq_self)
qed

lemma of_nat_eq_u32: "n \<le> unat w \<Longrightarrow> (of_nat n :: u32) = w \<longleftrightarrow> n = unat w"
  using of_nat_u32 by fastforce

lemma visible_later_Cons:
  "s < unat (rg_size rg) \<Longrightarrow>
   visible_later rt st rg s = visible_from rt st rg (unat (rg_begin rg (of_nat s))) s"
  by (simp add: visible_later_def visible_from_def upt_conv_Cons)

lemma visible_later_end: "visible_later rt st rg (unat (rg_size rg)) = []"
  by (simp add: visible_later_def)

text \<open>Leaving the subranges at their end keeps what is visible.\<close>

lemma leave_ended_visible:
  assumes "range_ok rg" "place_ok rg p s" "leave_ended rg (of_nat p) (of_nat s) = (pos', sub')"
  shows "(sub' = rg_size rg \<and> visible_from rt st rg p s = []) \<or>
    (\<exists>p' s'. pos' = of_nat p' \<and> sub' = of_nat s' \<and> place_ok rg p' s' \<and> p' < unat (rg_end rg sub') \<and>
      visible_from rt st rg p s = visible_from rt st rg p' s')"
  using assms(2,3)
proof (induction "unat (rg_size rg) - s" arbitrary: p s)
  case 0
  then show ?case by (simp add: place_ok_def)
next
  case (Suc k)
  then have s: "s < unat (rg_size rg)" and p: "p \<le> unat (rg_end rg (of_nat s))" by (simp_all add: place_ok_def)
  have sub: "(of_nat s :: u32) \<noteq> rg_size rg" using of_nat_eq_u32 [of s "rg_size rg"] s by simp
  have suc: "(of_nat s :: u32) + 1 = of_nat (Suc s)" by simp
  show ?case
  proof (cases "p = unat (rg_end rg (of_nat s))")
    case False
    then have "(of_nat p :: u32) \<noteq> rg_end rg (of_nat s)" using of_nat_eq_u32 p by blast
    then have "leave_ended rg (of_nat p) (of_nat s) = (of_nat p, of_nat s)" by (subst leave_ended.simps) simp
    then show ?thesis using Suc.prems False p by (intro disjI2 exI [of _ p] exI [of _ s]) (auto simp: place_ok_def)
  next
    case True
    then have last: "(of_nat p :: u32) = rg_end rg (of_nat s)" by simp
    have vis: "visible_from rt st rg p s = visible_later rt st rg (Suc s)"
      by (simp add: visible_from_def visible_in_def True)
    show ?thesis
    proof (cases "Suc s = unat (rg_size rg)")
      case True
      then have "(of_nat s :: u32) + 1 = rg_size rg" unfolding suc by simp
      then have "sub' = rg_size rg" using Suc.prems(2) sub last by (subst (asm) leave_ended.simps) simp
      then show ?thesis using vis by (simp add: True visible_later_end)
    next
      case False
      then have s': "Suc s < unat (rg_size rg)" using s by simp
      then have "(of_nat s :: u32) + 1 \<noteq> rg_size rg"
        unfolding suc using of_nat_eq_u32 [of "Suc s" "rg_size rg"] by simp
      then have run: "leave_ended rg (of_nat (unat (rg_begin rg (of_nat (Suc s))))) (of_nat (Suc s)) = (pos', sub')"
        using Suc.prems(2) sub last suc by (subst (asm) leave_ended.simps) simp
      have "place_ok rg (unat (rg_begin rg (of_nat (Suc s)))) (Suc s)"
        using assms(1) s' by (auto simp: place_ok_def range_ok_def simp del: of_nat_Suc)
      then show ?thesis
        using Suc.hyps(1) [OF _ _ run] Suc.hyps(2) unfolding vis visible_later_Cons [OF s'] by simp
    qed
  qed
qed

lemma visible_from_here:
  assumes "p < unat (rg_end rg (of_nat s))"
  shows "visible_from rt st rg p s =
    (if position_valid rt st rg (of_nat p) (of_nat s) then [(p, s)] else []) @ visible_from rt st rg (Suc p) s"
  using assms by (simp add: visible_from_def visible_in_def upt_conv_Cons)

text \<open>The scan stops at the first visible instance.\<close>

lemma scan_visible:
  assumes "range_ok rg" "place_ok rg p s" "scanToNextOrEnd rt st rg (of_nat p) (of_nat s) = (pos', sub')"
  shows "(sub' = rg_size rg \<and> visible_from rt st rg p s = []) \<or>
    (\<exists>p' s'. pos' = of_nat p' \<and> sub' = of_nat s' \<and> s' < unat (rg_size rg) \<and> place_ok rg (Suc p') s' \<and>
      visible_from rt st rg p s = (p', s') # visible_from rt st rg (Suc p') s')"
  using assms
proof (induction rt st rg "of_nat p :: u32" "of_nat s :: u32" arbitrary: p s rule: scanToNextOrEnd.induct)
  case (1 rt st rg p s)
  obtain pos1 sub1 where ended: "leave_ended rg (of_nat p) (of_nat s) = (pos1, sub1)" by fastforce
  consider "sub1 = rg_size rg" "visible_from rt st rg p s = []"
    | p1 s1 where "pos1 = of_nat p1" "sub1 = of_nat s1" "place_ok rg p1 s1" "p1 < unat (rg_end rg sub1)"
      "visible_from rt st rg p s = visible_from rt st rg p1 s1"
    using leave_ended_visible [where rt = rt and st = st, OF 1(2,3) ended] by blast
  then show ?case
  proof cases
    case 1
    then show ?thesis using "1.prems"(3) ended by (subst (asm) scanToNextOrEnd.simps) simp
  next
    case 2
    then have here: "visible_from rt st rg p s =
      (if position_valid rt st rg pos1 sub1 then [(p1, s1)] else []) @ visible_from rt st rg (Suc p1) s1"
      using visible_from_here [of p1 rg s1 rt st] by simp
    have place: "place_ok rg (Suc p1) s1" "s1 < unat (rg_size rg)" using 2 by (auto simp: place_ok_def)
    have sub: "sub1 \<noteq> rg_size rg" using of_nat_eq_u32 [of s1 "rg_size rg"] place(2) 2(2) by simp
    show ?thesis
    proof (cases "position_valid rt st rg pos1 sub1")
      case True
      then have "(pos', sub') = (pos1, sub1)" using "1.prems"(3) ended by (subst (asm) scanToNextOrEnd.simps) simp
      then show ?thesis using 2 here place True by (intro disjI2 exI [of _ p1] exI [of _ s1]) simp
    next
      case False
      then have run: "scanToNextOrEnd rt st rg (pos1 + 1) sub1 = (pos', sub')"
        using "1.prems"(3) ended sub by (subst (asm) scanToNextOrEnd.simps) simp
      have "pos1 + 1 = of_nat (Suc p1)" by (simp add: 2(1))
      moreover have "\<not> (of_nat s1 = rg_size rg \<or> position_valid rt st rg pos1 (of_nat s1))" using sub False 2(2) by simp
      ultimately show ?thesis
        using "1.hyps" [where p = "Suc p1" and s = s1 and x = pos1, OF _ _ _ "1.prems"(1) place(1)] ended run here False 2(2)
        by (simp add: add.commute)
    qed
  qed
qed

section \<open>The loop\<close>

lemma iterate_end:
  "pi_subRange it = rg_size (ranges (pi_range it)) \<Longrightarrow> iterate (Suc n) rt st ranges it = Some []"
  by (simp add: PythonIterator_equal_def PythonIterator_ctor_def Let_def)

lemma iterate_scan:
  assumes ok: "range_ok (ranges r)"
  shows "place_ok (ranges r) p s \<Longrightarrow> scanToNextOrEnd rt st (ranges r) (of_nat p) (of_nat s) = (pos, sub) \<Longrightarrow>
    visible_from rt st (ranges r) p s = vs \<Longrightarrow> length vs < n \<Longrightarrow>
    iterate n rt st ranges \<lparr>pi_range = r, pi_position = pos, pi_subRange = sub\<rparr> = Some (map (visible_reference rt st (ranges r)) vs)"
proof (induction vs arbitrary: n p s pos sub)
  case Nil
  then have "sub = rg_size (ranges r)" using scan_visible [OF ok Nil(1,2)] by auto
  then show ?case using Nil(4) by (cases n) (simp_all add: iterate_end del: iterate.simps(2))
next
  case (Cons v vs)
  let ?rg = "ranges r"
  obtain p' s' where found: "pos = of_nat p'" "sub = of_nat s'" "s' < unat (rg_size ?rg)" "place_ok ?rg (Suc p') s'"
    "v = (p', s')" "visible_from rt st ?rg (Suc p') s' = vs"
    using scan_visible [OF ok Cons.prems(1,2)] Cons.prems(3) by auto
  obtain k where n: "n = Suc k" "length vs < k" using Cons.prems(4) by (cases n) auto
  obtain pos' sub' where scan: "scanToNextOrEnd rt st ?rg (of_nat (Suc p')) (of_nat s') = (pos', sub')" by fastforce
  have "sub \<noteq> rg_size ?rg" using of_nat_eq_u32 [of s' "rg_size ?rg"] found(2,3) by simp
  then have "\<not> PythonIterator_equal ranges \<lparr>pi_range = r, pi_position = pos, pi_subRange = sub\<rparr> (PythonIterator_ctor rt st ranges r True)"
    "PythonIterator_deref rt st ranges \<lparr>pi_range = r, pi_position = pos, pi_subRange = sub\<rparr> = visible_reference rt st ?rg v"
    by (simp_all add: PythonIterator_equal_def PythonIterator_ctor_def PythonIterator_deref_def visible_reference_def
        PythonEGReferenceFactory_create_def found Let_def)
  moreover have "PythonIterator_increment rt st ranges \<lparr>pi_range = r, pi_position = pos, pi_subRange = sub\<rparr> =
      \<lparr>pi_range = r, pi_position = pos', pi_subRange = sub'\<rparr>"
    using scan by (simp add: PythonIterator_increment_def found add.commute)
  ultimately show ?case using Cons.IH [OF found(4) scan found(6) n(2)] by (simp add: n(1))
qed

text \<open>C32.  A Python loop over a range ends, and it sees a reference to each instance of each subrange, in order and
  once, that has not stopped in an earlier cycle; of a raw range it sees all of them.\<close>

theorem python_iteration:
  assumes "range_ok (ranges r)"
    and "length (visible_later rt st (ranges r) 0) < n"
  shows "iterate n rt st ranges (PythonIterator_ctor rt st ranges r False) =
    Some (map (visible_reference rt st (ranges r)) (visible_later rt st (ranges r) 0))"
proof (cases "rg_size (ranges r) = 0")
  case True
  then show ?thesis
    using assms(2) by (cases n) (simp_all add: PythonIterator_ctor_def PythonIterator_equal_def visible_later_def Let_def)
next
  case False
  then have size: "0 < unat (rg_size (ranges r))" by (simp add: unat_gt_0)
  let ?b = "unat (rg_begin (ranges r) 0)"
  obtain pos sub where scan: "scanToNextOrEnd rt st (ranges r) (of_nat ?b) (of_nat 0) = (pos, sub)" by fastforce
  have place: "place_ok (ranges r) ?b 0" using assms(1) size unfolding range_ok_def by (auto simp: place_ok_def dest: spec [of _ 0])
  have later: "visible_later rt st (ranges r) 0 = visible_from rt st (ranges r) ?b 0"
    using visible_later_Cons [OF size] by simp
  have "PythonIterator_ctor rt st ranges r False = \<lparr>pi_range = r, pi_position = pos, pi_subRange = sub\<rparr>"
    using scan False by (simp add: PythonIterator_ctor_def)
  then show ?thesis using iterate_scan [where ranges = ranges and r = r, OF assms(1) place scan refl] assms(2) later by simp
qed

text \<open>Two subranges of two types; one instance of each is stopped, of the second type in this cycle.\<close>

definition demo_runtime :: "(unit, nat, nat) python_runtime" where
  "demo_runtime = \<lparr>rt_getTypeID = (\<lambda>s. 1), rt_printType = (\<lambda>t. []), rt_invoke = (\<lambda>r p b as st. (Inr None, st)),
     rt_getState = (\<lambda>st t i. if i = 1 then action_stopped else action_running),
     rt_getStopCycle = (\<lambda>st t i. if t = 8 then 5 else 3), rt_getClockCycle = (\<lambda>st t. 5), rt_getTimestamp = (\<lambda>st t i. 9),
     rt_getActionState = (\<lambda>s. [])\<rparr>"

definition demo_range :: egrange where
  "demo_range = \<lparr>rg_raw = False, rg_size = 2, rg_begin = (\<lambda>s. 0), rg_end = (\<lambda>s. 2), rg_type = (\<lambda>s. if s = 0 then 7 else 8)\<rparr>"

theorem python_iteration_witness:
  "iterate 5 demo_runtime () (\<lambda>r. demo_range) (PythonIterator_ctor demo_runtime () (\<lambda>r. demo_range) 0 False) =
    Some (map (visible_reference demo_runtime () demo_range) [(0, 0), (0, 1), (1, 1)])"
proof -
  have vis: "visible_later demo_runtime () demo_range 0 = [(0, 0), (0, 1), (1, 1)]"
    by (simp add: visible_later_def visible_in_def position_valid_def demo_range_def demo_runtime_def upt_rec)
  show ?thesis
    using python_iteration [of "\<lambda>r. demo_range" 0 demo_runtime "()" 5] unfolding vis
    by (simp add: range_ok_def demo_range_def)
qed

end
