(* ===== verification/Driver_Commands.thy ===== *)
theory Driver_Commands
  imports Build_Implementation
begin

text \<open>
  \<open>src/src/driver\<close>: the program \<open>eg\<close>, its choice of a command and the commands: the builds, the removal of what
  they generate, and the report about a project.  The bodies of the commands \<open>create\<close>, \<open>run\<close> and \<open>log\<close> are commented
  out in the sources: these read their options and print their help.
\<close>

section \<open>Options\<close>

text \<open>The variables that \<open>boost::program_options\<close> sets, with their values where an option is not given.\<close>

record build_options =
  bo_strDirectory :: string
  bo_strProject :: string
  bo_strCoordinator :: string
  bo_strHost :: string
  bo_binPath :: path
  bo_bFullRebuild :: bool
  bo_flags :: "string list"
  bo_names :: string

record clean_options =
  cl_strDirectory :: string
  cl_strProject :: string
  cl_bAssets :: bool

record info_options =
  io_strDirectory :: string
  io_strProject :: string
  io_bCode :: bool
  io_bAbstract :: bool
  io_bConcrete :: bool
  io_bFiles :: bool
  io_bAll :: bool

record main_options =
  mo_bGeneralWait :: bool
  mo_bCmdCreate :: bool
  mo_strBuildCommand :: string
  mo_bCmdRun :: bool
  mo_bCmdLog :: bool
  mo_bCmdClean :: bool
  mo_bCmdInfo :: bool
  mo_help :: bool
  mo_commandArguments :: "string list"

datatype main_command =
  eCmd_Create | eCmd_Build | eCmd_Run | eCmd_Log | eCmd_Clean | eCmd_Info | TOTAL_MAIN_COMMANDS

text \<open>
  What the program uses beyond the builds.
  \<^item> \<open>dt_main\<close> and the others of its kind: the options that the library reads from the arguments, or its exception;
    \<open>dt_usage\<close>: the description it prints of them;
  \<^item> \<open>dt_is_directory\<close>: of \<open>boost::filesystem\<close>; \<open>dt_environment\<close>: the environment of the process;
  \<^item> \<open>dt_session\<close>, \<open>dt_code\<close>, \<open>dt_abstract\<close>, \<open>dt_concrete\<close>: \<open>eg::ReadSession\<close> and what its trees print;
  \<^item> \<open>dt_interface_order\<close>, \<open>dt_implementation_order\<close>: the schedulers of the builds.
\<close>

record ('h, 's, 'p, 'i, 'v, 'r, 'u, 'q) driver_tools =
  dt_main :: "string list \<Rightarrow> main_options result"
  dt_create :: "string list \<Rightarrow> unit result"
  dt_build :: "string list \<Rightarrow> build_options result"
  dt_run :: "string list \<Rightarrow> unit result"
  dt_log :: "string list \<Rightarrow> unit result"
  dt_clean :: "string list \<Rightarrow> clean_options result"
  dt_info :: "string list \<Rightarrow> info_options result"
  dt_usage :: "main_command \<Rightarrow> string"
  dt_platform :: platform
  dt_is_directory :: "path \<Rightarrow> bool"
  dt_environment :: environment
  dt_api :: "('h, 's, 'p, 'i, 'v) eg_api"
  dt_impl :: "('r, 'u) impl_api"
  dt_interface_order :: "node list \<Rightarrow> nat list"
  dt_implementation_order :: "'u impl_task list \<Rightarrow> 'u impl_task list"
  dt_session :: "path \<Rightarrow> files \<Rightarrow> 'q result"
  dt_code :: "'q \<Rightarrow> string"
  dt_abstract :: "'q \<Rightarrow> string"
  dt_concrete :: "'q \<Rightarrow> string"

text \<open>The files, the process, and what the commands print themselves.\<close>

record driver_world =
  dw_files :: files
  dw_process :: eg_process
  dw_output :: string

definition say :: "string \<Rightarrow> driver_world \<Rightarrow> driver_world" where
  "say s w = w\<lparr>dw_output := dw_output w @ s\<rparr>"

section \<open>The folder of a project\<close>

definition project_directory :: "('h, 's, 'p, 'i, 'v, 'r, 'u, 'q) driver_tools \<Rightarrow> string \<Rightarrow> path result" where
  "project_directory dt strDirectory =
     (let projectDirectory = absolute_path (dt_platform dt) (path_of strDirectory) in
      if \<not> pf_exists (dt_platform dt) projectDirectory
      then Inl (Rte (''Specified directory does not exist: '' @ generic_string projectDirectory))
      else if \<not> dt_is_directory dt projectDirectory
      then Inl (Rte (''Specified path is not a directory: '' @ generic_string projectDirectory))
      else Inr projectDirectory)"

definition project_tree_at ::
  "('h, 's, 'p, 'i, 'v, 'r, 'u, 'q) driver_tools \<Rightarrow> path \<Rightarrow> string \<Rightarrow> eg_process \<Rightarrow> (project_tree \<times> eg_process) result" where
  "project_tree_at dt projectDirectory strProject ps =
     andThen (Environment_ctor (dt_environment dt)) (\<lambda>environment.
       ProjectTree_ctor (dt_platform dt) environment projectDirectory strProject ps)"

section \<open>Removal\<close>

text \<open>\<open>boost::filesystem::remove_all\<close>: a folder and everything in it.\<close>

definition remove_all_files :: "path \<Rightarrow> files \<Rightarrow> files" where
  "remove_all_files p fs = (\<lambda>q. if take (length p) q = p then None else fs q)"

definition remove_folder :: "platform \<Rightarrow> path \<Rightarrow> driver_world \<Rightarrow> driver_world" where
  "remove_folder pf p w =
     (if pf_exists pf p
      then (say (''Removing: '' @ generic_string p @ ''\<newline>'') w)\<lparr>dw_files := remove_all_files p (dw_files w)\<rparr>
      else w)"

definition remove_generated :: "platform \<Rightarrow> project_tree \<Rightarrow> driver_world \<Rightarrow> driver_world" where
  "remove_generated pf t w =
     remove_folder pf (getStashFolder t) (remove_folder pf (getImplFolder t) (remove_folder pf (getInterfaceFolder t) w))"

definition command_clean ::
  "('h, 's, 'p, 'i, 'v, 'r, 'u, 'q) driver_tools \<Rightarrow> bool \<Rightarrow> string list \<Rightarrow> driver_world \<Rightarrow> driver_world result" where
  "command_clean dt bHelp args w =
     andThen (dt_clean dt args) (\<lambda>opts.
       if bHelp then Inr (say (dt_usage dt eCmd_Clean @ ''\<newline>'') w)
       else andThen (project_directory dt (cl_strDirectory opts)) (\<lambda>projectDirectory.
         if cl_strProject opts = [] then Inr (say ''Missing project name\<newline>'' w)
         else andThen (project_tree_at dt projectDirectory (cl_strProject opts) (dw_process w)) (\<lambda>(t, ps).
           (let w1 = remove_generated (dt_platform dt) t (w\<lparr>dw_process := ps\<rparr>) in
            Inr (if cl_bAssets opts then remove_folder (dt_platform dt) (getAssetStashFolder t) w1 else w1)))))"

section \<open>The builds\<close>

text \<open>\<open>boost::tokenizer\<close> with the separator \<open>;\<close>: the parts that are not empty.\<close>

fun tokenise :: "string \<Rightarrow> string \<Rightarrow> string list" where
  "tokenise acc [] = (if acc = [] then [] else [rev acc])"
| "tokenise acc (c # cs) =
     (if c = CHR '';'' then (if acc = [] then [] else [rev acc]) @ tokenise [] cs else tokenise (c # acc) cs)"

definition default_flags :: string where
  "default_flags = ''-O3 -mllvm -polly -MD -DNDEBUG -D_ALLOW_COMPILER_AND_STL_VERSION_MISMATCH -DWIN32_LEAN_AND_MEAN -D_DLL -DNOMINMAX -DBOOST_ALL_NO_LIB -D_CRT_SECURE_NO_WARNINGS -DBOOST_USE_WINDOWS_H -D_WIN32_WINNT=0x0601 -DWIN32 -D_WINDOWS -Xclang -std=c++17 -Xclang -fcoroutines-ts -Xclang -flto-visibility-public-std -Xclang -Wno-deprecated -Xclang -fexceptions -Xclang -Wno-inconsistent-missing-override''"

definition compilation_flags :: "string list \<Rightarrow> driver_world \<Rightarrow> string \<times> driver_world" where
  "compilation_flags flags w =
     (let strCompilationFlags = concat (map (\<lambda>str. str @ '' '') flags) in
      if strCompilationFlags = []
      then (default_flags, say ''Warning using default compiler flags as none specified\<newline>'' w)
      else (strCompilationFlags, w))"

text \<open>The state after a build.\<close>

definition built :: "('s, 'p, 'i) build_world \<Rightarrow> driver_world \<Rightarrow> driver_world" where
  "built b w = w\<lparr>dw_files := bw_files b, dw_process := bw_process b\<rparr>"

definition run_build ::
  "('h, 's, 'p, 'i, 'v, 'r, 'u, 'q) driver_tools \<Rightarrow> build_options \<Rightarrow> path \<Rightarrow> string \<Rightarrow> driver_world \<Rightarrow> driver_world result" where
  "run_build dt opts projectDirectory strCompilationFlags w =
     (if bo_strCoordinator opts = [] \<and> bo_strHost opts = []
      then andThen (build_interface (dt_api dt) (dt_platform dt) (dt_environment dt) projectDirectory
               (bo_strProject opts) strCompilationFlags (dt_interface_order dt) (dw_files w) (dw_process w))
             (\<lambda>b. Inr (built b w))
      else andThen (verify_rte (bo_strCoordinator opts \<noteq> []) ''Missing Coordinator'') (\<lambda>_.
           andThen (verify_rte (bo_strHost opts \<noteq> []) ''Missing Host Name'') (\<lambda>_.
           andThen (build_implementation (dt_api dt) (dt_impl dt) (dt_platform dt) (dt_environment dt) projectDirectory
               (bo_strCoordinator opts) (bo_strHost opts) (bo_strProject opts) strCompilationFlags
               (tokenise [] (bo_names opts)) (bo_binPath opts) (dt_implementation_order dt) (dw_files w) (dw_process w))
             (\<lambda>b. Inr (built b w)))))"

definition full_rebuild ::
  "('h, 's, 'p, 'i, 'v, 'r, 'u, 'q) driver_tools \<Rightarrow> build_options \<Rightarrow> path \<Rightarrow> driver_world \<Rightarrow> driver_world result" where
  "full_rebuild dt opts projectDirectory w =
     (if bo_bFullRebuild opts
      then andThen (project_tree_at dt projectDirectory (bo_strProject opts) (dw_process w)) (\<lambda>(t, ps).
             Inr (remove_generated (dt_platform dt) t (w\<lparr>dw_process := ps\<rparr>)))
      else Inr w)"

definition command_build ::
  "('h, 's, 'p, 'i, 'v, 'r, 'u, 'q) driver_tools \<Rightarrow> bool \<Rightarrow> string \<Rightarrow> string list \<Rightarrow> driver_world \<Rightarrow> driver_world result" where
  "command_build dt bHelp strBuildCommand args w =
     andThen (dt_build dt args) (\<lambda>opts.
       if bHelp then Inr (say (dt_usage dt eCmd_Build @ ''\<newline>'') w)
       else if strBuildCommand = [] then Inr (say ''Missing build command type\<newline>'' w)
       else (case compilation_flags (bo_flags opts) w of (strCompilationFlags, w1) \<Rightarrow>
         if bo_strProject opts = [] then Inr (say ''Missing project name\<newline>'' w1)
         else andThen (project_directory dt (bo_strDirectory opts)) (\<lambda>projectDirectory.
              andThen (full_rebuild dt opts projectDirectory w1) (\<lambda>w2.
                run_build dt opts projectDirectory strCompilationFlags w2))))"

section \<open>The other commands\<close>

definition command_create ::
  "('h, 's, 'p, 'i, 'v, 'r, 'u, 'q) driver_tools \<Rightarrow> bool \<Rightarrow> string list \<Rightarrow> driver_world \<Rightarrow> driver_world result" where
  "command_create dt bHelp args w =
     andThen (dt_create dt args) (\<lambda>_. Inr (if bHelp then say (dt_usage dt eCmd_Create @ ''\<newline>'') w else w))"

definition command_run ::
  "('h, 's, 'p, 'i, 'v, 'r, 'u, 'q) driver_tools \<Rightarrow> bool \<Rightarrow> string list \<Rightarrow> driver_world \<Rightarrow> driver_world result" where
  "command_run dt bHelp args w =
     andThen (dt_run dt args) (\<lambda>_. Inr (if bHelp then say (dt_usage dt eCmd_Run @ ''\<newline>'') w else w))"

definition command_log ::
  "('h, 's, 'p, 'i, 'v, 'r, 'u, 'q) driver_tools \<Rightarrow> bool \<Rightarrow> string list \<Rightarrow> driver_world \<Rightarrow> driver_world result" where
  "command_log dt bHelp args w =
     andThen (dt_log dt args) (\<lambda>_. Inr (if bHelp then say (dt_usage dt eCmd_Log @ ''\<newline>'') w else w))"

definition info_forms :: "info_options \<Rightarrow> info_options" where
  "info_forms opts =
     (if io_bAll opts \<or> \<not> io_bCode opts \<and> \<not> io_bAbstract opts \<and> \<not> io_bConcrete opts \<and> \<not> io_bFiles opts
      then opts\<lparr>io_bAll := True, io_bCode := True, io_bAbstract := True, io_bConcrete := True, io_bFiles := True\<rparr>
      else opts)"

definition info_files :: "project_tree \<Rightarrow> string" where
  "info_files t =
     ''Megastructure Project File Structure Info.\<newline>'' @
     ''Project Root:     '' @ generic_string (pt_path t) @ ''\<newline>'' @
     ''Interface:        '' @ generic_string (getInterfaceFolder t) @ ''\<newline>'' @
     ''Impl:             '' @ generic_string (getImplFolder t) @ ''\<newline>'' @
     ''Build:            '' @ generic_string (getBuildFolder t) @ ''\<newline>''"

definition info_session ::
  "('h, 's, 'p, 'i, 'v, 'r, 'u, 'q) driver_tools \<Rightarrow> info_options \<Rightarrow> project_tree \<Rightarrow> driver_world \<Rightarrow> driver_world result" where
  "info_session dt opts t w =
     (if io_bCode opts \<or> io_bAbstract opts \<or> io_bConcrete opts
      then andThen (dt_session dt (getAnalysisFileName (dt_platform dt) t) (dw_files w)) (\<lambda>session. Inr (say (
             (if io_bCode opts then ''//Code\<newline>'' @ dt_code dt session @ ''\<newline>\<newline>\<newline>'' else []) @
             (if io_bAbstract opts then ''//Abstract Interface\<newline>'' @ dt_abstract dt session @ ''\<newline>\<newline>\<newline>'' else []) @
             (if io_bConcrete opts then ''//Concrete Memory Model\<newline>'' @ dt_concrete dt session @ ''\<newline>\<newline>\<newline>'' else [])) w))
      else Inr w)"

definition command_info ::
  "('h, 's, 'p, 'i, 'v, 'r, 'u, 'q) driver_tools \<Rightarrow> bool \<Rightarrow> string list \<Rightarrow> driver_world \<Rightarrow> driver_world result" where
  "command_info dt bHelp args w =
     andThen (dt_info dt args) (\<lambda>opts0.
       if bHelp then Inr (say (dt_usage dt eCmd_Info @ ''\<newline>'') w)
       else (let opts = info_forms opts0 in
         if io_strProject opts = [] then Inr (say ''Missing project name\<newline>'' w)
         else andThen (project_directory dt (io_strDirectory opts)) (\<lambda>projectDirectory.
              andThen (project_tree_at dt projectDirectory (io_strProject opts) (dw_process w)) (\<lambda>(t, ps).
                (let w1 = w\<lparr>dw_process := ps\<rparr> in
                 info_session dt opts t (if io_bFiles opts then say (info_files t) w1 else w1))))))"

section \<open>The program\<close>

text \<open>Each command that is given replaces the one before; the count of the commands is taken before any is set.\<close>

definition chosen_command :: "main_options \<Rightarrow> main_command" where
  "chosen_command opts =
     (let cmd = TOTAL_MAIN_COMMANDS;
          cmd = (if mo_bCmdCreate opts then eCmd_Create else cmd);
          cmd = (if mo_strBuildCommand opts \<noteq> [] then eCmd_Build else cmd);
          cmd = (if mo_bCmdRun opts then eCmd_Run else cmd);
          cmd = (if mo_bCmdLog opts then eCmd_Log else cmd);
          cmd = (if mo_bCmdClean opts then eCmd_Clean else cmd) in
      if mo_bCmdInfo opts then eCmd_Info else cmd)"

definition dispatch_command ::
  "('h, 's, 'p, 'i, 'v, 'r, 'u, 'q) driver_tools \<Rightarrow> main_options \<Rightarrow> driver_world \<Rightarrow> (int \<times> driver_world) result" where
  "dispatch_command dt opts w =
     (let help = mo_help opts; args = mo_commandArguments opts; ran = (\<lambda>r. andThen r (\<lambda>w'. Inr (0, w'))) in
      case chosen_command opts of
        eCmd_Create \<Rightarrow> ran (command_create dt help args w)
      | eCmd_Build \<Rightarrow> ran (command_build dt help (mo_strBuildCommand opts) args w)
      | eCmd_Run \<Rightarrow> ran (command_run dt help args w)
      | eCmd_Log \<Rightarrow> ran (command_log dt help args w)
      | eCmd_Clean \<Rightarrow> ran (command_clean dt help args w)
      | eCmd_Info \<Rightarrow> ran (command_info dt help args w)
      | TOTAL_MAIN_COMMANDS \<Rightarrow>
          Inr (if help then (0, say (dt_usage dt TOTAL_MAIN_COMMANDS @ ''\<newline>'') w)
               else (1, say (''Invalid command. Type '' @ [CHR 0x27] @ ''--help'' @ [CHR 0x27] @ '' for options\<newline>'') w)))"

text \<open>The exit code; an exception is caught and gives 1, with the files as the command left them.\<close>

definition driver_main ::
  "('h, 's, 'p, 'i, 'v, 'r, 'u, 'q) driver_tools \<Rightarrow> string list \<Rightarrow> driver_world \<Rightarrow> (int \<times> driver_world option) result" where
  "driver_main dt argv w =
     (case andThen (dt_main dt argv) (\<lambda>opts. dispatch_command dt opts w) of
        Inr (code, w') \<Rightarrow> Inr (code, Some w')
      | Inl (Rte e) \<Rightarrow> Inr (1, None)
      | Inl (Ub e) \<Rightarrow> Inl (Ub e))"

end
