(* ===== verification/Driver_Properties.thy ===== *)
theory Driver_Properties
  imports Driver_Commands Build_Witnesses
begin

text \<open>
  What the commands do with the files: \<open>clean\<close> leaves nothing that was generated and everything else, and a full
  build of an interface removes a file that the build needs.
\<close>

section \<open>Removal\<close>

definition within_folder :: "path \<Rightarrow> path \<Rightarrow> bool" where
  "within_folder p q \<longleftrightarrow> take (length p) q = p"

text \<open>The folders that \<open>clean\<close> and a full build remove.\<close>

definition generated_folders :: "platform \<Rightarrow> path \<Rightarrow> string \<Rightarrow> path list" where
  "generated_folders pf root project =
     (let t = \<lparr>pt_path = absolute_path pf root, pt_coordinatorName = None, pt_hostName = None,
               pt_projectName = project, pt_coordinators = []\<rparr> in
      [getInterfaceFolder t, getImplFolder t, getStashFolder t])"

definition is_generated :: "platform \<Rightarrow> path \<Rightarrow> string \<Rightarrow> path \<Rightarrow> bool" where
  "is_generated pf root project q \<longleftrightarrow> list_ex (\<lambda>p. within_folder p q) (generated_folders pf root project)"

text \<open>A file lies in a folder that exists.\<close>

definition files_on_disk :: "platform \<Rightarrow> path list \<Rightarrow> files \<Rightarrow> bool" where
  "files_on_disk pf folders fs \<longleftrightarrow> (\<forall>p q. p \<in> set folders \<longrightarrow> within_folder p q \<longrightarrow> fs q \<noteq> None \<longrightarrow> pf_exists pf p)"

lemma remove_folder_files:
  assumes "\<And>q. within_folder p q \<Longrightarrow> dw_files w q \<noteq> None \<Longrightarrow> pf_exists pf p"
  shows "dw_files (remove_folder pf p w) = (\<lambda>q. if within_folder p q then None else dw_files w q)"
  using assms by (fastforce simp: remove_folder_def say_def remove_all_files_def within_folder_def)

lemma project_tree_at_folders:
  assumes "project_tree_at dt root project ps = Inr (t, ps')"
  shows "[getInterfaceFolder t, getImplFolder t, getStashFolder t] = generated_folders (dt_platform dt) root project"
proof -
  obtain env where "ProjectTree_ctor (dt_platform dt) env root project ps = Inr (t, ps')"
    using assms by (auto simp: project_tree_at_def andThen_eq_Inr)
  then have "pt_path t = absolute_path (dt_platform dt) root" "pt_projectName t = project"
    unfolding ProjectTree_ctor_def absolute_path_def
    by (auto dest!: ProjectTree_commonCtor_shape(2))
  then show ?thesis
    by (simp add: generated_folders_def Let_def getInterfaceFolder_def getImplFolder_def getStashFolder_def)
qed

lemma remove_generated_files:
  assumes folders: "[getInterfaceFolder t, getImplFolder t, getStashFolder t] = generated_folders pf root project"
    and disk: "files_on_disk pf (generated_folders pf root project) (dw_files w)"
  shows "dw_files (remove_generated pf t w) = (\<lambda>q. if is_generated pf root project q then None else dw_files w q)"
proof -
  note disk = disk [unfolded files_on_disk_def folders [symmetric]]
  let ?a = "remove_folder pf (getInterfaceFolder t) w"
  have a: "dw_files ?a = (\<lambda>q. if within_folder (getInterfaceFolder t) q then None else dw_files w q)"
    by (rule remove_folder_files) (use disk in auto)
  let ?b = "remove_folder pf (getImplFolder t) ?a"
  have b: "dw_files ?b = (\<lambda>q. if within_folder (getImplFolder t) q then None else dw_files ?a q)"
    by (rule remove_folder_files) (use disk in \<open>auto simp: a split: if_splits\<close>)
  have "dw_files (remove_folder pf (getStashFolder t) ?b) =
      (\<lambda>q. if within_folder (getStashFolder t) q then None else dw_files ?b q)"
    by (rule remove_folder_files) (use disk in \<open>auto simp: a b split: if_splits\<close>)
  then show ?thesis
    by (simp add: remove_generated_def a b is_generated_def folders [symmetric] fun_eq_iff)
qed

section \<open>Clean\<close>

lemma command_clean_files:
  assumes "command_clean dt False args w = Inr w'" and "dt_clean dt args = Inr opts" "cl_strProject opts \<noteq> []" "\<not> cl_bAssets opts"
    and "root = absolute_path (dt_platform dt) (path_of (cl_strDirectory opts))"
    and "files_on_disk (dt_platform dt) (generated_folders (dt_platform dt) root (cl_strProject opts)) (dw_files w)"
  shows "dw_files w' = (\<lambda>q. if is_generated (dt_platform dt) root (cl_strProject opts) q then None else dw_files w q)"
proof -
  obtain t ps where t: "project_tree_at dt root (cl_strProject opts) (dw_process w) = Inr (t, ps)"
    and w': "w' = remove_generated (dt_platform dt) t (w\<lparr>dw_process := ps\<rparr>)"
    using assms(1-5) by (auto simp: command_clean_def andThen_eq_Inr project_directory_def Let_def split: if_splits)
  show ?thesis
    using remove_generated_files [OF project_tree_at_folders [OF t], of "w\<lparr>dw_process := ps\<rparr>"] assms(6)
    by (simp add: w' fun_eq_iff)
qed

section \<open>The resource header\<close>

text \<open>The build of the interface includes \<open>resource.hpp\<close> of the interface folder, and no task writes it.  The
  tasks that may run before the one that includes it:\<close>

definition early_task :: "task \<Rightarrow> bool" where
  "early_task t \<longleftrightarrow> t = Task_ParserSession \<or> (\<exists>c. t = Task_ParserSessionCopy c)"

text \<open>Restoring a file and storing a database write that file; the entries of a directory are names.\<close>

definition writes_own_file :: "('h, 's, 'p, 'i, 'v) eg_api \<Rightarrow> bool" where
  "writes_own_file api \<longleftrightarrow>
     (\<forall>p q h s fs fs'. sh_restore api p h s fs = Some fs' \<longrightarrow> q \<noteq> p \<longrightarrow> fs' q = fs q) \<and>
     (\<forall>p q x fs. q \<noteq> p \<longrightarrow> eg_parser_store api p x fs q = fs q)"

definition directory_names :: "platform \<Rightarrow> bool" where
  "directory_names pf \<longleftrightarrow> (\<forall>p. list_all (\<lambda>e. normal_name (fst e)) (pf_dir pf p))"

lemma subfolder_name: "directory_names pf \<Longrightarrow> q \<in> set (subfolders pf p) \<Longrightarrow> normal_name (filename q)"
  by (fastforce simp: directory_names_def subfolders_def list_all_iff)

lemma tree_component_names:
  assumes names: "directory_names pf" and shape: "tree_shape t = coordinator_folders pf name src"
    and x: "x \<in> set (tree_components t project)"
  shows "names_ok (names_of x)"
proof -
  obtain c h p where xs: "x = (c, h, p)" by (cases x)
  have mem: "c \<in> set (pt_coordinators t)" "h \<in> set (co_hostNames c)" "p \<in> set (hn_projects h)"
    using x by (auto simp: xs tree_components_def)
  then have "coordinator_shape c \<in> set (coordinator_folders pf name src)" by (auto simp: shape [symmetric] tree_shape_def)
  then have c: "co_path c \<in> set (subfolders pf src)" and hs: "map host_shape (co_hostNames c) = host_folders pf name (co_path c)"
    by (auto simp: coordinator_folders_def coordinator_shape_def)
  then have "host_shape h \<in> set (host_folders pf name (co_path c))" using mem(2) by (metis image_eqI list.set_map)
  then have h: "hn_path h \<in> set (subfolders pf (co_path c))" and ps: "map pn_path (hn_projects h) = project_folders pf name (hn_path h)"
    by (auto simp: host_folders_def host_shape_def)
  then have "pn_path p \<in> set (project_folders pf name (hn_path h))" using mem(3) by (metis image_eqI list.set_map)
  then have "pn_path p \<in> set (subfolders pf (hn_path h))" by (simp add: project_folders_def)
  with c h show ?thesis
    using subfolder_name [OF names] by (simp add: xs names_of_def names_ok_def Coordinator_name_def HostName_name_def ProjectName_name_def)
qed

lemma early_task_keeps:
  assumes root: "canonical_root (cx_platform cx) (pt_path (cx_tree cx))" "normal_name (pt_projectName (cx_tree cx))"
    and early: "early_task t" and names: "\<And>c. t = Task_ParserSessionCopy c \<Longrightarrow> names_ok (names_of c)"
    and run: "run_task api cx t w = Inr (w', o')" and none: "bw_files w (getResourceHeader (cx_tree cx)) = None"
  shows "bw_files w' (getResourceHeader (cx_tree cx)) = None"
proof (cases "t = Task_ParserSession")
  case False
  then obtain c where t: "t = Task_ParserSessionCopy c" using early by (auto simp: early_task_def)
  obtain co h p where n: "names_of c = (co, h, p)" by (cases "names_of c")
  have target: "getComponentParserDatabase (cx_platform cx) (cx_tree cx) (ref_of_component c) =
      Inr (pt_path (cx_tree cx) @ [''impl'', co, h, p, ''parser.db''])"
    using component_path_name [OF root(1) names [OF t], of K_ParserDatabase] n
    by (cases c) (auto simp: component_file_ok_def component_ref_of_def ref_of_component_def)
  have "getResourceHeader (cx_tree cx) = pt_path (cx_tree cx) @ [''interface'', pt_projectName (cx_tree cx), ''resource.hpp'']"
    using interface_path_name [OF root, of F_ResourceHeader] by (simp add: file_ok_def)
  then show ?thesis
    using run none target
    by (auto simp: t run_task_def run_ParserSessionCopy_def Let_def andThen_eq_Inr copy_file_def split: if_splits option.splits)
qed (use run none in \<open>auto simp: run_task_def run_ParserSession_def\<close>)

lemma late_task_waits:
  assumes "graph_ok ts" "valid_order ts order" "k < length order" "\<not> early_task (fst (ts ! (order ! k)))"
    "fst (ts ! (order ! k)) \<noteq> Task_MainIncludePCH"
  shows "\<exists>j < k. \<not> early_task (fst (ts ! (order ! j)))"
proof -
  let ?i = "order ! k"
  have i: "?i < length ts" using assms(2,3) nth_mem unfolding valid_order_def by blast
  obtain t where t: "t \<in> set (required_tasks (fst (ts ! ?i)))" "\<not> early_task t"
    using assms(4,5) by (cases "fst (ts ! ?i)") (auto simp: early_task_def)
  obtain j where j: "j \<in> set (snd (ts ! ?i))" "is_at ts j t"
    using assms(1) i t(1) unfolding graph_ok_def node_ok_def by blast
  have "j \<in> set (take k order)" using assms(2,3) j(1) unfolding valid_order_def by blast
  then obtain l where "l < k" "order ! l = j" by (auto simp: in_set_conv_nth)
  then show ?thesis using j(2) t(2) by (auto simp: is_at_def)
qed

lemma build_without_header:
  assumes root: "canonical_root (cx_platform cx) (pt_path (cx_tree cx))" "normal_name (pt_projectName (cx_tree cx))"
    and names: "\<And>c i. i < length ts \<Longrightarrow> fst (ts ! i) = Task_ParserSessionCopy c \<Longrightarrow> names_ok (names_of c)"
    and graph: "graph_ok ts" and order: "valid_order ts order" "set order = {..<length ts}"
    and last: "ts \<noteq> []" "\<not> early_task (fst (last ts))"
  shows "order = pre @ rest \<Longrightarrow> (\<And>i. i \<in> set pre \<Longrightarrow> early_task (fst (ts ! i))) \<Longrightarrow>
    bw_files w (getResourceHeader (cx_tree cx)) = None \<Longrightarrow> \<exists>e. run_order api cx ts rest w = Inl e"
proof (induction rest arbitrary: pre w)
  case Nil
  have "length ts - 1 \<in> set order" using last(1) order(2) by simp
  then have "early_task (fst (ts ! (length ts - 1)))" using Nil(1,2) by simp
  then show ?case using last by (simp add: last_conv_nth)
next
  case (Cons i rest)
  have k: "order ! length pre = i" "length pre < length order" using Cons.prems(1) by simp_all
  have i: "i < length ts" using Cons.prems(1) order(2) by auto
  have "\<not> (\<exists>j < length pre. \<not> early_task (fst (ts ! (order ! j))))"
    using Cons.prems(1,2) by (simp add: nth_append)
  then consider (early) "early_task (fst (ts ! i))" | (header) "fst (ts ! i) = Task_MainIncludePCH"
    using late_task_waits [OF graph order(1) k(2)] k(1) by auto
  then show ?case
  proof cases
    case early
    show ?thesis
    proof (cases "run_task api cx (fst (ts ! i)) w")
      case (Inr r)
      obtain w' o' where r: "r = (w', o')" by (cases r)
      have "bw_files w' (getResourceHeader (cx_tree cx)) = None"
        using early_task_keeps [OF root early _ Inr [unfolded r] Cons.prems(3)] names [OF i] by blast
      then show ?thesis
        using Cons.IH [of "pre @ [i]" w'] Cons.prems(1,2) early Inr by (auto simp: r)
    qed simp
  next
    case header
    then show ?thesis
      using Cons.prems(3)
      by (cases "bw_session_parser w") (simp_all add: run_task_def run_MainIncludePCH_def Let_def verified_def)
  qed
qed


text \<open>The copies of the parser database are those for the components of the tree.\<close>

definition copied :: "node list \<Rightarrow> tree_component set" where
  "copied ts = {c. Task_ParserSessionCopy c \<in> made ts}"

lemma add_sources_copied: "add_sources c pI pM pC fs (ts, l) = (ts', l') \<Longrightarrow> copied ts' = copied ts"
  by (induction fs arbitrary: ts l) (auto simp: add_node_def Let_def copied_def)

lemma add_components_copied: "add_components m copies cs (ts, l) = Inr (ts', l') \<Longrightarrow> copied ts' = copied ts"
proof (induction cs arbitrary: ts l)
  case (Cons c cs)
  let ?n = "length ts"
  obtain d where d: "map_of copies (component_key c) = Some d" using Cons.prems by (auto split: option.splits)
  let ?t3 = "ts @ [(Task_ComponentIncludePCH c, [mt_includePCH m]),
      (Task_ComponentInterfacePCH c, [?n, d, mt_interfacePCH m]),
      (Task_ComponentGenericsPCH c, [Suc ?n, mt_interfaceSession m, mt_genericsPCH m])]"
  obtain t4 l4 where src: "add_sources c (mt_interfaceSession m) (mt_genericsPCH m) (Suc (Suc ?n))
      (pn_sourceFiles (snd (snd c))) (?t3, l) = (t4, l4)"
    by (metis surj_pair)
  then have "add_components m copies cs (t4, l4) = Inr (ts', l')"
    using Cons.prems d by (simp add: add_node_def Let_def)
  then show ?case using Cons.IH add_sources_copied [OF src] by (simp add: copied_def)
qed simp

lemma interface_tasks_copied:
  assumes "interface_tasks t strProject = Inr ts"
  shows "copied ts = set (tree_components t strProject)"
proof -
  obtain ts1 m l where copies: "add_copies 0 (tree_components t strProject) ([(Task_ParserSession, [])], [], []) = (ts1, m, l)"
    by (metis surj_pair)
  have "copied ts1 = set (tree_components t strProject)"
    using add_copies_append [OF copies, THEN conjunct1] by (auto simp: copied_def made_def image_image)
  moreover obtain n ts' l' us where "add_components n m (tree_components t strProject) (ts1 @ us, l') = Inr ts'"
    "copied us = {}" "copied ts = copied (fst ts')"
    using assms copies by (auto simp: interface_tasks_def add_node_def Let_def andThen_eq_Inr copied_def)
  ultimately show ?thesis
    using add_components_copied [of n m _ "ts1 @ us" l' "fst ts'" "snd ts'"] by (auto simp: copied_def)
qed

section \<open>The full build\<close>

lemma resource_header_path:
  assumes "canonical_root pf (pt_path t)" "normal_name (pt_projectName t)"
  shows "getResourceHeader t = pt_path t @ [''interface'', pt_projectName t, ''resource.hpp'']"
    and "getParserDatabaseFile t = pt_path t @ [''interface'', pt_projectName t, ''parser.db'']"
    and "getParserDatabaseFilePreInterfaceAnalysis t = pt_path t @ [''interface'', pt_projectName t, ''parser_pre.db'']"
  using interface_path_name [OF assms, of F_ResourceHeader] interface_path_name [OF assms, of F_ParserDatabase]
    interface_path_name [OF assms, of F_ParserPre] by (simp_all add: file_ok_def)

lemma parse_sources_header:
  assumes root: "canonical_root (cx_platform cx) (pt_path (cx_tree cx))" "normal_name (pt_projectName (cx_tree cx))"
    and laws: "writes_own_file api"
    and run: "parse_sources api cx w = Inr w'" and none: "bw_files w (getResourceHeader (cx_tree cx)) = None"
  shows "bw_files w' (getResourceHeader (cx_tree cx)) = None"
proof -
  let ?t = "cx_tree cx"
  note paths = resource_header_path [OF root]
  obtain h v where keep: "keep_parser_database api cx h v = Inr w'" and v: "bw_files v (getResourceHeader ?t) = None"
    using run laws none by (auto simp: parse_sources_def Let_def andThen_eq_Inr writes_own_file_def set_code_def paths)
  have restored: "fs (getResourceHeader ?t) = None"
    if "sh_restore api (getParserDatabaseFilePreInterfaceAnalysis ?t) h (bw_stash v) (bw_files v) = Some fs" for fs
  proof -
    have "getResourceHeader ?t \<noteq> getParserDatabaseFilePreInterfaceAnalysis ?t" by (simp add: paths)
    then show ?thesis using laws that v unfolding writes_own_file_def by metis
  qed
  show ?thesis
    using keep v restored
    by (cases "sh_restore api (getParserDatabaseFilePreInterfaceAnalysis ?t) h (bw_stash v) (bw_files v)")
      (auto simp: keep_parser_database_def Let_def andThen_eq_Inr copy_file_def paths split: if_splits option.splits)
qed

lemma build_interface_without_header:
  assumes laws: "writes_own_file api" "directory_names pf" "canonical_root pf (absolute_path pf root)" "normal_name project"
    and order: "\<And>ts. graph_ok ts \<Longrightarrow> valid_order ts (schedule ts) \<and> set (schedule ts) = {..<length ts}"
    and none: "fs (absolute_path pf root @ [''interface'', project, ''resource.hpp'']) = None"
  shows "\<exists>e. build_interface api pf env root project flags schedule fs ps = Inl e"
proof (rule ccontr)
  assume "\<nexists>e. build_interface api pf env root project flags schedule fs ps = Inl e"
  then obtain b where "build_interface api pf env root project flags schedule fs ps = Inr b"
    by (cases "build_interface api pf env root project flags schedule fs ps") auto
  then obtain env' t ps1 w0 w1 ts w2 where t: "ProjectTree_ctor pf env' root project ps = Inr (t, ps1)"
    and w0: "bw_files w0 = fs" and tasks: "interface_tasks t project = Inr ts"
    and parse: "parse_sources api \<lparr>cx_platform = pf, cx_environment = env', cx_tree = t, cx_flags = flags\<rparr> w0 = Inr w1"
    and run: "run_order api \<lparr>cx_platform = pf, cx_environment = env', cx_tree = t, cx_flags = flags\<rparr> ts (schedule ts) w1 = Inr w2"
    by (force simp: build_interface_def Let_def andThen_eq_Inr)
  define cx where "cx = \<lparr>cx_platform = pf, cx_environment = env', cx_tree = t, cx_flags = flags\<rparr>"
  have shape: "tree_shape t = coordinator_folders pf project (path_append (absolute_path pf root) ''src'')"
    and path: "pt_path t = absolute_path pf root" "pt_projectName t = project"
    using ProjectTree_commonCtor_shape [OF t [unfolded ProjectTree_ctor_def]]
    by (auto simp: getSourceFolder_def absolute_path_def)
  have root: "canonical_root (cx_platform cx) (pt_path (cx_tree cx))" "normal_name (pt_projectName (cx_tree cx))"
    using laws path by (simp_all add: cx_def)
  have header: "getResourceHeader (cx_tree cx) = absolute_path pf root @ [''interface'', project, ''resource.hpp'']"
    using resource_header_path(1) [OF root] path by (simp add: cx_def)
  have none1: "bw_files w1 (getResourceHeader (cx_tree cx)) = None"
    using parse_sources_header [OF root laws(1) parse [folded cx_def]] w0 none by (simp add: header)
  have graph: "graph_ok ts" "ts \<noteq> []" "\<not> early_task (fst (last ts))"
    using interface_tasks_graph [of t project] tasks by (auto simp: early_task_def is_at_def)
  have names: "names_ok (names_of c)" if "i < length ts" "fst (ts ! i) = Task_ParserSessionCopy c" for c i
  proof -
    have "Task_ParserSessionCopy c \<in> made ts" using that unfolding made_nth by (metis imageI lessThan_iff)
    then show ?thesis
      using interface_tasks_copied [OF tasks] tree_component_names [OF laws(2) shape] unfolding copied_def by blast
  qed
  have "\<exists>e. run_order api cx ts (schedule ts) w1 = Inl e"
    by (rule build_without_header [OF root names graph(1) _ _ graph(2,3), where order = "schedule ts" and pre = "[]"])
      (simp_all add: order [OF graph(1)] none1)
  then show False using run by (simp add: cx_def)
qed

text \<open>C37.  A full build of an interface always fails.  It removes the interface folder with the resource header, which
  no task that can run before the one that includes the header writes, and that task throws, in whatever order the
  scheduler runs the tasks.\<close>

theorem full_interface_build_fails:
  assumes build: "dt_build dt args = Inr opts" "bo_bFullRebuild opts" "strBuildCommand \<noteq> []"
    "bo_strCoordinator opts = []" "bo_strHost opts = []" "normal_name (bo_strProject opts)"
    and root: "root = absolute_path (dt_platform dt) (path_of (bo_strDirectory opts))"
    and laws: "writes_own_file (dt_api dt)" "directory_names (dt_platform dt)"
      "canonical_root (dt_platform dt) (absolute_path (dt_platform dt) root)"
    and order: "\<And>ts. graph_ok ts \<Longrightarrow> valid_order ts (dt_interface_order dt ts) \<and> set (dt_interface_order dt ts) = {..<length ts}"
    and disk: "files_on_disk (dt_platform dt) (generated_folders (dt_platform dt) root (bo_strProject opts)) (dw_files w)"
  shows "\<exists>e. command_build dt False strBuildCommand args w = Inl e"
proof -
  let ?pf = "dt_platform dt" and ?project = "bo_strProject opts"
  obtain s v where flags: "compilation_flags (bo_flags opts) w = (s, v)" by fastforce
  then have v: "dw_files v = dw_files w"
    by (auto simp: compilation_flags_def Let_def say_def split: if_splits)
  have run: "\<exists>e. run_build dt opts root s w2 = Inl e" if "full_rebuild dt opts root v = Inr w2" for w2
  proof -
    obtain t ps where t: "project_tree_at dt root ?project (dw_process v) = Inr (t, ps)"
      and w2: "w2 = remove_generated ?pf t (v\<lparr>dw_process := ps\<rparr>)"
      using \<open>full_rebuild dt opts root v = Inr w2\<close> build(2) by (auto simp: full_rebuild_def andThen_eq_Inr)
    have "is_generated ?pf root ?project (absolute_path ?pf root @ [''interface'', ?project, ''resource.hpp''])"
      using build(6) by (simp add: is_generated_def generated_folders_def Let_def within_folder_def getInterfaceFolder_def
          path_append_plain normal_plain)
    then have "dw_files w2 (absolute_path ?pf root @ [''interface'', ?project, ''resource.hpp'']) = None"
      using remove_generated_files [OF project_tree_at_folders [OF t], of "v\<lparr>dw_process := ps\<rparr>"] disk v by (simp add: w2)
    from build_interface_without_header [where fs = "dw_files w2" and schedule = "dt_interface_order dt" and
        project = ?project and root = root and pf = ?pf and env = "dt_environment dt" and flags = s and ps = "dw_process w2",
        OF laws build(6) order this] obtain e where
      "build_interface (dt_api dt) ?pf (dt_environment dt) root ?project s (dt_interface_order dt) (dw_files w2) (dw_process w2) = Inl e" ..
    then show ?thesis using build(4,5) by (simp add: run_build_def)
  qed
  have "?project \<noteq> []" using build(6) by (auto simp: normal_name_def plain_name_def)
  then show ?thesis
    using build(1,3) flags root run
    by (cases "full_rebuild dt opts root v") (auto simp: command_build_def project_directory_def Let_def)
qed

text \<open>The workspace of the builds, with its resource header.\<close>

definition demo_options :: build_options where
  "demo_options = \<lparr>bo_strDirectory = ''w'', bo_strProject = ''pr'', bo_strCoordinator = [], bo_strHost = [],
     bo_binPath = [], bo_bFullRebuild = True, bo_flags = [''-O2''], bo_names = []\<rparr>"

definition demo_tools :: "(nat, path \<Rightarrow> nat option, unit, unit, path, unit, string, unit) driver_tools" where
  "demo_tools = \<lparr>dt_main = (\<lambda>a. Inl (Rte [])), dt_create = (\<lambda>a. Inr ()), dt_build = (\<lambda>a. Inr demo_options),
     dt_run = (\<lambda>a. Inr ()), dt_log = (\<lambda>a. Inr ()), dt_clean = (\<lambda>a. Inl (Rte [])), dt_info = (\<lambda>a. Inl (Rte [])),
     dt_usage = (\<lambda>c. []), dt_platform = demo_platform, dt_is_directory = (\<lambda>p. True), dt_environment = demo_environment,
     dt_api = demo_api, dt_impl = demo_impl, dt_interface_order = (\<lambda>ts. [0..<length ts]),
     dt_implementation_order = (\<lambda>ts. ts), dt_session = (\<lambda>p fs. Inr ()), dt_code = (\<lambda>q. []),
     dt_abstract = (\<lambda>q. []), dt_concrete = (\<lambda>q. [])\<rparr>"

definition demo_world :: "files \<Rightarrow> driver_world" where
  "demo_world fs = \<lparr>dw_files = fs, dw_process = eg_process_start, dw_output = []\<rparr>"

theorem full_interface_build_fails_witness:
  "demo_files [''w'', ''interface'', ''pr'', ''resource.hpp''] \<noteq> None \<and>
   (\<exists>e. command_build demo_tools False ''release'' [] (demo_world demo_files) = Inl e)"
proof
  have root: "absolute_path demo_platform p = p" for p by (simp add: absolute_path_def demo_platform_def)
  have laws: "writes_own_file demo_api" "directory_names demo_platform"
    by (auto simp: writes_own_file_def demo_api_def directory_names_def demo_platform_def demo_dirs_def normal_name_def
        plain_name_def is_separator_def)
  have disk: "files_on_disk demo_platform ps fs" for ps fs by (simp add: files_on_disk_def demo_platform_def)
  show "\<exists>e. command_build demo_tools False ''release'' [] (demo_world demo_files) = Inl e"
    by (rule full_interface_build_fails [where opts = demo_options and root = "[''w'']"])
      (simp_all add: demo_tools_def demo_options_def root laws disk path_of_def elements_def is_separator_def graph_order
        atLeast0LessThan)
qed (simp add: demo_files_def)

end
