(* ===== verification/Process_Entry.thy ===== *)
theory Process_Entry
  imports Master_Node Slave_Vtable Component_Node Project_Environment
begin

text \<open>
  The main functions around the nodes: \<open>src/src/master/main.cpp\<close>, \<open>src/src/slave/main.cpp\<close> with the slave's path
  of \<open>slave.cpp\<close>, and the hosts \<open>src/src/hosts\<close>: the arguments that are accepted, and the loops of the main threads.
  The options that \<open>boost::program_options\<close> reads, or the text of its exception, are an argument.
\<close>

text \<open>\<open>src/src/core/coordinator.cpp\<close>.\<close>

definition version :: string where
  "version = ''1.0.0.0''"

section \<open>Arguments\<close>

text \<open>The arguments that are accepted, if any, and what is printed.\<close>

type_synonym 'a parsed_args = "'a option \<times> string"

definition invalid_input :: "string \<Rightarrow> string" where
  "invalid_input what =
     ''Invalid input. Type '' @ [CHR 0x27] @ ''--help'' @ [CHR 0x27] @ '' for options\<newline>'' @ what @ ''\<newline>''"

record master_args =
  margs_port :: string
  margs_master_path :: path
  margs_bWait :: bool

definition master_parse_args :: "string \<Rightarrow> string + bool \<times> master_args \<Rightarrow> master_args parsed_args" where
  "master_parse_args usage parsed =
     (case parsed of
        Inl what \<Rightarrow> (None, invalid_input what)
      | Inr (help, args) \<Rightarrow>
          if help then (None, usage @ ''\<newline>'')
          else if margs_port args = [] then (None, ''Port not specified\<newline>'')
          else (Some args, []))"

record slave_args =
  sargs_master_ip :: string
  sargs_master_port :: string
  sargs_slave_mega_port :: string
  sargs_slave_eg_port :: string
  sargs_slave_path :: path
  sargs_bWait :: bool

definition slave_parse_args :: "string \<Rightarrow> string + bool \<times> slave_args \<Rightarrow> slave_args parsed_args" where
  "slave_parse_args usage parsed =
     (case parsed of
        Inl what \<Rightarrow> (None, invalid_input what)
      | Inr (help, args) \<Rightarrow>
          if help then (None, usage @ ''\<newline>'')
          else if sargs_master_ip args = [] then (None, ''Master IP address not specified\<newline>'')
          else if sargs_master_port args = [] then (None, ''Master Port not specified\<newline>'')
          else if sargs_slave_path args = [] then (None, ''Slave Path not specified\<newline>'')
          else (Some args, []))"

record host_args =
  hargs_slave_mega_port :: string
  hargs_slave_eg_port :: string
  hargs_programName :: string

definition basic_parse_args :: "string \<Rightarrow> string + bool \<times> host_args \<Rightarrow> host_args parsed_args" where
  "basic_parse_args usage parsed =
     (case parsed of
        Inl what \<Rightarrow> (None, invalid_input what)
      | Inr (help, args) \<Rightarrow> if help then (None, usage @ ''\<newline>'') else (Some args, []))"

definition geometry_parse_args :: "string \<Rightarrow> string + bool \<times> host_args \<Rightarrow> host_args parsed_args" where
  "geometry_parse_args usage parsed =
     (case parsed of
        Inl what \<Rightarrow> (None, invalid_input what)
      | Inr (help, args) \<Rightarrow> if help then (None, usage @ ''\<newline>'') else (Some args, []))"

section \<open>The console of the master\<close>

text \<open>
  The words that are left of the input, what is printed, and the activities that are given to
  \<open>Master_startActivity\<close>, in order; between two turns the thread of the queue runs.  Reading a word when none is left
  leaves the variable as it was.
\<close>

record 'a console =
  cn_input :: "string list"
  cn_output :: string
  cn_started :: "'a list"

definition read_word :: "string \<Rightarrow> 'a console \<Rightarrow> string \<times> 'a console" where
  "read_word str c = (case cn_input c of [] \<Rightarrow> (str, c) | w # ws \<Rightarrow> (w, c\<lparr>cn_input := ws\<rparr>))"

definition console_start :: "'a \<Rightarrow> 'a console \<Rightarrow> 'a console" where
  "console_start x c = c\<lparr>cn_started := cn_started c @ [x]\<rparr>"

definition console_say :: "string \<Rightarrow> 'a console \<Rightarrow> 'a console" where
  "console_say s c = c\<lparr>cn_output := cn_output c @ s\<rparr>"

definition master_help :: string where
  "master_help =
     ''help:   This...\<newline>'' @ ''test:   Test existing connections and drop inactive ones.\<newline>'' @
     ''list:   List existing connections.\<newline>'' @ ''start:  Start a program.\<newline>'' @
     ''stop:   Stop any current program.\<newline>'' @ ''load:   Load config for active program.\<newline>'' @
     ''save:   Save config for active program.\<newline>'' @ ''quit:   Quit.\<newline>''"

text \<open>One turn of the loop, and whether it is the last.\<close>

definition master_turn :: "master_activity console \<Rightarrow> master_activity console \<times> bool" where
  "master_turn c0 =
     (case read_word [] c0 of (inputString, c) \<Rightarrow>
        if inputString = ''help'' then (console_say master_help c, False)
        else if inputString = ''test'' then (console_start (TestClientsActivity []) c, False)
        else if inputString = ''list'' then (console_start ListClientsActivity c, False)
        else if inputString = ''start''
        then (case read_word [] c of (programName, c') \<Rightarrow> (console_start (LoadProgram programName [] False) c', False))
        else if inputString = ''stop'' then (console_start (LoadProgram [] [] False) c, False)
        else if inputString = ''load'' then (console_start (LoadConfig [] False) c, False)
        else if inputString = ''save'' then (console_start (SaveConfig [] False) c, False)
        else (c, inputString = ''quit''))"

partial_function (option) master_console :: "master_activity console \<Rightarrow> master_activity console option" where
  "master_console c = (case master_turn c of (c', quit) \<Rightarrow> if quit then Some c' else master_console c')"

text \<open>What the console does to the master: its activities are started one after the other.\<close>

definition master_started :: "master_activity console \<Rightarrow> master \<Rightarrow> master" where
  "master_started c w = fold Master_startActivity (cn_started c) w"

section \<open>The slave\<close>

definition parent_path :: "path \<Rightarrow> path" where
  "parent_path p = butlast p"

definition getWorkspaceAndSlaveNameFromPath :: "platform \<Rightarrow> path \<Rightarrow> (path \<times> string) result" where
  "getWorkspaceAndSlaveNameFromPath pf thePath =
     (let canonPath = pf_canonical pf (pf_absolute pf thePath) in
      andThen (verify_rte (pf_exists pf canonPath) (''Specified slave path does not exist: '' @ generic_string thePath)) (\<lambda>_.
        Inr (parent_path (parent_path canonPath), stem (filename canonPath))))"

definition slave_help :: string where
  "slave_help =
     ''help:   This...\<newline>'' @ ''test:   Test existing connections and drop inactive ones.\<newline>'' @
     ''list:   List existing connections.\<newline>'' @ ''quit:   Quit.\<newline>''"

text \<open>The variable that a word is read into lives over the turns.\<close>

definition slave_turn :: "string \<Rightarrow> slave_activity console \<Rightarrow> string \<times> slave_activity console \<times> bool" where
  "slave_turn str0 c0 =
     (case read_word str0 c0 of (str, c) \<Rightarrow>
        if str = ''test'' then (str, console_start (TestHostsActivity []) c, False)
        else if str = ''list'' then (str, console_start ListHostsActivity c, False)
        else if str = ''help'' then (str, console_say slave_help c, False)
        else (str, c, str = ''quit''))"

partial_function (option) slave_console :: "string \<Rightarrow> slave_activity console \<Rightarrow> slave_activity console option" where
  "slave_console str c = (case slave_turn str c of (str', c', quit) \<Rightarrow> if quit then Some c' else slave_console str' c')"

definition slave_started :: "slave_activity console \<Rightarrow> slave \<Rightarrow> slave" where
  "slave_started c w = fold (\<lambda>x w. case new_activity x w of (a, w') \<Rightarrow> queue_startActivity a w') (cn_started c) w"

section \<open>The hosts\<close>

text \<open>One turn: the line that has been read when the future is ready, and whether a cycle is run.\<close>

datatype host_turn = Host_Quit | Host_Cycle string

definition basic_turn :: "string option \<Rightarrow> host_turn" where
  "basic_turn ready =
     (case ready of
        None \<Rightarrow> Host_Cycle []
      | Some strInput \<Rightarrow>
          if strInput = ''quit'' then Host_Quit
          else if strInput = ''help''
          then Host_Cycle (''help - this message\<newline>'' @ ''quit - shutdown this host\<newline>'')
          else if strInput = [] then Host_Cycle []
          else Host_Cycle (''Unrecognised input: '' @ strInput @ ''\<newline>''))"

definition geometry_turn :: "string option \<Rightarrow> host_turn" where
  "geometry_turn ready =
     (case ready of
        None \<Rightarrow> Host_Cycle []
      | Some strInput \<Rightarrow>
          if strInput = ''quit'' then Host_Quit
          else if strInput = [] then Host_Cycle []
          else Host_Cycle (''Unrecognised input: '' @ strInput @ ''\<newline>''))"

definition getHostProgramName :: "path \<Rightarrow> string" where
  "getHostProgramName program_location = filename program_location"

text \<open>
  The component of a host.  \<open>connect\<close> gives the sockets for the two ports; the environment is that of the process,
  or with a project directory for the host that is a library.
\<close>

definition host_component ::
  "(string \<Rightarrow> string \<Rightarrow> zmq \<times> eg_link) \<Rightarrow> environment \<Rightarrow> path \<Rightarrow> string \<Rightarrow> (string \<Rightarrow> string \<Rightarrow> program_source)
   \<Rightarrow> host_args \<Rightarrow> component result" where
  "host_component connect this_process program_location unique sources args =
     (let programName = (if hargs_programName args = [] then getHostProgramName program_location else hargs_programName args) in
      andThen (Environment_ctor this_process) (\<lambda>environment.
        case connect (hargs_slave_mega_port args) (hargs_slave_eg_port args) of
          (z, eg) \<Rightarrow> Inr (Component_ctor programName unique z eg sources)))"

record mega_host =
  mh_environment :: environment
  mh_component :: component

definition HostImpl_ctor ::
  "(string \<Rightarrow> string \<Rightarrow> zmq \<times> eg_link) \<Rightarrow> environment \<Rightarrow> path \<Rightarrow> string \<Rightarrow> (string \<Rightarrow> string \<Rightarrow> program_source)
   \<Rightarrow> string \<Rightarrow> string \<Rightarrow> string \<Rightarrow> mega_host result" where
  "HostImpl_ctor connect this_process projectDirectory unique sources strMegaPort strEGPort strProgramName =
     andThen (Environment_ctor_project this_process projectDirectory) (\<lambda>environment.
       case connect strMegaPort strEGPort of
         (z, eg) \<Rightarrow> Inr \<lparr>mh_environment = environment, mh_component = Component_ctor strProgramName unique z eg sources\<rparr>)"

definition createMegaHost ::
  "(string \<Rightarrow> string \<Rightarrow> zmq \<times> eg_link) \<Rightarrow> environment \<Rightarrow> string \<Rightarrow> string \<Rightarrow> (string \<Rightarrow> string \<Rightarrow> program_source)
   \<Rightarrow> mega_host result" where
  "createMegaHost connect this_process pszProjectDir unique sources =
     HostImpl_ctor connect this_process (path_of pszProjectDir) unique sources ''1001'' ''1002'' ''test_host_dll.exe''"

section \<open>The Python host\<close>

text \<open>A \<open>ProgramWrapper\<close> holds a weak pointer: its functions ask for the program and give a default when it is gone.\<close>

definition ProgramWrapper_getHostName :: "program option \<Rightarrow> string" where
  "ProgramWrapper_getHostName pProgram = (case pProgram of Some p \<Rightarrow> p_hostName p | None \<Rightarrow> [])"

definition ProgramWrapper_getProjectName :: "program option \<Rightarrow> string" where
  "ProgramWrapper_getProjectName pProgram = (case pProgram of Some p \<Rightarrow> p_projectName p | None \<Rightarrow> [])"

definition ProgramWrapper_getComponentName :: "program option \<Rightarrow> string" where
  "ProgramWrapper_getComponentName pProgram = (case pProgram of Some p \<Rightarrow> p_componentName p | None \<Rightarrow> [])"

definition ProgramWrapper_getComponentPath :: "program option \<Rightarrow> string" where
  "ProgramWrapper_getComponentPath pProgram = (case pProgram of Some p \<Rightarrow> p_componentPath p | None \<Rightarrow> [])"

definition python_Host_ctor ::
  "(string \<Rightarrow> string \<Rightarrow> zmq \<times> eg_link) \<Rightarrow> environment \<Rightarrow> string \<Rightarrow> (string \<Rightarrow> string \<Rightarrow> program_source)
   \<Rightarrow> string \<Rightarrow> string \<Rightarrow> string \<Rightarrow> string \<Rightarrow> mega_host result" where
  "python_Host_ctor connect this_process unique sources strProjectDirectory strMegaPort strEGPort strHostProgramName =
     andThen (Environment_ctor_project this_process (path_of strProjectDirectory)) (\<lambda>environment.
       case connect strMegaPort strEGPort of
         (z, eg) \<Rightarrow> Inr \<lparr>mh_environment = environment, mh_component = Component_ctor strHostProgramName unique z eg sources\<rparr>)"

definition Host_getProgram :: "mega_host \<Rightarrow> program option" where
  "Host_getProgram h = c_program (mh_component h)"

text \<open>The host of the process: a new one ends the one before, also when its construction then fails.\<close>

definition NewHost ::
  "(string \<Rightarrow> string \<Rightarrow> zmq \<times> eg_link) \<Rightarrow> environment \<Rightarrow> string \<Rightarrow> (string \<Rightarrow> string \<Rightarrow> program_source)
   \<Rightarrow> string \<Rightarrow> string \<Rightarrow> string \<Rightarrow> string \<Rightarrow> mega_host option \<Rightarrow> mega_host result \<times> mega_host option" where
  "NewHost connect this_process unique sources strProjectDirectory strMegaPort strEGPort strHostProgramName g_theHost =
     (case python_Host_ctor connect this_process unique sources strProjectDirectory strMegaPort strEGPort strHostProgramName of
        Inr h \<Rightarrow> (Inr h, Some h)
      | Inl e \<Rightarrow> (Inl e, None))"

definition GetHost :: "mega_host option \<Rightarrow> mega_host option" where
  "GetHost g_theHost = g_theHost"

section \<open>The consoles\<close>

text \<open>A console that returns has read its last word as a command to quit; one whose input ends before never returns, and
  that of the slave then repeats its last command for ever.\<close>

fun master_turns :: "nat \<Rightarrow> master_activity console \<Rightarrow> master_activity console" where
  "master_turns 0 c = c"
| "master_turns (Suc n) c = master_turns n (fst (master_turn c))"

fun slave_turns :: "nat \<Rightarrow> string \<Rightarrow> slave_activity console \<Rightarrow> slave_activity console" where
  "slave_turns 0 str c = c"
| "slave_turns (Suc n) str c = (case slave_turn str c of (str', c', quit) \<Rightarrow> slave_turns n str' c')"

lemma console_fields [simp]:
  "cn_input (console_start x c) = cn_input c" "cn_input (console_say s c) = cn_input c"
  "cn_started (console_start x c) = cn_started c @ [x]" "cn_started (console_say s c) = cn_started c"
  by (simp_all add: console_start_def console_say_def)

lemma read_word_input: "read_word str c = (s, c') \<Longrightarrow> set (cn_input c') \<subseteq> set (cn_input c) \<and> (s = str \<or> s \<in> set (cn_input c))"
  by (auto simp: read_word_def split: list.splits)

lemma master_turn_input:
  "master_turn c = (c', quit) \<Longrightarrow> set (cn_input c') \<subseteq> set (cn_input c) \<and> (quit \<longrightarrow> ''quit'' \<in> set (cn_input c))"
  by (force simp: master_turn_def split: prod.splits if_splits dest!: read_word_input)

lemma master_console_needs_quit:
  assumes "master_console c = Some c'"
  shows "''quit'' \<in> set (cn_input c)"
proof (rule master_console.raw_induct [where P = "\<lambda>c c'. ''quit'' \<in> set (cn_input c)", OF _ assms])
  fix self c c'
  assume IH: "\<And>c c'. self c = Some c' \<Longrightarrow> ''quit'' \<in> set (cn_input c)"
    and run: "(case master_turn c of (c', quit) \<Rightarrow> if quit then Some c' else self c') = Some c'"
  obtain d quit where turn: "master_turn c = (d, quit)" by fastforce
  show "''quit'' \<in> set (cn_input c)"
    using run IH turn master_turn_input [OF turn] by (auto split: if_splits)
qed

lemma slave_turn_input:
  "slave_turn str c = (s, c', quit) \<Longrightarrow>
    set (cn_input c') \<subseteq> set (cn_input c) \<and> (s = str \<or> s \<in> set (cn_input c)) \<and> (quit \<longrightarrow> s = ''quit'')"
  by (auto simp: slave_turn_def split: prod.splits if_splits dest!: read_word_input)

lemma slave_console_needs_quit:
  assumes "slave_console str c = Some c'"
  shows "str = ''quit'' \<or> ''quit'' \<in> set (cn_input c)"
proof (rule slave_console.raw_induct [where P = "\<lambda>str c c'. str = ''quit'' \<or> ''quit'' \<in> set (cn_input c)", OF _ assms])
  fix self str c c'
  assume IH: "\<And>str c c'. self str c = Some c' \<Longrightarrow> str = ''quit'' \<or> ''quit'' \<in> set (cn_input c)"
    and run: "(case slave_turn str c of (str', c', quit) \<Rightarrow> if quit then Some c' else self str' c') = Some c'"
  obtain s d quit where turn: "slave_turn str c = (s, d, quit)" by (metis surj_pair)
  show "str = ''quit'' \<or> ''quit'' \<in> set (cn_input c)"
  proof (cases quit)
    case True
    then show ?thesis using slave_turn_input [OF turn] by auto
  next
    case False
    then have "s = ''quit'' \<or> ''quit'' \<in> set (cn_input d)" using run turn IH by simp
    then show ?thesis using slave_turn_input [OF turn] by auto
  qed
qed

text \<open>A slave whose input ends after the command \<open>test\<close> goes on to start tests of its hosts, and never ends.\<close>

lemma slave_input_end:
  "cn_input c = [] \<Longrightarrow> cn_started (slave_turns n ''test'' c) = cn_started c @ replicate n (TestHostsActivity [])"
  by (induction n arbitrary: c) (auto simp: slave_turn_def read_word_def replicate_append_same)

text \<open>With a word to quit in place of a command the console of the master returns.\<close>

lemma master_console_quits:
  "ws \<noteq> [] \<Longrightarrow> set ws \<subseteq> {''help'', ''test'', ''list'', ''stop'', ''load'', ''save''} \<Longrightarrow> cn_input c = ws @ ''quit'' # rest \<Longrightarrow>
    \<exists>c'. master_console c = Some c' \<and> cn_input c' = rest"
proof (induction ws arbitrary: c)
  case (Cons w ws)
  let ?c = "fst (master_turn c)"
  have turn: "master_turn c = (?c, False)" "cn_input ?c = ws @ ''quit'' # rest"
    using Cons.prems(2,3) by (auto simp: master_turn_def read_word_def)
  have step: "master_console c = master_console ?c"
    using arg_cong [OF turn(1), of snd] by (subst master_console.simps) (simp add: split_beta)
  show ?case
  proof (cases "ws = []")
    case True
    then have "master_turn ?c = (?c\<lparr>cn_input := rest\<rparr>, True)" using turn(2) by (simp add: master_turn_def read_word_def)
    then have "master_console ?c = Some (?c\<lparr>cn_input := rest\<rparr>)" by (simp add: master_console.simps)
    with step show ?thesis by simp
  next
    case False
    then show ?thesis using Cons.IH [OF False _ turn(2)] Cons.prems(2) step by auto
  qed
qed simp

end
