(* ===== verification/Unreal_Values.thy ===== *)
theory Unreal_Values
  imports Component_Codec
begin

text \<open>
  The values of the Unreal engine in messages and in configuration files: \<open>src/src/unreal/unreal.hpp\<close>, the adaptors of
  msgpack, and \<open>src/src/hosts/geometry/config_conversions.hpp\<close>, the operators of the shorthand streams.  A float is of
  any type.
\<close>

section \<open>The values\<close>

record 'f FVector2D =
  v2_X :: 'f
  v2_Y :: 'f

record 'f FVector =
  v3_X :: 'f
  v3_Y :: 'f
  v3_Z :: 'f

record 'f FVector4 =
  v4_X :: 'f
  v4_Y :: 'f
  v4_Z :: 'f
  v4_W :: 'f

record 'f FQuat =
  q_X :: 'f
  q_Y :: 'f
  q_Z :: 'f
  q_W :: 'f

text \<open>A matrix is \<open>float M[ 4 ][ 4 ]\<close>, a list of rows.\<close>

record 'f FMatrix =
  fm_M :: "'f list list"

definition matrix_ok :: "'f FMatrix \<Rightarrow> bool" where
  "matrix_ok m \<longleftrightarrow> length (fm_M m) = 4 \<and> list_all (\<lambda>r. length r = 4) (fm_M m)"

text \<open>A transform of the engine: \<open>SetComponents\<close>, the components, \<open>NormalizeRotation\<close> and \<open>IsValid\<close>.\<close>

record ('f, 't) unreal_transform =
  ut_SetComponents :: "'f FQuat \<Rightarrow> 'f FVector \<Rightarrow> 'f FVector \<Rightarrow> 't"
  ut_GetRotation :: "'t \<Rightarrow> 'f FQuat"
  ut_GetTranslation :: "'t \<Rightarrow> 'f FVector"
  ut_GetScale3D :: "'t \<Rightarrow> 'f FVector"
  ut_NormalizeRotation :: "'t \<Rightarrow> 't"
  ut_IsValid :: "'t \<Rightarrow> bool"

definition transform_laws :: "('f, 't) unreal_transform \<Rightarrow> bool" where
  "transform_laws ut \<longleftrightarrow>
     (\<forall>t. ut_SetComponents ut (ut_GetRotation ut t) (ut_GetTranslation ut t) (ut_GetScale3D ut t) = t)"

section \<open>Messages\<close>

text \<open>An object of msgpack, and what a packer is given; \<open>as_float\<close> is \<open>as< float >\<close> of an object.\<close>

datatype ('f, 'o) mp_object = MP_Float 'f | MP_Array "('f, 'o) mp_object list" | MP_Other 'o

datatype 'f mp_token = Pack_array nat | Pack_float 'f

definition type_error :: fault where
  "type_error = Rte ''msgpack::type_error''"

fun mp_floats :: "(('f, 'o) mp_object \<Rightarrow> 'f result) \<Rightarrow> ('f, 'o) mp_object list \<Rightarrow> 'f list result" where
  "mp_floats as_float [] = Inr []"
| "mp_floats as_float (x # xs) =
     andThen (as_float x) (\<lambda>f. andThen (mp_floats as_float xs) (\<lambda>fs. Inr (f # fs)))"

text \<open>The tests that each \<open>convert\<close> begins with, and the reads of the elements.\<close>

definition float_array :: "(('f, 'o) mp_object \<Rightarrow> 'f result) \<Rightarrow> nat \<Rightarrow> ('f, 'o) mp_object \<Rightarrow> 'f list result" where
  "float_array as_float n x =
     (case x of
        MP_Array ptr \<Rightarrow> if length ptr \<noteq> n then Inl type_error else mp_floats as_float ptr
      | _ \<Rightarrow> Inl type_error)"

definition convert_FVector2D :: "(('f, 'o) mp_object \<Rightarrow> 'f result) \<Rightarrow> ('f, 'o) mp_object \<Rightarrow> 'f FVector2D result" where
  "convert_FVector2D as_float x = andThen (float_array as_float 2 x) (\<lambda>p. Inr \<lparr>v2_X = p ! 0, v2_Y = p ! 1\<rparr>)"

definition pack_FVector2D :: "'f FVector2D \<Rightarrow> 'f mp_token list" where
  "pack_FVector2D v = [Pack_array 2, Pack_float (v2_X v), Pack_float (v2_Y v)]"

definition zone_FVector2D :: "'f FVector2D \<Rightarrow> ('f, 'o) mp_object" where
  "zone_FVector2D v = MP_Array [MP_Float (v2_X v), MP_Float (v2_Y v)]"

definition convert_FVector :: "(('f, 'o) mp_object \<Rightarrow> 'f result) \<Rightarrow> ('f, 'o) mp_object \<Rightarrow> 'f FVector result" where
  "convert_FVector as_float x =
     andThen (float_array as_float 3 x) (\<lambda>p. Inr \<lparr>v3_X = p ! 0, v3_Y = p ! 1, v3_Z = p ! 2\<rparr>)"

definition pack_FVector :: "'f FVector \<Rightarrow> 'f mp_token list" where
  "pack_FVector v = [Pack_array 3, Pack_float (v3_X v), Pack_float (v3_Y v), Pack_float (v3_Z v)]"

definition zone_FVector :: "'f FVector \<Rightarrow> ('f, 'o) mp_object" where
  "zone_FVector v = MP_Array [MP_Float (v3_X v), MP_Float (v3_Y v), MP_Float (v3_Z v)]"

definition convert_FVector4 :: "(('f, 'o) mp_object \<Rightarrow> 'f result) \<Rightarrow> ('f, 'o) mp_object \<Rightarrow> 'f FVector4 result" where
  "convert_FVector4 as_float x =
     andThen (float_array as_float 4 x) (\<lambda>p. Inr \<lparr>v4_X = p ! 0, v4_Y = p ! 1, v4_Z = p ! 2, v4_W = p ! 3\<rparr>)"

definition pack_FVector4 :: "'f FVector4 \<Rightarrow> 'f mp_token list" where
  "pack_FVector4 v =
     [Pack_array 4, Pack_float (v4_X v), Pack_float (v4_Y v), Pack_float (v4_Z v), Pack_float (v4_W v)]"

definition zone_FVector4 :: "'f FVector4 \<Rightarrow> ('f, 'o) mp_object" where
  "zone_FVector4 v = MP_Array [MP_Float (v4_X v), MP_Float (v4_Y v), MP_Float (v4_Z v), MP_Float (v4_W v)]"

definition convert_FQuat :: "(('f, 'o) mp_object \<Rightarrow> 'f result) \<Rightarrow> ('f, 'o) mp_object \<Rightarrow> 'f FQuat result" where
  "convert_FQuat as_float x =
     andThen (float_array as_float 4 x) (\<lambda>p. Inr \<lparr>q_X = p ! 0, q_Y = p ! 1, q_Z = p ! 2, q_W = p ! 3\<rparr>)"

definition pack_FQuat :: "'f FQuat \<Rightarrow> 'f mp_token list" where
  "pack_FQuat v = [Pack_array 4, Pack_float (q_X v), Pack_float (q_Y v), Pack_float (q_Z v), Pack_float (q_W v)]"

definition zone_FQuat :: "'f FQuat \<Rightarrow> ('f, 'o) mp_object" where
  "zone_FQuat v = MP_Array [MP_Float (q_X v), MP_Float (q_Y v), MP_Float (q_Z v), MP_Float (q_W v)]"

text \<open>The two loops over the rows and columns; in \<open>convert\<close> the index of the element counts along.\<close>

definition matrix_elements :: "'f FMatrix \<Rightarrow> 'f list" where
  "matrix_elements m = concat (map (\<lambda>RowIndex. map (\<lambda>ColumnIndex. fm_M m ! RowIndex ! ColumnIndex) [0..<4]) [0..<4])"

definition matrix_of :: "'f list \<Rightarrow> 'f FMatrix" where
  "matrix_of ptr = \<lparr>fm_M = map (\<lambda>RowIndex. map (\<lambda>ColumnIndex. ptr ! (4 * RowIndex + ColumnIndex)) [0..<4]) [0..<4]\<rparr>"

definition convert_FMatrix :: "(('f, 'o) mp_object \<Rightarrow> 'f result) \<Rightarrow> ('f, 'o) mp_object \<Rightarrow> 'f FMatrix result" where
  "convert_FMatrix as_float x = andThen (float_array as_float 16 x) (\<lambda>p. Inr (matrix_of p))"

definition pack_FMatrix :: "'f FMatrix \<Rightarrow> 'f mp_token list" where
  "pack_FMatrix v = Pack_array 16 # map Pack_float (matrix_elements v)"

definition zone_FMatrix :: "'f FMatrix \<Rightarrow> ('f, 'o) mp_object" where
  "zone_FMatrix v = MP_Array (map MP_Float (matrix_elements v))"

definition convert_FTransform ::
  "('f, 't) unreal_transform \<Rightarrow> (('f, 'o) mp_object \<Rightarrow> 'f result) \<Rightarrow> ('f, 'o) mp_object \<Rightarrow> 't result" where
  "convert_FTransform ut as_float x =
     andThen (float_array as_float 10 x) (\<lambda>p.
       (let fq = \<lparr>q_X = p ! 0, q_Y = p ! 1, q_Z = p ! 2, q_W = p ! 3\<rparr>;
            ft = \<lparr>v3_X = p ! 4, v3_Y = p ! 5, v3_Z = p ! 6\<rparr>;
            fs = \<lparr>v3_X = p ! 7, v3_Y = p ! 8, v3_Z = p ! 9\<rparr> in
        Inr (ut_SetComponents ut fq ft fs)))"

definition pack_FTransform :: "('f, 't) unreal_transform \<Rightarrow> 't \<Rightarrow> 'f mp_token list" where
  "pack_FTransform ut v =
     (let fq = ut_GetRotation ut v; ft = ut_GetTranslation ut v; fs = ut_GetScale3D ut v in
      [Pack_array 10, Pack_float (q_X fq), Pack_float (q_Y fq), Pack_float (q_Z fq), Pack_float (q_W fq),
       Pack_float (v3_X ft), Pack_float (v3_Y ft), Pack_float (v3_Z ft),
       Pack_float (v3_X fs), Pack_float (v3_Y fs), Pack_float (v3_Z fs)])"

definition zone_FTransform :: "('f, 't) unreal_transform \<Rightarrow> 't \<Rightarrow> ('f, 'o) mp_object" where
  "zone_FTransform ut v =
     (let fq = ut_GetRotation ut v; ft = ut_GetTranslation ut v; fs = ut_GetScale3D ut v in
      MP_Array [MP_Float (q_X fq), MP_Float (q_Y fq), MP_Float (q_Z fq), MP_Float (q_W fq),
        MP_Float (v3_X ft), MP_Float (v3_Y ft), MP_Float (v3_Z ft),
        MP_Float (v3_X fs), MP_Float (v3_Y fs), MP_Float (v3_Z fs)])"

section \<open>Configuration files\<close>

text \<open>A shorthand stream is the values that have been written to it.  The stream that is read gives a float or an
  integer, with the rest, or throws; the text of a value is that of the library \<open>ed\<close>.\<close>

datatype 'f shorthand = SH_Float 'f | SH_Int int

record 'f shorthand_reader =
  is_float :: "'f shorthand list \<Rightarrow> ('f \<times> 'f shorthand list) result"
  is_int :: "'f shorthand list \<Rightarrow> (int \<times> 'f shorthand list) result"

definition shorthand_laws :: "'f shorthand_reader \<Rightarrow> bool" where
  "shorthand_laws rd \<longleftrightarrow>
     (\<forall>x s. is_float rd (SH_Float x # s) = Inr (x, s)) \<and> (\<forall>i s. is_int rd (SH_Int i # s) = Inr (i, s))"

definition os_reference :: "reference \<Rightarrow> 'f shorthand list" where
  "os_reference v = [SH_Int (uint (ref_instance v)), SH_Int (sint (ref_type v)), SH_Int (uint (ref_timestamp v))]"

definition is_reference :: "'f shorthand_reader \<Rightarrow> 'f shorthand list \<Rightarrow> (reference \<times> 'f shorthand list) result" where
  "is_reference rd s =
     andThen (is_int rd s) (\<lambda>(i, s1). andThen (is_int rd s1) (\<lambda>(t, s2). andThen (is_int rd s2) (\<lambda>(c, s3).
       Inr (\<lparr>ref_instance = word_of_int i, ref_type = word_of_int t, ref_timestamp = word_of_int c\<rparr>, s3))))"

definition os_FVector4 :: "'f FVector4 \<Rightarrow> 'f shorthand list" where
  "os_FVector4 v = map SH_Float [v4_X v, v4_Y v, v4_Z v, v4_W v]"

definition os_FVector :: "'f FVector \<Rightarrow> 'f shorthand list" where
  "os_FVector v = map SH_Float [v3_X v, v3_Y v, v3_Z v]"

definition os_FVector2D :: "'f FVector2D \<Rightarrow> 'f shorthand list" where
  "os_FVector2D v = map SH_Float [v2_X v, v2_Y v]"

definition os_FQuat :: "'f FQuat \<Rightarrow> 'f shorthand list" where
  "os_FQuat v = map SH_Float [q_X v, q_Y v, q_Z v, q_W v]"

definition os_FMatrix :: "'f FMatrix \<Rightarrow> 'f shorthand list" where
  "os_FMatrix v = map SH_Float (matrix_elements v)"

definition os_FTransform :: "('f, 't) unreal_transform \<Rightarrow> 't \<Rightarrow> 'f shorthand list" where
  "os_FTransform ut v = os_FQuat (ut_GetRotation ut v) @ os_FVector (ut_GetTranslation ut v) @ os_FVector (ut_GetScale3D ut v)"

text \<open>\<open>n\<close> reads of a float, one after the other.\<close>

fun is_floats :: "'f shorthand_reader \<Rightarrow> nat \<Rightarrow> 'f shorthand list \<Rightarrow> ('f list \<times> 'f shorthand list) result" where
  "is_floats rd 0 s = Inr ([], s)"
| "is_floats rd (Suc n) s =
     andThen (is_float rd s) (\<lambda>(x, s1). andThen (is_floats rd n s1) (\<lambda>(xs, s2). Inr (x # xs, s2)))"

definition is_FVector4 :: "'f shorthand_reader \<Rightarrow> 'f shorthand list \<Rightarrow> ('f FVector4 \<times> 'f shorthand list) result" where
  "is_FVector4 rd s =
     andThen (is_floats rd 4 s) (\<lambda>(p, s'). Inr (\<lparr>v4_X = p ! 0, v4_Y = p ! 1, v4_Z = p ! 2, v4_W = p ! 3\<rparr>, s'))"

definition is_FVector :: "'f shorthand_reader \<Rightarrow> 'f shorthand list \<Rightarrow> ('f FVector \<times> 'f shorthand list) result" where
  "is_FVector rd s = andThen (is_floats rd 3 s) (\<lambda>(p, s'). Inr (\<lparr>v3_X = p ! 0, v3_Y = p ! 1, v3_Z = p ! 2\<rparr>, s'))"

definition is_FVector2D :: "'f shorthand_reader \<Rightarrow> 'f shorthand list \<Rightarrow> ('f FVector2D \<times> 'f shorthand list) result" where
  "is_FVector2D rd s = andThen (is_floats rd 2 s) (\<lambda>(p, s'). Inr (\<lparr>v2_X = p ! 0, v2_Y = p ! 1\<rparr>, s'))"

definition is_FQuat :: "'f shorthand_reader \<Rightarrow> 'f shorthand list \<Rightarrow> ('f FQuat \<times> 'f shorthand list) result" where
  "is_FQuat rd s =
     andThen (is_floats rd 4 s) (\<lambda>(p, s'). Inr (\<lparr>q_X = p ! 0, q_Y = p ! 1, q_Z = p ! 2, q_W = p ! 3\<rparr>, s'))"

definition is_FMatrix :: "'f shorthand_reader \<Rightarrow> 'f shorthand list \<Rightarrow> ('f FMatrix \<times> 'f shorthand list) result" where
  "is_FMatrix rd s = andThen (is_floats rd 16 s) (\<lambda>(p, s'). Inr (matrix_of p, s'))"

definition is_FTransform ::
  "('f, 't) unreal_transform \<Rightarrow> 'f shorthand_reader \<Rightarrow> 'f shorthand list \<Rightarrow> ('t \<times> 'f shorthand list) result" where
  "is_FTransform ut rd s =
     andThen (is_FQuat rd s) (\<lambda>(fq, s1). andThen (is_FVector rd s1) (\<lambda>(ft, s2). andThen (is_FVector rd s2) (\<lambda>(fs, s3).
       (let v = ut_NormalizeRotation ut (ut_SetComponents ut fq ft fs) in
        if \<not> ut_IsValid ut v then Inl (Rte ''Invalid transform'') else Inr (v, s3)))))"

section \<open>Round trips\<close>

text \<open>The object that a packer writes: an array of the floats that follow.\<close>

fun packed :: "'f mp_token list \<Rightarrow> ('f, 'o) mp_object option" where
  "packed (Pack_array n # ts) =
     (if length ts = n \<and> list_all (\<lambda>t. case t of Pack_float x \<Rightarrow> True | _ \<Rightarrow> False) ts
      then Some (MP_Array (map (\<lambda>t. case t of Pack_float x \<Rightarrow> MP_Float x) ts)) else None)"
| "packed ts = None"

lemma mp_floats_written: "(\<And>x. as_float (MP_Float x) = Inr x) \<Longrightarrow> mp_floats as_float (map MP_Float xs) = Inr xs"
  by (induction xs) simp_all

lemma float_array_written:
  "(\<And>x. as_float (MP_Float x) = Inr x) \<Longrightarrow> length xs = n \<Longrightarrow> float_array as_float n (MP_Array (map MP_Float xs)) = Inr xs"
  by (simp add: float_array_def mp_floats_written)

lemma matrix_elements_length [simp]: "length (matrix_elements m) = 16"
  by (simp add: matrix_elements_def upt_rec)

lemma matrix_of_elements: "matrix_ok m \<Longrightarrow> matrix_of (matrix_elements m) = m"
  by (cases m) (auto simp: matrix_ok_def matrix_of_def matrix_elements_def upt_rec length_Suc_conv eval_nat_numeral)

lemma component_records [simp]:
  "\<lparr>q_X = q_X q, q_Y = q_Y q, q_Z = q_Z q, q_W = q_W q\<rparr> = q"
  "\<lparr>v3_X = v3_X v, v3_Y = v3_Y v, v3_Z = v3_Z v\<rparr> = v"
  by (cases q; simp) (cases v; simp)

lemma is_floats_written: "shorthand_laws rd \<Longrightarrow> is_floats rd (length xs) (map SH_Float xs @ s) = Inr (xs, s)"
  by (induction xs) (simp_all add: shorthand_laws_def)

lemma read_floats:
  assumes "shorthand_laws rd"
  shows "is_floats rd (Suc (Suc 0)) (SH_Float a # SH_Float b # s) = Inr ([a, b], s)"
    and "is_floats rd 3 (SH_Float a # SH_Float b # SH_Float c # s) = Inr ([a, b, c], s)"
    and "is_floats rd 4 (SH_Float a # SH_Float b # SH_Float c # SH_Float d # s) = Inr ([a, b, c, d], s)"
  using is_floats_written [OF assms, of "[a, b]" s] is_floats_written [OF assms, of "[a, b, c]" s]
    is_floats_written [OF assms, of "[a, b, c, d]" s] by (simp_all add: eval_nat_numeral)

lemma message_vectors:
  assumes "\<And>x. as_float (MP_Float x) = Inr x"
  shows "convert_FVector2D as_float (zone_FVector2D a) = Inr a"
    and "convert_FVector as_float (zone_FVector b) = Inr b"
    and "convert_FVector4 as_float (zone_FVector4 c) = Inr c"
    and "convert_FQuat as_float (zone_FQuat q) = Inr q"
  using assms
  by (simp_all add: convert_FVector2D_def zone_FVector2D_def convert_FVector_def zone_FVector_def convert_FVector4_def
      zone_FVector4_def convert_FQuat_def zone_FQuat_def float_array_def)

lemma message_matrix:
  "(\<And>x. as_float (MP_Float x) = Inr x) \<Longrightarrow> matrix_ok m \<Longrightarrow> convert_FMatrix as_float (zone_FMatrix m) = Inr m"
  by (simp add: convert_FMatrix_def zone_FMatrix_def float_array_written matrix_of_elements)

lemma message_transform:
  assumes "\<And>x. as_float (MP_Float x) = Inr x" "transform_laws ut"
  shows "convert_FTransform ut as_float (zone_FTransform ut t) = Inr t"
  using assms by (simp add: convert_FTransform_def zone_FTransform_def float_array_def Let_def transform_laws_def)

lemma shorthand_vectors:
  assumes "shorthand_laws rd"
  shows "is_FVector2D rd (os_FVector2D a @ s) = Inr (a, s)"
    and "is_FVector rd (os_FVector b @ s) = Inr (b, s)"
    and "is_FVector4 rd (os_FVector4 c @ s) = Inr (c, s)"
    and "is_FQuat rd (os_FQuat q @ s) = Inr (q, s)"
    and "is_reference rd (os_reference r @ s) = Inr (r, s)"
  using read_floats [OF assms] assms
  by (simp_all add: is_FVector2D_def os_FVector2D_def is_FVector_def os_FVector_def is_FVector4_def os_FVector4_def
      is_FQuat_def os_FQuat_def is_reference_def os_reference_def numeral_2_eq_2 shorthand_laws_def)

lemma shorthand_matrix:
  "shorthand_laws rd \<Longrightarrow> matrix_ok m \<Longrightarrow> is_FMatrix rd (os_FMatrix m @ s) = Inr (m, s)"
  using is_floats_written [of rd "matrix_elements m" s]
  by (simp add: is_FMatrix_def os_FMatrix_def matrix_of_elements)

lemma shorthand_transform:
  assumes "shorthand_laws rd" "transform_laws ut"
  shows "is_FTransform ut rd (os_FTransform ut t @ s) =
    (if ut_IsValid ut (ut_NormalizeRotation ut t) then Inr (ut_NormalizeRotation ut t, s) else Inl (Rte ''Invalid transform''))"
  using shorthand_vectors [OF assms(1)] assms(2)
  by (simp add: is_FTransform_def os_FTransform_def Let_def transform_laws_def)

text \<open>What a packer is given is the object that is made in a zone.\<close>

lemma packed_values:
  "packed (pack_FVector2D a) = Some (zone_FVector2D a)" "packed (pack_FVector b) = Some (zone_FVector b)"
  "packed (pack_FVector4 c) = Some (zone_FVector4 c)" "packed (pack_FQuat q) = Some (zone_FQuat q)"
  "packed (pack_FMatrix m) = Some (zone_FMatrix m)" "packed (pack_FTransform ut t) = Some (zone_FTransform ut t)"
  by (simp_all add: pack_FVector2D_def zone_FVector2D_def pack_FVector_def zone_FVector_def pack_FVector4_def
      zone_FVector4_def pack_FQuat_def zone_FQuat_def pack_FMatrix_def zone_FMatrix_def pack_FTransform_def
      zone_FTransform_def Let_def list_all_iff comp_def)

text \<open>C33.  Every value of the engine comes back from a message as it was packed.  From a configuration file it comes back
  as it was written, but for a transform: that is read with its rotation normalised, and reading throws when the
  result is not valid.\<close>

theorem unreal_values_roundtrip:
  assumes laws: "\<And>x. as_float (MP_Float x) = Inr x" "transform_laws ut" "shorthand_laws rd" and matrix: "matrix_ok m"
  shows "(map_option (convert_FVector2D as_float) (packed (pack_FVector2D a)) = Some (Inr a)) \<and>
    (map_option (convert_FVector as_float) (packed (pack_FVector b)) = Some (Inr b)) \<and>
    (map_option (convert_FVector4 as_float) (packed (pack_FVector4 c)) = Some (Inr c)) \<and>
    (map_option (convert_FQuat as_float) (packed (pack_FQuat q)) = Some (Inr q)) \<and>
    (map_option (convert_FMatrix as_float) (packed (pack_FMatrix m)) = Some (Inr m)) \<and>
    (map_option (convert_FTransform ut as_float) (packed (pack_FTransform ut t)) = Some (Inr t)) \<and>
    (is_FVector2D rd (os_FVector2D a @ s) = Inr (a, s)) \<and>
    (is_FVector rd (os_FVector b @ s) = Inr (b, s)) \<and>
    (is_FVector4 rd (os_FVector4 c @ s) = Inr (c, s)) \<and>
    (is_FQuat rd (os_FQuat q @ s) = Inr (q, s)) \<and>
    (is_FMatrix rd (os_FMatrix m @ s) = Inr (m, s)) \<and>
    (is_FTransform ut rd (os_FTransform ut t @ s) =
      (if ut_IsValid ut (ut_NormalizeRotation ut t) then Inr (ut_NormalizeRotation ut t, s) else Inl (Rte ''Invalid transform'')))"
  using laws matrix
  by (simp_all add: packed_values message_vectors message_matrix message_transform shorthand_vectors shorthand_matrix
      shorthand_transform)

text \<open>A transform of integers, whose rotation is normal when its last component is one.\<close>

type_synonym demo_transform = "int FQuat \<times> int FVector \<times> int FVector"

definition demo_transforms :: "(int, demo_transform) unreal_transform" where
  "demo_transforms = \<lparr>ut_SetComponents = (\<lambda>q t s. (q, t, s)), ut_GetRotation = fst, ut_GetTranslation = fst \<circ> snd,
     ut_GetScale3D = snd \<circ> snd, ut_NormalizeRotation = (\<lambda>(q, t, s). (q\<lparr>q_W := 1\<rparr>, t, s)),
     ut_IsValid = (\<lambda>(q, t, s). q_X q = 0)\<rparr>"

definition demo_as_float :: "(int, unit) mp_object \<Rightarrow> int result" where
  "demo_as_float x = (case x of MP_Float f \<Rightarrow> Inr f | _ \<Rightarrow> Inl type_error)"

definition demo_reader :: "int shorthand_reader" where
  "demo_reader = \<lparr>is_float = (\<lambda>s. case s of SH_Float x # r \<Rightarrow> Inr (x, r) | _ \<Rightarrow> Inl (Rte [])),
     is_int = (\<lambda>s. case s of SH_Int i # r \<Rightarrow> Inr (i, r) | _ \<Rightarrow> Inl (Rte []))\<rparr>"

definition demo_matrix :: "int FMatrix" where
  "demo_matrix = \<lparr>fm_M = [[1, 2, 3, 4], [5, 6, 7, 8], [9, 10, 11, 12], [13, 14, 15, 16]]\<rparr>"

theorem unreal_values_roundtrip_witness:
  "map_option (convert_FMatrix demo_as_float) (packed (pack_FMatrix demo_matrix)) = Some (Inr demo_matrix) \<and>
   is_FTransform demo_transforms demo_reader
     (os_FTransform demo_transforms (\<lparr>q_X = 0, q_Y = 0, q_Z = 0, q_W = 3\<rparr>, \<lparr>v3_X = 1, v3_Y = 2, v3_Z = 3\<rparr>, \<lparr>v3_X = 1, v3_Y = 1, v3_Z = 1\<rparr>) @ []) =
     Inr ((\<lparr>q_X = 0, q_Y = 0, q_Z = 0, q_W = 1\<rparr>, \<lparr>v3_X = 1, v3_Y = 2, v3_Z = 3\<rparr>, \<lparr>v3_X = 1, v3_Y = 1, v3_Z = 1\<rparr>), []) \<and>
   is_FTransform demo_transforms demo_reader
     (os_FTransform demo_transforms (\<lparr>q_X = 1, q_Y = 0, q_Z = 0, q_W = 3\<rparr>, \<lparr>v3_X = 1, v3_Y = 2, v3_Z = 3\<rparr>, \<lparr>v3_X = 1, v3_Y = 1, v3_Z = 1\<rparr>) @ []) =
     Inl (Rte ''Invalid transform'')"
proof -
  have laws: "demo_as_float (MP_Float x) = Inr x" "transform_laws demo_transforms" "shorthand_laws demo_reader"
    "matrix_ok demo_matrix" for x
    by (simp_all add: demo_as_float_def transform_laws_def demo_transforms_def shorthand_laws_def demo_reader_def
        matrix_ok_def demo_matrix_def)
  have norm: "ut_NormalizeRotation demo_transforms (q, v, s) = (q\<lparr>q_W := 1\<rparr>, v, s)"
    "ut_IsValid demo_transforms (q, v, s) \<longleftrightarrow> q_X q = 0" for q v s
    by (simp_all add: demo_transforms_def)
  show ?thesis
    using unreal_values_roundtrip [where s = "[]" and t = "(\<lparr>q_X = 0, q_Y = 0, q_Z = 0, q_W = 3\<rparr>, \<lparr>v3_X = 1, v3_Y = 2, v3_Z = 3\<rparr>, \<lparr>v3_X = 1, v3_Y = 1, v3_Z = 1\<rparr>)", OF laws]
      unreal_values_roundtrip [where s = "[]" and t = "(\<lparr>q_X = 1, q_Y = 0, q_Z = 0, q_W = 3\<rparr>, \<lparr>v3_X = 1, v3_Y = 2, v3_Z = 3\<rparr>, \<lparr>v3_X = 1, v3_Y = 1, v3_Z = 1\<rparr>)", OF laws]
    by (simp add: norm)
qed

end
