(* ===== verification/Spec2Isabelle.thy ===== *)
theory Spec2Isabelle
  imports Sockets Activity_System Component_Properties Host_Map_Properties Sim_Lock_Properties Program_Properties
    Routing_Properties Master_Properties Slave_Properties Build_Witnesses Writes_Witnesses
    Config_Witnesses Unreal_Navigation Geometry_Generator Program_Witnesses Python_Iteration Driver_Properties
    Process_Entry Unreal_Values
begin

text \<open>
  \<^bold>\<open>Megastructure\<close> runs programs of the language eg on many processes.  One \<^emph>\<open>master\<close> knows the
  \<^emph>\<open>slaves\<close>, one for each coordinator; a slave knows the \<^emph>\<open>components\<close> on its machine, one for each host.
  A component loads a generated plugin and runs its cycles; where the program of one component reads or
  writes data of another, the plugin takes a lock on that component, over the slaves and the master.  The
  \<^emph>\<open>driver\<close> builds the plugins: from a workspace of folders \<open>src/coordinator/host/project\<close> it builds the
  interface of a project and then the implementation of each component, with sources that \<^emph>\<open>generators\<close> write.

  \<^bold>\<open>The nodes at run time.\<close>  Every node runs its work as activities on one queue.
  \<^item> \<open>Activity_Queue\<close>, \<open>Activity_System\<close>: \<open>src/api/megastructure/queue.hpp\<close>, \<open>activity.hpp\<close> and
    \<open>src/src/core/\<close>: the two lists of activities, events, delivery and completion, as steps over a heap of
    activities.  The locale \<open>activity_system\<close> is the contract of the virtual functions of activities; the master,
    the slave and the component interpret it (\<open>Master_Laws\<close>, \<open>Slave_Laws\<close>, \<open>Component_Laws\<close>).
  \<^item> \<open>Sockets\<close>, \<open>Protocol\<close>: \<open>clientServer.*\<close>, \<open>megastructure.proto\<close>, \<open>protocol_helpers.hpp\<close>.
  \<^item> \<open>Client_Map\<close>, \<open>Master_Node\<close>, \<open>Master_Properties\<close>: \<open>src/src/master\<close>: enrolment, tests of clients, loads and
    configurations over all slaves, routing.
  \<^item> \<open>Host_Map\<close>, \<open>Slave_Node\<close>, \<open>Slave_Vtable\<close>, with their properties: \<open>src/src/slave\<close>: the processes of the hosts
    and the names they get, loads, shared buffers, routing.
  \<^item> \<open>Address_Table\<close>, \<open>Routing\<close>: \<open>networkAddressTable.*\<close>: the tables of the nodes agree on the way to a type.
  \<^item> \<open>Sim_Lock\<close>, \<open>Sim_Lock_Protocol\<close>, \<open>Component_Node\<close>, \<open>Component_Refinement\<close>: \<open>src/src/component\<close>: the
    simulation lock of a component.  \<open>Sim_Lock_Protocol\<close> is its abstract specification, a step relation of lock
    requests, unlocks and cycles; \<open>Component_Refinement\<close> shows that every step of the queue thread and of the main
    thread of a component is one of its steps.  The code lets any host with an entry unlock, and so do the steps; a
    run records its unlocks.  That the main thread is not left waiting for nobody holds in every run; exclusion
    needs that each unlock of the run comes from a host that holds the lock (\<open>held_unlock\<close>), and is stated with it.
  \<^item> \<open>Program_Runtime\<close>: \<open>program.*\<close>, \<open>buffer.*\<close>: the plugin under a component, its locks and buffers.

  \<^bold>\<open>The workspace and the builds.\<close>
  \<^item> \<open>Environment_String\<close>, \<open>Project_Environment\<close>, \<open>Project_Tree\<close>, \<open>Project_Paths\<close>, \<open>Project_Files\<close>:
    \<open>src/src/schema\<close>: the environment with its expansion of names, the XML documents, the tree of the
    folders, and every path of a build; no two files of a build share a path.
  \<^item> \<open>Build_Tools\<close>, \<open>Build_Interface\<close>, \<open>Build_Implementation\<close>: \<open>src/src/driver/build_*\<close>: each task, the task graph
    and the two builds.  \<open>Build_Graph\<close> and \<open>Build_Codes\<close> show that the graph has the dependencies that the
    tasks need, whatever order the scheduler takes.

  \<^bold>\<open>The generated component.\<close>
  \<^item> \<open>Program_Session\<close>, \<open>Network_Analysis\<close>: \<open>generator.hpp\<close>, \<open>generator.cpp\<close>: which buffers a component shares,
    which it reads through messages, the bits that record what it has read, and the text of each access.
  \<^item> \<open>Component_Generator\<close>, \<open>Build_Generators\<close>: the source that \<open>generate_eg_component\<close> writes, the headers and
    the clock of \<open>src/src/driver/build_implementation.cpp\<close>, and the texts of the operations on actions in
    \<open>src/src/generators/instructionCodeGenerator.cpp\<close>, line for line.
  \<^item> \<open>Component_Codec\<close>: the \<open>encode\<close> and \<open>decode\<close> of \<open>traits.hpp\<close>; \<open>Codec_Properties\<close> has the contract of a
    codec as a locale, interpreted for each kind of dimension.
  \<^item> \<open>Component_Writes\<close>: what the generated source does at the end of a cycle and with a write request.
    \<open>Component_Program\<close> joins it to the generator: the labels of the generated switches, and the theorem that the
    writes of a cycle reach the component that owns the data.
  \<^item> \<open>Component_Traits\<close>: \<open>src/api/egcomponent/traits.hpp\<close>: the lock functions that the texts call.
    \<open>Network_Properties\<close>, \<open>Traits_Properties\<close> and \<open>Network_Locking\<close> show that the bits of two members are apart and
    what follows for the accesses of a cycle.
  \<^item> \<open>Config_Generator\<close>: \<open>src/src/generators/configio_generator.cpp\<close>: the trees of constants and the source that
    loads and saves a configuration.  \<open>Config_Semantics\<close> is the meaning of that source; \<open>Config_Properties\<close>, with the
    locale \<open>document_reader\<close> of the two loops that load, and \<open>Config_Trees\<close> show what a saved configuration gives back, up to what
    the text of a value reads back as, and that the trees hold every constant when no object occurs twice.
  \<^item> \<open>Python_Generator\<close>, \<open>Unreal_Generator\<close>, \<open>Geometry_Generator\<close>: the texts of the other generators of
    \<open>src/src/generators\<close>.  \<open>Unreal_Navigation\<close> is the meaning of the functions by which Unreal goes over the children
    of an action.
  \<^item> \<open>Build_Program\<close>: the build of a component with all the generators: each file gets the text that the type of the
    project asks for.
  \<^item> \<open>Python_Binding\<close>, \<open>Python_Iteration\<close>: \<open>src/src/python\<close>: references, their calls, and the iterator over a range,
    which ends and sees each visible instance once.
  \<^item> \<open>Unreal_Values\<close>: \<open>src/src/unreal/unreal.hpp\<close> and \<open>src/src/hosts/geometry/config_conversions.hpp\<close>: vectors and
    transforms in messages and configuration files.

  \<^bold>\<open>The programs.\<close>
  \<^item> \<open>Driver_Commands\<close>, \<open>Driver_Properties\<close>: \<open>src/src/driver/main.cpp\<close> and \<open>command_*.cpp\<close>: the commands around the
    builds; a full build of an interface removes a header that it needs.
  \<^item> \<open>Process_Entry\<close>: the main functions of the master, the slave and the hosts: their arguments, and the loops of
    their consoles.

  \<^bold>\<open>How code is written here.\<close>  A class is a record, an enumeration a datatype, an unsigned or signed
  integer of 32 bits a \<open>32 word\<close>; a \<open>std::map\<close> is a list ordered by key, with the code's order of iteration.
  A function that can throw returns \<open>fault + 'a\<close>; \<open>Rte\<close> is a \<open>std::runtime_error\<close> with (the begin of) its
  message, \<open>Ub\<close> a read that the code does not check.  A virtual function is a case over the class of the
  activity.  The two threads of a component and the messages between nodes are the order of the steps.  Loops
  are structural or have a measure; where a loop waits for a message that may never come, the links give a
  finite list of messages and the result \<open>None\<close> says that the loop still waits.  The loops of the consoles may run
  for ever and are partial functions.  No function of the program has fuel; the clients \<open>visit_children\<close> and
  \<open>iterate\<close>, which stand for Unreal and Python code, take a number of rounds that their theorems bound.

  \<^bold>\<open>Parameters.\<close>  ZeroMQ, protobuf, msgpack, boost, the file system and the process environment, the stash and
  the scheduler of the common library, and the parser and the database of the eg compiler are not in the
  repository: they are arguments of the definitions (\<open>zmq\<close>, \<open>platform\<close>, \<open>eg_api\<close>, \<open>read_session\<close>,
  \<open>user_session\<close>, \<open>python_session\<close>, \<open>unreal_session\<close>, \<open>component_api\<close>, \<open>ed_api\<close>, \<open>python_runtime\<close>,
  \<open>driver_tools\<close>, \<open>unreal_transform\<close>).  What the properties use of them is named (\<open>good_zmq\<close>, \<open>stash_laws\<close>,
  \<open>restore_laws\<close>, \<open>session_laws\<close>, \<open>index_laws\<close>, \<open>answers\<close>, \<open>ed_laws\<close>, \<open>transform_laws\<close>, \<dots>), and each such property has a witness at a
  concrete instance.

  \<^bold>\<open>Not modelled.\<close>  \<open>src/src/schema/megaxml\<close> and \<open>megastructure.pb.h\<close> are output of XSD/e and protoc, and only
  called.  Of the parts above, the registration of types and functions with Python and pybind11, the set-up of the
  log, and the mapping of shared memory are calls of libraries without a decision of their own.  The bodies of the
  commands \<open>create\<close>, \<open>run\<close> and \<open>log\<close> are commented out in the sources.  The tests and their host runner under
  \<open>src/tests\<close> are not part of the program.
\<close>

end
